(* ===== verification/NRI_Prelude.thy ===== *)
theory NRI_Prelude
  imports Main "HOL-Library.Word" "HOL-Library.AList" "HOL-Library.Multiset"
begin

text \<open>
  Vocabulary shared by every component of the development: the machine integers of the Go
  code, Go strings, Go maps, and the outcome of a Go function that mutates state and may
  return an error or panic.

  \<^item> A Go \<^verbatim>\<open>string\<close> is a byte sequence: HOL's \<open>string\<close>, a list of 8-bit characters.
  \<^item> An \<open>intN\<close> or \<open>uintN\<close> is a word of that width; Go's conversions between the signed and
    the unsigned type of one width keep the bits, so both are the same HOL type, read with
    \<open>sint\<close> or \<open>unat\<close>.
  \<^item> A pointer is an \<open>option\<close> (\<open>None\<close> is \<open>nil\<close>); a slice is a list (the code treats a nil and
    an empty slice alike wherever it is modelled here).
  \<^item> A map that the code ranges over is an association list with distinct keys whose order is
    the (unspecified) iteration order; a theorem about all lists is one about all orders. A
    map that is only looked up and stored into is a HOL map. A map that may be \<open>nil\<close> at a store is
    an \<open>option\<close>, because that store panics.
  \<^item> A function that mutates a state \<open>'s\<close> is an action \<open>'s \<Rightarrow> 'e status \<times> 's\<close>. The state is
    returned with a failure too: Go keeps every store made before an error return, and some
    callers here ignore the error.
\<close>

named_theorems action_simps \<open>one-step equations of the action combinators\<close>
named_theorems store_simps \<open>what a store component's operations read back\<close>

type_synonym int32 = "32 word"
type_synonym uint32 = "32 word"
type_synonym int64 = "64 word"
type_synonym uint64 = "64 word"

section \<open>Outcomes and actions\<close>

datatype 'e status = Done | Failed 'e | Panicked

type_synonym ('e, 's) action = "'s \<Rightarrow> 'e status \<times> 's"

abbreviation skip :: "('e, 's) action" where
  "skip s \<equiv> (Done, s)"

abbreviation assign :: "('s \<Rightarrow> 's) \<Rightarrow> ('e, 's) action" where
  "assign f s \<equiv> (Done, f s)"

text \<open>
  Statements run in order and the first error or panic ends the function, as the code's
  \<^verbatim>\<open>if err := f(); err != nil { return err }\<close> does.
\<close>

fun run :: "('e, 's) action list \<Rightarrow> ('e, 's) action" where
  "run [] s = (Done, s)"
| "run (a # as) s =
     (case a s of
        (Done, t) \<Rightarrow> run as t
      | (Failed e, t) \<Rightarrow> (Failed e, t)
      | (Panicked, t) \<Rightarrow> (Panicked, t))"

text \<open>A \<^verbatim>\<open>for\<close> loop over a slice or map whose body may return early.\<close>

definition for_each :: "'a list \<Rightarrow> ('a \<Rightarrow> ('e, 's) action) \<Rightarrow> ('e, 's) action" where
  "for_each xs body = run (map body xs)"

text \<open>An action on one part of the state, written back whatever its outcome.\<close>

definition on_part :: "('s \<Rightarrow> 'p) \<Rightarrow> ('p \<Rightarrow> 's \<Rightarrow> 's) \<Rightarrow> ('e, 'p) action \<Rightarrow> ('e, 's) action" where
  "on_part get put a s = (case a (get s) of (st, p) \<Rightarrow> (st, put p s))"

text \<open>An action on what a pointer points to: dereferencing a nil pointer panics.\<close>

definition on_ptr :: "('s \<Rightarrow> 'p option) \<Rightarrow> ('p \<Rightarrow> 's \<Rightarrow> 's) \<Rightarrow> ('e, 'p) action \<Rightarrow> ('e, 's) action" where
  "on_ptr get put a s =
     (case get s of
        None \<Rightarrow> (Panicked, s)
      | Some p \<Rightarrow> (case a p of (st, q) \<Rightarrow> (st, put q s)))"

lemma for_each_Nil [action_simps, simp]: "for_each [] body s = (Done, s)"
  by (simp add: for_each_def)

lemma for_each_Cons [action_simps]: "for_each (x # xs) body s = run [body x, for_each xs body] s"
  by (simp add: for_each_def split: prod.split status.split)

lemma run_append: "run (as @ bs) s = run [run as, run bs] s"
proof (induction as arbitrary: s)
  case Nil
  show ?case by (simp split: prod.split status.split)
next
  case (Cons a as)
  then show ?case by (simp split: prod.split status.split)
qed

lemma run_step: "a s = (Done, t) \<Longrightarrow> run (a # as) s = run as t"
  by simp

lemma run_stop: "fst (a s) \<noteq> Done \<Longrightarrow> run (a # as) s = a s"
  by (auto split: prod.split status.split)

lemma for_each_step: "body x s = (Done, t) \<Longrightarrow> for_each (x # xs) body s = for_each xs body t"
  by (simp add: for_each_def)

lemma for_each_stop: "fst (body x s) \<noteq> Done \<Longrightarrow> for_each (x # xs) body s = body x s"
  by (auto simp: for_each_def split: prod.split status.split)

lemma run_one [simp]: "run [a] = a"
  by (rule ext) (simp split: prod.split status.split)

lemma for_each_append: "for_each (xs @ ys) body s = run [for_each xs body, for_each ys body] s"
  by (simp add: for_each_def run_append)

text \<open>
  What every action of a list keeps, the whole list keeps. \<open>keeps P a\<close>: whatever the outcome,
  \<open>P\<close> survives. \<open>safe P a\<close>: \<open>P\<close> survives and the action does not panic from a \<open>P\<close> state.
\<close>

definition keeps :: "('s \<Rightarrow> bool) \<Rightarrow> ('e, 's) action \<Rightarrow> bool" where
  "keeps P a \<longleftrightarrow> (\<forall>s. P s \<longrightarrow> P (snd (a s)))"

definition safe :: "('s \<Rightarrow> bool) \<Rightarrow> ('e, 's) action \<Rightarrow> bool" where
  "safe P a \<longleftrightarrow> (\<forall>s. P s \<longrightarrow> P (snd (a s)) \<and> fst (a s) \<noteq> Panicked)"

lemma keeps_I: "(\<And>s. P s \<Longrightarrow> P (snd (a s))) \<Longrightarrow> keeps P a"
  by (simp add: keeps_def)

lemma keeps_D: "keeps P a \<Longrightarrow> P s \<Longrightarrow> P (snd (a s))"
  by (simp add: keeps_def)

lemma safe_I: "(\<And>s. P s \<Longrightarrow> P (snd (a s)) \<and> fst (a s) \<noteq> Panicked) \<Longrightarrow> safe P a"
  by (simp add: safe_def)

lemma safe_D: "safe P a \<Longrightarrow> P s \<Longrightarrow> P (snd (a s)) \<and> fst (a s) \<noteq> Panicked"
  by (simp add: safe_def)

lemma safe_skip [intro, simp]: "safe P (\<lambda>s. (Done, s))"
  by (simp add: safe_def)

lemma keeps_run:
  assumes "\<And>a. a \<in> set as \<Longrightarrow> keeps P a"
  shows "keeps P (run as)"
proof (rule keeps_I)
  fix s assume "P s"
  then show "P (snd (run as s))" using assms
  proof (induction as arbitrary: s)
    case Nil
    then show ?case by simp
  next
    case (Cons a as)
    have "P (snd (a s))" by (rule keeps_D [OF Cons.prems(2)]) (use Cons.prems in simp_all)
    with Cons show ?case by (auto split: prod.split status.split)
  qed
qed

lemma safe_run:
  assumes "\<And>a. a \<in> set as \<Longrightarrow> safe P a"
  shows "safe P (run as)"
proof (rule safe_I)
  fix s assume "P s"
  then show "P (snd (run as s)) \<and> fst (run as s) \<noteq> Panicked" using assms
  proof (induction as arbitrary: s)
    case Nil
    then show ?case by simp
  next
    case (Cons a as)
    have "P (snd (a s)) \<and> fst (a s) \<noteq> Panicked"
      by (rule safe_D [OF Cons.prems(2)]) (use Cons.prems in simp_all)
    with Cons show ?case by (auto split: prod.split status.split)
  qed
qed

lemma safe_run_Cons [intro]: "safe P a \<Longrightarrow> safe P (run as) \<Longrightarrow> safe P (run (a # as))"
  unfolding safe_def by (auto split: prod.splits status.splits)

lemma safe_run_Nil [intro, simp]: "safe P (run [])"
  by (simp add: safe_def)

lemma safe_for_each [intro]: "(\<And>x. x \<in> set xs \<Longrightarrow> safe P (body x)) \<Longrightarrow> safe P (for_each xs body)"
  unfolding for_each_def by (rule safe_run) auto

lemma safe_if [intro]: "(b \<Longrightarrow> safe P a) \<Longrightarrow> (\<not> b \<Longrightarrow> safe P c) \<Longrightarrow> safe P (if b then a else c)"
  by simp

lemma safe_on_part:
  assumes "safe Q a" and "\<And>s. P s \<Longrightarrow> Q (get s)" and "\<And>s p. P s \<Longrightarrow> Q p \<Longrightarrow> P (put p s)"
  shows "safe P (on_part get put a)"
proof (rule safe_I)
  fix s assume "P s"
  with assms(2) have "Q (get s)" by simp
  with assms(1) have "Q (snd (a (get s))) \<and> fst (a (get s)) \<noteq> Panicked" by (rule safe_D)
  with assms(3) [OF \<open>P s\<close>]
  show "P (snd (on_part get put a s)) \<and> fst (on_part get put a s) \<noteq> Panicked"
    by (simp add: on_part_def split_def)
qed

lemma safe_on_ptr:
  assumes "safe Q a" and "\<And>s. P s \<Longrightarrow> \<exists>p. get s = Some p \<and> Q p"
    and "\<And>s p. P s \<Longrightarrow> Q p \<Longrightarrow> P (put p s)"
  shows "safe P (on_ptr get put a)"
proof (rule safe_I)
  fix s assume "P s"
  with assms(2) obtain p where p: "get s = Some p" "Q p" by blast
  with assms(1) have "Q (snd (a p)) \<and> fst (a p) \<noteq> Panicked" by (blast dest: safe_D)
  with assms(3) [OF \<open>P s\<close>] p
  show "P (snd (on_ptr get put a s)) \<and> fst (on_ptr get put a s) \<noteq> Panicked"
    by (simp add: on_ptr_def split_def)
qed

lemma run_Done_split:
  "run (a # as) s = (Done, u) \<longleftrightarrow> (\<exists>t. a s = (Done, t) \<and> run as t = (Done, u))"
  by (auto split: prod.splits status.splits)

section \<open>Go maps as association lists\<close>

type_synonym ('k, 'v) gomap = "('k \<times> 'v) list"

text \<open>Distinct keys: what makes an association list a map.\<close>

definition gomap_ok :: "('k, 'v) gomap \<Rightarrow> bool" where
  "gomap_ok m \<longleftrightarrow> distinct (map fst m)"

text \<open>\<^verbatim>\<open>m[k]\<close> and \<^verbatim>\<open>delete(m, k)\<close> are defined on a nil map, \<^verbatim>\<open>m[k] = v\<close> panics on it.\<close>

definition gmap_get :: "('k, 'v) gomap option \<Rightarrow> 'k \<Rightarrow> 'v option" where
  "gmap_get m k = (case m of None \<Rightarrow> None | Some al \<Rightarrow> map_of al k)"

definition gmap_delete :: "'k \<Rightarrow> ('k, 'v) gomap option \<Rightarrow> ('k, 'v) gomap option" where
  "gmap_delete k m = map_option (AList.delete k) m"

definition gmap_put :: "'k \<Rightarrow> 'v \<Rightarrow> ('e, ('k, 'v) gomap option) action" where
  "gmap_put k v m =
     (case m of None \<Rightarrow> (Panicked, None) | Some al \<Rightarrow> (Done, Some (AList.update k v al)))"

definition gmap_entries :: "('k, 'v) gomap option \<Rightarrow> ('k \<times> 'v) list" where
  "gmap_entries m = (case m of None \<Rightarrow> [] | Some al \<Rightarrow> al)"

text \<open>
  The entries of a map that a function builds and then ranges over: \<open>ord\<close> is the order in which
  the runtime serves its keys.
\<close>

definition range_in :: "(string list \<Rightarrow> string list) \<Rightarrow> (string, 'v) gomap \<Rightarrow> (string \<times> 'v) list" where
  "range_in ord m = map (\<lambda>k. (k, the (map_of m k))) (ord (map fst m))"

definition is_order :: "(string list \<Rightarrow> string list) \<Rightarrow> bool" where
  "is_order ord \<longleftrightarrow> (\<forall>ks. mset (ord ks) = mset ks)"

lemma is_order_set [simp]: "is_order ord \<Longrightarrow> set (ord ks) = set ks"
  unfolding is_order_def by (metis set_mset_mset)

lemma is_order_distinct [simp]: "is_order ord \<Longrightarrow> distinct (ord ks) = distinct ks"
  unfolding is_order_def by (metis mset_eq_imp_distinct_iff)

lemma is_order_id [simp]: "is_order (\<lambda>ks. ks)"
  by (simp add: is_order_def)

lemma range_in_id: "gomap_ok m \<Longrightarrow> range_in (\<lambda>ks. ks) m = m"
  by (auto simp: range_in_def gomap_ok_def comp_def intro!: map_idI)

lemma range_in_mset: "is_order ord \<Longrightarrow> gomap_ok m \<Longrightarrow> mset (range_in ord m) = mset m"
  using range_in_id [of m] unfolding range_in_def is_order_def by (metis mset_map)

lemma range_in_set: "is_order ord \<Longrightarrow> gomap_ok m \<Longrightarrow> set (range_in ord m) = set m"
  by (metis range_in_mset set_mset_mset)

lemma gmap_get_delete [simp, store_simps]:
  "gmap_get (gmap_delete k m) k' = (if k' = k then None else gmap_get m k')"
  by (cases m) (simp_all add: gmap_get_def gmap_delete_def delete_conv')

lemma gmap_put_Some [simp]: "gmap_put k v (Some al) = (Done, Some (AList.update k v al))"
  by (simp add: gmap_put_def)

lemma gmap_put_nil [simp]: "gmap_put k v None = (Panicked, None)"
  by (simp add: gmap_put_def)

lemma gmap_get_Some [simp]: "gmap_get (Some al) = map_of al"
  by (rule ext) (simp add: gmap_get_def)

lemma gmap_get_None [simp]: "gmap_get None k = None"
  by (simp add: gmap_get_def)

lemma gomap_ok_update [simp]: "gomap_ok al \<Longrightarrow> gomap_ok (AList.update k v al)"
  by (simp add: gomap_ok_def distinct_update)

lemma gomap_ok_delete [simp]: "gomap_ok al \<Longrightarrow> gomap_ok (AList.delete k al)"
  by (simp add: gomap_ok_def distinct_delete)

lemma map_of_update [simp]: "map_of (AList.update k v al) = (map_of al)(k \<mapsto> v)"
  by (rule update_conv')

lemma map_of_delete [simp]: "map_of (AList.delete k al) = (map_of al)(k := None)"
  by (rule delete_conv')

text \<open>\<^verbatim>\<open>if x == nil { x = v }\<close>\<close>

definition alloc :: "'a \<Rightarrow> 'a option \<Rightarrow> 'a option" where
  "alloc v x = (case x of None \<Rightarrow> Some v | Some y \<Rightarrow> Some y)"

lemma alloc_some [simp]: "alloc v x \<noteq> None" "\<exists>y. alloc v x = Some y"
  by (cases x; simp add: alloc_def)+

section \<open>Strings\<close>

text \<open>
  \<^verbatim>\<open>strings.SplitN(s, sep, 2)\<close> for a one-byte separator: the text before the first separator
  and, if there is one, the text after it.
\<close>

definition splitN2 :: "char \<Rightarrow> string \<Rightarrow> string list" where
  "splitN2 c s =
     (if c \<in> set s then [takeWhile (\<lambda>x. x \<noteq> c) s, tl (dropWhile (\<lambda>x. x \<noteq> c) s)] else [s])"

text \<open>\<^verbatim>\<open>strings.Split(s, sep)\<close> for a one-byte separator.\<close>

fun split_on :: "char \<Rightarrow> string \<Rightarrow> string list" where
  "split_on c [] = [[]]"
| "split_on c (x # xs) =
     (if x = c then [] # split_on c xs
      else (case split_on c xs of [] \<Rightarrow> [[x]] | w # ws \<Rightarrow> (x # w) # ws))"

text \<open>\<^verbatim>\<open>strings.Join\<close>.\<close>

fun join_with :: "string \<Rightarrow> string list \<Rightarrow> string" where
  "join_with sep [] = []"
| "join_with sep [x] = x"
| "join_with sep (x # y # ys) = x @ sep @ join_with sep (y # ys)"

text \<open>\<^verbatim>\<open>strings.Contains\<close>.\<close>

fun contains_str :: "string \<Rightarrow> string \<Rightarrow> bool" where
  "contains_str [] sub = (sub = [])"
| "contains_str (x # xs) sub = (take (length sub) (x # xs) = sub \<or> contains_str xs sub)"

lemma takeWhile_before_sep: "c \<notin> set k \<Longrightarrow> takeWhile (\<lambda>x. x \<noteq> c) (k @ c # v) = k"
  by (induction k) auto

lemma dropWhile_before_sep: "c \<notin> set k \<Longrightarrow> dropWhile (\<lambda>x. x \<noteq> c) (k @ c # v) = c # v"
  by (induction k) auto

lemma splitN2_found [simp]:
  "c \<notin> set k \<Longrightarrow> splitN2 c (k @ c # v) = [k, v]"
  by (simp add: splitN2_def takeWhile_before_sep dropWhile_before_sep)

lemma splitN2_none [simp]: "c \<notin> set k \<Longrightarrow> splitN2 c k = [k]"
  by (simp add: splitN2_def)

lemma splitN2_cases:
  obtains (none) "splitN2 c s = [s]" "c \<notin> set s"
    | (some) k v where "splitN2 c s = [k, v]" "s = k @ c # v" "c \<notin> set k"
proof (cases "c \<in> set s")
  case False
  then show ?thesis using none by (simp add: splitN2_def)
next
  case True
  then obtain k v where kv: "s = k @ c # v" "c \<notin> set k" by (meson split_list_first)
  then show ?thesis using some [of k v] by simp
qed

lemma split_on_nonempty [simp]: "split_on c s \<noteq> []"
  by (cases s) (auto split: list.split)

lemma join_split_on: "join_with [c] (split_on c s) = s"
proof (induction s)
  case Nil
  show ?case by simp
next
  case (Cons x xs)
  obtain w ws where w: "split_on c xs = w # ws" by (cases "split_on c xs") auto
  then show ?case using Cons by (cases ws) auto
qed

lemma split_on_no_sep: "c \<notin> set s \<Longrightarrow> split_on c s = [s]"
  by (induction s) auto

lemma split_on_parts: "w \<in> set (split_on c s) \<Longrightarrow> c \<notin> set w"
proof (induction s arbitrary: w)
  case Nil
  then show ?case by simp
next
  case (Cons x xs)
  obtain u us where "split_on c xs = u # us" by (cases "split_on c xs") auto
  with Cons show ?case by (auto split: if_splits)
qed

end
