(* ===== verification/API_Types.thy ===== *)
theory API_Types
  imports NRI_Prelude
begin

text \<open>
  The messages of the NRI API (\<^verbatim>\<open>src/pkg/api/api.proto\<close>, compiled to the structs of
  \<^verbatim>\<open>src/pkg/api/api.pb.go\<close>) that the modelled code reads or writes, field by field in the
  order of the structs, without protobuf's own bookkeeping (message state, size cache, unknown
  fields). An optional scalar such as \<^verbatim>\<open>*OptionalInt64\<close>, a pointer to a struct with the single
  field \<^verbatim>\<open>Value\<close>, is an \<open>option\<close>: \<open>Some v\<close> is a pointer to a wrapper that holds \<open>v\<close>.

  The container message keeps the fields that some modelled function reads or writes; its process
  id, time stamps, exit code, status strings and user are carried through unread by all of them
  and are left out, as are the pod's fields other than its identity, labels and annotations.
\<close>

section \<open>Enumerations\<close>

datatype io_prio_class =
    IOPRIO_CLASS_NONE | IOPRIO_CLASS_RT | IOPRIO_CLASS_BE | IOPRIO_CLASS_IDLE

datatype sched_policy =
    SCHED_NONE | SCHED_OTHER | SCHED_FIFO | SCHED_RR | SCHED_BATCH | SCHED_ISO | SCHED_IDLE
  | SCHED_DEADLINE

datatype sched_flag =
    SCHED_FLAG_RESET_ON_FORK | SCHED_FLAG_RECLAIM | SCHED_FLAG_DL_OVERRUN
  | SCHED_FLAG_KEEP_POLICY | SCHED_FLAG_KEEP_PARAMS | SCHED_FLAG_UTIL_CLAMP_MIN
  | SCHED_FLAG_UTIL_CLAMP_MAX

datatype profile_type = RUNTIME_DEFAULT | UNCONFINED | LOCALHOST

section \<open>Mounts, devices, hooks and other entries\<close>

record mount =
  mnt_destination :: string
  mnt_type :: string
  mnt_source :: string
  mnt_options :: "string list"

record hook =
  hook_path :: string
  hook_args :: "string list"
  hook_env :: "string list"
  hook_timeout :: "int64 option"

record hooks =
  hk_prestart :: "hook list"
  hk_create_runtime :: "hook list"
  hk_create_container :: "hook list"
  hk_start_container :: "hook list"
  hk_poststart :: "hook list"
  hk_poststop :: "hook list"

record linux_namespace =
  ns_type :: string
  ns_path :: string

record linux_device =
  dev_path :: string
  dev_type :: string
  dev_major :: int64
  dev_minor :: int64
  dev_file_mode :: "uint32 option"
  dev_uid :: "uint32 option"
  dev_gid :: "uint32 option"

record linux_device_cgroup =
  dcg_allow :: bool
  dcg_type :: string
  dcg_major :: "int64 option"
  dcg_minor :: "int64 option"
  dcg_access :: string

record cdi_device =
  cdi_name :: string

record linux_net_device =
  nd_name :: string

record posix_rlimit =
  rl_type :: string
  rl_hard :: uint64
  rl_soft :: uint64

record key_value =
  kv_key :: string
  kv_value :: string

section \<open>Resources\<close>

record linux_memory =
  mem_limit :: "int64 option"
  mem_reservation :: "int64 option"
  mem_swap :: "int64 option"
  mem_kernel :: "int64 option"
  mem_kernel_tcp :: "int64 option"
  mem_swappiness :: "uint64 option"
  mem_disable_oom_killer :: "bool option"
  mem_use_hierarchy :: "bool option"

record linux_cpu =
  cpu_shares :: "uint64 option"
  cpu_quota :: "int64 option"
  cpu_period :: "uint64 option"
  cpu_realtime_runtime :: "int64 option"
  cpu_realtime_period :: "uint64 option"
  cpu_cpus :: string
  cpu_mems :: string

record hugepage_limit =
  hp_page_size :: string
  hp_limit :: uint64

record linux_pids =
  pids_limit :: int64

record linux_resources =
  res_memory :: "linux_memory option"
  res_cpu :: "linux_cpu option"
  res_hugepage_limits :: "hugepage_limit list"
  res_blockio_class :: "string option"
  res_rdt_class :: "string option"
  res_unified :: "(string, string) gomap option"
  res_devices :: "linux_device_cgroup list"
  res_pids :: "linux_pids option"

record linux_rdt =
  rdt_clos_id :: "string option"
  rdt_schemata :: "string list option"
  rdt_enable_monitoring :: "bool option"
  rdt_remove :: bool

record linux_io_priority =
  iop_class :: io_prio_class
  iop_priority :: int32

record linux_scheduler =
  sch_policy :: sched_policy
  sch_nice :: int32
  sch_priority :: int32
  sch_flags :: "sched_flag list"
  sch_runtime :: uint64
  sch_deadline :: uint64
  sch_period :: uint64

record security_profile =
  sp_profile_type :: profile_type
  sp_localhost_ref :: string

record seccomp_arg =
  sca_index :: uint32
  sca_value :: uint64
  sca_value_two :: uint64
  sca_op :: string

record linux_syscall =
  sys_names :: "string list"
  sys_action :: string
  sys_errno_ret :: "uint32 option"
  sys_args :: "seccomp_arg list"

record linux_seccomp =
  sec_default_action :: string
  sec_default_errno :: "uint32 option"
  sec_architectures :: "string list"
  sec_flags :: "string list"
  sec_listener_path :: string
  sec_listener_metadata :: string
  sec_syscalls :: "linux_syscall list"

section \<open>Pods and containers\<close>

record pod_sandbox =
  pod_id :: string
  pod_name :: string
  pod_uid :: string
  pod_namespace :: string
  pod_labels :: "(string, string) gomap option"
  pod_annotations :: "(string, string) gomap option"

record linux_container =
  lc_namespaces :: "linux_namespace list"
  lc_devices :: "linux_device list"
  lc_resources :: "linux_resources option"
  lc_oom_score_adj :: "int64 option"
  lc_cgroups_path :: string
  lc_io_priority :: "linux_io_priority option"
  lc_seccomp_profile :: "security_profile option"
  lc_seccomp_policy :: "linux_seccomp option"
  lc_sysctl :: "(string, string) gomap option"
  lc_net_devices :: "(string, linux_net_device option) gomap option"
  lc_scheduler :: "linux_scheduler option"
  lc_rdt :: "linux_rdt option"

record container =
  ctr_id :: string
  ctr_pod_sandbox_id :: string
  ctr_name :: string
  ctr_labels :: "(string, string) gomap option"
  ctr_annotations :: "(string, string) gomap option"
  ctr_args :: "string list"
  ctr_env :: "string list"
  ctr_mounts :: "mount list"
  ctr_hooks :: "hooks option"
  ctr_linux :: "linux_container option"
  ctr_rlimits :: "posix_rlimit list"

section \<open>Adjustments and updates\<close>

text \<open>
  An entry of \<^verbatim>\<open>Namespaces\<close> may be \<open>nil\<close> (the code skips those), and the value of a network
  device is \<open>nil\<close> where a key is marked for removal.
\<close>

record linux_adjustment =
  la_devices :: "linux_device list"
  la_resources :: "linux_resources option"
  la_cgroups_path :: string
  la_oom_score_adj :: "int64 option"
  la_io_priority :: "linux_io_priority option"
  la_seccomp_policy :: "linux_seccomp option"
  la_namespaces :: "linux_namespace option list"
  la_sysctl :: "(string, string) gomap option"
  la_net_devices :: "(string, linux_net_device option) gomap option"
  la_scheduler :: "linux_scheduler option"
  la_rdt :: "linux_rdt option"

text \<open>
  Mounts, variables, limits and CDI devices are lists of values: a message that was decoded from the wire holds no nil
  entries. What a builtin plugin returns could hold one, on which the runtime panics; such replies are outside the model.
\<close>

record container_adjustment =
  adj_annotations :: "(string, string) gomap option"
  adj_mounts :: "mount list"
  adj_env :: "key_value list"
  adj_hooks :: "hooks option"
  adj_linux :: "linux_adjustment option"
  adj_rlimits :: "posix_rlimit list"
  adj_cdi_devices :: "cdi_device list"
  adj_args :: "string list"

record linux_container_update =
  lu_resources :: "linux_resources option"

record container_update =
  cu_container_id :: string
  cu_linux :: "linux_container_update option"
  cu_ignore_failure :: bool

section \<open>Requests and responses\<close>

text \<open>
  The updates in a response are pointers: the response to an update request can hold a nil one.
\<close>

record container_eviction =
  ce_container_id :: string
  ce_reason :: string

record create_request =
  cr_pod :: "pod_sandbox option"
  cr_container :: "container option"

record update_request =
  ur_pod :: "pod_sandbox option"
  ur_container :: "container option"
  ur_linux_resources :: "linux_resources option"

record create_response =
  crs_adjust :: "container_adjustment option"
  crs_update :: "container_update option list"
  crs_evict :: "container_eviction list"

record update_response =
  urs_update :: "container_update option list"
  urs_evict :: "container_eviction list"

record stop_response =
  srs_update :: "container_update option list"

section \<open>Zero values\<close>

text \<open>
  The zero value of each struct, Go's \<^verbatim>\<open>T{}\<close>: empty strings and slices, nil pointers and maps.
\<close>

definition zero_mount :: mount where
  "zero_mount = \<lparr>mnt_destination = [], mnt_type = [], mnt_source = [], mnt_options = []\<rparr>"

definition zero_hooks :: hooks where
  "zero_hooks = \<lparr>hk_prestart = [], hk_create_runtime = [], hk_create_container = [],
     hk_start_container = [], hk_poststart = [], hk_poststop = []\<rparr>"

definition zero_device :: linux_device where
  "zero_device = \<lparr>dev_path = [], dev_type = [], dev_major = 0, dev_minor = 0,
     dev_file_mode = None, dev_uid = None, dev_gid = None\<rparr>"

definition zero_memory :: linux_memory where
  "zero_memory = \<lparr>mem_limit = None, mem_reservation = None, mem_swap = None, mem_kernel = None,
     mem_kernel_tcp = None, mem_swappiness = None, mem_disable_oom_killer = None,
     mem_use_hierarchy = None\<rparr>"

definition zero_cpu :: linux_cpu where
  "zero_cpu = \<lparr>cpu_shares = None, cpu_quota = None, cpu_period = None,
     cpu_realtime_runtime = None, cpu_realtime_period = None, cpu_cpus = [], cpu_mems = []\<rparr>"

definition zero_resources :: linux_resources where
  "zero_resources = \<lparr>res_memory = None, res_cpu = None, res_hugepage_limits = [],
     res_blockio_class = None, res_rdt_class = None, res_unified = None, res_devices = [],
     res_pids = None\<rparr>"

definition zero_rdt :: linux_rdt where
  "zero_rdt = \<lparr>rdt_clos_id = None, rdt_schemata = None, rdt_enable_monitoring = None,
     rdt_remove = False\<rparr>"

definition zero_linux_container :: linux_container where
  "zero_linux_container = \<lparr>lc_namespaces = [], lc_devices = [], lc_resources = None,
     lc_oom_score_adj = None, lc_cgroups_path = [], lc_io_priority = None,
     lc_seccomp_profile = None, lc_seccomp_policy = None, lc_sysctl = None,
     lc_net_devices = None, lc_scheduler = None, lc_rdt = None\<rparr>"

definition zero_linux_adjustment :: linux_adjustment where
  "zero_linux_adjustment = \<lparr>la_devices = [], la_resources = None, la_cgroups_path = [],
     la_oom_score_adj = None, la_io_priority = None, la_seccomp_policy = None,
     la_namespaces = [], la_sysctl = None, la_net_devices = None, la_scheduler = None,
     la_rdt = None\<rparr>"

definition zero_adjustment :: container_adjustment where
  "zero_adjustment = \<lparr>adj_annotations = None, adj_mounts = [], adj_env = [], adj_hooks = None,
     adj_linux = None, adj_rlimits = [], adj_cdi_devices = [], adj_args = []\<rparr>"

definition zero_container :: container where
  "zero_container = \<lparr>ctr_id = [], ctr_pod_sandbox_id = [], ctr_name = [], ctr_labels = None,
     ctr_annotations = None, ctr_args = [], ctr_env = [], ctr_mounts = [], ctr_hooks = None,
     ctr_linux = None, ctr_rlimits = []\<rparr>"

lemmas zero_defs = zero_mount_def zero_hooks_def zero_device_def zero_memory_def zero_cpu_def
  zero_resources_def zero_rdt_def zero_linux_container_def zero_linux_adjustment_def
  zero_adjustment_def zero_container_def

end
