(* ===== verification/API_Helpers.thy ===== *)
theory API_Helpers
  imports API_Types
begin

text \<open>
  The small helpers of \<^verbatim>\<open>src/pkg/api\<close>: removal markers and copies (\<^verbatim>\<open>helpers.go\<close>), environment
  variables (\<^verbatim>\<open>env.go\<close>), plugin names and indices (\<^verbatim>\<open>plugin.go\<close>), and the lookup of a pod's
  effective annotation (\<^verbatim>\<open>src/pkg/plugin/annotations.go\<close>). The locale \<open>removal_marker\<close> states
  what the rest of the code relies on in the markers.
\<close>

section \<open>Copies\<close>

definition DupStringSlice :: "string list option \<Rightarrow> string list option" where
  "DupStringSlice inp =
     (case inp of None \<Rightarrow> None | Some xs \<Rightarrow> Some (map (\<lambda>i. xs ! i) [0..<length xs]))"

definition DupStringMap :: "(string, string) gomap option \<Rightarrow> (string, string) gomap option" where
  "DupStringMap inp =
     (case inp of None \<Rightarrow> None
      | Some m \<Rightarrow> Some (fold (\<lambda>(k, v) out. AList.update k v out) m []))"

lemma DupStringSlice_id [simp]: "DupStringSlice xs = xs"
  by (cases xs) (simp_all add: DupStringSlice_def map_nth)

lemma fold_update_get:
  "map_of (fold (\<lambda>(k, v) out. AList.update k v out) m out) k =
     (case map_of (rev m) k of None \<Rightarrow> map_of out k | Some v \<Rightarrow> Some v)"
  by (induction m arbitrary: out) (auto simp: map_add_def split: option.split)

lemma map_of_rev_distinct: "distinct (map fst m) \<Longrightarrow> map_of (rev m) = map_of m"
  by (rule map_of_eqI) (auto simp flip: rev_map intro!: map_of_is_SomeI)

lemma DupStringMap_get:
  "(\<And>al. m = Some al \<Longrightarrow> gomap_ok al) \<Longrightarrow> gmap_get (DupStringMap m) = gmap_get m"
  by (cases m) (auto simp: DupStringMap_def fold_update_get gomap_ok_def map_of_rev_distinct
      split: option.split)

section \<open>Removal markers\<close>

definition IsMarkedForRemoval :: "string \<Rightarrow> string \<times> bool" where
  "IsMarkedForRemoval key =
     (case key of
        [] \<Rightarrow> ([], False)
      | c # rest \<Rightarrow> if c \<noteq> CHR ''-'' then (key, False) else (rest, True))"

definition MarkForRemoval :: "string \<Rightarrow> string" where
  "MarkForRemoval key = ''-'' @ key"

definition ClearRemovalMarker :: "string \<Rightarrow> string" where
  "ClearRemovalMarker key =
     (case key of [] \<Rightarrow> [] | c # rest \<Rightarrow> if c = CHR ''-'' then rest else key)"

text \<open>A name that carries no marker: every plugin name \<open>idx-base\<close> is one.\<close>

definition unmarked :: "string \<Rightarrow> bool" where
  "unmarked key \<longleftrightarrow> \<not> snd (IsMarkedForRemoval key)"

locale removal_marker =
  fixes mark :: "'k \<Rightarrow> 'k" and check :: "'k \<Rightarrow> 'k \<times> bool"
  assumes check_mark: "check (mark k) = (k, True)"
    and check_marked: "check k = (k', True) \<Longrightarrow> k = mark k'"
    and check_plain: "check k = (k', False) \<Longrightarrow> k' = k"
begin

lemma mark_inj: "mark k = mark k' \<longleftrightarrow> k = k'"
  by (metis check_mark prod.inject)

lemma marked_iff: "snd (check k) \<longleftrightarrow> k = mark (fst (check k))"
  by (metis check_mark check_marked prod.collapse snd_conv)

lemma plain_not_mark: "\<not> snd (check k) \<Longrightarrow> k \<noteq> mark k'"
  by (auto simp: check_mark)

lemma check_cases:
  obtains (marked) k' where "check k = (k', True)" "k = mark k'"
    | (plain) "check k = (k, False)"
  by (metis check_marked check_plain prod.collapse)

end

interpretation rm: removal_marker MarkForRemoval IsMarkedForRemoval
  by unfold_locales
    (auto simp: MarkForRemoval_def IsMarkedForRemoval_def split: list.splits if_splits)

lemma ClearRemovalMarker_eq: "ClearRemovalMarker k = fst (IsMarkedForRemoval k)"
  by (auto simp: ClearRemovalMarker_def IsMarkedForRemoval_def split: list.split)

lemma unmarked_iff: "unmarked k \<longleftrightarrow> (\<forall>k'. k \<noteq> MarkForRemoval k')"
  unfolding unmarked_def using rm.marked_iff rm.plain_not_mark by metis

section \<open>Environment variables\<close>

definition KeyValue_ToOCI :: "key_value \<Rightarrow> string" where
  "KeyValue_ToOCI e = kv_key e @ ''='' @ kv_value e"

definition FromOCIEnv :: "string list \<Rightarrow> key_value list" where
  "FromOCIEnv inp =
     concat (map (\<lambda>keyval.
       case splitN2 CHR ''='' keyval of
         [] \<Rightarrow> []
       | [k] \<Rightarrow> [\<lparr>kv_key = k, kv_value = []\<rparr>]
       | [k, v] \<Rightarrow> [\<lparr>kv_key = k, kv_value = v\<rparr>]
       | _ # rest \<Rightarrow> [\<lparr>kv_key = [], kv_value = join_with ''='' rest\<rparr>]) inp)"

definition KeyValue_IsMarkedForRemoval :: "key_value \<Rightarrow> string \<times> bool" where
  "KeyValue_IsMarkedForRemoval e = IsMarkedForRemoval (kv_key e)"

definition Mount_IsMarkedForRemoval :: "mount \<Rightarrow> string \<times> bool" where
  "Mount_IsMarkedForRemoval m = IsMarkedForRemoval (mnt_destination m)"

definition LinuxDevice_IsMarkedForRemoval :: "linux_device \<Rightarrow> string \<times> bool" where
  "LinuxDevice_IsMarkedForRemoval d = IsMarkedForRemoval (dev_path d)"

definition LinuxNamespace_IsMarkedForRemoval :: "linux_namespace \<Rightarrow> string \<times> bool" where
  "LinuxNamespace_IsMarkedForRemoval n = IsMarkedForRemoval (ns_type n)"

text \<open>
  Environment conversion round trip, both ways: converting variables whose names hold no
  equals sign to OCI strings and back gives them back, and converting OCI strings that each hold
  an equals sign to variables and back gives the strings back, with every later equals sign kept
  in the value.
\<close>

theorem env_roundtrip:
  "((\<forall>e \<in> set es. CHR ''='' \<notin> set (kv_key e)) \<longrightarrow> FromOCIEnv (map KeyValue_ToOCI es) = es) \<and>
   ((\<forall>s \<in> set ss. CHR ''='' \<in> set s) \<longrightarrow> map KeyValue_ToOCI (FromOCIEnv ss) = ss)"
proof (intro conjI impI)
  assume "\<forall>e \<in> set es. CHR ''='' \<notin> set (kv_key e)"
  then show "FromOCIEnv (map KeyValue_ToOCI es) = es"
    by (induction es) (auto simp: FromOCIEnv_def KeyValue_ToOCI_def)
next
  assume "\<forall>s \<in> set ss. CHR ''='' \<in> set s"
  then show "map KeyValue_ToOCI (FromOCIEnv ss) = ss"
  proof (induction ss)
    case Nil
    show ?case by (simp add: FromOCIEnv_def)
  next
    case (Cons s ss)
    then obtain k v where "s = k @ CHR ''='' # v" "CHR ''='' \<notin> set k"
      by (metis list.set_intros(1) split_list_first)
    with Cons show ?case by (simp add: FromOCIEnv_def KeyValue_ToOCI_def)
  qed
qed

theorem env_roundtrip_witness:
  "FromOCIEnv (map KeyValue_ToOCI [\<lparr>kv_key = ''A'', kv_value = ''b=c''\<rparr>]) =
     [\<lparr>kv_key = ''A'', kv_value = ''b=c''\<rparr>] \<and>
   map KeyValue_ToOCI (FromOCIEnv [''A=b=c'']) = [''A=b=c'']"
  using env_roundtrip [of "[\<lparr>kv_key = ''A'', kv_value = ''b=c''\<rparr>]" "[''A=b=c'']"] by simp

section \<open>Plugin names\<close>

datatype name_error = NoIndexSeparator | IndexNotTwoBytes | IndexNotDigits

definition is_digit :: "char \<Rightarrow> bool" where
  "is_digit c \<longleftrightarrow> (48::nat) \<le> of_char c \<and> of_char c \<le> (57::nat)"

definition CheckPluginIndex :: "string \<Rightarrow> name_error option" where
  "CheckPluginIndex idx =
     (if length idx \<noteq> 2 then Some IndexNotTwoBytes
      else if \<not> is_digit (idx ! 0) \<or> \<not> is_digit (idx ! 1) then Some IndexNotDigits
      else None)"

definition ParsePluginName :: "string \<Rightarrow> name_error + string \<times> string" where
  "ParsePluginName name =
     (let split = splitN2 CHR ''-'' name in
      if length split < 2 then Inl NoIndexSeparator
      else (case CheckPluginIndex (split ! 0) of
              Some err \<Rightarrow> Inl err
            | None \<Rightarrow> Inr (split ! 0, split ! 1)))"

text \<open>How the runtime and the stub print a plugin's full name (\<^verbatim>\<open>plugin.name\<close>, \<^verbatim>\<open>stub.Name\<close>).\<close>

definition plugin_name :: "string \<Rightarrow> string \<Rightarrow> string" where
  "plugin_name idx base = idx @ ''-'' @ base"

lemma CheckPluginIndex_None_iff:
  "CheckPluginIndex idx = None \<longleftrightarrow> length idx = 2 \<and> (\<forall>c \<in> set idx. is_digit c)"
proof (cases "length idx = 2")
  case False
  then show ?thesis by (simp add: CheckPluginIndex_def)
next
  case True
  then obtain a b where "idx = [a, b]" by (auto simp: length_Suc_conv numeral_2_eq_2)
  then show ?thesis by (simp add: CheckPluginIndex_def)
qed

lemma digits_no_dash: "CheckPluginIndex idx = None \<Longrightarrow> CHR ''-'' \<notin> set idx"
  by (auto simp: CheckPluginIndex_None_iff is_digit_def)

lemma plugin_name_unmarked: "CheckPluginIndex idx = None \<Longrightarrow> unmarked (plugin_name idx base)"
  using digits_no_dash [of idx]
  by (cases idx)
    (auto simp: unmarked_def plugin_name_def IsMarkedForRemoval_def CheckPluginIndex_def)

lemma parsed_name:
  "ParsePluginName name = Inr (idx, base) \<Longrightarrow> CheckPluginIndex idx = None \<and> name = plugin_name idx base"
  by (cases rule: splitN2_cases [of "CHR ''-''" name])
    (auto simp: ParsePluginName_def plugin_name_def Let_def split: option.splits)

text \<open>
  Plugin names round trip: a name parses to an index and a base exactly when the index is two
  decimal digits and the name is the one the runtime prints for that index and base; the base may
  itself hold dashes.
\<close>

theorem ParsePluginName_iff:
  "ParsePluginName name = Inr (idx, base) \<longleftrightarrow>
     CheckPluginIndex idx = None \<and> name = plugin_name idx base"
proof
  assume "ParsePluginName name = Inr (idx, base)"
  then show "CheckPluginIndex idx = None \<and> name = plugin_name idx base" by (rule parsed_name)
next
  assume r: "CheckPluginIndex idx = None \<and> name = plugin_name idx base"
  then have "splitN2 CHR ''-'' name = [idx, base]"
    using digits_no_dash by (simp add: plugin_name_def)
  with r show "ParsePluginName name = Inr (idx, base)" by (simp add: ParsePluginName_def)
qed

section \<open>Effective annotations\<close>

definition GetEffectiveAnnotation ::
    "pod_sandbox option \<Rightarrow> string \<Rightarrow> string \<Rightarrow> string option" where
  "GetEffectiveAnnotation pod key container =
     (let annotations = (case pod of None \<Rightarrow> None | Some p \<Rightarrow> pod_annotations p) in
      if gmap_entries annotations = [] then None
      else (let keys = [key @ ''/container.'' @ container, key @ ''/pod'', key] in
            case find (\<lambda>k. gmap_get annotations k \<noteq> None) keys of
              None \<Rightarrow> None
            | Some k \<Rightarrow> gmap_get annotations k))"

text \<open>
  Annotation scopes: the container-scoped annotation wins over the pod-scoped one, which wins
  over the bare key, and the lookup finds nothing exactly when all three are absent (or there is
  no pod).
\<close>

theorem GetEffectiveAnnotation_precedence:
  "GetEffectiveAnnotation pod key container =
     (case pod of None \<Rightarrow> None
      | Some p \<Rightarrow>
          (case gmap_get (pod_annotations p) (key @ ''/container.'' @ container) of
             Some v \<Rightarrow> Some v
           | None \<Rightarrow>
               (case gmap_get (pod_annotations p) (key @ ''/pod'') of
                  Some v \<Rightarrow> Some v
                | None \<Rightarrow> gmap_get (pod_annotations p) key)))"
  by (cases pod)
    (auto simp: GetEffectiveAnnotation_def Let_def gmap_entries_def gmap_get_def
      split: option.splits)

end
