(* ===== verification/Ownership.thy ===== *)
theory Ownership
  imports API_Helpers
begin

text \<open>
  The interface between ownership tracking and the code that adjusts containers: what a claim, a
  refused claim and a clear do to the view \<open>who holds which slot\<close>, and what follows from that alone.
  \<^verbatim>\<open>Owners\<close> interprets it on the store of \<^verbatim>\<open>src/pkg/api/owners.go\<close>.
\<close>

section \<open>The laws a client relies on\<close>

text \<open>
  A plugin may claim what nobody holds and what it has itself cleared. The locale states claim,
  conflict and clear on the view; \<open>clash\<close> is the error of a refused claim.
\<close>

definition may_claim :: "string \<Rightarrow> string option \<Rightarrow> bool" where
  "may_claim plugin cur \<longleftrightarrow> cur = None \<or> cur = Some (MarkForRemoval plugin)"

text \<open>A sequence of claims, each of a slot by some plugin.\<close>

definition claim_seq ::
    "('k \<Rightarrow> string \<Rightarrow> ('e, 's) action) \<Rightarrow> ('k \<times> string) list \<Rightarrow> ('e, 's) action" where
  "claim_seq claim reqs = for_each reqs (\<lambda>(k, p). claim k p)"

locale ownership =
  fixes view :: "'s \<Rightarrow> 'k \<Rightarrow> string option"
    and claim :: "'k \<Rightarrow> string \<Rightarrow> ('e, 's) action"
    and clear :: "'k \<Rightarrow> string \<Rightarrow> 's \<Rightarrow> 's"
    and clash :: "'k \<Rightarrow> string \<Rightarrow> string \<Rightarrow> 'e"
  assumes claim_free: "may_claim p (view s k) \<Longrightarrow>
      fst (claim k p s) = Done \<and> view (snd (claim k p s)) = (view s)(k \<mapsto> p)"
    and claim_taken: "view s k = Some w \<Longrightarrow> w \<noteq> MarkForRemoval p \<Longrightarrow>
      fst (claim k p s) = Failed (clash k p (fst (IsMarkedForRemoval w))) \<and>
      view (snd (claim k p s)) = view s"
    and clear_view: "view (clear k p s) = (view s)(k \<mapsto> MarkForRemoval p)"
begin

lemma claim_Done_iff: "fst (claim k p s) = Done \<longleftrightarrow> may_claim p (view s k)"
proof (cases "may_claim p (view s k)")
  case True
  then show ?thesis by (simp add: claim_free)
next
  case False
  then obtain w where "view s k = Some w" "w \<noteq> MarkForRemoval p" by (auto simp: may_claim_def)
  with False show ?thesis by (simp add: claim_taken)
qed

lemma claim_no_panic: "fst (claim k p s) \<noteq> Panicked"
  by (cases "may_claim p (view s k)") (auto simp: claim_free claim_taken may_claim_def)

lemma claim_view:
  "view (snd (claim k p s)) = (if may_claim p (view s k) then (view s)(k \<mapsto> p) else view s)"
  by (auto simp: claim_free claim_taken may_claim_def)

lemma claim_step:
  "claim k p s = (Done, t) \<longleftrightarrow> may_claim p (view s k) \<and> t = snd (claim k p s)"
  using claim_Done_iff [of k p s] by (cases "claim k p s") auto

lemma may_claim_own: "unmarked p \<Longrightarrow> \<not> may_claim q (Some p)"
  by (auto simp: may_claim_def unmarked_iff)

text \<open>What one plugin has set, no plugin can set again, not even itself.\<close>

lemma exclusive:
  assumes "fst (claim k p s) = Done" and "unmarked p"
  shows "fst (claim k q (snd (claim k p s))) = Failed (clash k q p)"
proof -
  have "view (snd (claim k p s)) k = Some p"
    using assms(1) by (simp add: claim_Done_iff claim_view)
  moreover have "p \<noteq> MarkForRemoval q" using assms(2) by (simp add: unmarked_iff)
  moreover have "fst (IsMarkedForRemoval p) = p"
    using assms(2) by (metis rm.check_plain unmarked_def prod.collapse)
  ultimately show ?thesis using claim_taken by metis
qed

text \<open>A clear hands the slot to the clearing plugin and to no other.\<close>

lemma claim_after_clear:
  "fst (claim k q (clear k p s)) = (if q = p then Done else Failed (clash k q p))"
proof (cases "q = p")
  case True
  then show ?thesis by (simp add: claim_Done_iff clear_view may_claim_def)
next
  case False
  then have "MarkForRemoval p \<noteq> MarkForRemoval q" by (simp add: rm.mark_inj)
  then show ?thesis
    using claim_taken [of "clear k p s" k "MarkForRemoval p" q] False
    by (simp add: clear_view rm.check_mark)
qed

text \<open>
  A sequence of claims goes through exactly when no slot occurs twice and
  each is free to its claimer at the start.
\<close>

lemma claim_seq_Cons_Done:
  "fst (claim_seq claim ((k, p) # reqs) s) = Done \<longleftrightarrow>
     may_claim p (view s k) \<and> fst (claim_seq claim reqs (snd (claim k p s))) = Done"
  using claim_Done_iff [of k p s]
  by (auto simp: claim_seq_def for_each_Cons split: prod.splits status.splits)

lemma claim_seq_Done_iff:
  assumes "\<forall>(k, p) \<in> set reqs. unmarked p"
  shows "fst (claim_seq claim reqs s) = Done \<longleftrightarrow>
     distinct (map fst reqs) \<and> (\<forall>(k, p) \<in> set reqs. may_claim p (view s k))"
  using assms
proof (induction reqs arbitrary: s)
  case Nil
  then show ?case by (simp add: claim_seq_def)
next
  case (Cons r reqs)
  obtain k p where r: "r = (k, p)" by (cases r)
  let ?t = "snd (claim k p s)"
  have blocked: "\<not> may_claim q (((view s)(k \<mapsto> p)) k)" for q
    using Cons.prems r by (simp add: may_claim_own)
  have ih: "fst (claim_seq claim reqs ?t) = Done \<longleftrightarrow>
      distinct (map fst reqs) \<and> (\<forall>(k, p) \<in> set reqs. may_claim p (view ?t k))"
    using Cons by simp
  show ?case
  proof (cases "may_claim p (view s k)")
    case False
    then show ?thesis by (simp add: r claim_seq_Cons_Done)
  next
    case True
    then have v: "view ?t = (view s)(k \<mapsto> p)" by (simp add: claim_view)
    have one: "may_claim q (view ?t k') \<longleftrightarrow> k' \<noteq> k \<and> may_claim q (view s k')" for k' q
      using blocked [of q] by (cases "k' = k") (simp_all add: v)
    have "(\<forall>(k', q) \<in> set reqs. may_claim q (view ?t k')) \<longleftrightarrow>
        k \<notin> fst ` set reqs \<and> (\<forall>(k', q) \<in> set reqs. may_claim q (view s k'))"
      by (force simp: one split_def)
    then show ?thesis using True by (auto simp: r claim_seq_Cons_Done ih)
  qed
qed

lemma claim_seq_view:
  "fst (claim_seq claim reqs s) = Done \<Longrightarrow>
     view (snd (claim_seq claim reqs s)) = view s ++ map_of (rev reqs)"
proof (induction reqs arbitrary: s)
  case Nil
  then show ?case by (simp add: claim_seq_def)
next
  case (Cons r reqs)
  obtain k p where r: "r = (k, p)" by (cases r)
  let ?t = "snd (claim k p s)"
  from Cons.prems have ok: "may_claim p (view s k)" "fst (claim_seq claim reqs ?t) = Done"
    by (simp_all add: r claim_seq_Cons_Done)
  then have "claim_seq claim (r # reqs) s = claim_seq claim reqs ?t"
    using claim_Done_iff [of k p s]
    by (auto simp: r claim_seq_def for_each_Cons split: prod.splits status.splits)
  then show ?case
    using Cons.IH [OF ok(2)] ok(1)
    by (auto simp: r claim_view map_add_def fun_eq_iff split: option.split)
qed

lemma claims_keep_domain: "dom (view s) \<subseteq> dom (view (snd (claim k p s)))"
  by (auto simp: claim_view)

end

end
