(* ===== verification/Owners.thy ===== *)
theory Owners
  imports Ownership
begin

text \<open>
  Ownership tracking (\<^verbatim>\<open>src/pkg/api/owners.go\<close>): which plugin last set which field of which
  container, and the conflict raised when a second plugin tries to. The store is the one of the
  code: per container id a \<open>field_owners\<close> with a map from simple fields to plugins and a map from
  compound fields to maps from entries to plugins. The methods that the code has per field are the
  constructors of \<open>claim\<close>, \<open>clear\<close>, \<open>owner_query\<close> and \<open>field_owner_query\<close>, one equation each.

  The abstract view is one flat map from slots to owners. The store interprets
  the locale \<open>ownership\<close> (of \<^verbatim>\<open>Ownership\<close>), what its clients rely on, as \<open>ow\<close>.

  A conflict error carries what the code's message is formatted from: the field key, the plugin
  that asks, the plugin that holds the field, and the entry.
\<close>

section \<open>Fields and the store\<close>

datatype nri_error =
    Conflict int32 string string "string list"
  | UpdatedDuringCreation string string
  | InvalidResponseType

datatype field =
    Field_None | Field_Annotations | Field_Mounts | Field_OciHooks | Field_Devices |
    Field_CdiDevices | Field_Env | Field_Args | Field_MemLimit | Field_MemReservation |
    Field_MemSwapLimit | Field_MemKernelLimit | Field_MemTCPLimit | Field_MemSwappiness |
    Field_MemDisableOomKiller | Field_MemUseHierarchy | Field_CPUShares | Field_CPUQuota |
    Field_CPUPeriod | Field_CPURealtimeRuntime | Field_CPURealtimePeriod |
    Field_CPUSetCPUs | Field_CPUSetMems | Field_PidsLimit | Field_HugepageLimits |
    Field_BlockioClass | Field_RdtClass | Field_CgroupsUnified | Field_CgroupsPath |
    Field_OomScoreAdj | Field_Rlimits | Field_IoPriority | Field_SeccompPolicy |
    Field_Namespace | Field_Sysctl | Field_LinuxNetDevices | Field_LinuxSched |
    Field_RdtClosID | Field_RdtSchemata | Field_RdtEnableMonitoring

primrec Field_Key :: "field \<Rightarrow> int32" where
  "Field_Key Field_None = 0"
| "Field_Key Field_Annotations = 1"
| "Field_Key Field_Mounts = 2"
| "Field_Key Field_OciHooks = 3"
| "Field_Key Field_Devices = 4"
| "Field_Key Field_CdiDevices = 5"
| "Field_Key Field_Env = 6"
| "Field_Key Field_Args = 7"
| "Field_Key Field_MemLimit = 8"
| "Field_Key Field_MemReservation = 9"
| "Field_Key Field_MemSwapLimit = 10"
| "Field_Key Field_MemKernelLimit = 11"
| "Field_Key Field_MemTCPLimit = 12"
| "Field_Key Field_MemSwappiness = 13"
| "Field_Key Field_MemDisableOomKiller = 14"
| "Field_Key Field_MemUseHierarchy = 15"
| "Field_Key Field_CPUShares = 16"
| "Field_Key Field_CPUQuota = 17"
| "Field_Key Field_CPUPeriod = 18"
| "Field_Key Field_CPURealtimeRuntime = 19"
| "Field_Key Field_CPURealtimePeriod = 20"
| "Field_Key Field_CPUSetCPUs = 21"
| "Field_Key Field_CPUSetMems = 22"
| "Field_Key Field_PidsLimit = 23"
| "Field_Key Field_HugepageLimits = 24"
| "Field_Key Field_BlockioClass = 25"
| "Field_Key Field_RdtClass = 26"
| "Field_Key Field_CgroupsUnified = 27"
| "Field_Key Field_CgroupsPath = 28"
| "Field_Key Field_OomScoreAdj = 29"
| "Field_Key Field_Rlimits = 30"
| "Field_Key Field_IoPriority = 31"
| "Field_Key Field_SeccompPolicy = 32"
| "Field_Key Field_Namespace = 33"
| "Field_Key Field_Sysctl = 34"
| "Field_Key Field_LinuxNetDevices = 35"
| "Field_Key Field_LinuxSched = 36"
| "Field_Key Field_RdtClosID = 37"
| "Field_Key Field_RdtSchemata = 38"
| "Field_Key Field_RdtEnableMonitoring = 39"

record field_owners =
  fo_simple :: "int32 \<Rightarrow> string option"
  fo_compound :: "int32 \<Rightarrow> (string \<Rightarrow> string option) option"

type_synonym owning_plugins = "string \<Rightarrow> field_owners option"

definition NewOwningPlugins :: owning_plugins where
  "NewOwningPlugins = Map.empty"

definition NewFieldOwners :: field_owners where
  "NewFieldOwners = \<lparr>fo_simple = Map.empty, fo_compound = Map.empty\<rparr>"

definition NewCompoundFieldOwners :: "string \<Rightarrow> string option" where
  "NewCompoundFieldOwners = Map.empty"

definition mustOwnersFor :: "string \<Rightarrow> owning_plugins \<Rightarrow> field_owners \<times> owning_plugins" where
  "mustOwnersFor cid op =
     (case op cid of
        None \<Rightarrow> (NewFieldOwners, op(cid \<mapsto> NewFieldOwners))
      | Some f \<Rightarrow> (f, op))"

definition ownersFor :: "string \<Rightarrow> owning_plugins \<Rightarrow> field_owners option" where
  "ownersFor cid op = op cid"

section \<open>Conflicts, claims and clears of one container\<close>

definition IsCompoundConflict ::
    "int32 \<Rightarrow> string \<Rightarrow> string \<Rightarrow> (nri_error, field_owners) action" where
  "IsCompoundConflict field key plugin f =
     (case fo_compound f field of
        None \<Rightarrow> (Done, f\<lparr>fo_compound := (fo_compound f)(field \<mapsto> NewCompoundFieldOwners)\<rparr>)
      | Some m \<Rightarrow>
          (case m key of
             None \<Rightarrow> (Done, f)
           | Some other \<Rightarrow>
               (let (clearer, ok) = IsMarkedForRemoval other in
                if ok \<and> clearer = plugin then (Done, f)
                else (Failed (Conflict field plugin (if ok then clearer else other) [key]), f))))"

definition IsSimpleConflict :: "int32 \<Rightarrow> string \<Rightarrow> field_owners \<Rightarrow> nri_error option" where
  "IsSimpleConflict field plugin f =
     (case fo_simple f field of
        None \<Rightarrow> None
      | Some other \<Rightarrow>
          (let (clearer, ok) = IsMarkedForRemoval other in
           if ok \<and> clearer = plugin then None
           else Some (Conflict field plugin (if ok then clearer else other) [])))"

definition claimCompound ::
    "int32 \<Rightarrow> string \<Rightarrow> string \<Rightarrow> (nri_error, field_owners) action" where
  "claimCompound field entry plugin f =
     (case IsCompoundConflict field entry plugin f of
        (Done, g) \<Rightarrow>
          (case fo_compound g field of
             None \<Rightarrow> (Panicked, g)
           | Some m \<Rightarrow>
               (Done, g\<lparr>fo_compound := (fo_compound g)(field \<mapsto> m(entry \<mapsto> plugin))\<rparr>))
      | (st, g) \<Rightarrow> (st, g))"

definition claimSimple :: "int32 \<Rightarrow> string \<Rightarrow> (nri_error, field_owners) action" where
  "claimSimple field plugin f =
     (case IsSimpleConflict field plugin f of
        Some err \<Rightarrow> (Failed err, f)
      | None \<Rightarrow> (Done, f\<lparr>fo_simple := (fo_simple f)(field \<mapsto> plugin)\<rparr>))"

definition clearCompound :: "int32 \<Rightarrow> string \<Rightarrow> string \<Rightarrow> field_owners \<Rightarrow> field_owners" where
  "clearCompound field key plugin f =
     (let m = (case fo_compound f field of None \<Rightarrow> NewCompoundFieldOwners | Some m \<Rightarrow> m) in
      f\<lparr>fo_compound := (fo_compound f)(field \<mapsto> m(key \<mapsto> MarkForRemoval plugin))\<rparr>)"

definition clearSimple :: "int32 \<Rightarrow> string \<Rightarrow> field_owners \<Rightarrow> field_owners" where
  "clearSimple field plugin f =
     f\<lparr>fo_simple := (fo_simple f)(field \<mapsto> MarkForRemoval plugin)\<rparr>"

text \<open>The lookups are methods that accept a nil receiver.\<close>

definition compoundOwnerMap ::
    "int32 \<Rightarrow> field_owners option \<Rightarrow> (string \<Rightarrow> string option) option" where
  "compoundOwnerMap field f = (case f of None \<Rightarrow> None | Some g \<Rightarrow> fo_compound g field)"

definition compoundOwner :: "int32 \<Rightarrow> string \<Rightarrow> field_owners option \<Rightarrow> string option" where
  "compoundOwner field key f =
     (case f of
        None \<Rightarrow> None
      | Some g \<Rightarrow> (case fo_compound g field of None \<Rightarrow> None | Some m \<Rightarrow> m key))"

definition simpleOwner :: "int32 \<Rightarrow> field_owners option \<Rightarrow> string option" where
  "simpleOwner field f = (case f of None \<Rightarrow> None | Some g \<Rightarrow> fo_simple g field)"

text \<open>\<^verbatim>\<open>ClaimHooks\<close> drops the error of its inner claim.\<close>

definition FieldOwners_ClaimHooks :: "string \<Rightarrow> (nri_error, field_owners) action" where
  "FieldOwners_ClaimHooks plugin f =
     (let (plugins, g) =
        (case simpleOwner (Field_Key Field_OciHooks) (Some f) of
           Some current \<Rightarrow>
             (current @ '','' @ plugin, clearSimple (Field_Key Field_OciHooks) plugin f)
         | None \<Rightarrow> (plugin, f))
      in (Done, snd (claimSimple (Field_Key Field_OciHooks) plugins g)))"

section \<open>The methods per field\<close>

datatype claim =
    ClaimAnnotation string | ClaimMount string | ClaimHooks | ClaimDevice string |
    ClaimCdiDevice string | ClaimNamespace string | ClaimEnv string | ClaimArgs |
    ClaimMemLimit | ClaimMemReservation | ClaimMemSwapLimit | ClaimMemKernelLimit |
    ClaimMemTCPLimit | ClaimMemSwappiness | ClaimMemDisableOomKiller |
    ClaimMemUseHierarchy | ClaimCPUShares | ClaimCPUQuota | ClaimCPUPeriod |
    ClaimCPURealtimeRuntime | ClaimCPURealtimePeriod | ClaimCPUSetCPUs | ClaimCPUSetMems |
    ClaimPidsLimit | ClaimHugepageLimit string | ClaimBlockioClass | ClaimRdtClass |
    ClaimRdtClosID | ClaimRdtSchemata | ClaimRdtEnableMonitoring |
    ClaimCgroupsUnified string | ClaimCgroupsPath | ClaimOomScoreAdj |
    ClaimLinuxScheduler | ClaimRlimit string | ClaimIOPriority | ClaimSeccompPolicy |
    ClaimSysctl string | ClaimLinuxNetDevice string

primrec FieldOwners_Claim :: "claim \<Rightarrow> string \<Rightarrow> (nri_error, field_owners) action" where
  "FieldOwners_Claim (ClaimAnnotation key) plugin =
     claimCompound (Field_Key Field_Annotations) key plugin"
| "FieldOwners_Claim (ClaimMount destination) plugin =
     claimCompound (Field_Key Field_Mounts) destination plugin"
| "FieldOwners_Claim ClaimHooks plugin = FieldOwners_ClaimHooks plugin"
| "FieldOwners_Claim (ClaimDevice path) plugin =
     claimCompound (Field_Key Field_Devices) path plugin"
| "FieldOwners_Claim (ClaimCdiDevice name) plugin =
     claimCompound (Field_Key Field_CdiDevices) name plugin"
| "FieldOwners_Claim (ClaimNamespace typ) plugin =
     claimCompound (Field_Key Field_Namespace) typ plugin"
| "FieldOwners_Claim (ClaimEnv name) plugin =
     claimCompound (Field_Key Field_Env) name plugin"
| "FieldOwners_Claim ClaimArgs plugin = claimSimple (Field_Key Field_Args) plugin"
| "FieldOwners_Claim ClaimMemLimit plugin = claimSimple (Field_Key Field_MemLimit) plugin"
| "FieldOwners_Claim ClaimMemReservation plugin = claimSimple (Field_Key Field_MemReservation) plugin"
| "FieldOwners_Claim ClaimMemSwapLimit plugin = claimSimple (Field_Key Field_MemSwapLimit) plugin"
| "FieldOwners_Claim ClaimMemKernelLimit plugin = claimSimple (Field_Key Field_MemKernelLimit) plugin"
| "FieldOwners_Claim ClaimMemTCPLimit plugin = claimSimple (Field_Key Field_MemTCPLimit) plugin"
| "FieldOwners_Claim ClaimMemSwappiness plugin = claimSimple (Field_Key Field_MemSwappiness) plugin"
| "FieldOwners_Claim ClaimMemDisableOomKiller plugin = claimSimple (Field_Key Field_MemDisableOomKiller) plugin"
| "FieldOwners_Claim ClaimMemUseHierarchy plugin = claimSimple (Field_Key Field_MemUseHierarchy) plugin"
| "FieldOwners_Claim ClaimCPUShares plugin = claimSimple (Field_Key Field_CPUShares) plugin"
| "FieldOwners_Claim ClaimCPUQuota plugin = claimSimple (Field_Key Field_CPUQuota) plugin"
| "FieldOwners_Claim ClaimCPUPeriod plugin = claimSimple (Field_Key Field_CPUPeriod) plugin"
| "FieldOwners_Claim ClaimCPURealtimeRuntime plugin = claimSimple (Field_Key Field_CPURealtimeRuntime) plugin"
| "FieldOwners_Claim ClaimCPURealtimePeriod plugin = claimSimple (Field_Key Field_CPURealtimePeriod) plugin"
| "FieldOwners_Claim ClaimCPUSetCPUs plugin = claimSimple (Field_Key Field_CPUSetCPUs) plugin"
| "FieldOwners_Claim ClaimCPUSetMems plugin = claimSimple (Field_Key Field_CPUSetMems) plugin"
| "FieldOwners_Claim ClaimPidsLimit plugin = claimSimple (Field_Key Field_PidsLimit) plugin"
| "FieldOwners_Claim (ClaimHugepageLimit sz) plugin =
     claimCompound (Field_Key Field_HugepageLimits) sz plugin"
| "FieldOwners_Claim ClaimBlockioClass plugin = claimSimple (Field_Key Field_BlockioClass) plugin"
| "FieldOwners_Claim ClaimRdtClass plugin = claimSimple (Field_Key Field_RdtClass) plugin"
| "FieldOwners_Claim ClaimRdtClosID plugin = claimSimple (Field_Key Field_RdtClosID) plugin"
| "FieldOwners_Claim ClaimRdtSchemata plugin = claimSimple (Field_Key Field_RdtSchemata) plugin"
| "FieldOwners_Claim ClaimRdtEnableMonitoring plugin = claimSimple (Field_Key Field_RdtEnableMonitoring) plugin"
| "FieldOwners_Claim (ClaimCgroupsUnified key) plugin =
     claimCompound (Field_Key Field_CgroupsUnified) key plugin"
| "FieldOwners_Claim ClaimCgroupsPath plugin = claimSimple (Field_Key Field_CgroupsPath) plugin"
| "FieldOwners_Claim ClaimOomScoreAdj plugin = claimSimple (Field_Key Field_OomScoreAdj) plugin"
| "FieldOwners_Claim ClaimLinuxScheduler plugin = claimSimple (Field_Key Field_LinuxSched) plugin"
| "FieldOwners_Claim (ClaimRlimit typ) plugin =
     claimCompound (Field_Key Field_Rlimits) typ plugin"
| "FieldOwners_Claim ClaimIOPriority plugin = claimSimple (Field_Key Field_IoPriority) plugin"
| "FieldOwners_Claim ClaimSeccompPolicy plugin = claimSimple (Field_Key Field_SeccompPolicy) plugin"
| "FieldOwners_Claim (ClaimSysctl key) plugin =
     claimCompound (Field_Key Field_Sysctl) key plugin"
| "FieldOwners_Claim (ClaimLinuxNetDevice path) plugin =
     claimCompound (Field_Key Field_LinuxNetDevices) path plugin"

datatype clear =
    ClearAnnotation string | ClearMount string | ClearDevice string | ClearEnv string |
    ClearArgs | ClearSysctl string | ClearLinuxNetDevice string | ClearRdt

primrec FieldOwners_Clear :: "clear \<Rightarrow> string \<Rightarrow> field_owners \<Rightarrow> field_owners" where
  "FieldOwners_Clear (ClearAnnotation key) plugin f =
     clearCompound (Field_Key Field_Annotations) key plugin f"
| "FieldOwners_Clear (ClearMount destination) plugin f =
     clearCompound (Field_Key Field_Mounts) destination plugin f"
| "FieldOwners_Clear (ClearDevice path) plugin f =
     clearCompound (Field_Key Field_Devices) path plugin f"
| "FieldOwners_Clear (ClearEnv name) plugin f =
     clearCompound (Field_Key Field_Env) name plugin f"
| "FieldOwners_Clear ClearArgs plugin f = clearSimple (Field_Key Field_Args) plugin f"
| "FieldOwners_Clear (ClearSysctl key) plugin f =
     clearCompound (Field_Key Field_Sysctl) key plugin f"
| "FieldOwners_Clear (ClearLinuxNetDevice key) plugin f =
     clearCompound (Field_Key Field_LinuxNetDevices) key plugin f"
| "FieldOwners_Clear ClearRdt plugin f =
     clearSimple (Field_Key Field_RdtEnableMonitoring) plugin
       (clearSimple (Field_Key Field_RdtSchemata) plugin
         (clearSimple (Field_Key Field_RdtClosID) plugin f))"

datatype field_owner_query =
    FO_AnnotationOwner string | FO_MountOwner string | FO_DeviceOwner string |
    FO_NamespaceOwner string | FO_EnvOwner string | FO_ArgsOwner | FO_MemLimitOwner |
    FO_MemReservationOwner | FO_MemSwapLimitOwner | FO_MemKernelLimitOwner |
    FO_MemTCPLimitOwner | FO_MemSwappinessOwner | FO_MemDisableOomKillerOwner |
    FO_MemUseHierarchyOwner | FO_CPUSharesOwner | FO_CPUQuotaOwner | FO_CPUPeriodOwner |
    FO_CPURealtimeRuntimeOwner | FO_CPURealtimePeriodOwner | FO_CPUSetCPUsOwner |
    FO_CPUSetMemsOwner | FO_PidsLimitOwner | FO_HugepageLimitOwner string |
    FO_BlockioClassOwner | FO_RdtClassOwner | FO_RdtSchemataOwner |
    FO_RdtEnableMonitoringOwner | FO_CgroupsUnifiedOwner string | FO_CgroupsPathOwner |
    FO_OomScoreAdjOwner | FO_RlimitOwner string

primrec FieldOwners_Owner :: "field_owner_query \<Rightarrow> field_owners option \<Rightarrow> string option" where
  "FieldOwners_Owner (FO_AnnotationOwner key) f = compoundOwner (Field_Key Field_Annotations) key f"
| "FieldOwners_Owner (FO_MountOwner destination) f = compoundOwner (Field_Key Field_Mounts) destination f"
| "FieldOwners_Owner (FO_DeviceOwner path) f = compoundOwner (Field_Key Field_Devices) path f"
| "FieldOwners_Owner (FO_NamespaceOwner typ) f = compoundOwner (Field_Key Field_Devices) typ f"
| "FieldOwners_Owner (FO_EnvOwner name) f = compoundOwner (Field_Key Field_Env) name f"
| "FieldOwners_Owner FO_ArgsOwner f = simpleOwner (Field_Key Field_Args) f"
| "FieldOwners_Owner FO_MemLimitOwner f = simpleOwner (Field_Key Field_MemLimit) f"
| "FieldOwners_Owner FO_MemReservationOwner f = simpleOwner (Field_Key Field_MemReservation) f"
| "FieldOwners_Owner FO_MemSwapLimitOwner f = simpleOwner (Field_Key Field_MemSwapLimit) f"
| "FieldOwners_Owner FO_MemKernelLimitOwner f = simpleOwner (Field_Key Field_MemKernelLimit) f"
| "FieldOwners_Owner FO_MemTCPLimitOwner f = simpleOwner (Field_Key Field_MemTCPLimit) f"
| "FieldOwners_Owner FO_MemSwappinessOwner f = simpleOwner (Field_Key Field_MemSwappiness) f"
| "FieldOwners_Owner FO_MemDisableOomKillerOwner f = simpleOwner (Field_Key Field_MemDisableOomKiller) f"
| "FieldOwners_Owner FO_MemUseHierarchyOwner f = simpleOwner (Field_Key Field_MemUseHierarchy) f"
| "FieldOwners_Owner FO_CPUSharesOwner f = simpleOwner (Field_Key Field_CPUShares) f"
| "FieldOwners_Owner FO_CPUQuotaOwner f = simpleOwner (Field_Key Field_CPUQuota) f"
| "FieldOwners_Owner FO_CPUPeriodOwner f = simpleOwner (Field_Key Field_CPUPeriod) f"
| "FieldOwners_Owner FO_CPURealtimeRuntimeOwner f = simpleOwner (Field_Key Field_CPURealtimeRuntime) f"
| "FieldOwners_Owner FO_CPURealtimePeriodOwner f = simpleOwner (Field_Key Field_CPURealtimePeriod) f"
| "FieldOwners_Owner FO_CPUSetCPUsOwner f = simpleOwner (Field_Key Field_CPUSetCPUs) f"
| "FieldOwners_Owner FO_CPUSetMemsOwner f = simpleOwner (Field_Key Field_CPUSetMems) f"
| "FieldOwners_Owner FO_PidsLimitOwner f = simpleOwner (Field_Key Field_PidsLimit) f"
| "FieldOwners_Owner (FO_HugepageLimitOwner sz) f = compoundOwner (Field_Key Field_HugepageLimits) sz f"
| "FieldOwners_Owner FO_BlockioClassOwner f = simpleOwner (Field_Key Field_BlockioClass) f"
| "FieldOwners_Owner FO_RdtClassOwner f = simpleOwner (Field_Key Field_RdtClass) f"
| "FieldOwners_Owner FO_RdtSchemataOwner f = simpleOwner (Field_Key Field_RdtSchemata) f"
| "FieldOwners_Owner FO_RdtEnableMonitoringOwner f = simpleOwner (Field_Key Field_RdtEnableMonitoring) f"
| "FieldOwners_Owner (FO_CgroupsUnifiedOwner key) f = compoundOwner (Field_Key Field_CgroupsUnified) key f"
| "FieldOwners_Owner FO_CgroupsPathOwner f = simpleOwner (Field_Key Field_CgroupsPath) f"
| "FieldOwners_Owner FO_OomScoreAdjOwner f = simpleOwner (Field_Key Field_OomScoreAdj) f"
| "FieldOwners_Owner (FO_RlimitOwner typ) f = compoundOwner (Field_Key Field_Rlimits) typ f"

section \<open>The methods of the store\<close>

text \<open>
  Each \<^verbatim>\<open>OwningPlugins\<close> claim and clear forwards to the method of the same name on the container's
  owners, which it creates on first use.
\<close>

definition OwningPlugins_Claim ::
    "claim \<Rightarrow> string \<Rightarrow> string \<Rightarrow> (nri_error, owning_plugins) action" where
  "OwningPlugins_Claim c cid plugin op =
     (let (f, op') = mustOwnersFor cid op; (st, g) = FieldOwners_Claim c plugin f
      in (st, op'(cid \<mapsto> g)))"

definition OwningPlugins_Clear ::
    "clear \<Rightarrow> string \<Rightarrow> string \<Rightarrow> owning_plugins \<Rightarrow> owning_plugins" where
  "OwningPlugins_Clear c cid plugin op =
     (let (f, op') = mustOwnersFor cid op in op'(cid \<mapsto> FieldOwners_Clear c plugin f))"

datatype owner_query =
    AnnotationOwner string | MountOwner string | HooksOwner | DeviceOwner string |
    NamespaceOwner string | EnvOwner string | ArgsOwner | MemLimitOwner |
    MemReservationOwner | MemSwapLimitOwner | MemKernelLimitOwner | MemTCPLimitOwner |
    MemSwappinessOwner | MemDisableOomKillerOwner | MemUseHierarchyOwner | CPUSharesOwner |
    CPUQuotaOwner | CPUPeriodOwner | CPURealtimeRuntimeOwner | CPURealtimePeriodOwner |
    CPUSetCPUsOwner | CPUSetMemsOwner | PidsLimitOwner | HugepageLimitOwner string |
    BlockioClassOwner | RdtClassOwner | RdtClosIDOwner | RdtSchemataOwner |
    RdtEnableMonitoringOwner | CgroupsUnifiedOwner string | CgroupsPathOwner |
    OomScoreAdjOwner | LinuxSchedulerOwner | RlimitOwner string | IOPriorityOwner |
    SeccompPolicyOwner | SysctlOwner string | LinuxNetDeviceOwner string

primrec OwningPlugins_Owner :: "owner_query \<Rightarrow> string \<Rightarrow> owning_plugins \<Rightarrow> string option" where
  "OwningPlugins_Owner (AnnotationOwner key) cid op =
     compoundOwner (Field_Key Field_Annotations) key (ownersFor cid op)"
| "OwningPlugins_Owner (MountOwner destination) cid op =
     compoundOwner (Field_Key Field_Mounts) destination (ownersFor cid op)"
| "OwningPlugins_Owner HooksOwner cid op =
     simpleOwner (Field_Key Field_OciHooks) (ownersFor cid op)"
| "OwningPlugins_Owner (DeviceOwner path) cid op =
     compoundOwner (Field_Key Field_Devices) path (ownersFor cid op)"
| "OwningPlugins_Owner (NamespaceOwner path) cid op =
     compoundOwner (Field_Key Field_Namespace) path (ownersFor cid op)"
| "OwningPlugins_Owner (EnvOwner name) cid op =
     compoundOwner (Field_Key Field_Env) name (ownersFor cid op)"
| "OwningPlugins_Owner ArgsOwner cid op =
     simpleOwner (Field_Key Field_Args) (ownersFor cid op)"
| "OwningPlugins_Owner MemLimitOwner cid op =
     simpleOwner (Field_Key Field_MemLimit) (ownersFor cid op)"
| "OwningPlugins_Owner MemReservationOwner cid op =
     simpleOwner (Field_Key Field_MemReservation) (ownersFor cid op)"
| "OwningPlugins_Owner MemSwapLimitOwner cid op =
     simpleOwner (Field_Key Field_MemSwapLimit) (ownersFor cid op)"
| "OwningPlugins_Owner MemKernelLimitOwner cid op =
     simpleOwner (Field_Key Field_MemKernelLimit) (ownersFor cid op)"
| "OwningPlugins_Owner MemTCPLimitOwner cid op =
     simpleOwner (Field_Key Field_MemTCPLimit) (ownersFor cid op)"
| "OwningPlugins_Owner MemSwappinessOwner cid op =
     simpleOwner (Field_Key Field_MemSwappiness) (ownersFor cid op)"
| "OwningPlugins_Owner MemDisableOomKillerOwner cid op =
     simpleOwner (Field_Key Field_MemDisableOomKiller) (ownersFor cid op)"
| "OwningPlugins_Owner MemUseHierarchyOwner cid op =
     simpleOwner (Field_Key Field_MemUseHierarchy) (ownersFor cid op)"
| "OwningPlugins_Owner CPUSharesOwner cid op =
     simpleOwner (Field_Key Field_CPUShares) (ownersFor cid op)"
| "OwningPlugins_Owner CPUQuotaOwner cid op =
     simpleOwner (Field_Key Field_CPUQuota) (ownersFor cid op)"
| "OwningPlugins_Owner CPUPeriodOwner cid op =
     simpleOwner (Field_Key Field_CPUPeriod) (ownersFor cid op)"
| "OwningPlugins_Owner CPURealtimeRuntimeOwner cid op =
     simpleOwner (Field_Key Field_CPURealtimeRuntime) (ownersFor cid op)"
| "OwningPlugins_Owner CPURealtimePeriodOwner cid op =
     simpleOwner (Field_Key Field_CPURealtimePeriod) (ownersFor cid op)"
| "OwningPlugins_Owner CPUSetCPUsOwner cid op =
     simpleOwner (Field_Key Field_CPUSetCPUs) (ownersFor cid op)"
| "OwningPlugins_Owner CPUSetMemsOwner cid op =
     simpleOwner (Field_Key Field_CPUSetMems) (ownersFor cid op)"
| "OwningPlugins_Owner PidsLimitOwner cid op =
     simpleOwner (Field_Key Field_PidsLimit) (ownersFor cid op)"
| "OwningPlugins_Owner (HugepageLimitOwner sz) cid op =
     compoundOwner (Field_Key Field_HugepageLimits) sz (ownersFor cid op)"
| "OwningPlugins_Owner BlockioClassOwner cid op =
     simpleOwner (Field_Key Field_BlockioClass) (ownersFor cid op)"
| "OwningPlugins_Owner RdtClassOwner cid op =
     simpleOwner (Field_Key Field_RdtClass) (ownersFor cid op)"
| "OwningPlugins_Owner RdtClosIDOwner cid op =
     simpleOwner (Field_Key Field_RdtClosID) (ownersFor cid op)"
| "OwningPlugins_Owner RdtSchemataOwner cid op =
     simpleOwner (Field_Key Field_RdtSchemata) (ownersFor cid op)"
| "OwningPlugins_Owner RdtEnableMonitoringOwner cid op =
     simpleOwner (Field_Key Field_RdtEnableMonitoring) (ownersFor cid op)"
| "OwningPlugins_Owner (CgroupsUnifiedOwner key) cid op =
     compoundOwner (Field_Key Field_CgroupsUnified) key (ownersFor cid op)"
| "OwningPlugins_Owner CgroupsPathOwner cid op =
     simpleOwner (Field_Key Field_CgroupsPath) (ownersFor cid op)"
| "OwningPlugins_Owner OomScoreAdjOwner cid op =
     simpleOwner (Field_Key Field_OomScoreAdj) (ownersFor cid op)"
| "OwningPlugins_Owner LinuxSchedulerOwner cid op =
     simpleOwner (Field_Key Field_LinuxSched) (ownersFor cid op)"
| "OwningPlugins_Owner (RlimitOwner typ) cid op =
     compoundOwner (Field_Key Field_Rlimits) typ (ownersFor cid op)"
| "OwningPlugins_Owner IOPriorityOwner cid op =
     simpleOwner (Field_Key Field_IoPriority) (ownersFor cid op)"
| "OwningPlugins_Owner SeccompPolicyOwner cid op =
     simpleOwner (Field_Key Field_SeccompPolicy) (ownersFor cid op)"
| "OwningPlugins_Owner (SysctlOwner key) cid op =
     compoundOwner (Field_Key Field_Sysctl) key (ownersFor cid op)"
| "OwningPlugins_Owner (LinuxNetDeviceOwner path) cid op =
     compoundOwner (Field_Key Field_LinuxNetDevices) path (ownersFor cid op)"

definition NamespaceOwners :: "string \<Rightarrow> owning_plugins \<Rightarrow> (string \<Rightarrow> string option) option" where
  "NamespaceOwners cid op = compoundOwnerMap (Field_Key Field_Namespace) (ownersFor cid op)"

text \<open>\<^verbatim>\<open>qualify\<close>, on the field's printed name.\<close>

definition qualify :: "string \<Rightarrow> string list \<Rightarrow> string" where
  "qualify field_string qualifiers = field_string @ '' '' @ join_with '' '' ([] @ qualifiers)"

section \<open>The abstract view\<close>

datatype slot = SimpleSlot field | CompoundSlot field string

primrec claim_slot :: "claim \<Rightarrow> slot" where
  "claim_slot (ClaimAnnotation key) = CompoundSlot Field_Annotations key"
| "claim_slot (ClaimMount destination) = CompoundSlot Field_Mounts destination"
| "claim_slot ClaimHooks = SimpleSlot Field_OciHooks"
| "claim_slot (ClaimDevice path) = CompoundSlot Field_Devices path"
| "claim_slot (ClaimCdiDevice name) = CompoundSlot Field_CdiDevices name"
| "claim_slot (ClaimNamespace typ) = CompoundSlot Field_Namespace typ"
| "claim_slot (ClaimEnv name) = CompoundSlot Field_Env name"
| "claim_slot ClaimArgs = SimpleSlot Field_Args"
| "claim_slot ClaimMemLimit = SimpleSlot Field_MemLimit"
| "claim_slot ClaimMemReservation = SimpleSlot Field_MemReservation"
| "claim_slot ClaimMemSwapLimit = SimpleSlot Field_MemSwapLimit"
| "claim_slot ClaimMemKernelLimit = SimpleSlot Field_MemKernelLimit"
| "claim_slot ClaimMemTCPLimit = SimpleSlot Field_MemTCPLimit"
| "claim_slot ClaimMemSwappiness = SimpleSlot Field_MemSwappiness"
| "claim_slot ClaimMemDisableOomKiller = SimpleSlot Field_MemDisableOomKiller"
| "claim_slot ClaimMemUseHierarchy = SimpleSlot Field_MemUseHierarchy"
| "claim_slot ClaimCPUShares = SimpleSlot Field_CPUShares"
| "claim_slot ClaimCPUQuota = SimpleSlot Field_CPUQuota"
| "claim_slot ClaimCPUPeriod = SimpleSlot Field_CPUPeriod"
| "claim_slot ClaimCPURealtimeRuntime = SimpleSlot Field_CPURealtimeRuntime"
| "claim_slot ClaimCPURealtimePeriod = SimpleSlot Field_CPURealtimePeriod"
| "claim_slot ClaimCPUSetCPUs = SimpleSlot Field_CPUSetCPUs"
| "claim_slot ClaimCPUSetMems = SimpleSlot Field_CPUSetMems"
| "claim_slot ClaimPidsLimit = SimpleSlot Field_PidsLimit"
| "claim_slot (ClaimHugepageLimit sz) = CompoundSlot Field_HugepageLimits sz"
| "claim_slot ClaimBlockioClass = SimpleSlot Field_BlockioClass"
| "claim_slot ClaimRdtClass = SimpleSlot Field_RdtClass"
| "claim_slot ClaimRdtClosID = SimpleSlot Field_RdtClosID"
| "claim_slot ClaimRdtSchemata = SimpleSlot Field_RdtSchemata"
| "claim_slot ClaimRdtEnableMonitoring = SimpleSlot Field_RdtEnableMonitoring"
| "claim_slot (ClaimCgroupsUnified key) = CompoundSlot Field_CgroupsUnified key"
| "claim_slot ClaimCgroupsPath = SimpleSlot Field_CgroupsPath"
| "claim_slot ClaimOomScoreAdj = SimpleSlot Field_OomScoreAdj"
| "claim_slot ClaimLinuxScheduler = SimpleSlot Field_LinuxSched"
| "claim_slot (ClaimRlimit typ) = CompoundSlot Field_Rlimits typ"
| "claim_slot ClaimIOPriority = SimpleSlot Field_IoPriority"
| "claim_slot ClaimSeccompPolicy = SimpleSlot Field_SeccompPolicy"
| "claim_slot (ClaimSysctl key) = CompoundSlot Field_Sysctl key"
| "claim_slot (ClaimLinuxNetDevice path) = CompoundSlot Field_LinuxNetDevices path"

primrec slot_owner :: "field_owners option \<Rightarrow> slot \<Rightarrow> string option" where
  "slot_owner f (SimpleSlot fld) = simpleOwner (Field_Key fld) f"
| "slot_owner f (CompoundSlot fld key) = compoundOwner (Field_Key fld) key f"

definition owner_view :: "owning_plugins \<Rightarrow> string \<times> slot \<Rightarrow> string option" where
  "owner_view op ks = slot_owner (ownersFor (fst ks) op) (snd ks)"

text \<open>Claim and clear of a slot: what the methods are once the field is chosen.\<close>

primrec slot_claim :: "slot \<Rightarrow> string \<Rightarrow> (nri_error, field_owners) action" where
  "slot_claim (SimpleSlot fld) plugin = claimSimple (Field_Key fld) plugin"
| "slot_claim (CompoundSlot fld key) plugin = claimCompound (Field_Key fld) key plugin"

primrec slot_clear :: "slot \<Rightarrow> string \<Rightarrow> field_owners \<Rightarrow> field_owners" where
  "slot_clear (SimpleSlot fld) plugin = clearSimple (Field_Key fld) plugin"
| "slot_clear (CompoundSlot fld key) plugin = clearCompound (Field_Key fld) key plugin"

definition claim_at :: "string \<times> slot \<Rightarrow> string \<Rightarrow> (nri_error, owning_plugins) action" where
  "claim_at ks plugin op =
     (let (f, op') = mustOwnersFor (fst ks) op; (st, g) = slot_claim (snd ks) plugin f
      in (st, op'(fst ks \<mapsto> g)))"

definition clear_at :: "string \<times> slot \<Rightarrow> string \<Rightarrow> owning_plugins \<Rightarrow> owning_plugins" where
  "clear_at ks plugin op =
     (let (f, op') = mustOwnersFor (fst ks) op in op'(fst ks \<mapsto> slot_clear (snd ks) plugin f))"

definition slot_clash :: "string \<times> slot \<Rightarrow> string \<Rightarrow> string \<Rightarrow> nri_error" where
  "slot_clash ks plugin other =
     (case snd ks of
        SimpleSlot fld \<Rightarrow> Conflict (Field_Key fld) plugin other []
      | CompoundSlot fld key \<Rightarrow> Conflict (Field_Key fld) plugin other [key])"

end
