(* ===== verification/Owner_Laws.thy ===== *)
theory Owner_Laws
  imports Owners
begin

text \<open>
  The ownership store refines the flat registry of the locale \<open>ownership\<close>: every per-field claim
  method is a claim of one slot, clears and lookups read and write that slot alone, and the locale
  is interpreted on them. Then the properties of the store over sequences of calls.
\<close>

section \<open>One container\<close>

lemma Field_Key_eq_iff [simp]: "Field_Key f = Field_Key g \<longleftrightarrow> f = g"
proof
  show "Field_Key f = Field_Key g \<Longrightarrow> f = g" by (cases f; cases g; simp)
qed simp

lemma marked_name: "IsMarkedForRemoval w = (p, True) \<longleftrightarrow> w = MarkForRemoval p"
  by (metis rm.check_mark rm.check_marked)

lemma unmarked_name: "IsMarkedForRemoval w = (v, False) \<Longrightarrow> v = w"
  by (rule rm.check_plain)

lemma slot_claim_free:
  assumes "may_claim p (slot_owner (Some f) s)"
  shows "fst (slot_claim s p f) = Done \<and>
    slot_owner (Some (snd (slot_claim s p f))) = (slot_owner (Some f))(s \<mapsto> p)"
proof (cases s)
  case (SimpleSlot fld)
  have "IsSimpleConflict (Field_Key fld) p f = None"
    using assms SimpleSlot
    by (auto simp: IsSimpleConflict_def may_claim_def simpleOwner_def rm.check_mark)
  then have "fst (slot_claim s p f) = Done \<and>
      slot_owner (Some (snd (slot_claim s p f))) s' = ((slot_owner (Some f))(s \<mapsto> p)) s'" for s'
    by (cases s') (auto simp: SimpleSlot claimSimple_def simpleOwner_def compoundOwner_def)
  then show ?thesis by auto
next
  case (CompoundSlot fld key)
  have "fst (slot_claim s p f) = Done \<and>
      slot_owner (Some (snd (slot_claim s p f))) s' = ((slot_owner (Some f))(s \<mapsto> p)) s'" for s'
    using assms CompoundSlot
    by (cases s')
      (auto simp: claimCompound_def IsCompoundConflict_def NewCompoundFieldOwners_def
        may_claim_def simpleOwner_def compoundOwner_def rm.check_mark split: option.splits)
  then show ?thesis by auto
qed

lemma slot_claim_taken:
  assumes "slot_owner (Some f) s = Some w" and "w \<noteq> MarkForRemoval p"
  shows "slot_claim s p f = (Failed (slot_clash (cid, s) p (fst (IsMarkedForRemoval w))), f)"
proof -
  obtain c ok where cok: "IsMarkedForRemoval w = (c, ok)" by (cases "IsMarkedForRemoval w")
  have "ok \<Longrightarrow> c \<noteq> p" using assms(2) cok marked_name by auto
  moreover have "\<not> ok \<Longrightarrow> c = w" using cok unmarked_name by auto
  ultimately have culprit: "\<not> (ok \<and> c = p)" "(if ok then c else w) = c" by auto
  show ?thesis
  proof (cases s)
    case (SimpleSlot fld)
    with assms(1) have "fo_simple f (Field_Key fld) = Some w" by (simp add: simpleOwner_def)
    then show ?thesis
      by (simp add: SimpleSlot cok culprit claimSimple_def IsSimpleConflict_def slot_clash_def)
  next
    case (CompoundSlot fld key)
    with assms(1) obtain m where "fo_compound f (Field_Key fld) = Some m" "m key = Some w"
      by (auto simp: compoundOwner_def split: option.splits)
    then show ?thesis
      by (simp add: CompoundSlot cok culprit claimCompound_def IsCompoundConflict_def
          slot_clash_def)
  qed
qed

lemma slot_clear_owner:
  "slot_owner (Some (slot_clear s p f)) = (slot_owner (Some f))(s \<mapsto> MarkForRemoval p)"
proof
  fix s'
  show "slot_owner (Some (slot_clear s p f)) s' =
      ((slot_owner (Some f))(s \<mapsto> MarkForRemoval p)) s'"
    by (cases s; cases s')
      (simp_all add: clearSimple_def clearCompound_def NewCompoundFieldOwners_def
        simpleOwner_def compoundOwner_def Let_def split: option.split)
qed

section \<open>The store\<close>

lemma slot_owner_new: "slot_owner (Some NewFieldOwners) s = None"
  by (cases s) (simp_all add: NewFieldOwners_def simpleOwner_def compoundOwner_def)

lemma slot_owner_nil: "slot_owner None s = None"
  by (cases s) (simp_all add: simpleOwner_def compoundOwner_def)

text \<open>The owners a method works on look the same as the ones looked up.\<close>

lemma mustOwnersFor_view:
  "slot_owner (Some (fst (mustOwnersFor cid op))) = slot_owner (ownersFor cid op)"
  by (auto simp: mustOwnersFor_def ownersFor_def slot_owner_new slot_owner_nil
      split: option.split)

lemma mustOwnersFor_upd: "(snd (mustOwnersFor cid op))(cid \<mapsto> g) = op(cid \<mapsto> g)"
  by (auto simp: mustOwnersFor_def split: option.split)

lemma owner_view_upd:
  "owner_view (op(cid \<mapsto> g)) ks =
     (if fst ks = cid then slot_owner (Some g) (snd ks) else owner_view op ks)"
  by (simp add: owner_view_def ownersFor_def)

lemma claim_at_eq:
  "claim_at ks p op =
     (let f = fst (mustOwnersFor (fst ks) op)
      in (fst (slot_claim (snd ks) p f), op(fst ks \<mapsto> snd (slot_claim (snd ks) p f))))"
  by (simp add: claim_at_def split_def Let_def mustOwnersFor_upd)

interpretation ow: ownership owner_view claim_at clear_at slot_clash
proof
  fix p op ks
  assume "may_claim p (owner_view op ks)"
  then have "may_claim p (slot_owner (Some (fst (mustOwnersFor (fst ks) op))) (snd ks))"
    by (simp add: owner_view_def mustOwnersFor_view)
  note claimed = slot_claim_free [OF this]
  show "fst (claim_at ks p op) = Done \<and>
      owner_view (snd (claim_at ks p op)) = (owner_view op)(ks \<mapsto> p)"
    using claimed
    by (auto simp: claim_at_eq Let_def fun_eq_iff mustOwnersFor_view owner_view_def
        ownersFor_def prod_eq_iff)
next
  fix op ks w p
  assume w: "owner_view op ks = Some w" and "w \<noteq> MarkForRemoval p"
  then have "slot_claim (snd ks) p (fst (mustOwnersFor (fst ks) op)) =
      (Failed (slot_clash ks p (fst (IsMarkedForRemoval w))), fst (mustOwnersFor (fst ks) op))"
    using slot_claim_taken [of "fst (mustOwnersFor (fst ks) op)" "snd ks" w p "fst ks"]
    by (simp add: owner_view_def mustOwnersFor_view)
  then show "fst (claim_at ks p op) = Failed (slot_clash ks p (fst (IsMarkedForRemoval w))) \<and>
      owner_view (snd (claim_at ks p op)) = owner_view op"
    by (auto simp: claim_at_eq Let_def fun_eq_iff mustOwnersFor_view owner_view_def
        ownersFor_def)
next
  fix ks p op
  show "owner_view (clear_at ks p op) = (owner_view op)(ks \<mapsto> MarkForRemoval p)"
    by (auto simp: clear_at_def split_def Let_def mustOwnersFor_upd fun_eq_iff
        slot_clear_owner mustOwnersFor_view owner_view_def ownersFor_def prod_eq_iff)
qed

section \<open>The methods on the view\<close>

lemma FieldOwners_Claim_slot:
  "c \<noteq> ClaimHooks \<Longrightarrow> FieldOwners_Claim c p = slot_claim (claim_slot c) p"
  by (cases c) simp_all

lemma OwningPlugins_Claim_at:
  "c \<noteq> ClaimHooks \<Longrightarrow> OwningPlugins_Claim c cid p = claim_at (cid, claim_slot c) p"
  by (rule ext) (simp add: OwningPlugins_Claim_def claim_at_def FieldOwners_Claim_slot)

primrec clear_slots :: "clear \<Rightarrow> slot list" where
  "clear_slots (ClearAnnotation key) = [CompoundSlot Field_Annotations key]"
| "clear_slots (ClearMount destination) = [CompoundSlot Field_Mounts destination]"
| "clear_slots (ClearDevice path) = [CompoundSlot Field_Devices path]"
| "clear_slots (ClearEnv name) = [CompoundSlot Field_Env name]"
| "clear_slots ClearArgs = [SimpleSlot Field_Args]"
| "clear_slots (ClearSysctl key) = [CompoundSlot Field_Sysctl key]"
| "clear_slots (ClearLinuxNetDevice key) = [CompoundSlot Field_LinuxNetDevices key]"
| "clear_slots ClearRdt =
     [SimpleSlot Field_RdtClosID, SimpleSlot Field_RdtSchemata, SimpleSlot Field_RdtEnableMonitoring]"

lemma FieldOwners_Clear_slots:
  "FieldOwners_Clear c p f = fold (\<lambda>s. slot_clear s p) (clear_slots c) f"
  by (cases c) simp_all

lemma fold_slot_clear:
  "slot_owner (Some (fold (\<lambda>s. slot_clear s p) ss f)) s =
     (if s \<in> set ss then Some (MarkForRemoval p) else slot_owner (Some f) s)"
  by (induction ss arbitrary: f) (auto simp: slot_clear_owner)

lemma OwningPlugins_Clear_view:
  "owner_view (OwningPlugins_Clear c cid p op) (cid', s) =
     (if cid' = cid \<and> s \<in> set (clear_slots c) then Some (MarkForRemoval p)
      else owner_view op (cid', s))"
  by (simp add: OwningPlugins_Clear_def split_def Let_def mustOwnersFor_upd owner_view_upd
      FieldOwners_Clear_slots fold_slot_clear mustOwnersFor_view)
    (simp add: owner_view_def)

text \<open>The lookup method that goes with a claim method; CDI devices and hooks aside.\<close>

primrec claim_query :: "claim \<Rightarrow> owner_query option" where
  "claim_query (ClaimAnnotation k) = Some (AnnotationOwner k)"
| "claim_query (ClaimMount k) = Some (MountOwner k)"
| "claim_query ClaimHooks = None"
| "claim_query (ClaimDevice k) = Some (DeviceOwner k)"
| "claim_query (ClaimCdiDevice k) = None"
| "claim_query (ClaimNamespace k) = Some (NamespaceOwner k)"
| "claim_query (ClaimEnv k) = Some (EnvOwner k)"
| "claim_query ClaimArgs = Some ArgsOwner"
| "claim_query ClaimMemLimit = Some MemLimitOwner"
| "claim_query ClaimMemReservation = Some MemReservationOwner"
| "claim_query ClaimMemSwapLimit = Some MemSwapLimitOwner"
| "claim_query ClaimMemKernelLimit = Some MemKernelLimitOwner"
| "claim_query ClaimMemTCPLimit = Some MemTCPLimitOwner"
| "claim_query ClaimMemSwappiness = Some MemSwappinessOwner"
| "claim_query ClaimMemDisableOomKiller = Some MemDisableOomKillerOwner"
| "claim_query ClaimMemUseHierarchy = Some MemUseHierarchyOwner"
| "claim_query ClaimCPUShares = Some CPUSharesOwner"
| "claim_query ClaimCPUQuota = Some CPUQuotaOwner"
| "claim_query ClaimCPUPeriod = Some CPUPeriodOwner"
| "claim_query ClaimCPURealtimeRuntime = Some CPURealtimeRuntimeOwner"
| "claim_query ClaimCPURealtimePeriod = Some CPURealtimePeriodOwner"
| "claim_query ClaimCPUSetCPUs = Some CPUSetCPUsOwner"
| "claim_query ClaimCPUSetMems = Some CPUSetMemsOwner"
| "claim_query ClaimPidsLimit = Some PidsLimitOwner"
| "claim_query (ClaimHugepageLimit k) = Some (HugepageLimitOwner k)"
| "claim_query ClaimBlockioClass = Some BlockioClassOwner"
| "claim_query ClaimRdtClass = Some RdtClassOwner"
| "claim_query ClaimRdtClosID = Some RdtClosIDOwner"
| "claim_query ClaimRdtSchemata = Some RdtSchemataOwner"
| "claim_query ClaimRdtEnableMonitoring = Some RdtEnableMonitoringOwner"
| "claim_query (ClaimCgroupsUnified k) = Some (CgroupsUnifiedOwner k)"
| "claim_query ClaimCgroupsPath = Some CgroupsPathOwner"
| "claim_query ClaimOomScoreAdj = Some OomScoreAdjOwner"
| "claim_query ClaimLinuxScheduler = Some LinuxSchedulerOwner"
| "claim_query (ClaimRlimit k) = Some (RlimitOwner k)"
| "claim_query ClaimIOPriority = Some IOPriorityOwner"
| "claim_query ClaimSeccompPolicy = Some SeccompPolicyOwner"
| "claim_query (ClaimSysctl k) = Some (SysctlOwner k)"
| "claim_query (ClaimLinuxNetDevice k) = Some (LinuxNetDeviceOwner k)"

primrec query_slot :: "owner_query \<Rightarrow> slot" where
  "query_slot (AnnotationOwner k) = CompoundSlot Field_Annotations k"
| "query_slot (MountOwner k) = CompoundSlot Field_Mounts k"
| "query_slot HooksOwner = SimpleSlot Field_OciHooks"
| "query_slot (DeviceOwner k) = CompoundSlot Field_Devices k"
| "query_slot (NamespaceOwner k) = CompoundSlot Field_Namespace k"
| "query_slot (EnvOwner k) = CompoundSlot Field_Env k"
| "query_slot ArgsOwner = SimpleSlot Field_Args"
| "query_slot MemLimitOwner = SimpleSlot Field_MemLimit"
| "query_slot MemReservationOwner = SimpleSlot Field_MemReservation"
| "query_slot MemSwapLimitOwner = SimpleSlot Field_MemSwapLimit"
| "query_slot MemKernelLimitOwner = SimpleSlot Field_MemKernelLimit"
| "query_slot MemTCPLimitOwner = SimpleSlot Field_MemTCPLimit"
| "query_slot MemSwappinessOwner = SimpleSlot Field_MemSwappiness"
| "query_slot MemDisableOomKillerOwner = SimpleSlot Field_MemDisableOomKiller"
| "query_slot MemUseHierarchyOwner = SimpleSlot Field_MemUseHierarchy"
| "query_slot CPUSharesOwner = SimpleSlot Field_CPUShares"
| "query_slot CPUQuotaOwner = SimpleSlot Field_CPUQuota"
| "query_slot CPUPeriodOwner = SimpleSlot Field_CPUPeriod"
| "query_slot CPURealtimeRuntimeOwner = SimpleSlot Field_CPURealtimeRuntime"
| "query_slot CPURealtimePeriodOwner = SimpleSlot Field_CPURealtimePeriod"
| "query_slot CPUSetCPUsOwner = SimpleSlot Field_CPUSetCPUs"
| "query_slot CPUSetMemsOwner = SimpleSlot Field_CPUSetMems"
| "query_slot PidsLimitOwner = SimpleSlot Field_PidsLimit"
| "query_slot (HugepageLimitOwner k) = CompoundSlot Field_HugepageLimits k"
| "query_slot BlockioClassOwner = SimpleSlot Field_BlockioClass"
| "query_slot RdtClassOwner = SimpleSlot Field_RdtClass"
| "query_slot RdtClosIDOwner = SimpleSlot Field_RdtClosID"
| "query_slot RdtSchemataOwner = SimpleSlot Field_RdtSchemata"
| "query_slot RdtEnableMonitoringOwner = SimpleSlot Field_RdtEnableMonitoring"
| "query_slot (CgroupsUnifiedOwner k) = CompoundSlot Field_CgroupsUnified k"
| "query_slot CgroupsPathOwner = SimpleSlot Field_CgroupsPath"
| "query_slot OomScoreAdjOwner = SimpleSlot Field_OomScoreAdj"
| "query_slot LinuxSchedulerOwner = SimpleSlot Field_LinuxSched"
| "query_slot (RlimitOwner k) = CompoundSlot Field_Rlimits k"
| "query_slot IOPriorityOwner = SimpleSlot Field_IoPriority"
| "query_slot SeccompPolicyOwner = SimpleSlot Field_SeccompPolicy"
| "query_slot (SysctlOwner k) = CompoundSlot Field_Sysctl k"
| "query_slot (LinuxNetDeviceOwner k) = CompoundSlot Field_LinuxNetDevices k"

lemma OwningPlugins_Owner_view: "OwningPlugins_Owner q cid op = owner_view op (cid, query_slot q)"
  by (cases q) (simp_all add: owner_view_def)

lemma query_slot_inj: "query_slot q = query_slot r \<Longrightarrow> q = r"
  by (cases q; cases r; simp)

lemma claim_query_slot: "claim_query c = Some q \<Longrightarrow> query_slot q = claim_slot c"
  by (cases c) auto

lemma claim_query_not_hooks: "claim_query c = Some q \<Longrightarrow> c \<noteq> ClaimHooks"
  by auto

section \<open>Properties\<close>

text \<open>
  C22. The per-field claim methods, but that for the OCI hooks, refine the flat registry. A claim by plugin p goes through
  exactly when the field of that container is unowned or carries p's own removal marker; then p
  owns that field and the rest of the registry is untouched. Otherwise it fails with the conflict
  that names p, the culprit (the owner, or who left the marker) and the entry, and changes nothing.
  No claim panics.
\<close>

theorem OwningPlugins_Claim_refines:
  assumes "c \<noteq> ClaimHooks" and "OwningPlugins_Claim c cid p op = (st, op')"
  shows "(case owner_view op (cid, claim_slot c) of
       None \<Rightarrow> st = Done \<and> owner_view op' = (owner_view op)((cid, claim_slot c) \<mapsto> p)
     | Some w \<Rightarrow>
         if w = MarkForRemoval p
         then st = Done \<and> owner_view op' = (owner_view op)((cid, claim_slot c) \<mapsto> p)
         else st = Failed (slot_clash (cid, claim_slot c) p (fst (IsMarkedForRemoval w))) \<and>
              owner_view op' = owner_view op)"
proof -
  have r: "claim_at (cid, claim_slot c) p op = (st, op')"
    using assms by (simp add: OwningPlugins_Claim_at)
  show ?thesis
    using ow.claim_free [of p op "(cid, claim_slot c)"]
      ow.claim_taken [of op "(cid, claim_slot c)" _ p]
    by (auto simp: r may_claim_def split: option.split)
qed

theorem OwningPlugins_Claim_refines_witness:
  "ClaimMemLimit \<noteq> ClaimHooks \<and>
   owner_view (snd (OwningPlugins_Claim ClaimMemLimit ''c'' ''10-a'' NewOwningPlugins))
     (''c'', SimpleSlot Field_MemLimit) = Some ''10-a''"
proof -
  obtain st op' where r: "OwningPlugins_Claim ClaimMemLimit ''c'' ''10-a'' NewOwningPlugins = (st, op')"
    by (cases "OwningPlugins_Claim ClaimMemLimit ''c'' ''10-a'' NewOwningPlugins")
  have "owner_view NewOwningPlugins (''c'', SimpleSlot Field_MemLimit) = None"
    by (simp add: owner_view_def ownersFor_def NewOwningPlugins_def simpleOwner_def)
  with OwningPlugins_Claim_refines [OF _ r] show ?thesis by (simp add: r)
qed

text \<open>
  Exclusive ownership, from the empty store: a sequence of claims, over any containers, fields
  and plugins, goes through if and only if no field of any container is claimed twice, be it by two
  plugins or by one.
\<close>

theorem fresh_claims_iff_distinct:
  assumes "\<forall>(cid, c, p) \<in> set reqs. c \<noteq> ClaimHooks \<and> unmarked p"
  shows "fst (for_each reqs (\<lambda>(cid, c, p). OwningPlugins_Claim c cid p) NewOwningPlugins) = Done \<longleftrightarrow>
    distinct (map (\<lambda>(cid, c, p). (cid, claim_slot c)) reqs)"
proof -
  let ?rs = "map (\<lambda>(cid, c, p). ((cid, claim_slot c), p)) reqs"
  have "map (\<lambda>(cid, c, p). OwningPlugins_Claim c cid p) reqs = map (\<lambda>(k, p). claim_at k p) ?rs"
    using assms by (auto simp: OwningPlugins_Claim_at)
  then have seq: "for_each reqs (\<lambda>(cid, c, p). OwningPlugins_Claim c cid p) = claim_seq claim_at ?rs"
    by (simp only: for_each_def claim_seq_def)
  have names: "\<forall>(k, p) \<in> set ?rs. unmarked p" using assms by auto
  have free: "\<forall>(k, p) \<in> set ?rs. may_claim p (owner_view NewOwningPlugins k)"
    by (auto simp: may_claim_def owner_view_def ownersFor_def NewOwningPlugins_def slot_owner_nil)
  have keys: "map fst ?rs = map (\<lambda>(cid, c, p). (cid, claim_slot c)) reqs" by auto
  show ?thesis
    using ow.claim_seq_Done_iff [OF names, of NewOwningPlugins] free unfolding seq keys by blast
qed

theorem fresh_claims_iff_distinct_witness:
  "fst (for_each [(''c'', ClaimEnv ''A'', ''10-a''), (''c'', ClaimEnv ''A'', ''20-b'')]
     (\<lambda>(cid, c, p). OwningPlugins_Claim c cid p) NewOwningPlugins) \<noteq> Done"
proof -
  have "\<forall>(cid, c, p) \<in> set [(''c'', ClaimEnv ''A'', ''10-a''), (''c'', ClaimEnv ''A'', ''20-b'')].
      c \<noteq> ClaimHooks \<and> unmarked p"
    by (simp add: unmarked_def IsMarkedForRemoval_def)
  from fresh_claims_iff_distinct [OF this] show ?thesis by simp
qed

text \<open>
  An owner stays: once a plugin owns a field of a container, no sequence of further claims, by
  anybody and whether they succeed or not, takes it over; only a clear can.
\<close>

theorem claims_keep_owner:
  assumes "owner_view op ks = Some p" and "unmarked p"
    and "\<forall>(cid, c, q) \<in> set reqs. c \<noteq> ClaimHooks"
  shows "owner_view (fold (\<lambda>(cid, c, q) op. snd (OwningPlugins_Claim c cid q op)) reqs op) ks = Some p"
  using assms
proof (induction reqs arbitrary: op)
  case Nil
  then show ?case by simp
next
  case (Cons r reqs)
  obtain cid c q where r: "r = (cid, c, q)" by (cases r) auto
  have "owner_view (snd (OwningPlugins_Claim c cid q op)) ks = Some p"
    using Cons.prems ow.may_claim_own [of p q]
    by (auto simp: r OwningPlugins_Claim_at ow.claim_view)
  with Cons show ?case by (simp add: r)
qed

theorem claims_keep_owner_witness:
  "owner_view (fold (\<lambda>(cid, c, q) op. snd (OwningPlugins_Claim c cid q op))
     [(''c'', ClaimArgs, ''20-b'')] (snd (OwningPlugins_Claim ClaimArgs ''c'' ''10-a'' NewOwningPlugins)))
     (''c'', SimpleSlot Field_Args) = Some ''10-a''"
  by (rule claims_keep_owner)
    (simp_all add: OwningPlugins_Claim_at ow.claim_view owner_view_def ownersFor_def
      NewOwningPlugins_def simpleOwner_def may_claim_def unmarked_def IsMarkedForRemoval_def)

text \<open>
  A clear hands a field over to the plugin that cleared it and to nobody else: right after
  plugin p cleared the field of a claim method, that claim by q goes through exactly when q is p.
\<close>

theorem clear_hands_over:
  assumes "claim_slot c \<in> set (clear_slots d)" and "c \<noteq> ClaimHooks"
  shows "fst (OwningPlugins_Claim c cid q (OwningPlugins_Clear d cid p op)) = Done \<longleftrightarrow> q = p"
  using assms
  by (simp add: OwningPlugins_Claim_at ow.claim_Done_iff OwningPlugins_Clear_view may_claim_def
      rm.mark_inj) auto

theorem clear_hands_over_witness:
  "fst (OwningPlugins_Claim ClaimRdtSchemata ''c'' ''10-a''
     (OwningPlugins_Clear ClearRdt ''c'' ''10-a'' NewOwningPlugins)) = Done"
  by (subst clear_hands_over) simp_all

text \<open>
  Claims are what lookups report: after a claim that went through, the lookup method of the
  same name on the same container answers the claiming plugin, and every other lookup, of any
  field, entry and container, answers what it did before.
\<close>

theorem claim_then_lookup:
  assumes "claim_query c = Some q" and "OwningPlugins_Claim c cid p op = (Done, op')"
  shows "OwningPlugins_Owner q cid op' = Some p \<and>
    (\<forall>r cid'. (r, cid') \<noteq> (q, cid) \<longrightarrow>
       OwningPlugins_Owner r cid' op' = OwningPlugins_Owner r cid' op)"
proof -
  have c: "c \<noteq> ClaimHooks" using assms(1) by (rule claim_query_not_hooks)
  have q: "query_slot q = claim_slot c" using assms(1) by (rule claim_query_slot)
  have "owner_view op' = (owner_view op)((cid, claim_slot c) \<mapsto> p)"
    using assms(2) c ow.claim_step [of "(cid, claim_slot c)" p op op'] ow.claim_view
    by (auto simp: OwningPlugins_Claim_at)
  then show ?thesis
    by (auto simp: OwningPlugins_Owner_view q [symmetric] dest: query_slot_inj)
qed

theorem claim_then_lookup_witness:
  "OwningPlugins_Owner (MountOwner ''/data'') ''c''
     (snd (OwningPlugins_Claim (ClaimMount ''/data'') ''c'' ''10-a'' NewOwningPlugins)) = Some ''10-a''"
proof -
  obtain st op' where r: "OwningPlugins_Claim (ClaimMount ''/data'') ''c'' ''10-a'' NewOwningPlugins = (st, op')"
    by (cases "OwningPlugins_Claim (ClaimMount ''/data'') ''c'' ''10-a'' NewOwningPlugins")
  have "st = Done"
    using ow.claim_Done_iff [of "(''c'', CompoundSlot Field_Mounts ''/data'')" "''10-a''" NewOwningPlugins]
    by (simp add: OwningPlugins_Claim_at [symmetric] r [symmetric] may_claim_def owner_view_def
        ownersFor_def NewOwningPlugins_def compoundOwner_def)
      (use r in \<open>simp add: OwningPlugins_Claim_at NewOwningPlugins_def\<close>)
  with r claim_then_lookup [of "ClaimMount ''/data''" "MountOwner ''/data''" "''c''" "''10-a''"]
  show ?thesis by simp
qed

text \<open>
  Hook ownership as the code has it: claiming hooks never fails; the first claimer is recorded;
  every later claim leaves nothing but the removal marker of the last claimer, because the joined
  list of plugins is refused against the marker the method has just stored and that refusal is
  dropped. The earlier claimers are forgotten.
\<close>

theorem ClaimHooks_owner:
  "fst (OwningPlugins_Claim ClaimHooks cid p op) = Done \<and>
   OwningPlugins_Owner HooksOwner cid (snd (OwningPlugins_Claim ClaimHooks cid p op)) =
     (case OwningPlugins_Owner HooksOwner cid op of
        None \<Rightarrow> Some p
      | Some current \<Rightarrow> Some (MarkForRemoval p))"
proof -
  have "length p \<noteq> length (w @ CHR '','' # p)" for w :: string by simp
  then have joined: "p \<noteq> w @ CHR '','' # p" for w by metis
  have store: "simpleOwner k (Some (snd (claimSimple k (w @ CHR '','' # p) (clearSimple k p f)))) =
      Some (MarkForRemoval p)" for k w f
    using joined [of w]
    by (simp add: claimSimple_def clearSimple_def IsSimpleConflict_def simpleOwner_def rm.check_mark)
  have first: "simpleOwner k (Some f) = None \<Longrightarrow>
      simpleOwner k (Some (snd (claimSimple k p f))) = Some p" for k f
    by (simp add: claimSimple_def IsSimpleConflict_def simpleOwner_def)
  have "simpleOwner k (Some (fst (mustOwnersFor cid op))) = simpleOwner k (ownersFor cid op)" for k
    by (auto simp: mustOwnersFor_def ownersFor_def simpleOwner_def NewFieldOwners_def
        split: option.split)
  then show ?thesis
    by (auto simp: OwningPlugins_Claim_def FieldOwners_ClaimHooks_def split_def Let_def
        mustOwnersFor_upd ownersFor_def store first split: option.splits)
qed

text \<open>
  The per-container namespace lookup (\<^verbatim>\<open>FieldOwners.NamespaceOwner\<close>) reads the device owners: it
  answers what the device lookup answers, and misses the namespace claim just made.
\<close>

theorem FieldOwners_NamespaceOwner_reads_devices:
  "FieldOwners_Owner (FO_NamespaceOwner typ) f = FieldOwners_Owner (FO_DeviceOwner typ) f \<and>
   FieldOwners_Owner (FO_NamespaceOwner typ)
     (Some (snd (FieldOwners_Claim (ClaimNamespace typ) p NewFieldOwners))) = None"
  by (simp add: claimCompound_def IsCompoundConflict_def NewFieldOwners_def
      NewCompoundFieldOwners_def compoundOwner_def)

end
