(* ===== verification/Optional.thy ===== *)
theory Optional
  imports API_Types
begin

text \<open>
  The constructors and accessors of the optional scalar messages (\<^verbatim>\<open>src/pkg/api/optional.go\<close>). The
  constructors take an \<^verbatim>\<open>interface{}\<close> and switch on its dynamic type: \<open>iface\<close> has one constructor per
  dynamic type that some switch mentions, and \<open>If_other\<close> for every other type and the nil
  interface. \<^verbatim>\<open>int\<close> and \<^verbatim>\<open>uint\<close> are the 64-bit ones of the supported platforms, so Go's conversions
  here are between words of one width and keep the bits.

  The locale \<open>optional_wrapper\<close> is the contract the callers rely on (a native value, a pointer to one
  and an optional of the same type are all carried over, nil to nil), interpreted for each of
  the nine types.
\<close>

section \<open>Dynamic types\<close>

datatype iface =
    If_string string | If_string_ptr "string option" | If_OptionalString "string option"
  | If_strings "string list" | If_strings_ptr "string list option"
  | If_OptionalRepeatedString "string list option"
  | If_int int64 | If_int_ptr "int64 option" | If_OptionalInt "int64 option"
  | If_int32 int32 | If_int32_ptr "int32 option" | If_OptionalInt32 "int32 option"
  | If_uint32 uint32 | If_uint32_ptr "uint32 option" | If_OptionalUInt32 "uint32 option"
  | If_int64 int64 | If_int64_ptr "int64 option" | If_OptionalInt64 "int64 option"
  | If_uint uint64 | If_uint64 uint64 | If_uint64_ptr "uint64 option"
  | If_OptionalUInt64 "uint64 option"
  | If_bool bool | If_bool_ptr "bool option" | If_OptionalBool "bool option"
  | If_FileMode uint32 | If_FileMode_ptr "uint32 option" | If_OptionalFileMode "uint32 option"
  | If_other

section \<open>Constructors and accessors\<close>

definition String :: "iface \<Rightarrow> string option" where
  "String v = (case v of
     If_string x \<Rightarrow> Some x
   | If_string_ptr p \<Rightarrow> (case p of None \<Rightarrow> None | Some x \<Rightarrow> Some x)
   | If_OptionalString p \<Rightarrow> (case p of None \<Rightarrow> None | Some x \<Rightarrow> Some x)
   | _ \<Rightarrow> None)"

definition OptionalString_Get :: "string option \<Rightarrow> string option" where
  "OptionalString_Get p = (case p of None \<Rightarrow> None | Some v \<Rightarrow> Some v)"

definition RepeatedString :: "iface \<Rightarrow> string list option" where
  "RepeatedString v = (case v of
     If_strings xs \<Rightarrow> Some xs
   | If_strings_ptr p \<Rightarrow> (case p of None \<Rightarrow> None | Some xs \<Rightarrow> Some xs)
   | If_OptionalRepeatedString p \<Rightarrow> (case p of None \<Rightarrow> None | Some xs \<Rightarrow> Some xs)
   | _ \<Rightarrow> None)"

definition OptionalRepeatedString_Get :: "string list option \<Rightarrow> string list option" where
  "OptionalRepeatedString_Get p = (case p of None \<Rightarrow> None | Some v \<Rightarrow> Some v)"

definition Int_opt :: "iface \<Rightarrow> int64 option" where
  "Int_opt v = (case v of
     If_int x \<Rightarrow> Some x
   | If_int_ptr p \<Rightarrow> (case p of None \<Rightarrow> None | Some x \<Rightarrow> Some x)
   | If_OptionalInt p \<Rightarrow> (case p of None \<Rightarrow> None | Some x \<Rightarrow> Some x)
   | _ \<Rightarrow> None)"

definition OptionalInt_Get :: "int64 option \<Rightarrow> int64 option" where
  "OptionalInt_Get p = (case p of None \<Rightarrow> None | Some v \<Rightarrow> Some v)"

definition Int32 :: "iface \<Rightarrow> int32 option" where
  "Int32 v = (case v of
     If_int32 x \<Rightarrow> Some x
   | If_int32_ptr p \<Rightarrow> (case p of None \<Rightarrow> None | Some x \<Rightarrow> Some x)
   | If_OptionalInt32 p \<Rightarrow> (case p of None \<Rightarrow> None | Some x \<Rightarrow> Some x)
   | _ \<Rightarrow> None)"

definition OptionalInt32_Get :: "int32 option \<Rightarrow> int32 option" where
  "OptionalInt32_Get p = (case p of None \<Rightarrow> None | Some v \<Rightarrow> Some v)"

definition UInt32 :: "iface \<Rightarrow> uint32 option" where
  "UInt32 v = (case v of
     If_uint32 x \<Rightarrow> Some x
   | If_uint32_ptr p \<Rightarrow> (case p of None \<Rightarrow> None | Some x \<Rightarrow> Some x)
   | If_OptionalUInt32 p \<Rightarrow> (case p of None \<Rightarrow> None | Some x \<Rightarrow> Some x)
   | _ \<Rightarrow> None)"

definition OptionalUInt32_Get :: "uint32 option \<Rightarrow> uint32 option" where
  "OptionalUInt32_Get p = (case p of None \<Rightarrow> None | Some v \<Rightarrow> Some v)"

definition Int64 :: "iface \<Rightarrow> int64 option" where
  "Int64 v = (case v of
     If_int x \<Rightarrow> Some x
   | If_uint x \<Rightarrow> Some x
   | If_uint64 x \<Rightarrow> Some x
   | If_int64 x \<Rightarrow> Some x
   | If_int64_ptr p \<Rightarrow> (case p of None \<Rightarrow> None | Some x \<Rightarrow> Some x)
   | If_uint64_ptr p \<Rightarrow> (case p of None \<Rightarrow> None | Some x \<Rightarrow> Some x)
   | If_OptionalInt64 p \<Rightarrow> (case p of None \<Rightarrow> None | Some x \<Rightarrow> Some x)
   | _ \<Rightarrow> None)"

definition OptionalInt64_Get :: "int64 option \<Rightarrow> int64 option" where
  "OptionalInt64_Get p = (case p of None \<Rightarrow> None | Some v \<Rightarrow> Some v)"

definition UInt64 :: "iface \<Rightarrow> uint64 option" where
  "UInt64 v = (case v of
     If_int x \<Rightarrow> Some x
   | If_uint x \<Rightarrow> Some x
   | If_int64 x \<Rightarrow> Some x
   | If_uint64 x \<Rightarrow> Some x
   | If_int64_ptr p \<Rightarrow> (case p of None \<Rightarrow> None | Some x \<Rightarrow> Some x)
   | If_uint64_ptr p \<Rightarrow> (case p of None \<Rightarrow> None | Some x \<Rightarrow> Some x)
   | If_OptionalUInt64 p \<Rightarrow> (case p of None \<Rightarrow> None | Some x \<Rightarrow> Some x)
   | _ \<Rightarrow> None)"

definition OptionalUInt64_Get :: "uint64 option \<Rightarrow> uint64 option" where
  "OptionalUInt64_Get p = (case p of None \<Rightarrow> None | Some v \<Rightarrow> Some v)"

definition Bool :: "iface \<Rightarrow> bool option" where
  "Bool v = (case v of
     If_bool x \<Rightarrow> Some x
   | If_bool_ptr p \<Rightarrow> (case p of None \<Rightarrow> None | Some x \<Rightarrow> Some x)
   | If_OptionalBool p \<Rightarrow> (case p of None \<Rightarrow> None | Some x \<Rightarrow> Some x)
   | _ \<Rightarrow> None)"

definition OptionalBool_Get :: "bool option \<Rightarrow> bool option" where
  "OptionalBool_Get p = (case p of None \<Rightarrow> None | Some v \<Rightarrow> Some v)"

definition FileMode :: "iface \<Rightarrow> uint32 option" where
  "FileMode v = (case v of
     If_FileMode_ptr p \<Rightarrow> (case p of None \<Rightarrow> None | Some x \<Rightarrow> Some x)
   | If_FileMode x \<Rightarrow> Some x
   | If_OptionalFileMode p \<Rightarrow> (case p of None \<Rightarrow> None | Some x \<Rightarrow> Some x)
   | If_uint32 x \<Rightarrow> Some x
   | _ \<Rightarrow> None)"

definition OptionalFileMode_Get :: "uint32 option \<Rightarrow> uint32 option" where
  "OptionalFileMode_Get p = (case p of None \<Rightarrow> None | Some v \<Rightarrow> Some v)"

lemmas optional_defs = String_def RepeatedString_def Int_opt_def Int32_def UInt32_def Int64_def
  UInt64_def Bool_def FileMode_def

lemmas optional_get_defs = OptionalString_Get_def OptionalRepeatedString_Get_def
  OptionalInt_Get_def OptionalInt32_Get_def OptionalUInt32_Get_def OptionalInt64_Get_def
  OptionalUInt64_Get_def OptionalBool_Get_def OptionalFileMode_Get_def

section \<open>The contract\<close>

locale optional_wrapper =
  fixes wrap :: "iface \<Rightarrow> 'v option"
    and get :: "'v option \<Rightarrow> 'v option"
    and native :: "'v \<Rightarrow> iface"
    and pointer :: "'v option \<Rightarrow> iface"
    and optional :: "'v option \<Rightarrow> iface"
  assumes wrap_native [simp]: "wrap (native v) = Some v"
    and wrap_pointer [simp]: "wrap (pointer p) = p"
    and wrap_optional [simp]: "wrap (optional p) = p"
    and get_id [simp]: "get p = p"
    and wrap_other [simp]: "wrap If_other = None"
begin

lemma get_wrap_pointer: "get (wrap (pointer p)) = p"
  by simp

lemma copy_wrap: "wrap (optional (wrap v)) = wrap v"
  by simp

lemma wrap_onto: "\<exists>v. wrap v = p"
  by (rule exI [of _ "pointer p"]) simp

end

interpretation opt_string:
  optional_wrapper String OptionalString_Get If_string If_string_ptr If_OptionalString
  by unfold_locales (simp_all add: optional_defs optional_get_defs split: option.split)

interpretation opt_strings: optional_wrapper RepeatedString OptionalRepeatedString_Get If_strings
    If_strings_ptr If_OptionalRepeatedString
  by unfold_locales (simp_all add: optional_defs optional_get_defs split: option.split)

interpretation opt_int: optional_wrapper Int_opt OptionalInt_Get If_int If_int_ptr If_OptionalInt
  by unfold_locales (simp_all add: optional_defs optional_get_defs split: option.split)

interpretation opt_int32:
  optional_wrapper Int32 OptionalInt32_Get If_int32 If_int32_ptr If_OptionalInt32
  by unfold_locales (simp_all add: optional_defs optional_get_defs split: option.split)

interpretation opt_uint32:
  optional_wrapper UInt32 OptionalUInt32_Get If_uint32 If_uint32_ptr If_OptionalUInt32
  by unfold_locales (simp_all add: optional_defs optional_get_defs split: option.split)

interpretation opt_int64:
  optional_wrapper Int64 OptionalInt64_Get If_int64 If_int64_ptr If_OptionalInt64
  by unfold_locales (simp_all add: optional_defs optional_get_defs split: option.split)

interpretation opt_uint64:
  optional_wrapper UInt64 OptionalUInt64_Get If_uint64 If_uint64_ptr If_OptionalUInt64
  by unfold_locales (simp_all add: optional_defs optional_get_defs split: option.split)

interpretation opt_bool: optional_wrapper Bool OptionalBool_Get If_bool If_bool_ptr If_OptionalBool
  by unfold_locales (simp_all add: optional_defs optional_get_defs split: option.split)

interpretation opt_filemode: optional_wrapper FileMode OptionalFileMode_Get If_FileMode
    If_FileMode_ptr If_OptionalFileMode
  by unfold_locales (simp_all add: optional_defs optional_get_defs split: option.split)

section \<open>Properties\<close>

text \<open>
  Crossing between the signed and the unsigned 64-bit optional keeps the value in range and
  wraps around outside it: an unsigned value read back as signed is itself below 2^63 and is 2^64
  too small from there on; a signed value stored as unsigned is itself when it is not negative and
  2^64 too large otherwise.
\<close>

theorem optional_sign_conversion:
  "\<exists>s u. Int64 (If_uint64 x) = Some s \<and> UInt64 (If_int64 y) = Some u \<and>
     sint s = (if uint x < 2 ^ 63 then uint x else uint x - 2 ^ 64) \<and>
     uint u = (if 0 \<le> sint y then sint y else sint y + 2 ^ 64)"
proof (intro exI conjI)
  show "Int64 (If_uint64 x) = Some x" by (simp add: Int64_def)
  show "UInt64 (If_int64 y) = Some y" by (simp add: UInt64_def)
  have sint_range: "sint (w :: 64 word) = (if uint w < 2 ^ 63 then uint w else uint w - 2 ^ 64)" for w
  proof -
    have range: "0 \<le> uint w" "uint w < 2 ^ 64" using uint_lt2p [of w] by simp_all
    have "sint w = signed_take_bit 63 (uint w)" by (simp add: sint_uint)
    also have "\<dots> = (uint w + 2 ^ 63) mod 2 ^ 64 - 2 ^ 63"
      by (simp add: signed_take_bit_eq_take_bit_shift take_bit_eq_mod)
    also have "(uint w + 2 ^ 63) mod 2 ^ 64 =
        (if uint w < 2 ^ 63 then uint w + 2 ^ 63 else uint w - 2 ^ 63)"
    proof (cases "uint w < 2 ^ 63")
      case True
      then show ?thesis using range by simp
    next
      case False
      have "(uint w + 2 ^ 63) mod 2 ^ 64 = ((uint w - 2 ^ 63) + 2 ^ 64) mod 2 ^ 64"
        by (simp add: add.commute)
      also have "\<dots> = uint w - 2 ^ 63"
        using False range by (subst mod_add_self2) (simp add: mod_pos_pos_trivial)
      finally show ?thesis using False by simp
    qed
    finally show ?thesis by auto
  qed
  show "sint x = (if uint x < 2 ^ 63 then uint x else uint x - 2 ^ 64)" by (rule sint_range)
  have "0 \<le> uint y" "uint y < 2 ^ 64" using uint_lt2p [of y] by simp_all
  then show "uint y = (if 0 \<le> sint y then sint y else sint y + 2 ^ 64)"
    unfolding sint_range [of y] by auto
qed

text \<open>
  A constructor gives nil without any error for a dynamic type its switch does not list: the integer
  constructor drops 64-bit integers, and the fixed-width ones drop the other widths.
\<close>

lemma optional_unlisted_types:
  "Int_opt (If_int64 x) = None" "Int_opt (If_int64_ptr p) = None" "Int32 (If_uint32 w) = None"
  "UInt32 (If_int32 w) = None" "Int64 (If_int32 w) = None" "UInt64 (If_uint32 w) = None"
  by (simp_all add: optional_defs)

end
