(* ===== verification/Resources.thy ===== *)
theory Resources
  imports API_Helpers Optional
begin

text \<open>
  Container resources (\<^verbatim>\<open>src/pkg/api/resources.go\<close>): the deep copies the adaptation works on, and the
  conversions between the API's message and the OCI runtime specification's structs. Of the
  latter the records below have the fields the conversions read or write; a pointer is an
  \<open>option\<close>.
\<close>

section \<open>OCI structs\<close>

record oci_memory =
  om_limit :: "int64 option"
  om_reservation :: "int64 option"
  om_swap :: "int64 option"
  om_kernel :: "int64 option"
  om_kernel_tcp :: "int64 option"
  om_swappiness :: "uint64 option"
  om_disable_oom_killer :: "bool option"
  om_use_hierarchy :: "bool option"

record oci_cpu =
  oc_shares :: "uint64 option"
  oc_quota :: "int64 option"
  oc_period :: "uint64 option"
  oc_realtime_runtime :: "int64 option"
  oc_realtime_period :: "uint64 option"
  oc_cpus :: string
  oc_mems :: string

record oci_hugepage_limit =
  oh_pagesize :: string
  oh_limit :: uint64

record oci_device_cgroup =
  od_allow :: bool
  od_type :: string
  od_major :: "int64 option"
  od_minor :: "int64 option"
  od_access :: string

record oci_resources =
  or_devices :: "oci_device_cgroup list"
  or_memory :: "oci_memory option"
  or_cpu :: "oci_cpu option"
  or_pids :: "int64 option option"
  or_hugepage_limits :: "oci_hugepage_limit list"
  or_unified :: "(string, string) gomap option"

text \<open>\<open>or_pids\<close>: a pointer to a struct whose one field, \<^verbatim>\<open>Limit\<close>, is a pointer.\<close>

definition zero_oci_memory :: oci_memory where
  "zero_oci_memory = \<lparr>om_limit = None, om_reservation = None, om_swap = None, om_kernel = None,
     om_kernel_tcp = None, om_swappiness = None, om_disable_oom_killer = None,
     om_use_hierarchy = None\<rparr>"

definition zero_oci_cpu :: oci_cpu where
  "zero_oci_cpu = \<lparr>oc_shares = None, oc_quota = None, oc_period = None,
     oc_realtime_runtime = None, oc_realtime_period = None, oc_cpus = [], oc_mems = []\<rparr>"

section \<open>Copies\<close>

text \<open>\<^verbatim>\<open>if len(m) != 0 { o = make(map...); for k, v := range m { o[k] = v } }\<close>\<close>

definition copy_nonempty_map :: "(string, string) gomap option \<Rightarrow> (string, string) gomap option" where
  "copy_nonempty_map m =
     (if gmap_entries m = [] then None
      else Some (fold (\<lambda>(k, v) out. AList.update k v out) (gmap_entries m) []))"

definition LinuxMemory_copy :: "linux_memory \<Rightarrow> linux_memory" where
  "LinuxMemory_copy m = \<lparr>
     mem_limit = Int64 (If_OptionalInt64 (mem_limit m)),
     mem_reservation = Int64 (If_OptionalInt64 (mem_reservation m)),
     mem_swap = Int64 (If_OptionalInt64 (mem_swap m)),
     mem_kernel = Int64 (If_OptionalInt64 (mem_kernel m)),
     mem_kernel_tcp = Int64 (If_OptionalInt64 (mem_kernel_tcp m)),
     mem_swappiness = UInt64 (If_OptionalUInt64 (mem_swappiness m)),
     mem_disable_oom_killer = Bool (If_OptionalBool (mem_disable_oom_killer m)),
     mem_use_hierarchy = Bool (If_OptionalBool (mem_use_hierarchy m))\<rparr>"

definition LinuxCPU_copy :: "linux_cpu \<Rightarrow> linux_cpu" where
  "LinuxCPU_copy c = \<lparr>
     cpu_shares = UInt64 (If_OptionalUInt64 (cpu_shares c)),
     cpu_quota = Int64 (If_OptionalInt64 (cpu_quota c)),
     cpu_period = UInt64 (If_OptionalUInt64 (cpu_period c)),
     cpu_realtime_runtime = Int64 (If_OptionalInt64 (cpu_realtime_runtime c)),
     cpu_realtime_period = UInt64 (If_OptionalUInt64 (cpu_realtime_period c)),
     cpu_cpus = cpu_cpus c,
     cpu_mems = cpu_mems c\<rparr>"

definition LinuxResources_Copy :: "linux_resources option \<Rightarrow> linux_resources option" where
  "LinuxResources_Copy r =
     (case r of None \<Rightarrow> None
      | Some r \<Rightarrow> Some \<lparr>
          res_memory = (case res_memory r of None \<Rightarrow> None | Some m \<Rightarrow> Some (LinuxMemory_copy m)),
          res_cpu = (case res_cpu r of None \<Rightarrow> None | Some c \<Rightarrow> Some (LinuxCPU_copy c)),
          res_hugepage_limits =
            map (\<lambda>l. \<lparr>hp_page_size = hp_page_size l, hp_limit = hp_limit l\<rparr>) (res_hugepage_limits r),
          res_blockio_class = String (If_OptionalString (res_blockio_class r)),
          res_rdt_class = String (If_OptionalString (res_rdt_class r)),
          res_unified = copy_nonempty_map (res_unified r),
          res_devices =
            map (\<lambda>d. \<lparr>dcg_allow = dcg_allow d, dcg_type = dcg_type d,
                 dcg_major = Int64 (If_OptionalInt64 (dcg_major d)),
                 dcg_minor = Int64 (If_OptionalInt64 (dcg_minor d)),
                 dcg_access = dcg_access d\<rparr>) (res_devices r),
          res_pids =
            (case res_pids r of None \<Rightarrow> None | Some p \<Rightarrow> Some \<lparr>pids_limit = pids_limit p\<rparr>)\<rparr>)"

definition LinuxRdt_Copy :: "linux_rdt option \<Rightarrow> linux_rdt option" where
  "LinuxRdt_Copy r =
     (case r of None \<Rightarrow> None
      | Some r \<Rightarrow> Some \<lparr>
          rdt_clos_id = String (If_OptionalString (rdt_clos_id r)),
          rdt_schemata = RepeatedString (If_OptionalRepeatedString (rdt_schemata r)),
          rdt_enable_monitoring = Bool (If_OptionalBool (rdt_enable_monitoring r)),
          rdt_remove = False\<rparr>)"

section \<open>Conversions\<close>

definition UnlimitedPidsLimit :: int where
  "UnlimitedPidsLimit = -1"

definition FromOCILinuxResources :: "oci_resources option \<Rightarrow> linux_resources option" where
  "FromOCILinuxResources inp =
     (case inp of None \<Rightarrow> None
      | Some o' \<Rightarrow> Some (zero_resources\<lparr>
          res_memory := (case or_memory o' of None \<Rightarrow> None
            | Some m \<Rightarrow> Some \<lparr>
                mem_limit = Int64 (If_int64_ptr (om_limit m)),
                mem_reservation = Int64 (If_int64_ptr (om_reservation m)),
                mem_swap = Int64 (If_int64_ptr (om_swap m)),
                mem_kernel = Int64 (If_int64_ptr (om_kernel m)),
                mem_kernel_tcp = Int64 (If_int64_ptr (om_kernel_tcp m)),
                mem_swappiness = UInt64 (If_uint64_ptr (om_swappiness m)),
                mem_disable_oom_killer = Bool (If_bool_ptr (om_disable_oom_killer m)),
                mem_use_hierarchy = Bool (If_bool_ptr (om_use_hierarchy m))\<rparr>),
          res_cpu := (case or_cpu o' of None \<Rightarrow> None
            | Some c \<Rightarrow> Some \<lparr>
                cpu_shares = UInt64 (If_uint64_ptr (oc_shares c)),
                cpu_quota = Int64 (If_int64_ptr (oc_quota c)),
                cpu_period = UInt64 (If_uint64_ptr (oc_period c)),
                cpu_realtime_runtime = Int64 (If_int64_ptr (oc_realtime_runtime c)),
                cpu_realtime_period = UInt64 (If_uint64_ptr (oc_realtime_period c)),
                cpu_cpus = oc_cpus c,
                cpu_mems = oc_mems c\<rparr>),
          res_hugepage_limits :=
            map (\<lambda>h. \<lparr>hp_page_size = oh_pagesize h, hp_limit = oh_limit h\<rparr>) (or_hugepage_limits o'),
          res_devices :=
            map (\<lambda>d. \<lparr>dcg_allow = od_allow d, dcg_type = od_type d,
                 dcg_major = Int64 (If_int64_ptr (od_major d)),
                 dcg_minor = Int64 (If_int64_ptr (od_minor d)),
                 dcg_access = od_access d\<rparr>) (or_devices o'),
          res_pids := (case or_pids o' of None \<Rightarrow> None
            | Some p \<Rightarrow> Some (case p of
                None \<Rightarrow> \<lparr>pids_limit = 0\<rparr>
              | Some limit \<Rightarrow> if limit \<noteq> 0 then \<lparr>pids_limit = limit\<rparr> else \<lparr>pids_limit = 0\<rparr>)),
          res_unified := copy_nonempty_map (or_unified o')\<rparr>))"

definition LinuxResources_ToOCI :: "linux_resources option \<Rightarrow> oci_resources option" where
  "LinuxResources_ToOCI r =
     (case r of None \<Rightarrow> None
      | Some r \<Rightarrow> Some \<lparr>
          or_devices =
            map (\<lambda>d. \<lparr>od_allow = dcg_allow d, od_type = dcg_type d,
                 od_major = OptionalInt64_Get (dcg_major d),
                 od_minor = OptionalInt64_Get (dcg_minor d),
                 od_access = dcg_access d\<rparr>) (res_devices r),
          or_memory = Some (case res_memory r of None \<Rightarrow> zero_oci_memory
            | Some m \<Rightarrow> \<lparr>
                om_limit = OptionalInt64_Get (mem_limit m),
                om_reservation = OptionalInt64_Get (mem_reservation m),
                om_swap = OptionalInt64_Get (mem_swap m),
                om_kernel = OptionalInt64_Get (mem_kernel m),
                om_kernel_tcp = OptionalInt64_Get (mem_kernel_tcp m),
                om_swappiness = OptionalUInt64_Get (mem_swappiness m),
                om_disable_oom_killer = OptionalBool_Get (mem_disable_oom_killer m),
                om_use_hierarchy = OptionalBool_Get (mem_use_hierarchy m)\<rparr>),
          or_cpu = Some (case res_cpu r of None \<Rightarrow> zero_oci_cpu
            | Some c \<Rightarrow> \<lparr>
                oc_shares = OptionalUInt64_Get (cpu_shares c),
                oc_quota = OptionalInt64_Get (cpu_quota c),
                oc_period = OptionalUInt64_Get (cpu_period c),
                oc_realtime_runtime = OptionalInt64_Get (cpu_realtime_runtime c),
                oc_realtime_period = OptionalUInt64_Get (cpu_realtime_period c),
                oc_cpus = cpu_cpus c,
                oc_mems = cpu_mems c\<rparr>),
          or_pids = (case res_pids r of None \<Rightarrow> None
            | Some p \<Rightarrow> Some
                (if UnlimitedPidsLimit < sint (pids_limit p) then Some (pids_limit p) else None)),
          or_hugepage_limits =
            map (\<lambda>l. \<lparr>oh_pagesize = hp_page_size l, oh_limit = hp_limit l\<rparr>) (res_hugepage_limits r),
          or_unified = copy_nonempty_map (res_unified r)\<rparr>)"

section \<open>What they keep\<close>

lemma fold_update_append:
  "distinct (map fst (out @ m)) \<Longrightarrow> fold (\<lambda>(k, v) out. AList.update k v out) m out = out @ m"
proof (induction m arbitrary: out)
  case Nil
  then show ?case by simp
next
  case (Cons e m)
  obtain k v where e: "e = (k, v)" by (cases e)
  have "k \<notin> set (map fst out) \<Longrightarrow> AList.update k v out = out @ [(k, v)]"
    by (induction out) auto
  with Cons.prems have upd: "AList.update k v out = out @ [e]" by (auto simp: e)
  have "distinct (map fst ((out @ [e]) @ m))" using Cons.prems by simp
  from Cons.IH [OF this] show ?case by (simp add: e upd [unfolded e])
qed

lemma fold_update_same:
  "gomap_ok m \<Longrightarrow> fold (\<lambda>(k, v) out. AList.update k v out) m [] = m"
  using fold_update_append [of "[]" m] by (simp add: gomap_ok_def)

definition nil_if_empty :: "(string, string) gomap option \<Rightarrow> (string, string) gomap option" where
  "nil_if_empty m = (if gmap_entries m = [] then None else m)"

lemma copy_nonempty_map_eq:
  "gomap_ok (gmap_entries m) \<Longrightarrow> copy_nonempty_map m = nil_if_empty m"
  by (cases m) (auto simp: copy_nonempty_map_def nil_if_empty_def gmap_entries_def fold_update_same)

lemma gmap_entries_nil_if_empty [simp]: "gmap_entries (nil_if_empty m) = gmap_entries m"
  by (cases m) (auto simp: nil_if_empty_def gmap_entries_def)

lemma record_eta [simp]:
  "\<lparr>hp_page_size = hp_page_size l, hp_limit = hp_limit l\<rparr> = l"
  "\<lparr>dcg_allow = dcg_allow d, dcg_type = dcg_type d, dcg_major = dcg_major d,
     dcg_minor = dcg_minor d, dcg_access = dcg_access d\<rparr> = d"
  "\<lparr>pids_limit = pids_limit p\<rparr> = p"
  by simp_all

lemma LinuxMemory_copy_id [simp]: "LinuxMemory_copy m = m"
  by (simp add: LinuxMemory_copy_def)

lemma LinuxCPU_copy_id [simp]: "LinuxCPU_copy c = c"
  by (simp add: LinuxCPU_copy_def)

definition resources_ok :: "linux_resources \<Rightarrow> bool" where
  "resources_ok r \<longleftrightarrow> gomap_ok (gmap_entries (res_unified r))"

lemma LinuxResources_Copy_eq:
  "resources_ok r \<Longrightarrow>
     LinuxResources_Copy (Some r) = Some (r\<lparr>res_unified := nil_if_empty (res_unified r)\<rparr>)"
  by (cases r)
    (simp add: LinuxResources_Copy_def resources_ok_def copy_nonempty_map_eq split: option.split)

lemma LinuxRdt_Copy_eq: "LinuxRdt_Copy (Some r) = Some (r\<lparr>rdt_remove := False\<rparr>)"
  by (simp add: LinuxRdt_Copy_def)

text \<open>
  A copy of container resources is the original in every field, except that an allocated
  empty unified map comes back nil: so it reads the same, and copying the copy changes nothing.
  The copy of an RDT configuration keeps everything but the request to remove it, which is lost.
\<close>

theorem copies_read_the_same:
  assumes "resources_ok r"
  shows "(\<exists>c. LinuxResources_Copy (Some r) = Some c \<and>
      c\<lparr>res_unified := res_unified r\<rparr> = r \<and>
      gmap_get (res_unified c) = gmap_get (res_unified r) \<and>
      LinuxResources_Copy (Some c) = Some c) \<and>
    LinuxRdt_Copy (Some rdt) = Some (rdt\<lparr>rdt_remove := False\<rparr>)"
proof -
  let ?c = "r\<lparr>res_unified := nil_if_empty (res_unified r)\<rparr>"
  have "resources_ok ?c" using assms by (simp add: resources_ok_def)
  then have again: "LinuxResources_Copy (Some ?c) = Some ?c"
    by (simp add: LinuxResources_Copy_eq) (simp add: nil_if_empty_def)
  have get: "gmap_get (nil_if_empty m) = gmap_get m" for m :: "(string, string) gomap option"
    by (cases m) (auto simp: nil_if_empty_def gmap_entries_def)
  show ?thesis
    using assms again
    by (intro conjI LinuxRdt_Copy_eq exI [of _ ?c]) (simp_all add: LinuxResources_Copy_eq get)
qed

theorem copies_read_the_same_witness:
  "\<exists>c. LinuxResources_Copy (Some (zero_resources\<lparr>res_unified := Some [(''k'', ''v'')]\<rparr>)) = Some c \<and>
     gmap_get (res_unified c) ''k'' = Some ''v''"
proof -
  let ?r = "zero_resources\<lparr>res_unified := Some [(''k'', ''v'')]\<rparr>"
  have "resources_ok ?r" by (simp add: resources_ok_def gmap_entries_def gomap_ok_def)
  from copies_read_the_same [OF this, THEN conjunct1] obtain c where
    "LinuxResources_Copy (Some ?r) = Some c" "gmap_get (res_unified c) = gmap_get (res_unified ?r)"
    by blast
  then show ?thesis by (intro exI [of _ c]) simp
qed

text \<open>
  C32. Resources survive the trip to the OCI runtime specification and back, up to what OCI has no
  place for: the block I/O and RDT classes are dropped, absent memory and CPU sections come back
  present and empty, an empty unified map comes back nil, and a negative PIDs limit, which means
  unlimited, comes back as the limit 0.
\<close>

theorem resources_OCI_roundtrip:
  assumes "resources_ok r"
  shows "FromOCILinuxResources (LinuxResources_ToOCI (Some r)) =
    Some (r\<lparr>res_memory := Some (case res_memory r of None \<Rightarrow> zero_memory | Some m \<Rightarrow> m),
            res_cpu := Some (case res_cpu r of None \<Rightarrow> zero_cpu | Some c \<Rightarrow> c),
            res_blockio_class := None, res_rdt_class := None,
            res_unified := nil_if_empty (res_unified r),
            res_pids := map_option (\<lambda>p. if sint (pids_limit p) < 0 then \<lparr>pids_limit = 0\<rparr> else p)
              (res_pids r)\<rparr>)"
proof -
  have u: "copy_nonempty_map (copy_nonempty_map (res_unified r)) = nil_if_empty (res_unified r)"
    using assms by (simp add: resources_ok_def copy_nonempty_map_eq) (simp add: nil_if_empty_def)
  show ?thesis
    by (simp add: FromOCILinuxResources_def LinuxResources_ToOCI_def u zero_defs
        zero_oci_memory_def zero_oci_cpu_def UnlimitedPidsLimit_def comp_def
        split: option.split)
qed

theorem resources_OCI_roundtrip_witness:
  "FromOCILinuxResources (LinuxResources_ToOCI (Some (zero_resources\<lparr>res_pids := Some \<lparr>pids_limit = -1\<rparr>\<rparr>))) =
     Some (zero_resources\<lparr>res_memory := Some zero_memory, res_cpu := Some zero_cpu,
       res_pids := Some \<lparr>pids_limit = 0\<rparr>\<rparr>)"
proof -
  have "resources_ok (zero_resources\<lparr>res_pids := Some \<lparr>pids_limit = -1\<rparr>\<rparr>)"
    by (simp add: resources_ok_def gmap_entries_def gomap_ok_def zero_defs)
  from resources_OCI_roundtrip [OF this] show ?thesis
    by (simp add: zero_defs nil_if_empty_def gmap_entries_def)
qed

end
