(* ===== verification/Result_State.thy ===== *)
theory Result_State
  imports Owner_Laws Resources
begin

text \<open>
  The state in which the adaptation collects the replies of its plugins to one request
  (\<^verbatim>\<open>type result\<close> of \<^verbatim>\<open>src/pkg/adaptation/result.go\<close>), its three constructors, the responses read
  from it at the end, and access to its parts through pointers.

  \<^item> \<open>rs_request\<close> holds the request the next plugin will see; the code updates it in place.
  \<^item> \<open>rs_reply\<close> holds the adjustment collected so far, and the other containers' updates as the
    code does: a slice of pointers to entries of \<open>rs_updates\<close>. A pointer is the entry's container
    id, looked up when the response is read, so a later change of an entry shows in the reply.
  \<^item> \<open>rs_owners\<close> is the ownership store.
\<close>

section \<open>The state\<close>

record result_request =
  rq_create :: "create_request option"
  rq_update :: "update_request option"

record result_reply =
  rp_adjust :: "container_adjustment option"
  rp_update :: "string list"

record result =
  rs_request :: result_request
  rs_reply :: result_reply
  rs_updates :: "string \<Rightarrow> container_update option"
  rs_owners :: owning_plugins

section \<open>Constructors\<close>

definition prepare_container :: "container \<Rightarrow> container" where
  "prepare_container c = c\<lparr>
     ctr_labels := alloc [] (ctr_labels c),
     ctr_annotations := alloc [] (ctr_annotations c),
     ctr_hooks := alloc zero_hooks (ctr_hooks c),
     ctr_linux := map_option (\<lambda>l. l\<lparr>
         lc_resources := map_option (\<lambda>r. r\<lparr>
             res_memory := alloc zero_memory (res_memory r),
             res_cpu := alloc zero_cpu (res_cpu r),
             res_unified := alloc [] (res_unified r)\<rparr>)
           (alloc zero_resources (lc_resources l)),
         lc_net_devices := alloc [] (lc_net_devices l)\<rparr>)
       (alloc zero_linux_container (ctr_linux c))\<rparr>"

definition empty_adjustment :: container_adjustment where
  "empty_adjustment = zero_adjustment\<lparr>
     adj_annotations := Some [],
     adj_hooks := Some zero_hooks,
     adj_linux := Some (zero_linux_adjustment\<lparr>
       la_resources := Some (zero_resources\<lparr>
         res_memory := Some zero_memory, res_cpu := Some zero_cpu, res_unified := Some []\<rparr>),
       la_net_devices := Some []\<rparr>)\<rparr>"

text \<open>\<open>None\<close>: a request without a container panics.\<close>

definition collectCreateContainerResult :: "create_request \<Rightarrow> result option" where
  "collectCreateContainerResult request =
     (case cr_container request of
        None \<Rightarrow> None
      | Some c \<Rightarrow> Some \<lparr>
          rs_request = \<lparr>
            rq_create = Some (request\<lparr>cr_container := Some (prepare_container c)\<rparr>),
            rq_update = None\<rparr>,
          rs_reply = \<lparr>rp_adjust = Some empty_adjustment, rp_update = []\<rparr>,
          rs_updates = Map.empty,
          rs_owners = NewOwningPlugins\<rparr>)"

definition prepare_update :: "update_request \<Rightarrow> update_request" where
  "prepare_update q = q\<lparr>
     ur_linux_resources := map_option (\<lambda>r. r\<lparr>
         res_memory := alloc zero_memory (res_memory r),
         res_cpu := alloc zero_cpu (res_cpu r)\<rparr>)
       (alloc zero_resources (ur_linux_resources q))\<rparr>"

definition collectUpdateContainerResult :: "update_request option \<Rightarrow> result" where
  "collectUpdateContainerResult request = \<lparr>
     rs_request = \<lparr>rq_create = None, rq_update = map_option prepare_update request\<rparr>,
     rs_reply = \<lparr>rp_adjust = None, rp_update = []\<rparr>,
     rs_updates = Map.empty,
     rs_owners = NewOwningPlugins\<rparr>"

definition collectStopContainerResult :: result where
  "collectStopContainerResult = collectUpdateContainerResult None"

section \<open>Responses\<close>

definition reply_updates :: "result \<Rightarrow> container_update option list" where
  "reply_updates r = map (rs_updates r) (rp_update (rs_reply r))"

definition createContainerResponse :: "result \<Rightarrow> create_response" where
  "createContainerResponse r =
     \<lparr>crs_adjust = rp_adjust (rs_reply r), crs_update = reply_updates r, crs_evict = []\<rparr>"

text \<open>\<open>None\<close>: the nil pointers of a result that was not made for an update request.\<close>

definition updateContainerResponse :: "result \<Rightarrow> update_response option" where
  "updateContainerResponse r =
     (case rq_update (rs_request r) of
        None \<Rightarrow> None
      | Some q \<Rightarrow>
          (case ur_container q of
             None \<Rightarrow> None
           | Some c \<Rightarrow>
               (let requested = rs_updates r (ctr_id c)
                in Some \<lparr>urs_update = reply_updates r @ [requested], urs_evict = []\<rparr>)))"

definition stopContainerResponse :: "result \<Rightarrow> stop_response" where
  "stopContainerResponse r = \<lparr>srs_update = reply_updates r\<rparr>"

section \<open>Access through pointers\<close>

definition claim_r :: "claim \<Rightarrow> string \<Rightarrow> string \<Rightarrow> (nri_error, result) action" where
  "claim_r c cid plugin = on_part rs_owners (\<lambda>o' s. s\<lparr>rs_owners := o'\<rparr>) (OwningPlugins_Claim c cid plugin)"

definition clear_r :: "clear \<Rightarrow> string \<Rightarrow> string \<Rightarrow> (nri_error, result) action" where
  "clear_r c cid plugin = assign (\<lambda>s. s\<lparr>rs_owners := OwningPlugins_Clear c cid plugin (rs_owners s)\<rparr>)"

definition create_container :: "result \<Rightarrow> container option" where
  "create_container s =
     (case rq_create (rs_request s) of None \<Rightarrow> None | Some q \<Rightarrow> cr_container q)"

definition set_container :: "container \<Rightarrow> result \<Rightarrow> result" where
  "set_container c s = s\<lparr>rs_request := (rs_request s)\<lparr>rq_create :=
     map_option (\<lambda>q. q\<lparr>cr_container := Some c\<rparr>) (rq_create (rs_request s))\<rparr>\<rparr>"

definition set_adjust :: "container_adjustment \<Rightarrow> result \<Rightarrow> result" where
  "set_adjust a s = s\<lparr>rs_reply := (rs_reply s)\<lparr>rp_adjust := Some a\<rparr>\<rparr>"

text \<open>\<^verbatim>\<open>r.request.create.Container\<close> and \<^verbatim>\<open>r.reply.adjust\<close>, and \<^verbatim>\<open>Linux\<close> of each.\<close>

definition on_container :: "(nri_error, container) action \<Rightarrow> (nri_error, result) action" where
  "on_container = on_ptr create_container set_container"

definition on_container_linux :: "(nri_error, linux_container) action \<Rightarrow> (nri_error, result) action" where
  "on_container_linux a =
     on_container (on_ptr ctr_linux (\<lambda>l c. c\<lparr>ctr_linux := Some l\<rparr>) a)"

definition on_adjust :: "(nri_error, container_adjustment) action \<Rightarrow> (nri_error, result) action" where
  "on_adjust = on_ptr (\<lambda>s. rp_adjust (rs_reply s)) set_adjust"

definition on_adjust_linux :: "(nri_error, linux_adjustment) action \<Rightarrow> (nri_error, result) action" where
  "on_adjust_linux a = on_adjust (on_ptr adj_linux (\<lambda>l j. j\<lparr>adj_linux := Some l\<rparr>) a)"

text \<open>\<^verbatim>\<open>create, id := r.request.create, r.request.create.Container.Id\<close>\<close>

definition with_id :: "(string \<Rightarrow> (nri_error, result) action) \<Rightarrow> (nri_error, result) action" where
  "with_id body s =
     (case create_container s of None \<Rightarrow> (Panicked, s) | Some c \<Rightarrow> body (ctr_id c) s)"

text \<open>Reading a slice of the collected adjustment, or of its Linux part, before a loop over it.\<close>

definition with_adjust :: "(container_adjustment \<Rightarrow> (nri_error, result) action) \<Rightarrow> (nri_error, result) action" where
  "with_adjust body s =
     (case rp_adjust (rs_reply s) of None \<Rightarrow> (Panicked, s) | Some a \<Rightarrow> body a s)"

definition with_adjust_linux :: "(linux_adjustment \<Rightarrow> (nri_error, result) action) \<Rightarrow> (nri_error, result) action" where
  "with_adjust_linux body =
     with_adjust (\<lambda>a s. case adj_linux a of None \<Rightarrow> (Panicked, s) | Some l \<Rightarrow> body l s)"

definition with_container :: "(container \<Rightarrow> (nri_error, result) action) \<Rightarrow> (nri_error, result) action" where
  "with_container body s =
     (case create_container s of None \<Rightarrow> (Panicked, s) | Some c \<Rightarrow> body c s)"

definition with_container_linux :: "(linux_container \<Rightarrow> (nri_error, result) action) \<Rightarrow> (nri_error, result) action" where
  "with_container_linux body =
     with_container (\<lambda>c s. case ctr_linux c of None \<Rightarrow> (Panicked, s) | Some l \<Rightarrow> body l s)"

end
