(* ===== verification/Result_Adjust.thy ===== *)
theory Result_Adjust
  imports Result_State
begin

text \<open>
  Applying one plugin's container adjustment (the \<^verbatim>\<open>adjust*\<close> methods of
  \<^verbatim>\<open>src/pkg/adaptation/result.go\<close>), one definition per method and in the code's order: every claim,
  clear and store, and every early return. \<open>ord\<close> is the order in which the runtime ranges over a
  map the method has built itself; a map that comes with the plugin's reply is an association list
  in the order in which it is ranged over.
\<close>

section \<open>Adjustments kept in maps\<close>

text \<open>
  The loop that annotations, sysctls and network devices share: entries whose key is marked are
  split off into \<open>del\<close>; the others are stored one by one, a key that is also in \<open>del\<close> being removed
  first; what is left of \<open>del\<close> is passed on as removals.
\<close>

definition split_marked :: "(string \<times> 'v) list \<Rightarrow> string list \<times> (string \<times> 'v) list" where
  "split_marked es =
     (map (\<lambda>(k, v). fst (IsMarkedForRemoval k)) (filter (\<lambda>(k, v). snd (IsMarkedForRemoval k)) es),
      filter (\<lambda>(k, v). \<not> snd (IsMarkedForRemoval k)) es)"

fun store_entries ::
    "(string \<Rightarrow> ('e, 's) action) \<Rightarrow> (string \<Rightarrow> 'v \<Rightarrow> ('e, 's) action) \<Rightarrow>
     (string \<times> 'v) list \<Rightarrow> string list \<Rightarrow> 's \<Rightarrow> 'e status \<times> string list \<times> 's" where
  "store_entries remove store [] del s = (Done, del, s)"
| "store_entries remove store ((k, v) # es) del s =
     (case run [if k \<in> set del then remove k else skip, store k v] s of
        (Done, t) \<Rightarrow> store_entries remove store es (removeAll k del) t
      | (st, t) \<Rightarrow> (st, del, t))"

definition adjust_map ::
    "(string list \<Rightarrow> string list) \<Rightarrow> (string \<Rightarrow> ('e, 's) action) \<Rightarrow>
     (string \<Rightarrow> 'v \<Rightarrow> ('e, 's) action) \<Rightarrow> (string \<Rightarrow> ('e, 's) action) \<Rightarrow>
     (string \<times> 'v) list \<Rightarrow> ('e, 's) action" where
  "adjust_map ord remove store leave entries s =
     (let (del, rest) = split_marked entries in
      case store_entries remove store rest del s of
        (Done, del', t) \<Rightarrow> for_each (ord del') leave t
      | (st, _, t) \<Rightarrow> (st, t))"

definition put_container_annotation :: "string \<Rightarrow> string \<Rightarrow> (nri_error, result) action" where
  "put_container_annotation k v =
     on_container (on_part ctr_annotations (\<lambda>m c. c\<lparr>ctr_annotations := m\<rparr>) (gmap_put k v))"

definition put_reply_annotation :: "string \<Rightarrow> string \<Rightarrow> (nri_error, result) action" where
  "put_reply_annotation k v =
     on_adjust (on_part adj_annotations (\<lambda>m a. a\<lparr>adj_annotations := m\<rparr>) (gmap_put k v))"

definition adjustAnnotations ::
    "(string list \<Rightarrow> string list) \<Rightarrow> (string, string) gomap option \<Rightarrow> string \<Rightarrow>
     (nri_error, result) action" where
  "adjustAnnotations ord annotations plugin =
     (if gmap_entries annotations = [] then skip
      else with_id (\<lambda>cid. adjust_map ord
        (\<lambda>k. run
          [clear_r (ClearAnnotation k) cid plugin,
           on_container (assign (\<lambda>c. c\<lparr>ctr_annotations := gmap_delete k (ctr_annotations c)\<rparr>)),
           put_reply_annotation (MarkForRemoval k) []])
        (\<lambda>k v. run
          [claim_r (ClaimAnnotation k) cid plugin,
           put_container_annotation k v,
           put_reply_annotation k v])
        (\<lambda>k. put_reply_annotation (MarkForRemoval k) [])
        (gmap_entries annotations)))"

definition put_container_sysctl :: "string \<Rightarrow> string \<Rightarrow> (nri_error, result) action" where
  "put_container_sysctl k v =
     on_container_linux (on_part lc_sysctl (\<lambda>m c. c\<lparr>lc_sysctl := m\<rparr>) (gmap_put k v))"

definition put_reply_sysctl :: "string \<Rightarrow> string \<Rightarrow> (nri_error, result) action" where
  "put_reply_sysctl k v =
     on_adjust_linux (on_part la_sysctl (\<lambda>m a. a\<lparr>la_sysctl := m\<rparr>) (gmap_put k v))"

definition adjustSysctl ::
    "(string list \<Rightarrow> string list) \<Rightarrow> (string, string) gomap option \<Rightarrow> string \<Rightarrow>
     (nri_error, result) action" where
  "adjustSysctl ord sysctl plugin =
     (if gmap_entries sysctl = [] then skip
      else with_id (\<lambda>cid. adjust_map ord
        (\<lambda>k. run
          [clear_r (ClearSysctl k) cid plugin,
           on_container_linux (assign (\<lambda>c. c\<lparr>lc_sysctl := gmap_delete k (lc_sysctl c)\<rparr>)),
           put_reply_sysctl (MarkForRemoval k) []])
        (\<lambda>k v. run
          [claim_r (ClaimSysctl k) cid plugin,
           put_container_sysctl k v,
           put_reply_sysctl k v])
        (\<lambda>k. put_reply_annotation (MarkForRemoval k) [])
        (gmap_entries sysctl)))"

definition put_container_net_device ::
    "string \<Rightarrow> linux_net_device option \<Rightarrow> (nri_error, result) action" where
  "put_container_net_device k v =
     on_container_linux (on_part lc_net_devices (\<lambda>m c. c\<lparr>lc_net_devices := m\<rparr>) (gmap_put k v))"

definition put_reply_net_device ::
    "string \<Rightarrow> linux_net_device option \<Rightarrow> (nri_error, result) action" where
  "put_reply_net_device k v =
     on_adjust_linux (on_part la_net_devices (\<lambda>m a. a\<lparr>la_net_devices := m\<rparr>) (gmap_put k v))"

definition adjustLinuxNetDevices ::
    "(string list \<Rightarrow> string list) \<Rightarrow> (string, linux_net_device option) gomap option \<Rightarrow> string \<Rightarrow>
     (nri_error, result) action" where
  "adjustLinuxNetDevices ord devices plugin =
     (if gmap_entries devices = [] then skip
      else with_id (\<lambda>cid. adjust_map ord
        (\<lambda>k. run
          [clear_r (ClearLinuxNetDevice k) cid plugin,
           on_container_linux (assign (\<lambda>c. c\<lparr>lc_net_devices := gmap_delete k (lc_net_devices c)\<rparr>)),
           put_reply_net_device (MarkForRemoval k) None])
        (\<lambda>k v. run
          [claim_r (ClaimLinuxNetDevice k) cid plugin,
           put_container_net_device k v,
           put_reply_net_device k v])
        (\<lambda>k. put_reply_net_device (MarkForRemoval k) None)
        (gmap_entries devices)))"

section \<open>Adjustments kept in lists\<close>

text \<open>
  Mounts, devices and environment variables are first split into removals (by the key without its
  marker, a later one replacing an earlier one) and additions; \<open>mods\<close> has the keys of the additions.
\<close>

fun split_removals ::
    "('a \<Rightarrow> string \<times> bool) \<Rightarrow> 'a list \<Rightarrow> 'a list \<Rightarrow> (string, 'a) gomap \<Rightarrow> (string, 'a) gomap \<Rightarrow>
     'a list \<times> (string, 'a) gomap \<times> (string, 'a) gomap" where
  "split_removals check [] add del mods = (add, del, mods)"
| "split_removals check (x # xs) add del mods =
     (let (key, marked) = check x in
      if marked then split_removals check xs add (AList.update key x del) mods
      else split_removals check xs (add @ [x]) del (AList.update key x mods))"

definition has_key :: "(string, 'a) gomap \<Rightarrow> string \<Rightarrow> bool" where
  "has_key m k \<longleftrightarrow> map_of m k \<noteq> None"

definition adjustMounts ::
    "(string list \<Rightarrow> string list) \<Rightarrow> mount list \<Rightarrow> string \<Rightarrow> (nri_error, result) action" where
  "adjustMounts ord mounts plugin =
     (if mounts = [] then skip
      else with_id (\<lambda>cid.
        let (add, del, mods) = split_removals Mount_IsMarkedForRemoval mounts [] [] []
        in run
          [with_adjust (\<lambda>a. for_each (adj_mounts a) (\<lambda>m.
             if has_key del (mnt_destination m)
             then clear_r (ClearMount (mnt_destination m)) cid plugin else skip)),
           on_adjust (assign (\<lambda>a. a\<lparr>adj_mounts :=
             filter (\<lambda>m. \<not> has_key del (mnt_destination m)) (adj_mounts a)\<rparr>)),
           on_container (assign (\<lambda>c. c\<lparr>ctr_mounts :=
             filter (\<lambda>m. \<not> has_key del (mnt_destination m) \<and> \<not> has_key mods (mnt_destination m))
               (ctr_mounts c)\<rparr>)),
           for_each add (\<lambda>m. run
             [claim_r (ClaimMount (mnt_destination m)) cid plugin,
              on_adjust (assign (\<lambda>a. a\<lparr>adj_mounts := adj_mounts a @ [m]\<rparr>))]),
           for_each (range_in ord del) (\<lambda>(_, m).
             if \<not> has_key mods (ClearRemovalMarker (mnt_destination m))
             then on_adjust (assign (\<lambda>a. a\<lparr>adj_mounts := adj_mounts a @ [m]\<rparr>)) else skip),
           on_container (assign (\<lambda>c. c\<lparr>ctr_mounts := ctr_mounts c @ add\<rparr>))]))"

definition adjustDevices :: "linux_device list \<Rightarrow> string \<Rightarrow> (nri_error, result) action" where
  "adjustDevices devices plugin =
     (if devices = [] then skip
      else with_id (\<lambda>cid.
        let (add, del, mods) = split_removals LinuxDevice_IsMarkedForRemoval devices [] [] []
        in run
          [with_adjust_linux (\<lambda>a. for_each (la_devices a) (\<lambda>d.
             if has_key del (dev_path d) then clear_r (ClearDevice (dev_path d)) cid plugin
             else skip)),
           on_adjust_linux (assign (\<lambda>a. a\<lparr>la_devices :=
             filter (\<lambda>d. \<not> has_key del (dev_path d)) (la_devices a)\<rparr>)),
           on_container_linux (assign (\<lambda>c. c\<lparr>lc_devices :=
             filter (\<lambda>d. \<not> has_key del (dev_path d) \<and> \<not> has_key mods (dev_path d))
               (lc_devices c)\<rparr>)),
           for_each add (\<lambda>d. run
             [claim_r (ClaimDevice (dev_path d)) cid plugin,
              on_adjust_linux (assign (\<lambda>a. a\<lparr>la_devices := la_devices a @ [d]\<rparr>))]),
           on_container_linux (assign (\<lambda>c. c\<lparr>lc_devices := lc_devices c @ add\<rparr>))]))"

definition splitEnvVar :: "string \<Rightarrow> string \<times> string" where
  "splitEnvVar s =
     (let split = splitN2 CHR ''='' s in
      if length split < 1 then ([], [])
      else if length split \<noteq> 2 then (split ! 0, [])
      else (split ! 0, split ! 1))"

definition adjustEnv :: "key_value list \<Rightarrow> string \<Rightarrow> (nri_error, result) action" where
  "adjustEnv env plugin =
     (if env = [] then skip
      else with_id (\<lambda>cid.
        let (add, del, mods) = split_removals KeyValue_IsMarkedForRemoval env [] [] []
        in run
          [with_adjust (\<lambda>a. for_each (adj_env a) (\<lambda>e.
             if has_key del (kv_key e) then clear_r (ClearEnv (kv_key e)) cid plugin else skip)),
           on_adjust (assign (\<lambda>a. a\<lparr>adj_env :=
             filter (\<lambda>e. \<not> has_key del (kv_key e)) (adj_env a)\<rparr>)),
           on_container (assign (\<lambda>c. c\<lparr>ctr_env :=
             filter (\<lambda>e. \<not> has_key del (fst (splitEnvVar e)) \<and> \<not> has_key mods (fst (splitEnvVar e)))
               (ctr_env c)\<rparr>)),
           for_each add (\<lambda>e. run
             [claim_r (ClaimEnv (kv_key e)) cid plugin,
              on_adjust (assign (\<lambda>a. a\<lparr>adj_env := adj_env a @ [e]\<rparr>))]),
           for_each add (\<lambda>e.
             on_container (assign (\<lambda>c. c\<lparr>ctr_env := ctr_env c @ [KeyValue_ToOCI e]\<rparr>)))]))"

text \<open>
  Namespaces are keyed by type and claimed whether they are set or removed; the container's list is
  rebuilt from a map, in the order the runtime ranges over it.
\<close>

fun namespace_loop ::
    "string \<Rightarrow> string \<Rightarrow> linux_namespace option list \<Rightarrow> (string, linux_namespace) gomap \<Rightarrow> result \<Rightarrow>
     nri_error status \<times> (string, linux_namespace) gomap \<times> result" where
  "namespace_loop cid plugin [] nsmap s = (Done, nsmap, s)"
| "namespace_loop cid plugin (None # ns) nsmap s = namespace_loop cid plugin ns nsmap s"
| "namespace_loop cid plugin (Some n # ns) nsmap s =
     (let (key, marked) = LinuxNamespace_IsMarkedForRemoval n in
      case claim_r (ClaimNamespace key) cid plugin s of
        (Done, t) \<Rightarrow>
          (let nsmap' = (if marked then AList.delete key nsmap else AList.update key n nsmap) in
           case on_adjust_linux (assign (\<lambda>a. a\<lparr>la_namespaces := la_namespaces a @ [Some n]\<rparr>)) t of
             (Done, u) \<Rightarrow> namespace_loop cid plugin ns nsmap' u
           | (st, u) \<Rightarrow> (st, nsmap', u))
      | (st, t) \<Rightarrow> (st, nsmap, t))"

definition adjustNamespaces ::
    "(string list \<Rightarrow> string list) \<Rightarrow> linux_namespace option list \<Rightarrow> string \<Rightarrow>
     (nri_error, result) action" where
  "adjustNamespaces ord namespaces plugin =
     (if namespaces = [] then skip
      else with_id (\<lambda>cid. with_container_linux (\<lambda>l s.
        let creatensmap = fold (\<lambda>n m. AList.update (ns_type n) n m) (lc_namespaces l) [] in
        case namespace_loop cid plugin namespaces creatensmap s of
          (Done, nsmap, t) \<Rightarrow>
            on_container_linux (assign (\<lambda>c. c\<lparr>lc_namespaces := map snd (range_in ord nsmap)\<rparr>)) t
        | (st, _, t) \<Rightarrow> (st, t))))"

definition adjustCDIDevices :: "cdi_device list \<Rightarrow> string \<Rightarrow> (nri_error, result) action" where
  "adjustCDIDevices devices plugin =
     (if devices = [] then skip
      else with_id (\<lambda>cid. for_each devices (\<lambda>d. run
        [claim_r (ClaimCdiDevice (cdi_name d)) cid plugin,
         on_adjust (assign (\<lambda>a. a\<lparr>adj_cdi_devices := adj_cdi_devices a @ [d]\<rparr>))])))"

definition adjustRlimits :: "posix_rlimit list \<Rightarrow> string \<Rightarrow> (nri_error, result) action" where
  "adjustRlimits rlimits plugin =
     with_id (\<lambda>cid. for_each rlimits (\<lambda>l. run
       [claim_r (ClaimRlimit (rl_type l)) cid plugin,
        on_container (assign (\<lambda>c. c\<lparr>ctr_rlimits := ctr_rlimits c @ [l]\<rparr>)),
        on_adjust (assign (\<lambda>a. a\<lparr>adj_rlimits := adj_rlimits a @ [l]\<rparr>))]))"

section \<open>Arguments and hooks\<close>

definition adjustArgs :: "string list \<Rightarrow> string \<Rightarrow> (nri_error, result) action" where
  "adjustArgs args plugin =
     (if args = [] then skip
      else with_id (\<lambda>cid.
        let args' = (if hd args = [] then tl args else args)
        in run
          [if hd args = [] then clear_r ClearArgs cid plugin else skip,
           claim_r ClaimArgs cid plugin,
           on_adjust (assign (\<lambda>a. a\<lparr>adj_args := args'\<rparr>)),
           on_container (assign (\<lambda>c. c\<lparr>ctr_args := args'\<rparr>))]))"

definition add_hooks ::
    "(hooks \<Rightarrow> hook list) \<Rightarrow> ((hook list \<Rightarrow> hook list) \<Rightarrow> hooks \<Rightarrow> hooks) \<Rightarrow> hooks \<Rightarrow>
     (nri_error, result) action" where
  "add_hooks get upd hooks =
     (if get hooks = [] then skip
      else run
        [on_adjust (on_ptr adj_hooks (\<lambda>h a. a\<lparr>adj_hooks := Some h\<rparr>)
           (assign (upd (\<lambda>hs. hs @ get hooks)))),
         on_container (on_ptr ctr_hooks (\<lambda>h c. c\<lparr>ctr_hooks := Some h\<rparr>)
           (assign (upd (\<lambda>hs. hs @ get hooks))))])"

definition some_hook :: "hooks \<Rightarrow> bool" where
  "some_hook h \<longleftrightarrow> hk_prestart h \<noteq> [] \<or> hk_poststart h \<noteq> [] \<or> hk_poststop h \<noteq> [] \<or>
     hk_create_runtime h \<noteq> [] \<or> hk_create_container h \<noteq> [] \<or> hk_start_container h \<noteq> []"

definition adjustHooks :: "hooks option \<Rightarrow> string \<Rightarrow> (nri_error, result) action" where
  "adjustHooks hooks plugin =
     (case hooks of
        None \<Rightarrow> skip
      | Some h \<Rightarrow> (\<lambda>s. case rq_create (rs_request s) of None \<Rightarrow> (Panicked, s) | Some _ \<Rightarrow> run
          [add_hooks hk_prestart hk_prestart_update h,
           add_hooks hk_poststart hk_poststart_update h,
           add_hooks hk_poststop hk_poststop_update h,
           add_hooks hk_create_runtime hk_create_runtime_update h,
           add_hooks hk_create_container hk_create_container_update h,
           add_hooks hk_start_container hk_start_container_update h,
           if some_hook h then with_id (\<lambda>cid. claim_r ClaimHooks cid plugin) else skip] s))"

end
