(* ===== verification/Result_Resources.thy ===== *)
theory Result_Resources
  imports Result_State
begin

text \<open>
  Applying a plugin's resource adjustment and the Linux fields with one value each: the rest of the
  \<^verbatim>\<open>adjust*\<close> methods of \<^verbatim>\<open>src/pkg/adaptation/result.go\<close>. The memory and CPU methods serve both
  adjustment (they store to the container and to the reply) and update (the reply target is nil).
\<close>

section \<open>Memory and CPU\<close>

text \<open>
  The state of the two methods: the ownership store and the two structs pointed to by
  \<^verbatim>\<open>targetContainer\<close> and \<^verbatim>\<open>targetReply\<close>. \<open>adjust_field\<close> is the block the code has per field: if
  the plugin sets it, claim it, store it in the container's struct and, where there is one, in the
  reply's.
\<close>

type_synonym 'm targets = "owning_plugins \<times> 'm option \<times> 'm option"

definition adjust_field ::
    "'v option \<Rightarrow> claim \<Rightarrow> ('v \<Rightarrow> 'm \<Rightarrow> 'm) \<Rightarrow> string \<Rightarrow> string \<Rightarrow> (nri_error, 'm targets) action" where
  "adjust_field v c store cid plugin =
     (case v of
        None \<Rightarrow> skip
      | Some x \<Rightarrow> run
          [on_part fst (\<lambda>o' (_, t). (o', t)) (OwningPlugins_Claim c cid plugin),
           (\<lambda>(o', targetContainer, targetReply).
              case targetContainer of
                None \<Rightarrow> (Panicked, (o', None, targetReply))
              | Some m \<Rightarrow> (Done, (o', Some (store x m), map_option (store x) targetReply)))])"

definition adjustMemoryResource ::
    "linux_memory option \<Rightarrow> string \<Rightarrow> string \<Rightarrow> (nri_error, linux_memory targets) action" where
  "adjustMemoryResource mem cid plugin =
     (case mem of
        None \<Rightarrow> skip
      | Some m \<Rightarrow> run
          [adjust_field (mem_limit m) ClaimMemLimit
             (\<lambda>v t. t\<lparr>mem_limit := Int64 (If_int64 v)\<rparr>) cid plugin,
           adjust_field (mem_reservation m) ClaimMemReservation
             (\<lambda>v t. t\<lparr>mem_reservation := Int64 (If_int64 v)\<rparr>) cid plugin,
           adjust_field (mem_swap m) ClaimMemSwapLimit
             (\<lambda>v t. t\<lparr>mem_swap := Int64 (If_int64 v)\<rparr>) cid plugin,
           adjust_field (mem_kernel m) ClaimMemKernelLimit
             (\<lambda>v t. t\<lparr>mem_kernel := Int64 (If_int64 v)\<rparr>) cid plugin,
           adjust_field (mem_kernel_tcp m) ClaimMemTCPLimit
             (\<lambda>v t. t\<lparr>mem_kernel_tcp := Int64 (If_int64 v)\<rparr>) cid plugin,
           adjust_field (mem_swappiness m) ClaimMemSwappiness
             (\<lambda>v t. t\<lparr>mem_swappiness := UInt64 (If_uint64 v)\<rparr>) cid plugin,
           adjust_field (mem_disable_oom_killer m) ClaimMemDisableOomKiller
             (\<lambda>v t. t\<lparr>mem_disable_oom_killer := Bool (If_bool v)\<rparr>) cid plugin,
           adjust_field (mem_use_hierarchy m) ClaimMemUseHierarchy
             (\<lambda>v t. t\<lparr>mem_use_hierarchy := Bool (If_bool v)\<rparr>) cid plugin])"

definition nonempty :: "string \<Rightarrow> string option" where
  "nonempty s = (if s = [] then None else Some s)"

definition adjustCPUResource ::
    "linux_cpu option \<Rightarrow> string \<Rightarrow> string \<Rightarrow> (nri_error, linux_cpu targets) action" where
  "adjustCPUResource cpu cid plugin =
     (case cpu of
        None \<Rightarrow> skip
      | Some c \<Rightarrow> run
          [adjust_field (cpu_shares c) ClaimCPUShares
             (\<lambda>v t. t\<lparr>cpu_shares := UInt64 (If_uint64 v)\<rparr>) cid plugin,
           adjust_field (cpu_quota c) ClaimCPUQuota
             (\<lambda>v t. t\<lparr>cpu_quota := Int64 (If_int64 v)\<rparr>) cid plugin,
           adjust_field (cpu_period c) ClaimCPUPeriod
             (\<lambda>v t. t\<lparr>cpu_period := UInt64 (If_uint64 v)\<rparr>) cid plugin,
           adjust_field (cpu_realtime_runtime c) ClaimCPURealtimeRuntime
             (\<lambda>v t. t\<lparr>cpu_realtime_runtime := Int64 (If_int64 v)\<rparr>) cid plugin,
           adjust_field (cpu_realtime_period c) ClaimCPURealtimePeriod
             (\<lambda>v t. t\<lparr>cpu_realtime_period := UInt64 (If_uint64 v)\<rparr>) cid plugin,
           adjust_field (nonempty (cpu_cpus c)) ClaimCPUSetCPUs
             (\<lambda>v t. t\<lparr>cpu_cpus := v\<rparr>) cid plugin,
           adjust_field (nonempty (cpu_mems c)) ClaimCPUSetMems
             (\<lambda>v t. t\<lparr>cpu_mems := v\<rparr>) cid plugin])"

section \<open>All resources\<close>

text \<open>
  What \<^verbatim>\<open>adjustResources\<close> works on: the ownership store, \<^verbatim>\<open>create.Container.Linux.Resources\<close> and
  \<^verbatim>\<open>r.reply.adjust.Linux.Resources\<close>. It dereferences both pointers at once.
\<close>

type_synonym resource_targets = "owning_plugins \<times> linux_resources \<times> linux_resources"

definition claim_t :: "claim \<Rightarrow> string \<Rightarrow> string \<Rightarrow> (nri_error, owning_plugins \<times> 'x) action" where
  "claim_t c cid plugin = on_part fst (\<lambda>o' (_, x). (o', x)) (OwningPlugins_Claim c cid plugin)"

definition put_unified :: "string \<Rightarrow> string \<Rightarrow> (nri_error, linux_resources) action" where
  "put_unified k v = on_part res_unified (\<lambda>m r. r\<lparr>res_unified := m\<rparr>) (gmap_put k v)"

definition on_both :: "(nri_error, linux_resources) action \<Rightarrow> (nri_error, resource_targets) action" where
  "on_both a = run
     [on_part (fst \<circ> snd) (\<lambda>c (o', _, p). (o', c, p)) a,
      on_part (snd \<circ> snd) (\<lambda>p (o', c, _). (o', c, p)) a]"

definition adjust_resource_targets ::
    "linux_resources \<Rightarrow> string \<Rightarrow> string \<Rightarrow> (nri_error, resource_targets) action" where
  "adjust_resource_targets resources cid plugin = run
     [on_part (\<lambda>(o', c, p). (o', res_memory c, res_memory p))
        (\<lambda>(o', m, n) (_, c, p). (o', c\<lparr>res_memory := m\<rparr>, p\<lparr>res_memory := n\<rparr>))
        (adjustMemoryResource (res_memory resources) cid plugin),
      on_part (\<lambda>(o', c, p). (o', res_cpu c, res_cpu p))
        (\<lambda>(o', m, n) (_, c, p). (o', c\<lparr>res_cpu := m\<rparr>, p\<lparr>res_cpu := n\<rparr>))
        (adjustCPUResource (res_cpu resources) cid plugin),
      for_each (res_hugepage_limits resources) (\<lambda>l. run
        [claim_t (ClaimHugepageLimit (hp_page_size l)) cid plugin,
         on_both (assign (\<lambda>r. r\<lparr>res_hugepage_limits := res_hugepage_limits r @ [l]\<rparr>))]),
      for_each (res_devices resources) (\<lambda>d.
         on_both (assign (\<lambda>r. r\<lparr>res_devices := res_devices r @ [d]\<rparr>))),
      for_each (gmap_entries (res_unified resources)) (\<lambda>(k, v). run
        [claim_t (ClaimCgroupsUnified k) cid plugin, on_both (put_unified k v)]),
      (case res_blockio_class resources of
         None \<Rightarrow> skip
       | Some v \<Rightarrow> run
           [claim_t ClaimBlockioClass cid plugin,
            on_both (assign (\<lambda>r. r\<lparr>res_blockio_class := String (If_string v)\<rparr>))]),
      (case res_rdt_class resources of
         None \<Rightarrow> skip
       | Some v \<Rightarrow> run
           [claim_t ClaimRdtClass cid plugin,
            on_both (assign (\<lambda>r. r\<lparr>res_rdt_class := String (If_string v)\<rparr>))]),
      (case res_pids resources of
         None \<Rightarrow> skip
       | Some v \<Rightarrow> run
           [claim_t ClaimPidsLimit cid plugin,
            on_both (assign (\<lambda>r. r\<lparr>res_pids := Some \<lparr>pids_limit = pids_limit v\<rparr>\<rparr>))])]"

definition container_resources :: "result \<Rightarrow> linux_resources option" where
  "container_resources s =
     (case create_container s of None \<Rightarrow> None
      | Some c \<Rightarrow> (case ctr_linux c of None \<Rightarrow> None | Some l \<Rightarrow> lc_resources l))"

definition reply_resources :: "result \<Rightarrow> linux_resources option" where
  "reply_resources s =
     (case rp_adjust (rs_reply s) of None \<Rightarrow> None
      | Some a \<Rightarrow> (case adj_linux a of None \<Rightarrow> None | Some l \<Rightarrow> la_resources l))"

definition set_resources :: "resource_targets \<Rightarrow> result \<Rightarrow> result" where
  "set_resources t s =
     (case t of (o', c, p) \<Rightarrow>
        (snd (on_adjust_linux (assign (\<lambda>l. l\<lparr>la_resources := Some p\<rparr>))
           (snd (on_container_linux (assign (\<lambda>l. l\<lparr>lc_resources := Some c\<rparr>))
              (s\<lparr>rs_owners := o'\<rparr>))))))"

definition adjustResources :: "linux_resources option \<Rightarrow> string \<Rightarrow> (nri_error, result) action" where
  "adjustResources resources plugin =
     (case resources of
        None \<Rightarrow> skip
      | Some res \<Rightarrow> with_id (\<lambda>cid s.
          case (container_resources s, reply_resources s) of
            (Some container, Some reply) \<Rightarrow>
              (case adjust_resource_targets res cid plugin (rs_owners s, container, reply) of
                 (st, t) \<Rightarrow> (st, set_resources t s))
          | _ \<Rightarrow> (Panicked, s)))"

section \<open>Fields with one value\<close>

definition adjustCgroupsPath :: "string \<Rightarrow> string \<Rightarrow> (nri_error, result) action" where
  "adjustCgroupsPath path plugin =
     (if path = [] then skip
      else with_id (\<lambda>cid. run
        [claim_r ClaimCgroupsPath cid plugin,
         on_container_linux (assign (\<lambda>l. l\<lparr>lc_cgroups_path := path\<rparr>)),
         on_adjust_linux (assign (\<lambda>l. l\<lparr>la_cgroups_path := path\<rparr>))]))"

definition adjustOomScoreAdj :: "int64 option \<Rightarrow> string \<Rightarrow> (nri_error, result) action" where
  "adjustOomScoreAdj OomScoreAdj plugin =
     (if OomScoreAdj = None then skip
      else with_id (\<lambda>cid. run
        [claim_r ClaimOomScoreAdj cid plugin,
         on_container_linux (assign (\<lambda>l. l\<lparr>lc_oom_score_adj := OomScoreAdj\<rparr>)),
         on_adjust_linux (assign (\<lambda>l. l\<lparr>la_oom_score_adj := OomScoreAdj\<rparr>))]))"

definition adjustIOPriority :: "linux_io_priority option \<Rightarrow> string \<Rightarrow> (nri_error, result) action" where
  "adjustIOPriority priority plugin =
     (if priority = None then skip
      else with_id (\<lambda>cid. run
        [claim_r ClaimIOPriority cid plugin,
         on_container_linux (assign (\<lambda>l. l\<lparr>lc_io_priority := priority\<rparr>)),
         on_adjust_linux (assign (\<lambda>l. l\<lparr>la_io_priority := priority\<rparr>))]))"

definition adjustSeccompPolicy :: "linux_seccomp option \<Rightarrow> string \<Rightarrow> (nri_error, result) action" where
  "adjustSeccompPolicy adjustment plugin =
     (if adjustment = None then skip
      else with_id (\<lambda>cid. run
        [claim_r ClaimSeccompPolicy cid plugin,
         on_container_linux (assign (\<lambda>l. l\<lparr>lc_seccomp_policy := adjustment\<rparr>)),
         on_adjust_linux (assign (\<lambda>l. l\<lparr>la_seccomp_policy := adjustment\<rparr>))]))"

definition adjustLinuxScheduler :: "linux_scheduler option \<Rightarrow> string \<Rightarrow> (nri_error, result) action" where
  "adjustLinuxScheduler sch plugin =
     (if sch = None then skip
      else with_id (\<lambda>cid. run
        [claim_r ClaimLinuxScheduler cid plugin,
         on_container_linux (assign (\<lambda>l. l\<lparr>lc_scheduler := sch\<rparr>)),
         on_adjust_linux (assign (\<lambda>l. l\<lparr>la_scheduler := sch\<rparr>))]))"

section \<open>RDT\<close>

definition initAdjust :: "result \<Rightarrow> result" where
  "initAdjust s =
     (case rp_adjust (rs_reply s) of None \<Rightarrow> set_adjust zero_adjustment s | Some _ \<Rightarrow> s)"

definition initAdjustLinux :: "result \<Rightarrow> result" where
  "initAdjustLinux s = snd (on_adjust (assign (\<lambda>a.
     a\<lparr>adj_linux := alloc zero_linux_adjustment (adj_linux a)\<rparr>)) (initAdjust s))"

definition initAdjustRdt :: "result \<Rightarrow> result" where
  "initAdjustRdt s = snd (on_adjust_linux (assign (\<lambda>l.
     l\<lparr>la_rdt := alloc zero_rdt (la_rdt l)\<rparr>)) (initAdjustLinux s))"

definition set_reply_rdt :: "(linux_rdt \<Rightarrow> linux_rdt) \<Rightarrow> (nri_error, result) action" where
  "set_reply_rdt f =
     on_adjust_linux (on_ptr la_rdt (\<lambda>d l. l\<lparr>la_rdt := Some d\<rparr>) (assign (\<lambda>d. (f d)\<lparr>rdt_remove := False\<rparr>)))"

definition adjust_rdt_fields :: "linux_rdt option \<Rightarrow> string \<Rightarrow> string \<Rightarrow> (nri_error, result) action" where
  "adjust_rdt_fields rdt cid plugin = run
     [if (case rdt of None \<Rightarrow> False | Some d \<Rightarrow> rdt_remove d) then run
        [clear_r ClearRdt cid plugin,
         on_adjust_linux (assign (\<lambda>l. l\<lparr>la_rdt := Some (zero_rdt\<lparr>rdt_remove := True\<rparr>)\<rparr>))]
      else skip,
      (case (case rdt of None \<Rightarrow> None | Some d \<Rightarrow> rdt_clos_id d) of
         None \<Rightarrow> skip
       | Some v \<Rightarrow> run
           [claim_r ClaimRdtClosID cid plugin,
            set_reply_rdt (\<lambda>d. d\<lparr>rdt_clos_id := String (If_string v)\<rparr>)]),
      (case (case rdt of None \<Rightarrow> None | Some d \<Rightarrow> rdt_schemata d) of
         None \<Rightarrow> skip
       | Some v \<Rightarrow> run
           [claim_r ClaimRdtSchemata cid plugin,
            set_reply_rdt (\<lambda>d. d\<lparr>rdt_schemata := RepeatedString (If_strings v)\<rparr>)]),
      (case (case rdt of None \<Rightarrow> None | Some d \<Rightarrow> rdt_enable_monitoring d) of
         None \<Rightarrow> skip
       | Some v \<Rightarrow> run
           [claim_r ClaimRdtEnableMonitoring cid plugin,
            set_reply_rdt (\<lambda>d. d\<lparr>rdt_enable_monitoring := Bool (If_bool v)\<rparr>)])]"

text \<open>The receiver, not the argument, is checked for nil, so a nil argument goes through.\<close>

definition adjustRdt :: "linux_rdt option \<Rightarrow> string \<Rightarrow> (nri_error, result) action" where
  "adjustRdt rdt plugin = run
     [assign initAdjustRdt,
      with_id (\<lambda>cid. adjust_rdt_fields rdt cid plugin)]"

end
