(* ===== verification/Result_Update.thy ===== *)
theory Result_Update
  imports Result_Resources
begin

text \<open>
  Applying one plugin's container updates (\<^verbatim>\<open>update\<close>, \<^verbatim>\<open>updateResources\<close> and
  \<^verbatim>\<open>getContainerUpdate\<close> of \<^verbatim>\<open>src/pkg/adaptation/result.go\<close>). The updates collected for one
  container are one entry of \<open>rs_updates\<close>, changed in place by later updates of it.
\<close>

definition new_update :: "container_update \<Rightarrow> container_update" where
  "new_update u = \<lparr>
     cu_container_id = cu_container_id u,
     cu_linux = Some \<lparr>lu_resources = Some (zero_resources\<lparr>
       res_memory := Some zero_memory, res_cpu := Some zero_cpu, res_unified := Some []\<rparr>)\<rparr>,
     cu_ignore_failure = cu_ignore_failure u\<rparr>"

text \<open>
  On success the entry of \<open>cu_container_id u\<close> exists. The request's container is dereferenced only
  where there is an update request.
\<close>

definition getContainerUpdate :: "container_update \<Rightarrow> string \<Rightarrow> (nri_error, result) action" where
  "getContainerUpdate u plugin s =
     (let cid = cu_container_id u in
      if (case create_container s of None \<Rightarrow> False | Some c \<Rightarrow> ctr_id c = cid)
      then (Failed (UpdatedDuringCreation plugin cid), s)
      else
        (case rs_updates s cid of
           Some upd \<Rightarrow>
             (Done, s\<lparr>rs_updates := (rs_updates s)(cid \<mapsto>
                upd\<lparr>cu_ignore_failure := cu_ignore_failure upd \<and> cu_ignore_failure u\<rparr>)\<rparr>)
         | None \<Rightarrow>
             (let t = s\<lparr>rs_updates := (rs_updates s)(cid \<mapsto> new_update u)\<rparr>;
                  appended = t\<lparr>rs_reply := (rs_reply t)\<lparr>rp_update := rp_update (rs_reply t) @ [cid]\<rparr>\<rparr>
              in case rq_update (rs_request t) of
                   None \<Rightarrow> (Done, appended)
                 | Some q \<Rightarrow>
                     (case ur_container q of
                        None \<Rightarrow> (Panicked, t)
                      | Some c \<Rightarrow> (Done, if ctr_id c \<noteq> cid then appended else t)))))"

text \<open>
  The body of \<^verbatim>\<open>updateResources\<close>, on the ownership store and the copy of the resources it works
  on. The PIDs limit is taken from that copy, not from the plugin's update.
\<close>

definition update_resource_copy ::
    "linux_resources \<Rightarrow> string \<Rightarrow> string \<Rightarrow> (nri_error, owning_plugins \<times> linux_resources) action" where
  "update_resource_copy res cid plugin = run
     [on_part (\<lambda>(o', r). (o', res_memory r, None))
        (\<lambda>(o', m, _) (_, r). (o', r\<lparr>res_memory := m\<rparr>))
        (adjustMemoryResource (res_memory res) cid plugin),
      on_part (\<lambda>(o', r). (o', res_cpu r, None))
        (\<lambda>(o', m, _) (_, r). (o', r\<lparr>res_cpu := m\<rparr>))
        (adjustCPUResource (res_cpu res) cid plugin),
      for_each (res_hugepage_limits res) (\<lambda>l. run
        [claim_t (ClaimHugepageLimit (hp_page_size l)) cid plugin,
         assign (\<lambda>(o', r). (o', r\<lparr>res_hugepage_limits := res_hugepage_limits r @ [l]\<rparr>))]),
      (if gmap_entries (res_unified res) = [] then skip
       else run
         [assign (\<lambda>(o', r). (o', r\<lparr>res_unified := alloc [] (res_unified r)\<rparr>)),
          for_each (gmap_entries (res_unified res)) (\<lambda>(k, v). run
            [claim_t (ClaimCgroupsUnified k) cid plugin,
             on_part snd (\<lambda>r (o', _). (o', r)) (put_unified k v)])]),
      (case res_blockio_class res of
         None \<Rightarrow> skip
       | Some v \<Rightarrow> run
           [claim_t ClaimBlockioClass cid plugin,
            assign (\<lambda>(o', r). (o', r\<lparr>res_blockio_class := String (If_string v)\<rparr>))]),
      (case res_rdt_class res of
         None \<Rightarrow> skip
       | Some v \<Rightarrow> run
           [claim_t ClaimRdtClass cid plugin,
            assign (\<lambda>(o', r). (o', r\<lparr>res_rdt_class := String (If_string v)\<rparr>))]),
      (\<lambda>(o', r). case res_pids r of
         None \<Rightarrow> (Done, (o', r))
       | Some v \<Rightarrow> run
           [claim_t ClaimPidsLimit cid plugin,
            assign (\<lambda>(o', r). (o', r\<lparr>res_pids := Some \<lparr>pids_limit = pids_limit v\<rparr>\<rparr>))] (o', r))]"

text \<open>\<^verbatim>\<open>request != nil && request.Container.Id == id\<close>; the outer \<open>None\<close> is the nil dereference.\<close>

definition requested_resources :: "string \<Rightarrow> result \<Rightarrow> linux_resources option option option" where
  "requested_resources cid s =
     (case rq_update (rs_request s) of
        None \<Rightarrow> Some None
      | Some q \<Rightarrow>
          (case ur_container q of
             None \<Rightarrow> None
           | Some c \<Rightarrow> Some (if ctr_id c = cid then Some (ur_linux_resources q) else None)))"

definition entry_resources :: "string \<Rightarrow> result \<Rightarrow> linux_resources option option" where
  "entry_resources cid s =
     (case rs_updates s cid of None \<Rightarrow> None
      | Some e \<Rightarrow> (case cu_linux e of None \<Rightarrow> None | Some l \<Rightarrow> Some (lu_resources l)))"

definition set_entry_resources :: "string \<Rightarrow> linux_resources option \<Rightarrow> result \<Rightarrow> result" where
  "set_entry_resources cid res s = s\<lparr>rs_updates := (rs_updates s)(cid :=
     map_option (\<lambda>e. e\<lparr>cu_linux := map_option (\<lambda>l. l\<lparr>lu_resources := res\<rparr>) (cu_linux e)\<rparr>)
       (rs_updates s cid))\<rparr>"

definition set_requested_resources :: "linux_resources option \<Rightarrow> result \<Rightarrow> result" where
  "set_requested_resources res s = s\<lparr>rs_request := (rs_request s)\<lparr>rq_update :=
     map_option (\<lambda>q. q\<lparr>ur_linux_resources := res\<rparr>) (rq_update (rs_request s))\<rparr>\<rparr>"

definition updateResources :: "container_update \<Rightarrow> string \<Rightarrow> (nri_error, result) action" where
  "updateResources u plugin s =
     (let cid = cu_container_id u in
      case (case cu_linux u of None \<Rightarrow> None | Some l \<Rightarrow> lu_resources l) of
        None \<Rightarrow> (Done, s)
      | Some ures \<Rightarrow>
          (case requested_resources cid s of
             None \<Rightarrow> (Panicked, s)
           | Some requested \<Rightarrow>
               (case (case requested of Some r \<Rightarrow> Some r | None \<Rightarrow> entry_resources cid s) of
                  None \<Rightarrow> (Panicked, s)
                | Some original \<Rightarrow>
                    (case LinuxResources_Copy original of
                       None \<Rightarrow> (Panicked, s)
                     | Some resources \<Rightarrow>
                         (case update_resource_copy ures cid plugin (rs_owners s, resources) of
                            (Done, (o', new)) \<Rightarrow>
                              (Done,
                                (if requested \<noteq> None
                                 then set_requested_resources (LinuxResources_Copy (Some new))
                                 else (\<lambda>t. t))
                                (set_entry_resources cid (LinuxResources_Copy (Some new))
                                  (s\<lparr>rs_owners := o'\<rparr>)))
                          | (st, (o', _)) \<Rightarrow> (st, s\<lparr>rs_owners := o'\<rparr>))))))"

text \<open>One round of the loop of \<^verbatim>\<open>update\<close>, and the loop.\<close>

definition update_one :: "string \<Rightarrow> container_update \<Rightarrow> (nri_error, result) action" where
  "update_one plugin u s =
     (case getContainerUpdate u plugin s of
        (Done, t) \<Rightarrow>
          (case updateResources u plugin t of
             (Failed err, t') \<Rightarrow> if \<not> cu_ignore_failure u then (Failed err, t') else (Done, t')
           | r \<Rightarrow> r)
      | r \<Rightarrow> r)"

definition result_update :: "container_update option list \<Rightarrow> string \<Rightarrow> (nri_error, result) action" where
  "result_update updates plugin = for_each updates (\<lambda>u s.
     case u of None \<Rightarrow> (Panicked, s) | Some u \<Rightarrow> update_one plugin u s)"

end
