(* ===== verification/Result.thy ===== *)
theory Result
  imports Result_Adjust Result_Update
begin

text \<open>
  One plugin's reply applied to the collected result (\<^verbatim>\<open>adjust\<close> and \<^verbatim>\<open>apply\<close> of
  \<^verbatim>\<open>src/pkg/adaptation/result.go\<close>).
\<close>

definition adjust ::
    "(string list \<Rightarrow> string list) \<Rightarrow> container_adjustment option \<Rightarrow> string \<Rightarrow>
     (nri_error, result) action" where
  "adjust ord rpl plugin =
     (case rpl of
        None \<Rightarrow> skip
      | Some a \<Rightarrow> run
          [adjustAnnotations ord (adj_annotations a) plugin,
           adjustMounts ord (adj_mounts a) plugin,
           adjustEnv (adj_env a) plugin,
           adjustArgs (adj_args a) plugin,
           adjustHooks (adj_hooks a) plugin,
           (case adj_linux a of
              None \<Rightarrow> skip
            | Some l \<Rightarrow> run
                [adjustDevices (la_devices l) plugin,
                 adjustResources (la_resources l) plugin,
                 adjustCgroupsPath (la_cgroups_path l) plugin,
                 adjustOomScoreAdj (la_oom_score_adj l) plugin,
                 adjustIOPriority (la_io_priority l) plugin,
                 adjustSeccompPolicy (la_seccomp_policy l) plugin,
                 adjustNamespaces ord (la_namespaces l) plugin,
                 adjustSysctl ord (la_sysctl l) plugin,
                 adjustLinuxNetDevices ord (la_net_devices l) plugin,
                 adjustLinuxScheduler (la_scheduler l) plugin,
                 adjustRdt (la_rdt l) plugin]),
           adjustRlimits (adj_rlimits a) plugin,
           adjustCDIDevices (adj_cdi_devices a) plugin])"

text \<open>The dynamic types of a plugin's reply; each may be a nil pointer.\<close>

datatype response =
    CreateReply "create_response option"
  | UpdateReply "update_response option"
  | StopReply "stop_response option"
  | OtherReply

definition apply_reply ::
    "(string list \<Rightarrow> string list) \<Rightarrow> response \<Rightarrow> string \<Rightarrow> (nri_error, result) action" where
  "apply_reply ord response plugin =
     (case response of
        CreateReply rpl \<Rightarrow>
          (case rpl of
             None \<Rightarrow> skip
           | Some r \<Rightarrow> run
               [adjust ord (crs_adjust r) plugin, result_update (crs_update r) plugin])
      | UpdateReply rpl \<Rightarrow>
          (case rpl of None \<Rightarrow> skip | Some r \<Rightarrow> result_update (urs_update r) plugin)
      | StopReply rpl \<Rightarrow>
          (case rpl of None \<Rightarrow> skip | Some r \<Rightarrow> result_update (srs_update r) plugin)
      | OtherReply \<Rightarrow> (\<lambda>s. (Failed InvalidResponseType, s)))"

text \<open>
  The replies of all plugins to one request, in the order the adaptation calls them; the first
  error ends the request.
\<close>

definition apply_all ::
    "(string list \<Rightarrow> string list) \<Rightarrow> (response \<times> string) list \<Rightarrow> (nri_error, result) action" where
  "apply_all ord replies = for_each replies (\<lambda>(response, plugin). apply_reply ord response plugin)"

end
