(* ===== verification/Result_Laws.thy ===== *)
theory Result_Laws
  imports Result
begin

text \<open>
  The proof vocabulary of the collected result: how actions through pointers act on the parts of a
  creation state, and the locale \<open>compound_field\<close>, the contract between one keyed field of a
  container and its claim and clear methods, interpreted for the six fields that have both.
\<close>

section \<open>The parts of a creation state\<close>

text \<open>
  \<open>mk s c a o\<close> is \<open>s\<close> with container \<open>c\<close> in its creation request, adjustment \<open>a\<close> in its reply and
  ownership store \<open>o\<close>. Every action of the \<^verbatim>\<open>adjust\<close> methods changes only these.
\<close>

definition mk :: "result \<Rightarrow> container \<Rightarrow> container_adjustment \<Rightarrow> owning_plugins \<Rightarrow> result" where
  "mk s c a op = set_adjust a (set_container c (s\<lparr>rs_owners := op\<rparr>))"

definition creating :: "result \<Rightarrow> bool" where
  "creating s \<longleftrightarrow> rq_create (rs_request s) \<noteq> None"

named_theorems mk_simps \<open>actions on the parts of a creation state\<close>

lemma mk_same:
  assumes "create_container s = Some c" and "rp_adjust (rs_reply s) = Some a"
  shows "mk s c a (rs_owners s) = s" and "creating s"
proof -
  from assms(1) obtain q where q: "rq_create (rs_request s) = Some q" "cr_container q = Some c"
    by (auto simp: create_container_def split: option.splits)
  then show "creating s" by (simp add: creating_def)
  have "q\<lparr>cr_container := Some c\<rparr> = q" using q(2) by (cases q) simp
  with q assms(2) show "mk s c a (rs_owners s) = s"
    by (cases s) (auto simp: mk_def set_adjust_def set_container_def)
qed

lemma mk_parts [mk_simps, simp]:
  "creating s \<Longrightarrow> create_container (mk s c a op) = Some c"
  "rp_adjust (rs_reply (mk s c a op)) = Some a"
  "rs_owners (mk s c a op) = op"
  "rs_updates (mk s c a op) = rs_updates s"
  "rp_update (rs_reply (mk s c a op)) = rp_update (rs_reply s)"
  "rq_update (rs_request (mk s c a op)) = rq_update (rs_request s)"
  "creating (mk s c a op) = creating s"
  "rq_create (rs_request (mk s c a op)) = map_option (\<lambda>q. q\<lparr>cr_container := Some c\<rparr>) (rq_create (rs_request s))"
  by (auto simp: creating_def mk_def create_container_def set_container_def set_adjust_def)

lemma mk_set [mk_simps, simp]:
  "set_container c' (mk s c a op) = mk s c' a op"
  "set_adjust a' (mk s c a op) = mk s c a' op"
  "(mk s c a op)\<lparr>rs_owners := op'\<rparr> = mk s c a op'"
  "mk (mk s c a op) c' a' op' = mk s c' a' op'"
  by (cases "rq_create (rs_request s)"; auto simp: mk_def set_container_def set_adjust_def)+

lemma on_container_mk [mk_simps]:
  "creating s \<Longrightarrow> on_container act (mk s c a op) = (fst (act c), mk s (snd (act c)) a op)"
  by (simp add: on_container_def on_ptr_def split_def)

lemma on_adjust_mk [mk_simps]:
  "on_adjust act (mk s c a op) = (fst (act a), mk s c (snd (act a)) op)"
  by (simp add: on_adjust_def on_ptr_def split_def)

lemma claim_r_mk [mk_simps]:
  "claim_r x cid p (mk s c a op) =
     (fst (OwningPlugins_Claim x cid p op), mk s c a (snd (OwningPlugins_Claim x cid p op)))"
  by (simp add: claim_r_def on_part_def split_def)

lemma clear_r_mk [mk_simps]:
  "clear_r x cid p (mk s c a op) = (Done, mk s c a (OwningPlugins_Clear x cid p op))"
  by (simp add: clear_r_def)

lemma with_mk [mk_simps]:
  "creating s \<Longrightarrow> with_id body (mk s c a op) = body (ctr_id c) (mk s c a op)"
  "creating s \<Longrightarrow> with_container body' (mk s c a op) = body' c (mk s c a op)"
  "with_adjust body'' (mk s c a op) = body'' a (mk s c a op)"
  by (simp_all add: with_id_def with_container_def with_adjust_def)

lemma on_linux_mk [mk_simps]:
  "creating s \<Longrightarrow> ctr_linux c = Some l \<Longrightarrow>
     on_container_linux b (mk s c a op) = (fst (b l), mk s (c\<lparr>ctr_linux := Some (snd (b l))\<rparr>) a op)"
  "adj_linux a = Some k \<Longrightarrow>
     on_adjust_linux d (mk s c a op) = (fst (d k), mk s c (a\<lparr>adj_linux := Some (snd (d k))\<rparr>) op)"
  by (simp_all add: on_container_linux_def on_adjust_linux_def on_container_mk on_adjust_mk
      on_ptr_def split_def)

lemma with_linux_mk [mk_simps]:
  "creating s \<Longrightarrow> ctr_linux c = Some l \<Longrightarrow>
     with_container_linux body (mk s c a op) = body l (mk s c a op)"
  "adj_linux a = Some k \<Longrightarrow> with_adjust_linux body' (mk s c a op) = body' k (mk s c a op)"
  by (simp_all add: with_container_linux_def with_adjust_linux_def with_mk)

section \<open>Keyed fields\<close>

locale compound_field =
  fixes slot :: "string \<Rightarrow> slot" and claim :: "string \<Rightarrow> claim" and clear :: "string \<Rightarrow> clear"
  assumes slot_inj: "slot k = slot k' \<Longrightarrow> k = k'"
    and claim_is_slot: "claim_slot (claim k) = slot k"
    and claim_not_hooks: "claim k \<noteq> ClaimHooks"
    and clear_is_slot: "clear_slots (clear k) = [slot k]"
begin

lemma slot_in [simp]: "slot k \<in> slot ` ks \<longleftrightarrow> k \<in> ks"
  using slot_inj by auto

lemma claim_is_at: "OwningPlugins_Claim (claim k) cid p = claim_at (cid, slot k) p"
  using claim_not_hooks by (simp add: OwningPlugins_Claim_at claim_is_slot)

lemma clear_view: "owner_view (OwningPlugins_Clear (clear k) cid p op) =
    (owner_view op)((cid, slot k) \<mapsto> MarkForRemoval p)"
  by (auto simp: fun_eq_iff OwningPlugins_Clear_view clear_is_slot)

definition clear_all :: "string list \<Rightarrow> string \<Rightarrow> string \<Rightarrow> owning_plugins \<Rightarrow> owning_plugins" where
  "clear_all ks cid p op = fold (\<lambda>k. OwningPlugins_Clear (clear k) cid p) ks op"

definition claim_all :: "string list \<Rightarrow> string \<Rightarrow> string \<Rightarrow> (nri_error, owning_plugins) action" where
  "claim_all ks cid p = for_each ks (\<lambda>k. OwningPlugins_Claim (claim k) cid p)"

lemma clear_all_view:
  "owner_view (clear_all ks cid p op) (cid', x) =
     (if cid' = cid \<and> x \<in> slot ` set ks then Some (MarkForRemoval p) else owner_view op (cid', x))"
  unfolding clear_all_def
  by (induction ks arbitrary: op) (auto simp: clear_view)

lemma claim_all_seq: "claim_all ks cid p = claim_seq claim_at (map (\<lambda>k. ((cid, slot k), p)) ks)"
  by (simp add: claim_all_def claim_seq_def for_each_def comp_def claim_is_at)

lemma claim_all_Done_iff:
  assumes "unmarked p"
  shows "fst (claim_all ks cid p op) = Done \<longleftrightarrow>
     distinct ks \<and> (\<forall>k \<in> set ks. may_claim p (owner_view op (cid, slot k)))"
proof -
  have "inj_on (\<lambda>k. (cid, slot k)) (set ks)" by (auto intro!: inj_onI dest: slot_inj)
  then have "distinct (map fst (map (\<lambda>k. ((cid, slot k), p)) ks)) = distinct ks"
    by (simp add: comp_def distinct_map)
  moreover have "\<forall>(k, p) \<in> set (map (\<lambda>k. ((cid, slot k), p)) ks). unmarked p" using assms by auto
  ultimately show ?thesis
    unfolding claim_all_seq by (subst ow.claim_seq_Done_iff) auto
qed

lemma claim_all_view:
  assumes "fst (claim_all ks cid p op) = Done"
  shows "owner_view (snd (claim_all ks cid p op)) (cid', x) =
     (if cid' = cid \<and> x \<in> slot ` set ks then Some p else owner_view op (cid', x))"
proof -
  have "map_of (rev (map (\<lambda>k. ((cid, slot k), p)) ks)) (cid', x) =
      (if cid' = cid \<and> x \<in> slot ` set ks then Some p else None)"
    by (induction ks) (auto simp: map_add_def split: option.split)
  with ow.claim_seq_view [OF assms [unfolded claim_all_seq]] show ?thesis
    unfolding claim_all_seq by (simp add: map_add_def)
qed

text \<open>A loop that claims each item and then stores it, on the parts of a creation state.\<close>

lemma claim_loop:
  assumes "creating s"
    and "\<And>x c a op. x \<in> set xs \<Longrightarrow> good c a \<Longrightarrow>
      store x (mk s c a op) = (Done, mk s (fc x c) (fa x a) op) \<and> good (fc x c) (fa x a)"
    and "good c a"
  shows "fst (for_each xs (\<lambda>x. run [claim_r (claim (key x)) cid p, store x]) (mk s c a op)) =
       fst (claim_all (map key xs) cid p op) \<and>
     (fst (claim_all (map key xs) cid p op) = Done \<longrightarrow>
       snd (for_each xs (\<lambda>x. run [claim_r (claim (key x)) cid p, store x]) (mk s c a op)) =
       mk s (fold fc xs c) (fold fa xs a) (snd (claim_all (map key xs) cid p op)))"
  using assms(2,3)
proof (induction xs arbitrary: c a op)
  case Nil
  then show ?case by (simp add: claim_all_def)
next
  case (Cons x xs)
  define body where "body = (\<lambda>x. run [claim_r (claim (key x)) cid p, store x])"
  obtain st op' where r: "OwningPlugins_Claim (claim (key x)) cid p op = (st, op')"
    by (cases "OwningPlugins_Claim (claim (key x)) cid p op")
  then have first: "claim_r (claim (key x)) cid p (mk s c a op) = (st, mk s c a op')"
    by (simp add: claim_r_mk)
  show ?case unfolding body_def [symmetric]
  proof (cases "st = Done")
    case True
    have stored: "store x (mk s c a op') = (Done, mk s (fc x c) (fa x a) op')" "good (fc x c) (fa x a)"
      using Cons.prems by auto
    then have "body x (mk s c a op) = (Done, mk s (fc x c) (fa x a) op')"
      using first True by (simp add: body_def)
    then have loop: "for_each (x # xs) body (mk s c a op) = for_each xs body (mk s (fc x c) (fa x a) op')"
      by (rule for_each_step)
    have "claim_all (map key (x # xs)) cid p op = claim_all (map key xs) cid p op'"
      using r True by (simp add: claim_all_def for_each_step)
    with Cons.IH [OF _ stored(2), of op', folded body_def] Cons.prems(1)
    show "fst (for_each (x # xs) body (mk s c a op)) = fst (claim_all (map key (x # xs)) cid p op) \<and>
        (fst (claim_all (map key (x # xs)) cid p op) = Done \<longrightarrow>
          snd (for_each (x # xs) body (mk s c a op)) =
          mk s (fold fc (x # xs) c) (fold fa (x # xs) a) (snd (claim_all (map key (x # xs)) cid p op)))"
      by (simp add: loop)
  next
    case False
    then have "body x (mk s c a op) = (st, mk s c a op')"
      using first by (simp add: body_def run_stop del: run.simps)
    with False r show "fst (for_each (x # xs) body (mk s c a op)) = fst (claim_all (map key (x # xs)) cid p op) \<and>
        (fst (claim_all (map key (x # xs)) cid p op) = Done \<longrightarrow>
          snd (for_each (x # xs) body (mk s c a op)) =
          mk s (fold fc (x # xs) c) (fold fa (x # xs) a) (snd (claim_all (map key (x # xs)) cid p op)))"
      by (simp add: claim_all_def for_each_stop)
  qed
qed

lemma clear_loop:
  "for_each xs (\<lambda>x. if sel (key x) then clear_r (clear (key x)) cid p else skip) (mk s c a op) =
     (Done, mk s c a (clear_all (filter sel (map key xs)) cid p op))"
  by (induction xs arbitrary: op) (auto simp: clear_all_def for_each_step clear_r_mk)

end

interpretation annotation_field: compound_field "CompoundSlot Field_Annotations" ClaimAnnotation
    ClearAnnotation
  by unfold_locales simp_all

interpretation mount_field: compound_field "CompoundSlot Field_Mounts" ClaimMount ClearMount
  by unfold_locales simp_all

interpretation device_field: compound_field "CompoundSlot Field_Devices" ClaimDevice ClearDevice
  by unfold_locales simp_all

interpretation env_field: compound_field "CompoundSlot Field_Env" ClaimEnv ClearEnv
  by unfold_locales simp_all

interpretation sysctl_field: compound_field "CompoundSlot Field_Sysctl" ClaimSysctl ClearSysctl
  by unfold_locales simp_all

interpretation net_device_field: compound_field "CompoundSlot Field_LinuxNetDevices"
    ClaimLinuxNetDevice ClearLinuxNetDevice
  by unfold_locales simp_all

section \<open>Splitting removals from additions\<close>

lemma split_removals_eq:
  "split_removals check xs add del mods =
     (add @ filter (\<lambda>x. \<not> snd (check x)) xs,
      fold (\<lambda>x m. AList.update (fst (check x)) x m) (filter (\<lambda>x. snd (check x)) xs) del,
      fold (\<lambda>x m. AList.update (fst (check x)) x m) (filter (\<lambda>x. \<not> snd (check x)) xs) mods)"
  by (induction xs arbitrary: add del mods) (auto simp: split_def Let_def)

lemma has_key_fold:
  "has_key (fold (\<lambda>x m. AList.update (f x) x m) xs m) k \<longleftrightarrow> k \<in> f ` set xs \<or> has_key m k"
  by (induction xs arbitrary: m) (auto simp: has_key_def)

lemma gomap_ok_fold:
  "gomap_ok m \<Longrightarrow> gomap_ok (fold (\<lambda>x m. AList.update (f x) x m) xs m)"
  by (induction xs arbitrary: m) auto

lemma gomap_ok_Nil [simp]: "gomap_ok []"
  by (simp add: gomap_ok_def)

text \<open>The removals and the additions of a plugin's list, by key without the marker.\<close>

definition additions :: "('a \<Rightarrow> string \<times> bool) \<Rightarrow> 'a list \<Rightarrow> 'a list" where
  "additions check xs = filter (\<lambda>x. \<not> snd (check x)) xs"

definition removed_keys :: "('a \<Rightarrow> string \<times> bool) \<Rightarrow> 'a list \<Rightarrow> string set" where
  "removed_keys check xs = {fst (check x) |x. x \<in> set xs \<and> snd (check x)}"

definition added_keys :: "('a \<Rightarrow> string \<times> bool) \<Rightarrow> 'a list \<Rightarrow> string set" where
  "added_keys check xs = {fst (check x) |x. x \<in> set xs \<and> \<not> snd (check x)}"

text \<open>The last removal of each key, in the order in which the keys first occur.\<close>

definition removals :: "('a \<Rightarrow> string \<times> bool) \<Rightarrow> 'a list \<Rightarrow> (string, 'a) gomap" where
  "removals check xs =
     fold (\<lambda>x m. AList.update (fst (check x)) x m) (filter (\<lambda>x. snd (check x)) xs) []"

definition additions_map :: "('a \<Rightarrow> string \<times> bool) \<Rightarrow> 'a list \<Rightarrow> (string, 'a) gomap" where
  "additions_map check xs =
     fold (\<lambda>x m. AList.update (fst (check x)) x m) (filter (\<lambda>x. \<not> snd (check x)) xs) []"

lemma split_removals_parts [simp]:
  "split_removals check xs [] [] [] = (additions check xs, removals check xs, additions_map check xs)"
  by (simp add: split_removals_eq additions_def removals_def additions_map_def)

lemma has_key_additions [simp]: "has_key (additions_map check xs) k \<longleftrightarrow> k \<in> added_keys check xs"
  unfolding additions_map_def has_key_fold by (auto simp: has_key_def added_keys_def)

lemma has_key_removals [simp]: "has_key (removals check xs) k \<longleftrightarrow> k \<in> removed_keys check xs"
  unfolding removals_def has_key_fold by (auto simp: has_key_def removed_keys_def)

lemma removals_ok [simp]: "gomap_ok (removals check xs)"
  unfolding removals_def by (rule gomap_ok_fold) simp

lemma fold_update_set:
  "set (fold (\<lambda>x m. AList.update (f x) x m) xs m) \<subseteq> (\<lambda>x. (f x, x)) ` set xs \<union> set m"
proof (induction xs arbitrary: m)
  case Nil
  then show ?case by simp
next
  case (Cons x xs)
  have "set (AList.update (f x) x m) \<subseteq> insert (f x, x) (set m)" by (induction m) auto
  with Cons [of "AList.update (f x) x m"] show ?case by auto
qed

lemma removals_marked: "(k, x) \<in> set (removals check xs) \<Longrightarrow> snd (check x) \<and> k = fst (check x)"
  using fold_update_set [of "\<lambda>x. fst (check x)" "filter (\<lambda>x. snd (check x)) xs" "[]"]
  unfolding removals_def by auto

end
