(* ===== verification/Adjust_Laws.thy ===== *)
theory Adjust_Laws
  imports Result_Laws
begin

text \<open>
  What applying one plugin's mounts, devices, environment variables, annotations, network devices,
  sysctls, arguments and hooks does to the request and the reply, and exactly when it is refused.
\<close>

section \<open>Lists of keyed items\<close>

lemma for_each_append_loop:
  assumes "\<And>x c a op. f x (mk s c a op) = (Done, mk s (fc x c) (fa x a) op)"
  shows "for_each xs f (mk s c a op) = (Done, mk s (fold fc xs c) (fold fa xs a) op)"
  using assms by (induction xs arbitrary: c a) (simp_all add: for_each_step)

lemma fold_append_mounts:
  "fold (\<lambda>m a. a\<lparr>adj_mounts := adj_mounts a @ [m]\<rparr>) ms a = a\<lparr>adj_mounts := adj_mounts a @ ms\<rparr>"
  by (induction ms arbitrary: a) simp_all

lemma fold_append_env:
  "fold (\<lambda>e a. a\<lparr>adj_env := adj_env a @ [e]\<rparr>) es a = a\<lparr>adj_env := adj_env a @ es\<rparr>"
  by (induction es arbitrary: a) simp_all

lemma fold_append_container_env:
  "fold (\<lambda>e c. c\<lparr>ctr_env := ctr_env c @ [f e]\<rparr>) es c = c\<lparr>ctr_env := ctr_env c @ map f es\<rparr>"
  by (induction es arbitrary: c) simp_all

lemmas fold_append_field = fold_append_mounts fold_append_env fold_append_container_env

lemma fold_append_if:
  "fold (\<lambda>x a. if P x then f x a else a) xs a = fold f (filter P xs) a"
  by (induction xs arbitrary: a) simp_all

lemma fold_const [simp]: "fold (\<lambda>x a. a) xs a = a"
  by (induction xs) simp_all

lemma for_each_append_map: "for_each (map f xs) body = for_each xs (body \<circ> f)"
  by (simp add: for_each_def)

lemma mount_keys [simp]:
  "\<not> snd (Mount_IsMarkedForRemoval m) \<Longrightarrow> fst (Mount_IsMarkedForRemoval m) = mnt_destination m"
  by (metis Mount_IsMarkedForRemoval_def prod.collapse rm.check_plain)

text \<open>The removals that no addition of the same key takes up, in iteration order.\<close>

definition pure_removals ::
    "(string list \<Rightarrow> string list) \<Rightarrow> ('a \<Rightarrow> string \<times> bool) \<Rightarrow> 'a list \<Rightarrow> 'a list" where
  "pure_removals ord check xs =
     map snd (filter (\<lambda>(k, x). k \<notin> added_keys check xs) (range_in ord (removals check xs)))"

lemma pure_removals_filter:
  assumes "is_order ord"
    and "\<And>x. snd (check x) \<Longrightarrow> key x = fst (check x)"
  shows "map snd (filter (\<lambda>(_, x). key x \<notin> added_keys check xs) (range_in ord (removals check xs))) =
    pure_removals ord check xs"
proof -
  have "set (range_in ord (removals check xs)) = set (removals check xs)"
    using assms(1) by (simp add: range_in_set)
  then have "\<forall>(k, x) \<in> set (range_in ord (removals check xs)). key x = k"
    using assms(2) removals_marked by fastforce
  then have "filter (\<lambda>(_, x). key x \<notin> added_keys check xs) (range_in ord (removals check xs)) =
      filter (\<lambda>(k, x). k \<notin> added_keys check xs) (range_in ord (removals check xs))"
    by (intro filter_cong) auto
  then show ?thesis by (simp add: pure_removals_def)
qed

lemma leave_loop:
  assumes "is_order ord"
  shows "for_each (range_in ord (removals Mount_IsMarkedForRemoval mounts)) (\<lambda>(_, m).
       if ClearRemovalMarker (mnt_destination m) \<notin> added_keys Mount_IsMarkedForRemoval mounts
       then on_adjust (assign (\<lambda>a. a\<lparr>adj_mounts := adj_mounts a @ [m]\<rparr>)) else skip) (mk s c a op) =
     (Done, mk s c
       (a\<lparr>adj_mounts := adj_mounts a @ pure_removals ord Mount_IsMarkedForRemoval mounts\<rparr>) op)"
proof -
  let ?keep = "\<lambda>m. ClearRemovalMarker (mnt_destination m) \<notin> added_keys Mount_IsMarkedForRemoval mounts"
  let ?body = "\<lambda>(_, m). if ?keep m then on_adjust (assign (\<lambda>a. a\<lparr>adj_mounts := adj_mounts a @ [m]\<rparr>)) else skip"
  have "for_each es ?body (mk s c a op) = (Done, mk s c
      (a\<lparr>adj_mounts := adj_mounts a @ map snd (filter (\<lambda>(_, m). ?keep m) es)\<rparr>) op)"
    for es :: "(string \<times> mount) list" and a
    by (induction es arbitrary: a) (auto simp: for_each_step on_adjust_mk)
  then show ?thesis
    using pure_removals_filter [OF assms, of Mount_IsMarkedForRemoval
        "\<lambda>m. ClearRemovalMarker (mnt_destination m)" mounts]
    by (simp add: Mount_IsMarkedForRemoval_def ClearRemovalMarker_eq)
qed

lemma adjustMounts_mk:
  fixes mounts p c a op
  defines "chk \<equiv> Mount_IsMarkedForRemoval"
  defines "add \<equiv> additions chk mounts"
  defines "op1 \<equiv> mount_field.clear_all
    (filter (\<lambda>k. k \<in> removed_keys chk mounts) (map mnt_destination (adj_mounts a))) (ctr_id c) p op"
  defines "claims \<equiv> mount_field.claim_all (map mnt_destination add) (ctr_id c) p op1"
  assumes "creating s" and "is_order ord" and "mounts \<noteq> []"
  shows "fst (adjustMounts ord mounts p (mk s c a op)) = fst claims \<and>
    (fst claims = Done \<longrightarrow>
      snd (adjustMounts ord mounts p (mk s c a op)) =
      mk s
        (c\<lparr>ctr_mounts := filter (\<lambda>m. mnt_destination m \<notin> removed_keys chk mounts \<and>
             mnt_destination m \<notin> added_keys chk mounts) (ctr_mounts c) @ add\<rparr>)
        (a\<lparr>adj_mounts := filter (\<lambda>m. mnt_destination m \<notin> removed_keys chk mounts) (adj_mounts a) @
             add @ pure_removals ord chk mounts\<rparr>)
        (snd claims))"
proof -
  let ?c1 = "c\<lparr>ctr_mounts := filter (\<lambda>m. mnt_destination m \<notin> removed_keys chk mounts \<and>
      mnt_destination m \<notin> added_keys chk mounts) (ctr_mounts c)\<rparr>"
  let ?a1 = "a\<lparr>adj_mounts := filter (\<lambda>m. mnt_destination m \<notin> removed_keys chk mounts) (adj_mounts a)\<rparr>"
  define claiming where "claiming = for_each add (\<lambda>m. run
    [claim_r (ClaimMount (mnt_destination m)) (ctr_id c) p,
     on_adjust (assign (\<lambda>a. a\<lparr>adj_mounts := adj_mounts a @ [m]\<rparr>))])"
  have loop: "fst (claiming (mk s ?c1 ?a1 op1)) = fst claims \<and> (fst claims = Done \<longrightarrow>
      snd (claiming (mk s ?c1 ?a1 op1)) =
      mk s ?c1 (?a1\<lparr>adj_mounts := adj_mounts ?a1 @ add\<rparr>) (snd claims))"
    using mount_field.claim_loop [OF assms(5), where good = "\<lambda>_ _. True"
        and store = "\<lambda>m. on_adjust (assign (\<lambda>a. a\<lparr>adj_mounts := adj_mounts a @ [m]\<rparr>))"
        and fc = "\<lambda>_ c. c" and fa = "\<lambda>m a. a\<lparr>adj_mounts := adj_mounts a @ [m]\<rparr>"
        and key = mnt_destination and xs = add and c = ?c1 and a = ?a1 and op = op1
        and cid = "ctr_id c" and p = p]
    by (simp add: on_adjust_mk claiming_def claims_def fold_append_mounts)
  have "adjustMounts ord mounts p (mk s c a op) =
      run [claiming, for_each (range_in ord (removals chk mounts)) (\<lambda>(_, m).
          if ClearRemovalMarker (mnt_destination m) \<notin> added_keys chk mounts
          then on_adjust (assign (\<lambda>a. a\<lparr>adj_mounts := adj_mounts a @ [m]\<rparr>)) else skip),
        on_container (assign (\<lambda>c. c\<lparr>ctr_mounts := ctr_mounts c @ add\<rparr>))] (mk s ?c1 ?a1 op1)"
    using assms(5,7) mount_field.clear_loop [of "adj_mounts a" "\<lambda>k. k \<in> removed_keys chk mounts"
        mnt_destination "ctr_id c" p s c a op]
    unfolding claiming_def op1_def add_def chk_def
    by (simp add: adjustMounts_def with_mk Let_def on_adjust_mk on_container_mk)
  then show ?thesis
    using loop assms(5) leave_loop [OF assms(6)] unfolding chk_def
    by (cases "claiming (mk s ?c1 ?a1 op1)"; cases "fst claims") (auto simp: on_container_mk chk_def)
qed

lemma item_keys [simp]:
  "\<not> snd (LinuxDevice_IsMarkedForRemoval d) \<Longrightarrow> fst (LinuxDevice_IsMarkedForRemoval d) = dev_path d"
  "\<not> snd (KeyValue_IsMarkedForRemoval e) \<Longrightarrow> fst (KeyValue_IsMarkedForRemoval e) = kv_key e"
  by (metis LinuxDevice_IsMarkedForRemoval_def prod.collapse rm.check_plain)
    (metis KeyValue_IsMarkedForRemoval_def prod.collapse rm.check_plain)

lemma adjustEnv_mk:
  fixes env p c a op
  defines "chk \<equiv> KeyValue_IsMarkedForRemoval"
  defines "add \<equiv> additions chk env"
  defines "op1 \<equiv> env_field.clear_all
    (filter (\<lambda>k. k \<in> removed_keys chk env) (map kv_key (adj_env a))) (ctr_id c) p op"
  defines "claims \<equiv> env_field.claim_all (map kv_key add) (ctr_id c) p op1"
  assumes "creating s" and "env \<noteq> []"
  shows "fst (adjustEnv env p (mk s c a op)) = fst claims \<and>
    (fst claims = Done \<longrightarrow>
      snd (adjustEnv env p (mk s c a op)) =
      mk s
        (c\<lparr>ctr_env := filter (\<lambda>e. fst (splitEnvVar e) \<notin> removed_keys chk env \<and>
             fst (splitEnvVar e) \<notin> added_keys chk env) (ctr_env c) @ map KeyValue_ToOCI add\<rparr>)
        (a\<lparr>adj_env := filter (\<lambda>e. kv_key e \<notin> removed_keys chk env) (adj_env a) @ add\<rparr>)
        (snd claims))"
proof -
  let ?c1 = "c\<lparr>ctr_env := filter (\<lambda>e. fst (splitEnvVar e) \<notin> removed_keys chk env \<and>
      fst (splitEnvVar e) \<notin> added_keys chk env) (ctr_env c)\<rparr>"
  let ?a1 = "a\<lparr>adj_env := filter (\<lambda>e. kv_key e \<notin> removed_keys chk env) (adj_env a)\<rparr>"
  define claiming where "claiming = for_each add (\<lambda>e. run
    [claim_r (ClaimEnv (kv_key e)) (ctr_id c) p,
     on_adjust (assign (\<lambda>a. a\<lparr>adj_env := adj_env a @ [e]\<rparr>))])"
  define storing where "storing = for_each add (\<lambda>e.
    on_container (assign (\<lambda>c. c\<lparr>ctr_env := ctr_env c @ [KeyValue_ToOCI e]\<rparr>)))"
  have loop: "fst (claiming (mk s ?c1 ?a1 op1)) = fst claims \<and> (fst claims = Done \<longrightarrow>
      snd (claiming (mk s ?c1 ?a1 op1)) =
      mk s ?c1 (?a1\<lparr>adj_env := adj_env ?a1 @ add\<rparr>) (snd claims))"
    using env_field.claim_loop [OF assms(5), where good = "\<lambda>_ _. True"
        and store = "\<lambda>e. on_adjust (assign (\<lambda>a. a\<lparr>adj_env := adj_env a @ [e]\<rparr>))"
        and fc = "\<lambda>_ c. c" and fa = "\<lambda>e a. a\<lparr>adj_env := adj_env a @ [e]\<rparr>"
        and key = kv_key and xs = add and c = ?c1 and a = ?a1 and op = op1
        and cid = "ctr_id c" and p = p]
    by (simp add: on_adjust_mk claiming_def claims_def fold_append_env)
  have store: "storing (mk s c a op) =
      (Done, mk s (c\<lparr>ctr_env := ctr_env c @ map KeyValue_ToOCI add\<rparr>) a op)" for c a op
    using for_each_append_loop [of "\<lambda>e. on_container (assign (\<lambda>c. c\<lparr>ctr_env := ctr_env c @ [KeyValue_ToOCI e]\<rparr>))"
        s "\<lambda>e c. c\<lparr>ctr_env := ctr_env c @ [KeyValue_ToOCI e]\<rparr>" "\<lambda>_ a. a" add c a op] assms(5)
    by (simp add: on_container_mk storing_def fold_append_container_env)
  have "adjustEnv env p (mk s c a op) = run [claiming, storing] (mk s ?c1 ?a1 op1)"
    using assms(5,6) env_field.clear_loop [of "adj_env a" "\<lambda>k. k \<in> removed_keys chk env"
        kv_key "ctr_id c" p s c a op]
    unfolding claiming_def storing_def op1_def add_def chk_def
    by (simp add: adjustEnv_def with_mk Let_def on_adjust_mk on_container_mk)
  then show ?thesis
    using loop by (cases "claiming (mk s ?c1 ?a1 op1)"; cases "fst claims") (auto simp: store)
qed

lemma adjustDevices_mk:
  fixes devices p c a op l k
  defines "chk \<equiv> LinuxDevice_IsMarkedForRemoval"
  defines "add \<equiv> additions chk devices"
  defines "op1 \<equiv> device_field.clear_all
    (filter (\<lambda>k. k \<in> removed_keys chk devices) (map dev_path (la_devices k))) (ctr_id c) p op"
  defines "claims \<equiv> device_field.claim_all (map dev_path add) (ctr_id c) p op1"
  assumes "creating s" and "devices \<noteq> []"
    and "ctr_linux c = Some l" and "adj_linux a = Some k"
  shows "fst (adjustDevices devices p (mk s c a op)) = fst claims \<and>
    (fst claims = Done \<longrightarrow>
      snd (adjustDevices devices p (mk s c a op)) =
      mk s
        (c\<lparr>ctr_linux := Some (l\<lparr>lc_devices := filter (\<lambda>d. dev_path d \<notin> removed_keys chk devices \<and>
             dev_path d \<notin> added_keys chk devices) (lc_devices l) @ add\<rparr>)\<rparr>)
        (a\<lparr>adj_linux := Some (k\<lparr>la_devices :=
             filter (\<lambda>d. dev_path d \<notin> removed_keys chk devices) (la_devices k) @ add\<rparr>)\<rparr>)
        (snd claims))"
proof -
  let ?l1 = "l\<lparr>lc_devices := filter (\<lambda>d. dev_path d \<notin> removed_keys chk devices \<and>
      dev_path d \<notin> added_keys chk devices) (lc_devices l)\<rparr>"
  let ?k1 = "k\<lparr>la_devices := filter (\<lambda>d. dev_path d \<notin> removed_keys chk devices) (la_devices k)\<rparr>"
  let ?c1 = "c\<lparr>ctr_linux := Some ?l1\<rparr>" and ?a1 = "a\<lparr>adj_linux := Some ?k1\<rparr>"
  let ?store = "\<lambda>d. on_adjust_linux (assign (\<lambda>a. a\<lparr>la_devices := la_devices a @ [d]\<rparr>))"
  let ?fa = "\<lambda>d a. a\<lparr>adj_linux := map_option (\<lambda>k. k\<lparr>la_devices := la_devices k @ [d]\<rparr>) (adj_linux a)\<rparr>"
  define claiming where "claiming = for_each add (\<lambda>d. run
    [claim_r (ClaimDevice (dev_path d)) (ctr_id c) p, ?store d])"
  have fa: "fold ?fa ds (a\<lparr>adj_linux := Some k\<rparr>) =
      a\<lparr>adj_linux := Some (k\<lparr>la_devices := la_devices k @ ds\<rparr>)\<rparr>" for ds and k :: linux_adjustment
    by (induction ds arbitrary: k) simp_all
  have stored: "?store d (mk s c a op) = (Done, mk s c (?fa d a) op) \<and> adj_linux (?fa d a) \<noteq> None"
    if "adj_linux a \<noteq> None" for d c a op
    using that by (auto simp: on_linux_mk)
  have loop: "fst (claiming (mk s ?c1 ?a1 op1)) = fst claims \<and> (fst claims = Done \<longrightarrow>
      snd (claiming (mk s ?c1 ?a1 op1)) =
      mk s ?c1 (a\<lparr>adj_linux := Some (?k1\<lparr>la_devices := la_devices ?k1 @ add\<rparr>)\<rparr>) (snd claims))"
    using device_field.claim_loop [OF assms(5) stored, where key = dev_path
        and xs = add and c = ?c1 and a = ?a1 and op = op1 and cid = "ctr_id c" and p = p]
    by (simp add: claiming_def claims_def fa)
  have "adjustDevices devices p (mk s c a op) =
      run [claiming, on_container_linux (assign (\<lambda>c. c\<lparr>lc_devices := lc_devices c @ add\<rparr>))]
        (mk s ?c1 ?a1 op1)"
    using assms(5-8) device_field.clear_loop [of "la_devices k" "\<lambda>k. k \<in> removed_keys chk devices"
        dev_path "ctr_id c" p s c a op]
    unfolding claiming_def op1_def add_def chk_def
    by (simp add: adjustDevices_def with_mk with_linux_mk Let_def on_linux_mk)
  then show ?thesis
    using loop assms(5)
    by (cases "claiming (mk s ?c1 ?a1 op1)"; cases "fst claims") (auto simp: on_linux_mk)
qed

section \<open>Properties of the lists\<close>

text \<open>The state in which the replies to a creation request start to be collected.\<close>

definition fresh_result :: "container \<Rightarrow> result" where
  "fresh_result c = the (collectCreateContainerResult \<lparr>cr_pod = None, cr_container = Some c\<rparr>)"

lemma fresh_parts [simp]:
  "create_container (fresh_result c) = Some (prepare_container c)"
  "rp_adjust (rs_reply (fresh_result c)) = Some empty_adjustment"
  "owner_view (rs_owners (fresh_result c)) ks = None"
  "ctr_id (prepare_container c) = ctr_id c"
  "\<exists>l. ctr_linux (prepare_container c) = Some l"
  "\<exists>l. adj_linux empty_adjustment = Some l"
  by (simp_all add: fresh_result_def collectCreateContainerResult_def create_container_def
      owner_view_def ownersFor_def NewOwningPlugins_def slot_owner_nil prepare_container_def
      empty_adjustment_def alloc_def split: option.split)

lemma additions_keys [simp]:
  "mnt_destination ` set (additions Mount_IsMarkedForRemoval ms) = added_keys Mount_IsMarkedForRemoval ms"
  "kv_key ` set (additions KeyValue_IsMarkedForRemoval es) = added_keys KeyValue_IsMarkedForRemoval es"
  "dev_path ` set (additions LinuxDevice_IsMarkedForRemoval ds) = added_keys LinuxDevice_IsMarkedForRemoval ds"
  unfolding additions_def added_keys_def by (force, force, force)

text \<open>Who may claim after the plugin's own removals of collected entries were cleared.\<close>

definition free_after_removal :: "owning_plugins \<Rightarrow> string \<Rightarrow> string set \<Rightarrow> string \<Rightarrow> slot \<Rightarrow> string \<Rightarrow> bool" where
  "free_after_removal op cid cleared p x k \<longleftrightarrow> k \<in> cleared \<or> may_claim p (owner_view op (cid, x))"

lemma set_filter_keys [simp]: "{k \<in> K. k \<in> R} = R \<inter> K"
  by auto

lemma may_claim_marked [simp]: "may_claim p (Some (MarkForRemoval p))"
  by (simp add: may_claim_def)

context compound_field
begin

lemma cleared_claims_Done_iff:
  assumes "unmarked p"
  shows "fst (claim_all ks cid p (clear_all cs cid p op)) = Done \<longleftrightarrow>
    distinct ks \<and> (\<forall>k \<in> set ks. free_after_removal op cid (set cs) p (slot k) k)"
  using assms by (auto simp: claim_all_Done_iff clear_all_view free_after_removal_def)

lemma cleared_claims_view:
  assumes "fst (claim_all ks cid p (clear_all cs cid p op)) = Done"
  shows "owner_view (snd (claim_all ks cid p (clear_all cs cid p op))) (cid, slot k) =
    (if k \<in> set ks then Some p else if k \<in> set cs then Some (MarkForRemoval p)
     else owner_view op (cid, slot k))"
  using claim_all_view [OF assms] by (simp add: clear_all_view)

end

text \<open>
  C21. Mounts: a plugin's mount list is applied in full or refused. It goes through exactly when no
  destination is added twice and each added destination is one the plugin may claim, or one it also
  removes that an earlier plugin had added. Then the collected mounts are those not removed, the
  additions, and a removal marker for each removal without an addition; the container that later
  plugins see has lost the removed and the replaced mounts and has the additions at its end; and the
  plugin owns what it added. The iteration order of the map of removals shows in nothing but the
  order of the markers.
\<close>

theorem adjustMounts_spec:
  assumes "create_container s = Some c" and "rp_adjust (rs_reply s) = Some a"
    and "is_order ord" and "unmarked p" and "adjustMounts ord mounts p s = (st, t)"
  shows "let add = additions Mount_IsMarkedForRemoval mounts;
             removed = removed_keys Mount_IsMarkedForRemoval mounts;
             added = added_keys Mount_IsMarkedForRemoval mounts;
             cleared = removed \<inter> mnt_destination ` set (adj_mounts a)
         in (st = Done \<longleftrightarrow> distinct (map mnt_destination add) \<and>
              (\<forall>k \<in> added. free_after_removal (rs_owners s) (ctr_id c) cleared p
                 (CompoundSlot Field_Mounts k) k)) \<and>
            (st = Done \<longrightarrow>
              create_container t = Some (c\<lparr>ctr_mounts :=
                filter (\<lambda>m. mnt_destination m \<notin> removed \<and> mnt_destination m \<notin> added) (ctr_mounts c) @ add\<rparr>) \<and>
              rp_adjust (rs_reply t) = Some (a\<lparr>adj_mounts :=
                filter (\<lambda>m. mnt_destination m \<notin> removed) (adj_mounts a) @ add @
                pure_removals ord Mount_IsMarkedForRemoval mounts\<rparr>) \<and>
              (\<forall>k. owner_view (rs_owners t) (ctr_id c, CompoundSlot Field_Mounts k) =
                (if k \<in> added then Some p else if k \<in> cleared then Some (MarkForRemoval p)
                 else owner_view (rs_owners s) (ctr_id c, CompoundSlot Field_Mounts k))))"
proof (cases "mounts = []")
  case True
  have "pure_removals ord Mount_IsMarkedForRemoval [] = []"
    using is_order_set [OF assms(3), of "[]"] by (simp add: pure_removals_def removals_def range_in_def)
  with True assms show ?thesis
    by (simp add: adjustMounts_def additions_def removed_keys_def added_keys_def Let_def)
next
  case False
  note s = mk_same [OF assms(1,2)]
  show ?thesis
    using adjustMounts_mk [OF s(2) assms(3) False, of p c a "rs_owners s"] assms(4,5) s(2)
      mount_field.cleared_claims_Done_iff [OF assms(4)]
    by (simp add: s(1) Let_def mount_field.cleared_claims_view)
qed

lemma same_linux: "adj_linux a = Some k \<Longrightarrow> a\<lparr>adj_linux := Some k\<rparr> = (a :: container_adjustment)"
  by (cases a) simp

lemma sample_plugin [simp]: "unmarked ''10-a''"
  by (simp add: unmarked_def IsMarkedForRemoval_def)

theorem adjustMounts_spec_witness:
  "\<exists>t. adjustMounts (\<lambda>ks. ks) [zero_mount\<lparr>mnt_destination := ''/data''\<rparr>] ''10-a''
       (fresh_result zero_container) = (Done, t) \<and>
     owner_view (rs_owners t) ([], CompoundSlot Field_Mounts ''/data'') = Some ''10-a''"
proof -
  let ?ms = "[zero_mount\<lparr>mnt_destination := ''/data''\<rparr>]"
  obtain st t where r: "adjustMounts (\<lambda>ks. ks) ?ms ''10-a'' (fresh_result zero_container) = (st, t)"
    by (cases "adjustMounts (\<lambda>ks. ks) ?ms ''10-a'' (fresh_result zero_container)")
  have "additions Mount_IsMarkedForRemoval ?ms = ?ms" "added_keys Mount_IsMarkedForRemoval ?ms = {''/data''}"
    "removed_keys Mount_IsMarkedForRemoval ?ms = {}"
    by (simp_all add: additions_def added_keys_def removed_keys_def Mount_IsMarkedForRemoval_def
        IsMarkedForRemoval_def)
  with adjustMounts_spec [OF fresh_parts(1,2) is_order_id sample_plugin r] r show ?thesis
    by (simp add: Let_def free_after_removal_def may_claim_def) (simp add: zero_defs)
qed

text \<open>
  Environment variables: as for mounts, but a removal without an addition leaves no marker in
  the reply. The container's list is of OCI strings: it loses every string that names a removed or
  added variable and gets the additions as \<open>NAME=value\<close> at its end.
\<close>

theorem adjustEnv_spec:
  assumes "create_container s = Some c" and "rp_adjust (rs_reply s) = Some a"
    and "unmarked p" and "adjustEnv env p s = (st, t)"
  shows "let add = additions KeyValue_IsMarkedForRemoval env;
             removed = removed_keys KeyValue_IsMarkedForRemoval env;
             added = added_keys KeyValue_IsMarkedForRemoval env;
             cleared = removed \<inter> kv_key ` set (adj_env a)
         in (st = Done \<longleftrightarrow> distinct (map kv_key add) \<and>
              (\<forall>k \<in> added. free_after_removal (rs_owners s) (ctr_id c) cleared p
                 (CompoundSlot Field_Env k) k)) \<and>
            (st = Done \<longrightarrow>
              create_container t = Some (c\<lparr>ctr_env :=
                filter (\<lambda>e. fst (splitEnvVar e) \<notin> removed \<and> fst (splitEnvVar e) \<notin> added) (ctr_env c) @
                map KeyValue_ToOCI add\<rparr>) \<and>
              rp_adjust (rs_reply t) = Some (a\<lparr>adj_env :=
                filter (\<lambda>e. kv_key e \<notin> removed) (adj_env a) @ add\<rparr>) \<and>
              (\<forall>k. owner_view (rs_owners t) (ctr_id c, CompoundSlot Field_Env k) =
                (if k \<in> added then Some p else if k \<in> cleared then Some (MarkForRemoval p)
                 else owner_view (rs_owners s) (ctr_id c, CompoundSlot Field_Env k))))"
proof (cases "env = []")
  case True
  with assms show ?thesis
    by (simp add: adjustEnv_def additions_def removed_keys_def added_keys_def Let_def)
next
  case False
  note s = mk_same [OF assms(1,2)]
  show ?thesis
    using adjustEnv_mk [OF s(2) False, of p c a "rs_owners s"] assms(3,4) s(2)
      env_field.cleared_claims_Done_iff [OF assms(3)]
    by (simp add: s(1) Let_def env_field.cleared_claims_view)
qed

theorem adjustEnv_spec_witness:
  "\<exists>t. adjustEnv [\<lparr>kv_key = ''A'', kv_value = ''new''\<rparr>] ''10-a''
       (fresh_result (zero_container\<lparr>ctr_env := [''A=old'', ''B=x'']\<rparr>)) = (Done, t) \<and>
     map_option ctr_env (create_container t) = Some [''B=x'', ''A=new'']"
proof -
  let ?c = "zero_container\<lparr>ctr_env := [''A=old'', ''B=x'']\<rparr>"
  let ?es = "[\<lparr>kv_key = ''A'', kv_value = ''new''\<rparr>]"
  obtain st t where r: "adjustEnv ?es ''10-a'' (fresh_result ?c) = (st, t)"
    by (cases "adjustEnv ?es ''10-a'' (fresh_result ?c)")
  have "additions KeyValue_IsMarkedForRemoval ?es = ?es" "added_keys KeyValue_IsMarkedForRemoval ?es = {''A''}"
    "removed_keys KeyValue_IsMarkedForRemoval ?es = {}"
    by (simp_all add: additions_def added_keys_def removed_keys_def KeyValue_IsMarkedForRemoval_def
        IsMarkedForRemoval_def)
  with adjustEnv_spec [OF fresh_parts(1,2) sample_plugin r] r show ?thesis
    by (simp add: Let_def free_after_removal_def may_claim_def KeyValue_ToOCI_def prepare_container_def
        splitEnvVar_def splitN2_def)
qed

text \<open>
  Devices: as for mounts, in the Linux part of the container and of the adjustment. A removal
  without an addition leaves no trace in the reply: the runtime is never told to drop the device,
  although later plugins no longer see it in the container.
\<close>

theorem adjustDevices_spec:
  assumes "create_container s = Some c" and "rp_adjust (rs_reply s) = Some a"
    and "ctr_linux c = Some l" and "adj_linux a = Some k"
    and "unmarked p" and "adjustDevices devices p s = (st, t)"
  shows "let add = additions LinuxDevice_IsMarkedForRemoval devices;
             removed = removed_keys LinuxDevice_IsMarkedForRemoval devices;
             added = added_keys LinuxDevice_IsMarkedForRemoval devices;
             cleared = removed \<inter> dev_path ` set (la_devices k)
         in (st = Done \<longleftrightarrow> distinct (map dev_path add) \<and>
              (\<forall>x \<in> added. free_after_removal (rs_owners s) (ctr_id c) cleared p
                 (CompoundSlot Field_Devices x) x)) \<and>
            (st = Done \<longrightarrow>
              create_container t = Some (c\<lparr>ctr_linux := Some (l\<lparr>lc_devices :=
                filter (\<lambda>d. dev_path d \<notin> removed \<and> dev_path d \<notin> added) (lc_devices l) @ add\<rparr>)\<rparr>) \<and>
              rp_adjust (rs_reply t) = Some (a\<lparr>adj_linux := Some (k\<lparr>la_devices :=
                filter (\<lambda>d. dev_path d \<notin> removed) (la_devices k) @ add\<rparr>)\<rparr>))"
proof (cases "devices = []")
  case True
  with assms show ?thesis
    by (cases c; cases a; cases l; cases k)
      (simp add: adjustDevices_def additions_def removed_keys_def added_keys_def Let_def)
next
  case False
  note s = mk_same [OF assms(1,2)]
  show ?thesis
    using adjustDevices_mk [OF s(2) False assms(3,4), of p "rs_owners s"] assms(5,6) s(2)
      device_field.cleared_claims_Done_iff [OF assms(5)]
    by (simp add: s(1) Let_def)
qed

theorem adjustDevices_spec_witness:
  "\<exists>t. adjustDevices [zero_device\<lparr>dev_path := ''-/dev/a''\<rparr>] ''10-a''
       (fresh_result (zero_container\<lparr>ctr_linux :=
          Some (zero_linux_container\<lparr>lc_devices := [zero_device\<lparr>dev_path := ''/dev/a''\<rparr>]\<rparr>)\<rparr>)) = (Done, t) \<and>
     rp_adjust (rs_reply t) = Some empty_adjustment"
proof -
  let ?ds = "[zero_device\<lparr>dev_path := ''-/dev/a''\<rparr>]"
  let ?c = "zero_container\<lparr>ctr_linux :=
    Some (zero_linux_container\<lparr>lc_devices := [zero_device\<lparr>dev_path := ''/dev/a''\<rparr>]\<rparr>)\<rparr>"
  obtain st t where r: "adjustDevices ?ds ''10-a'' (fresh_result ?c) = (st, t)"
    by (cases "adjustDevices ?ds ''10-a'' (fresh_result ?c)")
  obtain l where l: "ctr_linux (prepare_container ?c) = Some l" using fresh_parts(5) by blast
  obtain k where k: "adj_linux empty_adjustment = Some k" "la_devices k = []"
    by (simp add: empty_adjustment_def zero_defs)
  have "additions LinuxDevice_IsMarkedForRemoval ?ds = []" "added_keys LinuxDevice_IsMarkedForRemoval ?ds = {}"
    by (simp_all add: additions_def added_keys_def LinuxDevice_IsMarkedForRemoval_def IsMarkedForRemoval_def)
  moreover have "k\<lparr>la_devices := []\<rparr> = k" using k(2) by (cases k) simp
  ultimately show ?thesis
    using adjustDevices_spec [OF fresh_parts(1,2) l k(1) sample_plugin r] r k
    by (simp add: Let_def same_linux)
qed

end
