(* ===== verification/Adjust_Map_Laws.thy ===== *)
theory Adjust_Map_Laws
  imports Adjust_Laws
begin

text \<open>
  The adjustments kept in maps (annotations, network devices, sysctls): what the shared loop
  does, independent of the order in which the runtime ranges over the plugin's map.
\<close>

section \<open>The shared loop\<close>

lemma map_of_filter_key: "distinct (map fst es) \<Longrightarrow> (k, v) \<in> set es \<Longrightarrow> map_of es k = Some v"
  by simp

lemma split_marked_rest:
  "(k, v) \<in> set (snd (split_marked es)) \<longleftrightarrow> (k, v) \<in> set es \<and> unmarked k"
  by (auto simp: split_marked_def unmarked_def)

lemma split_marked_del:
  "x \<in> set (fst (split_marked es)) \<longleftrightarrow> MarkForRemoval x \<in> fst ` set es"
proof
  assume "x \<in> set (fst (split_marked es))"
  then obtain k v where "(k, v) \<in> set es" "snd (IsMarkedForRemoval k)" "x = fst (IsMarkedForRemoval k)"
    by (auto simp: split_marked_def)
  then show "MarkForRemoval x \<in> fst ` set es" by (metis rm.marked_iff fst_conv imageI)
next
  assume "MarkForRemoval x \<in> fst ` set es"
  then obtain v where "(MarkForRemoval x, v) \<in> set es" by auto
  then show "x \<in> set (fst (split_marked es))"
    by (force simp: split_marked_def rm.check_mark)
qed

lemma split_marked_distinct:
  "distinct (map fst es) \<Longrightarrow> distinct (map fst (snd (split_marked es)))"
  by (simp add: split_marked_def distinct_map_filter)

context compound_field
begin

text \<open>
  \<open>cset m\<close> and \<open>aset n\<close> are the container and the adjustment with the maps \<open>m\<close> and \<open>n\<close> in the field
  at hand; \<open>z\<close> is the value stored with a removal marker.
\<close>

lemma store_entries_spec:
  assumes "\<And>k m n op. remove k (mk s (cset m) (aset n) op) =
      (Done, mk s (cset (AList.delete k m)) (aset (AList.update (MarkForRemoval k) z n))
         (OwningPlugins_Clear (clear k) cid p op))"
    and "\<And>k v m n op. store k v (mk s (cset m) (aset n) op) =
      (case OwningPlugins_Claim (claim k) cid p op of
         (Done, op') \<Rightarrow> (Done, mk s (cset (AList.update k v m)) (aset (AList.update k v n)) op')
       | (st, op') \<Rightarrow> (st, mk s (cset m) (aset n) op'))"
    and "distinct (map fst es)" and "\<forall>k \<in> fst ` set es. unmarked k"
  shows "\<exists>st del' m' n' op'.
    store_entries remove store es del (mk s (cset m) (aset n) op) = (st, del', mk s (cset m') (aset n') op') \<and>
    (st = Done \<longleftrightarrow> (\<forall>k \<in> fst ` set es. k \<in> set del \<or> may_claim p (owner_view op (cid, slot k)))) \<and>
    st \<noteq> Panicked \<and>
    (st = Done \<longrightarrow>
      set del' = set del - fst ` set es \<and>
      map_of m' = map_of m ++ map_of es \<and>
      map_of n' = map_of n ++ (\<lambda>k. if \<exists>x \<in> set del \<inter> fst ` set es. k = MarkForRemoval x then Some z else None)
        ++ map_of es)"
  using assms(3,4)
proof (induction es arbitrary: del m n op)
  case Nil
  then show ?case by (auto simp: map_add_def)
next
  case (Cons e es)
  obtain k v where e: "e = (k, v)" by (cases e)
  have fresh: "k \<notin> fst ` set es" using Cons.prems(1) by (auto simp: e)
  have other: "k' \<in> fst ` set es \<Longrightarrow> slot k' \<noteq> slot k" for k' using fresh slot_inj by auto
  let ?m1 = "if k \<in> set del then AList.delete k m else m"
  let ?n1 = "if k \<in> set del then AList.update (MarkForRemoval k) z n else n"
  let ?op1 = "if k \<in> set del then OwningPlugins_Clear (clear k) cid p op else op"
  have removed: "(if k \<in> set del then remove k else skip) (mk s (cset m) (aset n) op) =
      (Done, mk s (cset ?m1) (aset ?n1) ?op1)"
    by (simp add: assms(1))
  have may: "may_claim p (owner_view ?op1 (cid, slot k)) \<longleftrightarrow>
      k \<in> set del \<or> may_claim p (owner_view op (cid, slot k))"
    by (simp add: clear_view)
  obtain st op2 where r: "OwningPlugins_Claim (claim k) cid p ?op1 = (st, op2)"
    by (cases "OwningPlugins_Claim (claim k) cid p ?op1") auto
  have st: "st = Done \<longleftrightarrow> may_claim p (owner_view ?op1 (cid, slot k))" "st \<noteq> Panicked"
    using ow.claim_Done_iff [of "(cid, slot k)" p ?op1] ow.claim_no_panic [of "(cid, slot k)" p ?op1]
      r claim_is_at [of k cid p] by simp_all
  show ?case
  proof (cases "st = Done")
    case False
    then have "store_entries remove store (e # es) del (mk s (cset m) (aset n) op) =
        (st, del, mk s (cset ?m1) (aset ?n1) op2)"
      using st(2) by (cases st) (simp_all add: e removed assms(2) r)
    then show ?thesis using False st may e by (intro exI conjI) auto
  next
    case True
    have view: "owner_view op2 = (owner_view ?op1)((cid, slot k) \<mapsto> p)"
      using ow.claim_view [of "(cid, slot k)" p ?op1] st True r claim_is_at [of k cid p] by simp
    have keep: "(k' \<in> set (removeAll k del) \<or> may_claim p (owner_view op2 (cid, slot k'))) =
        (k' \<in> set del \<or> may_claim p (owner_view op (cid, slot k')))" if "k' \<in> fst ` set es" for k'
      using other [OF that] fresh that by (auto simp: view clear_view)
    have step: "store_entries remove store (e # es) del (mk s (cset m) (aset n) op) =
        store_entries remove store es (removeAll k del)
          (mk s (cset (AList.update k v ?m1)) (aset (AList.update k v ?n1)) op2)"
      using True by (simp add: e removed assms(2) r)
    have cond: "(\<forall>k' \<in> fst ` set es. k' \<in> set (removeAll k del) \<or> may_claim p (owner_view op2 (cid, slot k'))) =
        (\<forall>k' \<in> fst ` set es. k' \<in> set del \<or> may_claim p (owner_view op (cid, slot k')))"
      using keep by blast
    have prems: "distinct (map fst es)" "\<forall>k \<in> fst ` set es. unmarked k"
      using Cons.prems by (auto simp: e)
    note rec = Cons.IH [OF prems, of "removeAll k del" "AList.update k v ?m1" "AList.update k v ?n1" op2,
      unfolded cond]
    obtain st' del' m' n' op' where ih:
      "store_entries remove store es (removeAll k del)
         (mk s (cset (AList.update k v ?m1)) (aset (AList.update k v ?n1)) op2) =
         (st', del', mk s (cset m') (aset n') op')"
      "st' = Done \<longleftrightarrow> (\<forall>k' \<in> fst ` set es. k' \<in> set del \<or> may_claim p (owner_view op (cid, slot k')))"
      "st' \<noteq> Panicked"
      "st' = Done \<longrightarrow> set del' = set (removeAll k del) - fst ` set es \<and>
        map_of m' = map_of (AList.update k v ?m1) ++ map_of es \<and>
        map_of n' = map_of (AList.update k v ?n1) ++
          (\<lambda>k'. if \<exists>x \<in> set (removeAll k del) \<inter> fst ` set es. k' = MarkForRemoval x then Some z else None)
          ++ map_of es"
      using rec by (elim exE conjE) (rule that, assumption+)
    have nk: "map_of es k = None" using fresh by (simp add: map_of_eq_None_iff)
    have uk: "MarkForRemoval x \<noteq> k" for x using Cons.prems(2) by (auto simp: e unmarked_iff)
    have m: "map_of (AList.update k v ?m1) ++ map_of es = map_of m ++ map_of (e # es)"
      using nk by (auto simp: fun_eq_iff map_add_def e split: option.split)
    have n: "map_of (AList.update k v ?n1) ++
        (\<lambda>k'. if \<exists>x \<in> set (removeAll k del) \<inter> fst ` set es. k' = MarkForRemoval x then Some z else None) ++
        map_of es =
      map_of n ++ (\<lambda>k'. if \<exists>x \<in> set del \<inter> fst ` set (e # es). k' = MarkForRemoval x then Some z else None) ++
        map_of (e # es)"
      using nk uk fresh
      by (auto simp: fun_eq_iff map_add_def e rm.mark_inj split: option.split)
    have all: "st' = Done \<longleftrightarrow> (\<forall>k' \<in> fst ` set (e # es).
        k' \<in> set del \<or> may_claim p (owner_view op (cid, slot k')))"
      using ih(2) may st(1) True by (simp add: e)
    have d: "set (removeAll k del) - fst ` set es = set del - fst ` set (e # es)"
      by (auto simp: e)
    show ?thesis
      unfolding step ih(1)
      by (rule exI [of _ st'], rule exI [of _ del'], rule exI [of _ m'], rule exI [of _ n'],
          rule exI [of _ op'], intro conjI refl all ih(3))
        (use ih(4) in \<open>simp only: m n d\<close>)
  qed
qed

lemma adjust_map_spec:
  assumes "\<And>k m n op. remove k (mk s (cset m) (aset n) op) =
      (Done, mk s (cset (AList.delete k m)) (aset (AList.update (MarkForRemoval k) z n))
         (OwningPlugins_Clear (clear k) cid p op))"
    and "\<And>k v m n op. store k v (mk s (cset m) (aset n) op) =
      (case OwningPlugins_Claim (claim k) cid p op of
         (Done, op') \<Rightarrow> (Done, mk s (cset (AList.update k v m)) (aset (AList.update k v n)) op')
       | (st, op') \<Rightarrow> (st, mk s (cset m) (aset n) op'))"
    and "\<And>k m n op. leave k (mk s (cset m) (aset n) op) =
      (Done, mk s (cset m) (aset (AList.update (MarkForRemoval k) z n)) op)"
    and "gomap_ok es" and "is_order ord"
  shows "\<exists>st m' n' op'.
    adjust_map ord remove store leave es (mk s (cset m) (aset n) op) = (st, mk s (cset m') (aset n') op') \<and>
    (st = Done \<longleftrightarrow> (\<forall>k \<in> fst ` set es. unmarked k \<longrightarrow>
       MarkForRemoval k \<in> fst ` set es \<or> may_claim p (owner_view op (cid, slot k)))) \<and>
    st \<noteq> Panicked \<and>
    (st = Done \<longrightarrow>
      (\<forall>k. map_of m' k = (case map_of es k of Some v \<Rightarrow> if unmarked k then Some v else map_of m k
         | None \<Rightarrow> map_of m k)) \<and>
      (\<forall>k. map_of n' k = (case map_of es k of Some v \<Rightarrow> if unmarked k then Some v else Some z
         | None \<Rightarrow> map_of n k)))"
proof -
  obtain del rest where dr: "split_marked es = (del, rest)" by (cases "split_marked es")
  have rest: "(k, v) \<in> set rest \<longleftrightarrow> (k, v) \<in> set es \<and> unmarked k" for k v
    using split_marked_rest [of k v es] dr by simp
  have del: "x \<in> set del \<longleftrightarrow> MarkForRemoval x \<in> fst ` set es" for x
    using split_marked_del [of x es] dr by simp
  have d: "distinct (map fst rest)" using assms(4) split_marked_distinct [of es] dr by (simp add: gomap_ok_def)
  have keys: "k \<in> fst ` set rest \<longleftrightarrow> k \<in> fst ` set es \<and> unmarked k" for k using rest by force
  then have "\<forall>k \<in> fst ` set rest. unmarked k" by blast
  note loop = store_entries_spec [OF assms(1,2) d this, of del m n op]
  obtain st del' m' n' op' where r:
    "store_entries remove store rest del (mk s (cset m) (aset n) op) = (st, del', mk s (cset m') (aset n') op')"
    "st = Done \<longleftrightarrow> (\<forall>k \<in> fst ` set rest. k \<in> set del \<or> may_claim p (owner_view op (cid, slot k)))"
    "st \<noteq> Panicked"
    "st = Done \<longrightarrow> set del' = set del - fst ` set rest \<and>
      map_of m' = map_of m ++ map_of rest \<and>
      map_of n' = map_of n ++ (\<lambda>k. if \<exists>x \<in> set del \<inter> fst ` set rest. k = MarkForRemoval x then Some z else None)
        ++ map_of rest"
    using loop by (elim exE conjE) (rule that, assumption+)
  have cond: "st = Done \<longleftrightarrow> (\<forall>k \<in> fst ` set es. unmarked k \<longrightarrow>
      MarkForRemoval k \<in> fst ` set es \<or> may_claim p (owner_view op (cid, slot k)))"
    unfolding r(2) by (metis keys del)
  show ?thesis
  proof (cases "st = Done")
    case False
    then have "adjust_map ord remove store leave es (mk s (cset m) (aset n) op) = (st, mk s (cset m') (aset n') op')"
      using r(1) by (cases st) (simp_all add: adjust_map_def dr)
    with False r(3) cond show ?thesis by blast
  next
    case True
    have "for_each ks leave (mk s (cset m) (aset n) op) =
        (Done, mk s (cset m) (aset (fold (\<lambda>k. AList.update (MarkForRemoval k) z) ks n)) op)" for ks m n op
      by (induction ks arbitrary: n) (simp_all add: for_each_step assms(3))
    then have run: "adjust_map ord remove store leave es (mk s (cset m) (aset n) op) =
        (Done, mk s (cset m') (aset (fold (\<lambda>k. AList.update (MarkForRemoval k) z) (ord del') n')) op')"
      using True r(1) by (simp add: adjust_map_def dr)
    have marks: "map_of (fold (\<lambda>k. AList.update (MarkForRemoval k) z) ks n') k =
        (if \<exists>x \<in> set ks. k = MarkForRemoval x then Some z else map_of n' k)" for ks n' k
      by (induction ks arbitrary: n') auto
    have lookup: "map_of rest k = (case map_of es k of Some v \<Rightarrow> if unmarked k then Some v else None | None \<Rightarrow> None)" for k
    proof (cases "map_of es k")
      case None
      moreover from None have "map_of rest k = None" using keys [of k] by (simp add: map_of_eq_None_iff)
      ultimately show ?thesis by simp
    next
      case (Some v)
      then show ?thesis
        using rest [of k v] d keys
        by (auto simp: map_of_eq_None_iff image_iff dest: map_of_SomeD)
    qed
    have marked: "k \<in> fst ` set es \<longleftrightarrow> (\<exists>x \<in> set del. k = MarkForRemoval x)" if "\<not> unmarked k" for k
      using that del unmarked_iff by auto
    have plain: "unmarked k \<Longrightarrow> k \<noteq> MarkForRemoval x" for k x using unmarked_iff by blast
    have m': "map_of m' k = (case map_of es k of Some v \<Rightarrow> if unmarked k then Some v else map_of m k
        | None \<Rightarrow> map_of m k)" for k
      using r(4) True by (simp add: lookup map_add_def split: option.split)
    have n': "map_of (fold (\<lambda>k. AList.update (MarkForRemoval k) z) (ord del') n') k =
        (case map_of es k of Some v \<Rightarrow> if unmarked k then Some v else Some z | None \<Rightarrow> map_of n k)" for k
    proof (cases "unmarked k")
      case True
      then show ?thesis
        using r(4) \<open>st = Done\<close> plain
        by (simp add: marks lookup map_add_def split: option.split)
    next
      case False
      have "map_of rest k = None" using False lookup [of k] by (simp split: option.splits)
      then have "map_of (fold (\<lambda>k. AList.update (MarkForRemoval k) z) (ord del') n') k =
          (if \<exists>x \<in> set del. k = MarkForRemoval x then Some z else map_of n k)"
        using r(4) \<open>st = Done\<close> assms(5) by (auto simp: marks map_add_def)
      then show ?thesis
        using False marked [OF False] map_of_eq_None_iff [of es k]
        by (cases "map_of es k") simp_all
    qed
    show ?thesis
      unfolding run using cond True m' n' by (intro exI conjI) auto
  qed
qed

end

section \<open>Annotations, network devices and sysctls\<close>

text \<open>The plugin's entry for a key, as the code stores it with the container and with the reply.\<close>

definition set_value :: "(string \<times> 'v) list \<Rightarrow> string \<Rightarrow> 'v option" where
  "set_value es k = (if unmarked k then map_of es k else None)"

definition reply_value :: "'v \<Rightarrow> (string \<times> 'v) list \<Rightarrow> string \<Rightarrow> 'v option" where
  "reply_value z es k =
     (case map_of es k of None \<Rightarrow> None | Some v \<Rightarrow> if unmarked k then Some v else Some z)"

definition may_set_all :: "owning_plugins \<Rightarrow> string \<Rightarrow> (string \<Rightarrow> slot) \<Rightarrow> string \<Rightarrow> string set \<Rightarrow> bool" where
  "may_set_all op cid slot p ks \<longleftrightarrow>
     (\<forall>k \<in> ks. unmarked k \<longrightarrow> MarkForRemoval k \<in> ks \<or> may_claim p (owner_view op (cid, slot k)))"

context compound_field
begin

lemma adjust_map_result:
  assumes "\<And>k m n op. remove k (mk s (cset m) (aset n) op) =
      (Done, mk s (cset (AList.delete k m)) (aset (AList.update (MarkForRemoval k) z n))
         (OwningPlugins_Clear (clear k) cid p op))"
    and "\<And>k v m n op. store k v (mk s (cset m) (aset n) op) =
      (case OwningPlugins_Claim (claim k) cid p op of
         (Done, op') \<Rightarrow> (Done, mk s (cset (AList.update k v m)) (aset (AList.update k v n)) op')
       | (st, op') \<Rightarrow> (st, mk s (cset m) (aset n) op'))"
    and "\<And>k m n op. leave k (mk s (cset m) (aset n) op) =
      (Done, mk s (cset m) (aset (AList.update (MarkForRemoval k) z n)) op)"
    and "gomap_ok es" and "is_order ord" and "creating s"
    and "adjust_map ord remove store leave es (mk s (cset m) (aset n) op) = (st, t)"
  shows "(st = Done \<longleftrightarrow> may_set_all op cid slot p (fst ` set es)) \<and> st \<noteq> Panicked \<and>
    (st = Done \<longrightarrow> (\<exists>m' n'.
      create_container t = Some (cset m') \<and> rp_adjust (rs_reply t) = Some (aset n') \<and>
      map_of m' = map_of m ++ set_value es \<and> map_of n' = map_of n ++ reply_value z es))"
proof -
  note spec = adjust_map_spec [OF assms(1,2,3,4,5), of m n op]
  obtain st' m' n' op' where
    "adjust_map ord remove store leave es (mk s (cset m) (aset n) op) = (st', mk s (cset m') (aset n') op')"
    "st' = Done \<longleftrightarrow> (\<forall>k \<in> fst ` set es. unmarked k \<longrightarrow>
       MarkForRemoval k \<in> fst ` set es \<or> may_claim p (owner_view op (cid, slot k)))"
    "st' \<noteq> Panicked"
    "st' = Done \<longrightarrow>
      (\<forall>k. map_of m' k = (case map_of es k of Some v \<Rightarrow> if unmarked k then Some v else map_of m k
         | None \<Rightarrow> map_of m k)) \<and>
      (\<forall>k. map_of n' k = (case map_of es k of Some v \<Rightarrow> if unmarked k then Some v else Some z
         | None \<Rightarrow> map_of n k))"
    using spec by (elim exE conjE) (rule that, assumption+)
  moreover from this(1) assms(7) have "st = st'" "t = mk s (cset m') (aset n') op'" by simp_all
  moreover have "map_of m' = map_of m ++ set_value es \<and> map_of n' = map_of n ++ reply_value z es"
    if "st' = Done"
    using calculation(4) that
    by (auto simp: fun_eq_iff map_add_def set_value_def reply_value_def split: option.split)
  ultimately show ?thesis
    using assms(6) unfolding may_set_all_def
    by (intro conjI impI exI [of _ m'] exI [of _ n']) simp_all
qed

end

text \<open>
  Annotations: the result does not depend on the order in which the runtime ranges over the
  plugin's map, nor over the map of removals. The map goes through exactly when each key it sets is
  also removed in it or is one the plugin may claim. Then every set key has the plugin's value both
  in the container that later plugins see and in the reply, and every removed key is marked in the
  reply. A key that is only removed stays in the container, and in the reply if an earlier plugin
  set it.
\<close>

theorem adjustAnnotations_spec:
  assumes "create_container s = Some c" and "rp_adjust (rs_reply s) = Some a"
    and "ctr_annotations c = Some m" and "adj_annotations a = Some n"
    and "gomap_ok es" and "is_order ord" and "es \<noteq> []"
    and "adjustAnnotations ord (Some es) p s = (st, t)"
  shows "(st = Done \<longleftrightarrow>
      may_set_all (rs_owners s) (ctr_id c) (CompoundSlot Field_Annotations) p (fst ` set es)) \<and>
    st \<noteq> Panicked \<and>
    (st = Done \<longrightarrow> (\<exists>m' n'.
      create_container t = Some (c\<lparr>ctr_annotations := Some m'\<rparr>) \<and>
      rp_adjust (rs_reply t) = Some (a\<lparr>adj_annotations := Some n'\<rparr>) \<and>
      map_of m' = map_of m ++ set_value es \<and> map_of n' = map_of n ++ reply_value [] es))"
proof -
  note s = mk_same [OF assms(1,2)]
  note put = put_container_annotation_def put_reply_annotation_def on_part_def mk_simps s(2)
  let ?cset = "\<lambda>m. c\<lparr>ctr_annotations := Some m\<rparr>" and ?aset = "\<lambda>n. a\<lparr>adj_annotations := Some n\<rparr>"
  let ?remove = "\<lambda>k. run [clear_r (ClearAnnotation k) (ctr_id c) p,
    on_container (assign (\<lambda>c. c\<lparr>ctr_annotations := gmap_delete k (ctr_annotations c)\<rparr>)),
    put_reply_annotation (MarkForRemoval k) []]"
  let ?store = "\<lambda>k v. run [claim_r (ClaimAnnotation k) (ctr_id c) p, put_container_annotation k v,
    put_reply_annotation k v]"
  let ?leave = "\<lambda>k. put_reply_annotation (MarkForRemoval k) []"
  have remove: "?remove k (mk s (?cset m) (?aset n) op) =
      (Done, mk s (?cset (AList.delete k m)) (?aset (AList.update (MarkForRemoval k) [] n))
         (OwningPlugins_Clear (ClearAnnotation k) (ctr_id c) p op))" for k m n op
    by (simp add: put gmap_delete_def)
  have store: "?store k v (mk s (?cset m) (?aset n) op) =
      (case OwningPlugins_Claim (ClaimAnnotation k) (ctr_id c) p op of
         (Done, op') \<Rightarrow> (Done, mk s (?cset (AList.update k v m)) (?aset (AList.update k v n)) op')
       | (st, op') \<Rightarrow> (st, mk s (?cset m) (?aset n) op'))" for k v m n op
    by (simp add: put split_def split: status.split)
  have leave: "?leave k (mk s (?cset m) (?aset n) op) =
      (Done, mk s (?cset m) (?aset (AList.update (MarkForRemoval k) [] n)) op)" for k m n op
    by (simp add: put)
  have same: "?cset m = c" "?aset n = a" using assms(3,4) by (cases c, simp, cases a, simp)
  have "adjust_map ord ?remove ?store ?leave es (mk s (?cset m) (?aset n) (rs_owners s)) = (st, t)"
    unfolding same s(1) using assms(1,7,8)
    by (simp add: adjustAnnotations_def gmap_entries_def with_id_def)
  from annotation_field.adjust_map_result [OF remove store leave assms(5,6) s(2) this]
  show ?thesis .
qed

theorem adjustAnnotations_spec_witness:
  "\<exists>t m'. adjustAnnotations rev (Some [(''-a'', []), (''b'', ''2'')]) ''10-a''
       (fresh_result (zero_container\<lparr>ctr_annotations := Some [(''a'', ''1'')]\<rparr>)) = (Done, t) \<and>
     map_option ctr_annotations (create_container t) = Some (Some m') \<and>
     map_of m' ''a'' = Some ''1'' \<and> map_of m' ''b'' = Some ''2''"
proof -
  let ?c = "zero_container\<lparr>ctr_annotations := Some [(''a'', ''1'')]\<rparr>"
  let ?es = "[(''-a'', []), (''b'', ''2'')]"
  obtain st t where r: "adjustAnnotations rev (Some ?es) ''10-a'' (fresh_result ?c) = (st, t)"
    by (cases "adjustAnnotations rev (Some ?es) ''10-a'' (fresh_result ?c)")
  have m: "ctr_annotations (prepare_container ?c) = Some [(''a'', ''1'')]"
    by (simp add: prepare_container_def alloc_def)
  have n: "adj_annotations empty_adjustment = Some []" by (simp add: empty_adjustment_def)
  have "gomap_ok ?es" "is_order rev" by (simp_all add: gomap_ok_def is_order_def)
  from adjustAnnotations_spec [OF fresh_parts(1,2) m n this _ r]
  have "st = Done" "\<exists>m'. create_container t = Some ((prepare_container ?c)\<lparr>ctr_annotations := Some m'\<rparr>) \<and>
      map_of m' = map_of [(''a'', ''1'')] ++ set_value ?es"
    by (auto simp: may_set_all_def may_claim_def)
  with r show ?thesis
    by (auto simp: set_value_def map_add_def unmarked_def IsMarkedForRemoval_def)
qed

text \<open>
  Network devices: as for annotations, in the Linux part of the container and of the adjustment,
  with a nil device as the value of a removal marker.
\<close>

theorem adjustLinuxNetDevices_spec:
  assumes "create_container s = Some c" and "rp_adjust (rs_reply s) = Some a"
    and "ctr_linux c = Some l" and "adj_linux a = Some k"
    and "lc_net_devices l = Some m" and "la_net_devices k = Some n"
    and "gomap_ok es" and "is_order ord" and "es \<noteq> []"
    and "adjustLinuxNetDevices ord (Some es) p s = (st, t)"
  shows "(st = Done \<longleftrightarrow>
      may_set_all (rs_owners s) (ctr_id c) (CompoundSlot Field_LinuxNetDevices) p (fst ` set es)) \<and>
    st \<noteq> Panicked \<and>
    (st = Done \<longrightarrow> (\<exists>m' n'.
      create_container t = Some (c\<lparr>ctr_linux := Some (l\<lparr>lc_net_devices := Some m'\<rparr>)\<rparr>) \<and>
      rp_adjust (rs_reply t) = Some (a\<lparr>adj_linux := Some (k\<lparr>la_net_devices := Some n'\<rparr>)\<rparr>) \<and>
      map_of m' = map_of m ++ set_value es \<and> map_of n' = map_of n ++ reply_value None es))"
proof -
  note s = mk_same [OF assms(1,2)]
  note put = put_container_net_device_def put_reply_net_device_def on_part_def mk_simps s(2)
  let ?cset = "\<lambda>m. c\<lparr>ctr_linux := Some (l\<lparr>lc_net_devices := Some m\<rparr>)\<rparr>"
  let ?aset = "\<lambda>n. a\<lparr>adj_linux := Some (k\<lparr>la_net_devices := Some n\<rparr>)\<rparr>"
  let ?remove = "\<lambda>x. run [clear_r (ClearLinuxNetDevice x) (ctr_id c) p,
    on_container_linux (assign (\<lambda>c. c\<lparr>lc_net_devices := gmap_delete x (lc_net_devices c)\<rparr>)),
    put_reply_net_device (MarkForRemoval x) None]"
  let ?store = "\<lambda>x v. run [claim_r (ClaimLinuxNetDevice x) (ctr_id c) p, put_container_net_device x v,
    put_reply_net_device x v]"
  let ?leave = "\<lambda>x. put_reply_net_device (MarkForRemoval x) None"
  have remove: "?remove x (mk s (?cset m) (?aset n) op) =
      (Done, mk s (?cset (AList.delete x m)) (?aset (AList.update (MarkForRemoval x) None n))
         (OwningPlugins_Clear (ClearLinuxNetDevice x) (ctr_id c) p op))" for x m n op
    by (simp add: put gmap_delete_def)
  have store: "?store x v (mk s (?cset m) (?aset n) op) =
      (case OwningPlugins_Claim (ClaimLinuxNetDevice x) (ctr_id c) p op of
         (Done, op') \<Rightarrow> (Done, mk s (?cset (AList.update x v m)) (?aset (AList.update x v n)) op')
       | (st, op') \<Rightarrow> (st, mk s (?cset m) (?aset n) op'))" for x v m n op
    by (simp add: put split_def split: status.split)
  have leave: "?leave x (mk s (?cset m) (?aset n) op) =
      (Done, mk s (?cset m) (?aset (AList.update (MarkForRemoval x) None n)) op)" for x m n op
    by (simp add: put)
  have same: "?cset m = c" "?aset n = a" using assms(3-6) by (cases c, cases l, simp, cases a, cases k, simp)
  have "adjust_map ord ?remove ?store ?leave es (mk s (?cset m) (?aset n) (rs_owners s)) = (st, t)"
    unfolding same s(1) using assms(1,9,10)
    by (simp add: adjustLinuxNetDevices_def gmap_entries_def with_id_def)
  from net_device_field.adjust_map_result [OF remove store leave assms(7,8) s(2) this]
  show ?thesis .
qed

theorem adjustLinuxNetDevices_spec_witness:
  "fst (adjustLinuxNetDevices (\<lambda>ks. ks) (Some [(''eth0'', Some \<lparr>nd_name = ''c0''\<rparr>), (''-eth0'', None)])
     ''10-a'' (fresh_result zero_container)) = Done"
proof -
  let ?es = "[(''eth0'', Some \<lparr>nd_name = ''c0''\<rparr>), (''-eth0'', None)]"
  obtain st t where r: "adjustLinuxNetDevices (\<lambda>ks. ks) (Some ?es) ''10-a'' (fresh_result zero_container) = (st, t)"
    by (cases "adjustLinuxNetDevices (\<lambda>ks. ks) (Some ?es) ''10-a'' (fresh_result zero_container)")
  obtain l where l: "ctr_linux (prepare_container zero_container) = Some l" "lc_net_devices l = Some []"
    by (auto simp: prepare_container_def alloc_def zero_defs)
  obtain k where k: "adj_linux empty_adjustment = Some k" "la_net_devices k = Some []"
    by (simp add: empty_adjustment_def)
  have "gomap_ok ?es" by (simp add: gomap_ok_def)
  from adjustLinuxNetDevices_spec [OF fresh_parts(1,2) l(1) k(1) l(2) k(2) this is_order_id _ r]
  show ?thesis by (simp add: r may_set_all_def may_claim_def)
qed

text \<open>
  Sysctls can never be set: the reply's sysctl map is not allocated when the result is made, and
  nothing allocates it, so a plugin map that sets any sysctl is not applied; when the plugin may
  claim what it sets, as it may if no plugin has set a sysctl before, storing the first one panics.
\<close>

theorem adjustSysctl_never_applies:
  assumes "create_container s = Some c" and "rp_adjust (rs_reply s) = Some a"
    and "ctr_linux c = Some l" and "adj_linux a = Some k" and "la_sysctl k = None"
    and "\<exists>x \<in> fst ` set es. unmarked x" and "adjustSysctl ord (Some es) p s = (st, t)"
  shows "st \<noteq> Done \<and>
    ((\<forall>x \<in> fst ` set es. unmarked x \<longrightarrow>
        may_claim p (owner_view (rs_owners s) (ctr_id c, CompoundSlot Field_Sysctl x))) \<longrightarrow> st = Panicked)"
proof -
  note s = mk_same [OF assms(1,2)]
  obtain del rest where dr: "split_marked es = (del, rest)" by (cases "split_marked es")
  from assms(6) obtain x0 v0 where "(x0, v0) \<in> set es" "unmarked x0" by auto
  then have "(x0, v0) \<in> set rest" using split_marked_rest [of x0 v0 es] dr by simp
  then obtain x v rest' where rest: "rest = (x, v) # rest'" by (cases rest) auto
  then have x: "(x, v) \<in> set es" "unmarked x" using split_marked_rest [of x v es] dr by auto
  let ?remove = "\<lambda>x. run [clear_r (ClearSysctl x) (ctr_id c) p,
    on_container_linux (assign (\<lambda>c. c\<lparr>lc_sysctl := gmap_delete x (lc_sysctl c)\<rparr>)),
    put_reply_sysctl (MarkForRemoval x) []]"
  let ?store = "\<lambda>x v. run [claim_r (ClaimSysctl x) (ctr_id c) p, put_container_sysctl x v,
    put_reply_sysctl x v]"
  have claim: "OwningPlugins_Claim (ClaimSysctl x) (ctr_id c) p = claim_at (ctr_id c, CompoundSlot Field_Sysctl x) p"
    by (rule sysctl_field.claim_is_at)
  obtain st1 t1 where first: "run [if x \<in> set del then ?remove x else skip, ?store x v] s = (st1, t1)"
    by (cases "run [if x \<in> set del then ?remove x else skip, ?store x v] s") blast
  have "fst (run [if x \<in> set del then ?remove x else skip, ?store x v] (mk s c a (rs_owners s))) \<noteq> Done \<and>
      (may_claim p (owner_view (rs_owners s) (ctr_id c, CompoundSlot Field_Sysctl x)) \<longrightarrow>
       fst (run [if x \<in> set del then ?remove x else skip, ?store x v] (mk s c a (rs_owners s))) = Panicked)"
    using assms(3-5) s(2)
      ow.claim_Done_iff [of "(ctr_id c, CompoundSlot Field_Sysctl x)" p "rs_owners s"]
    by (cases "lc_sysctl l")
      (auto simp: put_reply_sysctl_def put_container_sysctl_def on_part_def mk_simps claim
        split: prod.split status.split)
  then have st1: "st1 \<noteq> Done"
    "may_claim p (owner_view (rs_owners s) (ctr_id c, CompoundSlot Field_Sysctl x)) \<longrightarrow> st1 = Panicked"
    unfolding s(1) first by simp_all
  have "adjust_map ord ?remove ?store (\<lambda>x. put_reply_annotation (MarkForRemoval x) []) es s = (st1, t1)"
    using st1(1) by (cases st1) (simp_all add: adjust_map_def dr rest first del: run.simps)
  moreover have "es \<noteq> []" using x by auto
  ultimately have "adjustSysctl ord (Some es) p s = (st1, t1)"
    using assms(1) by (simp only: adjustSysctl_def gmap_entries_def with_id_def option.case if_False)
  with assms(7) st1 x show ?thesis by force
qed

theorem adjustSysctl_never_applies_witness:
  "fst (adjustSysctl (\<lambda>ks. ks) (Some [(''net.core.somaxconn'', ''1024'')]) ''10-a''
     (fresh_result zero_container)) = Panicked"
proof -
  let ?es = "[(''net.core.somaxconn'', ''1024'')]"
  obtain st t where r: "adjustSysctl (\<lambda>ks. ks) (Some ?es) ''10-a'' (fresh_result zero_container) = (st, t)"
    by (cases "adjustSysctl (\<lambda>ks. ks) (Some ?es) ''10-a'' (fresh_result zero_container)")
  obtain l where l: "ctr_linux (prepare_container zero_container) = Some l" using fresh_parts(5) by blast
  obtain k where k: "adj_linux empty_adjustment = Some k" "la_sysctl k = None"
    by (simp add: empty_adjustment_def zero_defs)
  have "\<exists>x \<in> fst ` set ?es. unmarked x" by (simp add: unmarked_def IsMarkedForRemoval_def)
  from adjustSysctl_never_applies [OF fresh_parts(1,2) l k this r] show ?thesis
    by (simp add: r may_claim_def)
qed

end
