(* ===== verification/Result_Safety.thy ===== *)
theory Result_Safety
  imports Result_Laws
begin

text \<open>
  The invariant of the collected result, its preservation by every step of \<^verbatim>\<open>apply\<close>, and that no
  step dereferences a nil pointer or stores to a nil map, sysctls aside. One lemma per operation;
  \<open>safe P a\<close> says that \<open>a\<close> keeps \<open>P\<close> whatever its outcome and does not panic from a \<open>P\<close> state.
\<close>

section \<open>The invariant\<close>

definition limits_ok :: "linux_resources \<Rightarrow> bool" where
  "limits_ok r \<longleftrightarrow> res_memory r \<noteq> None \<and> res_cpu r \<noteq> None"

definition allocated :: "linux_resources \<Rightarrow> bool" where
  "allocated r \<longleftrightarrow> limits_ok r \<and> res_unified r \<noteq> None"

definition linux_ok :: "linux_container \<Rightarrow> bool" where
  "linux_ok l \<longleftrightarrow> lc_net_devices l \<noteq> None \<and> (\<exists>r. lc_resources l = Some r \<and> allocated r)"

definition container_ok :: "string \<Rightarrow> container \<Rightarrow> bool" where
  "container_ok cid c \<longleftrightarrow> ctr_id c = cid \<and> ctr_annotations c \<noteq> None \<and> ctr_hooks c \<noteq> None \<and>
     (\<exists>l. ctr_linux c = Some l \<and> linux_ok l)"

definition linux_adjustment_ok :: "linux_adjustment \<Rightarrow> bool" where
  "linux_adjustment_ok l \<longleftrightarrow> la_net_devices l \<noteq> None \<and> la_sysctl l = None \<and>
     (\<exists>r. la_resources l = Some r \<and> allocated r)"

definition adjustment_ok :: "container_adjustment \<Rightarrow> bool" where
  "adjustment_ok a \<longleftrightarrow> adj_annotations a \<noteq> None \<and> adj_hooks a \<noteq> None \<and>
     (\<exists>l. adj_linux a = Some l \<and> linux_adjustment_ok l)"

definition entry_ok :: "string \<Rightarrow> container_update \<Rightarrow> bool" where
  "entry_ok cid e \<longleftrightarrow> cu_container_id e = cid \<and>
     (\<exists>l r. cu_linux e = Some l \<and> lu_resources l = Some r \<and> limits_ok r)"

definition requested :: "result \<Rightarrow> string set" where
  "requested s =
     (case rq_update (rs_request s) of
        None \<Rightarrow> {}
      | Some q \<Rightarrow> (case ur_container q of None \<Rightarrow> {} | Some c \<Rightarrow> {ctr_id c}))"

definition request_ok :: "result \<Rightarrow> bool" where
  "request_ok s \<longleftrightarrow> (\<forall>q. rq_update (rs_request s) = Some q \<longrightarrow>
     ur_container q \<noteq> None \<and> (\<exists>r. ur_linux_resources q = Some r \<and> limits_ok r))"

text \<open>
  The collected updates: one well-formed entry per container id, listed once in the reply unless it
  is the container of the update request, and never one for the container being created.
\<close>

definition updates_ok :: "result \<Rightarrow> bool" where
  "updates_ok s \<longleftrightarrow> request_ok s \<and>
     (\<forall>cid e. rs_updates s cid = Some e \<longrightarrow> entry_ok cid e) \<and>
     distinct (rp_update (rs_reply s)) \<and>
     set (rp_update (rs_reply s)) = dom (rs_updates s) - requested s \<and>
     (\<forall>c. create_container s = Some c \<longrightarrow> ctr_id c \<notin> dom (rs_updates s))"

definition create_ok :: "string \<Rightarrow> result \<Rightarrow> bool" where
  "create_ok cid s \<longleftrightarrow> updates_ok s \<and>
     (\<exists>c. create_container s = Some c \<and> container_ok cid c) \<and>
     (\<exists>a. rp_adjust (rs_reply s) = Some a \<and> adjustment_ok a)"

lemmas ok_defs = limits_ok_def allocated_def linux_ok_def container_ok_def linux_adjustment_ok_def
  adjustment_ok_def entry_ok_def

lemma container_ok_prepared: "container_ok (ctr_id c) (prepare_container c)"
proof -
  obtain l where l: "alloc zero_linux_container (ctr_linux c) = Some l" by (rule exE [OF alloc_some(2)])
  obtain r where r: "alloc zero_resources (lc_resources l) = Some r" by (rule exE [OF alloc_some(2)])
  show ?thesis by (simp add: container_ok_def prepare_container_def l r linux_ok_def allocated_def limits_ok_def)
qed

lemma adjustment_ok_empty: "adjustment_ok empty_adjustment"
  by (simp add: ok_defs empty_adjustment_def zero_linux_adjustment_def)

lemma create_ok_initial:
  assumes "collectCreateContainerResult req = Some s" and "cr_container req = Some c"
  shows "create_ok (ctr_id c) s"
  unfolding create_ok_def
proof (intro conjI)
  show "updates_ok s"
    using assms
    by (auto simp: updates_ok_def request_ok_def requested_def collectCreateContainerResult_def)
  show "\<exists>c'. create_container s = Some c' \<and> container_ok (ctr_id c) c'"
    using assms container_ok_prepared [of c]
    by (auto simp: collectCreateContainerResult_def create_container_def)
  show "\<exists>a. rp_adjust (rs_reply s) = Some a \<and> adjustment_ok a"
    using assms adjustment_ok_empty by (auto simp: collectCreateContainerResult_def)
qed

lemma updates_ok_initial:
  assumes "\<And>q. req = Some q \<Longrightarrow> ur_container q \<noteq> None"
  shows "updates_ok (collectUpdateContainerResult req)"
proof (cases req)
  case None
  then show ?thesis
    by (simp add: updates_ok_def request_ok_def requested_def collectUpdateContainerResult_def
        create_container_def)
next
  case (Some q)
  obtain r where "alloc zero_resources (ur_linux_resources q) = Some r" by (rule exE [OF alloc_some(2)])
  then show ?thesis
    using assms [OF Some] Some
    by (simp add: updates_ok_def request_ok_def requested_def collectUpdateContainerResult_def
        create_container_def prepare_update_def limits_ok_def)
qed

section \<open>Lifting through pointers\<close>

named_theorems safe_intros \<open>safety of the actions, by their shape\<close>

lemmas [safe_intros] = safe_skip safe_run_Cons safe_run_Nil safe_for_each safe_if

lemma safe_assign [safe_intros]: "(\<And>s. P s \<Longrightarrow> P (f s)) \<Longrightarrow> safe P (\<lambda>s. (Done, f s))"
  by (simp add: safe_def)

lemma safe_case_option [safe_intros]:
  "(v = None \<Longrightarrow> safe P a) \<Longrightarrow> (\<And>x. v = Some x \<Longrightarrow> safe P (b x)) \<Longrightarrow>
     safe P (case v of None \<Rightarrow> a | Some x \<Rightarrow> b x)"
  by (cases v) simp_all

lemma safe_case_prod [safe_intros]:
  "(\<And>x y. v = (x, y) \<Longrightarrow> safe P (a x y)) \<Longrightarrow> safe P (case v of (x, y) \<Rightarrow> a x y)"
  by (cases v) simp

lemma safe_gmap_put [safe_intros]: "safe (\<lambda>m. m \<noteq> None) (gmap_put k v)"
  by (auto simp: safe_def gmap_put_def)

lemma create_ok_parts:
  assumes "create_ok cid s"
  obtains c a where "create_container s = Some c" "container_ok cid c"
    "rp_adjust (rs_reply s) = Some a" "adjustment_ok a" "s = mk s c a (rs_owners s)" "creating s"
    "updates_ok s"
  using assms unfolding create_ok_def by (metis mk_same)

lemma updates_ok_mk:
  "updates_ok s \<Longrightarrow> create_container s = Some c0 \<Longrightarrow> ctr_id c = ctr_id c0 \<Longrightarrow> updates_ok (mk s c a op)"
proof -
  assume u: "updates_ok s" and c: "create_container s = Some c0" "ctr_id c = ctr_id c0"
  from c(1) have "creating s" by (auto simp: create_container_def creating_def split: option.splits)
  with u c show "updates_ok (mk s c a op)"
    by (simp add: updates_ok_def request_ok_def requested_def)
qed

lemma create_ok_mk:
  "create_ok cid s \<Longrightarrow> container_ok cid c \<Longrightarrow> adjustment_ok a \<Longrightarrow> create_ok cid (mk s c a op)"
  by (erule create_ok_parts) (simp add: create_ok_def updates_ok_mk container_ok_def)

lemma safe_mk:
  assumes "\<And>c a op. container_ok cid c \<Longrightarrow> adjustment_ok a \<Longrightarrow> creating s0 \<Longrightarrow>
    \<exists>st c' a' op'. act (mk s0 c a op) = (st, mk s0 c' a' op') \<and> st \<noteq> Panicked \<and>
      container_ok cid c' \<and> adjustment_ok a'"
    and "create_ok cid s0"
  shows "create_ok cid (snd (act s0)) \<and> fst (act s0) \<noteq> Panicked"
proof -
  obtain c a where s: "container_ok cid c" "adjustment_ok a" "s0 = mk s0 c a (rs_owners s0)" "creating s0"
    using assms(2) by (rule create_ok_parts)
  from assms(1) [OF s(1,2,4), of "rs_owners s0"] s(3)
  obtain st c' a' op' where "act s0 = (st, mk s0 c' a' op')" "st \<noteq> Panicked" "container_ok cid c'"
    "adjustment_ok a'"
    by metis
  with assms(2) show ?thesis by (simp add: create_ok_mk)
qed

lemma safe_on_container [safe_intros]:
  assumes "safe (container_ok cid) a"
  shows "safe (create_ok cid) (on_container a)"
proof (rule safe_I)
  fix s assume "create_ok cid s"
  then show "create_ok cid (snd (on_container a s)) \<and> fst (on_container a s) \<noteq> Panicked"
    using assms by (intro safe_mk) (auto simp: on_container_mk dest: safe_D)
qed

lemma safe_on_adjust [safe_intros]:
  assumes "safe adjustment_ok a"
  shows "safe (create_ok cid) (on_adjust a)"
proof (rule safe_I)
  fix s assume "create_ok cid s"
  then show "create_ok cid (snd (on_adjust a s)) \<and> fst (on_adjust a s) \<noteq> Panicked"
    using assms by (intro safe_mk) (auto simp: on_adjust_mk dest: safe_D)
qed

lemma safe_on_container_linux [safe_intros]:
  assumes "safe linux_ok a"
  shows "safe (create_ok cid) (on_container_linux a)"
  unfolding on_container_linux_def
  by (intro safe_intros safe_on_ptr [OF assms]) (auto simp: container_ok_def)

lemma safe_on_adjust_linux [safe_intros]:
  assumes "safe linux_adjustment_ok a"
  shows "safe (create_ok cid) (on_adjust_linux a)"
  unfolding on_adjust_linux_def
  by (intro safe_intros safe_on_ptr [OF assms]) (auto simp: adjustment_ok_def)

lemma create_ok_owners: "create_ok cid s \<Longrightarrow> create_ok cid (s\<lparr>rs_owners := op\<rparr>)"
  by (simp add: create_ok_def updates_ok_def request_ok_def requested_def create_container_def)

lemma OwningPlugins_Claim_no_panic: "fst (OwningPlugins_Claim c cid p op) \<noteq> Panicked"
proof (cases "c = ClaimHooks")
  case True
  then show ?thesis
    by (simp add: OwningPlugins_Claim_def FieldOwners_ClaimHooks_def split_def Let_def)
next
  case False
  then show ?thesis by (simp add: OwningPlugins_Claim_at ow.claim_no_panic)
qed

lemma safe_claim_r [safe_intros]: "safe (create_ok cid) (claim_r c cid' p)"
  using OwningPlugins_Claim_no_panic by (auto simp: safe_def claim_r_def on_part_def split_def create_ok_owners)

lemma safe_clear_r [safe_intros]: "safe (create_ok cid) (clear_r c cid' p)"
  by (simp add: safe_def clear_r_def create_ok_owners)

lemma safe_with_id [safe_intros]:
  "(\<And>i. safe (create_ok cid) (body i)) \<Longrightarrow> safe (create_ok cid) (with_id body)"
  by (auto simp: safe_def with_id_def create_ok_def)

lemma safe_with_adjust [safe_intros]:
  "(\<And>a. adjustment_ok a \<Longrightarrow> safe (create_ok cid) (body a)) \<Longrightarrow> safe (create_ok cid) (with_adjust body)"
  by (auto simp: safe_def with_adjust_def create_ok_def)

lemma safe_with_adjust_linux [safe_intros]:
  "(\<And>a. linux_adjustment_ok a \<Longrightarrow> safe (create_ok cid) (body a)) \<Longrightarrow>
     safe (create_ok cid) (with_adjust_linux body)"
  unfolding with_adjust_linux_def
  by (intro safe_intros) (auto simp: adjustment_ok_def)

lemma safe_with_container_linux [safe_intros]:
  "(\<And>l. linux_ok l \<Longrightarrow> safe (create_ok cid) (body l)) \<Longrightarrow>
     safe (create_ok cid) (with_container_linux body)"
  unfolding with_container_linux_def with_container_def safe_def create_ok_def container_ok_def
  by (auto split: option.split)

section \<open>The steps of an adjustment\<close>

lemma safe_on_part_field:
  assumes "\<And>s. P s \<Longrightarrow> get s \<noteq> None" and "\<And>s m. P s \<Longrightarrow> m \<noteq> None \<Longrightarrow> P (put m s)"
  shows "safe P (on_part get put (gmap_put k v))"
  using safe_gmap_put by (rule safe_on_part) (use assms in auto)

lemma safe_put [safe_intros]:
  "safe (create_ok cid) (put_container_annotation k v)"
  "safe (create_ok cid) (put_reply_annotation k v)"
  "safe (create_ok cid) (put_container_net_device k w)"
  "safe (create_ok cid) (put_reply_net_device k w)"
  unfolding put_container_annotation_def put_reply_annotation_def put_container_net_device_def
    put_reply_net_device_def
  by (intro safe_intros safe_on_part_field; auto simp: ok_defs)+

lemma safe_store_entries:
  assumes "\<And>k. safe P (remove k)" and "\<And>k v. (k, v) \<in> set es \<Longrightarrow> safe P (store k v)" and "P s"
    and "store_entries remove store es del s = (st, del', t)"
  shows "P t \<and> st \<noteq> Panicked"
  using assms(2-4)
proof (induction es arbitrary: del s)
  case Nil
  then show ?case by simp
next
  case (Cons e es)
  obtain k v where e: "e = (k, v)" by (cases e)
  have body: "safe P (run [if k \<in> set del then remove k else (\<lambda>s. (Done, s)), store k v])"
    using assms(1) Cons.prems(1) by (intro safe_run_Cons safe_run_Nil safe_if safe_skip) (auto simp: e)
  obtain st1 t1 where r: "run [if k \<in> set del then remove k else (\<lambda>s. (Done, s)), store k v] s = (st1, t1)"
    by (cases "run [if k \<in> set del then remove k else (\<lambda>s. (Done, s)), store k v] s")
  with safe_D [OF body Cons.prems(2)] have ok: "P t1" "st1 \<noteq> Panicked" by (simp_all del: run.simps)
  show ?case
  proof (cases "st1 = Done")
    case True
    then have "store_entries remove store es (removeAll k del) t1 = (st, del', t)"
      using Cons.prems(3) r by (simp add: e del: run.simps)
    with Cons ok(1) show ?thesis by auto
  next
    case False
    then have "st = st1" "t = t1" using Cons.prems(3) r by (cases st1; simp add: e del: run.simps)+
    with ok show ?thesis by simp
  qed
qed

lemma safe_adjust_map [safe_intros]:
  assumes "\<And>k. safe P (remove k)" and "\<And>k v. (k, v) \<in> set es \<Longrightarrow> unmarked k \<Longrightarrow> safe P (store k v)"
    and "\<And>k. safe P (leave k)"
  shows "safe P (adjust_map ord remove store leave es)"
proof (rule safe_I)
  fix s assume "P s"
  obtain del rest where dr: "split_marked es = (del, rest)" by (cases "split_marked es")
  obtain st del' t where r: "store_entries remove store rest del s = (st, del', t)"
    by (cases "store_entries remove store rest del s")
  have "safe P (store k v)" if "(k, v) \<in> set rest" for k v
    using assms(2) that dr by (auto simp: split_marked_def unmarked_def)
  with assms(1) have ok: "P t" "st \<noteq> Panicked"
    using safe_store_entries [of P remove rest store, OF _ _ \<open>P s\<close> r] by blast+
  have "safe P (for_each (ord del') leave)" using assms(3) by (intro safe_intros)
  with ok show "P (snd (adjust_map ord remove store leave es s)) \<and>
      fst (adjust_map ord remove store leave es s) \<noteq> Panicked"
    by (cases st) (simp_all add: adjust_map_def dr r safe_D)
qed

lemma safe_adjustAnnotations [safe_intros]: "safe (create_ok cid) (adjustAnnotations ord m p)"
  unfolding adjustAnnotations_def by (intro safe_intros) (auto simp: container_ok_def gmap_delete_def)

lemma safe_adjustLinuxNetDevices [safe_intros]: "safe (create_ok cid) (adjustLinuxNetDevices ord m p)"
  unfolding adjustLinuxNetDevices_def
  by (intro safe_intros) (auto simp: linux_ok_def gmap_delete_def)

text \<open>A sysctl map that only removes stores its markers with the annotations.\<close>

lemma safe_adjustSysctl [safe_intros]:
  assumes "\<forall>k \<in> fst ` set (gmap_entries m). \<not> unmarked k"
  shows "safe (create_ok cid) (adjustSysctl ord m p)"
proof -
  have none: "split_marked (gmap_entries m) = (fst (split_marked (gmap_entries m)), [])"
    using assms by (force simp: split_marked_def unmarked_def filter_empty_conv)
  have "adjust_map ord r st l (gmap_entries m) = for_each (ord (fst (split_marked (gmap_entries m)))) l"
    for r l and st :: "string \<Rightarrow> string \<Rightarrow> (nri_error, result) action"
    by (rule ext) (subst adjust_map_def, subst none, simp)
  then show ?thesis unfolding adjustSysctl_def by (simp only:) (intro safe_intros)
qed

lemma safe_adjustMounts [safe_intros]: "safe (create_ok cid) (adjustMounts ord ms p)"
  unfolding adjustMounts_def Let_def
  by (intro safe_intros) (auto simp: container_ok_def adjustment_ok_def)

lemma safe_adjustDevices [safe_intros]: "safe (create_ok cid) (adjustDevices ds p)"
  unfolding adjustDevices_def Let_def
  by (intro safe_intros) (auto simp: linux_ok_def linux_adjustment_ok_def)

lemma safe_adjustEnv [safe_intros]: "safe (create_ok cid) (adjustEnv es p)"
  unfolding adjustEnv_def Let_def
  by (intro safe_intros) (auto simp: container_ok_def adjustment_ok_def)

lemma safe_namespace_loop:
  assumes "create_ok cid s"
  shows "create_ok cid (snd (snd (namespace_loop i p ns m s))) \<and>
    fst (namespace_loop i p ns m s) \<noteq> Panicked"
  using assms
proof (induction i p ns m s rule: namespace_loop.induct)
  case (3 i p n ns m s)
  let ?add = "on_adjust_linux (assign (\<lambda>a. a\<lparr>la_namespaces := la_namespaces a @ [Some n]\<rparr>))"
  have "safe (create_ok cid) ?add" by (intro safe_intros) (auto simp: linux_adjustment_ok_def)
  then have "create_ok cid t \<Longrightarrow> create_ok cid (snd (?add t)) \<and> fst (?add t) \<noteq> Panicked" for t
    by (rule safe_D)
  note add = this
  obtain key marked where n: "LinuxNamespace_IsMarkedForRemoval n = (key, marked)"
    by (cases "LinuxNamespace_IsMarkedForRemoval n")
  obtain st t where c: "claim_r (ClaimNamespace key) i p s = (st, t)"
    by (cases "claim_r (ClaimNamespace key) i p s")
  with safe_D [OF safe_claim_r 3(2)] have t: "create_ok cid t" "st \<noteq> Panicked" by (metis fst_conv snd_conv)+
  obtain st2 u where a: "?add t = (st2, u)" by (cases "?add t")
  with add [OF t(1)] have u: "create_ok cid u" "st2 \<noteq> Panicked" by simp_all
  let ?m = "if marked then AList.delete key m else AList.update key n m"
  show ?case
  proof (cases "st = Done \<and> st2 = Done")
    case True
    then have "namespace_loop i p (Some n # ns) m s = namespace_loop i p ns ?m u"
      using n c a by simp
    moreover have "create_ok cid (snd (snd (namespace_loop i p ns ?m u))) \<and>
        fst (namespace_loop i p ns ?m u) \<noteq> Panicked"
      using 3(1) [OF n [symmetric] refl] True c a u(1) by simp
    ultimately show ?thesis by simp
  next
    case False
    then show ?thesis
      using n c a t u by (cases st; cases st2) simp_all
  qed
qed simp_all

lemma safe_adjustNamespaces [safe_intros]: "safe (create_ok cid) (adjustNamespaces ord ns p)"
proof -
  let ?store = "\<lambda>nsmap. on_container_linux (assign (\<lambda>c. c\<lparr>lc_namespaces := map snd (range_in ord nsmap)\<rparr>))"
  have store: "safe (create_ok cid) (?store nsmap)" for nsmap :: "(string, linux_namespace) gomap"
    by (intro safe_intros) (auto simp: linux_ok_def)
  have "safe (create_ok cid) (\<lambda>s. case namespace_loop i p ns m s of
      (Done, nsmap, t) \<Rightarrow> ?store nsmap t | (st, _, t) \<Rightarrow> (st, t))" for i m
  proof (rule safe_I)
    fix s assume s: "create_ok cid s"
    obtain st nsmap t where r: "namespace_loop i p ns m s = (st, nsmap, t)"
      by (cases "namespace_loop i p ns m s")
    then have ok: "create_ok cid t" "st \<noteq> Panicked" using safe_namespace_loop [OF s, of i p ns m] by simp_all
    then show "create_ok cid (snd (case namespace_loop i p ns m s of
          (Done, nsmap, t) \<Rightarrow> ?store nsmap t | (st, _, t) \<Rightarrow> (st, t))) \<and>
        fst (case namespace_loop i p ns m s of
          (Done, nsmap, t) \<Rightarrow> ?store nsmap t | (st, _, t) \<Rightarrow> (st, t)) \<noteq> Panicked"
      using safe_D [OF store ok(1), of nsmap] by (cases st) (simp_all add: r)
  qed
  then show ?thesis unfolding adjustNamespaces_def Let_def by (intro safe_intros)
qed

lemma safe_adjustCDIDevices [safe_intros]: "safe (create_ok cid) (adjustCDIDevices ds p)"
  unfolding adjustCDIDevices_def by (intro safe_intros) (auto simp: adjustment_ok_def)

lemma safe_adjustRlimits [safe_intros]: "safe (create_ok cid) (adjustRlimits ls p)"
  unfolding adjustRlimits_def
  by (intro safe_intros) (auto simp: adjustment_ok_def container_ok_def)

lemma safe_adjustArgs [safe_intros]: "safe (create_ok cid) (adjustArgs args p)"
  unfolding adjustArgs_def Let_def
  by (intro safe_intros) (auto simp: adjustment_ok_def container_ok_def)

lemma safe_add_hooks [safe_intros]: "safe (create_ok cid) (add_hooks get upd h)"
  unfolding add_hooks_def
  by (intro safe_intros safe_on_ptr [where Q = "\<lambda>_. True"])
    (auto simp: adjustment_ok_def container_ok_def)

lemma safe_with_create [safe_intros]:
  "safe (create_ok cid) act \<Longrightarrow>
     safe (create_ok cid) (\<lambda>s. case rq_create (rs_request s) of None \<Rightarrow> (Panicked, s) | Some _ \<Rightarrow> act s)"
  by (auto simp: safe_def create_ok_def create_container_def split: option.splits)

lemma safe_adjustHooks [safe_intros]: "safe (create_ok cid) (adjustHooks h p)"
proof (cases h)
  case None
  then show ?thesis by (simp add: adjustHooks_def safe_skip)
next
  case (Some hs)
  have "safe (create_ok cid) (run
      [add_hooks hk_prestart hk_prestart_update hs, add_hooks hk_poststart hk_poststart_update hs,
       add_hooks hk_poststop hk_poststop_update hs, add_hooks hk_create_runtime hk_create_runtime_update hs,
       add_hooks hk_create_container hk_create_container_update hs,
       add_hooks hk_start_container hk_start_container_update hs,
       if some_hook hs then with_id (\<lambda>cid. claim_r ClaimHooks cid p) else (\<lambda>s. (Done, s))])"
    by (intro safe_intros)
  then show ?thesis unfolding adjustHooks_def Some option.case by (rule safe_with_create)
qed

section \<open>Resources and single values\<close>

definition targets_ok :: "'m targets \<Rightarrow> bool" where
  "targets_ok t \<longleftrightarrow> fst (snd t) \<noteq> None"

lemma safe_adjust_field [safe_intros]: "safe targets_ok (adjust_field v c store cid p)"
proof -
  have "safe targets_ok (on_part fst (\<lambda>o' (_, t). (o', t)) (OwningPlugins_Claim c cid p))"
    using OwningPlugins_Claim_no_panic by (auto simp: safe_def on_part_def split_def targets_ok_def)
  moreover have "safe targets_ok (\<lambda>(o', t, r). case t of None \<Rightarrow> (Panicked, (o', None, r))
      | Some m \<Rightarrow> (Done, (o', Some (store x m), map_option (store x) r)))" for x
    by (auto simp: safe_def targets_ok_def)
  ultimately show ?thesis unfolding adjust_field_def by (intro safe_intros)
qed

lemma safe_adjustMemoryResource [safe_intros]: "safe targets_ok (adjustMemoryResource m cid p)"
  unfolding adjustMemoryResource_def by (intro safe_intros)

lemma safe_adjustCPUResource [safe_intros]: "safe targets_ok (adjustCPUResource m cid p)"
  unfolding adjustCPUResource_def by (intro safe_intros)

lemma adjust_field_reply:
  "snd (snd (snd (adjust_field v c store cid p t))) = None \<longleftrightarrow> snd (snd t) = None"
  by (cases t) (auto simp: adjust_field_def on_part_def split_def split: option.split status.split)

lemma run_reply:
  assumes "\<And>a t. a \<in> set as \<Longrightarrow> snd (snd (snd (a t))) = None \<longleftrightarrow> snd (snd t) = None"
  shows "snd (snd (snd (run as t))) = None \<longleftrightarrow> snd (snd (t :: 'm targets)) = None"
  using assms
proof (induction as arbitrary: t)
  case (Cons a as)
  have "snd (snd (snd (a t))) = None \<longleftrightarrow> snd (snd t) = None" using Cons.prems by simp
  moreover have "snd (snd (snd (run as u))) = None \<longleftrightarrow> snd (snd u) = None" for u
    using Cons by simp
  ultimately show ?case by (auto split: prod.splits status.splits)
qed simp

lemma memory_reply:
  "snd (snd (snd (adjustMemoryResource m cid p t))) = None \<longleftrightarrow> snd (snd t) = None"
  by (cases m) (auto simp: adjustMemoryResource_def adjust_field_reply simp del: run.simps intro!: run_reply)

lemma cpu_reply:
  "snd (snd (snd (adjustCPUResource m cid p t))) = None \<longleftrightarrow> snd (snd t) = None"
  by (cases m) (auto simp: adjustCPUResource_def adjust_field_reply simp del: run.simps intro!: run_reply)

definition both_ok :: "resource_targets \<Rightarrow> bool" where
  "both_ok t \<longleftrightarrow> allocated (fst (snd t)) \<and> allocated (snd (snd t))"

lemma safe_claim_t: "(\<And>op x op'. P (op, x) \<Longrightarrow> P (op', x)) \<Longrightarrow> safe P (claim_t c cid p)"
  using OwningPlugins_Claim_no_panic by (auto simp: safe_def claim_t_def on_part_def split_def)

lemma safe_claim_both [safe_intros]: "safe both_ok (claim_t c cid p)"
  by (rule safe_claim_t) (simp add: both_ok_def)

lemma safe_on_both [safe_intros]: "safe allocated a \<Longrightarrow> safe both_ok (on_both a)"
  unfolding on_both_def
  by (intro safe_intros; rule safe_on_part [where Q = allocated]) (auto simp: both_ok_def)

lemma safe_put_unified [safe_intros]: "safe allocated (put_unified k v)"
  unfolding put_unified_def by (rule safe_on_part_field) (auto simp: allocated_def limits_ok_def)

text \<open>Running the memory or CPU method on both targets at once.\<close>

lemma safe_on_targets:
  assumes "safe targets_ok act"
    and "\<And>t. snd (snd (snd (act t))) = None \<longleftrightarrow> snd (snd t) = None"
    and "\<And>r. allocated r \<Longrightarrow> get r \<noteq> None"
    and "\<And>r m. allocated r \<Longrightarrow> m \<noteq> None \<Longrightarrow> allocated (put m r)"
  shows "safe both_ok (on_part (\<lambda>(o', c, p). (o', get c, get p))
      (\<lambda>(o', m, n) (_, c, p). (o', put m c, put n p)) act)"
proof (rule safe_I)
  fix t :: resource_targets assume t: "both_ok t"
  obtain op c r where e: "t = (op, c, r)" by (cases t)
  obtain st op' m n where a: "act (op, get c, get r) = (st, op', m, n)"
    by (cases "act (op, get c, get r)") auto
  have ok: "allocated c" "allocated r" using t by (simp_all add: both_ok_def e)
  have "targets_ok (op, get c, get r)" using assms(3) ok by (simp add: targets_ok_def)
  from safe_D [OF assms(1) this] a have "m \<noteq> None" "st \<noteq> Panicked" by (auto simp: targets_ok_def)
  moreover have "n \<noteq> None" using assms(2) [of "(op, get c, get r)"] assms(3) [OF ok(2)] a by auto
  ultimately show "both_ok (snd (on_part (\<lambda>(o', c, p). (o', get c, get p))
      (\<lambda>(o', m, n) (_, c, p). (o', put m c, put n p)) act t)) \<and>
    fst (on_part (\<lambda>(o', c, p). (o', get c, get p))
      (\<lambda>(o', m, n) (_, c, p). (o', put m c, put n p)) act t) \<noteq> Panicked"
    using assms(4) ok by (simp add: on_part_def e a both_ok_def)
qed

lemma safe_memory_both [safe_intros]:
  "safe both_ok (on_part (\<lambda>(o', c, p). (o', res_memory c, res_memory p))
     (\<lambda>(o', m, n) (_, c, p). (o', c\<lparr>res_memory := m\<rparr>, p\<lparr>res_memory := n\<rparr>))
     (adjustMemoryResource mem cid plugin))"
  using safe_on_targets [OF safe_adjustMemoryResource memory_reply, of res_memory
      "\<lambda>m r. r\<lparr>res_memory := m\<rparr>"]
  by (simp add: allocated_def limits_ok_def)

lemma safe_cpu_both [safe_intros]:
  "safe both_ok (on_part (\<lambda>(o', c, p). (o', res_cpu c, res_cpu p))
     (\<lambda>(o', m, n) (_, c, p). (o', c\<lparr>res_cpu := m\<rparr>, p\<lparr>res_cpu := n\<rparr>))
     (adjustCPUResource cpu cid plugin))"
  using safe_on_targets [OF safe_adjustCPUResource cpu_reply, of res_cpu
      "\<lambda>m r. r\<lparr>res_cpu := m\<rparr>"]
  by (simp add: allocated_def limits_ok_def)

lemma safe_adjust_resource_targets: "safe both_ok (adjust_resource_targets res cid p)"
  unfolding adjust_resource_targets_def
  by (intro safe_intros) (auto simp: allocated_def limits_ok_def)

lemma set_resources_mk:
  assumes "creating s" and "ctr_linux c = Some l" and "adj_linux a = Some k"
  shows "set_resources (op', r, q) (mk s c a op) =
    mk s (c\<lparr>ctr_linux := Some (l\<lparr>lc_resources := Some r\<rparr>)\<rparr>)
      (a\<lparr>adj_linux := Some (k\<lparr>la_resources := Some q\<rparr>)\<rparr>) op'"
  using assms by (simp add: set_resources_def on_linux_mk)

lemma safe_adjustResources [safe_intros]: "safe (create_ok cid) (adjustResources r p)"
proof (cases r)
  case None
  then show ?thesis by (simp add: adjustResources_def safe_skip)
next
  case (Some res)
  have "safe (create_ok cid) (\<lambda>s. case (container_resources s, reply_resources s) of
      (Some container, Some reply) \<Rightarrow>
        (case adjust_resource_targets res i p (rs_owners s, container, reply) of
           (st, t) \<Rightarrow> (st, set_resources t s))
    | _ \<Rightarrow> (Panicked, s))" for i
  proof (rule safe_I)
    fix s assume s: "create_ok cid s"
    then obtain c a where ca: "container_ok cid c" "adjustment_ok a" "s = mk s c a (rs_owners s)"
      "creating s" by (rule create_ok_parts)
    from ca(1) obtain l cr where l: "ctr_linux c = Some l" "lc_resources l = Some cr" "allocated cr"
      by (auto simp: container_ok_def linux_ok_def)
    from ca(2) obtain k rr where k: "adj_linux a = Some k" "la_resources k = Some rr" "allocated rr"
      by (auto simp: adjustment_ok_def linux_adjustment_ok_def)
    have res: "container_resources s = Some cr" "reply_resources s = Some rr"
      by (subst ca(3), simp add: container_resources_def reply_resources_def ca(4) l k)+
    obtain st op' cr' rr' where r: "adjust_resource_targets res i p (rs_owners s, cr, rr) = (st, op', cr', rr')"
      by (cases "adjust_resource_targets res i p (rs_owners s, cr, rr)") auto
    have "both_ok (rs_owners s, cr, rr)" using l k by (simp add: both_ok_def)
    from safe_D [OF safe_adjust_resource_targets [of res i p] this] r
    have ok: "allocated cr'" "allocated rr'" "st \<noteq> Panicked" by (auto simp: both_ok_def)
    have "set_resources (op', cr', rr') s = mk s (c\<lparr>ctr_linux := Some (l\<lparr>lc_resources := Some cr'\<rparr>)\<rparr>)
      (a\<lparr>adj_linux := Some (k\<lparr>la_resources := Some rr'\<rparr>)\<rparr>) op'"
      using set_resources_mk [OF ca(4) l(1) k(1), of op' cr' rr' "rs_owners s"] ca(3) by simp
    moreover have "create_ok cid \<dots>"
      using s ca(1,2) l k ok
      by (intro create_ok_mk) (auto simp: container_ok_def linux_ok_def adjustment_ok_def linux_adjustment_ok_def)
    ultimately show "create_ok cid (snd (case (container_resources s, reply_resources s) of
          (Some container, Some reply) \<Rightarrow>
            (case adjust_resource_targets res i p (rs_owners s, container, reply) of
               (st, t) \<Rightarrow> (st, set_resources t s))
        | _ \<Rightarrow> (Panicked, s))) \<and>
      fst (case (container_resources s, reply_resources s) of
          (Some container, Some reply) \<Rightarrow>
            (case adjust_resource_targets res i p (rs_owners s, container, reply) of
               (st, t) \<Rightarrow> (st, set_resources t s))
        | _ \<Rightarrow> (Panicked, s)) \<noteq> Panicked"
      by (simp add: res r ok(3))
  qed
  then show ?thesis unfolding adjustResources_def Some option.case by (rule safe_with_id)
qed

lemma safe_adjust_values [safe_intros]:
  "safe (create_ok cid) (adjustCgroupsPath path p)"
  "safe (create_ok cid) (adjustOomScoreAdj oom p)"
  "safe (create_ok cid) (adjustIOPriority prio p)"
  "safe (create_ok cid) (adjustSeccompPolicy pol p)"
  "safe (create_ok cid) (adjustLinuxScheduler sch p)"
  unfolding adjustCgroupsPath_def adjustOomScoreAdj_def adjustIOPriority_def
    adjustSeccompPolicy_def adjustLinuxScheduler_def
  by (intro safe_intros; auto simp: linux_ok_def linux_adjustment_ok_def)+

section \<open>RDT\<close>

definition rdt_ready :: "string \<Rightarrow> result \<Rightarrow> bool" where
  "rdt_ready cid s \<longleftrightarrow> create_ok cid s \<and>
     (\<exists>a l. rp_adjust (rs_reply s) = Some a \<and> adj_linux a = Some l \<and> la_rdt l \<noteq> None)"

lemma initAdjustRdt_mk:
  "adj_linux a = Some l \<Longrightarrow> initAdjustRdt (mk s c a op) =
     mk s c (a\<lparr>adj_linux := Some (l\<lparr>la_rdt := alloc zero_rdt (la_rdt l)\<rparr>)\<rparr>) op"
proof -
  assume l: "adj_linux a = Some l"
  then have "a\<lparr>adj_linux := Some l\<rparr> = a" by (cases a) simp
  with l show ?thesis
    by (simp add: initAdjustRdt_def initAdjustLinux_def initAdjust_def on_adjust_mk on_linux_mk
        alloc_def)
qed

lemma rdt_ready_init: "create_ok cid s \<Longrightarrow> rdt_ready cid (initAdjustRdt s)"
proof -
  assume s: "create_ok cid s"
  then obtain c a where ca: "container_ok cid c" "adjustment_ok a" "s = mk s c a (rs_owners s)"
    "creating s" by (rule create_ok_parts)
  from ca(2) obtain l where l: "adj_linux a = Some l" by (auto simp: adjustment_ok_def)
  have "initAdjustRdt s =
      mk s c (a\<lparr>adj_linux := Some (l\<lparr>la_rdt := alloc zero_rdt (la_rdt l)\<rparr>)\<rparr>) (rs_owners s)"
    using initAdjustRdt_mk [OF l, of s c "rs_owners s"] ca(3) by simp
  moreover have "create_ok cid \<dots>"
    using s ca(1,2) l by (intro create_ok_mk) (auto simp: adjustment_ok_def linux_adjustment_ok_def)
  ultimately show ?thesis by (simp add: rdt_ready_def)
qed

lemma rdt_ready_owners: "rdt_ready cid s \<Longrightarrow> rdt_ready cid (s\<lparr>rs_owners := op\<rparr>)"
  by (simp add: rdt_ready_def create_ok_owners)

lemma safe_rdt_claim [safe_intros]: "safe (rdt_ready cid) (claim_r c i p)"
  using OwningPlugins_Claim_no_panic by (simp add: safe_def claim_r_def on_part_def split_def rdt_ready_owners)

lemma safe_rdt_clear [safe_intros]: "safe (rdt_ready cid) (clear_r d i p)"
  by (simp add: safe_def clear_r_def rdt_ready_owners)

lemma safe_rdt_with_id [safe_intros]:
  "(\<And>i. safe (rdt_ready cid) (body i)) \<Longrightarrow> safe (rdt_ready cid) (with_id body)"
  by (auto simp: safe_def with_id_def rdt_ready_def create_ok_def)

lemma safe_rdt_linux [safe_intros]:
  assumes "safe (\<lambda>l. linux_adjustment_ok l \<and> la_rdt l \<noteq> None) act"
  shows "safe (rdt_ready cid) (on_adjust_linux act)"
proof (rule safe_I)
  fix s assume ready: "rdt_ready cid s"
  then have s: "create_ok cid s" by (simp add: rdt_ready_def)
  then obtain c a where ca: "container_ok cid c" "adjustment_ok a" "s = mk s c a (rs_owners s)"
    "creating s" by (rule create_ok_parts)
  from ready ca(2,3) obtain l where l: "adj_linux a = Some l" "linux_adjustment_ok l" "la_rdt l \<noteq> None"
    unfolding rdt_ready_def by (metis adjustment_ok_def mk_parts(2) option.inject)
  have act: "linux_adjustment_ok (snd (act l))" "la_rdt (snd (act l)) \<noteq> None" "fst (act l) \<noteq> Panicked"
    using safe_D [OF assms, of l] l by auto
  have "on_adjust_linux act s =
      (fst (act l), mk s c (a\<lparr>adj_linux := Some (snd (act l))\<rparr>) (rs_owners s))"
    using on_linux_mk(2) [OF l(1), of act s c "rs_owners s"] ca(3) by simp
  moreover have "create_ok cid (mk s c (a\<lparr>adj_linux := Some (snd (act l))\<rparr>) (rs_owners s))"
    using s ca act by (intro create_ok_mk) (auto simp: adjustment_ok_def)
  ultimately show "rdt_ready cid (snd (on_adjust_linux act s)) \<and> fst (on_adjust_linux act s) \<noteq> Panicked"
    using act by (simp add: rdt_ready_def)
qed

lemma safe_set_reply_rdt [safe_intros]: "safe (rdt_ready cid) (set_reply_rdt f)"
  unfolding set_reply_rdt_def
  by (intro safe_intros safe_on_ptr [where Q = "\<lambda>_. True"]) (auto simp: linux_adjustment_ok_def)

lemma safe_adjust_rdt_fields [safe_intros]: "safe (rdt_ready cid) (adjust_rdt_fields rdt i p)"
  unfolding adjust_rdt_fields_def by (intro safe_intros) (auto simp: linux_adjustment_ok_def)

lemma safe_adjustRdt [safe_intros]: "safe (create_ok cid) (adjustRdt rdt p)"
proof (rule safe_I)
  fix s assume "create_ok cid s"
  then have ready: "rdt_ready cid (initAdjustRdt s)" by (rule rdt_ready_init)
  have "safe (rdt_ready cid) (with_id (\<lambda>i. adjust_rdt_fields rdt i p))" by (intro safe_intros)
  moreover have "adjustRdt rdt p s = with_id (\<lambda>i. adjust_rdt_fields rdt i p) (initAdjustRdt s)"
    by (simp add: adjustRdt_def split: prod.split status.split)
  ultimately show "create_ok cid (snd (adjustRdt rdt p s)) \<and> fst (adjustRdt rdt p s) \<noteq> Panicked"
    using safe_D [of "rdt_ready cid" "with_id (\<lambda>i. adjust_rdt_fields rdt i p)" "initAdjustRdt s"] ready
    by (simp add: rdt_ready_def)
qed

end
