(* ===== verification/Update_Laws.thy ===== *)
theory Update_Laws
  imports Result_Safety
begin

text \<open>
  Container updates: one entry per container, changed in place; the invariant of the collected
  updates, what a failed update leaves behind, and the properties of \<^verbatim>\<open>apply\<close> as a whole.
\<close>

section \<open>The entry of an update\<close>

lemma getContainerUpdate_cases:
  obtains (creating) "getContainerUpdate u p s = (Failed (UpdatedDuringCreation p (cu_container_id u)), s)"
      "\<exists>c. create_container s = Some c \<and> ctr_id c = cu_container_id u"
    | (known) e where "rs_updates s (cu_container_id u) = Some e"
      "getContainerUpdate u p s = (Done, s\<lparr>rs_updates := (rs_updates s)(cu_container_id u \<mapsto>
         e\<lparr>cu_ignore_failure := cu_ignore_failure e \<and> cu_ignore_failure u\<rparr>)\<rparr>)"
      "\<forall>c. create_container s = Some c \<longrightarrow> ctr_id c \<noteq> cu_container_id u"
    | (new) "rs_updates s (cu_container_id u) = None"
      "getContainerUpdate u p s = (Done, s\<lparr>rs_updates := (rs_updates s)(cu_container_id u \<mapsto> new_update u),
         rs_reply := if cu_container_id u \<in> requested s then rs_reply s
           else (rs_reply s)\<lparr>rp_update := rp_update (rs_reply s) @ [cu_container_id u]\<rparr>\<rparr>)"
      "\<forall>c. create_container s = Some c \<longrightarrow> ctr_id c \<noteq> cu_container_id u"
    | (nil) "\<exists>q. rq_update (rs_request s) = Some q \<and> ur_container q = None"
proof -
  consider (c) c where "create_container s = Some c" "ctr_id c = cu_container_id u"
    | (n) "\<forall>c. create_container s = Some c \<longrightarrow> ctr_id c \<noteq> cu_container_id u" by blast
  then show thesis
  proof cases
    case c
    then show thesis by (intro creating) (auto simp: getContainerUpdate_def Let_def)
  next
    case n
    then have no: "\<not> (case create_container s of None \<Rightarrow> False | Some c \<Rightarrow> ctr_id c = cu_container_id u)"
      by (auto split: option.split)
    show thesis
    proof (cases "rs_updates s (cu_container_id u)")
      case (Some e)
      with n no show thesis by (intro known) (auto simp: getContainerUpdate_def Let_def)
    next
      case None
      show thesis
      proof (cases "\<exists>q. rq_update (rs_request s) = Some q \<and> ur_container q = None")
        case True
        then show thesis by (rule nil)
      next
        case False
        then show thesis
          using None n no
          by (intro new)
            (auto simp: getContainerUpdate_def Let_def requested_def split: option.split)
      qed
    qed
  qed
qed

lemma requested_frame [simp]:
  "requested (s\<lparr>rs_updates := x, rs_reply := y\<rparr>) = requested s"
  "requested (s\<lparr>rs_updates := x\<rparr>) = requested s"
  "create_container (s\<lparr>rs_updates := x, rs_reply := y\<rparr>) = create_container s"
  "create_container (s\<lparr>rs_updates := x\<rparr>) = create_container s"
  by (simp_all add: requested_def create_container_def)

lemma new_update_ok: "entry_ok (cu_container_id u) (new_update u)"
  by (simp add: entry_ok_def new_update_def limits_ok_def)

lemma getContainerUpdate_ok:
  assumes "updates_ok s" and "getContainerUpdate u p s = (st, t)"
  shows "updates_ok t \<and> st \<noteq> Panicked \<and> create_container t = create_container s \<and>
    rp_adjust (rs_reply t) = rp_adjust (rs_reply s) \<and> rs_owners t = rs_owners s \<and>
    rs_request t = rs_request s \<and> (st = Done \<longrightarrow> cu_container_id u \<in> dom (rs_updates t))"
proof (cases rule: getContainerUpdate_cases [of u p s])
  case creating
  with assms show ?thesis by auto
next
  case (known e)
  let ?e = "e\<lparr>cu_ignore_failure := cu_ignore_failure e \<and> cu_ignore_failure u\<rparr>"
  have dom: "dom ((rs_updates s)(cu_container_id u \<mapsto> ?e)) = dom (rs_updates s)"
    using known(1) by (auto simp: insert_absorb)
  have known_dom: "cu_container_id u \<in> dom (rs_updates s)" using known(1) by auto
  have entries: "entry_ok cid e'" if "((rs_updates s)(cu_container_id u \<mapsto> ?e)) cid = Some e'" for cid e'
    using that assms(1) known(1) by (auto simp: updates_ok_def entry_ok_def split: if_splits)
  have t: "st = Done" "t = s\<lparr>rs_updates := (rs_updates s)(cu_container_id u \<mapsto> ?e)\<rparr>"
    using assms(2) known(2) by simp_all
  show ?thesis
    using assms(1) entries dom known_dom unfolding t
    by (simp add: updates_ok_def request_ok_def requested_def create_container_def del: fun_upd_apply dom_fun_upd)
next
  case new
  with assms new_update_ok [of u] show ?thesis
    by (auto simp: updates_ok_def request_ok_def split: if_splits)
next
  case nil
  with assms show ?thesis by (auto simp: updates_ok_def request_ok_def)
qed

section \<open>The resources of an update\<close>

definition copy_ok :: "owning_plugins \<times> linux_resources \<Rightarrow> bool" where
  "copy_ok t \<longleftrightarrow> limits_ok (snd t)"

definition copy_ready :: "owning_plugins \<times> linux_resources \<Rightarrow> bool" where
  "copy_ready t \<longleftrightarrow> allocated (snd t)"

lemma safe_claim_copy [safe_intros]:
  "safe copy_ok (claim_t c cid p)" "safe copy_ready (claim_t c cid p)"
  by (rule safe_claim_t; simp add: copy_ok_def copy_ready_def)+

lemma safe_after_assign:
  assumes "safe Q b" and "\<And>s. P s \<Longrightarrow> Q (f s)" and "\<And>s. Q s \<Longrightarrow> P s"
  shows "safe P (run [assign f, b])"
proof (rule safe_I)
  fix s assume "P s"
  then have "Q (f s)" by (rule assms(2))
  with assms(1) have "Q (snd (b (f s))) \<and> fst (b (f s)) \<noteq> Panicked" by (rule safe_D)
  moreover have "run [assign f, b] s = b (f s)" by (simp split: prod.split status.split)
  ultimately show "P (snd (run [assign f, b] s)) \<and> fst (run [assign f, b] s) \<noteq> Panicked"
    using assms(3) by metis
qed

lemma safe_on_copy:
  assumes "safe targets_ok act" and "\<And>r. limits_ok r \<Longrightarrow> get r \<noteq> None"
    and "\<And>r m. limits_ok r \<Longrightarrow> m \<noteq> None \<Longrightarrow> limits_ok (put m r)"
  shows "safe copy_ok (on_part (\<lambda>(o', r). (o', get r, None)) (\<lambda>(o', m, _) (_, r). (o', put m r)) act)"
  using assms(1)
  by (rule safe_on_part) (use assms(2,3) in \<open>auto simp: copy_ok_def targets_ok_def\<close>)

lemma safe_put_unified_copy:
  "safe copy_ready (on_part snd (\<lambda>r (o', _). (o', r)) (put_unified k v))"
  using safe_put_unified by (rule safe_on_part) (auto simp: copy_ready_def)

lemma safe_update_resource_copy: "safe copy_ok (update_resource_copy res cid p)"
proof -
  have unified: "safe copy_ok (run
      [assign (\<lambda>(o', r). (o', r\<lparr>res_unified := alloc [] (res_unified r)\<rparr>)),
       for_each (gmap_entries (res_unified res)) (\<lambda>(k, v). run
         [claim_t (ClaimCgroupsUnified k) cid p, on_part snd (\<lambda>r (o', _). (o', r)) (put_unified k v)])])"
  proof (rule safe_after_assign)
    show "safe copy_ready (for_each (gmap_entries (res_unified res)) (\<lambda>(k, v). run
         [claim_t (ClaimCgroupsUnified k) cid p, on_part snd (\<lambda>r (o', _). (o', r)) (put_unified k v)]))"
      by (intro safe_intros safe_put_unified_copy)
  qed (auto simp: copy_ok_def copy_ready_def allocated_def limits_ok_def)
  have pids: "safe copy_ok (\<lambda>(o', r). case res_pids r of
         None \<Rightarrow> (Done, (o', r))
       | Some v \<Rightarrow> run
           [claim_t ClaimPidsLimit cid p,
            assign (\<lambda>(o', r). (o', r\<lparr>res_pids := Some \<lparr>pids_limit = pids_limit v\<rparr>\<rparr>))] (o', r))"
  proof (rule safe_I)
    fix t :: "owning_plugins \<times> linux_resources" assume t: "copy_ok t"
    have "safe copy_ok (run [claim_t ClaimPidsLimit cid p,
        assign (\<lambda>(o', r). (o', r\<lparr>res_pids := Some v\<rparr>))])" for v
      by (intro safe_intros) (auto simp: copy_ok_def limits_ok_def)
    from safe_D [OF this t] show "copy_ok (snd (case t of (o', r) \<Rightarrow> case res_pids r of
         None \<Rightarrow> (Done, (o', r))
       | Some v \<Rightarrow> run
           [claim_t ClaimPidsLimit cid p,
            assign (\<lambda>(o', r). (o', r\<lparr>res_pids := Some \<lparr>pids_limit = pids_limit v\<rparr>\<rparr>))] (o', r))) \<and>
      fst (case t of (o', r) \<Rightarrow> case res_pids r of
         None \<Rightarrow> (Done, (o', r))
       | Some v \<Rightarrow> run
           [claim_t ClaimPidsLimit cid p,
            assign (\<lambda>(o', r). (o', r\<lparr>res_pids := Some \<lparr>pids_limit = pids_limit v\<rparr>\<rparr>))] (o', r)) \<noteq> Panicked"
      using t by (cases t; cases "res_pids (snd t)") (simp_all del: run.simps)
  qed
  have memory: "safe copy_ok (on_part (\<lambda>(o', r). (o', res_memory r, None))
      (\<lambda>(o', m, _) (_, r). (o', r\<lparr>res_memory := m\<rparr>)) (adjustMemoryResource (res_memory res) cid p))"
    using safe_on_copy [OF safe_adjustMemoryResource, of res_memory "\<lambda>m r. r\<lparr>res_memory := m\<rparr>"]
    by (simp add: limits_ok_def)
  have cpu: "safe copy_ok (on_part (\<lambda>(o', r). (o', res_cpu r, None))
      (\<lambda>(o', m, _) (_, r). (o', r\<lparr>res_cpu := m\<rparr>)) (adjustCPUResource (res_cpu res) cid p))"
    using safe_on_copy [OF safe_adjustCPUResource, of res_cpu "\<lambda>m r. r\<lparr>res_cpu := m\<rparr>"]
    by (simp add: limits_ok_def)
  show ?thesis
    unfolding update_resource_copy_def
    by (intro safe_intros memory cpu unified pids) (auto simp: copy_ok_def limits_ok_def)
qed

lemma Copy_limits_ok: "limits_ok r \<Longrightarrow> \<exists>c. LinuxResources_Copy (Some r) = Some c \<and> limits_ok c"
  by (auto simp: LinuxResources_Copy_def limits_ok_def)

text \<open>What \<^verbatim>\<open>updateResources\<close> does in a well-formed state, written with the copy it works on.\<close>

lemma updateResources_cases:
  assumes "updates_ok s" and "rs_updates s (cu_container_id u) = Some e"
    and "cu_linux u = Some l" and "lu_resources l = Some ures"
  obtains c where "limits_ok c"
    "updateResources u p s =
       (case update_resource_copy ures (cu_container_id u) p (rs_owners s, c) of
          (Done, (o', new)) \<Rightarrow> (Done,
            (if cu_container_id u \<in> requested s
             then set_requested_resources (LinuxResources_Copy (Some new)) else (\<lambda>t. t))
            (set_entry_resources (cu_container_id u) (LinuxResources_Copy (Some new)) (s\<lparr>rs_owners := o'\<rparr>)))
        | (st, (o', _)) \<Rightarrow> (st, s\<lparr>rs_owners := o'\<rparr>))"
    "\<exists>orig. LinuxResources_Copy orig = Some c \<and> (cu_container_id u \<notin> requested s \<longrightarrow>
       entry_resources (cu_container_id u) s = Some orig)"
proof -
  let ?cid = "cu_container_id u"
  obtain el er where e: "cu_linux e = Some el" "lu_resources el = Some er" "limits_ok er"
    using assms(1,2) unfolding updates_ok_def entry_ok_def by blast
  have entry: "entry_resources ?cid s = Some (Some er)"
    by (simp add: entry_resources_def assms(2) e)
  have request: "requested_resources ?cid s = Some None \<and> ?cid \<notin> requested s \<or>
      (\<exists>qr. requested_resources ?cid s = Some (Some (Some qr)) \<and> limits_ok qr \<and> ?cid \<in> requested s)"
  proof (cases "rq_update (rs_request s)")
    case None
    then show ?thesis by (simp add: requested_resources_def requested_def)
  next
    case (Some q)
    with assms(1) obtain c r where "ur_container q = Some c" "ur_linux_resources q = Some r" "limits_ok r"
      unfolding updates_ok_def request_ok_def by blast
    with Some show ?thesis by (simp add: requested_resources_def requested_def)
  qed
  then consider (other) "requested_resources ?cid s = Some None" "?cid \<notin> requested s"
    | (own) qr where "requested_resources ?cid s = Some (Some (Some qr))" "limits_ok qr" "?cid \<in> requested s"
    by blast
  then show thesis
  proof cases
    case other
    obtain c where c: "LinuxResources_Copy (Some er) = Some c" "limits_ok c"
      using Copy_limits_ok [OF e(3)] by blast
    show thesis
      by (rule that [OF c(2)])
        (use other entry c(1) in \<open>auto simp: updateResources_def assms(3,4) Let_def
          split: prod.split status.split\<close>)
  next
    case own
    obtain c where c: "LinuxResources_Copy (Some qr) = Some c" "limits_ok c"
      using Copy_limits_ok [OF own(2)] by blast
    show thesis
      by (rule that [OF c(2)])
        (use own c(1) in \<open>auto simp: updateResources_def assms(3,4) Let_def
          split: prod.split status.split\<close>)
  qed
qed

lemma set_parts [simp]:
  "rs_owners (set_entry_resources cid res s) = rs_owners s"
  "rs_reply (set_entry_resources cid res s) = rs_reply s"
  "rs_request (set_entry_resources cid res s) = rs_request s"
  "rs_owners (set_requested_resources res s) = rs_owners s"
  "rs_reply (set_requested_resources res s) = rs_reply s"
  "rs_updates (set_requested_resources res s) = rs_updates s"
  "rq_create (rs_request (set_requested_resources res s)) = rq_create (rs_request s)"
  "dom (rs_updates (set_entry_resources cid res s)) = dom (rs_updates s)"
  by (auto simp: set_entry_resources_def set_requested_resources_def split: if_splits)

lemma set_entry_ok:
  assumes "updates_ok s" and "limits_ok r"
  shows "updates_ok (set_entry_resources cid (Some r) s)"
proof -
  have "entry_ok i e" if "rs_updates (set_entry_resources cid (Some r) s) i = Some e" for i e
  proof (cases "i = cid")
    case True
    with that obtain e0 where e0: "rs_updates s cid = Some e0"
      "e = e0\<lparr>cu_linux := map_option (\<lambda>l. l\<lparr>lu_resources := Some r\<rparr>) (cu_linux e0)\<rparr>"
      by (auto simp: set_entry_resources_def)
    with assms(1) have "entry_ok cid e0" by (auto simp: updates_ok_def)
    with e0 True assms(2) show ?thesis by (auto simp: entry_ok_def)
  next
    case False
    with that assms(1) show ?thesis by (auto simp: set_entry_resources_def updates_ok_def)
  qed
  with assms(1) show ?thesis
    by (simp add: updates_ok_def request_ok_def requested_def create_container_def)
qed

lemma set_requested_ok:
  assumes "updates_ok s" and "limits_ok r"
  shows "updates_ok (set_requested_resources (Some r) s)"
  using assms
  by (cases "rq_update (rs_request s)")
    (auto simp: updates_ok_def request_ok_def requested_def create_container_def
      set_requested_resources_def)

lemma updates_ok_owners: "updates_ok s \<Longrightarrow> updates_ok (s\<lparr>rs_owners := op\<rparr>)"
  by (simp add: updates_ok_def request_ok_def requested_def create_container_def)

lemma updateResources_ok:
  assumes "updates_ok s" and "cu_container_id u \<in> dom (rs_updates s)" and "updateResources u p s = (st, t)"
  shows "updates_ok t \<and> st \<noteq> Panicked \<and> create_container t = create_container s \<and>
    rs_reply t = rs_reply s \<and> dom (rs_updates t) = dom (rs_updates s) \<and>
    (st \<noteq> Done \<longrightarrow> rs_updates t = rs_updates s \<and> rs_request t = rs_request s)"
proof -
  from assms(2) obtain e where e: "rs_updates s (cu_container_id u) = Some e" by auto
  show ?thesis
  proof (cases "case cu_linux u of None \<Rightarrow> None | Some l \<Rightarrow> lu_resources l")
    case None
    then show ?thesis using assms(1,3) by (auto simp: updateResources_def Let_def)
  next
    case (Some ures)
    then obtain l where l: "cu_linux u = Some l" "lu_resources l = Some ures"
      by (auto split: option.splits)
    obtain c where c: "limits_ok c" "updateResources u p s =
       (case update_resource_copy ures (cu_container_id u) p (rs_owners s, c) of
          (Done, (o', new)) \<Rightarrow> (Done,
            (if cu_container_id u \<in> requested s
             then set_requested_resources (LinuxResources_Copy (Some new)) else (\<lambda>t. t))
            (set_entry_resources (cu_container_id u) (LinuxResources_Copy (Some new)) (s\<lparr>rs_owners := o'\<rparr>)))
        | (st, (o', _)) \<Rightarrow> (st, s\<lparr>rs_owners := o'\<rparr>))"
      using assms(1) e l by (rule updateResources_cases)
    obtain st' o' new where r: "update_resource_copy ures (cu_container_id u) p (rs_owners s, c) = (st', o', new)"
      by (cases "update_resource_copy ures (cu_container_id u) p (rs_owners s, c)") auto
    have new: "limits_ok new" "st' \<noteq> Panicked"
      using safe_D [OF safe_update_resource_copy, of "(rs_owners s, c)" ures "cu_container_id u" p] c(1) r
      by (simp_all add: copy_ok_def)
    obtain n where n: "LinuxResources_Copy (Some new) = Some n" "limits_ok n"
      using Copy_limits_ok [OF new(1)] by blast
    show ?thesis
    proof (cases "st' = Done")
      case False
      with assms(1,3) c(2) r new(2) show ?thesis
        by (cases st') (auto simp: updates_ok_owners create_container_def)
    next
      case True
      let ?s1 = "set_entry_resources (cu_container_id u) (Some n) (s\<lparr>rs_owners := o'\<rparr>)"
      have t: "st = Done" "t = (if cu_container_id u \<in> requested s then set_requested_resources (Some n) ?s1 else ?s1)"
        using assms(3) c(2) r True n(1) by (auto split: if_splits)
      have "updates_ok t"
        using t(2) assms(1) n(2) by (simp add: updates_ok_owners set_entry_ok set_requested_ok)
      moreover have "dom (rs_updates ?s1) = dom (rs_updates s)" by (simp only: set_parts) simp
      ultimately show ?thesis using t by (simp add: create_container_def del: dom_def)
    qed
  qed
qed

section \<open>Updates keep the invariant\<close>

lemma update_one_ok:
  assumes "updates_ok s" and "update_one p u s = (st, t)"
  shows "updates_ok t \<and> st \<noteq> Panicked \<and> create_container t = create_container s \<and>
    rp_adjust (rs_reply t) = rp_adjust (rs_reply s)"
proof -
  obtain st1 s1 where g: "getContainerUpdate u p s = (st1, s1)" by (cases "getContainerUpdate u p s")
  note ok1 = getContainerUpdate_ok [OF assms(1) g]
  obtain st2 s2 where r: "updateResources u p s1 = (st2, s2)" by (cases "updateResources u p s1")
  show ?thesis
  proof (cases "st1 = Done")
    case False
    then show ?thesis using assms(2) g ok1 by (cases st1) (auto simp: update_one_def)
  next
    case True
    note ok2 = updateResources_ok [of s1 u p st2 s2] ok1 True r
    show ?thesis
      using assms(2) g ok2 True by (cases st2) (auto simp: update_one_def split: if_splits)
  qed
qed

lemma safe_result_update:
  assumes "None \<notin> set us"
  shows "safe updates_ok (result_update us p)" and "safe (create_ok cid) (result_update us p)"
proof -
  have body: "safe updates_ok (\<lambda>s. case u of None \<Rightarrow> (Panicked, s) | Some u \<Rightarrow> update_one p u s) \<and>
      safe (create_ok cid) (\<lambda>s. case u of None \<Rightarrow> (Panicked, s) | Some u \<Rightarrow> update_one p u s)"
    if "u \<in> set us" for u
  proof -
    from that assms obtain v where v: "u = Some v" by (metis option.exhaust)
    have "updates_ok (snd (update_one p v s)) \<and> fst (update_one p v s) \<noteq> Panicked \<and>
        create_container (snd (update_one p v s)) = create_container s \<and>
        rp_adjust (rs_reply (snd (update_one p v s))) = rp_adjust (rs_reply s)" if "updates_ok s" for s
      using update_one_ok [OF that, of p v] by (metis prod.collapse)
    then show ?thesis unfolding v by (auto simp: safe_def create_ok_def)
  qed
  then show "safe updates_ok (result_update us p)" "safe (create_ok cid) (result_update us p)"
    unfolding result_update_def by (auto intro!: safe_for_each)
qed

section \<open>Adjustment and apply keep the invariant\<close>

text \<open>
  A reply as the wire format can carry it (no nil update) that sets no sysctl.
\<close>

definition sets_no_sysctl :: "container_adjustment option \<Rightarrow> bool" where
  "sets_no_sysctl a \<longleftrightarrow> (\<forall>j l. a = Some j \<and> adj_linux j = Some l \<longrightarrow>
     (\<forall>k \<in> fst ` set (gmap_entries (la_sysctl l)). \<not> unmarked k))"

definition reply_ok :: "response \<Rightarrow> bool" where
  "reply_ok r \<longleftrightarrow>
     (case r of
        CreateReply (Some c) \<Rightarrow> sets_no_sysctl (crs_adjust c) \<and> None \<notin> set (crs_update c)
      | UpdateReply (Some u) \<Rightarrow> None \<notin> set (urs_update u)
      | StopReply (Some t) \<Rightarrow> None \<notin> set (srs_update t)
      | _ \<Rightarrow> True)"

lemma safe_adjust: "sets_no_sysctl a \<Longrightarrow> safe (create_ok cid) (adjust ord a p)"
  unfolding adjust_def by (intro safe_intros) (auto simp: sets_no_sysctl_def)

lemma safe_fail [safe_intros]: "safe P (\<lambda>s. (Failed e, s))"
  by (simp add: safe_def)

lemma safe_apply_reply:
  assumes "reply_ok r"
  shows "safe (create_ok cid) (apply_reply ord r p)"
proof (cases r)
  case (CreateReply c)
  with assms show ?thesis
    by (cases c) (auto simp: apply_reply_def reply_ok_def safe_skip
        intro!: safe_run_Cons safe_run_Nil safe_adjust safe_result_update simp del: run.simps)
next
  case (UpdateReply u)
  with assms show ?thesis
    by (cases u) (auto simp: apply_reply_def reply_ok_def intro!: safe_result_update)
next
  case (StopReply t)
  with assms show ?thesis
    by (cases t) (auto simp: apply_reply_def reply_ok_def intro!: safe_result_update)
next
  case OtherReply
  show ?thesis unfolding OtherReply by (simp add: apply_reply_def safe_def)
qed

text \<open>The replies to an update or a stop request: plugins send update or stop replies only.\<close>

lemma safe_apply_update:
  assumes "reply_ok r" and "\<And>c. r \<noteq> CreateReply (Some c)"
  shows "safe updates_ok (apply_reply ord r p)"
proof (cases r)
  case (CreateReply c)
  with assms(2) have "c = None" by (cases c) auto
  with CreateReply show ?thesis by (simp add: apply_reply_def safe_skip)
next
  case (UpdateReply u)
  with assms show ?thesis
    by (cases u) (auto simp: apply_reply_def reply_ok_def intro!: safe_result_update)
next
  case (StopReply t)
  with assms show ?thesis
    by (cases t) (auto simp: apply_reply_def reply_ok_def intro!: safe_result_update)
next
  case OtherReply
  show ?thesis unfolding OtherReply by (simp add: apply_reply_def safe_def)
qed

lemma safe_apply_all:
  "(\<And>r p. (r, p) \<in> set replies \<Longrightarrow> safe P (apply_reply ord r p)) \<Longrightarrow> safe P (apply_all ord replies)"
  unfolding apply_all_def by (rule safe_for_each) auto

end
