(* ===== verification/Update_Properties.thy ===== *)
theory Update_Properties
  imports Update_Laws
begin

text \<open>
  What holds of the collected result as plugins' replies are applied one after the other: no
  panic, the invariant, the content of the responses, and the rules for container updates.
\<close>

section \<open>Safety\<close>

text \<open>
  A creation request never crashes the runtime and keeps its invariant: from a request with a
  container, whatever it leaves out, apply the replies of any plugins in any number and order, as
  long as none holds a nil update or sets a sysctl. Then no nil pointer is dereferenced and no nil
  map stored to; the container keeps its id; annotations, hooks, network devices, memory, CPU and
  unified maps stay allocated on both sides; and the collected updates are one well-formed entry
  per container, none for the container being created.
\<close>

theorem create_never_panics:
  assumes "collectCreateContainerResult req = Some s" and "cr_container req = Some c"
    and "\<forall>(r, p) \<in> set replies. reply_ok r"
  shows "fst (apply_all ord replies s) \<noteq> Panicked \<and> create_ok (ctr_id c) (snd (apply_all ord replies s))"
proof -
  have "safe (create_ok (ctr_id c)) (apply_all ord replies)"
    using assms(3) by (intro safe_apply_all safe_apply_reply) auto
  from safe_D [OF this create_ok_initial [OF assms(1,2)]] show ?thesis by blast
qed

theorem create_never_panics_witness:
  "fst (apply_all rev
     [(CreateReply (Some \<lparr>crs_adjust = Some (zero_adjustment\<lparr>adj_annotations := Some [(''-a'', ''''), (''a'', ''1'')],
         adj_linux := Some (zero_linux_adjustment\<lparr>la_rdt := Some zero_rdt\<rparr>)\<rparr>),
       crs_update = [], crs_evict = []\<rparr>), ''10-a''), (UpdateReply None, ''20-b'')]
     (the (collectCreateContainerResult \<lparr>cr_pod = None, cr_container = Some zero_container\<rparr>))) \<noteq> Panicked"
proof -
  let ?req = "\<lparr>cr_pod = None, cr_container = Some zero_container\<rparr>"
  let ?replies = "[(CreateReply (Some \<lparr>crs_adjust = Some (zero_adjustment\<lparr>adj_annotations :=
      Some [(''-a'', ''''), (''a'', ''1'')],
         adj_linux := Some (zero_linux_adjustment\<lparr>la_rdt := Some zero_rdt\<rparr>)\<rparr>),
       crs_update = [], crs_evict = []\<rparr>), ''10-a''), (UpdateReply None, ''20-b'')]"
  have "collectCreateContainerResult ?req = Some (the (collectCreateContainerResult ?req))"
    by (simp add: collectCreateContainerResult_def)
  moreover have "\<forall>(r, p) \<in> set ?replies. reply_ok r"
    by (simp add: reply_ok_def sets_no_sysctl_def gmap_entries_def zero_defs)
  ultimately show ?thesis
    using create_never_panics [of ?req "the (collectCreateContainerResult ?req)" zero_container ?replies rev]
    by simp
qed

text \<open>
  C20. Neither does an update or a stop request: from an update request with a container, or from a
  stop, applying any update and stop replies without nil updates never panics and keeps the
  collected updates well formed.
\<close>

theorem update_never_panics:
  assumes "\<And>q. req = Some q \<Longrightarrow> ur_container q \<noteq> None"
    and "\<forall>(r, p) \<in> set replies. reply_ok r \<and> (\<forall>c. r \<noteq> CreateReply (Some c))"
  shows "fst (apply_all ord replies (collectUpdateContainerResult req)) \<noteq> Panicked \<and>
    updates_ok (snd (apply_all ord replies (collectUpdateContainerResult req)))"
proof -
  have "safe updates_ok (apply_all ord replies)"
    using assms(2) by (intro safe_apply_all safe_apply_update) auto
  from safe_D [OF this updates_ok_initial, of req] assms(1) show ?thesis by blast
qed

theorem update_never_panics_witness:
  "fst (apply_all rev
     [(StopReply (Some \<lparr>srs_update = [Some \<lparr>cu_container_id = ''x'', cu_linux = None,
         cu_ignore_failure = True\<rparr>]\<rparr>), ''10-a'')] (collectUpdateContainerResult None)) \<noteq> Panicked"
proof -
  let ?replies = "[(StopReply (Some \<lparr>srs_update = [Some \<lparr>cu_container_id = ''x'', cu_linux = None,
         cu_ignore_failure = True\<rparr>]\<rparr>), ''10-a'')]"
  have "\<forall>(r, p) \<in> set ?replies. reply_ok r \<and> (\<forall>c. r \<noteq> CreateReply (Some c))"
    by (simp add: reply_ok_def)
  from update_never_panics [OF _ this, of None] show ?thesis by simp
qed

section \<open>Frames\<close>

definition request_container :: "result \<Rightarrow> container option option" where
  "request_container s = map_option ur_container (rq_update (rs_request s))"

lemma requested_container: "requested s =
    (case request_container s of Some (Some c) \<Rightarrow> {ctr_id c} | _ \<Rightarrow> {})"
  by (auto simp: requested_def request_container_def split: option.split)

lemma update_one_request:
  assumes "updates_ok s" and "update_one p u s = (st, t)"
  shows "request_container t = request_container s"
proof -
  obtain st1 s1 where g: "getContainerUpdate u p s = (st1, s1)" by (cases "getContainerUpdate u p s")
  note ok1 = getContainerUpdate_ok [OF assms(1) g]
  have res: "request_container (snd (updateResources u p s1)) = request_container s1"
    by (auto simp: updateResources_def Let_def request_container_def set_requested_resources_def
        set_entry_resources_def option.map_comp comp_def split: option.split prod.split status.split)
  obtain st2 s2 where r: "updateResources u p s1 = (st2, s2)" by (cases "updateResources u p s1")
  from assms(2) g r res ok1 show ?thesis
    by (cases st1; cases st2) (auto simp: update_one_def request_container_def split: if_splits)
qed

text \<open>
  Everything an update list keeps of a well-formed state is kept by one round of the loop.
\<close>

lemma result_update_keeps:
  assumes "\<And>u s st t. Some u \<in> set us \<Longrightarrow> updates_ok s \<Longrightarrow> P s \<Longrightarrow> update_one p u s = (st, t) \<Longrightarrow> P t"
    and "updates_ok s" and "P s" and "None \<notin> set us"
  shows "P (snd (result_update us p s)) \<and> updates_ok (snd (result_update us p s))"
proof -
  have "safe (\<lambda>s. updates_ok s \<and> P s) (result_update us p)"
    unfolding result_update_def
  proof (rule safe_for_each)
    fix u assume u: "u \<in> set us"
    with assms(4) obtain v where v: "u = Some v" by (metis option.exhaust)
    show "safe (\<lambda>s. updates_ok s \<and> P s)
        (\<lambda>s. case u of None \<Rightarrow> (Panicked, s) | Some u \<Rightarrow> update_one p u s)"
    proof (rule safe_I)
      fix s assume s: "updates_ok s \<and> P s"
      obtain st t where r: "update_one p v s = (st, t)" by (cases "update_one p v s")
      with update_one_ok [of s p v st t] assms(1) [of v s st t] s u
      show "(updates_ok (snd (case u of None \<Rightarrow> (Panicked, s) | Some u \<Rightarrow> update_one p u s)) \<and>
          P (snd (case u of None \<Rightarrow> (Panicked, s) | Some u \<Rightarrow> update_one p u s))) \<and>
        fst (case u of None \<Rightarrow> (Panicked, s) | Some u \<Rightarrow> update_one p u s) \<noteq> Panicked"
        by (simp add: v)
    qed
  qed
  from safe_D [OF this, of s] assms(2,3) show ?thesis by blast
qed

section \<open>Responses\<close>

lemma reply_updates_wf:
  assumes "updates_ok s"
  shows "\<exists>es. reply_updates s = map Some es \<and> map cu_container_id es = rp_update (rs_reply s)"
proof -
  have "\<exists>e. rs_updates s i = Some e \<and> cu_container_id e = i" if "i \<in> set (rp_update (rs_reply s))" for i
  proof -
    have "set (rp_update (rs_reply s)) \<subseteq> dom (rs_updates s)" using assms unfolding updates_ok_def by blast
    with that obtain e where "rs_updates s i = Some e" by blast
    with assms show ?thesis unfolding updates_ok_def entry_ok_def by blast
  qed
  then obtain f where f: "\<And>i. i \<in> set (rp_update (rs_reply s)) \<Longrightarrow> rs_updates s i = Some (f i) \<and> cu_container_id (f i) = i"
    by metis
  show ?thesis
    using f by (intro exI [of _ "map f (rp_update (rs_reply s))"]) (auto simp: reply_updates_def intro: map_idI)
qed

text \<open>
  The response to an update request: it lists each other container that some plugin updated
  exactly once, with the updates of all plugins merged into one entry, and the requested container
  last. When no plugin updated the requested container that last element is a nil pointer.
\<close>

theorem update_response_content:
  assumes "ur_container q = Some c"
    and "\<forall>(us, p) \<in> set replies. None \<notin> set us"
    and "apply_all ord (map (\<lambda>(us, p). (UpdateReply (Some \<lparr>urs_update = us, urs_evict = []\<rparr>), p)) replies)
      (collectUpdateContainerResult (Some q)) = (Done, t)"
  shows "\<exists>es. updateContainerResponse t =
      Some \<lparr>urs_update = map Some es @ [rs_updates t (ctr_id c)], urs_evict = []\<rparr> \<and>
    distinct (map cu_container_id es) \<and>
    set (map cu_container_id es) = dom (rs_updates t) - {ctr_id c}"
proof -
  let ?P = "\<lambda>s. updates_ok s \<and> request_container s = Some (Some c)"
  define all where "all = map (\<lambda>(us, p). (UpdateReply (Some \<lparr>urs_update = us, urs_evict = []\<rparr>), p)) replies"
  have "keeps ?P (apply_reply ord r p)" if "(r, p) \<in> set all" for r p
  proof (rule keeps_I)
    fix s assume s: "?P s"
    from that obtain us where us: "r = UpdateReply (Some \<lparr>urs_update = us, urs_evict = []\<rparr>)" "(us, p) \<in> set replies"
      by (auto simp: all_def)
    then have "None \<notin> set us" using assms(2) by auto
    then have "request_container (snd (result_update us p s)) = Some (Some c) \<and>
        updates_ok (snd (result_update us p s))"
      using s by (intro result_update_keeps) (simp_all add: update_one_request)
    with us(1) show "?P (snd (apply_reply ord r p s))" by (simp add: apply_reply_def)
  qed
  then have "keeps ?P (apply_all ord all)"
    unfolding apply_all_def for_each_def by (intro keeps_run) auto
  moreover have "?P (collectUpdateContainerResult (Some q))"
    using updates_ok_initial [of "Some q"] assms(1)
    by (simp add: request_container_def collectUpdateContainerResult_def prepare_update_def)
  ultimately have "?P (snd (apply_all ord all (collectUpdateContainerResult (Some q))))"
    by (rule keeps_D)
  then have t: "?P t" using assms(3) by (simp add: all_def)
  then obtain es where es: "reply_updates t = map Some es"
    "map cu_container_id es = rp_update (rs_reply t)"
    using reply_updates_wf by blast
  have "requested t = {ctr_id c}" using t by (simp add: requested_container)
  then have "distinct (map cu_container_id es)" "set (map cu_container_id es) = dom (rs_updates t) - {ctr_id c}"
    using t unfolding es(2) updates_ok_def by simp_all
  moreover have "updateContainerResponse t =
      Some \<lparr>urs_update = map Some es @ [rs_updates t (ctr_id c)], urs_evict = []\<rparr>"
    using t by (auto simp: updateContainerResponse_def request_container_def es(1))
  ultimately show ?thesis by blast
qed

theorem update_response_content_witness:
  "updateContainerResponse (collectUpdateContainerResult (Some \<lparr>ur_pod = None,
     ur_container = Some zero_container, ur_linux_resources = None\<rparr>)) =
   Some \<lparr>urs_update = [None], urs_evict = []\<rparr>"
proof -
  let ?q = "\<lparr>ur_pod = None, ur_container = Some zero_container, ur_linux_resources = None\<rparr>"
  have "apply_all rev [] (collectUpdateContainerResult (Some ?q)) = (Done, collectUpdateContainerResult (Some ?q))"
    by (simp add: apply_all_def)
  then obtain es where "updateContainerResponse (collectUpdateContainerResult (Some ?q)) =
      Some \<lparr>urs_update = map Some es @ [rs_updates (collectUpdateContainerResult (Some ?q)) []], urs_evict = []\<rparr>"
    "set (map cu_container_id es) = dom (rs_updates (collectUpdateContainerResult (Some ?q))) - {[]}"
    using update_response_content [of ?q zero_container "[]" rev "collectUpdateContainerResult (Some ?q)"]
    by (auto simp: zero_container_def)
  then show ?thesis by (simp add: collectUpdateContainerResult_def)
qed

section \<open>Rules for updates\<close>

text \<open>
  A failed update, ignored or not, leaves the entry of its container, the request and the reply
  as they were right after the entry was looked up or made: the resources of the failed update are
  dropped as a whole. Whether the plugin's reply fails is the update's own ignore flag. The claims
  made before the failing field stay in the ownership store.
\<close>

theorem failed_update_dropped:
  assumes "updates_ok s" and "getContainerUpdate u p s = (Done, s1)"
    and "updateResources u p s1 = (Failed err, s2)"
  shows "update_one p u s = (if cu_ignore_failure u then Done else Failed err, s2) \<and>
    rs_updates s2 = rs_updates s1 \<and> rs_request s2 = rs_request s1 \<and> rs_reply s2 = rs_reply s1"
proof -
  have "updates_ok s1" "cu_container_id u \<in> dom (rs_updates s1)"
    using getContainerUpdate_ok [OF assms(1,2)] by simp_all
  from updateResources_ok [OF this assms(3)] assms(2,3) show ?thesis
    by (simp add: update_one_def)
qed

text \<open>An update of container \<open>c\<close> that sets a memory limit, CPU shares, or both.\<close>

definition sample_update :: "bool \<Rightarrow> int64 option \<Rightarrow> uint64 option \<Rightarrow> container_update" where
  "sample_update ignore mem shares = \<lparr>cu_container_id = ''c'',
     cu_linux = Some \<lparr>lu_resources = Some (zero_resources\<lparr>
       res_memory := Some (zero_memory\<lparr>mem_limit := mem\<rparr>),
       res_cpu := Some (zero_cpu\<lparr>cpu_shares := shares\<rparr>)\<rparr>)\<rparr>,
     cu_ignore_failure = ignore\<rparr>"

theorem failed_update_dropped_witness:
  "\<exists>s2. update_one ''20-b'' (sample_update True (Some 1) (Some 6))
      (snd (update_one ''10-a'' (sample_update False None (Some 5)) collectStopContainerResult)) = (Done, s2) \<and>
    rs_updates s2 ''c'' = map_option (\<lambda>e. e\<lparr>cu_ignore_failure := False\<rparr>)
      (rs_updates (snd (update_one ''10-a'' (sample_update False None (Some 5)) collectStopContainerResult)) ''c'')"
proof -
  let ?s = "snd (update_one ''10-a'' (sample_update False None (Some 5)) collectStopContainerResult)"
  let ?u = "sample_update True (Some 1) (Some 6)"
  obtain st s1 where g: "getContainerUpdate ?u ''20-b'' ?s = (st, s1)" by (cases "getContainerUpdate ?u ''20-b'' ?s")
  obtain st2 s2 where r: "updateResources ?u ''20-b'' s1 = (st2, s2)" by (cases "updateResources ?u ''20-b'' s1")
  have "updates_ok collectStopContainerResult"
    using updates_ok_initial [of None] by (simp add: collectStopContainerResult_def)
  then have ok: "updates_ok ?s" using update_one_ok by (metis prod.collapse)
  have "fst (getContainerUpdate ?u ''20-b'' ?s) = Done" by code_simp
  then have st: "st = Done" using g by simp
  have "fst (updateResources ?u ''20-b'' (snd (getContainerUpdate ?u ''20-b'' ?s))) =
      Failed (Conflict (Field_Key Field_CPUShares) ''20-b'' ''10-a'' [])" by code_simp
  then have st2: "st2 = Failed (Conflict (Field_Key Field_CPUShares) ''20-b'' ''10-a'' [])" using g r by simp
  have "map_option cu_ignore_failure (rs_updates ?s ''c'') = Some False" by code_simp
  then obtain e where e: "rs_updates ?s ''c'' = Some e" "\<not> cu_ignore_failure e" by auto
  have "cu_container_id ?u = ''c''" "cu_ignore_failure ?u" by (simp_all add: sample_update_def)
  moreover have "create_container ?s = None" by code_simp
  ultimately have "rs_updates s1 ''c'' = Some (e\<lparr>cu_ignore_failure := False\<rparr>)"
    using g e by (auto simp: getContainerUpdate_def Let_def)
  with failed_update_dropped [OF ok g [unfolded st] r [unfolded st2]] \<open>cu_ignore_failure ?u\<close> e
  show ?thesis by simp
qed

text \<open>
  The claims of an ignored update outlive it: the second plugin's update of memory limit and CPU
  shares fails on the shares and is ignored and dropped, yet a third plugin that sets the memory limit,
  which nobody has set, is refused in the name of the second.
\<close>

theorem ignored_failure_keeps_claims:
  "let r = for_each
       [(sample_update False None (Some 5), ''10-a''), (sample_update True (Some 1) (Some 6), ''20-b'')]
       (\<lambda>(u, p). update_one p u) collectStopContainerResult
   in fst r = Done \<and>
      map_option (\<lambda>e. map_option (\<lambda>x. map_option mem_limit (res_memory x)) (lu_resources (the (cu_linux e))))
        (rs_updates (snd r) ''c'') = Some (Some (Some None)) \<and>
      fst (update_one ''30-c'' (sample_update False (Some 2) None) (snd r)) =
        Failed (Conflict (Field_Key Field_MemLimit) ''30-c'' ''20-b'' [])"
  unfolding Let_def by (intro conjI; code_simp)

lemma update_one_flag:
  assumes "updates_ok s" and "update_one p u s = (Done, t)"
  shows "map_option cu_ignore_failure (rs_updates t cid) =
    (if cu_container_id u = cid
     then Some ((case rs_updates s cid of None \<Rightarrow> True | Some e \<Rightarrow> cu_ignore_failure e) \<and> cu_ignore_failure u)
     else map_option cu_ignore_failure (rs_updates s cid))"
proof -
  have res: "map_option cu_ignore_failure (rs_updates (snd (updateResources u p s1)) i) =
      map_option cu_ignore_failure (rs_updates s1 i)" for s1 i
    by (auto simp: updateResources_def Let_def set_requested_resources_def set_entry_resources_def
        option.map_comp comp_def split: option.split prod.split status.split)
  obtain st1 s1 where g: "getContainerUpdate u p s = (st1, s1)" by (cases "getContainerUpdate u p s")
  have st1: "st1 = Done" using assms(2) g by (cases st1) (auto simp: update_one_def)
  have t: "t = snd (updateResources u p s1)"
    using assms(2) g st1 by (auto simp: update_one_def split: prod.splits status.splits if_splits)
  show ?thesis
    unfolding t res
    using g st1 assms(1)
    by (cases rule: getContainerUpdate_cases [of u p s])
      (auto simp: new_update_def updates_ok_def request_ok_def)
qed

text \<open>
  The ignore flag of a collected update is the conjunction of the flags of all updates of that
  container, by any plugins: one plugin that does not ask for failures to be ignored is enough for the
  runtime to report them.
\<close>

theorem ignore_flag_conjunction:
  assumes "updates_ok s" and "rs_updates s cid = None"
    and "for_each us (\<lambda>(u, p). update_one p u) s = (Done, t)"
  shows "map_option cu_ignore_failure (rs_updates t cid) =
    (if \<exists>(u, p) \<in> set us. cu_container_id u = cid
     then Some (\<forall>(u, p) \<in> set us. cu_container_id u = cid \<longrightarrow> cu_ignore_failure u) else None)"
proof -
  have "map_option cu_ignore_failure (rs_updates t cid) =
    (if \<exists>(u, p) \<in> set us. cu_container_id u = cid
     then Some ((case rs_updates s cid of None \<Rightarrow> True | Some e \<Rightarrow> cu_ignore_failure e) \<and>
       (\<forall>(u, p) \<in> set us. cu_container_id u = cid \<longrightarrow> cu_ignore_failure u))
     else map_option cu_ignore_failure (rs_updates s cid))"
    using assms(1,3)
  proof (induction us arbitrary: s)
    case Nil
    then show ?case by simp
  next
    case (Cons x us)
    obtain u p where x: "x = (u, p)" by (cases x)
    obtain st s1 where r: "update_one p u s = (st, s1)" by (cases "update_one p u s")
    have st: "st = Done" using Cons.prems(2) r by (cases st) (auto simp: x for_each_def)
    have s1: "updates_ok s1" using update_one_ok [OF Cons.prems(1) r] by simp
    have "for_each us (\<lambda>(u, p). update_one p u) s1 = (Done, t)"
      using Cons.prems(2) r st by (simp add: x for_each_def)
    note rec = Cons.IH [OF s1 this]
    define E where "E = (\<exists>(u, p) \<in> set us. cu_container_id u = cid)"
    define A where "A = (\<forall>(u, p) \<in> set us. cu_container_id u = cid \<longrightarrow> cu_ignore_failure u)"
    have all: "(\<exists>(u, p) \<in> set (x # us). cu_container_id u = cid) \<longleftrightarrow> cu_container_id u = cid \<or> E"
      "(\<forall>(u, p) \<in> set (x # us). cu_container_id u = cid \<longrightarrow> cu_ignore_failure u) \<longleftrightarrow>
        (cu_container_id u = cid \<longrightarrow> cu_ignore_failure u) \<and> A"
      by (simp_all add: x E_def A_def)
    have "\<not> E \<Longrightarrow> A" by (auto simp: E_def A_def)
    with rec [folded E_def A_def] update_one_flag [OF Cons.prems(1), of p u s1 cid] r st
    show ?case unfolding all by (cases "rs_updates s cid"; cases "rs_updates s1 cid") (auto split: if_splits)
  qed
  then show ?thesis by (simp add: assms(2))
qed

theorem ignore_flag_conjunction_witness:
  "\<exists>t. for_each [(\<lparr>cu_container_id = ''c'', cu_linux = None, cu_ignore_failure = True\<rparr>, ''10-a''),
        (\<lparr>cu_container_id = ''c'', cu_linux = None, cu_ignore_failure = False\<rparr>, ''20-b'')]
      (\<lambda>(u, p). update_one p u) collectStopContainerResult = (Done, t) \<and>
    map_option cu_ignore_failure (rs_updates t ''c'') = Some False"
proof -
  let ?us = "[(\<lparr>cu_container_id = ''c'', cu_linux = None, cu_ignore_failure = True\<rparr>, ''10-a''),
    (\<lparr>cu_container_id = ''c'', cu_linux = None, cu_ignore_failure = False\<rparr>, ''20-b'')]"
  have ok: "updates_ok collectStopContainerResult" "rs_updates collectStopContainerResult ''c'' = None"
    using updates_ok_initial [of None]
    by (simp_all add: collectStopContainerResult_def) (simp add: collectUpdateContainerResult_def)
  obtain t where "for_each ?us (\<lambda>(u, p). update_one p u) collectStopContainerResult = (Done, t)"
    by (simp add: for_each_def update_one_def getContainerUpdate_def updateResources_def Let_def
        collectStopContainerResult_def collectUpdateContainerResult_def create_container_def)
  with ignore_flag_conjunction [OF ok this] show ?thesis by simp
qed

text \<open>
  The container being created cannot be updated: a list of updates that names it is never applied
  in full, whatever the ignore flag says.
\<close>

theorem no_update_of_created:
  assumes "updates_ok s" and "create_container s = Some c" and "None \<notin> set us"
    and "Some u \<in> set us" and "cu_container_id u = ctr_id c"
  shows "fst (result_update us p s) \<noteq> Done"
  using assms(1-4)
proof (induction us arbitrary: s)
  case Nil
  then show ?case by simp
next
  case (Cons x us)
  then obtain v where x: "x = Some v" by (cases x) auto
  obtain st s1 where r: "update_one p v s = (st, s1)" by (cases "update_one p v s")
  note ok = update_one_ok [OF Cons.prems(1) r]
  let ?body = "\<lambda>u s. case u of None \<Rightarrow> (Panicked, s) | Some u \<Rightarrow> update_one p u s"
  show ?case
  proof (cases "st = Done")
    case False
    then have "fst (for_each (x # us) ?body s) = st" using r by (simp add: x for_each_stop)
    with False show ?thesis by (simp add: result_update_def)
  next
    case True
    have "v \<noteq> u"
    proof
      assume "v = u"
      then have "getContainerUpdate v p s = (Failed (UpdatedDuringCreation p (cu_container_id v)), s)"
        using Cons.prems(2) assms(5) by (simp add: getContainerUpdate_def Let_def)
      with r True show False by (simp add: update_one_def)
    qed
    then have "Some u \<in> set us" using Cons.prems(4) x by simp
    with Cons.IH [of s1] ok Cons.prems have "fst (result_update us p s1) \<noteq> Done" by simp
    moreover have "for_each (x # us) ?body s = for_each us ?body s1"
      using r True by (intro for_each_step) (simp add: x)
    ultimately show ?thesis by (simp add: result_update_def)
  qed
qed

theorem no_update_of_created_witness:
  "fst (result_update [Some \<lparr>cu_container_id = [], cu_linux = None, cu_ignore_failure = True\<rparr>] ''10-a''
     (the (collectCreateContainerResult \<lparr>cr_pod = None, cr_container = Some zero_container\<rparr>))) \<noteq> Done"
proof -
  let ?s = "the (collectCreateContainerResult \<lparr>cr_pod = None, cr_container = Some zero_container\<rparr>)"
  have "create_ok (ctr_id zero_container) ?s"
    by (rule create_ok_initial [of "\<lparr>cr_pod = None, cr_container = Some zero_container\<rparr>"])
      (simp_all add: collectCreateContainerResult_def)
  then obtain c where c: "create_container ?s = Some c" "container_ok (ctr_id zero_container) c"
    and ok: "updates_ok ?s" by (auto simp: create_ok_def)
  have "[] = ctr_id c" using c(2) by (simp add: container_ok_def zero_container_def)
  then show ?thesis
    by (intro no_update_of_created [OF ok c(1)]) auto
qed

text \<open>
  The PIDs limit of an update is ignored: whatever limit the plugin asks for, or none, the update
  has the same outcome, because the code reads the limit from its own copy of the resources collected
  so far.
\<close>

theorem pids_update_ignored:
  "updateResources \<lparr>cu_container_id = cid, cu_linux = Some \<lparr>lu_resources = Some (r\<lparr>res_pids := limit\<rparr>)\<rparr>,
     cu_ignore_failure = f\<rparr> p s =
   updateResources \<lparr>cu_container_id = cid, cu_linux = Some \<lparr>lu_resources = Some r\<rparr>,
     cu_ignore_failure = f\<rparr> p s"
proof -
  have "update_resource_copy (r\<lparr>res_pids := limit\<rparr>) cid p = update_resource_copy r cid p"
    by (simp add: update_resource_copy_def)
  then show ?thesis by (simp add: updateResources_def split: option.split)
qed

end
