(* ===== verification/Adjustment.thy ===== *)
theory Adjustment
  imports Resources
begin

text \<open>
  The builders with which a plugin composes its reply: the methods of \<^verbatim>\<open>ContainerAdjustment\<close>
  (\<^verbatim>\<open>src/pkg/api/adjustment.go\<close>, prefix \<open>Adjustment\<close>) and of \<^verbatim>\<open>ContainerUpdate\<close>
  (\<^verbatim>\<open>src/pkg/api/update.go\<close>, prefix \<open>Update\<close>). Each first allocates the nested structs and maps it
  stores to (the \<^verbatim>\<open>init\<close> methods), so no store meets a nil pointer or map.
\<close>

section \<open>Allocation\<close>

text \<open>A store through a pointer, and into a map, that is not nil.\<close>

definition at_ptr :: "('a \<Rightarrow> 'a) \<Rightarrow> 'a option \<Rightarrow> 'a option" where
  "at_ptr f p = map_option f p"

definition at_key :: "'k \<Rightarrow> 'v \<Rightarrow> ('k, 'v) gomap option \<Rightarrow> ('k, 'v) gomap option" where
  "at_key k v m = map_option (AList.update k v) m"

definition initAnnotations :: "container_adjustment \<Rightarrow> container_adjustment" where
  "initAnnotations a = a\<lparr>adj_annotations := alloc [] (adj_annotations a)\<rparr>"

definition initHooks :: "container_adjustment \<Rightarrow> container_adjustment" where
  "initHooks a = a\<lparr>adj_hooks := alloc zero_hooks (adj_hooks a)\<rparr>"

definition initLinux :: "container_adjustment \<Rightarrow> container_adjustment" where
  "initLinux a = a\<lparr>adj_linux := alloc zero_linux_adjustment (adj_linux a)\<rparr>"

definition linux_do :: "(linux_adjustment \<Rightarrow> linux_adjustment) \<Rightarrow> container_adjustment \<Rightarrow> container_adjustment" where
  "linux_do f a = a\<lparr>adj_linux := at_ptr f (adj_linux a)\<rparr>"

definition initLinuxResources :: "container_adjustment \<Rightarrow> container_adjustment" where
  "initLinuxResources a =
     linux_do (\<lambda>l. l\<lparr>la_resources := alloc zero_resources (la_resources l)\<rparr>) (initLinux a)"

definition resources_do :: "(linux_resources \<Rightarrow> linux_resources) \<Rightarrow> container_adjustment \<Rightarrow> container_adjustment" where
  "resources_do f = linux_do (\<lambda>l. l\<lparr>la_resources := at_ptr f (la_resources l)\<rparr>)"

definition initLinuxResourcesMemory :: "container_adjustment \<Rightarrow> container_adjustment" where
  "initLinuxResourcesMemory a =
     resources_do (\<lambda>r. r\<lparr>res_memory := alloc zero_memory (res_memory r)\<rparr>) (initLinuxResources a)"

definition initLinuxResourcesCPU :: "container_adjustment \<Rightarrow> container_adjustment" where
  "initLinuxResourcesCPU a =
     resources_do (\<lambda>r. r\<lparr>res_cpu := alloc zero_cpu (res_cpu r)\<rparr>) (initLinuxResources a)"

definition initLinuxResourcesPids :: "container_adjustment \<Rightarrow> container_adjustment" where
  "initLinuxResourcesPids a =
     resources_do (\<lambda>r. r\<lparr>res_pids := alloc \<lparr>pids_limit = 0\<rparr> (res_pids r)\<rparr>) (initLinuxResources a)"

definition initLinuxResourcesUnified :: "container_adjustment \<Rightarrow> container_adjustment" where
  "initLinuxResourcesUnified a =
     resources_do (\<lambda>r. r\<lparr>res_unified := alloc [] (res_unified r)\<rparr>) (initLinuxResources a)"

definition initLinuxNetDevices :: "container_adjustment \<Rightarrow> container_adjustment" where
  "initLinuxNetDevices a =
     linux_do (\<lambda>l. l\<lparr>la_net_devices := alloc [] (la_net_devices l)\<rparr>) (initLinux a)"

definition initLinuxRdt :: "container_adjustment \<Rightarrow> container_adjustment" where
  "initLinuxRdt a = linux_do (\<lambda>l. l\<lparr>la_rdt := alloc zero_rdt (la_rdt l)\<rparr>) (initLinux a)"

definition memory_do :: "(linux_memory \<Rightarrow> linux_memory) \<Rightarrow> container_adjustment \<Rightarrow> container_adjustment" where
  "memory_do f a = resources_do (\<lambda>r. r\<lparr>res_memory := at_ptr f (res_memory r)\<rparr>) (initLinuxResourcesMemory a)"

definition cpu_do :: "(linux_cpu \<Rightarrow> linux_cpu) \<Rightarrow> container_adjustment \<Rightarrow> container_adjustment" where
  "cpu_do f a = resources_do (\<lambda>r. r\<lparr>res_cpu := at_ptr f (res_cpu r)\<rparr>) (initLinuxResourcesCPU a)"

definition rdt_do :: "(linux_rdt \<Rightarrow> linux_rdt) \<Rightarrow> container_adjustment \<Rightarrow> container_adjustment" where
  "rdt_do f a = linux_do (\<lambda>l. l\<lparr>la_rdt := at_ptr f (la_rdt l)\<rparr>) (initLinuxRdt a)"

section \<open>Adjustments\<close>

definition Adjustment_AddAnnotation :: "string \<Rightarrow> string \<Rightarrow> container_adjustment \<Rightarrow> container_adjustment" where
  "Adjustment_AddAnnotation key value a =
     (let b = initAnnotations a in b\<lparr>adj_annotations := at_key key value (adj_annotations b)\<rparr>)"

definition Adjustment_RemoveAnnotation :: "string \<Rightarrow> container_adjustment \<Rightarrow> container_adjustment" where
  "Adjustment_RemoveAnnotation key a =
     (let b = initAnnotations a in b\<lparr>adj_annotations := at_key (MarkForRemoval key) [] (adj_annotations b)\<rparr>)"

definition Adjustment_AddMount :: "mount \<Rightarrow> container_adjustment \<Rightarrow> container_adjustment" where
  "Adjustment_AddMount m a =
     a\<lparr>adj_mounts := adj_mounts a @ [m]\<rparr>"

definition Adjustment_RemoveMount :: "string \<Rightarrow> container_adjustment \<Rightarrow> container_adjustment" where
  "Adjustment_RemoveMount ContainerPath a =
     a\<lparr>adj_mounts := adj_mounts a @
       [zero_mount\<lparr>mnt_destination := MarkForRemoval ContainerPath\<rparr>]\<rparr>"

definition Adjustment_AddEnv :: "string \<Rightarrow> string \<Rightarrow> container_adjustment \<Rightarrow> container_adjustment" where
  "Adjustment_AddEnv key value a =
     a\<lparr>adj_env := adj_env a @ [\<lparr>kv_key = key, kv_value = value\<rparr>]\<rparr>"

definition Adjustment_RemoveEnv :: "string \<Rightarrow> container_adjustment \<Rightarrow> container_adjustment" where
  "Adjustment_RemoveEnv key a =
     a\<lparr>adj_env := adj_env a @ [\<lparr>kv_key = MarkForRemoval key, kv_value = []\<rparr>]\<rparr>"

definition Adjustment_SetArgs :: "string list \<Rightarrow> container_adjustment \<Rightarrow> container_adjustment" where
  "Adjustment_SetArgs args a =
     a\<lparr>adj_args := args\<rparr>"

definition Adjustment_UpdateArgs :: "string list \<Rightarrow> container_adjustment \<Rightarrow> container_adjustment" where
  "Adjustment_UpdateArgs args a =
     a\<lparr>adj_args := [[]] @ args\<rparr>"

definition Adjustment_AddHooks :: "hooks \<Rightarrow> container_adjustment \<Rightarrow> container_adjustment" where
  "Adjustment_AddHooks h a =
     (let b = initHooks a in b\<lparr>adj_hooks := at_ptr (\<lambda>g. \<lparr>
       hk_prestart = hk_prestart g @ hk_prestart h,
       hk_create_runtime = hk_create_runtime g @ hk_create_runtime h,
       hk_create_container = hk_create_container g @ hk_create_container h,
       hk_start_container = hk_start_container g @ hk_start_container h,
       hk_poststart = hk_poststart g @ hk_poststart h,
       hk_poststop = hk_poststop g @ hk_poststop h\<rparr>) (adj_hooks b)\<rparr>)"

definition Adjustment_AddRlimit :: "string \<Rightarrow> uint64 \<Rightarrow> uint64 \<Rightarrow> container_adjustment \<Rightarrow> container_adjustment" where
  "Adjustment_AddRlimit typ hard soft a =
     a\<lparr>adj_rlimits := adj_rlimits a @ [\<lparr>rl_type = typ, rl_hard = hard, rl_soft = soft\<rparr>]\<rparr>"

definition Adjustment_AddDevice :: "linux_device \<Rightarrow> container_adjustment \<Rightarrow> container_adjustment" where
  "Adjustment_AddDevice d a =
     linux_do (\<lambda>l. l\<lparr>la_devices := la_devices l @ [d]\<rparr>) (initLinux a)"

definition Adjustment_RemoveDevice :: "string \<Rightarrow> container_adjustment \<Rightarrow> container_adjustment" where
  "Adjustment_RemoveDevice path a =
     linux_do (\<lambda>l. l\<lparr>la_devices := la_devices l @
       [zero_device\<lparr>dev_path := MarkForRemoval path\<rparr>]\<rparr>) (initLinux a)"

definition Adjustment_AddCDIDevice :: "cdi_device \<Rightarrow> container_adjustment \<Rightarrow> container_adjustment" where
  "Adjustment_AddCDIDevice d a =
     a\<lparr>adj_cdi_devices := adj_cdi_devices a @ [d]\<rparr>"

definition Adjustment_AddOrReplaceNamespace :: "linux_namespace \<Rightarrow> container_adjustment \<Rightarrow> container_adjustment" where
  "Adjustment_AddOrReplaceNamespace n a =
     linux_do (\<lambda>l. l\<lparr>la_namespaces := la_namespaces l @ [Some n]\<rparr>) (initLinux a)"

definition Adjustment_RemoveNamespace :: "linux_namespace \<Rightarrow> container_adjustment \<Rightarrow> container_adjustment" where
  "Adjustment_RemoveNamespace n a =
     linux_do (\<lambda>l. l\<lparr>la_namespaces := la_namespaces l @
       [Some \<lparr>ns_type = MarkForRemoval (ns_type n), ns_path = []\<rparr>]\<rparr>) (initLinux a)"

definition Adjustment_AddLinuxNetDevice :: "string \<Rightarrow> linux_net_device option \<Rightarrow> container_adjustment \<Rightarrow> container_adjustment" where
  "Adjustment_AddLinuxNetDevice hostDev d a =
     (if d = None then a
      else linux_do (\<lambda>l. l\<lparr>la_net_devices := at_key hostDev d (la_net_devices l)\<rparr>) (initLinuxNetDevices a))"

definition Adjustment_RemoveLinuxNetDevice :: "string \<Rightarrow> container_adjustment \<Rightarrow> container_adjustment" where
  "Adjustment_RemoveLinuxNetDevice hostDev a =
     linux_do (\<lambda>l. l\<lparr>la_net_devices :=
       at_key (MarkForRemoval hostDev) None (la_net_devices l)\<rparr>) (initLinuxNetDevices a)"

definition Adjustment_SetLinuxMemoryLimit :: "int64 \<Rightarrow> container_adjustment \<Rightarrow> container_adjustment" where
  "Adjustment_SetLinuxMemoryLimit value a =
     memory_do (\<lambda>m. m\<lparr>mem_limit := Int64 (If_int64 value)\<rparr>) a"

definition Adjustment_SetLinuxMemoryReservation :: "int64 \<Rightarrow> container_adjustment \<Rightarrow> container_adjustment" where
  "Adjustment_SetLinuxMemoryReservation value a =
     memory_do (\<lambda>m. m\<lparr>mem_reservation := Int64 (If_int64 value)\<rparr>) a"

definition Adjustment_SetLinuxMemorySwap :: "int64 \<Rightarrow> container_adjustment \<Rightarrow> container_adjustment" where
  "Adjustment_SetLinuxMemorySwap value a =
     memory_do (\<lambda>m. m\<lparr>mem_swap := Int64 (If_int64 value)\<rparr>) a"

definition Adjustment_SetLinuxMemoryKernel :: "int64 \<Rightarrow> container_adjustment \<Rightarrow> container_adjustment" where
  "Adjustment_SetLinuxMemoryKernel value a =
     memory_do (\<lambda>m. m\<lparr>mem_kernel := Int64 (If_int64 value)\<rparr>) a"

definition Adjustment_SetLinuxMemoryKernelTCP :: "int64 \<Rightarrow> container_adjustment \<Rightarrow> container_adjustment" where
  "Adjustment_SetLinuxMemoryKernelTCP value a =
     memory_do (\<lambda>m. m\<lparr>mem_kernel_tcp := Int64 (If_int64 value)\<rparr>) a"

definition Adjustment_SetLinuxMemorySwappiness :: "uint64 \<Rightarrow> container_adjustment \<Rightarrow> container_adjustment" where
  "Adjustment_SetLinuxMemorySwappiness value a =
     memory_do (\<lambda>m. m\<lparr>mem_swappiness := UInt64 (If_uint64 value)\<rparr>) a"

definition Adjustment_SetLinuxMemoryDisableOomKiller :: "container_adjustment \<Rightarrow> container_adjustment" where
  "Adjustment_SetLinuxMemoryDisableOomKiller a =
     memory_do (\<lambda>m. m\<lparr>mem_disable_oom_killer := Bool (If_bool True)\<rparr>) a"

definition Adjustment_SetLinuxMemoryUseHierarchy :: "container_adjustment \<Rightarrow> container_adjustment" where
  "Adjustment_SetLinuxMemoryUseHierarchy a =
     memory_do (\<lambda>m. m\<lparr>mem_use_hierarchy := Bool (If_bool True)\<rparr>) a"

definition Adjustment_SetLinuxCPUShares :: "uint64 \<Rightarrow> container_adjustment \<Rightarrow> container_adjustment" where
  "Adjustment_SetLinuxCPUShares value a =
     cpu_do (\<lambda>c. c\<lparr>cpu_shares := UInt64 (If_uint64 value)\<rparr>) a"

definition Adjustment_SetLinuxCPUQuota :: "int64 \<Rightarrow> container_adjustment \<Rightarrow> container_adjustment" where
  "Adjustment_SetLinuxCPUQuota value a =
     cpu_do (\<lambda>c. c\<lparr>cpu_quota := Int64 (If_int64 value)\<rparr>) a"

definition Adjustment_SetLinuxCPUPeriod :: "int64 \<Rightarrow> container_adjustment \<Rightarrow> container_adjustment" where
  "Adjustment_SetLinuxCPUPeriod value a =
     cpu_do (\<lambda>c. c\<lparr>cpu_period := UInt64 (If_int64 value)\<rparr>) a"

definition Adjustment_SetLinuxCPURealtimeRuntime :: "int64 \<Rightarrow> container_adjustment \<Rightarrow> container_adjustment" where
  "Adjustment_SetLinuxCPURealtimeRuntime value a =
     cpu_do (\<lambda>c. c\<lparr>cpu_realtime_runtime := Int64 (If_int64 value)\<rparr>) a"

definition Adjustment_SetLinuxCPURealtimePeriod :: "uint64 \<Rightarrow> container_adjustment \<Rightarrow> container_adjustment" where
  "Adjustment_SetLinuxCPURealtimePeriod value a =
     cpu_do (\<lambda>c. c\<lparr>cpu_realtime_period := UInt64 (If_uint64 value)\<rparr>) a"

definition Adjustment_SetLinuxCPUSetCPUs :: "string \<Rightarrow> container_adjustment \<Rightarrow> container_adjustment" where
  "Adjustment_SetLinuxCPUSetCPUs value a =
     cpu_do (\<lambda>c. c\<lparr>cpu_cpus := value\<rparr>) a"

definition Adjustment_SetLinuxCPUSetMems :: "string \<Rightarrow> container_adjustment \<Rightarrow> container_adjustment" where
  "Adjustment_SetLinuxCPUSetMems value a =
     cpu_do (\<lambda>c. c\<lparr>cpu_mems := value\<rparr>) a"

definition Adjustment_SetLinuxPidLimits :: "int64 \<Rightarrow> container_adjustment \<Rightarrow> container_adjustment" where
  "Adjustment_SetLinuxPidLimits value a =
     resources_do (\<lambda>r. r\<lparr>res_pids :=
       at_ptr (\<lambda>p. p\<lparr>pids_limit := value\<rparr>) (res_pids r)\<rparr>) (initLinuxResourcesPids a)"

definition Adjustment_AddLinuxHugepageLimit :: "string \<Rightarrow> uint64 \<Rightarrow> container_adjustment \<Rightarrow> container_adjustment" where
  "Adjustment_AddLinuxHugepageLimit pageSize value a =
     resources_do (\<lambda>r. r\<lparr>res_hugepage_limits :=
       res_hugepage_limits r @ [\<lparr>hp_page_size = pageSize, hp_limit = value\<rparr>]\<rparr>) (initLinuxResources a)"

definition Adjustment_SetLinuxBlockIOClass :: "string \<Rightarrow> container_adjustment \<Rightarrow> container_adjustment" where
  "Adjustment_SetLinuxBlockIOClass value a =
     resources_do (\<lambda>r. r\<lparr>res_blockio_class := String (If_string value)\<rparr>) (initLinuxResources a)"

definition Adjustment_SetLinuxRDTClass :: "string \<Rightarrow> container_adjustment \<Rightarrow> container_adjustment" where
  "Adjustment_SetLinuxRDTClass value a =
     resources_do (\<lambda>r. r\<lparr>res_rdt_class := String (If_string value)\<rparr>) (initLinuxResources a)"

definition Adjustment_SetLinuxRDTClosID :: "string \<Rightarrow> container_adjustment \<Rightarrow> container_adjustment" where
  "Adjustment_SetLinuxRDTClosID value a =
     rdt_do (\<lambda>d. d\<lparr>rdt_clos_id := String (If_string value)\<rparr>) a"

definition Adjustment_SetLinuxRDTSchemata :: "string list \<Rightarrow> container_adjustment \<Rightarrow> container_adjustment" where
  "Adjustment_SetLinuxRDTSchemata value a =
     rdt_do (\<lambda>d. d\<lparr>rdt_schemata := RepeatedString (If_strings value)\<rparr>) a"

definition Adjustment_SetLinuxRDTEnableMonitoring :: "bool \<Rightarrow> container_adjustment \<Rightarrow> container_adjustment" where
  "Adjustment_SetLinuxRDTEnableMonitoring value a =
     rdt_do (\<lambda>d. d\<lparr>rdt_enable_monitoring := Bool (If_bool value)\<rparr>) a"

definition Adjustment_RemoveLinuxRDT :: "container_adjustment \<Rightarrow> container_adjustment" where
  "Adjustment_RemoveLinuxRDT a =
     rdt_do (\<lambda>d. d\<lparr>rdt_remove := True\<rparr>) a"

definition Adjustment_AddLinuxUnified :: "string \<Rightarrow> string \<Rightarrow> container_adjustment \<Rightarrow> container_adjustment" where
  "Adjustment_AddLinuxUnified key value a =
     resources_do (\<lambda>r. r\<lparr>res_unified := at_key key value (res_unified r)\<rparr>)
       (initLinuxResourcesUnified a)"

definition Adjustment_SetLinuxCgroupsPath :: "string \<Rightarrow> container_adjustment \<Rightarrow> container_adjustment" where
  "Adjustment_SetLinuxCgroupsPath value a =
     linux_do (\<lambda>l. l\<lparr>la_cgroups_path := value\<rparr>) (initLinux a)"

definition Adjustment_SetLinuxOomScoreAdj :: "int64 option \<Rightarrow> container_adjustment \<Rightarrow> container_adjustment" where
  "Adjustment_SetLinuxOomScoreAdj value a =
     linux_do (\<lambda>l. l\<lparr>la_oom_score_adj := Int_opt (If_int_ptr value)\<rparr>) (initLinux a)"

definition Adjustment_SetLinuxIOPriority :: "linux_io_priority option \<Rightarrow> container_adjustment \<Rightarrow> container_adjustment" where
  "Adjustment_SetLinuxIOPriority ioprio a =
     linux_do (\<lambda>l. l\<lparr>la_io_priority := ioprio\<rparr>) (initLinux a)"

definition Adjustment_SetLinuxSeccompPolicy :: "linux_seccomp option \<Rightarrow> container_adjustment \<Rightarrow> container_adjustment" where
  "Adjustment_SetLinuxSeccompPolicy seccomp a =
     linux_do (\<lambda>l. l\<lparr>la_seccomp_policy := seccomp\<rparr>) (initLinux a)"

definition Adjustment_SetLinuxSysctl :: "string \<Rightarrow> string \<Rightarrow> container_adjustment \<Rightarrow> container_adjustment" where
  "Adjustment_SetLinuxSysctl key value a =
     linux_do (\<lambda>l. l\<lparr>la_sysctl := at_key key value (alloc [] (la_sysctl l))\<rparr>) (initLinux a)"

definition Adjustment_SetLinuxScheduler :: "linux_scheduler option \<Rightarrow> container_adjustment \<Rightarrow> container_adjustment" where
  "Adjustment_SetLinuxScheduler sch a =
     linux_do (\<lambda>l. l\<lparr>la_scheduler := sch\<rparr>) (initLinux a)"

section \<open>Updates\<close>

definition upd_initLinux :: "container_update \<Rightarrow> container_update" where
  "upd_initLinux u = u\<lparr>cu_linux := alloc \<lparr>lu_resources = None\<rparr> (cu_linux u)\<rparr>"

definition upd_linux_do :: "(linux_container_update \<Rightarrow> linux_container_update) \<Rightarrow> container_update \<Rightarrow> container_update" where
  "upd_linux_do f u = u\<lparr>cu_linux := at_ptr f (cu_linux u)\<rparr>"

definition upd_initLinuxResources :: "container_update \<Rightarrow> container_update" where
  "upd_initLinuxResources u =
     upd_linux_do (\<lambda>l. l\<lparr>lu_resources := alloc zero_resources (lu_resources l)\<rparr>) (upd_initLinux u)"

definition upd_resources_do :: "(linux_resources \<Rightarrow> linux_resources) \<Rightarrow> container_update \<Rightarrow> container_update" where
  "upd_resources_do f = upd_linux_do (\<lambda>l. l\<lparr>lu_resources := at_ptr f (lu_resources l)\<rparr>)"

definition upd_initLinuxResourcesMemory :: "container_update \<Rightarrow> container_update" where
  "upd_initLinuxResourcesMemory u =
     upd_resources_do (\<lambda>r. r\<lparr>res_memory := alloc zero_memory (res_memory r)\<rparr>) (upd_initLinuxResources u)"

definition upd_initLinuxResourcesCPU :: "container_update \<Rightarrow> container_update" where
  "upd_initLinuxResourcesCPU u =
     upd_resources_do (\<lambda>r. r\<lparr>res_cpu := alloc zero_cpu (res_cpu r)\<rparr>) (upd_initLinuxResources u)"

definition upd_initLinuxResourcesPids :: "container_update \<Rightarrow> container_update" where
  "upd_initLinuxResourcesPids u =
     upd_resources_do (\<lambda>r. r\<lparr>res_pids := alloc \<lparr>pids_limit = 0\<rparr> (res_pids r)\<rparr>) (upd_initLinuxResources u)"

definition upd_initLinuxResourcesUnified :: "container_update \<Rightarrow> container_update" where
  "upd_initLinuxResourcesUnified u =
     upd_resources_do (\<lambda>r. r\<lparr>res_unified := alloc [] (res_unified r)\<rparr>) (upd_initLinuxResources u)"

definition upd_memory_do :: "(linux_memory \<Rightarrow> linux_memory) \<Rightarrow> container_update \<Rightarrow> container_update" where
  "upd_memory_do f u =
     upd_resources_do (\<lambda>r. r\<lparr>res_memory := at_ptr f (res_memory r)\<rparr>) (upd_initLinuxResourcesMemory u)"

definition upd_cpu_do :: "(linux_cpu \<Rightarrow> linux_cpu) \<Rightarrow> container_update \<Rightarrow> container_update" where
  "upd_cpu_do f u =
     upd_resources_do (\<lambda>r. r\<lparr>res_cpu := at_ptr f (res_cpu r)\<rparr>) (upd_initLinuxResourcesCPU u)"

definition Update_SetContainerId :: "string \<Rightarrow> container_update \<Rightarrow> container_update" where
  "Update_SetContainerId cid u =
     u\<lparr>cu_container_id := cid\<rparr>"

definition Update_SetLinuxMemoryLimit :: "int64 \<Rightarrow> container_update \<Rightarrow> container_update" where
  "Update_SetLinuxMemoryLimit value u =
     upd_memory_do (\<lambda>m. m\<lparr>mem_limit := Int64 (If_int64 value)\<rparr>) u"

definition Update_SetLinuxMemoryReservation :: "int64 \<Rightarrow> container_update \<Rightarrow> container_update" where
  "Update_SetLinuxMemoryReservation value u =
     upd_memory_do (\<lambda>m. m\<lparr>mem_reservation := Int64 (If_int64 value)\<rparr>) u"

definition Update_SetLinuxMemorySwap :: "int64 \<Rightarrow> container_update \<Rightarrow> container_update" where
  "Update_SetLinuxMemorySwap value u =
     upd_memory_do (\<lambda>m. m\<lparr>mem_swap := Int64 (If_int64 value)\<rparr>) u"

definition Update_SetLinuxMemoryKernel :: "int64 \<Rightarrow> container_update \<Rightarrow> container_update" where
  "Update_SetLinuxMemoryKernel value u =
     upd_memory_do (\<lambda>m. m\<lparr>mem_kernel := Int64 (If_int64 value)\<rparr>) u"

definition Update_SetLinuxMemoryKernelTCP :: "int64 \<Rightarrow> container_update \<Rightarrow> container_update" where
  "Update_SetLinuxMemoryKernelTCP value u =
     upd_memory_do (\<lambda>m. m\<lparr>mem_kernel_tcp := Int64 (If_int64 value)\<rparr>) u"

definition Update_SetLinuxMemorySwappiness :: "uint64 \<Rightarrow> container_update \<Rightarrow> container_update" where
  "Update_SetLinuxMemorySwappiness value u =
     upd_memory_do (\<lambda>m. m\<lparr>mem_swappiness := UInt64 (If_uint64 value)\<rparr>) u"

definition Update_SetLinuxMemoryDisableOomKiller :: "container_update \<Rightarrow> container_update" where
  "Update_SetLinuxMemoryDisableOomKiller u =
     upd_memory_do (\<lambda>m. m\<lparr>mem_disable_oom_killer := Bool (If_bool True)\<rparr>) u"

definition Update_SetLinuxMemoryUseHierarchy :: "container_update \<Rightarrow> container_update" where
  "Update_SetLinuxMemoryUseHierarchy u =
     upd_memory_do (\<lambda>m. m\<lparr>mem_use_hierarchy := Bool (If_bool True)\<rparr>) u"

definition Update_SetLinuxCPUShares :: "uint64 \<Rightarrow> container_update \<Rightarrow> container_update" where
  "Update_SetLinuxCPUShares value u =
     upd_cpu_do (\<lambda>c. c\<lparr>cpu_shares := UInt64 (If_uint64 value)\<rparr>) u"

definition Update_SetLinuxCPUQuota :: "int64 \<Rightarrow> container_update \<Rightarrow> container_update" where
  "Update_SetLinuxCPUQuota value u =
     upd_cpu_do (\<lambda>c. c\<lparr>cpu_quota := Int64 (If_int64 value)\<rparr>) u"

definition Update_SetLinuxCPUPeriod :: "int64 \<Rightarrow> container_update \<Rightarrow> container_update" where
  "Update_SetLinuxCPUPeriod value u =
     upd_cpu_do (\<lambda>c. c\<lparr>cpu_period := UInt64 (If_int64 value)\<rparr>) u"

definition Update_SetLinuxCPURealtimeRuntime :: "int64 \<Rightarrow> container_update \<Rightarrow> container_update" where
  "Update_SetLinuxCPURealtimeRuntime value u =
     upd_cpu_do (\<lambda>c. c\<lparr>cpu_realtime_runtime := Int64 (If_int64 value)\<rparr>) u"

definition Update_SetLinuxCPURealtimePeriod :: "uint64 \<Rightarrow> container_update \<Rightarrow> container_update" where
  "Update_SetLinuxCPURealtimePeriod value u =
     upd_cpu_do (\<lambda>c. c\<lparr>cpu_realtime_period := UInt64 (If_uint64 value)\<rparr>) u"

definition Update_SetLinuxCPUSetCPUs :: "string \<Rightarrow> container_update \<Rightarrow> container_update" where
  "Update_SetLinuxCPUSetCPUs value u =
     upd_cpu_do (\<lambda>c. c\<lparr>cpu_cpus := value\<rparr>) u"

definition Update_SetLinuxCPUSetMems :: "string \<Rightarrow> container_update \<Rightarrow> container_update" where
  "Update_SetLinuxCPUSetMems value u =
     upd_cpu_do (\<lambda>c. c\<lparr>cpu_mems := value\<rparr>) u"

definition Update_SetLinuxPidLimits :: "int64 \<Rightarrow> container_update \<Rightarrow> container_update" where
  "Update_SetLinuxPidLimits value u =
     upd_resources_do (\<lambda>r. r\<lparr>res_pids :=
       at_ptr (\<lambda>p. p\<lparr>pids_limit := value\<rparr>) (res_pids r)\<rparr>) (upd_initLinuxResourcesPids u)"

definition Update_AddLinuxHugepageLimit :: "string \<Rightarrow> uint64 \<Rightarrow> container_update \<Rightarrow> container_update" where
  "Update_AddLinuxHugepageLimit pageSize value u =
     upd_resources_do (\<lambda>r. r\<lparr>res_hugepage_limits :=
       res_hugepage_limits r @ [\<lparr>hp_page_size = pageSize, hp_limit = value\<rparr>]\<rparr>) (upd_initLinuxResources u)"

definition Update_SetLinuxBlockIOClass :: "string \<Rightarrow> container_update \<Rightarrow> container_update" where
  "Update_SetLinuxBlockIOClass value u =
     upd_resources_do (\<lambda>r. r\<lparr>res_blockio_class := String (If_string value)\<rparr>) (upd_initLinuxResources u)"

definition Update_SetLinuxRDTClass :: "string \<Rightarrow> container_update \<Rightarrow> container_update" where
  "Update_SetLinuxRDTClass value u =
     upd_resources_do (\<lambda>r. r\<lparr>res_rdt_class := String (If_string value)\<rparr>) (upd_initLinuxResources u)"

definition Update_AddLinuxUnified :: "string \<Rightarrow> string \<Rightarrow> container_update \<Rightarrow> container_update" where
  "Update_AddLinuxUnified key value u =
     upd_resources_do (\<lambda>r. r\<lparr>res_unified := at_key key value (res_unified r)\<rparr>)
       (upd_initLinuxResourcesUnified u)"

definition Update_SetIgnoreFailure :: "container_update \<Rightarrow> container_update" where
  "Update_SetIgnoreFailure u =
     u\<lparr>cu_ignore_failure := True\<rparr>"

end
