(* ===== verification/Events.thy ===== *)
theory Events
  imports NRI_Prelude
begin

text \<open>
  \<^verbatim>\<open>src/pkg/api/event.go\<close>: the mask of events a plugin subscribes to, as bits of an \<^verbatim>\<open>int32\<close>, its
  parser and its printer. \<^verbatim>\<open>strings.ToLower\<close> and \<^verbatim>\<open>strings.TrimSpace\<close> are modelled on ASCII
  text. Shifting by a negative count panics in Go, shifting by at least the width gives 0.
\<close>

unbundle bit_operations_syntax

section \<open>Masks\<close>

type_synonym event = int32
type_synonym event_mask = int32

definition Event_UNKNOWN :: event where "Event_UNKNOWN = 0"
definition Event_LAST :: event where "Event_LAST = 15"

text \<open>\<^verbatim>\<open>1 << (e - 1)\<close>, where \<^verbatim>\<open>e - 1\<close> may wrap and may be negative.\<close>

definition event_bit :: "event \<Rightarrow> event_mask option" where
  "event_bit e =
     (if sint (e - 1) < 0 then None else Some (push_bit (nat (sint (e - 1))) 1))"

definition ValidEvents :: event_mask where
  "ValidEvents = push_bit (unat (Event_LAST - 1)) 1 - 1"

definition EventMask_Set :: "event list \<Rightarrow> ('e, event_mask) action" where
  "EventMask_Set events = for_each events (\<lambda>e m.
     case event_bit e of None \<Rightarrow> (Panicked, m) | Some b \<Rightarrow> (Done, m OR b))"

definition EventMask_Clear :: "event list \<Rightarrow> ('e, event_mask) action" where
  "EventMask_Clear events = for_each events (\<lambda>e m.
     case event_bit e of None \<Rightarrow> (Panicked, m) | Some b \<Rightarrow> (Done, m AND NOT b))"

text \<open>\<open>None\<close> is the panic of a negative shift.\<close>

definition EventMask_IsSet :: "event \<Rightarrow> event_mask \<Rightarrow> bool option" where
  "EventMask_IsSet e m = map_option (\<lambda>b. m AND b \<noteq> 0) (event_bit e)"

section \<open>Names\<close>

definition to_lower :: "string \<Rightarrow> string" where
  "to_lower s = map (\<lambda>c. if c \<in> set ''ABCDEFGHIJKLMNOPQRSTUVWXYZ'' then char_of (of_char c + (32 :: nat)) else c) s"

definition is_space :: "char \<Rightarrow> bool" where
  "is_space c \<longleftrightarrow> c \<in> {CHR '' '', CHR 0x09, CHR 0x0A, CHR 0x0B, CHR 0x0C, CHR 0x0D}"

definition trim_space :: "string \<Rightarrow> string" where
  "trim_space s = rev (dropWhile is_space (rev (dropWhile is_space s)))"

text \<open>The printed name of each event; the parser's table has the same names in lower case.\<close>

definition pretty_names :: "(event \<times> string) list" where
  "pretty_names =
    [(1, ''RunPodSandbox''), (12, ''UpdatePodSandbox''), (13, ''PostUpdatePodSandbox''),
     (2, ''StopPodSandbox''), (3, ''RemovePodSandbox''), (4, ''CreateContainer''),
     (5, ''PostCreateContainer''), (6, ''StartContainer''), (7, ''PostStartContainer''),
     (8, ''UpdateContainer''), (9, ''PostUpdateContainer''), (10, ''StopContainer''),
     (11, ''RemoveContainer''), (14, ''ValidateContainerAdjustment'')]"

definition event_bits :: "(string, event) gomap" where
  "event_bits =
    [(''runpodsandbox'', 1), (''updatepodsandbox'', 12), (''postupdatepodsandbox'', 13),
     (''stoppodsandbox'', 2), (''removepodsandbox'', 3), (''createcontainer'', 4),
     (''postcreatecontainer'', 5), (''startcontainer'', 6), (''poststartcontainer'', 7),
     (''updatecontainer'', 8), (''postupdatecontainer'', 9), (''stopcontainer'', 10),
     (''removecontainer'', 11), (''validatecontaineradjustment'', 14)]"

section \<open>The parser\<close>

datatype event_error = UnknownEvent string

text \<open>Every event whose name contains a word, in the order the runtime ranges over the table.\<close>

definition set_group :: "(string list \<Rightarrow> string list) \<Rightarrow> string \<Rightarrow> (event_error, event_mask) action" where
  "set_group ord word = for_each (range_in ord event_bits) (\<lambda>(name, e).
     if contains_str name word then EventMask_Set [e] else skip)"

definition parse_event :: "(string list \<Rightarrow> string list) \<Rightarrow> string \<Rightarrow> (event_error, event_mask) action" where
  "parse_event ord name =
     (if name = ''all'' then assign (\<lambda>m. m OR ValidEvents)
      else if name = ''pod'' \<or> name = ''podsandbox'' then set_group ord ''pod''
      else if name = ''container'' then set_group ord ''container''
      else (case map_of event_bits (trim_space name) of
              None \<Rightarrow> (\<lambda>m. (Failed (UnknownEvent name), m))
            | Some e \<Rightarrow> EventMask_Set [e]))"

definition ParseEventMask ::
    "(string list \<Rightarrow> string list) \<Rightarrow> string list \<Rightarrow> event_error status \<times> event_mask" where
  "ParseEventMask ord events =
     (case for_each events (\<lambda>event. for_each (split_on CHR '','' (to_lower event)) (parse_event ord)) 0 of
        (Failed e, _) \<Rightarrow> (Failed e, 0)
      | (st, msk) \<Rightarrow> (st, msk))"

definition MustParseEventMask :: "(string list \<Rightarrow> string list) \<Rightarrow> string list \<Rightarrow> event_mask option" where
  "MustParseEventMask ord events =
     (case ParseEventMask ord events of (Done, msk) \<Rightarrow> Some msk | _ \<Rightarrow> None)"

section \<open>The printer\<close>

text \<open>\<^verbatim>\<open>%x\<close> of an \<^verbatim>\<open>int32\<close>: a sign and the digits of the magnitude.\<close>

definition hex_digit :: "nat \<Rightarrow> char" where
  "hex_digit d = ''0123456789abcdef'' ! d"

fun hex_nat :: "nat \<Rightarrow> string" where
  "hex_nat n = (if n < 16 then [hex_digit n] else hex_nat (n div 16) @ [hex_digit (n mod 16)])"

declare hex_nat.simps [simp del]

definition hex_int :: "int \<Rightarrow> string" where
  "hex_int i = (if i < 0 then ''-'' else []) @ hex_nat (nat \<bar>i\<bar>)"

text \<open>The body of the printing loop over the state \<open>(msk, events, sep)\<close>.\<close>

definition pretty_step :: "event \<Rightarrow> (event_error, event_mask \<times> string \<times> string) action" where
  "pretty_step e = (\<lambda>(msk, events, sep).
     (case EventMask_IsSet e msk of
        None \<Rightarrow> (Panicked, (msk, events, sep))
      | Some False \<Rightarrow> (Done, (msk, events, sep))
      | Some True \<Rightarrow>
         (case EventMask_Clear [e] msk of
            (st, msk') \<Rightarrow>
              (st, (msk', events @ sep @ (case map_of pretty_names e of None \<Rightarrow> [] | Some n \<Rightarrow> n), '','')))))"

text \<open>\<open>None\<close> is a panic. The loop runs from \<^verbatim>\<open>Event_UNKNOWN + 1\<close> to \<^verbatim>\<open>Event_LAST\<close>.\<close>

definition EventMask_PrettyString :: "event_mask \<Rightarrow> string option" where
  "EventMask_PrettyString m =
     (case for_each (map word_of_nat [unat (Event_UNKNOWN + 1) ..< Suc (unat Event_LAST)]) pretty_step (m, [], []) of
        (Done, (msk, events, sep)) \<Rightarrow>
          Some (if msk \<noteq> 0 then events @ sep @ ''unknown(0x'' @ hex_int (sint msk) @ '')'' else events)
      | _ \<Rightarrow> None)"

section \<open>Bits\<close>

text \<open>The events that have a bit: the values 1 to 32.\<close>

definition has_bit :: "event \<Rightarrow> bool" where
  "has_bit e \<longleftrightarrow> 1 \<le> sint e \<and> sint e \<le> 32"

definition bit_index :: "event \<Rightarrow> nat" where
  "bit_index e = nat (sint e - 1)"

lemma event_bit_index: "has_bit e \<Longrightarrow> event_bit e = Some (push_bit (bit_index e) 1) \<and> bit_index e < 32"
proof -
  assume e: "has_bit e"
  then have "sint (e - 1) = sint e - 1"
    by (simp add: has_bit_def sint_word_ariths signed_take_bit_int_eq_self)
  with e show ?thesis by (auto simp: event_bit_def has_bit_def bit_index_def)
qed

lemma bit_index_eq: "has_bit e \<Longrightarrow> has_bit f \<Longrightarrow> bit_index e = bit_index f \<longleftrightarrow> e = f"
  proof -
  assume e: "has_bit e" "has_bit f"
  then have "bit_index e = bit_index f \<longleftrightarrow> sint e = sint f"
    by (auto simp: bit_index_def has_bit_def)
  then show ?thesis by (simp add: inj_eq [OF inj_signed])
qed

lemma IsSet_bit: "has_bit e \<Longrightarrow> EventMask_IsSet e m = Some (bit m (bit_index e))"
  using event_bit_index [of e]
  by (auto simp: EventMask_IsSet_def and_exp_eq_0_iff_not_bit push_bit_of_1)

lemma Set_bits:
  "\<forall>e \<in> set es. has_bit e \<Longrightarrow>
   \<exists>m'. EventMask_Set es m = (Done :: 'e status, m') \<and> (\<forall>n. bit m' n \<longleftrightarrow> bit m n \<or> n \<in> bit_index ` set es)"
proof (induction es arbitrary: m)
  case Nil
  then show ?case by (simp add: EventMask_Set_def)
next
  case (Cons e es)
  let ?m = "m OR push_bit (bit_index e) 1"
  from Cons.IH [of ?m] Cons.prems obtain m' where
    m': "EventMask_Set es ?m = (Done :: 'e status, m')" "\<forall>n. bit m' n \<longleftrightarrow> bit ?m n \<or> n \<in> bit_index ` set es" by auto
  have "EventMask_Set (e # es) m = (Done :: 'e status, m')"
    using m'(1) event_bit_index [of e] Cons.prems by (simp add: EventMask_Set_def for_each_Cons)
  moreover have "bit m' n \<longleftrightarrow> bit m n \<or> n \<in> bit_index ` set (e # es)" for n
    using m'(2) event_bit_index [of e] Cons.prems by (auto simp: bit_simps)
  ultimately show ?case by blast
qed

lemma Clear_bits:
  "\<forall>e \<in> set es. has_bit e \<Longrightarrow>
   \<exists>m'. EventMask_Clear es m = (Done :: 'e status, m') \<and> (\<forall>n. bit m' n \<longleftrightarrow> bit m n \<and> n \<notin> bit_index ` set es)"
proof (induction es arbitrary: m)
  case Nil
  then show ?case by (simp add: EventMask_Clear_def)
next
  case (Cons e es)
  let ?m = "m AND NOT (push_bit (bit_index e) 1)"
  from Cons.IH [of ?m] Cons.prems obtain m' where
    m': "EventMask_Clear es ?m = (Done :: 'e status, m')" "\<forall>n. bit m' n \<longleftrightarrow> bit ?m n \<and> n \<notin> bit_index ` set es" by auto
  have "EventMask_Clear (e # es) m = (Done :: 'e status, m')"
    using m'(1) event_bit_index [of e] Cons.prems by (simp add: EventMask_Clear_def for_each_Cons)
  moreover have "bit m' n \<longleftrightarrow> bit m n \<and> n \<notin> bit_index ` set (e # es)" for n
    using m'(2) event_bit_index [of e] Cons.prems by (cases "n < 32") (auto simp: bit_simps dest: bit_imp_le_length)
  ultimately show ?case by blast
qed

lemma has_bit_of_nat: "n < 32 \<Longrightarrow> has_bit (word_of_nat (Suc n)) \<and> bit_index (word_of_nat (Suc n)) = n"
proof -
  assume n: "n < 32"
  have t: "take_bit 32 (Suc n) = Suc n"
    by (rule take_bit_nat_eq_self) (use n in simp)
  have "sint (word_of_nat (Suc n) :: event) = signed_take_bit 31 (int (Suc n))"
    by (simp only: sint_uint unsigned_of_nat) (simp add: t)
  also have "\<dots> = int (Suc n)"
    by (rule signed_take_bit_int_eq_self) (use n in simp_all)
  finally show ?thesis using n by (simp add: has_bit_def bit_index_def)
qed

lemma mask_eqI:
  assumes "\<And>e. has_bit e \<Longrightarrow> EventMask_IsSet e m = EventMask_IsSet e m'"
  shows "m = m'"
proof (rule bit_word_eqI)
  fix n assume "n < LENGTH(32)"
  then have "has_bit (word_of_nat (Suc n))" "bit_index (word_of_nat (Suc n)) = n"
    using has_bit_of_nat [of n] by simp_all
  with assms [OF this(1)] show "bit m n \<longleftrightarrow> bit m' n" by (simp add: IsSet_bit)
qed

section \<open>What a name denotes\<close>

definition all_events :: "event list" where
  "all_events = map word_of_nat [1..<15]"

definition denoted :: "string \<Rightarrow> event list option" where
  "denoted name =
     (if name = ''all'' then Some all_events
      else if name = ''pod'' \<or> name = ''podsandbox'' then Some [1, 2, 3, 12, 13]
      else if name = ''container'' then Some [4, 5, 6, 7, 8, 9, 10, 11, 14]
      else map_option (\<lambda>e. [e]) (map_of event_bits (trim_space name)))"

lemma all_events_eq: "all_events = [1, 2, 3, 4, 5, 6, 7, 8, 9, 10, 11, 12, 13, 14]"
  by code_simp

lemma all_events_bits: "\<forall>e \<in> set all_events. has_bit e" "bit_index ` set all_events = {..<14}"
proof -
  have *: "e \<in> set all_events \<longleftrightarrow> (\<exists>n < 14. e = word_of_nat (Suc n))" for e
  proof -
    have "[1..<15] = map Suc [0..<14]" by (simp add: map_Suc_upt)
    then show ?thesis by (auto simp: all_events_def)
  qed
  show "\<forall>e \<in> set all_events. has_bit e"
    using * has_bit_of_nat by auto
  show "bit_index ` set all_events = {..<14}"
  proof (intro set_eqI iffI)
    fix n assume "n \<in> bit_index ` set all_events"
    then show "n \<in> {..<14}" using * has_bit_of_nat by auto
  next
    fix n assume "n \<in> {..<(14 :: nat)}"
    then have "n = bit_index (word_of_nat (Suc n))" "word_of_nat (Suc n) \<in> set all_events"
      using * has_bit_of_nat [of n] by auto
    then show "n \<in> bit_index ` set all_events" by blast
  qed
qed

lemma bit_ValidEvents: "bit ValidEvents n \<longleftrightarrow> n \<in> bit_index ` set all_events"
proof -
  have "unat (Event_LAST - 1) = 14" by (simp add: Event_LAST_def)
  then have v: "ValidEvents = Bit_Operations.mask 14" by (simp add: ValidEvents_def mask_eq_exp_minus_1 push_bit_of_1)
  show ?thesis unfolding v all_events_bits(2) by (auto simp: bit_mask_iff)
qed

lemma event_bits_in: "(w, e) \<in> set event_bits \<Longrightarrow> e \<in> set all_events"
  by (auto simp: event_bits_def all_events_eq)

text \<open>Setting the events of the table that satisfy a condition, in any order.\<close>

lemma set_where_bits:
  "\<forall>(w, e) \<in> set es. has_bit e \<Longrightarrow>
   \<exists>m'. for_each es (\<lambda>(w, e). if Q w then EventMask_Set [e] else skip) m = (Done :: 'e status, m') \<and>
     (\<forall>n. bit m' n \<longleftrightarrow> bit m n \<or> (\<exists>(w, e) \<in> set es. Q w \<and> n = bit_index e))"
proof (induction es arbitrary: m)
  case Nil
  then show ?case by simp
next
  case (Cons x es)
  obtain w e where x: "x = (w, e)" by fastforce
  let ?a = "(if Q w then EventMask_Set [e] else skip) :: ('e, event_mask) action"
  obtain m1 where m1: "?a m = (Done, m1)" "\<forall>n. bit m1 n \<longleftrightarrow> bit m n \<or> (Q w \<and> n = bit_index e)"
    using Set_bits [of "[e]" m, where ?'e = 'e] Cons.prems x by (cases "Q w") auto
  from Cons.IH [of m1] Cons.prems obtain m' where
    m': "for_each es (\<lambda>(w, e). if Q w then EventMask_Set [e] else skip) m1 = (Done :: 'e status, m')"
      "\<forall>n. bit m' n \<longleftrightarrow> bit m1 n \<or> (\<exists>(w, e) \<in> set es. Q w \<and> n = bit_index e)"
    by auto
  have "for_each (x # es) (\<lambda>(w, e). if Q w then EventMask_Set [e] else skip) m = (Done :: 'e status, m')"
    using m1(1) m'(1) x by (auto simp: for_each_Cons split: if_splits)
  then show ?case using m1(2) m'(2) x by (intro exI [of _ m']) auto
qed

text \<open>
  The mask of a table of events, each with whether it is wanted; events are told apart by their bits.
\<close>

definition table_mask :: "(bool \<times> event) list \<Rightarrow> event_mask" where
  "table_mask t = snd (for_each t (\<lambda>(w, e). if w then EventMask_Set [e] else (\<lambda>s. (Done :: unit status, s))) 0)"

definition event_table :: "(bool \<times> event) list \<Rightarrow> bool" where
  "event_table t \<longleftrightarrow> (\<forall>(w, e) \<in> set t. has_bit e) \<and> distinct (map snd t)"

lemma value_unique: "distinct (map snd xs) \<Longrightarrow> (w, e) \<in> set xs \<Longrightarrow> (w', e) \<in> set xs \<Longrightarrow> w = w'"
  by (induction xs) (auto simp: rev_image_eqI)

lemma table_mask_bits:
  assumes "event_table t"
  shows "bit (table_mask t) n \<longleftrightarrow> (\<exists>(w, e) \<in> set t. w \<and> n = bit_index e)"
proof -
  have b: "\<forall>(w, e) \<in> set t. has_bit e" using assms by (simp add: event_table_def)
  obtain m where "for_each t (\<lambda>(w, e). if w then EventMask_Set [e] else (\<lambda>s. (Done, s))) 0 = (Done :: unit status, m)"
    "\<forall>n. bit m n \<longleftrightarrow> bit (0 :: event_mask) n \<or> (\<exists>(w, e) \<in> set t. w \<and> n = bit_index e)"
    using set_where_bits [where Q = "\<lambda>w. w" and es = t and m = 0, OF b] by blast
  then show ?thesis by (simp add: table_mask_def)
qed

lemma table_mask_IsSet:
  assumes "event_table t" and "(w, e) \<in> set t"
  shows "EventMask_IsSet e (table_mask t) = Some w"
proof -
  have e: "has_bit e" using assms by (auto simp: event_table_def)
  have "bit (table_mask t) (bit_index e) \<longleftrightarrow> w"
  proof
    assume "bit (table_mask t) (bit_index e)"
    then obtain w' e' where t: "(w', e') \<in> set t" "w'" "bit_index e = bit_index e'"
      using table_mask_bits [OF assms(1)] by auto
    then have "e' = e" using bit_index_eq [OF e] assms(1) unfolding event_table_def by fastforce
    with t(1) assms have "w' = w" using value_unique [of t w' e w] by (simp add: event_table_def)
    with t show w by simp
  qed (use table_mask_bits [OF assms(1)] assms(2) in auto)
  then show ?thesis using IsSet_bit [OF e] by simp
qed

lemma parse_event_denoted:
  assumes "is_order ord" and "denoted name = Some es"
  shows "\<exists>m'. parse_event ord name m = (Done, m') \<and>
    (\<forall>n. bit m' n \<longleftrightarrow> bit m n \<or> n \<in> bit_index ` set es) \<and> set es \<subseteq> set all_events"
proof -
  have ok: "gomap_ok event_bits" by (simp add: gomap_ok_def event_bits_def)
  have grp: "\<exists>m'. set_group ord word m = (Done, m') \<and>
      (\<forall>n. bit m' n \<longleftrightarrow> bit m n \<or> n \<in> bit_index ` set fs)"
    if "set fs = snd ` set (filter (\<lambda>(w, e). contains_str w word) event_bits)" for word fs
  proof -
    have "\<forall>(w, e) \<in> set (range_in ord event_bits). has_bit e"
      using event_bits_in all_events_bits(1) range_in_set [OF assms(1) ok] by blast
    from set_where_bits [OF this, of "\<lambda>w. contains_str w word" m, where ?'e = event_error] that
    show ?thesis unfolding set_group_def range_in_set [OF assms(1) ok]
      by (elim exE conjE) (rule exI, rule conjI, assumption, force)
  qed
  have pod: "set [1, 2, 3, 12, 13] = snd ` set (filter (\<lambda>(w, e). contains_str w ''pod'') event_bits)"
    by code_simp
  have ctr: "set [4, 5, 6, 7, 8, 9, 10, 11, 14] =
      snd ` set (filter (\<lambda>(w, e). contains_str w ''container'') event_bits)"
    by code_simp
  consider "name = ''all''" | "name = ''pod'' \<or> name = ''podsandbox''" | "name = ''container''"
    | e where "name \<noteq> ''all''" "name \<noteq> ''pod''" "name \<noteq> ''podsandbox''" "name \<noteq> ''container''"
        "map_of event_bits (trim_space name) = Some e"
    using assms(2) by (fastforce simp: denoted_def split: if_splits)
  then show ?thesis
  proof cases
    case 1
    with assms(2) have "es = all_events" by (simp add: denoted_def)
    with 1 show ?thesis by (simp add: parse_event_def bit_or_iff bit_ValidEvents)
  next
    case 2
    with assms(2) have es: "es = [1, 2, 3, 12, 13]" by (auto simp: denoted_def)
    with 2 grp [OF pod] show ?thesis by (auto simp: parse_event_def all_events_eq)
  next
    case 3
    with assms(2) have "es = [4, 5, 6, 7, 8, 9, 10, 11, 14]" by (simp add: denoted_def)
    with 3 grp [OF ctr] show ?thesis by (auto simp: parse_event_def all_events_eq)
  next
    case 4
    then have e: "e \<in> set all_events" using event_bits_in map_of_SomeD by fastforce
    from 4 assms(2) have "es = [e]" by (simp add: denoted_def)
    with 4 e Set_bits [of "[e]" m, where ?'e = event_error] all_events_bits(1)
    show ?thesis by (simp add: parse_event_def)
  qed
qed

lemma parse_event_unknown:
  "denoted name = None \<Longrightarrow> parse_event ord name m = (Failed (UnknownEvent name), m)"
  by (auto simp: denoted_def parse_event_def split: if_splits)

section \<open>The parser meets its specification\<close>

lemma for_each_nested: "for_each xs (\<lambda>x. for_each (f x) body) s = for_each (concat (map f xs)) body s"
proof (induction xs arbitrary: s)
  case Nil
  show ?case by simp
next
  case (Cons x xs)
  then show ?case by (simp add: for_each_Cons for_each_append split: prod.split status.split)
qed

lemma parse_names:
  assumes "is_order ord"
  shows "case find (\<lambda>n. denoted n = None) names of
      Some n \<Rightarrow> fst (for_each names (parse_event ord) m) = Failed (UnknownEvent n)
    | None \<Rightarrow> \<exists>m'. for_each names (parse_event ord) m = (Done, m') \<and>
        (\<forall>n. bit m' n \<longleftrightarrow> bit m n \<or> (\<exists>name \<in> set names. n \<in> bit_index ` set (the (denoted name))))"
proof (induction names arbitrary: m)
  case Nil
  show ?case by simp
next
  case (Cons name names)
  show ?case
  proof (cases "denoted name")
    case None
    then show ?thesis by (simp add: for_each_Cons parse_event_unknown)
  next
    case (Some es)
    from parse_event_denoted [OF assms Some, of m] obtain m1 where
      m1: "parse_event ord name m = (Done, m1)" "\<forall>n. bit m1 n \<longleftrightarrow> bit m n \<or> n \<in> bit_index ` set es"
      by blast
    have "for_each (name # names) (parse_event ord) m = for_each names (parse_event ord) m1"
      by (simp add: for_each_Cons m1(1))
    then show ?thesis using Cons.IH [of m1] m1(2) Some by (auto split: option.splits)
  qed
qed

lemma denoted_events: "denoted name = Some es \<Longrightarrow> is_order ord \<Longrightarrow> set es \<subseteq> set all_events"
  using parse_event_denoted by blast

lemma parse_names_spec:
  assumes "is_order ord"
  shows "case find (\<lambda>n. denoted n = None) (concat (map (split_on CHR '','' \<circ> to_lower) events)) of
      Some n \<Rightarrow> ParseEventMask ord events = (Failed (UnknownEvent n), 0)
    | None \<Rightarrow> \<exists>m. ParseEventMask ord events = (Done, m) \<and>
        (\<forall>e. has_bit e \<longrightarrow> EventMask_IsSet e m =
          Some (\<exists>name \<in> set (concat (map (split_on CHR '','' \<circ> to_lower) events)).
                  e \<in> set (the (denoted name))))"
proof -
  let ?names = "concat (map (split_on CHR '','' \<circ> to_lower) events)"
  have run: "for_each events (\<lambda>e. for_each (split_on CHR '','' (to_lower e)) (parse_event ord)) 0 =
      for_each ?names (parse_event ord) 0"
    by (simp add: for_each_nested comp_def)
  show ?thesis
  proof (cases "find (\<lambda>n. denoted n = None) ?names")
    case (Some n)
    then show ?thesis using parse_names [OF assms, of ?names 0] run
      by (simp add: ParseEventMask_def split_def split: prod.split status.split)
  next
    case None
    then obtain m where m: "for_each ?names (parse_event ord) 0 = (Done, m)"
        "\<forall>n. bit m n \<longleftrightarrow> (\<exists>name \<in> set ?names. n \<in> bit_index ` set (the (denoted name)))"
      using parse_names [OF assms, of ?names 0] by auto
    have known: "denoted name \<noteq> None" if "name \<in> set ?names" for name
      using None that by (auto simp: find_None_iff)
    have mem: "bit_index e \<in> bit_index ` set (the (denoted name)) \<longleftrightarrow> e \<in> set (the (denoted name))"
      if "has_bit e" "name \<in> set ?names" for e name
    proof -
      from known [OF that(2)] obtain es where "denoted name = Some es" by blast
      then show ?thesis
        using denoted_events [OF _ assms] all_events_bits(1) bit_index_eq [OF that(1)] by fastforce
    qed
    have "EventMask_IsSet e m = Some (\<exists>name \<in> set ?names. e \<in> set (the (denoted name)))"
      if "has_bit e" for e
      unfolding IsSet_bit [OF that] m(2) [rule_format] option.inject
      by (rule bex_cong [OF refl]) (rule mem [OF that])
    moreover have "ParseEventMask ord events = (Done, m)" using m(1) run by (simp add: ParseEventMask_def)
    ultimately show ?thesis using None by simp
  qed
qed

text \<open>
  C29. The parser of event masks: for every order in which the runtime serves its table, the names
  are the lower-cased arguments split at commas; the first name that denotes nothing is the error
  and the mask is 0; without one the mask has exactly the events some name denotes (all, the five
  pod events, the nine container events, or the single event of that name).
\<close>

theorem ParseEventMask_spec:
  assumes "is_order ord"
  shows "case find (\<lambda>n. denoted n = None) (concat (map (split_on CHR '','' \<circ> to_lower) events)) of
      Some n \<Rightarrow> ParseEventMask ord events = (Failed (UnknownEvent n), 0)
    | None \<Rightarrow> \<exists>m. ParseEventMask ord events = (Done, m) \<and>
        (\<forall>e. has_bit e \<longrightarrow> EventMask_IsSet e m =
          Some (\<exists>name \<in> set (concat (map (split_on CHR '','' \<circ> to_lower) events)).
                  e \<in> set (the (denoted name))))"
  by (rule parse_names_spec [OF assms])

theorem ParseEventMask_spec_witness:
  "\<exists>m. ParseEventMask rev [''Pod, createcontainer''] = (Done, m) \<and> EventMask_IsSet 4 m = Some True"
proof -
  have n: "concat (map (split_on CHR '','' \<circ> to_lower) [''Pod, createcontainer'']) =
      [''pod'', '' createcontainer'']"
    and d: "denoted ''pod'' = Some [1, 2, 3, 12, 13]" "denoted '' createcontainer'' = Some [4]"
    and h: "has_bit 4"
    by code_simp+
  have "is_order rev" by (simp add: is_order_def)
  from ParseEventMask_spec [OF this, of "[''Pod, createcontainer'']"] h
  show ?thesis unfolding n by (auto simp: d)
qed

section \<open>The printer\<close>

definition event_name :: "event \<Rightarrow> string" where
  "event_name e = (case map_of pretty_names e of None \<Rightarrow> [] | Some n \<Rightarrow> n)"

fun printed :: "string \<Rightarrow> event list \<Rightarrow> string" where
  "printed sep [] = []"
| "printed sep (e # es) = sep @ event_name e @ printed '','' es"

lemma pretty_step_bits:
  assumes "has_bit e"
  shows "\<exists>m'. pretty_step e (m, events, sep) =
      (Done, m', if bit m (bit_index e) then (events @ sep @ event_name e, '','') else (events, sep)) \<and>
    (\<forall>n. bit m' n \<longleftrightarrow> bit m n \<and> n \<noteq> bit_index e)"
proof (cases "bit m (bit_index e)")
  case True
  obtain m' where "EventMask_Clear [e] m = (Done :: event_error status, m')"
      "\<forall>n. bit m' n \<longleftrightarrow> bit m n \<and> n \<noteq> bit_index e"
    using Clear_bits [of "[e]" m, where ?'e = event_error] assms by auto
  with True show ?thesis by (simp add: pretty_step_def IsSet_bit [OF assms] event_name_def)
next
  case False
  then show ?thesis by (auto simp: pretty_step_def IsSet_bit [OF assms])
qed

lemma pretty_loop:
  "\<forall>e \<in> set es. has_bit e \<Longrightarrow> distinct es \<Longrightarrow>
   \<exists>m' sep'. for_each es pretty_step (m, events, sep) =
      (Done, m', events @ printed sep (filter (\<lambda>e. bit m (bit_index e)) es), sep') \<and>
    (\<forall>n. bit m' n \<longleftrightarrow> bit m n \<and> n \<notin> bit_index ` set es)"
proof (induction es arbitrary: m events sep)
  case Nil
  then show ?case by simp
next
  case (Cons e es)
  let ?r = "if bit m (bit_index e) then (events @ sep @ event_name e, '','') else (events, sep)"
  obtain m1 where m1: "pretty_step e (m, events, sep) = (Done, m1, ?r)"
      "\<forall>n. bit m1 n \<longleftrightarrow> bit m n \<and> n \<noteq> bit_index e"
    using pretty_step_bits [of e m events sep] Cons.prems(1) by auto
  have same: "filter (\<lambda>e. bit m1 (bit_index e)) es = filter (\<lambda>e. bit m (bit_index e)) es"
    using m1(2) Cons.prems bit_index_eq by (intro filter_cong) auto
  have "\<exists>m' sep'. for_each es pretty_step (m1, ?r) =
      (Done, m', fst ?r @ printed (snd ?r) (filter (\<lambda>e. bit m1 (bit_index e)) es), sep') \<and>
    (\<forall>n. bit m' n \<longleftrightarrow> bit m1 n \<and> n \<notin> bit_index ` set es)"
    using Cons.IH [of m1 "fst ?r" "snd ?r"] Cons.prems by simp
  then show ?case using m1 same by (auto simp: for_each_Cons)
qed

lemma printed_join: "printed [] es = join_with '','' (map event_name es)"
proof -
  have "printed '','' es = concat (map (\<lambda>e. '','' @ event_name e) es)" for es
    by (induction es) auto
  moreover have "join_with s (x # xs) = x @ concat (map (\<lambda>y. s @ y) xs)" for s x xs
    by (induction xs arbitrary: x) auto
  ultimately show ?thesis by (cases es) (simp_all add: comp_def)
qed

lemma to_lower_join: "to_lower (join_with '','' ws) = join_with '','' (map to_lower ws)"
proof -
  have "to_lower (a @ b) = to_lower a @ to_lower b" for a b by (simp add: to_lower_def)
  moreover have "to_lower (CHR '','' # b) = CHR '','' # to_lower b" for b by (simp add: to_lower_def)
  moreover have "to_lower [] = []" by (simp add: to_lower_def)
  ultimately show ?thesis by (induction ws rule: induct_list012) simp_all
qed

lemma split_join: "ws \<noteq> [] \<Longrightarrow> \<forall>w \<in> set ws. c \<notin> set w \<Longrightarrow> split_on c (join_with [c] ws) = ws"
proof (induction ws rule: induct_list012)
  case (3 x y ys)
  have "split_on c (w @ c # s) = w # split_on c s" if "c \<notin> set w" for w s
    using that by (induction w) auto
  with 3 show ?case by simp
qed (simp_all add: split_on_no_sep)

lemma lower_names:
  "\<forall>e \<in> set all_events. CHR '','' \<notin> set (to_lower (event_name e)) \<and>
     denoted (to_lower (event_name e)) = Some [e]"
  unfolding all_events_eq by code_simp

text \<open>
  C30. The printed form of a mask of valid events, if it has one, parses back to that mask. (The
  empty mask prints as the empty string, which the parser rejects.)
\<close>

theorem PrettyString_ParseEventMask:
  assumes "is_order ord" and "m AND NOT ValidEvents = 0" and "m \<noteq> 0"
  shows "\<exists>s. EventMask_PrettyString m = Some s \<and> ParseEventMask ord [s] = (Done, m)"
proof -
  let ?es = "all_events @ [15]"
  let ?on = "filter (\<lambda>e. bit m (bit_index e)) all_events"
  let ?s = "join_with '','' (map event_name ?on)"
  have valid: "n \<in> bit_index ` set all_events" if "bit m n" for n
  proof -
    from that have "n < 32" using bit_imp_le_length by fastforce
    moreover have "\<not> bit (m AND NOT ValidEvents) n" using assms(2) by simp
    ultimately show ?thesis using that bit_ValidEvents by (simp add: bit_simps)
  qed
  have loop: "map word_of_nat [unat (Event_UNKNOWN + 1) ..< Suc (unat Event_LAST)] = ?es" by code_simp
  have last: "has_bit 15 \<and> bit_index 15 \<notin> bit_index ` set all_events"
    unfolding all_events_bits(2) by (simp add: has_bit_def bit_index_def)
  have "distinct ?es" "\<forall>e \<in> set ?es. has_bit e"
    using all_events_bits(1) last by (simp_all add: all_events_eq)
  from pretty_loop [OF this(2,1), of m "[]" "[]"] obtain m' sep where
    p: "for_each ?es pretty_step (m, [], []) =
        (Done, m', printed [] (filter (\<lambda>e. bit m (bit_index e)) ?es), sep)"
      "\<forall>n. bit m' n \<longleftrightarrow> bit m n \<and> n \<notin> bit_index ` set ?es" by auto
  have "m' = 0" by (rule bit_word_eqI) (use p(2) valid in auto)
  moreover have "filter (\<lambda>e. bit m (bit_index e)) ?es = ?on" using last valid by auto
  ultimately have pretty: "EventMask_PrettyString m = Some ?s"
    unfolding EventMask_PrettyString_def loop p(1) by (simp add: printed_join)
  have "\<exists>n. bit m n" using assms(3) by (metis bit_word_eqI bit_0_eq bot_apply bot_bool_def)
  then have "?on \<noteq> []" using valid by (auto simp: filter_empty_conv)
  then have names: "split_on CHR '','' (to_lower ?s) = map (to_lower \<circ> event_name) ?on"
    unfolding to_lower_join using lower_names by (subst split_join) auto
  have "find (\<lambda>n. denoted n = None) (map (to_lower \<circ> event_name) ?on) = None"
    using lower_names by (auto simp: find_None_iff)
  then obtain r where r: "ParseEventMask ord [?s] = (Done, r)"
      "\<forall>e. has_bit e \<longrightarrow> EventMask_IsSet e r =
         Some (\<exists>name \<in> set (map (to_lower \<circ> event_name) ?on). e \<in> set (the (denoted name)))"
    using parse_names_spec [OF assms(1), of "[?s]"] names by auto
  have "r = m"
  proof (rule mask_eqI)
    fix e assume e: "has_bit e"
    have "(\<exists>name \<in> set (map (to_lower \<circ> event_name) ?on). e \<in> set (the (denoted name))) \<longleftrightarrow> e \<in> set ?on"
      using lower_names by auto
    also have "\<dots> \<longleftrightarrow> bit m (bit_index e)"
      using valid [of "bit_index e"] all_events_bits(1) bit_index_eq [OF e] by auto
    finally show "EventMask_IsSet e r = EventMask_IsSet e m"
      unfolding r(2) [rule_format, OF e] unfolding IsSet_bit [OF e] by simp
  qed
  with pretty r(1) show ?thesis by blast
qed

theorem PrettyString_ParseEventMask_witness:
  "\<exists>s. EventMask_PrettyString 0x2085 = Some s \<and> ParseEventMask rev [s] = (Done, 0x2085)"
  by (rule PrettyString_ParseEventMask) (simp_all add: is_order_def ValidEvents_def Event_LAST_def)

text \<open>
  C31. Setting and clearing events that have a bit never panics and changes exactly those events:
  after \<^verbatim>\<open>Set\<close> then \<^verbatim>\<open>Clear\<close> an event is on iff it is not among the cleared ones and was on or is
  among the set ones.
\<close>

theorem Set_then_Clear:
  assumes "\<forall>e \<in> set on \<union> set off. has_bit e"
  shows "\<exists>m1 m2. EventMask_Set on m = (Done :: 'e status, m1) \<and>
    EventMask_Clear off m1 = (Done :: 'e status, m2) \<and>
    (\<forall>e. has_bit e \<longrightarrow> EventMask_IsSet e m2 =
       Some (e \<notin> set off \<and> (e \<in> set on \<or> EventMask_IsSet e m = Some True)))"
proof -
  obtain m1 where m1: "EventMask_Set on m = (Done :: 'e status, m1)"
      "\<forall>n. bit m1 n \<longleftrightarrow> bit m n \<or> n \<in> bit_index ` set on"
    using Set_bits [of on m, where ?'e = 'e] assms by auto
  obtain m2 where m2: "EventMask_Clear off m1 = (Done :: 'e status, m2)"
      "\<forall>n. bit m2 n \<longleftrightarrow> bit m1 n \<and> n \<notin> bit_index ` set off"
    using Clear_bits [of off m1, where ?'e = 'e] assms by auto
  have mem: "bit_index e \<in> bit_index ` set xs \<longleftrightarrow> e \<in> set xs"
    if "has_bit e" "\<forall>x \<in> set xs. has_bit x" for e xs
    using bit_index_eq that by blast
  have "EventMask_IsSet e m2 = Some (e \<notin> set off \<and> (e \<in> set on \<or> EventMask_IsSet e m = Some True))"
    if "has_bit e" for e
    using m1(2) m2(2) mem [OF that] assms by (simp add: IsSet_bit [OF that]) blast
  with m1(1) m2(1) show ?thesis by blast
qed

theorem Set_then_Clear_witness:
  "\<exists>m1 m2. EventMask_Set [1, 4] 2 = (Done :: event_error status, m1) \<and>
     EventMask_Clear [4] m1 = (Done :: event_error status, m2) \<and> EventMask_IsSet 4 m2 = Some False"
proof -
  have "\<forall>e \<in> set [1, 4] \<union> set [4]. has_bit e" "has_bit 4" by code_simp+
  with Set_then_Clear [OF this(1), of 2, where ?'e = event_error] show ?thesis by fastforce
qed

end
