(* ===== verification/Conversions.thy ===== *)
theory Conversions
  imports Optional API_Helpers "HOL-Library.List_Lexorder" "HOL-Library.Char_ord"
begin

text \<open>
  The smaller conversions between API messages and the OCI runtime specification's structs, and
  the comparisons beside them: \<^verbatim>\<open>src/pkg/api/mount.go\<close>, \<^verbatim>\<open>device.go\<close>, \<^verbatim>\<open>hooks.go\<close>, \<^verbatim>\<open>namespace.go\<close>,
  \<^verbatim>\<open>net-device.go\<close>, \<^verbatim>\<open>ioprio.go\<close>, \<^verbatim>\<open>linux-scheduler.go\<close> and \<^verbatim>\<open>seccomp.go\<close>. The OCI structs have the
  fields the conversions read or write. A nil slice and an empty one are one list.
\<close>

section \<open>OCI structs\<close>

record oci_mount =
  omt_destination :: string
  omt_type :: string
  omt_source :: string
  omt_options :: "string list"

record oci_device =
  odv_path :: string
  odv_type :: string
  odv_major :: int64
  odv_minor :: int64
  odv_file_mode :: "uint32 option"
  odv_uid :: "uint32 option"
  odv_gid :: "uint32 option"

record oci_hook =
  ohk_path :: string
  ohk_args :: "string list"
  ohk_env :: "string list"
  ohk_timeout :: "int64 option"

record oci_hooks =
  ohs_prestart :: "oci_hook list"
  ohs_create_runtime :: "oci_hook list"
  ohs_create_container :: "oci_hook list"
  ohs_start_container :: "oci_hook list"
  ohs_poststart :: "oci_hook list"
  ohs_poststop :: "oci_hook list"

record oci_namespace =
  ons_type :: string
  ons_path :: string

record oci_net_device =
  ond_name :: string

record oci_io_priority =
  oio_class :: string
  oio_priority :: int64

record oci_scheduler =
  osc_policy :: string
  osc_nice :: int32
  osc_priority :: int32
  osc_flags :: "string list"
  osc_runtime :: uint64
  osc_deadline :: uint64
  osc_period :: uint64

record oci_seccomp_arg =
  osa_index :: uint64
  osa_value :: uint64
  osa_value_two :: uint64
  osa_op :: string

record oci_syscall =
  osy_names :: "string list"
  osy_action :: string
  osy_errno_ret :: "uint64 option"
  osy_args :: "oci_seccomp_arg list"

record oci_seccomp =
  ose_default_action :: string
  ose_default_errno_ret :: "uint64 option"
  ose_architectures :: "string list"
  ose_flags :: "string list"
  ose_listener_path :: string
  ose_listener_metadata :: string
  ose_syscalls :: "oci_syscall list"

section \<open>Mounts\<close>

definition dup_slice :: "string list \<Rightarrow> string list" where
  "dup_slice xs = (case DupStringSlice (Some xs) of None \<Rightarrow> [] | Some ys \<Rightarrow> ys)"

definition FromOCIMounts :: "oci_mount list \<Rightarrow> mount list" where
  "FromOCIMounts oci = map (\<lambda>m.
     \<lparr>mnt_destination = omt_destination m, mnt_type = omt_type m, mnt_source = omt_source m,
      mnt_options = dup_slice (omt_options m)\<rparr>) oci"

text \<open>
  The optional pointer \<^verbatim>\<open>propagationQuery\<close> is the string it points to; its last value is
  returned beside the mount.
\<close>

definition Mount_ToOCI :: "mount \<Rightarrow> string option \<Rightarrow> oci_mount \<times> string option" where
  "Mount_ToOCI m propagationQuery =
     (let o0 = \<lparr>omt_destination = mnt_destination m, omt_type = mnt_type m,
                omt_source = mnt_source m, omt_options = []\<rparr> in
      fold (\<lambda>opt (o1, q).
        (o1\<lparr>omt_options := omt_options o1 @ [opt]\<rparr>,
         if q \<noteq> None \<and> opt \<in> {''rprivate'', ''rshared'', ''rslave''} then Some opt else q))
      (mnt_options m) (o0, propagationQuery))"

text \<open>The two option slices that are sorted and compared are fresh ones of empty strings.\<close>

definition Mount_Cmp :: "mount \<Rightarrow> mount option \<Rightarrow> bool" where
  "Mount_Cmp m v =
     (case v of
        None \<Rightarrow> False
      | Some v \<Rightarrow>
         if mnt_destination m \<noteq> mnt_destination v \<or> mnt_type m \<noteq> mnt_type v \<or>
            mnt_source m \<noteq> mnt_source v \<or> length (mnt_options m) \<noteq> length (mnt_options v)
         then False
         else
           (let mOpts = sort (replicate (length (mnt_options m)) []);
                vOpts = sort (replicate (length (mnt_options m)) [] :: string list)
            in \<forall>i \<in> set [0..<length mOpts]. vOpts ! i = mOpts ! i))"

section \<open>Devices\<close>

definition FromOCILinuxDevices :: "oci_device list \<Rightarrow> linux_device list" where
  "FromOCILinuxDevices oci = map (\<lambda>d.
     \<lparr>dev_path = odv_path d, dev_type = odv_type d, dev_major = odv_major d,
      dev_minor = odv_minor d, dev_file_mode = FileMode (If_FileMode_ptr (odv_file_mode d)),
      dev_uid = UInt32 (If_uint32_ptr (odv_uid d)), dev_gid = UInt32 (If_uint32_ptr (odv_gid d))\<rparr>) oci"

definition LinuxDevice_ToOCI :: "linux_device option \<Rightarrow> oci_device" where
  "LinuxDevice_ToOCI d =
     (case d of
        None \<Rightarrow> \<lparr>odv_path = [], odv_type = [], odv_major = 0, odv_minor = 0,
                 odv_file_mode = None, odv_uid = None, odv_gid = None\<rparr>
      | Some d \<Rightarrow> \<lparr>odv_path = dev_path d, odv_type = dev_type d, odv_major = dev_major d,
                  odv_minor = dev_minor d, odv_file_mode = OptionalFileMode_Get (dev_file_mode d),
                  odv_uid = OptionalUInt32_Get (dev_uid d),
                  odv_gid = OptionalUInt32_Get (dev_gid d)\<rparr>)"

definition LinuxDevice_AccessString :: "linux_device \<Rightarrow> string" where
  "LinuxDevice_AccessString d =
     (let r0 = ''r''; w0 = ''w''; m0 = [];
          (r1, w1) = (case OptionalFileMode_Get (dev_file_mode d) of
             None \<Rightarrow> (r0, w0)
           | Some mode \<Rightarrow>
              (let perm = and mode 0x1FF in
               (if and perm 0x124 \<noteq> 0 then ''r'' else r0, if and perm 0x92 \<noteq> 0 then ''w'' else w0)));
          m1 = (if dev_type d = ''b'' then ''m'' else m0)
      in r1 @ w1 @ m1)"

definition LinuxDevice_Cmp :: "linux_device \<Rightarrow> linux_device option \<Rightarrow> bool" where
  "LinuxDevice_Cmp d v =
     (case v of
        None \<Rightarrow> False
      | Some v \<Rightarrow> dev_major d \<noteq> dev_major v \<or> dev_minor d \<noteq> dev_minor v)"

section \<open>Hooks and namespaces\<close>

definition Hooks_Append :: "hooks \<Rightarrow> hooks option \<Rightarrow> hooks" where
  "Hooks_Append hks h =
     (case h of
        None \<Rightarrow> hks
      | Some h \<Rightarrow> \<lparr>hk_prestart = hk_prestart hks @ hk_prestart h,
                  hk_create_runtime = hk_create_runtime hks @ hk_create_runtime h,
                  hk_create_container = hk_create_container hks @ hk_create_container h,
                  hk_start_container = hk_start_container hks @ hk_start_container h,
                  hk_poststart = hk_poststart hks @ hk_poststart h,
                  hk_poststop = hk_poststop hks @ hk_poststop h\<rparr>)"

definition Hooks_Hooks :: "hooks option \<Rightarrow> hooks option" where
  "Hooks_Hooks hks =
     (case hks of
        None \<Rightarrow> None
      | Some h \<Rightarrow>
         if hk_prestart h \<noteq> [] then hks
         else if hk_create_runtime h \<noteq> [] then hks
         else if hk_create_container h \<noteq> [] then hks
         else if hk_start_container h \<noteq> [] then hks
         else if hk_poststart h \<noteq> [] then hks
         else if hk_poststop h \<noteq> [] then hks
         else None)"

definition Hook_ToOCI :: "hook \<Rightarrow> oci_hook" where
  "Hook_ToOCI h = \<lparr>ohk_path = hook_path h, ohk_args = dup_slice (hook_args h),
     ohk_env = dup_slice (hook_env h), ohk_timeout = OptionalInt_Get (hook_timeout h)\<rparr>"

definition FromOCIHookSlice :: "oci_hook list \<Rightarrow> hook list" where
  "FromOCIHookSlice oci = map (\<lambda>h.
     \<lparr>hook_path = ohk_path h, hook_args = dup_slice (ohk_args h), hook_env = dup_slice (ohk_env h),
      hook_timeout = Int_opt (If_int_ptr (ohk_timeout h))\<rparr>) oci"

definition FromOCIHooks :: "oci_hooks option \<Rightarrow> hooks option" where
  "FromOCIHooks oci = map_option (\<lambda>oci.
     \<lparr>hk_prestart = FromOCIHookSlice (ohs_prestart oci),
      hk_create_runtime = FromOCIHookSlice (ohs_create_runtime oci),
      hk_create_container = FromOCIHookSlice (ohs_create_container oci),
      hk_start_container = FromOCIHookSlice (ohs_start_container oci),
      hk_poststart = FromOCIHookSlice (ohs_poststart oci),
      hk_poststop = FromOCIHookSlice (ohs_poststop oci)\<rparr>) oci"

definition FromOCILinuxNamespaces :: "oci_namespace list \<Rightarrow> linux_namespace list" where
  "FromOCILinuxNamespaces oci = map (\<lambda>n. \<lparr>ns_type = ons_type n, ns_path = ons_path n\<rparr>) oci"

section \<open>Network devices\<close>

definition FromOCILinuxNetDevice :: "oci_net_device \<Rightarrow> linux_net_device" where
  "FromOCILinuxNetDevice oci = \<lparr>nd_name = ond_name oci\<rparr>"

definition FromOCILinuxNetDevices ::
    "(string, oci_net_device) gomap option \<Rightarrow> (string, linux_net_device option) gomap option" where
  "FromOCILinuxNetDevices oci =
     (if gmap_entries oci = [] then None
      else Some (fold (\<lambda>(host, dev). AList.update host (Some (FromOCILinuxNetDevice dev)))
        (gmap_entries oci) []))"

definition LinuxNetDevice_ToOCI :: "linux_net_device option \<Rightarrow> oci_net_device" where
  "LinuxNetDevice_ToOCI d =
     (case d of None \<Rightarrow> \<lparr>ond_name = []\<rparr> | Some d \<Rightarrow> \<lparr>ond_name = nd_name d\<rparr>)"

definition ToOCILinuxNetDevices ::
    "(string, linux_net_device option) gomap option \<Rightarrow> (string, oci_net_device) gomap option" where
  "ToOCILinuxNetDevices devices =
     map_option (\<lambda>m. fold (\<lambda>(host, dev). AList.update host (LinuxNetDevice_ToOCI dev)) m []) devices"

section \<open>I/O priority and scheduler\<close>

text \<open>
  The name tables that protobuf generates for the enumerations. Looking up a name that is not in
  a table gives 0, the first constant.
\<close>

definition IOPrioClass_names :: "(string \<times> io_prio_class) list" where
  "IOPrioClass_names =
     [(''IOPRIO_CLASS_NONE'', IOPRIO_CLASS_NONE), (''IOPRIO_CLASS_RT'', IOPRIO_CLASS_RT),
      (''IOPRIO_CLASS_BE'', IOPRIO_CLASS_BE), (''IOPRIO_CLASS_IDLE'', IOPRIO_CLASS_IDLE)]"

definition sched_policy_names :: "(string \<times> sched_policy) list" where
  "sched_policy_names =
     [(''SCHED_NONE'', SCHED_NONE), (''SCHED_OTHER'', SCHED_OTHER), (''SCHED_FIFO'', SCHED_FIFO),
      (''SCHED_RR'', SCHED_RR), (''SCHED_BATCH'', SCHED_BATCH), (''SCHED_ISO'', SCHED_ISO),
      (''SCHED_IDLE'', SCHED_IDLE), (''SCHED_DEADLINE'', SCHED_DEADLINE)]"

definition sched_flag_names :: "(string \<times> sched_flag) list" where
  "sched_flag_names =
     [(''SCHED_FLAG_RESET_ON_FORK'', SCHED_FLAG_RESET_ON_FORK),
      (''SCHED_FLAG_RECLAIM'', SCHED_FLAG_RECLAIM), (''SCHED_FLAG_DL_OVERRUN'', SCHED_FLAG_DL_OVERRUN),
      (''SCHED_FLAG_KEEP_POLICY'', SCHED_FLAG_KEEP_POLICY),
      (''SCHED_FLAG_KEEP_PARAMS'', SCHED_FLAG_KEEP_PARAMS),
      (''SCHED_FLAG_UTIL_CLAMP_MIN'', SCHED_FLAG_UTIL_CLAMP_MIN),
      (''SCHED_FLAG_UTIL_CLAMP_MAX'', SCHED_FLAG_UTIL_CLAMP_MAX)]"

definition enum_value :: "'a \<Rightarrow> (string \<times> 'a) list \<Rightarrow> string \<Rightarrow> 'a" where
  "enum_value zero names s = (case map_of names s of None \<Rightarrow> zero | Some v \<Rightarrow> v)"

definition enum_name :: "(string \<times> 'a) list \<Rightarrow> 'a \<Rightarrow> string" where
  "enum_name names v = (case map_of (map (\<lambda>(s, x). (x, s)) names) v of None \<Rightarrow> [] | Some s \<Rightarrow> s)"

definition FromOCIIOPriorityClass :: "string \<Rightarrow> io_prio_class" where
  "FromOCIIOPriorityClass oci = enum_value IOPRIO_CLASS_NONE IOPrioClass_names oci"

definition IOPrioClass_ToOCI :: "io_prio_class \<Rightarrow> string" where
  "IOPrioClass_ToOCI c = (if c = IOPRIO_CLASS_NONE then [] else enum_name IOPrioClass_names c)"

text \<open>The priority is an \<^verbatim>\<open>int\<close> of 64 bits in OCI and an \<^verbatim>\<open>int32\<close> here.\<close>

definition FromOCILinuxIOPriority :: "oci_io_priority option \<Rightarrow> linux_io_priority option" where
  "FromOCILinuxIOPriority oci = map_option (\<lambda>oci.
     \<lparr>iop_class = FromOCIIOPriorityClass (oio_class oci), iop_priority = ucast (oio_priority oci)\<rparr>) oci"

definition LinuxIOPriority_ToOCI :: "linux_io_priority option \<Rightarrow> oci_io_priority option" where
  "LinuxIOPriority_ToOCI p = map_option (\<lambda>p.
     \<lparr>oio_class = IOPrioClass_ToOCI (iop_class p), oio_priority = scast (iop_priority p)\<rparr>) p"

definition FromOCISchedulerPolicy :: "string \<Rightarrow> sched_policy" where
  "FromOCISchedulerPolicy oci = enum_value SCHED_NONE sched_policy_names oci"

definition LinuxSchedulerPolicy_ToOCI :: "sched_policy \<Rightarrow> string" where
  "LinuxSchedulerPolicy_ToOCI p = (if p = SCHED_NONE then [] else enum_name sched_policy_names p)"

definition FromOCILinuxSchedulerFlags :: "string list \<Rightarrow> sched_flag list" where
  "FromOCILinuxSchedulerFlags oci = map (enum_value SCHED_FLAG_RESET_ON_FORK sched_flag_names) oci"

definition ToOCILinuxSchedulerFlags :: "sched_flag list \<Rightarrow> string list" where
  "ToOCILinuxSchedulerFlags f = map (enum_name sched_flag_names) f"

definition FromOCILinuxScheduler :: "oci_scheduler option \<Rightarrow> linux_scheduler option" where
  "FromOCILinuxScheduler oci = map_option (\<lambda>oci.
     \<lparr>sch_policy = FromOCISchedulerPolicy (osc_policy oci), sch_nice = osc_nice oci,
      sch_priority = osc_priority oci, sch_flags = FromOCILinuxSchedulerFlags (osc_flags oci),
      sch_runtime = osc_runtime oci, sch_deadline = osc_deadline oci, sch_period = osc_period oci\<rparr>) oci"

definition LinuxScheduler_ToOCI :: "linux_scheduler option \<Rightarrow> oci_scheduler option" where
  "LinuxScheduler_ToOCI sch =
     (case sch of
        None \<Rightarrow> None
      | Some s \<Rightarrow>
         if sch_policy s = SCHED_NONE then None
         else Some \<lparr>osc_policy = LinuxSchedulerPolicy_ToOCI (sch_policy s), osc_nice = sch_nice s,
           osc_priority = sch_priority s, osc_flags = ToOCILinuxSchedulerFlags (sch_flags s),
           osc_runtime = sch_runtime s, osc_deadline = sch_deadline s, osc_period = sch_period s\<rparr>)"

section \<open>Seccomp\<close>

definition FromOCILinuxSeccompArgs :: "oci_seccomp_arg list \<Rightarrow> seccomp_arg list" where
  "FromOCILinuxSeccompArgs oci = map (\<lambda>a.
     \<lparr>sca_index = ucast (osa_index a), sca_value = osa_value a, sca_value_two = osa_value_two a,
      sca_op = osa_op a\<rparr>) oci"

definition ToOCILinuxSeccompArgs :: "seccomp_arg list \<Rightarrow> oci_seccomp_arg list" where
  "ToOCILinuxSeccompArgs oci = map (\<lambda>a.
     \<lparr>osa_index = ucast (sca_index a), osa_value = sca_value a, osa_value_two = sca_value_two a,
      osa_op = sca_op a\<rparr>) oci"

definition FromOCILinuxSyscalls :: "oci_syscall list \<Rightarrow> linux_syscall list" where
  "FromOCILinuxSyscalls oci = map (\<lambda>s.
     \<lparr>sys_names = osy_names s, sys_action = osy_action s,
      sys_errno_ret = map_option ucast (osy_errno_ret s),
      sys_args = FromOCILinuxSeccompArgs (osy_args s)\<rparr>) oci"

text \<open>
  The code stores the error number through the nil pointer \<^verbatim>\<open>errnoRet\<close>: a system call with an error
  number panics, which is \<open>None\<close>.
\<close>

fun ToOCILinuxSyscalls :: "linux_syscall list \<Rightarrow> oci_syscall list option" where
  "ToOCILinuxSyscalls [] = Some []"
| "ToOCILinuxSyscalls (s # rest) =
     (case sys_errno_ret s of
        Some _ \<Rightarrow> None
      | None \<Rightarrow>
         (case ToOCILinuxSyscalls rest of
            None \<Rightarrow> None
          | Some out \<Rightarrow> Some (\<lparr>osy_names = sys_names s, osy_action = sys_action s,
              osy_errno_ret = None, osy_args = ToOCILinuxSeccompArgs (sys_args s)\<rparr> # out)))"

text \<open>Its first statement reads through the argument: a nil one panics, which is \<open>None\<close>.\<close>

definition FromOCILinuxSeccomp :: "oci_seccomp option \<Rightarrow> linux_seccomp option" where
  "FromOCILinuxSeccomp oci =
     (case oci of
        None \<Rightarrow> None
      | Some oci \<Rightarrow> Some
         \<lparr>sec_default_action = ose_default_action oci,
          sec_default_errno = map_option ucast (ose_default_errno_ret oci),
          sec_architectures = ose_architectures oci, sec_flags = ose_flags oci,
          sec_listener_path = ose_listener_path oci,
          sec_listener_metadata = ose_listener_metadata oci,
          sec_syscalls = FromOCILinuxSyscalls (ose_syscalls oci)\<rparr>)"

section \<open>Round trips\<close>

lemma dup_slice_id [simp]: "dup_slice xs = xs"
  by (simp add: dup_slice_def)

lemma Mount_ToOCI_fold:
  "fold (\<lambda>opt (o1, q).
      (o1\<lparr>omt_options := omt_options o1 @ [opt]\<rparr>, if q \<noteq> None \<and> P opt then Some opt else q)) opts (o0, q) =
    (o0\<lparr>omt_options := omt_options o0 @ opts\<rparr>,
     if q = None \<or> filter P opts = [] then q else Some (last (filter P opts)))"
  by (induction opts arbitrary: o0 q) auto

lemma Mount_ToOCI_eq:
  "Mount_ToOCI m q =
    (\<lparr>omt_destination = mnt_destination m, omt_type = mnt_type m, omt_source = mnt_source m,
      omt_options = mnt_options m\<rparr>,
     let ps = filter (\<lambda>opt. opt \<in> {''rprivate'', ''rshared'', ''rslave''}) (mnt_options m)
     in if q = None \<or> ps = [] then q else Some (last ps))"
  unfolding Mount_ToOCI_def Let_def
  by (subst Mount_ToOCI_fold [where P = "\<lambda>opt. opt \<in> {''rprivate'', ''rshared'', ''rslave''}"]) simp

text \<open>
  Mounts: what is read from an OCI specification is written back unchanged, and a propagation
  query answers with the last propagation option of the mount, or is left alone without one.
\<close>

theorem mounts_OCI_roundtrip:
  "map (\<lambda>m. fst (Mount_ToOCI m q)) (FromOCIMounts ms) = ms \<and>
   snd (Mount_ToOCI m q) =
     (let ps = filter (\<lambda>opt. opt \<in> {''rprivate'', ''rshared'', ''rslave''}) (mnt_options m)
      in if q = None \<or> ps = [] then q else Some (last ps))"
  unfolding Mount_ToOCI_eq by (simp add: FromOCIMounts_def comp_def map_idI)

lemma enum_inverse:
  assumes "v \<in> snd ` set names" and "distinct (map fst names)" and "distinct (map snd names)"
  shows "enum_value zero names (enum_name names v) = v"
proof -
  from assms(1) obtain s where s: "(s, v) \<in> set names" by auto
  then have "(v, s) \<in> set (map (\<lambda>(s, x). (x, s)) names)" by force
  moreover have "distinct (map fst (map (\<lambda>(s, x). (x, s)) names))"
    using assms(3) by (simp add: comp_def split_def)
  ultimately have "enum_name names v = s" unfolding enum_name_def by (simp add: map_of_is_SomeI)
  then show ?thesis using s assms(2) by (simp add: enum_value_def map_of_is_SomeI)
qed

lemma sched_tables:
  "distinct (map fst sched_policy_names)" "distinct (map snd sched_policy_names)"
  "distinct (map fst sched_flag_names)" "distinct (map snd sched_flag_names)"
  "distinct (map fst IOPrioClass_names)" "distinct (map snd IOPrioClass_names)"
  by (simp_all add: sched_policy_names_def sched_flag_names_def IOPrioClass_names_def)

lemma sched_tables_total:
  "p \<in> snd ` set sched_policy_names" "f \<in> snd ` set sched_flag_names" "c \<in> snd ` set IOPrioClass_names"
proof -
  show "p \<in> snd ` set sched_policy_names" by (cases p) (simp_all add: sched_policy_names_def)
  show "f \<in> snd ` set sched_flag_names" by (cases f) (simp_all add: sched_flag_names_def)
  show "c \<in> snd ` set IOPrioClass_names" by (cases c) (simp_all add: IOPrioClass_names_def)
qed

lemma sched_inverse:
  "enum_value z sched_policy_names (enum_name sched_policy_names p) = p"
  "enum_value z' sched_flag_names (enum_name sched_flag_names f) = f"
  "enum_value z'' IOPrioClass_names (enum_name IOPrioClass_names c) = c"
  by (simp_all add: enum_inverse sched_tables sched_tables_total)

text \<open>
  A scheduler and an I/O priority survive the trip to the OCI specification and back, except
  that a scheduler without a policy is dropped.
\<close>

theorem scheduler_ioprio_OCI_roundtrip:
  "FromOCILinuxScheduler (LinuxScheduler_ToOCI (Some s)) =
     (if sch_policy s = SCHED_NONE then None else Some s) \<and>
   FromOCILinuxIOPriority (LinuxIOPriority_ToOCI p) = p"
proof -
  have "enum_value IOPRIO_CLASS_NONE IOPrioClass_names [] = IOPRIO_CLASS_NONE"
    by (simp add: enum_value_def IOPrioClass_names_def)
  then have "FromOCIIOPriorityClass (IOPrioClass_ToOCI c) = c" for c
    by (simp add: FromOCIIOPriorityClass_def IOPrioClass_ToOCI_def sched_inverse)
  moreover have "FromOCISchedulerPolicy (LinuxSchedulerPolicy_ToOCI c) = c" if "c \<noteq> SCHED_NONE" for c
    using that by (simp add: FromOCISchedulerPolicy_def LinuxSchedulerPolicy_ToOCI_def sched_inverse)
  moreover have "FromOCILinuxSchedulerFlags (ToOCILinuxSchedulerFlags fs) = fs" for fs
    by (simp add: FromOCILinuxSchedulerFlags_def ToOCILinuxSchedulerFlags_def sched_inverse map_idI)
  moreover have "(ucast (scast w :: int64) :: int32) = w" for w :: int32
    by (rule bit_word_eqI) (simp add: bit_simps)
  ultimately show ?thesis
    by (cases p) (simp_all add: FromOCILinuxScheduler_def LinuxScheduler_ToOCI_def
        FromOCILinuxIOPriority_def LinuxIOPriority_ToOCI_def)
qed

text \<open>
  Seccomp system calls read from OCI are written back unchanged when none has an error
  number (and no argument index exceeds 32 bits); with one, the code panics.
\<close>

theorem syscalls_ToOCI:
  assumes "\<forall>s \<in> set calls. \<forall>a \<in> set (osy_args s). osa_index a < 2 ^ 32"
  shows "ToOCILinuxSyscalls (FromOCILinuxSyscalls calls) =
    (if \<exists>s \<in> set calls. osy_errno_ret s \<noteq> None then None else Some calls)"
  using assms
proof (induction calls)
  case Nil
  show ?case by (simp add: FromOCILinuxSyscalls_def)
next
  case (Cons s calls)
  have fits: "ucast (ucast x :: uint32) = x" if "x < 2 ^ 32" for x :: uint64
  proof -
    from that have "unat x < 2 ^ 32" by (simp add: word_less_nat_alt)
    then show ?thesis by (simp add: word_unat_eq_iff unsigned_ucast_eq unsigned_take_bit_eq take_bit_nat_eq_self)
  qed
  have "ToOCILinuxSeccompArgs (FromOCILinuxSeccompArgs (osy_args s)) = osy_args s"
    using Cons.prems fits
    by (auto simp: ToOCILinuxSeccompArgs_def FromOCILinuxSeccompArgs_def comp_def intro!: map_idI)
  then show ?case using Cons
    by (cases "osy_errno_ret s") (auto simp: FromOCILinuxSyscalls_def)
qed

theorem syscalls_ToOCI_witness:
  "ToOCILinuxSyscalls (FromOCILinuxSyscalls
     [\<lparr>osy_names = [''read''], osy_action = ''SCMP_ACT_ERRNO'', osy_errno_ret = Some 1,
       osy_args = []\<rparr>]) = None"
  by (subst syscalls_ToOCI) simp_all

text \<open>
  The comparisons as the code has them: mounts with the same destination, type and source are
  equal when they have as many options, whatever these are, and devices are "equal" exactly when
  their numbers differ.
\<close>

theorem comparisons:
  "(Mount_Cmp m (Some m') \<longleftrightarrow> mnt_destination m = mnt_destination m' \<and> mnt_type m = mnt_type m' \<and>
      mnt_source m = mnt_source m' \<and> length (mnt_options m) = length (mnt_options m')) \<and>
   (LinuxDevice_Cmp d (Some d') \<longleftrightarrow> \<not> (dev_major d = dev_major d' \<and> dev_minor d = dev_minor d'))"
  by (auto simp: Mount_Cmp_def LinuxDevice_Cmp_def)

end
