(* ===== verification/Strip.thy ===== *)
theory Strip
  imports API_Types
begin

text \<open>
  Reducing adjustments and updates to a canonical form in which they can be compared
  (\<^verbatim>\<open>src/pkg/api/strip.go\<close>): empty maps and structs become nil. The locale \<open>canonical\<close> says what that
  is to achieve: two values strip to the same exactly if they read the same, that is if they are
  equal once every nil pointer is filled in with an empty struct. It is interpreted for all nine
  types; what the stripping of an adjustment's Linux half, of RDT and of an update forgets to look at is what
  \<open>covered\<close> excludes.
\<close>

section \<open>Stripping\<close>

text \<open>\<^verbatim>\<open>if len(x) == 0 { x = nil }\<close>\<close>

definition drop_empty :: "('k, 'v) gomap option \<Rightarrow> ('k, 'v) gomap option" where
  "drop_empty m = (if length (gmap_entries m) = 0 then None else m)"

definition LinuxMemory_Strip :: "linux_memory option \<Rightarrow> linux_memory option" where
  "LinuxMemory_Strip v =
     (case v of
        None \<Rightarrow> None
      | Some m \<Rightarrow>
         if mem_limit m = None \<and> mem_reservation m = None \<and> mem_swap m = None \<and> mem_kernel m = None \<and>
           mem_kernel_tcp m = None \<and> mem_swappiness m = None \<and> mem_disable_oom_killer m = None \<and>
           mem_use_hierarchy m = None
         then None else Some m)"

definition LinuxCPU_Strip :: "linux_cpu option \<Rightarrow> linux_cpu option" where
  "LinuxCPU_Strip v =
     (case v of
        None \<Rightarrow> None
      | Some c \<Rightarrow>
         if cpu_shares c = None \<and> cpu_quota c = None \<and> cpu_period c = None \<and> cpu_realtime_runtime c = None \<and>
           cpu_realtime_period c = None \<and> cpu_cpus c = [] \<and> cpu_mems c = []
         then None else Some c)"

definition LinuxRdt_Strip :: "linux_rdt option \<Rightarrow> linux_rdt option" where
  "LinuxRdt_Strip v =
     (case v of
        None \<Rightarrow> None
      | Some r \<Rightarrow>
         if rdt_clos_id r \<noteq> None \<or> rdt_schemata r \<noteq> None \<or> rdt_enable_monitoring r \<noteq> None
         then Some r else None)"

definition Hooks_Strip :: "hooks option \<Rightarrow> hooks option" where
  "Hooks_Strip v =
     (case v of
        None \<Rightarrow> None
      | Some h \<Rightarrow>
         if length (hk_prestart h) = 0 \<and> length (hk_create_runtime h) = 0 \<and>
           length (hk_create_container h) = 0 \<and> length (hk_start_container h) = 0 \<and>
           length (hk_poststart h) = 0 \<and> length (hk_poststop h) = 0
         then None else Some h)"

definition LinuxResources_Strip :: "linux_resources option \<Rightarrow> linux_resources option" where
  "LinuxResources_Strip v =
     (case v of
        None \<Rightarrow> None
      | Some r0 \<Rightarrow>
         (let r = r0\<lparr>res_memory := LinuxMemory_Strip (res_memory r0), res_cpu := LinuxCPU_Strip (res_cpu r0),
                res_unified := drop_empty (res_unified r0)\<rparr>
          in if res_memory r = None \<and> res_cpu r = None \<and> length (res_hugepage_limits r) = 0 \<and>
               res_blockio_class r = None \<and> res_rdt_class r = None \<and> res_unified r = None \<and>
               length (res_devices r) = 0 \<and> res_pids r = None
             then None else Some r))"

definition LinuxAdjustment_Strip :: "linux_adjustment option \<Rightarrow> linux_adjustment option" where
  "LinuxAdjustment_Strip v =
     (case v of
        None \<Rightarrow> None
      | Some l0 \<Rightarrow>
         (let l = l0\<lparr>la_resources := LinuxResources_Strip (la_resources l0), la_rdt := LinuxRdt_Strip (la_rdt l0)\<rparr>
          in if length (la_devices l) = 0 \<and> la_resources l = None \<and> la_cgroups_path l = [] \<and>
               la_oom_score_adj l = None \<and> la_rdt l = None
             then None else Some l))"

definition ContainerAdjustment_Strip :: "container_adjustment option \<Rightarrow> container_adjustment option" where
  "ContainerAdjustment_Strip v =
     (case v of
        None \<Rightarrow> None
      | Some a0 \<Rightarrow>
         (let a = a0\<lparr>adj_annotations := drop_empty (adj_annotations a0), adj_hooks := Hooks_Strip (adj_hooks a0),
                adj_linux := LinuxAdjustment_Strip (adj_linux a0)\<rparr>
          in if adj_annotations a = None \<and> length (adj_mounts a) = 0 \<and> length (adj_env a) = 0 \<and>
               length (adj_rlimits a) = 0 \<and> length (adj_cdi_devices a) = 0 \<and> length (adj_args a) = 0 \<and>
               adj_hooks a = None \<and> adj_linux a = None
             then None else Some a))"

definition LinuxContainerUpdate_Strip :: "linux_container_update option \<Rightarrow> linux_container_update option" where
  "LinuxContainerUpdate_Strip v =
     (case v of
        None \<Rightarrow> None
      | Some l0 \<Rightarrow>
         (let l = l0\<lparr>lu_resources := LinuxResources_Strip (lu_resources l0)\<rparr>
          in if lu_resources l = None then None else Some l))"

definition ContainerUpdate_Strip :: "container_update option \<Rightarrow> container_update option" where
  "ContainerUpdate_Strip v =
     (case v of
        None \<Rightarrow> None
      | Some u0 \<Rightarrow>
         (let u = u0\<lparr>cu_linux := LinuxContainerUpdate_Strip (cu_linux u0)\<rparr>
          in if cu_linux u = None \<and> \<not> cu_ignore_failure u then None else Some u))"

section \<open>The contract of a canonical form\<close>

locale canonical =
  fixes strip :: "'a option \<Rightarrow> 'a option" and fill :: "'a option \<Rightarrow> 'a" and covered :: "'a option \<Rightarrow> bool"
  assumes strip_fill: "strip (Some (fill x)) = strip x"
    and fill_strip: "covered x \<Longrightarrow> fill (strip x) = fill x"
    and strip_strip: "strip (strip x) = strip x"
begin

lemma same_strip: "covered x \<Longrightarrow> covered y \<Longrightarrow> strip x = strip y \<longleftrightarrow> fill x = fill y"
  using strip_fill fill_strip by metis

lemma strip_filled: "fill x = fill y \<Longrightarrow> strip x = strip y"
  using strip_fill by metis

end

section \<open>The forms that are compared\<close>

definition or_zero :: "'a \<Rightarrow> 'a option \<Rightarrow> 'a" where
  "or_zero z v = (case v of None \<Rightarrow> z | Some x \<Rightarrow> x)"

definition fill_resources :: "linux_resources option \<Rightarrow> linux_resources" where
  "fill_resources v = (let r = or_zero zero_resources v in
     r\<lparr>res_memory := Some (or_zero zero_memory (res_memory r)), res_cpu := Some (or_zero zero_cpu (res_cpu r)),
       res_unified := Some (gmap_entries (res_unified r))\<rparr>)"

definition fill_linux :: "linux_adjustment option \<Rightarrow> linux_adjustment" where
  "fill_linux v = (let l = or_zero zero_linux_adjustment v in
     l\<lparr>la_resources := Some (fill_resources (la_resources l)), la_rdt := Some (or_zero zero_rdt (la_rdt l))\<rparr>)"

definition fill_adjustment :: "container_adjustment option \<Rightarrow> container_adjustment" where
  "fill_adjustment v = (let a = or_zero zero_adjustment v in
     a\<lparr>adj_annotations := Some (gmap_entries (adj_annotations a)), adj_hooks := Some (or_zero zero_hooks (adj_hooks a)),
       adj_linux := Some (fill_linux (adj_linux a))\<rparr>)"

definition fill_linux_update :: "linux_container_update option \<Rightarrow> linux_container_update" where
  "fill_linux_update v = \<lparr>lu_resources = Some (fill_resources (case v of None \<Rightarrow> None | Some l \<Rightarrow> lu_resources l))\<rparr>"

definition zero_update :: container_update where
  "zero_update = \<lparr>cu_container_id = [], cu_linux = None, cu_ignore_failure = False\<rparr>"

definition fill_update :: "container_update option \<Rightarrow> container_update" where
  "fill_update v = (let u = or_zero zero_update v in u\<lparr>cu_linux := Some (fill_linux_update (cu_linux u))\<rparr>)"

text \<open>What the code does not look at when it decides whether a struct is empty.\<close>

definition covered_rdt :: "linux_rdt option \<Rightarrow> bool" where
  "covered_rdt v \<longleftrightarrow> (\<forall>r. v = Some r \<longrightarrow> LinuxRdt_Strip v = None \<longrightarrow> \<not> rdt_remove r)"

definition covered_linux :: "linux_adjustment option \<Rightarrow> bool" where
  "covered_linux v \<longleftrightarrow> (\<forall>l. v = Some l \<longrightarrow> covered_rdt (la_rdt l) \<and>
     (LinuxAdjustment_Strip v = None \<longrightarrow> la_io_priority l = None \<and> la_seccomp_policy l = None \<and>
        la_namespaces l = [] \<and> la_sysctl l = None \<and> la_net_devices l = None \<and> la_scheduler l = None))"

definition covered_adjustment :: "container_adjustment option \<Rightarrow> bool" where
  "covered_adjustment v \<longleftrightarrow> (\<forall>a. v = Some a \<longrightarrow> covered_linux (adj_linux a))"

definition covered_update :: "container_update option \<Rightarrow> bool" where
  "covered_update v \<longleftrightarrow> (\<forall>u. v = Some u \<longrightarrow> ContainerUpdate_Strip v = None \<longrightarrow> cu_container_id u = [])"

section \<open>Interpretations\<close>

lemmas fill_defs = or_zero_def fill_resources_def fill_linux_def fill_adjustment_def fill_linux_update_def
  fill_update_def zero_update_def

lemma drop_empty_simps [simp]:
  "drop_empty (drop_empty m) = drop_empty m"
  "gmap_entries (drop_empty m) = gmap_entries m"
  "drop_empty (Some (gmap_entries m)) = drop_empty m"
  "drop_empty m = None \<longleftrightarrow> gmap_entries m = []"
  by (cases m; simp add: drop_empty_def gmap_entries_def)+

lemma strip_None [simp]:
  "LinuxMemory_Strip None = None" "LinuxCPU_Strip None = None" "LinuxRdt_Strip None = None" "Hooks_Strip None = None"
  "LinuxResources_Strip None = None" "LinuxAdjustment_Strip None = None" "ContainerAdjustment_Strip None = None"
  "LinuxContainerUpdate_Strip None = None" "ContainerUpdate_Strip None = None"
  by (simp_all add: LinuxMemory_Strip_def LinuxCPU_Strip_def LinuxRdt_Strip_def Hooks_Strip_def LinuxResources_Strip_def
      LinuxAdjustment_Strip_def ContainerAdjustment_Strip_def LinuxContainerUpdate_Strip_def ContainerUpdate_Strip_def)

interpretation memory: canonical LinuxMemory_Strip "or_zero zero_memory" "\<lambda>_. True"
proof
  show "LinuxMemory_Strip (Some (or_zero zero_memory x)) = LinuxMemory_Strip x" for x
    by (cases x) (simp_all add: LinuxMemory_Strip_def or_zero_def zero_memory_def)
  show "or_zero zero_memory (LinuxMemory_Strip x) = or_zero zero_memory x" for x
    by (cases x) (auto simp: LinuxMemory_Strip_def or_zero_def zero_memory_def intro: linux_memory.equality)
  show "LinuxMemory_Strip (LinuxMemory_Strip x) = LinuxMemory_Strip x" for x
    by (cases x) (simp_all add: LinuxMemory_Strip_def)
qed

interpretation cpu: canonical LinuxCPU_Strip "or_zero zero_cpu" "\<lambda>_. True"
proof
  show "LinuxCPU_Strip (Some (or_zero zero_cpu x)) = LinuxCPU_Strip x" for x
    by (cases x) (simp_all add: LinuxCPU_Strip_def or_zero_def zero_cpu_def)
  show "or_zero zero_cpu (LinuxCPU_Strip x) = or_zero zero_cpu x" for x
    by (cases x) (auto simp: LinuxCPU_Strip_def or_zero_def zero_cpu_def intro: linux_cpu.equality)
  show "LinuxCPU_Strip (LinuxCPU_Strip x) = LinuxCPU_Strip x" for x
    by (cases x) (simp_all add: LinuxCPU_Strip_def)
qed

interpretation rdt: canonical LinuxRdt_Strip "or_zero zero_rdt" covered_rdt
proof
  show "LinuxRdt_Strip (Some (or_zero zero_rdt x)) = LinuxRdt_Strip x" for x
    by (cases x) (simp_all add: LinuxRdt_Strip_def or_zero_def zero_rdt_def)
  show "or_zero zero_rdt (LinuxRdt_Strip x) = or_zero zero_rdt x" if "covered_rdt x" for x
    using that
    by (cases x) (auto simp: covered_rdt_def LinuxRdt_Strip_def or_zero_def zero_rdt_def intro: linux_rdt.equality)
  show "LinuxRdt_Strip (LinuxRdt_Strip x) = LinuxRdt_Strip x" for x
    by (cases x) (simp_all add: LinuxRdt_Strip_def)
qed

interpretation hooks: canonical Hooks_Strip "or_zero zero_hooks" "\<lambda>_. True"
proof
  show "Hooks_Strip (Some (or_zero zero_hooks x)) = Hooks_Strip x" for x
    by (cases x) (simp_all add: Hooks_Strip_def or_zero_def zero_hooks_def)
  show "or_zero zero_hooks (Hooks_Strip x) = or_zero zero_hooks x" for x
    by (cases x) (auto simp: Hooks_Strip_def or_zero_def zero_hooks_def intro: hooks.equality)
  show "Hooks_Strip (Hooks_Strip x) = Hooks_Strip x" for x
    by (cases x) (simp_all add: Hooks_Strip_def)
qed

lemmas part_strips = memory.strip_fill memory.strip_strip cpu.strip_fill cpu.strip_strip rdt.strip_fill
  rdt.strip_strip hooks.strip_fill hooks.strip_strip

text \<open>A part that strips to nothing reads as the zero struct.\<close>

lemma or_zero_None [simp]: "or_zero z None = z" and or_zero_Some [simp]: "or_zero z (Some x) = x"
  by (simp_all add: or_zero_def)

interpretation resources: canonical LinuxResources_Strip fill_resources "\<lambda>_. True"
proof
  show "LinuxResources_Strip (Some (fill_resources x)) = LinuxResources_Strip x" for x
  proof (cases x)
    case None
    have "LinuxMemory_Strip (Some zero_memory) = None" "LinuxCPU_Strip (Some zero_cpu) = None"
      using memory.strip_fill [of None] cpu.strip_fill [of None] by simp_all
    with None show ?thesis
      by (simp add: LinuxResources_Strip_def fill_resources_def Let_def zero_resources_def drop_empty_def
          gmap_entries_def)
  next
    case (Some r)
    then show ?thesis by (simp add: LinuxResources_Strip_def fill_resources_def Let_def part_strips)
  qed
  show "fill_resources (LinuxResources_Strip x) = fill_resources x" for x
  proof (cases x)
    case None
    then show ?thesis by simp
  next
    case (Some r)
    have "or_zero zero_memory (res_memory r) = zero_memory" if "LinuxMemory_Strip (res_memory r) = None"
      using memory.fill_strip [of "res_memory r"] that by simp
    moreover have "or_zero zero_cpu (res_cpu r) = zero_cpu" if "LinuxCPU_Strip (res_cpu r) = None"
      using cpu.fill_strip [of "res_cpu r"] that by simp
    ultimately show ?thesis
      by (auto simp: Some LinuxResources_Strip_def fill_resources_def Let_def zero_resources_def
          memory.fill_strip cpu.fill_strip gmap_entries_def [of None] intro!: linux_resources.equality)
  qed
  show "LinuxResources_Strip (LinuxResources_Strip x) = LinuxResources_Strip x" for x
    by (cases x) (simp_all add: LinuxResources_Strip_def Let_def part_strips)
qed

interpretation linux: canonical LinuxAdjustment_Strip fill_linux covered_linux
proof
  show "LinuxAdjustment_Strip (Some (fill_linux x)) = LinuxAdjustment_Strip x" for x
  proof (cases x)
    case None
    have "LinuxResources_Strip (Some (fill_resources None)) = None" "LinuxRdt_Strip (Some zero_rdt) = None"
      using resources.strip_fill [of None] rdt.strip_fill [of None] by simp_all
    with None show ?thesis by (simp add: LinuxAdjustment_Strip_def fill_linux_def Let_def zero_linux_adjustment_def)
  next
    case (Some l)
    then show ?thesis
      by (simp add: LinuxAdjustment_Strip_def fill_linux_def Let_def resources.strip_fill rdt.strip_fill)
  qed
  show "fill_linux (LinuxAdjustment_Strip x) = fill_linux x" if c: "covered_linux x" for x
  proof (cases x)
    case None
    then show ?thesis by simp
  next
    case (Some l)
    note parts = resources.fill_strip [of "la_resources l", OF TrueI] rdt.fill_strip [of "la_rdt l"]
    show ?thesis
    proof (cases "LinuxAdjustment_Strip x")
      case None
      then show ?thesis using c parts
        by (auto simp: Some LinuxAdjustment_Strip_def covered_linux_def fill_linux_def Let_def zero_linux_adjustment_def
            intro!: linux_adjustment.equality split: if_splits)
    next
      case (Some l')
      then show ?thesis using c parts
        by (auto simp: \<open>x = Some l\<close> LinuxAdjustment_Strip_def covered_linux_def fill_linux_def Let_def
            split: if_splits)
    qed
  qed
  show "LinuxAdjustment_Strip (LinuxAdjustment_Strip x) = LinuxAdjustment_Strip x" for x
    by (cases x) (simp_all add: LinuxAdjustment_Strip_def Let_def resources.strip_strip rdt.strip_strip)
qed

interpretation adjustment: canonical ContainerAdjustment_Strip fill_adjustment covered_adjustment
proof
  show "ContainerAdjustment_Strip (Some (fill_adjustment x)) = ContainerAdjustment_Strip x" for x
  proof (cases x)
    case None
    have "LinuxAdjustment_Strip (Some (fill_linux None)) = None" "Hooks_Strip (Some zero_hooks) = None"
      using linux.strip_fill [of None] hooks.strip_fill [of None] by simp_all
    with None show ?thesis
      by (simp add: ContainerAdjustment_Strip_def fill_adjustment_def Let_def zero_adjustment_def drop_empty_def
          gmap_entries_def)
  next
    case (Some l)
    then show ?thesis
      by (simp add: ContainerAdjustment_Strip_def fill_adjustment_def Let_def linux.strip_fill hooks.strip_fill)
  qed
  show "fill_adjustment (ContainerAdjustment_Strip x) = fill_adjustment x" if c: "covered_adjustment x" for x
  proof (cases x)
    case None
    then show ?thesis by simp
  next
    case (Some l)
    note parts = linux.fill_strip [of "adj_linux l"] hooks.fill_strip [of "adj_hooks l", OF TrueI]
    show ?thesis using c parts
      by (auto simp: Some ContainerAdjustment_Strip_def covered_adjustment_def fill_adjustment_def Let_def
          zero_adjustment_def gmap_entries_def [of None] intro!: container_adjustment.equality)
  qed
  show "ContainerAdjustment_Strip (ContainerAdjustment_Strip x) = ContainerAdjustment_Strip x" for x
    by (cases x) (simp_all add: ContainerAdjustment_Strip_def Let_def linux.strip_strip hooks.strip_strip)
qed

interpretation linux_update: canonical LinuxContainerUpdate_Strip fill_linux_update "\<lambda>_. True"
proof
  have z: "LinuxResources_Strip (Some (fill_resources None)) = None"
    using resources.strip_fill [of None] by simp
  show "LinuxContainerUpdate_Strip (Some (fill_linux_update x)) = LinuxContainerUpdate_Strip x" for x
    by (cases x) (simp_all add: LinuxContainerUpdate_Strip_def fill_linux_update_def resources.strip_fill z)
  show "fill_linux_update (LinuxContainerUpdate_Strip x) = fill_linux_update x" for x
  proof (cases x)
    case (Some l)
    then show ?thesis using resources.fill_strip [of "lu_resources l"]
      by (auto simp: LinuxContainerUpdate_Strip_def fill_linux_update_def Let_def)
  qed simp
  show "LinuxContainerUpdate_Strip (LinuxContainerUpdate_Strip x) = LinuxContainerUpdate_Strip x" for x
    by (cases x) (simp_all add: LinuxContainerUpdate_Strip_def Let_def resources.strip_strip)
qed

interpretation update: canonical ContainerUpdate_Strip fill_update covered_update
proof
  have z: "LinuxContainerUpdate_Strip (Some (fill_linux_update None)) = None"
    using linux_update.strip_fill [of None] by simp
  show "ContainerUpdate_Strip (Some (fill_update x)) = ContainerUpdate_Strip x" for x
    by (cases x)
      (simp_all add: ContainerUpdate_Strip_def fill_update_def Let_def linux_update.strip_fill z zero_update_def)
  show "fill_update (ContainerUpdate_Strip x) = fill_update x" if c: "covered_update x" for x
  proof (cases x)
    case (Some u)
    then show ?thesis using c linux_update.fill_strip [of "cu_linux u"]
      by (auto simp: ContainerUpdate_Strip_def covered_update_def fill_update_def Let_def zero_update_def
          intro!: container_update.equality)
  qed simp
  show "ContainerUpdate_Strip (ContainerUpdate_Strip x) = ContainerUpdate_Strip x" for x
    by (cases x) (simp_all add: ContainerUpdate_Strip_def Let_def linux_update.strip_strip)
qed

section \<open>Properties\<close>

text \<open>
  C33. Stripping an adjustment yields a canonical form: it can be repeated without effect, and two adjustments strip to
  the same if and only if they read the same, nil pointers, nil maps and nil slices counting as empty
  ones; provided that what stripping forgets to look at is not all there is (\<open>covered_adjustment\<close>).
\<close>

theorem adjustment_Strip_canonical:
  assumes "covered_adjustment a" and "covered_adjustment b"
  shows "(ContainerAdjustment_Strip a = ContainerAdjustment_Strip b \<longleftrightarrow> fill_adjustment a = fill_adjustment b) \<and>
    ContainerAdjustment_Strip (ContainerAdjustment_Strip a) = ContainerAdjustment_Strip a"
  using adjustment.same_strip [OF assms] adjustment.strip_strip by blast

theorem adjustment_Strip_canonical_witness:
  "ContainerAdjustment_Strip (Some (zero_adjustment\<lparr>adj_hooks := Some zero_hooks, adj_args := [''a'']\<rparr>)) =
   ContainerAdjustment_Strip (Some (zero_adjustment\<lparr>adj_args := [''a''], adj_annotations := Some []\<rparr>))"
proof -
  have "covered_adjustment (Some (zero_adjustment\<lparr>adj_hooks := Some zero_hooks, adj_args := [''a'']\<rparr>))"
    "covered_adjustment (Some (zero_adjustment\<lparr>adj_args := [''a''], adj_annotations := Some []\<rparr>))"
    by (simp_all add: covered_adjustment_def covered_linux_def zero_adjustment_def)
  from adjustment_Strip_canonical [OF this] show ?thesis
    by (simp add: fill_adjustment_def Let_def zero_adjustment_def gmap_entries_def)
qed

text \<open>
  The same for container updates, provided that an update that strips to nothing names no container.
\<close>

theorem update_Strip_canonical:
  assumes "covered_update u" and "covered_update v"
  shows "(ContainerUpdate_Strip u = ContainerUpdate_Strip v \<longleftrightarrow> fill_update u = fill_update v) \<and>
    ContainerUpdate_Strip (ContainerUpdate_Strip u) = ContainerUpdate_Strip u"
  using update.same_strip [OF assms] update.strip_strip by blast

theorem update_Strip_canonical_witness:
  "ContainerUpdate_Strip (Some (zero_update\<lparr>cu_linux := Some \<lparr>lu_resources = Some zero_resources\<rparr>\<rparr>)) = ContainerUpdate_Strip None"
proof -
  have "covered_update (Some (zero_update\<lparr>cu_linux := Some \<lparr>lu_resources = Some zero_resources\<rparr>\<rparr>))" "covered_update None"
    by (simp_all add: covered_update_def zero_update_def)
  from update_Strip_canonical [OF this] show ?thesis
    by (simp add: fill_update_def fill_linux_update_def fill_resources_def Let_def zero_update_def)
qed

text \<open>
  What stripping loses: an adjustment that sets nothing but I/O priority, seccomp policy, namespaces, sysctls,
  network devices, scheduler or the removal of RDT strips to nothing, like an empty one; so does an update that
  names a container but asks for nothing.
\<close>

theorem Strip_forgets:
  "ContainerAdjustment_Strip (Some (zero_adjustment\<lparr>adj_linux := Some (zero_linux_adjustment\<lparr>
     la_io_priority := io, la_seccomp_policy := sec, la_namespaces := ns, la_sysctl := sys, la_net_devices := net,
     la_scheduler := sch, la_rdt := Some (zero_rdt\<lparr>rdt_remove := rm\<rparr>)\<rparr>)\<rparr>)) = None \<and>
   ContainerUpdate_Strip (Some (zero_update\<lparr>cu_container_id := cid\<rparr>)) = None"
  by (simp add: ContainerAdjustment_Strip_def LinuxAdjustment_Strip_def LinuxResources_Strip_def LinuxRdt_Strip_def
      Hooks_Strip_def ContainerUpdate_Strip_def LinuxContainerUpdate_Strip_def Let_def zero_defs zero_update_def
      drop_empty_def gmap_entries_def)

end
