(* ===== verification/Relay.thy ===== *)
theory Relay
  imports Result Events "HOL-Library.List_Lexorder" "HOL-Library.Char_ord"
begin

text \<open>
  The relay of the runtime's requests and events over the connected plugins
  (\<^verbatim>\<open>src/pkg/adaptation/adaptation.go\<close> and the request half of \<^verbatim>\<open>src/pkg/adaptation/plugin.go\<close>, with
  the validation request of \<^verbatim>\<open>src/pkg/api/validate.go\<close>).

  The code keeps pointers to plugins in two slices, plugins and validators, and a plugin that fails
  fatally is closed through either. \<open>ad_table\<close> is the store the pointers point into and the slices
  hold keys of it. What a remote plugin answers is a parameter: a function from the plugin and the
  request it is sent to a reply or an error. A request holds the runtime's lock until it
  returns, and one request calls a plugin at most once per method, so the function
  need not keep a state. Stopping the process of a closed plugin is not modelled.
\<close>

section \<open>State\<close>

record plugin =
  pl_idx :: string
  pl_base :: string
  pl_events :: event_mask
  pl_closed :: bool

record adaptation =
  ad_table :: "nat \<Rightarrow> plugin"
  ad_plugins :: "nat list"
  ad_validators :: "nat list"

record plugin_instance =
  pi_name :: string
  pi_index :: string

record validate_request =
  vr_pod :: "pod_sandbox option"
  vr_container :: "container option"
  vr_adjust :: "container_adjustment option"
  vr_update :: "container_update option list"
  vr_owners :: "owning_plugins option"
  vr_plugins :: "plugin_instance list"

record stop_request =
  sr_pod :: "pod_sandbox option"
  sr_container :: "container option"

record pod_update_request =
  upr_pod :: "pod_sandbox option"
  upr_overhead :: "linux_resources option"
  upr_resources :: "linux_resources option"

record validate_response =
  vrs_reject :: bool
  vrs_reason :: string

text \<open>An error of a call to a plugin: those the code singles out, and any other.\<close>

datatype rpc_error = ErrClosed | ErrServerClosed | ErrProtocol | DeadlineExceeded | RpcError string

datatype relay_error =
    Rpc rpc_error
  | Refused nri_error
  | ValidatorFailed string rpc_error
  | ValidatorRejected string string
  | UnsetEvent

datatype 'a outcome = Returned 'a | Error relay_error | Panic

section \<open>Plugins\<close>

definition plugin_qname :: "plugin \<Rightarrow> string" where
  "plugin_qname p = pl_idx p @ ''-'' @ pl_base p"

definition isFatalError :: "rpc_error \<Rightarrow> bool" where
  "isFatalError e = (case e of
     ErrClosed \<Rightarrow> True | ErrServerClosed \<Rightarrow> True | ErrProtocol \<Rightarrow> True | DeadlineExceeded \<Rightarrow> True
   | RpcError _ \<Rightarrow> False)"

definition subscribed :: "event \<Rightarrow> plugin \<Rightarrow> bool" where
  "subscribed e p \<longleftrightarrow> EventMask_IsSet e (pl_events p) = Some True"

definition isContainerAdjustmentValidator :: "plugin \<Rightarrow> bool" where
  "isContainerAdjustmentValidator p = subscribed 14 p"

definition plugin_close :: "nat \<Rightarrow> adaptation \<Rightarrow> adaptation" where
  "plugin_close i ad = ad\<lparr>ad_table := (ad_table ad)(i := (ad_table ad i)\<lparr>pl_closed := True\<rparr>)\<rparr>"

text \<open>
  The shape the relayed requests share: nothing for a plugin that has not subscribed, a fatal
  error closes the plugin and counts as no reply, any other error is returned.
\<close>

definition relay_call ::
    "event \<Rightarrow> nat \<Rightarrow> rpc_error + 'r option \<Rightarrow> adaptation \<Rightarrow> (relay_error + 'r option) \<times> adaptation" where
  "relay_call e i rpl ad =
     (if \<not> subscribed e (ad_table ad i) then (Inr None, ad)
      else (case rpl of
              Inr r \<Rightarrow> (Inr r, ad)
            | Inl err \<Rightarrow>
                if isFatalError err then (Inr None, plugin_close i ad) else (Inl (Rpc err), ad)))"

type_synonym ('q, 'r) impl = "nat \<Rightarrow> 'q \<Rightarrow> rpc_error + 'r option"

definition plugin_createContainer ::
    "(create_request, create_response) impl \<Rightarrow> nat \<Rightarrow> create_request \<Rightarrow> adaptation \<Rightarrow>
     (relay_error + create_response option) \<times> adaptation" where
  "plugin_createContainer impl i req = relay_call 4 i (impl i req)"

definition plugin_updateContainer ::
    "(update_request, update_response) impl \<Rightarrow> nat \<Rightarrow> update_request \<Rightarrow> adaptation \<Rightarrow>
     (relay_error + update_response option) \<times> adaptation" where
  "plugin_updateContainer impl i req = relay_call 8 i (impl i req)"

definition plugin_stopContainer ::
    "(stop_request, stop_response) impl \<Rightarrow> nat \<Rightarrow> stop_request \<Rightarrow> adaptation \<Rightarrow>
     (relay_error + stop_response option) \<times> adaptation" where
  "plugin_stopContainer impl i req = relay_call 10 i (impl i req)"

definition plugin_updatePodSandbox ::
    "(pod_update_request, unit) impl \<Rightarrow> nat \<Rightarrow> pod_update_request \<Rightarrow> adaptation \<Rightarrow> (relay_error + unit option) \<times> adaptation" where
  "plugin_updatePodSandbox impl i req = relay_call 12 i (impl i req)"

text \<open>
  An event outside the enumeration may have no bit to test, and then testing it panics.
\<close>

definition plugin_StateChange ::
    "(event, unit) impl \<Rightarrow> nat \<Rightarrow> event \<Rightarrow> (relay_error, adaptation) action" where
  "plugin_StateChange impl i evt ad =
     (case EventMask_IsSet evt (pl_events (ad_table ad i)) of
        None \<Rightarrow> (Panicked, ad)
      | Some False \<Rightarrow> (Done, ad)
      | Some True \<Rightarrow>
          (case impl i evt of
             Inr _ \<Rightarrow> (Done, ad)
           | Inl err \<Rightarrow>
               if isFatalError err then (Done, plugin_close i ad) else (Failed (Rpc err), ad)))"

section \<open>Validation\<close>

definition AddPlugin :: "string \<Rightarrow> string \<Rightarrow> validate_request \<Rightarrow> validate_request" where
  "AddPlugin name index v = v\<lparr>vr_plugins := vr_plugins v @ [\<lparr>pi_name = name, pi_index = index\<rparr>]\<rparr>"

definition AddResponse :: "create_response \<Rightarrow> validate_request \<Rightarrow> validate_request" where
  "AddResponse rpl v = v\<lparr>vr_adjust := crs_adjust rpl, vr_update := crs_update rpl\<rparr>"

definition AddOwners :: "owning_plugins \<Rightarrow> validate_request \<Rightarrow> validate_request" where
  "AddOwners owners v = v\<lparr>vr_owners := Some owners\<rparr>"

definition ValidationResult :: "string \<Rightarrow> validate_response \<Rightarrow> relay_error option" where
  "ValidationResult plugin v =
     (if \<not> vrs_reject v then None
      else Some (ValidatorRejected plugin
        (if vrs_reason v = [] then ''unknown rejection reason'' else vrs_reason v)))"

text \<open>\<open>None\<close>: no error. Unlike in the other requests, a fatal error is an error here too.\<close>

type_synonym vimpl = "nat \<Rightarrow> validate_request \<Rightarrow> rpc_error + validate_response"

definition plugin_validate ::
    "vimpl \<Rightarrow> validate_request \<Rightarrow> nat \<Rightarrow> adaptation \<Rightarrow> relay_error option \<times> adaptation" where
  "plugin_validate impl req i ad =
     (if \<not> subscribed 14 (ad_table ad i) then (None, ad)
      else (case impl i req of
              Inl err \<Rightarrow>
                (Some (ValidatorFailed (plugin_qname (ad_table ad i)) err),
                 if isFatalError err then plugin_close i ad else ad)
            | Inr rpl \<Rightarrow> (ValidationResult (plugin_qname (ad_table ad i)) rpl, ad)))"

definition hasValidators :: "adaptation \<Rightarrow> bool" where
  "hasValidators ad \<longleftrightarrow> length (ad_validators ad) > 0"

text \<open>
  The validators run concurrently: all are called, and the reported error is the first in the order
  \<open>vord\<close> in which their results arrive.
\<close>

definition validateContainerAdjustment ::
    "vimpl \<Rightarrow> (nat list \<Rightarrow> nat list) \<Rightarrow> validate_request option \<Rightarrow> result \<Rightarrow> adaptation \<Rightarrow>
     create_response outcome \<times> adaptation" where
  "validateContainerAdjustment impl vord req s ad =
     (let rpl = createContainerResponse s in
      case req of
        None \<Rightarrow> (Returned rpl, ad)
      | Some v \<Rightarrow>
         if length (ad_validators ad) = 0 then (Returned rpl, ad)
         else
           (let v' = AddOwners (rs_owners s) (AddResponse rpl v);
                ad' = fold (\<lambda>i a. snd (plugin_validate impl v' i a)) (ad_validators ad) ad;
                errors = map (\<lambda>i. fst (plugin_validate impl v' i ad)) (vord (ad_validators ad))
            in case find (\<lambda>e. e \<noteq> None) errors of
                 Some (Some e) \<Rightarrow> (Error e, ad')
               | _ \<Rightarrow> (Returned rpl, ad')))"

section \<open>Requests\<close>

definition removeClosedPlugins :: "adaptation \<Rightarrow> adaptation" where
  "removeClosedPlugins ad =
     (let active = filter (\<lambda>i. \<not> pl_closed (ad_table ad i)) (ad_plugins ad) in
      ad\<lparr>ad_plugins := active,
         ad_validators := filter (\<lambda>i. isContainerAdjustmentValidator (ad_table ad i)) active\<rparr>)"

text \<open>One round of a request's loop over the plugins, on the adaptation and the result.\<close>

definition apply_relayed ::
    "(string list \<Rightarrow> string list) \<Rightarrow> ('r option \<Rightarrow> response) \<Rightarrow> string \<Rightarrow>
     (relay_error + 'r option) \<times> adaptation \<Rightarrow> (relay_error, adaptation \<times> result) action" where
  "apply_relayed ord wrap name called st =
     (case called of
        (Inl e, ad') \<Rightarrow> (Failed e, (ad', snd st))
      | (Inr rpl, ad') \<Rightarrow>
          (case apply_reply ord (wrap rpl) name (snd st) of
             (Done, s') \<Rightarrow> (Done, (ad', s'))
           | (Failed e, s') \<Rightarrow> (Failed (Refused e), (ad', s'))
           | (Panicked, s') \<Rightarrow> (Panicked, (ad', s'))))"

text \<open>
  The code passes its own pointer to the request, which is also the one the result holds and
  adjusts: a plugin sees the adjustments of those before it.
\<close>

definition create_round ::
    "(create_request, create_response) impl \<Rightarrow> (string list \<Rightarrow> string list) \<Rightarrow> create_request \<Rightarrow> nat \<Rightarrow>
     (relay_error, adaptation \<times> result) action" where
  "create_round impl ord req i st =
     (let req' = (case rq_create (rs_request (snd st)) of None \<Rightarrow> req | Some q \<Rightarrow> q) in
      apply_relayed ord CreateReply (plugin_qname (ad_table (fst st) i))
        (plugin_createContainer impl i req' (fst st)) st)"

text \<open>
  The loop of \<^verbatim>\<open>CreateContainer\<close>: the plugin is recorded in the validation request, if there is one,
  and then called.
\<close>

definition create_body ::
    "(create_request, create_response) impl \<Rightarrow> (string list \<Rightarrow> string list) \<Rightarrow> create_request \<Rightarrow> nat \<Rightarrow>
     (relay_error, (adaptation \<times> result) \<times> validate_request option) action" where
  "create_body impl ord req i = run
     [assign (\<lambda>(st, v). (st, map_option
        (AddPlugin (pl_base (ad_table (fst st) i)) (pl_idx (ad_table (fst st) i))) v)),
      on_part fst (\<lambda>st (_, v). (st, v)) (create_round impl ord req i)]"

definition CreateContainer ::
    "(create_request, create_response) impl \<Rightarrow> vimpl \<Rightarrow> (string list \<Rightarrow> string list) \<Rightarrow>
     (nat list \<Rightarrow> nat list) \<Rightarrow> create_request \<Rightarrow> adaptation \<Rightarrow> create_response outcome \<times> adaptation" where
  "CreateContainer impl vimpl ord vord req ad =
     (case collectCreateContainerResult req of
        None \<Rightarrow> (Panic, removeClosedPlugins ad)
      | Some s0 \<Rightarrow>
         (let validate =
                (if hasValidators ad
                 then Some \<lparr>vr_pod = cr_pod req, vr_container = create_container s0, vr_adjust = None,
                   vr_update = [], vr_owners = None, vr_plugins = []\<rparr>
                 else None)
          in case for_each (ad_plugins ad) (create_body impl ord req) ((ad, s0), validate) of
               (Failed e, ((ad', _), _)) \<Rightarrow> (Error e, removeClosedPlugins ad')
             | (Panicked, ((ad', _), _)) \<Rightarrow> (Panic, removeClosedPlugins ad')
             | (Done, ((ad', s), v)) \<Rightarrow>
                 (case validateContainerAdjustment vimpl vord v s ad' of
                    (res, ad'') \<Rightarrow> (res, removeClosedPlugins ad''))))"

definition update_round ::
    "(update_request, update_response) impl \<Rightarrow> (string list \<Rightarrow> string list) \<Rightarrow> update_request \<Rightarrow> nat \<Rightarrow>
     (relay_error, adaptation \<times> result) action" where
  "update_round impl ord req i st =
     (let req' = (case rq_update (rs_request (snd st)) of None \<Rightarrow> req | Some q \<Rightarrow> q) in
      apply_relayed ord UpdateReply (plugin_qname (ad_table (fst st) i))
        (plugin_updateContainer impl i req' (fst st)) st)"

definition UpdateContainer ::
    "(update_request, update_response) impl \<Rightarrow> (string list \<Rightarrow> string list) \<Rightarrow> update_request \<Rightarrow>
     adaptation \<Rightarrow> update_response outcome \<times> adaptation" where
  "UpdateContainer impl ord req ad =
     (case for_each (ad_plugins ad) (update_round impl ord req) (ad, collectUpdateContainerResult (Some req)) of
        (Failed e, (ad', _)) \<Rightarrow> (Error e, removeClosedPlugins ad')
      | (Panicked, (ad', _)) \<Rightarrow> (Panic, removeClosedPlugins ad')
      | (Done, (ad', s)) \<Rightarrow>
          ((case updateContainerResponse s of None \<Rightarrow> Panic | Some rpl \<Rightarrow> Returned rpl),
           removeClosedPlugins ad'))"

definition stop_round ::
    "(stop_request, stop_response) impl \<Rightarrow> (string list \<Rightarrow> string list) \<Rightarrow> stop_request \<Rightarrow> nat \<Rightarrow>
     (relay_error, adaptation \<times> result) action" where
  "stop_round impl ord req i st =
     apply_relayed ord StopReply (plugin_qname (ad_table (fst st) i))
       (plugin_stopContainer impl i req (fst st)) st"

definition StopContainer ::
    "(stop_request, stop_response) impl \<Rightarrow> (string list \<Rightarrow> string list) \<Rightarrow> stop_request \<Rightarrow>
     adaptation \<Rightarrow> stop_response outcome \<times> adaptation" where
  "StopContainer impl ord req ad =
     (case for_each (ad_plugins ad) (stop_round impl ord req) (ad, collectStopContainerResult) of
        (Failed e, (ad', _)) \<Rightarrow> (Error e, removeClosedPlugins ad')
      | (Panicked, (ad', _)) \<Rightarrow> (Panic, removeClosedPlugins ad')
      | (Done, (ad', s)) \<Rightarrow> (Returned (stopContainerResponse s), removeClosedPlugins ad'))"

definition UpdatePodSandbox ::
    "(pod_update_request, unit) impl \<Rightarrow> pod_update_request \<Rightarrow> adaptation \<Rightarrow> unit outcome \<times> adaptation" where
  "UpdatePodSandbox impl req ad =
     (case for_each (ad_plugins ad) (\<lambda>i a.
        case plugin_updatePodSandbox impl i req a of
          (Inl e, a') \<Rightarrow> (Failed e, a') | (Inr _, a') \<Rightarrow> (Done, a')) ad of
        (Failed e, ad') \<Rightarrow> (Error e, removeClosedPlugins ad')
      | (Panicked, ad') \<Rightarrow> (Panic, removeClosedPlugins ad')
      | (Done, ad') \<Rightarrow> (Returned (), removeClosedPlugins ad'))"

definition StateChange :: "(event, unit) impl \<Rightarrow> event \<Rightarrow> adaptation \<Rightarrow> unit outcome \<times> adaptation" where
  "StateChange impl evt ad =
     (if evt = Event_UNKNOWN then (Error UnsetEvent, ad)
      else (case for_each (ad_plugins ad) (\<lambda>i. plugin_StateChange impl i evt) ad of
              (Failed e, ad') \<Rightarrow> (Error e, removeClosedPlugins ad')
            | (Panicked, ad') \<Rightarrow> (Panic, removeClosedPlugins ad')
            | (Done, ad') \<Rightarrow> (Returned (), removeClosedPlugins ad')))"

section \<open>Registration\<close>

text \<open>
  \<^verbatim>\<open>sort.Slice\<close> sorts by index and is not stable: \<open>sorter\<close> stands for its choice among the sorted
  permutations.
\<close>

definition sortPlugins :: "((nat \<Rightarrow> string) \<Rightarrow> nat list \<Rightarrow> nat list) \<Rightarrow> adaptation \<Rightarrow> adaptation" where
  "sortPlugins sorter ad =
     (let a = removeClosedPlugins ad in
      a\<lparr>ad_plugins := sorter (\<lambda>i. pl_idx (ad_table a i)) (ad_plugins a),
        ad_validators := sorter (\<lambda>i. pl_idx (ad_table a i)) (ad_validators a)\<rparr>)"

text \<open>\<^verbatim>\<open>stopPlugins\<close>, on the lists: the plugins are forgotten, the validators are not.\<close>

definition forget_plugins :: "adaptation \<Rightarrow> adaptation" where
  "forget_plugins ad = ad\<lparr>ad_plugins := []\<rparr>"

datatype registration_error = EmptyName | BadIndex name_error | InvalidEvents event_mask | ConfigureFailed rpc_error

text \<open>An external plugin's registration; a plugin the runtime launched keeps its name.\<close>

definition RegisterPlugin :: "bool \<Rightarrow> string \<Rightarrow> string \<Rightarrow> plugin \<Rightarrow> registration_error option \<times> plugin" where
  "RegisterPlugin external name idx p =
     (if external then
        if name = [] then (Some EmptyName, p)
        else (case CheckPluginIndex idx of
                Some e \<Rightarrow> (Some (BadIndex e), p)
              | None \<Rightarrow> (None, p\<lparr>pl_base := name, pl_idx := idx\<rparr>))
      else (None, p))"

definition configure :: "rpc_error + event_mask \<Rightarrow> plugin \<Rightarrow> registration_error option \<times> plugin" where
  "configure rpl p =
     (case rpl of
        Inl err \<Rightarrow> (Some (ConfigureFailed err), p)
      | Inr events \<Rightarrow>
         if events \<noteq> 0 then
           (let extra = and events (not ValidEvents) in
            if extra \<noteq> 0 then (Some (InvalidEvents extra), p) else (None, p\<lparr>pl_events := events\<rparr>))
         else (None, p\<lparr>pl_events := ValidEvents\<rparr>))"

text \<open>
  The end of \<^verbatim>\<open>startPlugins\<close>, for the plugins that were started and synchronised.
\<close>

definition start_plugins ::
    "((nat \<Rightarrow> string) \<Rightarrow> nat list \<Rightarrow> nat list) \<Rightarrow> (nat \<Rightarrow> plugin) \<Rightarrow> nat list \<Rightarrow> adaptation \<Rightarrow> adaptation" where
  "start_plugins sorter table ids ad = sortPlugins sorter (ad\<lparr>ad_table := table, ad_plugins := ids\<rparr>)"

text \<open>The last part of accepting an external plugin, once it is registered and synchronised.\<close>

definition add_plugin ::
    "((nat \<Rightarrow> string) \<Rightarrow> nat list \<Rightarrow> nat list) \<Rightarrow> nat \<Rightarrow> plugin \<Rightarrow> adaptation \<Rightarrow> adaptation" where
  "add_plugin sorter i p ad =
     sortPlugins sorter (ad\<lparr>
       ad_table := (ad_table ad)(i := p),
       ad_plugins := ad_plugins ad @ [i],
       ad_validators := ad_validators ad @ (if isContainerAdjustmentValidator p then [i] else [])\<rparr>)"

end
