(* ===== verification/Relay_Laws.thy ===== *)
theory Relay_Laws
  imports Relay Update_Laws
begin

text \<open>
  What the relay guarantees whatever the plugins answer: which plugins it calls and in which order, that a
  plugin that fails fatally leaves no trace in the response, that no adjustment is returned without
  every validator's consent, and that the runtime does not panic.
\<close>

section \<open>Closing plugins\<close>

text \<open>A request changes the table only by closing plugins, and the lists not at all until its end.\<close>

definition only_closes :: "adaptation \<Rightarrow> adaptation \<Rightarrow> bool" where
  "only_closes ad ad' \<longleftrightarrow>
     ad_plugins ad' = ad_plugins ad \<and> ad_validators ad' = ad_validators ad \<and>
     (\<forall>i. pl_idx (ad_table ad' i) = pl_idx (ad_table ad i) \<and>
          pl_base (ad_table ad' i) = pl_base (ad_table ad i) \<and>
          pl_events (ad_table ad' i) = pl_events (ad_table ad i) \<and>
          (pl_closed (ad_table ad i) \<longrightarrow> pl_closed (ad_table ad' i)))"

lemma only_closes_refl [simp]: "only_closes ad ad"
  by (simp add: only_closes_def)

lemma only_closes_trans: "only_closes a b \<Longrightarrow> only_closes b c \<Longrightarrow> only_closes a c"
  by (simp add: only_closes_def)

lemma only_closes_close [simp]: "only_closes ad (plugin_close i ad)"
  by (simp add: only_closes_def plugin_close_def)

lemma only_closes_subscribed: "only_closes ad ad' \<Longrightarrow> subscribed e (ad_table ad' i) = subscribed e (ad_table ad i)"
  by (simp add: only_closes_def subscribed_def)

lemma only_closes_name: "only_closes ad ad' \<Longrightarrow> plugin_qname (ad_table ad' i) = plugin_qname (ad_table ad i)"
  by (simp add: only_closes_def plugin_qname_def)

lemma relay_call_closes: "only_closes ad (snd (relay_call e i rpl ad))"
  by (auto simp: relay_call_def split: sum.split)

text \<open>Every loop whose body only closes plugins only closes plugins.\<close>

lemma for_each_closes:
  assumes "\<And>x st. only_closes (get st) (get (snd (body x st)))"
  shows "only_closes (get st) (get (snd (for_each xs body st)))"
proof (induction xs arbitrary: st)
  case Nil
  then show ?case by simp
next
  case (Cons x xs)
  show ?case
  proof (cases "fst (body x st) = Done")
    case True
    then have "body x st = (Done, snd (body x st))" by (cases "body x st") simp
    then have "for_each (x # xs) body st = for_each xs body (snd (body x st))" by (rule for_each_step)
    then show ?thesis using only_closes_trans [OF assms Cons.IH] by simp
  next
    case False
    then show ?thesis by (simp add: for_each_stop assms)
  qed
qed

lemma loop_closes:
  assumes "for_each xs body st = (r, st')"
    and "\<And>x st. only_closes (get st) (get (snd (body x st)))"
  shows "only_closes (get st) (get st')"
  using for_each_closes [of get body st xs, OF assms(2)] assms(1) by simp

lemma apply_relayed_closes:
  assumes "only_closes (fst st) (snd called)"
  shows "only_closes (fst st) (fst (snd (apply_relayed ord wrap name called st)))"
  using assms by (cases called) (auto simp: apply_relayed_def split: sum.split prod.split status.split)

lemma create_round_closes: "only_closes (fst st) (fst (snd (create_round impl ord req i st)))"
  by (simp add: create_round_def plugin_createContainer_def Let_def apply_relayed_closes relay_call_closes)

lemma create_body_closes:
  "only_closes (fst (fst st)) (fst (fst (snd (create_body impl ord req i st))))"
  using create_round_closes [of "fst st" impl ord req i]
  by (cases st) (auto simp: create_body_def on_part_def split: prod.split status.split)

lemma update_round_closes: "only_closes (fst st) (fst (snd (update_round impl ord req i st)))"
  by (simp add: update_round_def plugin_updateContainer_def Let_def apply_relayed_closes relay_call_closes)

lemma stop_round_closes: "only_closes (fst st) (fst (snd (stop_round impl ord req i st)))"
  by (auto simp: stop_round_def plugin_stopContainer_def intro!: apply_relayed_closes relay_call_closes)

lemma plugin_StateChange_closes: "only_closes ad (snd (plugin_StateChange impl i evt ad))"
  by (auto simp: plugin_StateChange_def split: option.split bool.split sum.split)

lemma plugin_validate_closes: "only_closes ad (snd (plugin_validate impl v i ad))"
  by (auto simp: plugin_validate_def split: sum.split)

lemma validate_fold_closes: "only_closes ad (fold (\<lambda>i a. snd (plugin_validate impl v i a)) is ad)"
proof (induction "is" arbitrary: ad)
  case Nil
  then show ?case by simp
next
  case (Cons i "is")
  show ?case using only_closes_trans [OF plugin_validate_closes [of ad impl v i] Cons.IH] by simp
qed

lemma validate_closes: "only_closes ad (snd (validateContainerAdjustment impl vord v s ad))"
  by (auto simp: validateContainerAdjustment_def Let_def validate_fold_closes split: option.split)

text \<open>So each request ends in \<open>removeClosedPlugins\<close> of a state with the lists it started with.\<close>

definition after_request :: "adaptation \<Rightarrow> adaptation \<Rightarrow> bool" where
  "after_request ad ad' \<longleftrightarrow> (\<exists>mid. only_closes ad mid \<and> ad' = removeClosedPlugins mid)"

lemma after_request_I: "only_closes ad mid \<Longrightarrow> after_request ad (removeClosedPlugins mid)"
  by (auto simp: after_request_def)

lemma CreateContainer_after: "after_request ad (snd (CreateContainer impl vimpl ord vord req ad))"
proof (cases "collectCreateContainerResult req")
  case None
  then show ?thesis by (simp add: CreateContainer_def after_request_I)
next
  case (Some s0)
  define v0 where "v0 = (if hasValidators ad
     then Some \<lparr>vr_pod = cr_pod req, vr_container = create_container s0, vr_adjust = None,
       vr_update = [], vr_owners = None, vr_plugins = []\<rparr> else None)"
  obtain st ad' s v where r: "for_each (ad_plugins ad) (create_body impl ord req) ((ad, s0), v0) = (st, ((ad', s), v))"
    by (metis surj_pair)
  have a: "only_closes ad ad'"
    using loop_closes [where get = "\<lambda>x. fst (fst x)", OF r create_body_closes] by simp
  obtain res ad'' where v: "validateContainerAdjustment vimpl vord v s ad' = (res, ad'')" by fastforce
  have b: "only_closes ad ad''"
    using only_closes_trans [OF a validate_closes [of ad' vimpl vord v s]] v by simp
  show ?thesis unfolding CreateContainer_def Some Let_def option.case v0_def [symmetric] r
    using after_request_I [OF a] after_request_I [OF b] v by (cases st) simp_all
qed

lemma UpdateContainer_after: "after_request ad (snd (UpdateContainer impl ord req ad))"
proof -
  obtain st ad' s where r: "for_each (ad_plugins ad) (update_round impl ord req)
      (ad, collectUpdateContainerResult (Some req)) = (st, (ad', s))" by (metis surj_pair)
  have a: "only_closes ad ad'"
    using loop_closes [where get = fst, OF r update_round_closes] by simp
  show ?thesis unfolding UpdateContainer_def r using after_request_I [OF a] by (cases st) simp_all
qed

lemma StopContainer_after: "after_request ad (snd (StopContainer impl ord req ad))"
proof -
  obtain st ad' s where r: "for_each (ad_plugins ad) (stop_round impl ord req)
      (ad, collectStopContainerResult) = (st, (ad', s))" by (metis surj_pair)
  have a: "only_closes ad ad'"
    using loop_closes [where get = fst, OF r stop_round_closes] by simp
  show ?thesis unfolding StopContainer_def r using after_request_I [OF a] by (cases st) simp_all
qed

lemma UpdatePodSandbox_after: "after_request ad (snd (UpdatePodSandbox impl req ad))"
proof -
  let ?body = "\<lambda>i a. case plugin_updatePodSandbox impl i req a of
          (Inl e, a') \<Rightarrow> (Failed e, a') | (Inr _, a') \<Rightarrow> (Done, a')"
  obtain st ad' where r: "for_each (ad_plugins ad) ?body ad = (st, ad')" by fastforce
  have "only_closes a (snd (?body i a))" for i a
    using relay_call_closes [of a 12 i "impl i req"]
    by (auto simp: plugin_updatePodSandbox_def split: prod.split sum.split)
  then have a: "only_closes ad ad'" using loop_closes [where get = "\<lambda>x. x", OF r] by simp
  show ?thesis unfolding UpdatePodSandbox_def r using after_request_I [OF a] by (cases st) simp_all
qed

lemma StateChange_after: "evt \<noteq> Event_UNKNOWN \<Longrightarrow> after_request ad (snd (StateChange impl evt ad))"
proof -
  assume e: "evt \<noteq> Event_UNKNOWN"
  obtain st ad' where r: "for_each (ad_plugins ad) (\<lambda>i. plugin_StateChange impl i evt) ad = (st, ad')"
    by fastforce
  have a: "only_closes ad ad'"
    using loop_closes [where get = "\<lambda>x. x", OF r] plugin_StateChange_closes by simp
  show ?thesis unfolding StateChange_def r using e after_request_I [OF a] by (cases st) simp_all
qed

lemmas request_after = CreateContainer_after UpdateContainer_after StopContainer_after
  UpdatePodSandbox_after StateChange_after

section \<open>Invariant of the plugin lists\<close>

text \<open>
  Plugins are called in the order of their indices; the validators are the plugins that subscribed to
  validation, in the same order.
\<close>

definition by_index :: "adaptation \<Rightarrow> nat list \<Rightarrow> bool" where
  "by_index ad is \<longleftrightarrow> sorted (map (\<lambda>i. pl_idx (ad_table ad i)) is)"

definition ad_ok :: "adaptation \<Rightarrow> bool" where
  "ad_ok ad \<longleftrightarrow> distinct (ad_plugins ad) \<and> by_index ad (ad_plugins ad) \<and> by_index ad (ad_validators ad) \<and>
     distinct (ad_validators ad) \<and>
     set (ad_validators ad) = {i \<in> set (ad_plugins ad). isContainerAdjustmentValidator (ad_table ad i)}"

definition is_sorter :: "((nat \<Rightarrow> string) \<Rightarrow> nat list \<Rightarrow> nat list) \<Rightarrow> bool" where
  "is_sorter sorter \<longleftrightarrow> (\<forall>f xs. mset (sorter f xs) = mset xs \<and> sorted (map f (sorter f xs)))"

text \<open>
  The steps of a runtime: what may happen to the adaptation between and during requests, each with a label. A plugin may
  register again at any time, in service or not: its handler takes no lock of the runtime. Each step is atomic.
\<close>

datatype ad_label = Starts | Joins | Drops | Renames | Serves | Ignores | Shuts

inductive ad_step :: "adaptation \<Rightarrow> ad_label \<Rightarrow> adaptation \<Rightarrow> bool" where
  start: "is_sorter sorter \<Longrightarrow> distinct ids \<Longrightarrow> ad_step ad Starts (start_plugins sorter table ids ad)"
| connect: "is_sorter sorter \<Longrightarrow> i \<notin> set (ad_plugins ad) \<Longrightarrow> i \<notin> set (ad_validators ad) \<Longrightarrow>
    ad_step ad Joins (add_plugin sorter i p ad)"
| disconnect: "ad_step ad Drops (plugin_close i ad)"
| re_register: "RegisterPlugin external name idx (ad_table ad i) = (r, p) \<Longrightarrow>
    ad_step ad Renames (ad\<lparr>ad_table := (ad_table ad)(i := p)\<rparr>)"
| create: "ad_step ad Serves (snd (CreateContainer cimpl vimpl ord vord creq ad))"
| update: "ad_step ad Serves (snd (UpdateContainer uimpl ord ureq ad))"
| stop: "ad_step ad Serves (snd (StopContainer simpl ord sreq ad))"
| update_pod: "ad_step ad Serves (snd (UpdatePodSandbox pimpl preq ad))"
| event: "evt \<noteq> Event_UNKNOWN \<Longrightarrow> ad_step ad Serves (snd (StateChange eimpl evt ad))"
| unset_event: "ad_step ad Ignores (snd (StateChange eimpl Event_UNKNOWN ad))"
| shutdown: "ad_step ad Shuts (forget_plugins ad)"

inductive ad_run :: "adaptation \<Rightarrow> ad_label list \<Rightarrow> adaptation \<Rightarrow> bool" where
  run_nil: "ad_run ad [] ad"
| run_snoc: "ad_run ad ls b \<Longrightarrow> ad_step b l c \<Longrightarrow> ad_run ad (ls @ [l]) c"

text \<open>No \<open>bad\<close> step has happened since the last \<open>good\<close> one.\<close>

definition none_since :: "ad_label \<Rightarrow> ad_label set \<Rightarrow> ad_label list \<Rightarrow> bool" where
  "none_since bad good ls \<longleftrightarrow> bad \<notin> set (takeWhile (\<lambda>l. l \<notin> good) (rev ls))"

lemma none_since_simps [simp]:
  "none_since bad good []"
  "none_since bad good (ls @ [l]) \<longleftrightarrow> l \<in> good \<or> l \<noteq> bad \<and> none_since bad good ls"
  by (auto simp: none_since_def)

definition no_plugins :: "adaptation \<Rightarrow> bool" where
  "no_plugins ad \<longleftrightarrow> ad_plugins ad = [] \<and> ad_validators ad = []"

text \<open>The validators are the plugins that validate.\<close>

definition exact_validators :: "adaptation \<Rightarrow> bool" where
  "exact_validators ad \<longleftrightarrow>
     set (ad_validators ad) = {i \<in> set (ad_plugins ad). isContainerAdjustmentValidator (ad_table ad i)}"

definition ad_inv :: "ad_label list \<Rightarrow> adaptation \<Rightarrow> bool" where
  "ad_inv ls ad \<longleftrightarrow> distinct (ad_plugins ad) \<and> distinct (ad_validators ad) \<and>
     (none_since Renames {Starts, Joins} ls \<longrightarrow> by_index ad (ad_plugins ad) \<and> by_index ad (ad_validators ad)) \<and>
     (none_since Shuts {Starts, Joins, Serves} ls \<longrightarrow> exact_validators ad)"

lemma ad_ok_inv: "ad_ok ad \<Longrightarrow> ad_inv ls ad"
  by (simp add: ad_ok_def ad_inv_def exact_validators_def)

lemma after_request_inv:
  assumes "ad_inv ls ad" and "after_request ad ad'"
  shows "ad_inv (ls @ [Serves]) ad'"
proof -
  obtain mid where m: "only_closes ad mid" "ad' = removeClosedPlugins mid"
    using assms(2) by (auto simp: after_request_def)
  then have "distinct (ad_plugins mid)" "none_since Renames {Starts, Joins} ls \<Longrightarrow> by_index mid (ad_plugins mid)"
    using assms(1) by (simp_all add: ad_inv_def by_index_def only_closes_def)
  with m(2) show ?thesis
    by (auto simp: ad_inv_def exact_validators_def by_index_def removeClosedPlugins_def Let_def sorted_filter)
qed

lemma sortPlugins_ok:
  assumes "is_sorter sorter" and "distinct (ad_plugins ad)"
  shows "ad_ok (sortPlugins sorter ad)"
proof -
  have m: "mset (sorter f xs) = mset xs" "sorted (map f (sorter f xs))" for f xs
    using assms(1) by (simp_all add: is_sorter_def)
  have s: "set (sorter f xs) = set xs" "distinct (sorter f xs) = distinct xs" for f xs
    using m(1) [of f xs] by (metis set_mset_mset, metis mset_eq_imp_distinct_iff)
  show ?thesis using assms(2)
    by (auto simp: ad_ok_def sortPlugins_def Let_def by_index_def removeClosedPlugins_def m(2) s)
qed

lemma ad_step_inv: "ad_step ad l ad' \<Longrightarrow> ad_inv ls ad \<Longrightarrow> ad_inv (ls @ [l]) ad'"
proof (induction rule: ad_step.induct)
  case (start sorter ids ad table)
  then show ?case by (intro ad_ok_inv) (simp add: start_plugins_def sortPlugins_ok)
next
  case (connect sorter i ad p)
  have "distinct (ad_plugins ad @ [i])" using connect(2,4) by (simp add: ad_inv_def)
  then show ?case unfolding add_plugin_def by (intro ad_ok_inv sortPlugins_ok [OF connect(1)]) simp
next
  case (disconnect ad i)
  then show ?case
    using only_closes_close [of ad i]
    by (auto simp: ad_inv_def exact_validators_def by_index_def only_closes_def isContainerAdjustmentValidator_def
        subscribed_def)
next
  case (re_register external name idx ad i r p)
  have "pl_events p = pl_events (ad_table ad i)"
    using re_register(1) by (auto simp: RegisterPlugin_def split: if_splits option.splits)
  then show ?case using re_register(2)
    by (auto simp: ad_inv_def exact_validators_def isContainerAdjustmentValidator_def subscribed_def)
next
  case (unset_event ad eimpl)
  then show ?case by (simp add: ad_inv_def StateChange_def)
next
  case (shutdown ad)
  then show ?case by (auto simp: ad_inv_def forget_plugins_def by_index_def)
qed (rule after_request_inv, assumption, rule request_after, assumption?)+

text \<open>
  C8. Whatever plugins connect, drop, register again and answer, in whatever order requests and events come, and even when
  the runtime is stopped: no plugin is called twice. The plugins and the validators are in index order, unless a plugin has
  registered again since the lists were last sorted, and the validators are exactly the plugins in service that subscribed to
  validation, unless the runtime has been stopped since the last request.
\<close>

theorem plugins_by_index:
  assumes "ad_run ad ls ad'" and "no_plugins ad"
  shows "distinct (ad_plugins ad') \<and> distinct (ad_validators ad') \<and>
    (none_since Renames {Starts, Joins} ls \<longrightarrow> by_index ad' (ad_plugins ad') \<and> by_index ad' (ad_validators ad')) \<and>
    (none_since Shuts {Starts, Joins, Serves} ls \<longrightarrow>
      set (ad_validators ad') = {i \<in> set (ad_plugins ad'). isContainerAdjustmentValidator (ad_table ad' i)})"
proof -
  have "ad_inv ls ad'" using assms
  proof (induction rule: ad_run.induct)
    case (run_nil ad)
    then show ?case by (simp add: no_plugins_def ad_inv_def exact_validators_def by_index_def)
  next
    case (run_snoc ad ls b l c)
    then show ?case by (blast intro: ad_step_inv)
  qed
  then show ?thesis by (simp add: ad_inv_def exact_validators_def)
qed

text \<open>Two plugins connect, the first registers again behind the second, the runtime stops, and serves one more event.\<close>

theorem plugins_by_index_witness:
  "let p = \<lambda>n. \<lparr>pl_idx = n, pl_base = ''a'', pl_events = ValidEvents, pl_closed = False\<rparr>;
       ad = \<lparr>ad_table = (\<lambda>_. p []), ad_plugins = [], ad_validators = []\<rparr>;
       both = add_plugin (\<lambda>f. sort_key f) 7 (p ''20'') (add_plugin (\<lambda>f. sort_key f) 3 (p ''10'') ad);
       renamed = both\<lparr>ad_table := (ad_table both)(3 := snd (RegisterPlugin True ''a'' ''30'' (ad_table both 3)))\<rparr>;
       after = snd (StateChange (\<lambda>_ _. Inr None) 1 (forget_plugins renamed))
   in distinct (ad_plugins renamed) \<and> set (ad_validators renamed) = {3, 7} \<and> ad_validators after = []"
proof -
  define p where "p = (\<lambda>n. \<lparr>pl_idx = n, pl_base = ''a'', pl_events = ValidEvents, pl_closed = False\<rparr>)"
  define ad where "ad = \<lparr>ad_table = (\<lambda>_. p []), ad_plugins = [], ad_validators = []\<rparr>"
  define one where "one = add_plugin (\<lambda>f. sort_key f) 3 (p ''10'') ad"
  define both where "both = add_plugin (\<lambda>f. sort_key f) 7 (p ''20'') one"
  define renamed where "renamed = both\<lparr>ad_table := (ad_table both)(3 := snd (RegisterPlugin True ''a'' ''30'' (ad_table both 3)))\<rparr>"
  define after where "after = snd (StateChange (\<lambda>_ _. Inr None) 1 (forget_plugins renamed))"
  have so: "is_sorter (\<lambda>f. sort_key f)" by (simp add: is_sorter_def)
  have e: "isContainerAdjustmentValidator q" if "pl_events q = ValidEvents" for q
    unfolding isContainerAdjustmentValidator_def subscribed_def that
    by (simp add: EventMask_IsSet_def ValidEvents_def event_bit_def Event_LAST_def)
  have v: "isContainerAdjustmentValidator (p n)" for n by (rule e) (simp add: p_def)
  have open_p: "\<not> pl_closed (p n)" for n by (simp add: p_def)
  have one: "set (ad_plugins one) = {3}" "set (ad_validators one) = {3}" "ad_table one = (ad_table ad)(3 := p ''10'')"
    using v [of "''10''"] unfolding one_def add_plugin_def sortPlugins_def removeClosedPlugins_def Let_def
    by (simp_all add: ad_def open_p)
  have both: "set (ad_plugins both) = {3, 7}" "ad_table both = (ad_table one)(7 := p ''20'')"
    unfolding both_def add_plugin_def sortPlugins_def removeClosedPlugins_def Let_def
    by (simp_all add: one open_p insert_commute)
  have s1: "ad_step ad Joins one" unfolding one_def by (rule ad_step.connect [OF so]) (simp_all add: ad_def)
  have s2: "ad_step one Joins both" unfolding both_def by (rule ad_step.connect [OF so]) (simp_all add: one)
  have s3: "ad_step both Renames renamed" unfolding renamed_def by (rule ad_step.re_register) (rule surjective_pairing)
  have s4: "ad_step (forget_plugins renamed) Serves after" unfolding after_def by (rule ad_step.event) (simp add: Event_UNKNOWN_def)
  note r1 = ad_run.run_snoc [OF ad_run.run_nil s1]
  note r3 = ad_run.run_snoc [OF ad_run.run_snoc [OF r1 s2] s3]
  note r5 = ad_run.run_snoc [OF ad_run.run_snoc [OF r3 ad_step.shutdown] s4]
  have n: "no_plugins ad" by (simp add: no_plugins_def ad_def)
  have "pl_events (snd (RegisterPlugin True ''a'' ''30'' q)) = pl_events q" for q
    by (simp add: RegisterPlugin_def split: option.split)
  moreover have "pl_events (p n) = ValidEvents" for n by (simp add: p_def)
  ultimately have "pl_events (ad_table renamed i) = ValidEvents" if "i = 3 \<or> i = 7" for i
    using that unfolding renamed_def by (auto simp: both(2) one(3))
  then have t: "isContainerAdjustmentValidator (ad_table renamed 3)" "isContainerAdjustmentValidator (ad_table renamed 7)"
    using e by blast+
  have "distinct (ad_plugins renamed) \<and> set (ad_validators renamed) = {3, 7}"
  proof -
    have pl: "set (ad_plugins renamed) = {3, 7}" using both(1) by (simp add: renamed_def)
    have "{i \<in> {3, 7}. isContainerAdjustmentValidator (ad_table renamed i)} = {3, 7}" using t by blast
    then show ?thesis using plugins_by_index [OF r3 n] by (simp add: none_since_def pl)
  qed
  moreover have "set (ad_validators after) = {}"
  proof -
    have "ad_plugins after = []"
      by (simp add: after_def StateChange_def Event_UNKNOWN_def forget_plugins_def removeClosedPlugins_def Let_def)
    then show ?thesis using plugins_by_index [OF r5 n] by (simp add: none_since_def)
  qed
  ultimately show ?thesis
    unfolding Let_def p_def [symmetric] ad_def [symmetric] one_def [symmetric] both_def [symmetric]
      renamed_def [symmetric] after_def [symmetric] by simp
qed

section \<open>Silent plugins\<close>

text \<open>
  A plugin that did not subscribe, or whose every answer is a fatal error, leaves the result as it is.
  States that differ only in which plugins are closed behave alike.
\<close>

definition same_but_closed :: "adaptation \<Rightarrow> adaptation \<Rightarrow> bool" where
  "same_but_closed a b \<longleftrightarrow> (\<forall>i. pl_idx (ad_table a i) = pl_idx (ad_table b i) \<and>
     pl_base (ad_table a i) = pl_base (ad_table b i) \<and> pl_events (ad_table a i) = pl_events (ad_table b i))"

definition silent :: "(create_request, create_response) impl \<Rightarrow> adaptation \<Rightarrow> nat \<Rightarrow> bool" where
  "silent impl ad i \<longleftrightarrow> \<not> subscribed 4 (ad_table ad i) \<or> (\<forall>q. \<exists>e. impl i q = Inl e \<and> isFatalError e)"

lemma same_but_closed_refl [simp]: "same_but_closed a a"
  by (simp add: same_but_closed_def)

lemma same_but_closed_trans: "same_but_closed a b \<Longrightarrow> same_but_closed b c \<Longrightarrow> same_but_closed a c"
  by (simp add: same_but_closed_def)

lemma same_but_closed_close: "same_but_closed a b \<Longrightarrow> same_but_closed (plugin_close i a) b"
  "same_but_closed a b \<Longrightarrow> same_but_closed a (plugin_close i b)"
  by (simp_all add: same_but_closed_def plugin_close_def)

lemma relay_call_same:
  assumes "same_but_closed a b"
  shows "fst (relay_call e i rpl a) = fst (relay_call e i rpl b)"
    and "same_but_closed (snd (relay_call e i rpl a)) (snd (relay_call e i rpl b))"
proof -
  have "subscribed e (ad_table a i) = subscribed e (ad_table b i)"
    using assms by (simp add: same_but_closed_def subscribed_def)
  then show "fst (relay_call e i rpl a) = fst (relay_call e i rpl b)"
    and "same_but_closed (snd (relay_call e i rpl a)) (snd (relay_call e i rpl b))"
    using assms by (auto simp: relay_call_def same_but_closed_close split: sum.split)
qed

lemma create_round_same:
  assumes "same_but_closed a b"
  shows "fst (create_round impl ord req i (a, s)) = fst (create_round impl ord req i (b, s)) \<and>
    snd (snd (create_round impl ord req i (a, s))) = snd (snd (create_round impl ord req i (b, s))) \<and>
    same_but_closed (fst (snd (create_round impl ord req i (a, s)))) (fst (snd (create_round impl ord req i (b, s))))"
proof -
  define q where "q = (case rq_create (rs_request s) of None \<Rightarrow> req | Some q \<Rightarrow> q)"
  have n: "plugin_qname (ad_table a i) = plugin_qname (ad_table b i)"
    using assms by (simp add: same_but_closed_def plugin_qname_def)
  obtain x a' b' where x: "relay_call 4 i (impl i q) a = (x, a')" "relay_call 4 i (impl i q) b = (x, b')"
      "same_but_closed a' b'"
    using relay_call_same [OF assms, of 4 i "impl i q"] by (metis prod.collapse)
  show ?thesis using n x
    by (auto simp: create_round_def q_def [symmetric] plugin_createContainer_def apply_relayed_def
        split: sum.split prod.split status.split)
qed

lemma create_round_silent:
  assumes "silent impl a i"
  shows "\<exists>a'. create_round impl ord req i (a, s) = (Done, (a', s)) \<and> same_but_closed a' a"
proof -
  define q where "q = (case rq_create (rs_request s) of None \<Rightarrow> req | Some q \<Rightarrow> q)"
  obtain a' where "relay_call 4 i (impl i q) a = (Inr None, a')" "same_but_closed a' a"
  proof (cases "subscribed 4 (ad_table a i)")
    case False
    then show ?thesis using that [of a] by (simp add: relay_call_def)
  next
    case True
    then obtain e where "impl i q = Inl e" "isFatalError e" using assms(1) by (auto simp: silent_def)
    then show ?thesis using True that [of "plugin_close i a"]
      by (simp add: relay_call_def same_but_closed_close)
  qed
  then show ?thesis
    by (auto simp: create_round_def q_def [symmetric] plugin_createContainer_def apply_relayed_def apply_reply_def)
qed

lemma silent_same: "same_but_closed a b \<Longrightarrow> silent impl a i \<longleftrightarrow> silent impl b i"
  by (simp add: silent_def same_but_closed_def subscribed_def)

lemma create_loop_silent:
  assumes "same_but_closed a b"
  shows "fst (for_each is (create_round impl ord req) (a, s)) =
      fst (for_each (filter (\<lambda>i. \<not> silent impl b i) is) (create_round impl ord req) (b, s)) \<and>
    snd (snd (for_each is (create_round impl ord req) (a, s))) =
      snd (snd (for_each (filter (\<lambda>i. \<not> silent impl b i) is) (create_round impl ord req) (b, s)))"
  using assms
proof (induction "is" arbitrary: a b s)
  case Nil
  then show ?case by simp
next
  case (Cons i "is")
  show ?case
  proof (cases "silent impl b i")
    case True
    then obtain a' where a': "create_round impl ord req i (a, s) = (Done, (a', s))" "same_but_closed a' a"
      using create_round_silent [of impl a i ord req s] silent_same [OF Cons.prems] by blast
    have "same_but_closed a' b" using a'(2) Cons.prems same_but_closed_trans by blast
    from Cons.IH [OF this, of s] show ?thesis
      using True by (simp add: for_each_step [of "create_round impl ord req", OF a'(1)])
  next
    case False
    obtain st a' b' s' where r: "create_round impl ord req i (a, s) = (st, (a', s'))"
        "create_round impl ord req i (b, s) = (st, (b', s'))" "same_but_closed a' b'"
      using create_round_same [OF Cons.prems, of impl ord req i s] by (metis prod.collapse)
    have "same_but_closed b' b"
      using create_round_closes [of "(b, s)" impl ord req i] r(2)
      by (simp add: only_closes_def same_but_closed_def)
    then have sil: "silent impl b' = silent impl b" using silent_same by blast
    show ?thesis
    proof (cases "st = Done")
      case True
      with r Cons.IH [OF r(3), of s'] False show ?thesis
        by (simp add: for_each_step [of "create_round impl ord req"] sil)
    next
      case Done: False
      with r False show ?thesis by (simp add: for_each_stop [of "create_round impl ord req"])
    qed
  qed
qed

text \<open>The loop of a creation request is that loop, with the validation request beside it.\<close>

lemma create_body_eq:
  "create_body impl ord req i (x, v) =
    (fst (create_round impl ord req i x), (snd (create_round impl ord req i x),
      map_option (AddPlugin (pl_base (ad_table (fst x) i)) (pl_idx (ad_table (fst x) i))) v))"
  by (auto simp: create_body_def on_part_def split: prod.split status.split)

lemma create_loop_body:
  "fst (for_each is (create_body impl ord req) (x, v)) = fst (for_each is (create_round impl ord req) x) \<and>
   fst (snd (for_each is (create_body impl ord req) (x, v))) = snd (for_each is (create_round impl ord req) x) \<and>
   (v = None \<longrightarrow> snd (snd (for_each is (create_body impl ord req) (x, v))) = None)"
proof (induction "is" arbitrary: x v)
  case Nil
  then show ?case by simp
next
  case (Cons i "is")
  show ?case
  proof (cases "fst (create_round impl ord req i x) = Done")
    case True
    then obtain y where y: "create_round impl ord req i x = (Done, y)" by (metis prod.collapse)
    then show ?thesis using Cons.IH [of y] by (simp add: for_each_Cons create_body_eq)
  next
    case False
    then show ?thesis by (simp add: for_each_stop create_body_eq)
  qed
qed

text \<open>
  C16. A plugin that did not subscribe to container creation, or that fails fatally (closed connection,
  protocol error, timeout) however it is called, contributes nothing: without validators the
  outcome of the request is the one the runtime would have had without such plugins.
\<close>

theorem silent_plugins_ignored:
  assumes "ad_validators ad = []"
  shows "fst (CreateContainer impl vimpl ord vord req ad) =
    fst (CreateContainer impl vimpl ord vord req
      (ad\<lparr>ad_plugins := filter (\<lambda>i. \<not> silent impl ad i) (ad_plugins ad)\<rparr>))"
proof (cases "collectCreateContainerResult req")
  case None
  then show ?thesis by (simp add: CreateContainer_def)
next
  case (Some s0)
  let ?is = "filter (\<lambda>i. \<not> silent impl ad i) (ad_plugins ad)"
  let ?b = "ad\<lparr>ad_plugins := ?is\<rparr>"
  have same: "same_but_closed ad ?b" by (simp add: same_but_closed_def)
  have sil: "silent impl ?b = silent impl ad" using silent_same [OF same] by blast
  have fin: "fst (CreateContainer impl vimpl ord vord req a) =
      (case fst (for_each (ad_plugins a) (create_round impl ord req) (a, s0)) of
         Failed e \<Rightarrow> Error e | Panicked \<Rightarrow> Panic
       | Done \<Rightarrow> Returned (createContainerResponse
           (snd (snd (for_each (ad_plugins a) (create_round impl ord req) (a, s0))))))"
    if "ad_validators a = []" for a
  proof -
    obtain st a' s v where r: "for_each (ad_plugins a) (create_body impl ord req) ((a, s0), None) = (st, ((a', s), v))"
      by (metis surj_pair)
    have "for_each (ad_plugins a) (create_round impl ord req) (a, s0) = (st, (a', s))" "v = None"
      using create_loop_body [of "ad_plugins a" impl ord req "(a, s0)" None] r by (simp_all add: prod_eq_iff)
    then show ?thesis using that Some r
      by (cases st) (simp_all add: CreateContainer_def hasValidators_def validateContainerAdjustment_def)
  qed
  have b: "ad_validators ?b = []" "ad_plugins ?b = ?is" using assms by simp_all
  have e: "fst (for_each (ad_plugins ad) (create_round impl ord req) (ad, s0)) =
      fst (for_each ?is (create_round impl ord req) (?b, s0))"
    "snd (snd (for_each (ad_plugins ad) (create_round impl ord req) (ad, s0))) =
      snd (snd (for_each ?is (create_round impl ord req) (?b, s0)))"
    using create_loop_silent [OF same, of "ad_plugins ad" impl ord req s0] unfolding sil by blast+
  show ?thesis unfolding fin [OF assms] fin [OF b(1)] b(2) e ..
qed

theorem silent_plugins_ignored_witness:
  "fst (CreateContainer (\<lambda>i q. Inl ErrClosed) (\<lambda>i v. Inl ErrClosed) rev rev
      \<lparr>cr_pod = None, cr_container = Some zero_container\<rparr>
      \<lparr>ad_table = (\<lambda>_. \<lparr>pl_idx = ''10'', pl_base = ''a'', pl_events = ValidEvents, pl_closed = False\<rparr>),
       ad_plugins = [1, 2], ad_validators = []\<rparr>) =
   fst (CreateContainer (\<lambda>i q. Inl ErrClosed) (\<lambda>i v. Inl ErrClosed) rev rev
      \<lparr>cr_pod = None, cr_container = Some zero_container\<rparr>
      \<lparr>ad_table = (\<lambda>_. \<lparr>pl_idx = ''10'', pl_base = ''a'', pl_events = ValidEvents, pl_closed = False\<rparr>),
       ad_plugins = [], ad_validators = []\<rparr>)"
  by (subst silent_plugins_ignored) (simp_all add: silent_def isFatalError_def)

section \<open>Validation\<close>

lemma fold_AddPlugin:
  "fold (\<lambda>(n, k) v. AddPlugin n k v) ps v =
    v\<lparr>vr_plugins := vr_plugins v @ map (\<lambda>(n, k). \<lparr>pi_name = n, pi_index = k\<rparr>) ps\<rparr>"
  by (induction ps arbitrary: v) (auto simp: AddPlugin_def)

text \<open>A loop that ends without an error has recorded every plugin in the validation request.\<close>

lemma create_loop_recorded:
  assumes "fst (for_each is (create_body impl ord req) (x, Some v)) = Done"
  shows "\<exists>v'. snd (snd (for_each is (create_body impl ord req) (x, Some v))) = Some v' \<and>
    v' = v\<lparr>vr_plugins := vr_plugins v @ map (\<lambda>i. \<lparr>pi_name = pl_base (ad_table (fst x) i),
      pi_index = pl_idx (ad_table (fst x) i)\<rparr>) is\<rparr>"
  using assms
proof (induction "is" arbitrary: x v)
  case Nil
  then show ?case by simp
next
  case (Cons i "is")
  have "fst (create_round impl ord req i x) = Done"
  proof (rule ccontr)
    assume "fst (create_round impl ord req i x) \<noteq> Done"
    with Cons.prems show False by (simp add: for_each_stop create_body_eq)
  qed
  then obtain y where y: "create_round impl ord req i x = (Done, y)" by (metis prod.collapse)
  let ?v = "AddPlugin (pl_base (ad_table (fst x) i)) (pl_idx (ad_table (fst x) i)) v"
  have step: "for_each (i # is) (create_body impl ord req) (x, Some v) =
      for_each is (create_body impl ord req) (y, Some ?v)"
    by (rule for_each_step) (simp add: create_body_eq y)
  have same: "pl_base (ad_table (fst y) j) = pl_base (ad_table (fst x) j)"
      "pl_idx (ad_table (fst y) j) = pl_idx (ad_table (fst x) j)" for j
    using create_round_closes [of x impl ord req i] y by (simp_all add: only_closes_def)
  from Cons.IH [of y ?v] Cons.prems show ?case unfolding step by (simp add: same AddPlugin_def)
qed

text \<open>
  What a returned response tells of the loop, and of what each validator was asked and answered. \<open>asked\<close> is the
  request the validators get when the loop goes from \<open>s0\<close> to \<open>s\<close>.
\<close>

definition asked :: "adaptation \<Rightarrow> create_request \<Rightarrow> result \<Rightarrow> result \<Rightarrow> validate_request" where
  "asked ad req s0 s = \<lparr>vr_pod = cr_pod req, vr_container = create_container s0,
     vr_adjust = crs_adjust (createContainerResponse s), vr_update = crs_update (createContainerResponse s),
     vr_owners = Some (rs_owners s),
     vr_plugins = map (\<lambda>j. \<lparr>pi_name = pl_base (ad_table ad j), pi_index = pl_idx (ad_table ad j)\<rparr>)
       (ad_plugins ad)\<rparr>"

lemma creation_validated:
  assumes "CreateContainer impl vimpl ord vord req ad = (Returned rpl, ad')"
    and "\<And>is. set (vord is) = set is"
    and "i \<in> set (ad_validators ad)" and "subscribed 14 (ad_table ad i)"
  obtains s0 mid s a where "collectCreateContainerResult req = Some s0"
    and "for_each (ad_plugins ad) (create_round impl ord req) (ad, s0) = (Done, (mid, s))"
    and "rpl = createContainerResponse s"
    and "vimpl i (asked ad req s0 s) = Inr a" and "\<not> vrs_reject a"
proof -
  obtain s0 where s0: "collectCreateContainerResult req = Some s0"
    using assms(1) by (auto simp: CreateContainer_def split: option.splits)
  define v0 where "v0 = \<lparr>vr_pod = cr_pod req, vr_container = create_container s0, vr_adjust = None,
       vr_update = [], vr_owners = None, vr_plugins = []\<rparr>"
  have h: "hasValidators ad" using assms(3) by (auto simp: hasValidators_def)
  obtain st mid s v where r: "for_each (ad_plugins ad) (create_body impl ord req) ((ad, s0), Some v0) = (st, ((mid, s), v))"
    by (metis surj_pair)
  have c: "only_closes ad mid"
    using loop_closes [where get = "\<lambda>x. fst (fst x)", OF r create_body_closes] by simp
  have run: "CreateContainer impl vimpl ord vord req ad =
      (case (st, ((mid, s), v)) of
               (Failed e, ((ad', _), _)) \<Rightarrow> (Error e, removeClosedPlugins ad')
             | (Panicked, ((ad', _), _)) \<Rightarrow> (Panic, removeClosedPlugins ad')
             | (Done, ((ad', s), v)) \<Rightarrow>
                 (case validateContainerAdjustment vimpl vord v s ad' of
                    (res, ad'') \<Rightarrow> (res, removeClosedPlugins ad'')))"
    unfolding CreateContainer_def s0 option.case Let_def v0_def [symmetric] r [symmetric] using h by simp
  have st: "st = Done" using assms(1) unfolding run by (cases st) simp_all
  have rec: "v = Some (v0\<lparr>vr_plugins := map (\<lambda>j. \<lparr>pi_name = pl_base (ad_table ad j),
      pi_index = pl_idx (ad_table ad j)\<rparr>) (ad_plugins ad)\<rparr>)"
    using create_loop_recorded [of "ad_plugins ad" impl ord req "(ad, s0)" v0] r st by (simp add: v0_def)
  let ?v = "AddOwners (rs_owners s) (AddResponse (createContainerResponse s) (the v))"
  have vals: "ad_validators mid = ad_validators ad" "ad_validators mid \<noteq> []"
    using c assms(3) by (auto simp: only_closes_def)
  have ret: "fst (validateContainerAdjustment vimpl vord v s mid) = Returned rpl"
    using assms(1) st unfolding run by (simp split: prod.splits)
  let ?errs = "map (\<lambda>j. fst (plugin_validate vimpl ?v j mid)) (vord (ad_validators mid))"
  have none: "find (\<lambda>e. e \<noteq> None) ?errs = None"
    using ret vals(2) rec
    by (auto simp: validateContainerAdjustment_def Let_def find_Some_iff split: option.splits)
  have rpl: "rpl = createContainerResponse s"
    using ret vals(2) rec none by (simp add: validateContainerAdjustment_def Let_def)
  have "fst (plugin_validate vimpl ?v i mid) = None"
    using none assms(2) [of "ad_validators mid"] assms(3) vals(1) by (auto simp: find_None_iff)
  then obtain a where "vimpl i ?v = Inr a" "\<not> vrs_reject a"
    using assms(4) only_closes_subscribed [OF c]
    by (auto simp: plugin_validate_def ValidationResult_def split: sum.splits if_splits)
  moreover have "?v = asked ad req s0 s"
    using rec by (simp add: AddOwners_def AddResponse_def v0_def asked_def)
  moreover have loop: "for_each (ad_plugins ad) (create_round impl ord req) (ad, s0) = (Done, (mid, s))"
    using create_loop_body [of "ad_plugins ad" impl ord req "(ad, s0)" "Some v0"] r st by (simp add: prod_eq_iff)
  ultimately show thesis using that s0 rpl by simp
qed

text \<open>
  C6. No adjustment gets past a validator: if creation returns a response while validators are
  connected, then each of them was asked, with a request that holds that very adjustment and those
  updates and names every plugin in calling order, and answered without error and without
  rejecting. This holds for any order in which their answers arrive.
\<close>

theorem created_only_if_validated:
  assumes "CreateContainer impl vimpl ord vord req ad = (Returned rpl, ad')"
    and "\<And>is. set (vord is) = set is"
    and "i \<in> set (ad_validators ad)" and "subscribed 14 (ad_table ad i)"
  shows "\<exists>v a. vr_adjust v = crs_adjust rpl \<and> vr_update v = crs_update rpl \<and>
    vr_plugins v = map (\<lambda>j. \<lparr>pi_name = pl_base (ad_table ad j), pi_index = pl_idx (ad_table ad j)\<rparr>)
      (ad_plugins ad) \<and>
    vimpl i v = Inr a \<and> \<not> vrs_reject a"
proof -
  from assms obtain s0 mid s a where "rpl = createContainerResponse s" "vimpl i (asked ad req s0 s) = Inr a"
    "\<not> vrs_reject a" by (rule creation_validated)
  then show ?thesis by (intro exI [of _ "asked ad req s0 s"] exI [of _ a]) (simp add: asked_def)
qed

theorem created_only_if_validated_witness:
  "\<exists>v a. vr_plugins v = [\<lparr>pi_name = ''a'', pi_index = ''10''\<rparr>] \<and>
    (\<lambda>i v. Inr \<lparr>vrs_reject = False, vrs_reason = []\<rparr>) (1 :: nat) (v :: validate_request) =
      (Inr a :: rpc_error + validate_response) \<and> \<not> vrs_reject a"
proof -
  let ?ad = "\<lparr>ad_table = (\<lambda>_. \<lparr>pl_idx = ''10'', pl_base = ''a'', pl_events = ValidEvents, pl_closed = False\<rparr>),
       ad_plugins = [1], ad_validators = [1]\<rparr>"
  let ?v = "\<lambda>i v. Inr \<lparr>vrs_reject = False, vrs_reason = []\<rparr>"
  let ?c = "CreateContainer (\<lambda>i q. Inr None) ?v rev rev \<lparr>cr_pod = None, cr_container = Some zero_container\<rparr> ?ad"
  have "case fst ?c of Returned _ \<Rightarrow> True | _ \<Rightarrow> False" and s: "subscribed 14 (ad_table ?ad 1)"
    by code_simp+
  then obtain rpl ad' where "?c = (Returned rpl, ad')" by (cases ?c) (auto split: outcome.splits)
  from created_only_if_validated [OF this _ _ s] show ?thesis by (simp; blast)
qed

section \<open>No panic\<close>

lemma safe_create_round:
  assumes "\<And>q r. impl i q = Inr r \<Longrightarrow> reply_ok (CreateReply r)"
  shows "safe (\<lambda>st. create_ok cid (snd st)) (create_round impl ord req i)"
proof (rule safe_I)
  fix st :: "adaptation \<times> result"
  assume ok: "create_ok cid (snd st)"
  define q where "q = (case rq_create (rs_request (snd st)) of None \<Rightarrow> req | Some q \<Rightarrow> q)"
  obtain called ad' where c: "plugin_createContainer impl i q (fst st) = (called, ad')" by fastforce
  have "reply_ok (CreateReply r)" if "called = Inr r" for r
    using c that assms by (auto simp: plugin_createContainer_def relay_call_def reply_ok_def
        split: if_splits sum.splits)
  then have "safe (create_ok cid) (apply_reply ord (CreateReply r) p)" if "called = Inr r" for r p
    using that by (simp add: safe_apply_reply)
  then have "create_ok cid (snd (apply_reply ord (CreateReply r) (plugin_qname (ad_table (fst st) i)) (snd st))) \<and>
      fst (apply_reply ord (CreateReply r) (plugin_qname (ad_table (fst st) i)) (snd st)) \<noteq> Panicked"
    if "called = Inr r" for r
    using that ok unfolding safe_def by blast
  then show "create_ok cid (snd (snd (create_round impl ord req i st))) \<and>
      fst (create_round impl ord req i st) \<noteq> Panicked"
    using c ok by (cases called) (auto simp: create_round_def q_def [symmetric] Let_def apply_relayed_def
        split: prod.splits status.splits)
qed

text \<open>
  C7. End to end, a container creation does not crash the runtime: for a request with a container, whatever
  it leaves out, and any plugins and validators with any replies and errors, as long as no reply holds a
  nil update or sets a sysctl. The other lists of a reply have no nil entries here, as those that come over the wire.
\<close>

theorem CreateContainer_never_panics:
  assumes "cr_container req \<noteq> None"
    and "\<And>i q r. impl i q = Inr r \<Longrightarrow> reply_ok (CreateReply r)"
  shows "fst (CreateContainer impl vimpl ord vord req ad) \<noteq> Panic"
proof -
  obtain c where c: "cr_container req = Some c" using assms(1) by blast
  then obtain s0 where s0: "collectCreateContainerResult req = Some s0"
    by (simp add: collectCreateContainerResult_def)
  have "safe (\<lambda>st. create_ok (ctr_id c) (snd st)) (for_each (ad_plugins ad) (create_round impl ord req))"
    by (rule safe_for_each) (rule safe_create_round, rule assms(2))
  from safe_D [OF this, of "(ad, s0)"] create_ok_initial [OF s0 c]
  have "fst (for_each (ad_plugins ad) (create_round impl ord req) (ad, s0)) \<noteq> Panicked" by simp
  then have np: "fst (for_each (ad_plugins ad) (create_body impl ord req) ((ad, s0), v)) \<noteq> Panicked" for v
    using create_loop_body by metis
  define v0 where "v0 = (if hasValidators ad
     then Some \<lparr>vr_pod = cr_pod req, vr_container = create_container s0, vr_adjust = None,
       vr_update = [], vr_owners = None, vr_plugins = []\<rparr> else None)"
  obtain st ad' s v where r: "for_each (ad_plugins ad) (create_body impl ord req) ((ad, s0), v0) = (st, ((ad', s), v))"
    by (metis surj_pair)
  have "st \<noteq> Panicked" using np [of v0] r by simp
  moreover have "fst (validateContainerAdjustment vimpl vord v s ad') \<noteq> Panic"
    by (simp add: validateContainerAdjustment_def Let_def split: option.split)
  ultimately show ?thesis
    unfolding CreateContainer_def s0 option.case Let_def v0_def [symmetric] r
    by (cases st; cases "validateContainerAdjustment vimpl vord v s ad'") simp_all
qed

theorem CreateContainer_never_panics_witness:
  "fst (CreateContainer (\<lambda>i q. Inr (Some \<lparr>crs_adjust = Some zero_adjustment, crs_update = [], crs_evict = []\<rparr>))
     (\<lambda>i v. Inl ErrClosed) rev rev \<lparr>cr_pod = None, cr_container = Some zero_container\<rparr>
     \<lparr>ad_table = (\<lambda>_. \<lparr>pl_idx = ''10'', pl_base = ''a'', pl_events = ValidEvents, pl_closed = False\<rparr>),
       ad_plugins = [1, 2], ad_validators = []\<rparr>) \<noteq> Panic"
  by (rule CreateContainer_never_panics)
    (auto simp: reply_ok_def sets_no_sysctl_def gmap_entries_def zero_defs)

end
