(* ===== verification/Sync.thy ===== *)
theory Sync
  imports API_Types
begin

text \<open>
  Synchronising a plugin with the runtime's pods and containers
  (\<^verbatim>\<open>synchronize\<close> and \<^verbatim>\<open>recalcObjsPerSyncMsg\<close> of \<^verbatim>\<open>src/pkg/adaptation/plugin.go\<close>): one message if it
  fits, otherwise several, sized down whenever the transport rejects one as oversized.

  A Go slice is its backing array from the slice's first element on and its length: reslicing may
  extend a slice up to its capacity and panics beyond. The plugin is a function on a state of its
  own. The new chunk sizes are products of \<^verbatim>\<open>float64\<close> values truncated to \<^verbatim>\<open>int\<close>, with a factor of at
  most 0.9: the parameter \<open>scale maxLen msgLen n\<close>, of which the theorems use that it is smaller than
  a positive \<open>n\<close>. The deadline of the request is counted in messages: those there is time for; a call after them fails.
\<close>

section \<open>Slices and messages\<close>

type_synonym 'a slice = "'a list \<times> nat"

definition slice_of :: "'a list \<Rightarrow> 'a slice" where
  "slice_of xs = (xs, length xs)"

definition reslice_to :: "nat \<Rightarrow> 'a slice \<Rightarrow> 'a list option" where
  "reslice_to n s = (if n \<le> length (fst s) then Some (take n (fst s)) else None)"

definition reslice_from :: "nat \<Rightarrow> 'a slice \<Rightarrow> 'a slice option" where
  "reslice_from n s = (if n \<le> snd s then Some (drop n (fst s), snd s - n) else None)"

record sync_request =
  sy_pods :: "pod_sandbox list"
  sy_containers :: "container list"
  sy_more :: bool

record sync_response =
  syr_update :: "container_update option list"
  syr_more :: bool

datatype sync_error =
    OversizedMessage nat nat
  | ResourceExhausted
  | SyncDeadline
  | OtherError

datatype sync_failure = Transport sync_error | CannotSplit | NoSplitSupport

section \<open>The loop\<close>

definition recalcObjsPerSyncMsg ::
    "(nat \<Rightarrow> nat \<Rightarrow> nat \<Rightarrow> nat) \<Rightarrow> nat \<Rightarrow> nat \<Rightarrow> sync_error \<Rightarrow> sync_failure + nat \<times> nat" where
  "recalcObjsPerSyncMsg scale pods ctrs err =
     (if err = OtherError \<or> err = SyncDeadline then Inl (Transport err)
      else if pods + ctrs \<le> 8 then Inl CannotSplit
      else (case err of
              OversizedMessage maxLen msgLen \<Rightarrow>
                if msgLen = 0 \<or> maxLen = 0 \<or> msgLen \<le> maxLen then Inl CannotSplit
                else
                  (let pods' = scale maxLen msgLen pods; ctrs' = scale maxLen msgLen ctrs in
                   if pods' + ctrs' < 8 then Inr (8 div 2, 8 div 2) else Inr (pods', ctrs'))
            | _ \<Rightarrow> Inl CannotSplit))"

record sync_state =
  ss_pods :: "pod_sandbox slice"
  ss_ctrs :: "container slice"
  ss_pods_per_msg :: nat
  ss_ctrs_per_msg :: nat

datatype sync_result =
    Synced "container_update option list"
  | SyncFailed sync_failure
  | SyncPanic

type_synonym 'q sync_impl = "'q \<Rightarrow> sync_request \<Rightarrow> (sync_error + sync_response) \<times> 'q"

definition ss_more :: "sync_state \<Rightarrow> bool" where
  "ss_more s \<longleftrightarrow> snd (ss_pods s) > ss_pods_per_msg s \<or> snd (ss_ctrs s) > ss_ctrs_per_msg s"

text \<open>What an accepted message that was not the last leaves to send; \<open>None\<close> is a slice panic.\<close>

definition advance :: "sync_state \<Rightarrow> sync_state option" where
  "advance s =
     (case (reslice_from (ss_pods_per_msg s) (ss_pods s), reslice_from (ss_ctrs_per_msg s) (ss_ctrs s)) of
        (Some pods, Some ctrs) \<Rightarrow> Some \<lparr>
          ss_pods = pods, ss_ctrs = ctrs,
          ss_pods_per_msg = (if ss_pods_per_msg s > snd pods then snd pods else ss_pods_per_msg s),
          ss_ctrs_per_msg = (if ss_ctrs_per_msg s > snd ctrs then snd ctrs else ss_ctrs_per_msg s)\<rparr>
      | _ \<Rightarrow> None)"

text \<open>One message: the loop ends with a result or goes on in another state.\<close>

definition sync_round ::
    "(nat \<Rightarrow> nat \<Rightarrow> nat \<Rightarrow> nat) \<Rightarrow> 'q sync_impl \<Rightarrow> sync_state \<Rightarrow> 'q \<Rightarrow> (sync_result + sync_state) \<times> 'q" where
  "sync_round scale impl s q =
     (case (reslice_to (ss_pods_per_msg s) (ss_pods s), reslice_to (ss_ctrs_per_msg s) (ss_ctrs s)) of
        (Some pods, Some ctrs) \<Rightarrow>
          (case impl q \<lparr>sy_pods = pods, sy_containers = ctrs, sy_more = ss_more s\<rparr> of
             (Inr rpl, q') \<Rightarrow>
               if \<not> ss_more s then (Inl (Synced (syr_update rpl)), q')
               else if length (syr_update rpl) > 0 \<or> syr_more rpl \<noteq> ss_more s
               then (Inl (SyncFailed NoSplitSupport), q')
               else (case advance s of
                       None \<Rightarrow> (Inl SyncPanic, q')
                     | Some s' \<Rightarrow> (Inr s', q'))
           | (Inl err, q') \<Rightarrow>
               (case recalcObjsPerSyncMsg scale (ss_pods_per_msg s) (ss_ctrs_per_msg s) err of
                  Inl e \<Rightarrow> (Inl (SyncFailed e), q')
                | Inr (p, c) \<Rightarrow> (Inr (s\<lparr>ss_pods_per_msg := p, ss_ctrs_per_msg := c\<rparr>), q')))
      | _ \<Rightarrow> (Inl SyncPanic, q))"

text \<open>A call after the deadline.\<close>

definition too_late :: "'q sync_impl" where
  "too_late q req = (Inl SyncDeadline, q)"

lemma too_late_ends: "\<exists>r. sync_round scale too_late s q = (Inl r, q)"
  by (auto simp: sync_round_def too_late_def recalcObjsPerSyncMsg_def split: option.split)

text \<open>By that lemma, the last case of the first equation never comes up.\<close>

fun sync_loop ::
    "(nat \<Rightarrow> nat \<Rightarrow> nat \<Rightarrow> nat) \<Rightarrow> 'q sync_impl \<Rightarrow> nat \<Rightarrow> sync_state \<Rightarrow> 'q \<Rightarrow> sync_result \<times> 'q" where
  "sync_loop scale impl 0 s q =
     (case sync_round scale too_late s q of
        (Inl r, q') \<Rightarrow> (r, q')
      | (Inr _, q') \<Rightarrow> (SyncFailed (Transport SyncDeadline), q'))"
| "sync_loop scale impl (Suc deadline) s q =
     (case sync_round scale impl s q of
        (Inl r, q') \<Rightarrow> (r, q')
      | (Inr s', q') \<Rightarrow> sync_loop scale impl deadline s' q')"

definition sync_start :: "pod_sandbox slice \<Rightarrow> container slice \<Rightarrow> sync_state" where
  "sync_start pods ctrs =
     \<lparr>ss_pods = pods, ss_ctrs = ctrs, ss_pods_per_msg = snd pods, ss_ctrs_per_msg = snd ctrs\<rparr>"

definition synchronize ::
    "(nat \<Rightarrow> nat \<Rightarrow> nat \<Rightarrow> nat) \<Rightarrow> 'q sync_impl \<Rightarrow> nat \<Rightarrow> pod_sandbox slice \<Rightarrow> container slice \<Rightarrow> 'q \<Rightarrow>
     sync_result \<times> 'q" where
  "synchronize scale impl deadline pods ctrs q = sync_loop scale impl deadline (sync_start pods ctrs) q"

section \<open>What is delivered\<close>

text \<open>A plugin with a log of the messages it accepted.\<close>

definition logged :: "'q sync_impl \<Rightarrow> ('q \<times> sync_request list) sync_impl" where
  "logged impl ql req =
     (case impl (fst ql) req of
        (Inr rpl, q') \<Rightarrow> (Inr rpl, (q', snd ql @ [req]))
      | (Inl e, q') \<Rightarrow> (Inl e, (q', snd ql)))"

lemma logged_pair:
  "logged impl (q, log) req =
    (case impl q req of
       (Inr rpl, q') \<Rightarrow> (Inr rpl, (q', log @ [req]))
     | (Inl e, q') \<Rightarrow> (Inl e, (q', log)))"
  unfolding logged_def fst_conv snd_conv ..

definition exact :: "sync_state \<Rightarrow> bool" where
  "exact s \<longleftrightarrow> snd (ss_pods s) = length (fst (ss_pods s)) \<and> snd (ss_ctrs s) = length (fst (ss_ctrs s))"

lemma advance_cases:
  assumes "advance s = Some s'"
  shows "fst (ss_pods s') = drop (ss_pods_per_msg s) (fst (ss_pods s)) \<and>
    fst (ss_ctrs s') = drop (ss_ctrs_per_msg s) (fst (ss_ctrs s)) \<and>
    snd (ss_pods s') + ss_pods_per_msg s = snd (ss_pods s) \<and>
    snd (ss_ctrs s') + ss_ctrs_per_msg s = snd (ss_ctrs s) \<and>
    ss_pods_per_msg s' = min (ss_pods_per_msg s) (snd (ss_pods s')) \<and>
    ss_ctrs_per_msg s' = min (ss_ctrs_per_msg s) (snd (ss_ctrs s'))"
  using assms by (auto simp: advance_def reslice_from_def split: if_splits)

lemma advance_exact: "advance s = Some s' \<Longrightarrow> exact s \<Longrightarrow> exact s'"
  using advance_cases [of s s'] by (auto simp: exact_def)

lemma sync_loop_late: "sync_loop scale impl 0 s q \<noteq> (Synced u, q')"
  by (auto simp: sync_round_def too_late_def recalcObjsPerSyncMsg_def split: option.splits)

text \<open>What one round does with a plugin that logs.\<close>

lemma sync_round_cases:
  assumes "sync_round scale (logged impl) s (q, log) = (r, (q', log'))"
  obtains (resized) e p c where "log' = log"
      "recalcObjsPerSyncMsg scale (ss_pods_per_msg s) (ss_ctrs_per_msg s) e = Inr (p, c)"
      "r = Inr (s\<lparr>ss_pods_per_msg := p, ss_ctrs_per_msg := c\<rparr>)"
    | (failed) x where "r = Inl x" "\<And>u. x \<noteq> Synced u"
    | (sent) pods ctrs where "reslice_to (ss_pods_per_msg s) (ss_pods s) = Some pods"
        "reslice_to (ss_ctrs_per_msg s) (ss_ctrs s) = Some ctrs"
        "log' = log @ [\<lparr>sy_pods = pods, sy_containers = ctrs, sy_more = ss_more s\<rparr>]"
        "if ss_more s then (\<exists>s'. r = Inr s' \<and> advance s = Some s') else (\<exists>u. r = Inl (Synced u))"
proof (cases "reslice_to (ss_pods_per_msg s) (ss_pods s) = None \<or> reslice_to (ss_ctrs_per_msg s) (ss_ctrs s) = None")
  case True
  then show thesis using assms failed by (auto simp: sync_round_def split: option.splits)
next
  case False
  then obtain pods ctrs where f: "reslice_to (ss_pods_per_msg s) (ss_pods s) = Some pods"
      "reslice_to (ss_ctrs_per_msg s) (ss_ctrs s) = Some ctrs" by auto
  let ?req = "\<lparr>sy_pods = pods, sy_containers = ctrs, sy_more = ss_more s\<rparr>"
  obtain a q1 where a: "impl q ?req = (a, q1)" by fastforce
  note step = assms [unfolded sync_round_def f prod.case option.case logged_pair a]
  show thesis
  proof (cases a)
    case (Inl e)
    then show thesis using step failed resized [of e]
      by (cases "recalcObjsPerSyncMsg scale (ss_pods_per_msg s) (ss_ctrs_per_msg s) e") (auto split: prod.splits)
  next
    case (Inr rpl)
    show thesis
    proof (cases "ss_more s")
      case True
      then consider "r = Inl SyncPanic" | "r = Inl (SyncFailed NoSplitSupport)"
        | s' where "advance s = Some s'" "r = Inr s'" "log' = log @ [?req]"
        using step Inr by (cases "advance s") (auto split: if_splits)
      then show thesis
      proof cases
        case 1
        then show thesis by (rule failed) simp
      next
        case 2
        then show thesis by (rule failed) simp
      next
        case (3 s')
        have "if ss_more s then (\<exists>s'. r = Inr s' \<and> advance s = Some s') else (\<exists>u. r = Inl (Synced u))"
          using 3 True by simp
        with 3(3) show thesis by (rule sent [OF f])
      qed
    next
      case False
      then have "r = Inl (Synced (syr_update rpl))" "log' = log @ [?req]" using step Inr by auto
      then show thesis using False by (intro sent [OF f]) auto
    qed
  qed
qed

lemma sync_loop_delivers:
  assumes "sync_loop scale (logged impl) deadline s (q, log) = (Synced u, (q', log'))" and "exact s"
  shows "\<exists>sent. log' = log @ sent \<and> sent \<noteq> [] \<and>
    concat (map sy_pods sent) = fst (ss_pods s) \<and> concat (map sy_containers sent) = fst (ss_ctrs s) \<and>
    (\<forall>r \<in> set (butlast sent). sy_more r) \<and> \<not> sy_more (last sent)"
  using assms
proof (induction deadline arbitrary: s q log)
  case 0
  from 0(1) show ?case by (rule notE [OF sync_loop_late])
next
  case (Suc deadline)
  obtain r q1 log1 where r: "sync_round scale (logged impl) s (q, log) = (r, (q1, log1))" by (metis surj_pair)
  note run = Suc.prems(1) [unfolded sync_loop.simps r prod.case]
  from r show ?case
  proof (cases rule: sync_round_cases)
    case (resized e p c)
    then show ?thesis using Suc.IH [of "s\<lparr>ss_pods_per_msg := p, ss_ctrs_per_msg := c\<rparr>"] run Suc.prems(2)
      by (simp add: exact_def)
  next
    case (failed x)
    then show ?thesis using run by simp
  next
    case (sent pods ctrs)
    let ?req = "\<lparr>sy_pods = pods, sy_containers = ctrs, sy_more = ss_more s\<rparr>"
    have take: "pods = take (ss_pods_per_msg s) (fst (ss_pods s))" "ctrs = take (ss_ctrs_per_msg s) (fst (ss_ctrs s))"
      using sent(1,2) by (auto simp: reslice_to_def split: if_splits)
    show ?thesis
    proof (cases "ss_more s")
      case False
      then have "log' = log @ [?req]" using sent run by auto
      moreover have "pods = fst (ss_pods s)" "ctrs = fst (ss_ctrs s)"
        using False Suc.prems(2) by (simp_all add: take ss_more_def exact_def)
      ultimately show ?thesis using False by (intro exI [of _ "[?req]"]) simp
    next
      case True
      then obtain s' where s': "r = Inr s'" "advance s = Some s'" using sent(4) by auto
      from Suc.IH [of s' q1 "log @ [?req]"] run s' sent(3) advance_exact [OF s'(2) Suc.prems(2)] obtain rest where
        rest: "log' = (log @ [?req]) @ rest" "rest \<noteq> []"
          "concat (map sy_pods rest) = fst (ss_pods s')" "concat (map sy_containers rest) = fst (ss_ctrs s')"
          "\<forall>r \<in> set (butlast rest). sy_more r" "\<not> sy_more (last rest)" by auto
      then show ?thesis using advance_cases [OF s'(2)] True
        by (intro exI [of _ "?req # rest"]) (auto simp: take)
    qed
  qed
qed

text \<open>
  A synchronisation that succeeds has told the plugin everything, once and in order: the messages
  the plugin accepted, one after the other, hold exactly the runtime's pods and containers, all but
  the last announce more, and the last does not.
\<close>

theorem synchronize_delivers:
  assumes "synchronize scale (logged impl) deadline (slice_of pods) (slice_of ctrs) (q, []) = (Synced u, (q', sent))"
  shows "sent \<noteq> [] \<and> concat (map sy_pods sent) = pods \<and> concat (map sy_containers sent) = ctrs \<and>
    (\<forall>r \<in> set (butlast sent). sy_more r) \<and> \<not> sy_more (last sent)"
  using sync_loop_delivers [OF assms [unfolded synchronize_def]] by (simp add: exact_def slice_of_def sync_start_def)

section \<open>Termination\<close>

text \<open>
  A state with nothing to put into the next message but objects left to send. It can be reached: one kind
  of object is scaled down to none per message while the other keeps the total above the minimum.
\<close>

definition stuck :: "sync_state \<Rightarrow> bool" where
  "stuck s \<longleftrightarrow> ss_pods_per_msg s = 0 \<and> ss_ctrs_per_msg s = 0 \<and> ss_more s"

definition sync_measure :: "sync_state \<Rightarrow> nat" where
  "sync_measure s = snd (ss_pods s) + snd (ss_ctrs s) + ss_pods_per_msg s + ss_ctrs_per_msg s"

definition shrinks :: "(nat \<Rightarrow> nat \<Rightarrow> nat \<Rightarrow> nat) \<Rightarrow> bool" where
  "shrinks scale \<longleftrightarrow> (\<forall>mx len n. scale mx len 0 = 0 \<and> (0 < n \<longrightarrow> scale mx len n < n))"

lemma recalc_decreases:
  assumes "shrinks scale" and "recalcObjsPerSyncMsg scale p c e = Inr (p', c')"
  shows "p' + c' < p + c"
proof -
  have "scale mx len p + scale mx len c < p + c" if "\<not> p + c \<le> 8" for mx len
    using assms(1) that unfolding shrinks_def by (cases "p = 0"; cases "c = 0") (auto intro: add_strict_mono)
  then show ?thesis using assms(2)
    by (auto simp: recalcObjsPerSyncMsg_def Let_def split: if_splits sync_error.splits)
qed

lemma advance_decreases:
  "advance s = Some s' \<Longrightarrow> 0 < ss_pods_per_msg s + ss_ctrs_per_msg s \<Longrightarrow> sync_measure s' < sync_measure s"
  using advance_cases [of s s'] by (auto simp: sync_measure_def)

text \<open>One message and the next.\<close>

definition sync_step :: "(nat \<Rightarrow> nat \<Rightarrow> nat \<Rightarrow> nat) \<Rightarrow> 'q sync_impl \<Rightarrow> sync_state \<times> 'q \<Rightarrow> sync_state \<times> 'q \<Rightarrow> bool" where
  "sync_step scale impl sq tp \<longleftrightarrow> sync_round scale impl (fst sq) (snd sq) = (Inr (fst tp), snd tp)"

lemma sync_step_cases:
  assumes "sync_step scale impl (s, q) (t, p)"
  obtains (advanced) "advance s = Some t" "ss_more s"
    | (resized) e np nc where
        "recalcObjsPerSyncMsg scale (ss_pods_per_msg s) (ss_ctrs_per_msg s) e = Inr (np, nc)"
        "t = s\<lparr>ss_pods_per_msg := np, ss_ctrs_per_msg := nc\<rparr>"
  using assms
  by (auto simp: sync_step_def sync_round_def split: option.splits prod.splits sum.splits if_splits)

lemma sync_loop_steps:
  "(sync_step scale impl ^^ k) (s, q) (t, p) \<Longrightarrow> sync_loop scale impl (k + d) s q = sync_loop scale impl d t p"
proof (induction k arbitrary: s q)
  case 0
  then show ?case by simp
next
  case (Suc k)
  then obtain s1 q1 where "sync_step scale impl (s, q) (s1, q1)" "(sync_step scale impl ^^ k) (s1, q1) (t, p)"
    by (metis relpowp_Suc_E2 surj_pair)
  then show ?case using Suc.IH [of s1 q1] sync_step_def [of scale impl "(s, q)" "(s1, q1)"] by simp
qed

text \<open>
  A stuck loop sends the same empty message again, unless the plugin refuses it. Any other round makes the rest or the
  chunks smaller.
\<close>

lemma stuck_stays: "stuck s \<Longrightarrow> sync_step scale impl (s, q) (t, p) \<Longrightarrow> t = s"
  by (erule sync_step_cases)
    (auto simp: stuck_def advance_def reslice_from_def recalcObjsPerSyncMsg_def split: if_splits option.splits)

lemma stuck_for_good: "(sync_step scale impl ^^ m) (s, q) (t, p) \<Longrightarrow> stuck s \<Longrightarrow> t = s"
proof (induction m arbitrary: s q)
  case 0
  then show ?case by simp
next
  case (Suc m)
  then obtain s1 q1 where "sync_step scale impl (s, q) (s1, q1)" "(sync_step scale impl ^^ m) (s1, q1) (t, p)"
    by (metis relpowp_Suc_E2 surj_pair)
  then show ?case using Suc.IH stuck_stays Suc.prems(2) by metis
qed

lemma sync_step_decreases:
  assumes "shrinks scale" and "sync_step scale impl (s, q) (t, p)" and "\<not> stuck s"
  shows "sync_measure t < sync_measure s"
  using assms(2)
proof (cases rule: sync_step_cases)
  case advanced
  then show ?thesis using advance_decreases assms(3) by (auto simp: stuck_def)
next
  case (resized e np nc)
  then show ?thesis using recalc_decreases [OF assms(1) resized(1)] by (simp add: sync_measure_def)
qed

text \<open>The chunks are within what is left to send, or of the minimal size.\<close>

definition chunks_ok :: "sync_state \<Rightarrow> bool" where
  "chunks_ok s \<longleftrightarrow> snd (ss_pods s) \<le> length (fst (ss_pods s)) \<and> snd (ss_ctrs s) \<le> length (fst (ss_ctrs s)) \<and>
     (ss_pods_per_msg s \<le> snd (ss_pods s) \<and> ss_ctrs_per_msg s \<le> snd (ss_ctrs s) \<or>
      ss_pods_per_msg s = 4 \<and> ss_ctrs_per_msg s = 4)"

lemma chunks_ok_step:
  assumes "shrinks scale" and "sync_step scale impl (s, q) (t, p)" and "chunks_ok s"
  shows "chunks_ok t"
  using assms(2)
proof (cases rule: sync_step_cases)
  case advanced
  then show ?thesis using advance_cases [OF advanced(1)] assms(3) by (auto simp: chunks_ok_def)
next
  case (resized e np nc)
  have "scale mx len n \<le> n" for mx len n
    using assms(1) by (cases "n = 0") (simp_all add: shrinks_def less_imp_le)
  then have le: "scale mx len n \<le> m" if "n \<le> m" for mx len n m using that le_trans by blast
  from resized assms(3) show ?thesis
    by (auto simp: chunks_ok_def recalcObjsPerSyncMsg_def Let_def le split: if_splits sync_error.splits)
qed

lemma chunks_panic:
  assumes "chunks_ok s" and "sync_round scale impl s q = (Inl SyncPanic, p)"
  shows "ss_pods_per_msg s = 4 \<and> ss_ctrs_per_msg s = 4 \<and> (snd (ss_pods s) < 4 \<or> snd (ss_ctrs s) < 4)"
  using assms
  by (fastforce simp: chunks_ok_def sync_round_def reslice_to_def advance_def reslice_from_def
      split: option.splits prod.splits sum.splits if_splits)

lemma sync_ends:
  assumes "shrinks scale" and "chunks_ok s"
  shows "\<exists>k t p. k \<le> sync_measure s \<and> (sync_step scale impl ^^ k) (s, q) (t, p) \<and> chunks_ok t \<and>
    (stuck t \<or> (\<exists>r p'. sync_round scale impl t p = (Inl r, p')))"
  using assms(2)
proof (induction "sync_measure s" arbitrary: s q rule: less_induct)
  case less
  show ?case
  proof (cases "stuck s \<or> (\<exists>r p'. sync_round scale impl s q = (Inl r, p'))")
    case True
    then show ?thesis using less.prems by (intro exI [of _ 0] exI [of _ s] exI [of _ q]) simp
  next
    case False
    obtain x q1 where x: "sync_round scale impl s q = (x, q1)" by fastforce
    with False obtain s1 where "x = Inr s1" by (cases x) auto
    with x have st: "sync_step scale impl (s, q) (s1, q1)" by (simp add: sync_step_def)
    have dec: "sync_measure s1 < sync_measure s" using sync_step_decreases [OF assms(1) st] False by blast
    from less.hyps [OF dec chunks_ok_step [OF assms(1) st less.prems]] obtain k t p where
      k: "k \<le> sync_measure s1" "(sync_step scale impl ^^ k) (s1, q1) (t, p)" "chunks_ok t"
        "stuck t \<or> (\<exists>r p'. sync_round scale impl t p = (Inl r, p'))" by blast
    have "(sync_step scale impl ^^ Suc k) (s, q) (t, p)" using relpowp_Suc_I2 [where P = "sync_step scale impl"] st k(2) by metis
    moreover have "Suc k \<le> sync_measure s" using k(1) dec by simp
    ultimately show ?thesis using k(3,4) by blast
  qed
qed

text \<open>
  C13. The messages of a synchronisation, of \<open>n\<close> pods and containers together, whatever the plugin answers: after at most \<open>2 n\<close>
  of them, one more ends it, or the loop is stuck. If it ends, it does so with the same result whatever the deadline, if the
  deadline leaves time for these messages; a panic comes from a chunk of four pods and four containers with fewer left to
  send. If it is stuck, the same empty message is sent over and over, until the plugin refuses it or the deadline passes.
\<close>

theorem synchronize_returns_or_stuck:
  assumes "shrinks scale" and "snd pods \<le> length (fst pods)" and "snd ctrs \<le> length (fst ctrs)"
  shows "\<exists>k s p. k \<le> 2 * (snd pods + snd ctrs) \<and> (sync_step scale impl ^^ k) (sync_start pods ctrs, q) (s, p) \<and>
    ((\<exists>r p'. (\<forall>d > k. synchronize scale impl d pods ctrs q = (r, p')) \<and>
        (r = SyncPanic \<longrightarrow> ss_pods_per_msg s = 4 \<and> ss_ctrs_per_msg s = 4 \<and>
           (snd (ss_pods s) < 4 \<or> snd (ss_ctrs s) < 4))) \<or>
     stuck s \<and> (\<forall>m t x. (sync_step scale impl ^^ m) (s, p) (t, x) \<longrightarrow> t = s))"
proof -
  have "chunks_ok (sync_start pods ctrs)" using assms(2,3) by (simp add: chunks_ok_def sync_start_def)
  from sync_ends [OF assms(1) this, of impl q] obtain k s p where
    k: "k \<le> sync_measure (sync_start pods ctrs)" "(sync_step scale impl ^^ k) (sync_start pods ctrs, q) (s, p)"
      "chunks_ok s" "stuck s \<or> (\<exists>r p'. sync_round scale impl s p = (Inl r, p'))" by blast
  have bound: "k \<le> 2 * (snd pods + snd ctrs)" using k(1) by (simp add: sync_measure_def sync_start_def)
  from k(4) show ?thesis
  proof (elim disjE exE)
    assume "stuck s"
    have "\<forall>m t x. (sync_step scale impl ^^ m) (s, p) (t, x) \<longrightarrow> t = s"
      by (intro allI impI) (erule stuck_for_good, rule \<open>stuck s\<close>)
    with bound k(2) \<open>stuck s\<close> show ?thesis by (intro exI [of _ k] exI [of _ s] exI [of _ p] conjI disjI2)
  next
    fix r p' assume r: "sync_round scale impl s p = (Inl r, p')"
    have "synchronize scale impl d pods ctrs q = (r, p')" if "d > k" for d
    proof -
      have m: "d = k + Suc (d - Suc k)" using that by simp
      have "sync_loop scale impl (k + Suc (d - Suc k)) (sync_start pods ctrs) q = (r, p')"
        unfolding sync_loop_steps [OF k(2)] by (simp add: r)
      with m show ?thesis unfolding synchronize_def by simp
    qed
    then have "\<forall>d > k. synchronize scale impl d pods ctrs q = (r, p')" by blast
    moreover have "r = SyncPanic \<longrightarrow> ss_pods_per_msg s = 4 \<and> ss_ctrs_per_msg s = 4 \<and> (snd (ss_pods s) < 4 \<or> snd (ss_ctrs s) < 4)"
      using chunks_panic [OF k(3), of scale impl p p'] r by simp
    ultimately have "\<exists>r p'. (\<forall>d > k. synchronize scale impl d pods ctrs q = (r, p')) \<and>
        (r = SyncPanic \<longrightarrow> ss_pods_per_msg s = 4 \<and> ss_ctrs_per_msg s = 4 \<and>
           (snd (ss_pods s) < 4 \<or> snd (ss_ctrs s) < 4))" by blast
    with bound k(2) show ?thesis by (intro exI [of _ k] exI [of _ s] exI [of _ p] conjI disjI1)
  qed
qed

text \<open>A concrete truncation and a plugin that takes every message of up to \<open>n\<close> objects.\<close>

definition sample_scale :: "nat \<Rightarrow> nat \<Rightarrow> nat \<Rightarrow> nat" where
  "sample_scale mx len n = min (n * mx div (if len = 0 then 1 else len)) (n * 9 div 10)"

definition up_to :: "nat \<Rightarrow> unit sync_impl" where
  "up_to n q req =
     (let m = length (sy_pods req) + length (sy_containers req) in
      (if m > n then Inl (OversizedMessage n m) else Inr \<lparr>syr_update = [], syr_more = sy_more req\<rparr>, q))"

lemma shrinks_sample: "shrinks sample_scale"
proof -
  have "sample_scale mx len n < n" if "0 < n" for mx len n
    unfolding sample_scale_def by (rule min.strict_coboundedI2) (use that in linarith)
  then show ?thesis by (simp add: shrinks_def sample_scale_def)
qed

theorem synchronize_returns_or_stuck_witness:
  "\<exists>k s p. k \<le> 6 \<and>
    (sync_step sample_scale (up_to 4) ^^ k)
      (sync_start (slice_of []) (slice_of [zero_container, zero_container, zero_container]), ()) (s, p) \<and>
    ((\<exists>r p'. (\<forall>d > k. synchronize sample_scale (up_to 4) d (slice_of [])
            (slice_of [zero_container, zero_container, zero_container]) () = (r, p')) \<and>
        (r = SyncPanic \<longrightarrow> ss_pods_per_msg s = 4 \<and> ss_ctrs_per_msg s = 4 \<and>
           (snd (ss_pods s) < 4 \<or> snd (ss_ctrs s) < 4))) \<or>
     stuck s \<and> (\<forall>m t x. (sync_step sample_scale (up_to 4) ^^ m) (s, p) (t, x) \<longrightarrow> t = s))"
  using synchronize_returns_or_stuck [OF shrinks_sample, of "slice_of []"
      "slice_of [zero_container, zero_container, zero_container]" "up_to 4" "()"]
  by (simp add: slice_of_def)

theorem synchronize_delivers_witness:
  "case synchronize sample_scale (logged (up_to 4)) 7 (slice_of []) (slice_of [zero_container, zero_container]) ((), []) of
     (_, (_, sent)) \<Rightarrow> concat (map sy_containers sent) = [zero_container, zero_container]"
proof -
  let ?run = "synchronize sample_scale (logged (up_to 4)) 7 (slice_of []) (slice_of [zero_container, zero_container]) ((), [])"
  have "?run = (Synced [], ((), [\<lparr>sy_pods = [], sy_containers = [zero_container, zero_container], sy_more = False\<rparr>]))"
    by (simp add: synchronize_def sync_start_def sync_round_def slice_of_def numeral_eq_Suc reslice_to_def ss_more_def
        logged_pair up_to_def)
  from synchronize_delivers [OF this] this show ?thesis by simp
qed

text \<open>One pod and \<open>m\<close> containers left, with chunks of no pod and \<open>k\<close> containers.\<close>

definition starved :: "pod_sandbox \<Rightarrow> container \<Rightarrow> nat \<Rightarrow> nat \<Rightarrow> sync_state" where
  "starved p c m k = \<lparr>ss_pods = ([p], 1), ss_ctrs = (replicate m c, m), ss_pods_per_msg = 0, ss_ctrs_per_msg = k\<rparr>"

lemma starved_round:
  assumes "k \<le> m" and "k \<le> n"
  shows "sync_round scale (logged (up_to n)) (starved p c m k) ((), log) =
    (Inr (starved p c (m - k) (min k (m - k))),
     ((), log @ [\<lparr>sy_pods = [], sy_containers = replicate k c, sy_more = True\<rparr>]))"
proof -
  have "advance (starved p c m k) = Some (starved p c (m - k) (min k (m - k)))"
    using assms(1) by (simp add: advance_def reslice_from_def starved_def min_def)
  moreover have "ss_more (starved p c m k)" by (simp add: ss_more_def starved_def)
  moreover have "reslice_to (ss_pods_per_msg (starved p c m k)) (ss_pods (starved p c m k)) = Some []"
    "reslice_to (ss_ctrs_per_msg (starved p c m k)) (ss_ctrs (starved p c m k)) = Some (replicate k c)"
    using assms(1) by (simp_all add: starved_def reslice_to_def min_def)
  ultimately show ?thesis using assms(2) by (simp add: sync_round_def logged_pair up_to_def Let_def)
qed

text \<open>From such a state the loop runs into the deadline and never sends the pod.\<close>

lemma starved_times_out:
  assumes "k \<le> n"
  shows "k \<le> m \<Longrightarrow> \<exists>sent. sync_loop scale (logged (up_to n)) d (starved p c m k) ((), log) =
      (SyncFailed (Transport SyncDeadline), ((), log @ sent)) \<and> length sent = d \<and>
    concat (map sy_pods sent) = [] \<and> (\<forall>r \<in> set sent. sy_more r) \<and>
    length (concat (map sy_containers sent)) \<le> m"
  using assms
proof (induction d arbitrary: m k log)
  case 0
  then show ?case
    by (simp add: sync_round_def starved_def reslice_to_def too_late_def recalcObjsPerSyncMsg_def)
next
  case (Suc d)
  let ?req = "\<lparr>sy_pods = [], sy_containers = replicate k c, sy_more = True\<rparr>"
  have le: "min k (m - k) \<le> m - k" "min k (m - k) \<le> n" using Suc.prems by simp_all
  obtain sent where sent: "sync_loop scale (logged (up_to n)) d (starved p c (m - k) (min k (m - k))) ((), log @ [?req]) =
      (SyncFailed (Transport SyncDeadline), ((), (log @ [?req]) @ sent))" "length sent = d"
      "concat (map sy_pods sent) = []" "\<forall>r \<in> set sent. sy_more r"
      "length (concat (map sy_containers sent)) \<le> m - k"
    using Suc.IH [OF le, of "log @ [?req]"] by blast
  then show ?case
    using starved_round [of k m n scale p c log] Suc.prems by (intro exI [of _ "?req # sent"]) auto
qed

text \<open>
  C14. A synchronisation can do nothing but wait for its deadline: a runtime with one pod and twenty containers, a plugin that
  takes up to ten objects per message. The twenty-one objects are rejected once; scaled by 10/21 the chunk is no
  pod and nine containers; the containers go out, and from then on every message is empty and announces more. Whatever the
  deadline, the plugin accepts all messages that there is time for and is never sent the pod, and the synchronisation fails.
\<close>

theorem synchronize_livelock:
  assumes "scale 10 21 1 = 0" and "scale 10 21 20 = 9"
  shows "\<exists>sent. synchronize scale (logged (up_to 10)) (Suc d) (slice_of [p]) (slice_of (replicate 20 c)) ((), []) =
      (SyncFailed (Transport SyncDeadline), ((), sent)) \<and> length sent = d \<and>
    concat (map sy_pods sent) = [] \<and> (\<forall>r \<in> set sent. sy_more r) \<and>
    length (concat (map sy_containers sent)) \<le> 20"
proof -
  have "recalcObjsPerSyncMsg scale 1 20 (OversizedMessage 10 21) = Inr (0, 9)"
    using assms by (simp add: recalcObjsPerSyncMsg_def)
  then have "sync_round scale (logged (up_to 10)) (sync_start (slice_of [p]) (slice_of (replicate 20 c))) ((), []) =
      (Inr (starved p c 20 9), ((), []))"
    by (simp add: sync_round_def sync_start_def slice_of_def reslice_to_def logged_pair up_to_def Let_def starved_def)
  then show ?thesis using starved_times_out [of 9 10 20 scale d p c "[]"] by (simp add: synchronize_def)
qed

definition sample_pod :: pod_sandbox where
  "sample_pod = \<lparr>pod_id = ''p'', pod_name = [], pod_uid = [], pod_namespace = [], pod_labels = None,
     pod_annotations = None\<rparr>"

theorem synchronize_livelock_witness:
  "\<exists>sent. synchronize sample_scale (logged (up_to 10)) 1000 (slice_of [sample_pod])
      (slice_of (replicate 20 zero_container)) ((), []) = (SyncFailed (Transport SyncDeadline), ((), sent)) \<and>
    length sent = 999 \<and> concat (map sy_pods sent) = []"
  using synchronize_livelock [of sample_scale 999 sample_pod zero_container] by (auto simp: sample_scale_def)

text \<open>
  Sizing down can crash the runtime: the smallest chunk is four pods and four containers, whatever is
  left to send. With one pod and nine containers and a plugin that takes up to three objects per message, the ten
  objects are rejected, scaled to no pod and two containers and so raised to four and four; taking four
  pods out of a slice of one panics.
\<close>

theorem synchronize_min_chunk_panics:
  assumes "scale 3 10 1 = 0" and "scale 3 10 9 = 2"
  shows "fst (synchronize scale (up_to 3) (Suc deadline) (slice_of [p]) (slice_of (replicate 9 c)) ()) = SyncPanic"
  using assms
  by (cases deadline)
    (simp_all add: synchronize_def sync_start_def sync_round_def slice_of_def reslice_to_def up_to_def Let_def
      recalcObjsPerSyncMsg_def)

theorem synchronize_min_chunk_panics_witness:
  "fst (synchronize sample_scale (up_to 3) (Suc 1) (slice_of [sample_pod]) (slice_of (replicate 9 zero_container)) ()) = SyncPanic"
  by (rule synchronize_min_chunk_panics) (simp_all add: sample_scale_def)

end
