(* ===== verification/Builtin.thy ===== *)
theory Builtin
  imports Relay Sync
begin

text \<open>
  Plugins in the runtime's own process (\<^verbatim>\<open>src/pkg/adaptation/builtin/plugin.go\<close>) and the dispatch of a
  call over the three kinds of plugin implementation (\<^verbatim>\<open>src/pkg/adaptation/plugin_type.go\<close>).

  A handler is a field that may be nil; a handler that is set is a function on its request. It
  answers with a reply or an error, and what follows it in the code looks at the error first, except in
  \<^verbatim>\<open>Configure\<close>, whose handler therefore returns both. The validation handler returns only an error, its
  text, and may panic.
\<close>

section \<open>Handlers\<close>

record state_change_event =
  sce_event :: event
  sce_pod :: "pod_sandbox option"
  sce_container :: "container option"

record configure_request =
  cq_config :: string
  cq_runtime_name :: string
  cq_runtime_version :: string
  cq_registration_timeout :: int64
  cq_request_timeout :: int64

type_synonym notice = "state_change_event \<Rightarrow> rpc_error option"

record builtin_handlers =
  bh_Configure :: "(configure_request \<Rightarrow> event_mask option \<times> rpc_error option) option"
  bh_Synchronize :: "(sync_request \<Rightarrow> sync_error + sync_response) option"
  bh_RunPodSandbox :: "notice option"
  bh_StopPodSandbox :: "notice option"
  bh_RemovePodSandbox :: "notice option"
  bh_UpdatePodSandbox :: "(pod_update_request \<Rightarrow> rpc_error + unit option) option"
  bh_PostUpdatePodSandbox :: "notice option"
  bh_CreateContainer :: "(create_request \<Rightarrow> rpc_error + create_response option) option"
  bh_PostCreateContainer :: "notice option"
  bh_StartContainer :: "notice option"
  bh_PostStartContainer :: "notice option"
  bh_UpdateContainer :: "(update_request \<Rightarrow> rpc_error + update_response option) option"
  bh_PostUpdateContainer :: "notice option"
  bh_StopContainer :: "(stop_request \<Rightarrow> rpc_error + stop_response option) option"
  bh_RemoveContainer :: "notice option"
  bh_ValidateContainerAdjustment :: "(validate_request \<Rightarrow> string status) option"

record builtin_plugin =
  bp_base :: string
  bp_index :: string
  bp_handlers :: builtin_handlers

definition no_handlers :: builtin_handlers where
  "no_handlers = \<lparr>bh_Configure = None, bh_Synchronize = None, bh_RunPodSandbox = None, bh_StopPodSandbox = None,
     bh_RemovePodSandbox = None, bh_UpdatePodSandbox = None, bh_PostUpdatePodSandbox = None,
     bh_CreateContainer = None, bh_PostCreateContainer = None, bh_StartContainer = None,
     bh_PostStartContainer = None, bh_UpdateContainer = None, bh_PostUpdateContainer = None,
     bh_StopContainer = None, bh_RemoveContainer = None, bh_ValidateContainerAdjustment = None\<rparr>"

section \<open>The plugin service\<close>

definition set_if :: "'h option \<Rightarrow> event \<Rightarrow> (unit, event_mask) action" where
  "set_if handler e = (if handler \<noteq> None then EventMask_Set [e] else skip)"

text \<open>The events with a handler, for a plugin that does not say which it wants.\<close>

definition handler_events :: "builtin_handlers \<Rightarrow> event_mask" where
  "handler_events h = snd (run
     [set_if (bh_RunPodSandbox h) 1,
      set_if (bh_StopPodSandbox h) 2,
      set_if (bh_RemovePodSandbox h) 3,
      set_if (bh_UpdatePodSandbox h) 12,
      set_if (bh_PostUpdatePodSandbox h) 13,
      set_if (bh_CreateContainer h) 4,
      set_if (bh_PostCreateContainer h) 5,
      set_if (bh_StartContainer h) 6,
      set_if (bh_PostStartContainer h) 7,
      set_if (bh_UpdateContainer h) 8,
      set_if (bh_PostUpdateContainer h) 9,
      set_if (bh_StopContainer h) 10,
      set_if (bh_RemoveContainer h) 11,
      set_if (bh_ValidateContainerAdjustment h) 14] 0)"

text \<open>The outer \<open>None\<close> is the panic when the handler returned no reply.\<close>

definition Builtin_Configure ::
    "builtin_plugin \<Rightarrow> configure_request \<Rightarrow> (event_mask \<times> rpc_error option) option" where
  "Builtin_Configure b req =
     (let (rpl, err) = (case bh_Configure (bp_handlers b) of None \<Rightarrow> (Some 0, None) | Some f \<Rightarrow> f req) in
      case rpl of
        None \<Rightarrow> None
      | Some events \<Rightarrow> Some (if events = 0 then handler_events (bp_handlers b) else events, err))"

definition Builtin_Synchronize :: "builtin_plugin \<Rightarrow> sync_request \<Rightarrow> sync_error + sync_response" where
  "Builtin_Synchronize b req =
     (case bh_Synchronize (bp_handlers b) of
        Some f \<Rightarrow> f req
      | None \<Rightarrow> Inr \<lparr>syr_update = [], syr_more = False\<rparr>)"

definition Builtin_CreateContainer :: "builtin_plugin \<Rightarrow> create_request \<Rightarrow> rpc_error + create_response option" where
  "Builtin_CreateContainer b req =
     (case bh_CreateContainer (bp_handlers b) of
        Some f \<Rightarrow> f req
      | None \<Rightarrow> Inr (Some \<lparr>crs_adjust = None, crs_update = [], crs_evict = []\<rparr>))"

definition Builtin_UpdateContainer :: "builtin_plugin \<Rightarrow> update_request \<Rightarrow> rpc_error + update_response option" where
  "Builtin_UpdateContainer b req =
     (case bh_UpdateContainer (bp_handlers b) of
        Some f \<Rightarrow> f req
      | None \<Rightarrow> Inr (Some \<lparr>urs_update = [], urs_evict = []\<rparr>))"

definition Builtin_StopContainer :: "builtin_plugin \<Rightarrow> stop_request \<Rightarrow> rpc_error + stop_response option" where
  "Builtin_StopContainer b req =
     (case bh_StopContainer (bp_handlers b) of Some f \<Rightarrow> f req | None \<Rightarrow> Inr (Some \<lparr>srs_update = []\<rparr>))"

definition notify :: "notice option \<Rightarrow> state_change_event \<Rightarrow> rpc_error option" where
  "notify handler evt = (case handler of Some f \<Rightarrow> f evt | None \<Rightarrow> None)"

definition Builtin_StateChange :: "builtin_plugin \<Rightarrow> state_change_event \<Rightarrow> rpc_error option" where
  "Builtin_StateChange b evt =
     (let h = bp_handlers b; e = sce_event evt in
      if e = 1 then notify (bh_RunPodSandbox h) evt
      else if e = 2 then notify (bh_StopPodSandbox h) evt
      else if e = 3 then notify (bh_RemovePodSandbox h) evt
      else if e = 5 then notify (bh_PostCreateContainer h) evt
      else if e = 6 then notify (bh_StartContainer h) evt
      else if e = 7 then notify (bh_PostStartContainer h) evt
      else if e = 9 then notify (bh_PostUpdateContainer h) evt
      else if e = 11 then notify (bh_RemoveContainer h) evt
      else None)"

definition Builtin_UpdatePodSandbox :: "builtin_plugin \<Rightarrow> pod_update_request \<Rightarrow> rpc_error + unit option" where
  "Builtin_UpdatePodSandbox b req =
     (case bh_UpdatePodSandbox (bp_handlers b) of Some f \<Rightarrow> f req | None \<Rightarrow> Inr (Some ()))"

definition Builtin_PostUpdatePodSandbox :: "builtin_plugin \<Rightarrow> state_change_event \<Rightarrow> rpc_error option" where
  "Builtin_PostUpdatePodSandbox b req = notify (bh_PostUpdatePodSandbox (bp_handlers b)) req"

text \<open>A validation error becomes a rejection; \<open>None\<close> is a panic of the handler.\<close>

definition Builtin_ValidateContainerAdjustment ::
    "builtin_plugin \<Rightarrow> validate_request \<Rightarrow> validate_response option" where
  "Builtin_ValidateContainerAdjustment b req =
     (case (case bh_ValidateContainerAdjustment (bp_handlers b) of None \<Rightarrow> Done | Some f \<Rightarrow> f req) of
        Done \<Rightarrow> Some \<lparr>vrs_reject = False, vrs_reason = []\<rparr>
      | Failed err \<Rightarrow> Some \<lparr>vrs_reject = True, vrs_reason = err\<rparr>
      | Panicked \<Rightarrow> None)"

section \<open>Kinds of plugins\<close>

text \<open>
  \<^verbatim>\<open>pluginType\<close> holds one implementation of the plugin service out of three kinds; a call goes to the first one set. The
  methods of the service, as functions on their requests.
\<close>

record plugin_service =
  sv_Synchronize :: "sync_request \<Rightarrow> sync_error + sync_response"
  sv_Configure :: "configure_request \<Rightarrow> rpc_error + event_mask"
  sv_CreateContainer :: "create_request \<Rightarrow> rpc_error + create_response option"
  sv_UpdateContainer :: "update_request \<Rightarrow> rpc_error + update_response option"
  sv_StopContainer :: "stop_request \<Rightarrow> rpc_error + stop_response option"
  sv_UpdatePodSandbox :: "pod_update_request \<Rightarrow> rpc_error + unit option"
  sv_StateChange :: notice
  sv_ValidateContainerAdjustment :: "validate_request \<Rightarrow> rpc_error + validate_response"

record pluginType =
  pt_wasmImpl :: "plugin_service option"
  pt_ttrpcImpl :: "plugin_service option"
  pt_builtinImpl :: "plugin_service option"

definition isWasm :: "pluginType \<Rightarrow> bool" where
  "isWasm p \<longleftrightarrow> pt_wasmImpl p \<noteq> None"

definition isTtrpc :: "pluginType \<Rightarrow> bool" where
  "isTtrpc p \<longleftrightarrow> pt_ttrpcImpl p \<noteq> None"

definition isBuiltin :: "pluginType \<Rightarrow> bool" where
  "isBuiltin p \<longleftrightarrow> pt_builtinImpl p \<noteq> None"

text \<open>The switch every method has.\<close>

definition switch_impl :: "pluginType \<Rightarrow> plugin_service option" where
  "switch_impl p =
     (case pt_ttrpcImpl p of
        Some s \<Rightarrow> Some s
      | None \<Rightarrow> (case pt_builtinImpl p of Some s \<Rightarrow> Some s | None \<Rightarrow> pt_wasmImpl p))"

definition errUnknownImpl :: rpc_error where
  "errUnknownImpl = RpcError ''unknown plugin implementation type''"

definition pluginType_Synchronize :: "pluginType \<Rightarrow> sync_request \<Rightarrow> sync_error + sync_response" where
  "pluginType_Synchronize p req =
     (case switch_impl p of None \<Rightarrow> Inl OtherError | Some s \<Rightarrow> sv_Synchronize s req)"

definition pluginType_Configure :: "pluginType \<Rightarrow> configure_request \<Rightarrow> rpc_error + event_mask" where
  "pluginType_Configure p req =
     (case switch_impl p of None \<Rightarrow> Inl errUnknownImpl | Some s \<Rightarrow> sv_Configure s req)"

definition pluginType_CreateContainer :: "pluginType \<Rightarrow> create_request \<Rightarrow> rpc_error + create_response option" where
  "pluginType_CreateContainer p req =
     (case switch_impl p of None \<Rightarrow> Inl errUnknownImpl | Some s \<Rightarrow> sv_CreateContainer s req)"

definition pluginType_UpdateContainer :: "pluginType \<Rightarrow> update_request \<Rightarrow> rpc_error + update_response option" where
  "pluginType_UpdateContainer p req =
     (case switch_impl p of None \<Rightarrow> Inl errUnknownImpl | Some s \<Rightarrow> sv_UpdateContainer s req)"

definition pluginType_StopContainer :: "pluginType \<Rightarrow> stop_request \<Rightarrow> rpc_error + stop_response option" where
  "pluginType_StopContainer p req =
     (case switch_impl p of None \<Rightarrow> Inl errUnknownImpl | Some s \<Rightarrow> sv_StopContainer s req)"

definition pluginType_UpdatePodSandbox :: "pluginType \<Rightarrow> pod_update_request \<Rightarrow> rpc_error + unit option" where
  "pluginType_UpdatePodSandbox p req =
     (case switch_impl p of None \<Rightarrow> Inl errUnknownImpl | Some s \<Rightarrow> sv_UpdatePodSandbox s req)"

definition pluginType_StateChange :: "pluginType \<Rightarrow> state_change_event \<Rightarrow> rpc_error option" where
  "pluginType_StateChange p req =
     (case switch_impl p of None \<Rightarrow> Some errUnknownImpl | Some s \<Rightarrow> sv_StateChange s req)"

definition pluginType_ValidateContainerAdjustment ::
    "pluginType \<Rightarrow> validate_request \<Rightarrow> rpc_error + validate_response" where
  "pluginType_ValidateContainerAdjustment p req =
     (case switch_impl p of None \<Rightarrow> Inl errUnknownImpl | Some s \<Rightarrow> sv_ValidateContainerAdjustment s req)"

section \<open>Subscriptions and delivery\<close>

definition handler_table :: "builtin_handlers \<Rightarrow> (bool \<times> event) list" where
  "handler_table h =
    [(bh_RunPodSandbox h \<noteq> None, 1), (bh_StopPodSandbox h \<noteq> None, 2), (bh_RemovePodSandbox h \<noteq> None, 3),
     (bh_UpdatePodSandbox h \<noteq> None, 12), (bh_PostUpdatePodSandbox h \<noteq> None, 13),
     (bh_CreateContainer h \<noteq> None, 4), (bh_PostCreateContainer h \<noteq> None, 5),
     (bh_StartContainer h \<noteq> None, 6), (bh_PostStartContainer h \<noteq> None, 7),
     (bh_UpdateContainer h \<noteq> None, 8), (bh_PostUpdateContainer h \<noteq> None, 9),
     (bh_StopContainer h \<noteq> None, 10), (bh_RemoveContainer h \<noteq> None, 11),
     (bh_ValidateContainerAdjustment h \<noteq> None, 14)]"

lemma handler_table_events: "event_table (handler_table h)"
  by (simp add: event_table_def handler_table_def has_bit_def)

lemma handler_events_table: "handler_events h = table_mask (handler_table h)"
  by (simp only: table_mask_def handler_events_def handler_table_def for_each_def set_if_def list.map prod.case)

lemma handler_events_IsSet: "(w, e) \<in> set (handler_table h) \<Longrightarrow> EventMask_IsSet e (handler_events h) = Some w"
  unfolding handler_events_table by (rule table_mask_IsSet [OF handler_table_events])

text \<open>
  A builtin plugin without a configuration handler subscribes to exactly the events it has handlers for.
\<close>

theorem builtin_subscribes_to_handlers:
  assumes "bh_Configure (bp_handlers b) = None" and "(w, e) \<in> set (handler_table (bp_handlers b))"
  shows "\<exists>m. Builtin_Configure b req = Some (m, None) \<and> EventMask_IsSet e m = Some w"
  using handler_events_IsSet [OF assms(2)] assms(1) by (simp add: Builtin_Configure_def)

theorem builtin_subscribes_to_handlers_witness:
  "\<exists>m. Builtin_Configure \<lparr>bp_base = ''b'', bp_index = ''00'', bp_handlers = no_handlers\<lparr>bh_StartContainer := Some (\<lambda>_. None)\<rparr>\<rparr>
     \<lparr>cq_config = [], cq_runtime_name = [], cq_runtime_version = [], cq_registration_timeout = 0, cq_request_timeout = 0\<rparr> =
     Some (m, None) \<and> EventMask_IsSet 6 m = Some True"
  by (rule builtin_subscribes_to_handlers) (simp_all add: handler_table_def no_handlers_def)

text \<open>
  Which notifications reach a builtin plugin: those of the eight events \<^verbatim>\<open>StateChange\<close> dispatches, and then the
  handler's error is the call's. A handler for the update of a pod is subscribed (event 13) but never called.
\<close>

theorem builtin_loses_post_update_pod:
  assumes "bh_Configure (bp_handlers b) = None" and "bh_PostUpdatePodSandbox (bp_handlers b) = Some f"
    and "sce_event evt = 13"
  shows "(\<exists>m. Builtin_Configure b req = Some (m, None) \<and> EventMask_IsSet 13 m = Some True) \<and>
    Builtin_StateChange b evt = None"
proof -
  have "(True, 13) \<in> set (handler_table (bp_handlers b))" using assms(2) by (simp add: handler_table_def)
  from handler_events_IsSet [OF this] assms show ?thesis
    by (simp add: Builtin_Configure_def Builtin_StateChange_def Let_def)
qed

theorem builtin_loses_post_update_pod_witness:
  "Builtin_StateChange \<lparr>bp_base = ''b'', bp_index = ''00'',
     bp_handlers = no_handlers\<lparr>bh_PostUpdatePodSandbox := Some (\<lambda>_. Some (RpcError ''lost''))\<rparr>\<rparr>
     \<lparr>sce_event = 13, sce_pod = None, sce_container = None\<rparr> = None"
  using builtin_loses_post_update_pod [where evt = "\<lparr>sce_event = 13, sce_pod = None, sce_container = None\<rparr>"
    and f = "\<lambda>_. Some (RpcError ''lost'')"
    and b = "\<lparr>bp_base = ''b'', bp_index = ''00'',
     bp_handlers = no_handlers\<lparr>bh_PostUpdatePodSandbox := Some (\<lambda>_. Some (RpcError ''lost''))\<rparr>\<rparr>"]
  by (simp add: no_handlers_def)

end
