(* ===== verification/Validator.thy ===== *)
theory Validator
  imports Builtin
begin

text \<open>
  The default validator (\<^verbatim>\<open>src/plugins/default-validator/default-validator.go\<close> and
  \<^verbatim>\<open>builtin/plugin.go\<close> beside it): a builtin plugin that vetoes adjustments its configuration restricts
  and creations that required plugins did not take part in.

  A validation ends in \<open>Done\<close>, in an error, kept as a value with what its message tells, or in the panic
  of a request without container or owners. \<open>text\<close> stands for the rendering of an error by
  \<^verbatim>\<open>fmt\<close>, \<open>yaml\<close> for \<^verbatim>\<open>yaml.Unmarshal\<close> of a list of strings, and \<open>ord\<close> for the order in
  which the runtime ranges over a map.
\<close>

section \<open>Configuration\<close>

record default_validator_config =
  dv_Enable :: bool
  dv_RejectOCIHookAdjustment :: bool
  dv_RejectRuntimeDefaultSeccompAdjustment :: bool
  dv_RejectUnconfinedSeccompAdjustment :: bool
  dv_RejectCustomSeccompAdjustment :: bool
  dv_RejectNamespaceAdjustment :: bool
  dv_RejectSysctlAdjustment :: bool
  dv_RequiredPlugins :: "string list"
  dv_TolerateMissingAnnotation :: string

datatype validation_error =
    HookInjection string bool
  | SeccompAdjustment profile_type string
  | NamespaceAdjustment "string \<Rightarrow> string option"
  | SysctlAdjustment "string list"
  | InvalidAnnotation string string
  | MissingPlugins "string list"

definition RequiredPlugins :: string where
  "RequiredPlugins = ''required-plugins.'' @ ''noderesource.dev''"

section \<open>Helpers of the request and the library\<close>

definition GetPluginMap :: "validate_request \<Rightarrow> (string, plugin_instance) gomap" where
  "GetPluginMap v = fold (\<lambda>p m. AList.update (pi_index p @ ''-'' @ pi_name p) p
     (AList.update (pi_name p) \<lparr>pi_name = pi_name p, pi_index = []\<rparr> m)) (vr_plugins v) []"

text \<open>\<^verbatim>\<open>strconv.ParseBool\<close>\<close>

definition ParseBool :: "string \<Rightarrow> bool option" where
  "ParseBool s =
     (if s \<in> {''1'', ''t'', ''T'', ''TRUE'', ''true'', ''True''} then Some True
      else if s \<in> {''0'', ''f'', ''F'', ''FALSE'', ''false'', ''False''} then Some False
      else None)"

text \<open>The owner of a field as the validator asks for it, and the panics of nil owners and container.\<close>

definition ask_owner ::
    "validate_request \<Rightarrow> (string \<Rightarrow> owning_plugins \<Rightarrow> 'a option) \<Rightarrow> ('a \<Rightarrow> validation_error status) \<Rightarrow>
     validation_error status" where
  "ask_owner req query body =
     (case (vr_container req, vr_owners req) of
        (Some c, Some owners) \<Rightarrow> (case query (ctr_id c) owners of None \<Rightarrow> Done | Some p \<Rightarrow> body p)
      | _ \<Rightarrow> Panicked)"

section \<open>The checks\<close>

definition validateOCIHooks :: "default_validator_config \<Rightarrow> validate_request \<Rightarrow> validation_error status" where
  "validateOCIHooks cfg req =
     (if vr_adjust req = None then Done
      else if \<not> dv_RejectOCIHookAdjustment cfg then Done
      else ask_owner req (OwningPlugins_Owner HooksOwner)
        (\<lambda>owners. Failed (HookInjection owners (contains_str owners '',''))))"

definition validateSeccompPolicy :: "default_validator_config \<Rightarrow> validate_request \<Rightarrow> validation_error status" where
  "validateSeccompPolicy cfg req =
     (if vr_adjust req = None then Done
      else ask_owner req (OwningPlugins_Owner SeccompPolicyOwner)
        (\<lambda>owner.
          let profile = (case vr_container req of None \<Rightarrow> None | Some c \<Rightarrow>
                (case ctr_linux c of None \<Rightarrow> None | Some l \<Rightarrow> lc_seccomp_profile l))
          in case (case profile of None \<Rightarrow> UNCONFINED | Some sp \<Rightarrow> sp_profile_type sp) of
               UNCONFINED \<Rightarrow>
                 if dv_RejectUnconfinedSeccompAdjustment cfg then Failed (SeccompAdjustment UNCONFINED owner) else Done
             | RUNTIME_DEFAULT \<Rightarrow>
                 if dv_RejectRuntimeDefaultSeccompAdjustment cfg
                 then Failed (SeccompAdjustment RUNTIME_DEFAULT owner) else Done
             | LOCALHOST \<Rightarrow>
                 if dv_RejectCustomSeccompAdjustment cfg then Failed (SeccompAdjustment LOCALHOST owner) else Done))"

definition validateNamespaces :: "default_validator_config \<Rightarrow> validate_request \<Rightarrow> validation_error status" where
  "validateNamespaces cfg req =
     (if vr_adjust req = None then Done
      else if \<not> dv_RejectNamespaceAdjustment cfg then Done
      else ask_owner req NamespaceOwners (\<lambda>owners. Failed (NamespaceAdjustment owners)))"

text \<open>The loop over the adjusted sysctls dereferences container and owners only if there is one.\<close>

definition validateSysctl ::
    "(string list \<Rightarrow> string list) \<Rightarrow> default_validator_config \<Rightarrow> validate_request \<Rightarrow> validation_error status" where
  "validateSysctl ord cfg req =
     (case (case vr_adjust req of None \<Rightarrow> None | Some a \<Rightarrow> adj_linux a) of
        None \<Rightarrow> Done
      | Some l \<Rightarrow>
         if \<not> dv_RejectSysctlAdjustment cfg then Done
         else
           (let keys = ord (map fst (gmap_entries (la_sysctl l))) in
            if keys = [] then Done
            else ask_owner req
              (\<lambda>i op. Some (List.map_filter (\<lambda>key. OwningPlugins_Owner (SysctlOwner key) i op) keys))
              (\<lambda>owners. if length owners = 0 then Done else Failed (SysctlAdjustment owners))))"

definition validateRequiredPlugins ::
    "(string \<Rightarrow> string list option) \<Rightarrow> default_validator_config \<Rightarrow> validate_request \<Rightarrow> validation_error status" where
  "validateRequiredPlugins yaml cfg req =
     (let container = (case vr_container req of None \<Rightarrow> [] | Some c \<Rightarrow> ctr_name c);
          tolerateMissing = dv_TolerateMissingAnnotation cfg;
          check = (case GetEffectiveAnnotation (vr_pod req) RequiredPlugins container of
               Some value \<Rightarrow>
                 (case yaml value of
                    None \<Rightarrow> Inl (InvalidAnnotation RequiredPlugins value)
                  | Some annotated \<Rightarrow> Inr (dv_RequiredPlugins cfg @ annotated))
             | None \<Rightarrow> Inr (dv_RequiredPlugins cfg));
          missing_of = (\<lambda>required. filter (\<lambda>r. gmap_get (Some (GetPluginMap req)) r = None) required);
          decide = (case check of
               Inl e \<Rightarrow> Failed e
             | Inr required \<Rightarrow>
                 if length required = 0 then Done
                 else if length (missing_of required) = 0 then Done
                 else Failed (MissingPlugins (missing_of required)))
      in
        if tolerateMissing \<noteq> [] then
          (case GetEffectiveAnnotation (vr_pod req) tolerateMissing container of
             Some value \<Rightarrow>
               (case ParseBool value of
                  None \<Rightarrow> Failed (InvalidAnnotation tolerateMissing value)
                | Some tolerate \<Rightarrow> if tolerate then Done else decide)
           | None \<Rightarrow> decide)
        else decide)"

section \<open>The validator\<close>

definition ValidateContainerAdjustment ::
    "(string list \<Rightarrow> string list) \<Rightarrow> (string \<Rightarrow> string list option) \<Rightarrow> default_validator_config \<Rightarrow>
     validate_request \<Rightarrow> validation_error status" where
  "ValidateContainerAdjustment ord yaml cfg req =
     (let checks = [validateOCIHooks cfg, validateSeccompPolicy cfg, validateNamespaces cfg,
        validateRequiredPlugins yaml cfg, validateSysctl ord cfg]
      in fst (for_each checks (\<lambda>check _. (check req, ())) ()))"

definition GetDefaultValidator ::
    "(string list \<Rightarrow> string list) \<Rightarrow> (string \<Rightarrow> string list option) \<Rightarrow> (validation_error \<Rightarrow> string) \<Rightarrow>
     default_validator_config option \<Rightarrow> builtin_plugin option" where
  "GetDefaultValidator ord yaml text cfg =
     (case cfg of
        None \<Rightarrow> None
      | Some c \<Rightarrow>
         if \<not> dv_Enable c then None
         else Some \<lparr>bp_base = ''default-validator'', bp_index = ''00'',
           bp_handlers = no_handlers\<lparr>bh_ValidateContainerAdjustment :=
             Some (\<lambda>req. map_status text (ValidateContainerAdjustment ord yaml c req))\<rparr>\<rparr>)"

end
