(* ===== verification/Guarded.thy ===== *)
theory Guarded
  imports Update_Laws
begin

text \<open>
  What a plugin sets, it owns: a part of the collected adjustment that is set at the end of a request has an
  owner in the registry, whatever the plugins reply. This is what a validator relies on when it
  looks for a plugin to blame.

  The locale \<open>guarded_field\<close> states the case for one part of the adjustment: an owner, once recorded, stays
  under claims and clears, and the adjustments of other parts leave this one alone (of the variables, which a part may be
  about: dropping entries and adding one that sets a variable). Its lemmas carry
  the invariant through every step of \<^verbatim>\<open>adjust\<close> and \<^verbatim>\<open>update\<close>; the interpretations add the part's own
  step.
\<close>

section \<open>Invariants of actions that do not panic\<close>

text \<open>\<open>kept P a\<close>: unless \<open>a\<close> panics it keeps \<open>P\<close>, also when it fails.\<close>

definition kept :: "('s \<Rightarrow> bool) \<Rightarrow> ('e, 's) action \<Rightarrow> bool" where
  "kept P a \<longleftrightarrow> (\<forall>s. P s \<longrightarrow> fst (a s) \<noteq> Panicked \<longrightarrow> P (snd (a s)))"

named_theorems kept_intros \<open>invariants of actions, by their shape\<close>

lemma kept_D: "kept P a \<Longrightarrow> P s \<Longrightarrow> fst (a s) \<noteq> Panicked \<Longrightarrow> P (snd (a s))"
  unfolding kept_def by blast

lemma kept_I: "(\<And>s. P s \<Longrightarrow> fst (a s) \<noteq> Panicked \<Longrightarrow> P (snd (a s))) \<Longrightarrow> kept P a"
  by (simp add: kept_def)

lemma kept_skip [kept_intros]: "kept P (\<lambda>s. (Done, s))"
  by (simp add: kept_def)

lemma kept_run_Nil [kept_intros]: "kept P (run [])"
  by (simp add: kept_def)

lemma kept_run_Cons [kept_intros]: "kept P a \<Longrightarrow> kept P (run as) \<Longrightarrow> kept P (run (a # as))"
  unfolding kept_def by (auto split: prod.splits status.splits)

lemma kept_for_each [kept_intros]: "(\<And>x. x \<in> set xs \<Longrightarrow> kept P (body x)) \<Longrightarrow> kept P (for_each xs body)"
proof (induction xs)
  case Nil
  then show ?case by (simp add: kept_def)
next
  case (Cons x xs)
  have "kept P (run [body x, for_each xs body])"
    using Cons by (intro kept_run_Cons kept_run_Nil) simp_all
  then show ?case by (simp add: kept_def for_each_Cons del: run.simps)
qed

lemma kept_if [kept_intros]: "(b \<Longrightarrow> kept P a) \<Longrightarrow> (\<not> b \<Longrightarrow> kept P c) \<Longrightarrow> kept P (if b then a else c)"
  by simp

lemma kept_case_option [kept_intros]:
  "(v = None \<Longrightarrow> kept P a) \<Longrightarrow> (\<And>x. v = Some x \<Longrightarrow> kept P (b x)) \<Longrightarrow>
     kept P (case v of None \<Rightarrow> a | Some x \<Rightarrow> b x)"
  by (cases v) simp_all

lemma kept_case_prod [kept_intros]:
  "(\<And>x y. v = (x, y) \<Longrightarrow> kept P (a x y)) \<Longrightarrow> kept P (case v of (x, y) \<Rightarrow> a x y)"
  by (cases v) simp

lemma kept_assign [kept_intros]: "(\<And>s. P s \<Longrightarrow> P (f s)) \<Longrightarrow> kept P (\<lambda>s. (Done, f s))"
  by (simp add: kept_def)

lemma kept_on_part:
  assumes "kept Q a" and "\<And>s. P s \<Longrightarrow> Q (get s)" and "\<And>s p. P s \<Longrightarrow> Q p \<Longrightarrow> P (put p s)"
  shows "kept P (on_part get put a)"
proof (rule kept_I)
  fix s assume s: "P s" "fst (on_part get put a s) \<noteq> Panicked"
  then have "fst (a (get s)) \<noteq> Panicked" by (simp add: on_part_def split_def)
  then have "Q (snd (a (get s)))" by (rule kept_D [OF assms(1) assms(2) [OF s(1)]])
  from assms(3) [OF s(1) this] show "P (snd (on_part get put a s))" by (simp add: on_part_def split_def)
qed

lemma kept_store_entries:
  assumes "\<And>k. kept P (remove k)" and "\<And>k v. kept P (store k v)"
  shows "P s \<Longrightarrow> fst (store_entries remove store es del s) \<noteq> Panicked \<Longrightarrow>
    P (snd (snd (store_entries remove store es del s)))"
proof (induction es arbitrary: del s)
  case Nil
  then show ?case by simp
next
  case (Cons e es)
  obtain k v where e: "e = (k, v)" by (cases e)
  have body: "kept P (run [if k \<in> set del then remove k else (\<lambda>s. (Done, s)), store k v])"
    using assms by (intro kept_intros)
  obtain st t where r: "run [if k \<in> set del then remove k else (\<lambda>s. (Done, s)), store k v] s = (st, t)"
    by fastforce
  with kept_D [OF body Cons.prems(1)] have "st \<noteq> Panicked \<Longrightarrow> P t" by (simp del: run.simps)
  then show ?case using Cons r by (cases st) (auto simp: e simp del: run.simps)
qed

lemma kept_adjust_map [kept_intros]:
  assumes "\<And>k. kept P (remove k)" and "\<And>k v. kept P (store k v)" and "\<And>k. kept P (leave k)"
  shows "kept P (adjust_map ord remove store leave es)"
proof (rule kept_I)
  fix s assume s: "P s" "fst (adjust_map ord remove store leave es s) \<noteq> Panicked"
  obtain del rest where dr: "split_marked es = (del, rest)" by (cases "split_marked es")
  obtain st del' t where r: "store_entries remove store rest del s = (st, del', t)"
    by (cases "store_entries remove store rest del s")
  have "st \<noteq> Panicked \<Longrightarrow> P t" using kept_store_entries [where P = P and remove = remove and store = store and s = s and es = rest and del = del,
      OF assms(1,2) s(1)] r by simp
  moreover have "kept P (for_each (ord del') leave)" using assms(3) by (intro kept_intros)
  ultimately show "P (snd (adjust_map ord remove store leave es s))"
    using s(2) by (cases st) (auto simp: adjust_map_def dr r dest: kept_D)
qed

text \<open>\<open>kept_done P a\<close>: when \<open>a\<close> succeeds it keeps \<open>P\<close>.\<close>

definition kept_done :: "('s \<Rightarrow> bool) \<Rightarrow> ('e, 's) action \<Rightarrow> bool" where
  "kept_done P a \<longleftrightarrow> (\<forall>s t. P s \<longrightarrow> a s = (Done, t) \<longrightarrow> P t)"

named_theorems done_intros \<open>invariants of actions that succeed, by their shape\<close>

lemma kept_done_D: "kept_done P a \<Longrightarrow> P s \<Longrightarrow> a s = (Done, t) \<Longrightarrow> P t"
  unfolding kept_done_def by blast

lemma kept_imp_done: "kept P a \<Longrightarrow> kept_done P a"
  unfolding kept_def kept_done_def by force

lemma kept_done_Nil [done_intros]: "kept_done P (run [])"
  by (simp add: kept_done_def)

lemma kept_done_Cons [done_intros]: "kept_done P a \<Longrightarrow> kept_done P (run as) \<Longrightarrow> kept_done P (run (a # as))"
proof (unfold kept_done_def, intro allI impI)
  fix s t
  assume a: "\<forall>s t. P s \<longrightarrow> a s = (Done, t) \<longrightarrow> P t" "\<forall>s t. P s \<longrightarrow> run as s = (Done, t) \<longrightarrow> P t"
    "P s" "run (a # as) s = (Done, t)"
  obtain st u where u: "a s = (st, u)" by fastforce
  with a(4) have d: "st = Done" "run as u = (Done, t)" by (simp_all split: status.splits)
  from a(1) a(3) u d(1) have "P u" by blast
  with a(2) d(2) show "P t" by blast
qed

lemma kept_done_skip [done_intros]: "kept_done P (\<lambda>s. (Done, s))"
  by (simp add: kept_done_def)

lemma kept_done_if [done_intros]:
  "(b \<Longrightarrow> kept_done P a) \<Longrightarrow> (\<not> b \<Longrightarrow> kept_done P c) \<Longrightarrow> kept_done P (if b then a else c)"
  by simp

lemma kept_done_case_option [done_intros]:
  "(v = None \<Longrightarrow> kept_done P a) \<Longrightarrow> (\<And>x. v = Some x \<Longrightarrow> kept_done P (b x)) \<Longrightarrow>
     kept_done P (case v of None \<Rightarrow> a | Some x \<Rightarrow> b x)"
  by (cases v) simp_all

lemma kept_done_for_each: "(\<And>x. x \<in> set xs \<Longrightarrow> kept_done P (body x)) \<Longrightarrow> kept_done P (for_each xs body)"
proof (induction xs)
  case Nil
  then show ?case by (simp add: kept_done_def)
next
  case (Cons x xs)
  have "kept_done P (run [body x, for_each xs body])"
    using Cons by (intro done_intros) simp_all
  then show ?case by (simp add: kept_done_def for_each_Cons del: run.simps)
qed

section \<open>What an update leaves alone\<close>

lemma updateResources_frame:
  "create_container (snd (updateResources u p s)) = create_container s"
  "rs_reply (snd (updateResources u p s)) = rs_reply s"
  by (auto simp: updateResources_def Let_def set_entry_resources_def set_requested_resources_def
      create_container_def split: option.split prod.split status.split)

lemma updateResources_owners:
  "rs_owners (snd (updateResources u p s)) = rs_owners s \<or>
   (\<exists>r q. fst (update_resource_copy r (cu_container_id u) p (rs_owners s, q)) = fst (updateResources u p s) \<and>
      rs_owners (snd (updateResources u p s)) =
        fst (snd (update_resource_copy r (cu_container_id u) p (rs_owners s, q))))"
proof -
  have ow: "rs_owners (set_entry_resources c x t) = rs_owners t"
    "rs_owners (set_requested_resources x t) = rs_owners t" for c x t
    by (simp_all add: set_entry_resources_def set_requested_resources_def)
  show ?thesis
    by (simp add: updateResources_def Let_def ow split: option.split prod.split status.split)
      (intro conjI impI allI; metis fst_conv snd_conv)
qed

section \<open>What claims of a container keep of the store\<close>

text \<open>
  Resources are adjusted on copies of the store and of the two structs, which are then put back, for the
  created container and for an updated one alike. What the claims of container \<open>i\<close> keep of the store, these
  methods keep.
\<close>

locale claim_stable =
  fixes owned :: "owning_plugins \<Rightarrow> bool" and i :: string
  assumes claim_stable: "owned op \<Longrightarrow> owned (snd (OwningPlugins_Claim c i p op))"
begin

abbreviation "T \<equiv> (\<lambda>t. owned (fst t))"

lemma kept_any: "kept (\<lambda>_. True) a"
  by (simp add: kept_def)

lemma kept_claim_t: "kept T (claim_t c i p)"
  by (auto simp: kept_def claim_t_def on_part_def split_def claim_stable)

lemma kept_part_claim: "kept T (on_part fst (\<lambda>o' (_, t). (o', t)) (OwningPlugins_Claim c i p))"
  by (auto simp: kept_def on_part_def split_def claim_stable)

lemma kept_adjust_field: "kept T (adjust_field v c store i p)"
  unfolding adjust_field_def
  by (intro kept_intros kept_part_claim) (auto simp: kept_def split: option.split)

lemma kept_adjustMemoryResource: "kept T (adjustMemoryResource m i p)"
  unfolding adjustMemoryResource_def by (intro kept_intros kept_adjust_field)

lemma kept_adjustCPUResource: "kept T (adjustCPUResource m i p)"
  unfolding adjustCPUResource_def by (intro kept_intros kept_adjust_field)

lemma kept_on_both: "kept T (on_both a)"
  unfolding on_both_def
  by (intro kept_intros kept_on_part [where Q = "\<lambda>_. True", OF kept_any]) (auto split: prod.splits)

lemma kept_resource_targets: "kept T (adjust_resource_targets r i p)"
  unfolding adjust_resource_targets_def
  by (intro kept_intros kept_claim_t kept_on_both
      kept_on_part [OF kept_adjustMemoryResource] kept_on_part [OF kept_adjustCPUResource])
    (auto split: prod.splits)

lemma kept_update_pids:
  "kept T (\<lambda>(o', r). case res_pids r of
     None \<Rightarrow> (Done, (o', r))
   | Some v \<Rightarrow> run
       [claim_t ClaimPidsLimit i p,
        assign (\<lambda>(o', r). (o', r\<lparr>res_pids := Some \<lparr>pids_limit = pids_limit v\<rparr>\<rparr>))] (o', r))"
proof -
  have "kept T (run [claim_t ClaimPidsLimit i p,
      assign (\<lambda>(o', r). (o', r\<lparr>res_pids := Some v\<rparr>))])" for v
    by (intro kept_intros kept_claim_t) (auto split: prod.split)
  from kept_D [OF this] show ?thesis by (intro kept_I) (auto simp del: run.simps split: option.splits)
qed

lemma kept_update_copy: "kept T (update_resource_copy r i p)"
  unfolding update_resource_copy_def
  by (intro kept_intros kept_claim_t kept_on_part [OF kept_adjustMemoryResource]
      kept_on_part [OF kept_adjustCPUResource] kept_on_part [where Q = "\<lambda>_. True", OF kept_any]
      kept_update_pids)
    (auto split: prod.splits)

end

section \<open>The contract of a guarded part\<close>

text \<open>
  \<open>owned op\<close>: the registry has an owner for the part. \<open>is_set a\<close>: the adjustment sets it.
\<close>

definition guarded :: "string \<Rightarrow> (owning_plugins \<Rightarrow> bool) \<Rightarrow> (container_adjustment \<Rightarrow> bool) \<Rightarrow> result \<Rightarrow> bool" where
  "guarded cid owned is_set s \<longleftrightarrow>
     (\<exists>c. create_container s = Some c \<and> ctr_id c = cid) \<and>
     (\<forall>a. rp_adjust (rs_reply s) = Some a \<longrightarrow> is_set a \<longrightarrow> owned (rs_owners s))"

locale guarded_field =
  fixes cid :: string and owned :: "owning_plugins \<Rightarrow> bool" and is_set :: "container_adjustment \<Rightarrow> bool"
  assumes claim_owned: "owned op \<Longrightarrow> owned (snd (OwningPlugins_Claim c i p op))"
    and clear_owned: "owned op \<Longrightarrow> owned (OwningPlugins_Clear cl i p op)"
    and frame: "is_set (a\<lparr>adj_annotations := x1\<rparr>) \<Longrightarrow> is_set a" "is_set (a\<lparr>adj_mounts := x2\<rparr>) \<Longrightarrow> is_set a"
      "is_set (a\<lparr>adj_args := x4\<rparr>) \<Longrightarrow> is_set a"
      "is_set (a\<lparr>adj_rlimits := x5\<rparr>) \<Longrightarrow> is_set a" "is_set (a\<lparr>adj_cdi_devices := x6\<rparr>) \<Longrightarrow> is_set a"
    and frame_env: "is_set (a\<lparr>adj_env := filter keep (adj_env a)\<rparr>) \<Longrightarrow> is_set a"
      "\<not> snd (KeyValue_IsMarkedForRemoval e) \<Longrightarrow> is_set (a\<lparr>adj_env := adj_env a @ [e]\<rparr>) \<Longrightarrow> is_set a"
    and frame_linux: "adj_linux a = Some l \<Longrightarrow> la_seccomp_policy l' = la_seccomp_policy l \<Longrightarrow>
      la_namespaces l' = la_namespaces l \<Longrightarrow> is_set (a\<lparr>adj_linux := Some l'\<rparr>) \<Longrightarrow> is_set a"
    and frame_alloc: "is_set (a\<lparr>adj_linux := alloc zero_linux_adjustment (adj_linux a)\<rparr>) \<Longrightarrow> is_set a"
    and not_set: "\<not> is_set zero_adjustment"

sublocale guarded_field \<subseteq> stable: claim_stable owned i for i
  by unfold_locales (rule claim_owned)

context guarded_field
begin

abbreviation "G \<equiv> guarded cid owned is_set"

lemma kept_claim_r [kept_intros]: "kept G (claim_r c i p)"
  by (auto simp: kept_def guarded_def claim_r_def on_part_def split_def create_container_def claim_owned)

lemma kept_clear_r [kept_intros]: "kept G (clear_r c i p)"
  by (auto simp: kept_def guarded_def clear_r_def create_container_def clear_owned)

lemma on_container_G:
  assumes "G s" and "\<And>c. ctr_id (snd (a c)) = ctr_id c"
  shows "G (snd (on_container a s))"
  using assms by (auto simp: guarded_def on_container_def on_ptr_def set_container_def
      create_container_def split: option.splits prod.splits) (metis snd_conv)+

lemma on_adjust_G:
  assumes "G s" and "\<And>a. is_set (snd (act a)) \<Longrightarrow> is_set a"
  shows "G (snd (on_adjust act s))"
  using assms by (cases "rp_adjust (rs_reply s)")
    (auto simp: guarded_def on_adjust_def on_ptr_def split_def set_adjust_def create_container_def)

lemma on_linux_is_set:
  assumes "is_set (snd (on_ptr adj_linux (\<lambda>l j. j\<lparr>adj_linux := Some l\<rparr>) act a))"
    and "\<And>l. la_seccomp_policy (snd (act l)) = la_seccomp_policy l"
    and "\<And>l. la_namespaces (snd (act l)) = la_namespaces l"
  shows "is_set a"
  using assms frame_linux [of a] by (cases "adj_linux a") (auto simp: on_ptr_def split_def)

lemma kept_on_container: "(\<And>c. ctr_id (snd (a c)) = ctr_id c) \<Longrightarrow> kept G (on_container a)"
  by (rule kept_I) (rule on_container_G)

lemma kept_on_container_linux [kept_intros]: "kept G (on_container_linux a)"
  unfolding on_container_linux_def
  by (rule kept_on_container) (simp add: on_ptr_def split: option.split prod.split)

lemma kept_on_adjust: "(\<And>a. is_set (snd (act a)) \<Longrightarrow> is_set a) \<Longrightarrow> kept G (on_adjust act)"
  by (rule kept_I) (rule on_adjust_G)

lemma kept_on_adjust_linux:
  assumes "\<And>l. la_seccomp_policy (snd (act l)) = la_seccomp_policy l"
    and "\<And>l. la_namespaces (snd (act l)) = la_namespaces l"
  shows "kept G (on_adjust_linux act)"
  unfolding on_adjust_linux_def by (rule kept_on_adjust) (rule on_linux_is_set [OF _ assms])

lemma kept_with_id [kept_intros]: "(\<And>i. kept G (body i)) \<Longrightarrow> kept G (with_id body)"
  by (auto simp: kept_def with_id_def split: option.split)

lemma kept_with_own_id: "kept G (body cid) \<Longrightarrow> kept G (with_id body)"
  by (auto simp: kept_def with_id_def guarded_def split: option.split)

lemma kept_with_adjust [kept_intros]: "(\<And>a. kept G (body a)) \<Longrightarrow> kept G (with_adjust body)"
  by (auto simp: kept_def with_adjust_def split: option.split)

lemma kept_with_adjust_linux [kept_intros]: "(\<And>a. kept G (body a)) \<Longrightarrow> kept G (with_adjust_linux body)"
  unfolding with_adjust_linux_def by (intro kept_intros) (auto simp: kept_def split: option.split)

lemma kept_with_container_linux: "(\<And>l. kept G (body l)) \<Longrightarrow> kept G (with_container_linux body)"
  by (auto simp: kept_def with_container_linux_def with_container_def split: option.split)

lemmas kept_here = kept_intros kept_on_container kept_on_adjust kept_on_adjust_linux

lemma kept_gmap_put:
  "kept G (put_container_annotation k v)" "kept G (put_reply_annotation k v)"
  "kept G (put_container_net_device k w)" "kept G (put_reply_net_device k w)"
  "kept G (put_container_sysctl k v)" "kept G (put_reply_sysctl k v)"
  unfolding put_container_annotation_def put_reply_annotation_def put_container_net_device_def
    put_reply_net_device_def put_container_sysctl_def put_reply_sysctl_def
  by (intro kept_here; simp add: on_part_def split_def; (erule frame)?)+

lemma kept_adjustAnnotations: "kept G (adjustAnnotations ord m p)"
  unfolding adjustAnnotations_def by (intro kept_here kept_gmap_put) simp_all

lemma kept_adjustSysctl: "kept G (adjustSysctl ord m p)"
  unfolding adjustSysctl_def by (intro kept_here kept_gmap_put)

lemma kept_adjustLinuxNetDevices: "kept G (adjustLinuxNetDevices ord m p)"
  unfolding adjustLinuxNetDevices_def by (intro kept_here kept_gmap_put)

lemma kept_adjustMounts: "kept G (adjustMounts ord ms p)"
  unfolding adjustMounts_def Let_def
  by (intro kept_here; simp; (erule frame)?)

lemma kept_adjustEnv: "kept G (adjustEnv es p)"
  unfolding adjustEnv_def split_removals_parts Let_def prod.case
  by (intro kept_here; (simp add: additions_def)?; (erule frame_env(1))?; (elim conjE, erule (1) frame_env(2))?)

lemma kept_adjustDevices: "kept G (adjustDevices ds p)"
  unfolding adjustDevices_def Let_def
  by (intro kept_here; simp)

lemma kept_adjustCDIDevices: "kept G (adjustCDIDevices ds p)"
  unfolding adjustCDIDevices_def by (intro kept_here; simp; (erule frame)?)

lemma kept_adjustRlimits: "kept G (adjustRlimits ls p)"
  unfolding adjustRlimits_def by (intro kept_here; simp; (erule frame)?)

lemma kept_adjustArgs: "kept G (adjustArgs args p)"
  unfolding adjustArgs_def Let_def by (intro kept_here; simp; (erule frame)?)

lemma kept_adjust_values:
  "kept G (adjustCgroupsPath path p)" "kept G (adjustOomScoreAdj oom p)" "kept G (adjustIOPriority prio p)"
  "kept G (adjustLinuxScheduler sch p)"
  unfolding adjustCgroupsPath_def adjustOomScoreAdj_def adjustIOPriority_def adjustLinuxScheduler_def
  by (intro kept_here; simp)+

text \<open>The resources are copied back whole.\<close>

lemma set_resources_kept:
  assumes "G s" and "owned (rs_owners s) \<Longrightarrow> owned (fst t)"
  shows "G (set_resources t s)"
proof -
  obtain o' c q where t: "t = (o', c, q)" by (cases t)
  let ?c = "on_container_linux (assign (\<lambda>l. l\<lparr>lc_resources := Some c\<rparr>))"
  let ?a = "on_adjust_linux (assign (\<lambda>l. l\<lparr>la_resources := Some q\<rparr>))"
  have "G (s\<lparr>rs_owners := o'\<rparr>)" using assms t by (auto simp: guarded_def create_container_def)
  then have "G (snd (?c (s\<lparr>rs_owners := o'\<rparr>)))"
    unfolding on_container_linux_def by (rule on_container_G) (simp add: on_ptr_def split: option.split prod.split)
  then have "G (snd (?a (snd (?c (s\<lparr>rs_owners := o'\<rparr>)))))"
    unfolding on_adjust_linux_def by (rule on_adjust_G) (auto intro: on_linux_is_set)
  then show ?thesis by (simp add: set_resources_def t)
qed

lemma kept_adjustResources: "kept G (adjustResources res p)"
proof (cases res)
  case None
  then show ?thesis unfolding adjustResources_def by (simp add: kept_skip)
next
  case (Some r)
  have "kept G (\<lambda>s. case (container_resources s, reply_resources s) of
            (Some container, Some reply) \<Rightarrow>
              (case adjust_resource_targets r i p (rs_owners s, container, reply) of
                 (st, t) \<Rightarrow> (st, set_resources t s))
          | _ \<Rightarrow> (Panicked, s))" for i
  proof (rule kept_I)
    fix s assume s: "G s"
      "fst (case (container_resources s, reply_resources s) of
            (Some container, Some reply) \<Rightarrow>
              (case adjust_resource_targets r i p (rs_owners s, container, reply) of
                 (st, t) \<Rightarrow> (st, set_resources t s))
          | _ \<Rightarrow> (Panicked, s)) \<noteq> Panicked"
    show "G (snd (case (container_resources s, reply_resources s) of
            (Some container, Some reply) \<Rightarrow>
              (case adjust_resource_targets r i p (rs_owners s, container, reply) of
                 (st, t) \<Rightarrow> (st, set_resources t s))
          | _ \<Rightarrow> (Panicked, s)))"
      using s kept_D [OF stable.kept_resource_targets [of r i p]]
      by (auto intro!: set_resources_kept split: option.splits prod.splits) (metis fst_conv snd_conv)+
  qed
  then show ?thesis unfolding adjustResources_def Some option.case by (rule kept_with_id)
qed

section \<open>RDT and namespaces\<close>

lemma kept_initAdjustRdt: "kept G (assign initAdjustRdt)"
proof (rule kept_assign)
  fix s assume s: "G s"
  have i: "G (initAdjust s)"
    using s not_set by (auto simp: initAdjust_def guarded_def set_adjust_def create_container_def
        split: option.splits)
  have l: "G (initAdjustLinux s)"
    unfolding initAdjustLinux_def by (rule on_adjust_G [OF i]) (simp add: frame_alloc)
  show "G (initAdjustRdt s)"
    unfolding initAdjustRdt_def on_adjust_linux_def
    by (rule on_adjust_G [OF l]) (rule on_linux_is_set, assumption, simp_all)
qed

lemma kept_adjustRdt: "kept G (adjustRdt rdt p)"
  unfolding adjustRdt_def adjust_rdt_fields_def set_reply_rdt_def
  by (intro kept_intros kept_initAdjustRdt kept_on_adjust_linux)
    (auto simp: on_ptr_def split: option.split)

section \<open>Updates\<close>

lemma kept_getContainerUpdate: "kept G (getContainerUpdate u p)"
proof (rule kept_I)
  fix s assume "G s"
  then show "G (snd (getContainerUpdate u p s))"
    by (auto simp: getContainerUpdate_def Let_def guarded_def create_container_def split: option.splits)
qed

lemma kept_updateResources: "kept G (updateResources u p)"
proof (rule kept_I)
  fix s assume s: "G s" "fst (updateResources u p s) \<noteq> Panicked"
  have "owned (rs_owners (snd (updateResources u p s)))" if "owned (rs_owners s)"
    using updateResources_owners [of u p s] s(2) that kept_D [OF stable.kept_update_copy] by (metis fst_conv)
  with s(1) show "G (snd (updateResources u p s))" by (auto simp: guarded_def updateResources_frame)
qed

lemma kept_update_one: "kept G (update_one p u)"
proof (rule kept_I)
  fix s assume s: "G s" "fst (update_one p u s) \<noteq> Panicked"
  obtain st t where g: "getContainerUpdate u p s = (st, t)" by fastforce
  have t: "st \<noteq> Panicked \<Longrightarrow> G t" using kept_D [OF kept_getContainerUpdate s(1), of u p] g by simp
  obtain st' t' where r: "updateResources u p t = (st', t')" by fastforce
  have t': "st \<noteq> Panicked \<Longrightarrow> st' \<noteq> Panicked \<Longrightarrow> G t'"
    using kept_D [OF kept_updateResources t, of u p] r by simp
  show "G (snd (update_one p u s))"
    using s(2) t t' by (cases st; cases st') (auto simp: update_one_def g r)
qed

lemma kept_result_update: "kept G (result_update us p)"
  unfolding result_update_def
proof (rule kept_for_each)
  fix u
  show "kept G (\<lambda>s. case u of None \<Rightarrow> (Panicked, s) | Some u \<Rightarrow> update_one p u s)"
    using kept_update_one by (cases u) (simp_all add: kept_def)
qed

end

section \<open>A whole reply\<close>

text \<open>
  What is left to show of a part: the adjustments that set it record an owner. They may leave an
  unowned value behind when they fail, but then the request fails.
\<close>

locale guarded_part = guarded_field +
  assumes own_hooks: "kept_done (guarded cid owned is_set) (adjustHooks h p)"
    and own_seccomp: "kept_done (guarded cid owned is_set) (adjustSeccompPolicy sp p)"
    and own_namespaces: "kept_done (guarded cid owned is_set) (adjustNamespaces ord ns p)"
begin

lemmas kept_done_parts = own_hooks own_seccomp own_namespaces
  kept_adjustAnnotations [THEN kept_imp_done] kept_adjustMounts [THEN kept_imp_done]
  kept_adjustEnv [THEN kept_imp_done] kept_adjustArgs [THEN kept_imp_done]
  kept_adjustDevices [THEN kept_imp_done] kept_adjustResources [THEN kept_imp_done]
  kept_adjust_values [THEN kept_imp_done] kept_adjustSysctl [THEN kept_imp_done]
  kept_adjustLinuxNetDevices [THEN kept_imp_done] kept_adjustRdt [THEN kept_imp_done]
  kept_adjustRlimits [THEN kept_imp_done] kept_adjustCDIDevices [THEN kept_imp_done]

lemma kept_done_adjust: "kept_done G (adjust ord a p)"
  unfolding adjust_def by (intro done_intros kept_done_parts)

lemma kept_done_reply: "kept_done G (apply_reply ord r p)"
proof (cases r)
  case (CreateReply c)
  then show ?thesis unfolding apply_reply_def
    by (simp del: run.simps, intro done_intros kept_done_adjust kept_result_update [THEN kept_imp_done])
qed (auto simp: apply_reply_def kept_done_def intro: kept_done_skip
    dest: kept_done_D [OF kept_result_update [THEN kept_imp_done]] split: option.splits)

end

end
