(* ===== verification/Guarded_Parts.thy ===== *)
theory Guarded_Parts
  imports Guarded
begin

text \<open>
  The guarded parts of the collected adjustment: hooks, the seccomp policy and the namespaces. For each,
  an interpretation of \<open>guarded_part\<close> on the model's store and adjustment.
\<close>

section \<open>Owners that stay\<close>

definition owned_slot :: "string \<Rightarrow> slot set \<Rightarrow> owning_plugins \<Rightarrow> bool" where
  "owned_slot cid slots op \<longleftrightarrow> (\<exists>s \<in> slots. owner_view op (cid, s) \<noteq> None)"

lemma owned_slot_I: "owner_view op (cid, s) \<noteq> None \<Longrightarrow> s \<in> slots \<Longrightarrow> owned_slot cid slots op"
  by (auto simp: owned_slot_def)

text \<open>Claiming hooks writes their slot and no other.\<close>

lemma claimSimple_owner:
  "slot_owner (Some (snd (claimSimple (Field_Key fld) p f))) s =
     (if s = SimpleSlot fld \<and> IsSimpleConflict (Field_Key fld) p f = None then Some p else slot_owner (Some f) s)"
  by (cases s) (auto simp: claimSimple_def simpleOwner_def compoundOwner_def split: option.split)

lemma clearSimple_owner:
  "slot_owner (Some (clearSimple (Field_Key fld) p f)) s =
     (if s = SimpleSlot fld then Some (MarkForRemoval p) else slot_owner (Some f) s)"
  by (cases s) (auto simp: clearSimple_def simpleOwner_def compoundOwner_def)

lemma ClaimHooks_slots:
  "fst (FieldOwners_ClaimHooks p f) = Done"
  "s \<noteq> SimpleSlot Field_OciHooks \<Longrightarrow> slot_owner (Some (snd (FieldOwners_ClaimHooks p f))) s = slot_owner (Some f) s"
  "slot_owner (Some (snd (FieldOwners_ClaimHooks p f))) (SimpleSlot Field_OciHooks) \<noteq> None"
  by (auto simp: FieldOwners_ClaimHooks_def claimSimple_owner clearSimple_owner IsSimpleConflict_def
      simpleOwner_def simp del: slot_owner.simps Field_Key.simps split: option.splits)

lemma OwningPlugins_Claim_view:
  "owner_view (snd (OwningPlugins_Claim c i p op)) (cid, s) =
     (if cid = i then slot_owner (Some (snd (FieldOwners_Claim c p (fst (mustOwnersFor i op))))) s
      else owner_view op (cid, s))"
  by (simp add: OwningPlugins_Claim_def split_def Let_def mustOwnersFor_upd owner_view_upd)

lemma Claim_stays:
  assumes "owner_view op (cid, s) \<noteq> None"
  shows "owner_view (snd (OwningPlugins_Claim c i p op)) (cid, s) \<noteq> None"
proof (cases "c = ClaimHooks")
  case False
  then show ?thesis using assms by (auto simp: OwningPlugins_Claim_at ow.claim_view)
next
  case True
  have v: "owner_view op (cid, s) = slot_owner (Some (fst (mustOwnersFor cid op))) s"
    by (simp add: owner_view_def mustOwnersFor_view)
  show ?thesis using assms ClaimHooks_slots(2,3) unfolding True OwningPlugins_Claim_view v
    by (cases "s = SimpleSlot Field_OciHooks") (auto simp: v simp del: slot_owner.simps)
qed

lemma Claim_owned:
  assumes "fst (OwningPlugins_Claim c i p op) = Done"
  shows "owner_view (snd (OwningPlugins_Claim c i p op)) (i, claim_slot c) \<noteq> None"
proof (cases "c = ClaimHooks")
  case False
  then show ?thesis using assms by (simp add: OwningPlugins_Claim_at ow.claim_view ow.claim_Done_iff)
next
  case True
  then show ?thesis using ClaimHooks_slots(3) by (simp add: OwningPlugins_Claim_view del: slot_owner.simps)
qed

lemma owned_claim: "owned_slot cid S op \<Longrightarrow> owned_slot cid S (snd (OwningPlugins_Claim c i p op))"
  using Claim_stays by (fastforce simp: owned_slot_def)

lemma owned_clear: "owned_slot cid S op \<Longrightarrow> owned_slot cid S (OwningPlugins_Clear c i p op)"
  by (auto simp: owned_slot_def OwningPlugins_Clear_view)

section \<open>The parts\<close>

definition hooks_set :: "container_adjustment \<Rightarrow> bool" where
  "hooks_set a \<longleftrightarrow> (case adj_hooks a of None \<Rightarrow> False | Some h \<Rightarrow> some_hook h)"

definition seccomp_set :: "container_adjustment \<Rightarrow> bool" where
  "seccomp_set a \<longleftrightarrow> (case adj_linux a of None \<Rightarrow> False | Some l \<Rightarrow> la_seccomp_policy l \<noteq> None)"

definition namespaces_set :: "container_adjustment \<Rightarrow> bool" where
  "namespaces_set a \<longleftrightarrow> (case adj_linux a of None \<Rightarrow> False | Some l \<Rightarrow> la_namespaces l \<noteq> [])"

lemmas part_defs = hooks_set_def seccomp_set_def namespaces_set_def

abbreviation "hooks_owned cid \<equiv> owned_slot cid {SimpleSlot Field_OciHooks}"
abbreviation "seccomp_owned cid \<equiv> owned_slot cid {SimpleSlot Field_SeccompPolicy}"
abbreviation "namespaces_owned cid \<equiv> owned_slot cid (range (CompoundSlot Field_Namespace))"

interpretation hooks_field: guarded_field cid "hooks_owned cid" hooks_set for cid
  by unfold_locales
    (auto simp: owned_claim owned_clear hooks_set_def zero_defs split: option.splits)

interpretation seccomp_field: guarded_field cid "seccomp_owned cid" seccomp_set for cid
  by unfold_locales
    (auto simp: owned_claim owned_clear seccomp_set_def zero_defs alloc_def split: option.splits)

interpretation namespaces_field: guarded_field cid "namespaces_owned cid" namespaces_set for cid
  by unfold_locales
    (auto simp: owned_claim owned_clear namespaces_set_def zero_defs alloc_def split: option.splits)

section \<open>The steps that set a part\<close>

text \<open>\<open>held\<close>: the part has an owner already, whatever the adjustment says.\<close>

definition held :: "string \<Rightarrow> (owning_plugins \<Rightarrow> bool) \<Rightarrow> result \<Rightarrow> bool" where
  "held cid owned s \<longleftrightarrow> (\<exists>c. create_container s = Some c \<and> ctr_id c = cid) \<and> owned (rs_owners s)"

definition leads :: "('s \<Rightarrow> bool) \<Rightarrow> ('e, 's) action \<Rightarrow> ('s \<Rightarrow> bool) \<Rightarrow> bool" where
  "leads P a Q \<longleftrightarrow> (\<forall>s t. P s \<longrightarrow> a s = (Done, t) \<longrightarrow> Q t)"

lemma leads_kept: "kept_done P a \<longleftrightarrow> leads P a P"
  by (simp add: kept_done_def leads_def)

lemma leads_weaken: "leads P a Q \<Longrightarrow> (\<And>s. P' s \<Longrightarrow> P s) \<Longrightarrow> (\<And>s. Q s \<Longrightarrow> Q' s) \<Longrightarrow> leads P' a Q'"
  unfolding leads_def by blast

lemma leads_Cons: "leads P a Q \<Longrightarrow> leads Q (run as) R \<Longrightarrow> leads P (run (a # as)) R"
proof (unfold leads_def, intro allI impI)
  fix s t
  assume a: "\<forall>s t. P s \<longrightarrow> a s = (Done, t) \<longrightarrow> Q t" "\<forall>s t. Q s \<longrightarrow> run as s = (Done, t) \<longrightarrow> R t"
    "P s" "run (a # as) s = (Done, t)"
  obtain st u where u: "a s = (st, u)" by fastforce
  with a(4) have d: "st = Done" "run as u = (Done, t)" by (simp_all split: status.splits)
  from a(1) a(3) u d(1) have "Q u" by blast
  with a(2) d(2) show "R t" by blast
qed

lemma leads_Nil: "leads P (run []) P"
  by (simp add: leads_def)

lemma held_guarded: "held cid owned s \<Longrightarrow> guarded cid owned is_set s"
  by (simp add: held_def guarded_def)

lemma guarded_identified: "guarded cid owned is_set s \<Longrightarrow> held cid (\<lambda>_. True) s"
  by (simp add: held_def guarded_def)

lemma held_on_container:
  "(\<And>c. ctr_id (snd (a c)) = ctr_id c) \<Longrightarrow> leads (held cid owned) (on_container a) (held cid owned)"
  by (auto simp: leads_def held_def on_container_def on_ptr_def set_container_def
      create_container_def split: option.splits prod.splits) (metis snd_conv)+

lemma held_on_container_linux: "leads (held cid owned) (on_container_linux a) (held cid owned)"
  unfolding on_container_linux_def
  by (rule held_on_container) (simp add: on_ptr_def split: option.split prod.split)

lemma held_on_adjust: "leads (held cid owned) (on_adjust a) (held cid owned)"
  by (auto simp: leads_def held_def on_adjust_def on_ptr_def set_adjust_def create_container_def
      split: option.splits prod.splits)

lemma held_on_adjust_linux: "leads (held cid owned) (on_adjust_linux a) (held cid owned)"
  unfolding on_adjust_linux_def by (rule held_on_adjust)

lemma claim_held:
  assumes "claim_slot c \<in> S"
  shows "leads (held cid owned) (claim_r c cid p) (held cid (owned_slot cid S))"
proof (unfold leads_def, intro allI impI)
  fix s t
  assume "held cid owned s" and r: "claim_r c cid p s = (Done, t)"
  moreover have "fst (OwningPlugins_Claim c cid p (rs_owners s)) = Done"
    "rs_owners t = snd (OwningPlugins_Claim c cid p (rs_owners s))" "rs_request t = rs_request s"
    using r by (auto simp: claim_r_def on_part_def split: prod.splits)
  ultimately show "held cid (owned_slot cid S) t"
    using owned_slot_I [OF Claim_owned assms] by (simp add: held_def create_container_def)
qed

lemma held_with_id:
  assumes "leads (held cid owned) (body cid) Q"
  shows "leads (held cid owned) (with_id body) Q"
  using assms by (auto simp: leads_def with_id_def held_def split: option.splits)

lemmas held_steps = leads_Cons [OF held_on_container] leads_Cons [OF held_on_container_linux]
  leads_Cons [OF held_on_adjust] leads_Cons [OF held_on_adjust_linux] leads_Nil held_on_adjust

lemma adjustSeccompPolicy_held:
  "leads (guarded cid (seccomp_owned cid) is_set) (adjustSeccompPolicy sp p) (guarded cid (seccomp_owned cid) is_set)"
proof (cases "sp = None")
  case True
  then show ?thesis by (simp add: adjustSeccompPolicy_def leads_def)
next
  case False
  have "leads (held cid (\<lambda>_. True)) (adjustSeccompPolicy sp p) (held cid (seccomp_owned cid))"
    unfolding adjustSeccompPolicy_def if_not_P [OF False]
    by (intro held_with_id leads_Cons [OF claim_held [where S = "{SimpleSlot Field_SeccompPolicy}"]] held_steps) simp
  then show ?thesis by (rule leads_weaken) (erule guarded_identified, erule held_guarded)
qed

lemma add_hooks_held: "leads (held cid owned) (add_hooks get upd h) (held cid owned)"
  unfolding add_hooks_def
  by (cases "get h = []") (simp add: leads_def, simp del: run.simps,
    intro held_steps, simp add: on_ptr_def split: option.split)

lemma add_no_hooks: "get h = [] \<Longrightarrow> add_hooks get upd h = (\<lambda>s. (Done, s))"
  by (simp add: add_hooks_def)

lemma adjustHooks_held:
  "leads (guarded cid (hooks_owned cid) is_set) (adjustHooks h p) (guarded cid (hooks_owned cid) is_set)"
proof (cases h)
  case None
  then show ?thesis by (simp add: adjustHooks_def leads_def)
next
  case (Some hk)
  show ?thesis
  proof (cases "some_hook hk")
    case False
    then show ?thesis
      by (simp add: adjustHooks_def Some some_hook_def add_no_hooks leads_def split: option.split)
  next
    case True
    have "leads (held cid (\<lambda>_. True)) (run
          [add_hooks hk_prestart hk_prestart_update hk,
           add_hooks hk_poststart hk_poststart_update hk,
           add_hooks hk_poststop hk_poststop_update hk,
           add_hooks hk_create_runtime hk_create_runtime_update hk,
           add_hooks hk_create_container hk_create_container_update hk,
           add_hooks hk_start_container hk_start_container_update hk,
           if some_hook hk then with_id (\<lambda>cid. claim_r ClaimHooks cid p) else (\<lambda>s. (Done, s))])
        (held cid (hooks_owned cid))"
      using True by (simp del: run.simps)
        (intro leads_Cons [OF add_hooks_held] leads_Nil
          leads_Cons [OF held_with_id [OF claim_held [where S = "{SimpleSlot Field_OciHooks}"]]], simp)
    then have "leads (held cid (\<lambda>_. True)) (adjustHooks h p) (held cid (hooks_owned cid))"
      by (simp add: adjustHooks_def Some leads_def split: option.split del: run.simps)
    then show ?thesis by (rule leads_weaken) (erule guarded_identified, erule held_guarded)
  qed
qed

lemma namespace_loop_kept:
  assumes "\<And>n key. leads P (run [claim_r (ClaimNamespace key) cid p,
      on_adjust_linux (assign (\<lambda>a. a\<lparr>la_namespaces := la_namespaces a @ [Some n]\<rparr>))]) P"
  shows "P s \<Longrightarrow> namespace_loop cid p ns m s = (Done, m', t) \<Longrightarrow> P t"
proof (induction ns arbitrary: m s)
  case Nil
  then show ?case by simp
next
  case (Cons on ns)
  show ?case
  proof (cases on)
    case None
    then show ?thesis using Cons by simp
  next
    case (Some n)
    obtain key marked where k: "LinuxNamespace_IsMarkedForRemoval n = (key, marked)" by fastforce
    obtain st1 s1 where c: "claim_r (ClaimNamespace key) cid p s = (st1, s1)" by fastforce
    let ?a = "on_adjust_linux (assign (\<lambda>a. a\<lparr>la_namespaces := la_namespaces a @ [Some n]\<rparr>))"
    obtain st2 s2 where a: "?a s1 = (st2, s2)" by fastforce
    have d: "st1 = Done" using Cons.prems(2) by (cases st1) (simp_all add: Some k c)
    have e: "st2 = Done" using Cons.prems(2) by (cases st2) (simp_all add: Some k c d a)
    have "run [claim_r (ClaimNamespace key) cid p, ?a] s = (Done, s2)" by (simp add: c d a e)
    with assms [of key n] Cons.prems(1) have "P s2" unfolding leads_def by blast
    then show ?thesis using Cons.IH [of s2] Cons.prems(2) by (simp add: Some k c d a e)
  qed
qed

lemma adjustNamespaces_kept:
  assumes "\<And>n key. leads P (run [claim_r (ClaimNamespace key) cid p,
      on_adjust_linux (assign (\<lambda>a. a\<lparr>la_namespaces := la_namespaces a @ [Some n]\<rparr>))]) P"
    and "\<And>a. leads P (on_container_linux a) P" and "\<And>s. P s \<Longrightarrow> held cid (\<lambda>_. True) s"
  shows "leads P (adjustNamespaces ord ns p) P"
proof (unfold leads_def, intro allI impI)
  fix s t
  assume s: "P s" "adjustNamespaces ord ns p s = (Done, t)"
  show "P t"
  proof (cases "ns = []")
    case True
    then show ?thesis using s by (simp add: adjustNamespaces_def)
  next
    case False
    obtain c where c: "create_container s = Some c" "ctr_id c = cid"
      using assms(3) [OF s(1)] by (auto simp: held_def)
    obtain l where l: "ctr_linux c = Some l"
      using s(2) c(1) False by (auto simp: adjustNamespaces_def with_id_def with_container_linux_def
          with_container_def split: option.splits)
    define m0 where "m0 = fold (\<lambda>n m. AList.update (ns_type n) n m) (lc_namespaces l) []"
    obtain st m u where r: "namespace_loop cid p ns m0 s = (st, m, u)" by (metis surj_pair)
    have t: "(case (st, m, u) of (Done, nsmap, t) \<Rightarrow>
            on_container_linux (assign (\<lambda>c. c\<lparr>lc_namespaces := map snd (range_in ord nsmap)\<rparr>)) t
        | (st, _, t) \<Rightarrow> (st, t)) = (Done, t)"
      using s(2) False unfolding r [symmetric] m0_def
      by (simp add: adjustNamespaces_def with_id_def c with_container_linux_def with_container_def l Let_def)
    then have d: "st = Done" by (cases st) simp_all
    have "P u" using namespace_loop_kept [OF assms(1) s(1)] r d by simp
    with t d assms(2) show ?thesis unfolding leads_def by simp
  qed
qed

section \<open>The three parts\<close>

lemma kept_leads: "kept P a \<Longrightarrow> leads P a P"
  using kept_imp_done leads_kept by blast

text \<open>A part in the Linux half is not set by what changes the other fields of that half, and conversely.\<close>

lemma hooks_frame: "hooks_set (snd (on_ptr adj_linux (\<lambda>l j. j\<lparr>adj_linux := Some l\<rparr>) act a)) = hooks_set a"
  by (simp add: on_ptr_def hooks_set_def split: option.split prod.split)

lemma seccomp_frame:
  "(\<And>l. la_seccomp_policy (snd (act l)) = la_seccomp_policy l) \<Longrightarrow>
   seccomp_set (snd (on_ptr adj_linux (\<lambda>l j. j\<lparr>adj_linux := Some l\<rparr>) act a)) = seccomp_set a"
  by (auto simp: on_ptr_def seccomp_set_def split: option.split prod.split) (metis snd_conv)+

lemma namespaces_frame:
  "(\<And>l. la_namespaces (snd (act l)) = la_namespaces l) \<Longrightarrow>
   namespaces_set (snd (on_ptr adj_linux (\<lambda>l j. j\<lparr>adj_linux := Some l\<rparr>) act a)) = namespaces_set a"
  by (auto simp: on_ptr_def namespaces_set_def split: option.split prod.split) (metis snd_conv)+

lemma add_hooks_frame:
  "(\<And>h a. is_set (a\<lparr>adj_hooks := Some h\<rparr>) = is_set a) \<Longrightarrow>
   is_set (snd (on_ptr adj_hooks (\<lambda>h a. a\<lparr>adj_hooks := Some h\<rparr>) act a)) = is_set a"
  by (simp add: on_ptr_def split: option.split prod.split)

context guarded_field
begin

text \<open>Hooks, for a part that is not the hooks.\<close>

lemma kept_adjustHooks:
  assumes "\<And>h a. is_set (a\<lparr>adj_hooks := Some h\<rparr>) = is_set a"
  shows "kept G (adjustHooks h p)"
proof -
  have add: "kept G (add_hooks get upd h)" for get upd and h :: hooks
    unfolding add_hooks_def
    by (intro kept_intros kept_on_adjust kept_on_container)
      (auto simp: add_hooks_frame [where is_set = is_set, OF assms] simp del: assms, auto simp: on_ptr_def split: option.split)
  have "kept G (run
          [add_hooks hk_prestart hk_prestart_update hk,
           add_hooks hk_poststart hk_poststart_update hk,
           add_hooks hk_poststop hk_poststop_update hk,
           add_hooks hk_create_runtime hk_create_runtime_update hk,
           add_hooks hk_create_container hk_create_container_update hk,
           add_hooks hk_start_container hk_start_container_update hk,
           if some_hook hk then with_id (\<lambda>cid. claim_r ClaimHooks cid p) else (\<lambda>s. (Done, s))])" for hk
    by (intro kept_intros add)
  moreover have "kept G (\<lambda>s. case rq_create (rs_request s) of None \<Rightarrow> (Panicked, s) | Some _ \<Rightarrow> act s)"
    if "kept G act" for act
    using that by (auto simp: kept_def split: option.split)
  ultimately show ?thesis unfolding adjustHooks_def by (intro kept_case_option kept_skip) blast
qed

text \<open>The other two, for a part that their store leaves alone.\<close>

lemma kept_adjustSeccompPolicy:
  assumes "kept G (on_adjust_linux (assign (\<lambda>l. l\<lparr>la_seccomp_policy := sp\<rparr>)))"
  shows "kept G (adjustSeccompPolicy sp p)"
  unfolding adjustSeccompPolicy_def by (intro kept_intros assms)

lemma kept_adjustNamespaces:
  assumes "\<And>n. kept G (on_adjust_linux (assign (\<lambda>a. a\<lparr>la_namespaces := la_namespaces a @ [Some n]\<rparr>)))"
  shows "kept_done G (adjustNamespaces ord ns p)"
  unfolding leads_kept
proof (rule adjustNamespaces_kept)
  show "leads G (run [claim_r (ClaimNamespace key) cid p,
      on_adjust_linux (assign (\<lambda>a. a\<lparr>la_namespaces := la_namespaces a @ [Some n]\<rparr>))]) G" for n key
    by (intro kept_leads kept_intros assms)
  show "leads G (on_container_linux a) G" for a
    by (intro kept_leads kept_intros)
  show "held cid (\<lambda>_. True) s" if "G s" for s
    using that by (rule guarded_identified)
qed

end

lemma namespaces_append_held:
  "leads (guarded cid (namespaces_owned cid) is_set) (run [claim_r (ClaimNamespace key) cid p,
      on_adjust_linux (assign (\<lambda>a. a\<lparr>la_namespaces := la_namespaces a @ [Some n]\<rparr>))])
     (guarded cid (namespaces_owned cid) is_set)"
proof -
  have "leads (held cid (\<lambda>_. True)) (run [claim_r (ClaimNamespace key) cid p,
      on_adjust_linux (assign (\<lambda>a. a\<lparr>la_namespaces := la_namespaces a @ [Some n]\<rparr>))])
     (held cid (namespaces_owned cid))"
    by (intro leads_Cons [OF claim_held [where S = "range (CompoundSlot Field_Namespace)"]] held_steps) simp
  then show ?thesis by (rule leads_weaken) (erule guarded_identified, erule held_guarded)
qed

interpretation hooks_part: guarded_part cid "hooks_owned cid" hooks_set for cid
proof unfold_locales
  have a: "kept (guarded cid (hooks_owned cid) hooks_set) (on_adjust_linux act)" for act
    unfolding on_adjust_linux_def by (rule hooks_field.kept_on_adjust) (simp add: hooks_frame)
  show "kept_done (guarded cid (hooks_owned cid) hooks_set) (adjustHooks h p)" for h p
    by (simp add: leads_kept adjustHooks_held)
  show "kept_done (guarded cid (hooks_owned cid) hooks_set) (adjustSeccompPolicy sp p)" for sp p
    by (intro kept_imp_done hooks_field.kept_adjustSeccompPolicy a)
  show "kept_done (guarded cid (hooks_owned cid) hooks_set) (adjustNamespaces ord ns p)" for ord ns p
    by (intro hooks_field.kept_adjustNamespaces a)
qed

interpretation seccomp_part: guarded_part cid "seccomp_owned cid" seccomp_set for cid
proof unfold_locales
  show "kept_done (guarded cid (seccomp_owned cid) seccomp_set) (adjustHooks h p)" for h p
    by (intro kept_imp_done seccomp_field.kept_adjustHooks) (simp add: seccomp_set_def)
  show "kept_done (guarded cid (seccomp_owned cid) seccomp_set) (adjustSeccompPolicy sp p)" for sp p
    by (simp add: leads_kept adjustSeccompPolicy_held)
  have "kept (guarded cid (seccomp_owned cid) seccomp_set)
      (on_adjust_linux (assign (\<lambda>a. a\<lparr>la_namespaces := la_namespaces a @ [Some n]\<rparr>)))" for n
    unfolding on_adjust_linux_def by (rule seccomp_field.kept_on_adjust) (simp add: seccomp_frame)
  then show "kept_done (guarded cid (seccomp_owned cid) seccomp_set) (adjustNamespaces ord ns p)" for ord ns p
    by (intro seccomp_field.kept_adjustNamespaces)
qed

interpretation namespaces_part: guarded_part cid "namespaces_owned cid" namespaces_set for cid
proof unfold_locales
  show "kept_done (guarded cid (namespaces_owned cid) namespaces_set) (adjustHooks h p)" for h p
    by (intro kept_imp_done namespaces_field.kept_adjustHooks) (simp add: namespaces_set_def)
  show "kept_done (guarded cid (namespaces_owned cid) namespaces_set) (adjustSeccompPolicy sp p)" for sp p
    unfolding on_adjust_linux_def
    by (intro kept_imp_done namespaces_field.kept_adjustSeccompPolicy)
      (unfold on_adjust_linux_def, rule namespaces_field.kept_on_adjust, simp add: namespaces_frame)
  show "kept_done (guarded cid (namespaces_owned cid) namespaces_set) (adjustNamespaces ord ns p)" for ord ns p
    unfolding leads_kept
    by (rule adjustNamespaces_kept)
      (rule namespaces_append_held, intro kept_leads namespaces_field.kept_on_container_linux, erule guarded_identified)
qed

end
