(* ===== verification/Validator_Laws.thy ===== *)
theory Validator_Laws
  imports Validator Relay_Laws Guarded_Parts
begin

text \<open>
  What the default validator guarantees end to end: an adjustment it is configured to reject is in no response to a
  container creation, whatever the plugins do, and a creation that is not tolerated goes through only
  with the required plugins. The first rests on \<open>guarded_part\<close>: the validator looks at
  owners, not at the adjustment itself.
\<close>

section \<open>Owners at the end of a creation\<close>

context guarded_part
begin

lemma kept_create_round: "kept_done (\<lambda>st. G (snd st)) (create_round impl ord req i)"
proof -
  have "G s'" if "apply_relayed ord wrap name called (ad, s) = (Done, (ad', s'))" "G s"
    for wrap :: "create_response option \<Rightarrow> response" and name called ad ad' s s'
    using that kept_done_D [OF kept_done_reply]
    by (auto simp: apply_relayed_def split: sum.splits prod.splits status.splits)
  then show ?thesis unfolding kept_done_def create_round_def Let_def by auto
qed

lemma created_guarded:
  assumes "collectCreateContainerResult req = Some s0" and "cr_container req = Some c" and "ctr_id c = cid"
    and "\<not> is_set empty_adjustment"
    and "for_each is (create_round impl ord req) (ad, s0) = (Done, (mid, s))"
  shows "G s"
proof -
  have "G s0" using assms(1-4)
    by (auto simp: collectCreateContainerResult_def guarded_def create_container_def prepare_container_def)
  moreover have "kept_done (\<lambda>st. G (snd st)) (for_each is (create_round impl ord req))"
    by (intro kept_done_for_each kept_create_round)
  ultimately show ?thesis using kept_done_D assms(5) by fastforce
qed

end

lemma nothing_set_at_first:
  "\<not> hooks_set empty_adjustment" "\<not> seccomp_set empty_adjustment" "\<not> namespaces_set empty_adjustment"
  by (simp_all add: part_defs empty_adjustment_def zero_defs some_hook_def)

text \<open>
  What a plugin sets, it owns. When the plugins' replies to a creation have all been applied, hooks,
  seccomp policy and namespaces in the collected adjustment each have an owner on record for that container.
\<close>

lemma created_parts:
  assumes "collectCreateContainerResult req = Some s0" and "cr_container req = Some c"
    and "for_each is (create_round impl ord req) (ad, s0) = (Done, (mid, s))"
    and "crs_adjust (createContainerResponse s) = Some a"
  shows "(hooks_set a \<longrightarrow> OwningPlugins_Owner HooksOwner (ctr_id c) (rs_owners s) \<noteq> None) \<and>
    (seccomp_set a \<longrightarrow> OwningPlugins_Owner SeccompPolicyOwner (ctr_id c) (rs_owners s) \<noteq> None) \<and>
    (namespaces_set a \<longrightarrow> NamespaceOwners (ctr_id c) (rs_owners s) \<noteq> None)"
proof -
  note g = hooks_part.created_guarded [OF assms(1,2) refl nothing_set_at_first(1) assms(3)]
    seccomp_part.created_guarded [OF assms(1,2) refl nothing_set_at_first(2) assms(3)]
    namespaces_part.created_guarded [OF assms(1,2) refl nothing_set_at_first(3) assms(3)]
  have a: "rp_adjust (rs_reply s) = Some a" using assms(4) by (simp add: createContainerResponse_def)
  have n: "\<exists>m. NamespaceOwners i op = Some m" if "owner_view op (i, CompoundSlot Field_Namespace k) = Some y" for i op k y
    using that by (auto simp: owner_view_def NamespaceOwners_def compoundOwner_def compoundOwnerMap_def
        split: option.splits)
  show ?thesis using g a n by (auto simp: guarded_def owned_slot_def OwningPlugins_Owner_view simp del: OwningPlugins_Owner.simps)
qed

section \<open>The validator's verdict\<close>

lemma validate_accepts:
  assumes "GetDefaultValidator ord yaml text (Some cfg) = Some b"
    and "Builtin_ValidateContainerAdjustment b v = Some r" and "\<not> vrs_reject r"
  shows "validateOCIHooks cfg v = Done" "validateSeccompPolicy cfg v = Done" "validateNamespaces cfg v = Done"
    "validateRequiredPlugins yaml cfg v = Done" "validateSysctl ord cfg v = Done"
proof -
  have b: "bh_ValidateContainerAdjustment (bp_handlers b) =
      Some (\<lambda>req. map_status text (ValidateContainerAdjustment ord yaml cfg req))"
    using assms(1) by (auto simp: GetDefaultValidator_def split: if_splits)
  have "ValidateContainerAdjustment ord yaml cfg v = Done"
    using assms(2,3)
    by (cases "ValidateContainerAdjustment ord yaml cfg v") (auto simp: Builtin_ValidateContainerAdjustment_def b)
  then show "validateOCIHooks cfg v = Done" "validateSeccompPolicy cfg v = Done" "validateNamespaces cfg v = Done"
    "validateRequiredPlugins yaml cfg v = Done" "validateSysctl ord cfg v = Done"
    by (simp_all add: ValidateContainerAdjustment_def Let_def for_each_Cons split: status.splits)
qed

lemma ask_owner_no_panic:
  assumes "vr_container v \<noteq> None" and "vr_owners v \<noteq> None" and "\<And>x. body x \<noteq> Panicked"
  shows "ask_owner v query body \<noteq> Panicked"
  using assms by (auto simp: ask_owner_def split: option.split)

text \<open>A request with container and owners does not make any check panic.\<close>

lemma checks_no_panic:
  assumes "vr_container v \<noteq> None" and "vr_owners v \<noteq> None"
  shows "validateOCIHooks cfg v \<noteq> Panicked" "validateSeccompPolicy cfg v \<noteq> Panicked"
    "validateNamespaces cfg v \<noteq> Panicked" "validateRequiredPlugins yaml cfg v \<noteq> Panicked"
    "validateSysctl ord cfg v \<noteq> Panicked"
proof -
  note q = ask_owner_no_panic [OF assms]
  show "validateOCIHooks cfg v \<noteq> Panicked" by (simp add: validateOCIHooks_def q)
  show "validateSeccompPolicy cfg v \<noteq> Panicked"
    by (auto simp: validateSeccompPolicy_def Let_def intro!: q split: profile_type.splits if_splits)
  show "validateNamespaces cfg v \<noteq> Panicked" by (simp add: validateNamespaces_def q)
  show "validateRequiredPlugins yaml cfg v \<noteq> Panicked"
    by (simp add: validateRequiredPlugins_def Let_def split: option.split sum.split)
  show "validateSysctl ord cfg v \<noteq> Panicked"
    by (auto simp: validateSysctl_def Let_def intro!: q split: option.splits if_splits)
qed

lemma default_validator_verdict:
  assumes "GetDefaultValidator ord yaml text (Some cfg) = Some b"
    and "\<And>v r. Builtin_ValidateContainerAdjustment b v = Some r \<Longrightarrow> vimpl i v = Inr r"
    and "vimpl i v = Inr a" and "\<not> vrs_reject a" and "vr_container v \<noteq> None" and "vr_owners v \<noteq> None"
  shows "validateOCIHooks cfg v = Done \<and> validateSeccompPolicy cfg v = Done \<and> validateNamespaces cfg v = Done \<and>
    validateRequiredPlugins yaml cfg v = Done \<and> validateSysctl ord cfg v = Done"
proof -
  note np = checks_no_panic [OF assms(5,6)]
  have "ValidateContainerAdjustment ord yaml cfg v \<noteq> Panicked"
    unfolding ValidateContainerAdjustment_def Let_def
    by (simp add: for_each_Cons np split: status.split)
  then obtain r where r: "Builtin_ValidateContainerAdjustment b v = Some r"
    using assms(1)
    by (cases "ValidateContainerAdjustment ord yaml cfg v")
      (auto simp: Builtin_ValidateContainerAdjustment_def GetDefaultValidator_def split: if_splits)
  with assms(2,3) have "r = a" by fastforce
  with validate_accepts [OF assms(1) r] assms(4) show ?thesis by blast
qed

section \<open>End to end\<close>

lemma ask_owner_Done:
  "ask_owner v query body = Done \<Longrightarrow> vr_container v = Some c \<Longrightarrow> vr_owners v = Some op \<Longrightarrow>
     query (ctr_id c) op = Some p \<Longrightarrow> body p = Done"
  by (simp add: ask_owner_def)

text \<open>
  Whether a configuration rejects a seccomp policy for a container: that depends on the type of profile the container has in the
  request, and none counts as unconfined.
\<close>

definition container_profile :: "container \<Rightarrow> profile_type" where
  "container_profile c = (case Option.bind (ctr_linux c) lc_seccomp_profile of
     None \<Rightarrow> UNCONFINED | Some sp \<Rightarrow> sp_profile_type sp)"

definition rejects_seccomp :: "default_validator_config \<Rightarrow> container \<Rightarrow> bool" where
  "rejects_seccomp cfg c \<longleftrightarrow> (case container_profile c of
     UNCONFINED \<Rightarrow> dv_RejectUnconfinedSeccompAdjustment cfg
   | RUNTIME_DEFAULT \<Rightarrow> dv_RejectRuntimeDefaultSeccompAdjustment cfg
   | LOCALHOST \<Rightarrow> dv_RejectCustomSeccompAdjustment cfg)"

lemma prepared_profile: "container_profile (prepare_container c) = container_profile c"
  by (cases "ctr_linux c") (simp_all add: container_profile_def prepare_container_def alloc_def zero_defs)

lemma seccomp_verdict:
  assumes "validateSeccompPolicy cfg v = Done" and "vr_container v = Some c" and "vr_owners v = Some op"
    and "vr_adjust v = Some a" and "OwningPlugins_Owner SeccompPolicyOwner (ctr_id c) op \<noteq> None"
  shows "\<not> rejects_seccomp cfg c"
proof -
  have "(case vr_container v of None \<Rightarrow> None | Some c \<Rightarrow>
      (case ctr_linux c of None \<Rightarrow> None | Some l \<Rightarrow> lc_seccomp_profile l)) = Option.bind (ctr_linux c) lc_seccomp_profile"
    by (simp add: assms(2) split: option.split)
  moreover obtain owner where "OwningPlugins_Owner SeccompPolicyOwner (ctr_id c) op = Some owner" using assms(5) by auto
  ultimately show ?thesis using assms(1-4)
    by (auto simp: validateSeccompPolicy_def ask_owner_def Let_def rejects_seccomp_def container_profile_def
        split: profile_type.splits if_splits)
qed

text \<open>
  C1. With the default validator among the runtime's validators, a container creation that returns a response
  returns none with what the validator is configured to reject: no OCI hooks, no namespaces, and no seccomp policy if the
  configuration rejects one for the kind of profile the container came with (unconfined or none, the runtime's default, custom).
  This holds for any plugins, any replies, other validators and any order of the validators' answers.
\<close>

theorem default_validator_enforced:
  assumes "GetDefaultValidator gord yaml text (Some cfg) = Some b"
    and "\<And>v r. Builtin_ValidateContainerAdjustment b v = Some r \<Longrightarrow> vimpl i v = Inr r"
    and "i \<in> set (ad_validators ad)" and "subscribed 14 (ad_table ad i)"
    and "\<And>is. set (vord is) = set is"
    and "CreateContainer impl vimpl ord vord req ad = (Returned rpl, ad')"
    and "crs_adjust rpl = Some a" and "cr_container req = Some c"
  shows "(dv_RejectOCIHookAdjustment cfg \<longrightarrow> \<not> hooks_set a) \<and>
    (rejects_seccomp cfg c \<longrightarrow> \<not> seccomp_set a) \<and>
    (dv_RejectNamespaceAdjustment cfg \<longrightarrow> \<not> namespaces_set a)"
proof -
  obtain s0 mid s r where s0: "collectCreateContainerResult req = Some s0"
    and loop: "for_each (ad_plugins ad) (create_round impl ord req) (ad, s0) = (Done, (mid, s))"
    and rpl: "rpl = createContainerResponse s"
    and ask: "vimpl i (asked ad req s0 s) = Inr r" "\<not> vrs_reject r"
    using assms(6,5,3,4) by (rule creation_validated)
  let ?v = "asked ad req s0 s"
  have v: "vr_container ?v = Some (prepare_container c)" "vr_owners ?v = Some (rs_owners s)" "vr_adjust ?v = Some a"
    "ctr_id (prepare_container c) = ctr_id c"
    using s0 assms(7,8) rpl
    by (auto simp: asked_def collectCreateContainerResult_def create_container_def prepare_container_def)
  note own = created_parts [OF s0 assms(8) loop assms(7) [unfolded rpl]]
  note ok = default_validator_verdict [where vimpl = vimpl and i = i and v = ?v, OF assms(1,2) ask] v(1,2)
  have "\<not> hooks_set a" if "dv_RejectOCIHookAdjustment cfg"
    using ok that own ask_owner_Done [OF _ v(1,2)] v(3,4) by (fastforce simp: validateOCIHooks_def)
  moreover have "\<not> seccomp_set a" if "rejects_seccomp cfg c"
    using seccomp_verdict [OF _ v(1-3), of cfg] ok own that by (auto simp: v(4) prepared_profile rejects_seccomp_def)
  moreover have "\<not> namespaces_set a" if "dv_RejectNamespaceAdjustment cfg"
    using ok that own ask_owner_Done [OF _ v(1,2)] v(3,4) by (fastforce simp: validateNamespaces_def)
  ultimately show ?thesis by blast
qed

text \<open>A runtime with one plugin that is also the validator's key, and a strict validator.\<close>

definition sample_config :: default_validator_config where
  "sample_config = \<lparr>dv_Enable = True, dv_RejectOCIHookAdjustment = True,
     dv_RejectRuntimeDefaultSeccompAdjustment = True, dv_RejectUnconfinedSeccompAdjustment = False,
     dv_RejectCustomSeccompAdjustment = False, dv_RejectNamespaceAdjustment = True,
     dv_RejectSysctlAdjustment = False, dv_RequiredPlugins = [''10-a''], dv_TolerateMissingAnnotation = []\<rparr>"

definition sample_validator :: builtin_plugin where
  "sample_validator = the (GetDefaultValidator (\<lambda>ks. ks) (\<lambda>_. None) (\<lambda>_. ''rejected'') (Some sample_config))"

definition sample_vimpl :: vimpl where
  "sample_vimpl i v =
     (case Builtin_ValidateContainerAdjustment sample_validator v of Some r \<Rightarrow> Inr r | None \<Rightarrow> Inl ErrClosed)"

definition sample_ad :: adaptation where
  "sample_ad = \<lparr>ad_table = (\<lambda>_. \<lparr>pl_idx = ''10'', pl_base = ''a'', pl_events = ValidEvents, pl_closed = False\<rparr>),
     ad_plugins = [1], ad_validators = [1]\<rparr>"

text \<open>The container has the runtime's default profile; the plugin fails fatally whenever it is called.\<close>

definition sample_container :: container where
  "sample_container = zero_container\<lparr>ctr_linux := Some (zero_linux_container\<lparr>
     lc_seccomp_profile := Some \<lparr>sp_profile_type = RUNTIME_DEFAULT, sp_localhost_ref = []\<rparr>\<rparr>)\<rparr>"

definition sample_run :: "create_response outcome \<times> adaptation" where
  "sample_run = CreateContainer (\<lambda>i q. Inl DeadlineExceeded) sample_vimpl (\<lambda>ks. ks) (\<lambda>is. is)
     \<lparr>cr_pod = None, cr_container = Some sample_container\<rparr> sample_ad"

lemma sample_run_returns:
  obtains rpl ad' a where "sample_run = (Returned rpl, ad')" and "crs_adjust rpl = Some a"
proof -
  have "case fst sample_run of Returned rpl \<Rightarrow> crs_adjust rpl \<noteq> None | _ \<Rightarrow> False" by code_simp
  then obtain rpl a where "fst sample_run = Returned rpl" "crs_adjust rpl = Some a"
    by (auto split: outcome.splits)
  then show thesis using that by (metis prod.collapse)
qed

lemma sample_facts:
  "GetDefaultValidator (\<lambda>ks. ks) (\<lambda>_. None) (\<lambda>_. ''rejected'') (Some sample_config) = Some sample_validator"
  "Builtin_ValidateContainerAdjustment sample_validator v = Some r \<Longrightarrow> sample_vimpl i v = Inr r"
  "1 \<in> set (ad_validators sample_ad)" "subscribed 14 (ad_table sample_ad 1)"
  by (simp_all add: sample_validator_def GetDefaultValidator_def sample_config_def sample_vimpl_def sample_ad_def)
    code_simp

theorem default_validator_enforced_witness:
  "\<exists>rpl ad' a. sample_run = (Returned rpl, ad') \<and> crs_adjust rpl = Some a \<and> \<not> hooks_set a \<and> \<not> seccomp_set a"
proof -
  obtain rpl ad' a where r: "sample_run = (Returned rpl, ad')" "crs_adjust rpl = Some a" by (rule sample_run_returns)
  have "cr_container \<lparr>cr_pod = None, cr_container = Some sample_container\<rparr> = Some sample_container" by simp
  from default_validator_enforced [where vimpl = sample_vimpl and i = 1 and ad = sample_ad, OF sample_facts _
      r(1) [unfolded sample_run_def] r(2) this]
  have "\<not> hooks_set a \<and> (rejects_seccomp sample_config sample_container \<longrightarrow> \<not> seccomp_set a)"
    by (simp add: sample_config_def)
  moreover have "rejects_seccomp sample_config sample_container"
    by (simp add: rejects_seccomp_def container_profile_def sample_config_def sample_container_def)
  ultimately show ?thesis using r by blast
qed

section \<open>Required plugins\<close>

text \<open>\<open>wanted\<close>: the plugins the configuration and the pod's annotation require for a container.\<close>

definition wanted ::
    "(string \<Rightarrow> string list option) \<Rightarrow> default_validator_config \<Rightarrow> pod_sandbox option \<Rightarrow> string \<Rightarrow> string set" where
  "wanted yaml cfg pod name = set (dv_RequiredPlugins cfg) \<union>
     (case GetEffectiveAnnotation pod RequiredPlugins name of
        None \<Rightarrow> {}
      | Some value \<Rightarrow> (case yaml value of None \<Rightarrow> {} | Some annotated \<Rightarrow> set annotated))"

definition tolerated :: "default_validator_config \<Rightarrow> pod_sandbox option \<Rightarrow> string \<Rightarrow> bool" where
  "tolerated cfg pod name \<longleftrightarrow> dv_TolerateMissingAnnotation cfg \<noteq> [] \<and>
     (\<exists>value. GetEffectiveAnnotation pod (dv_TolerateMissingAnnotation cfg) name = Some value \<and> ParseBool value = Some True)"

lemma plugin_map_keys:
  "map_of (fold (\<lambda>p m. AList.update (pi_index p @ ''-'' @ pi_name p) p
     (AList.update (pi_name p) \<lparr>pi_name = pi_name p, pi_index = []\<rparr> m)) ps m) r \<noteq> None \<longleftrightarrow>
   map_of m r \<noteq> None \<or> (\<exists>p \<in> set ps. r = pi_name p \<or> r = pi_index p @ ''-'' @ pi_name p)"
  by (induction ps arbitrary: m) (auto simp: update_conv)

lemma GetPluginMap_keys:
  "gmap_get (Some (GetPluginMap v)) r \<noteq> None \<longleftrightarrow>
   (\<exists>p \<in> set (vr_plugins v). r = pi_name p \<or> r = pi_index p @ ''-'' @ pi_name p)"
  using plugin_map_keys [of "vr_plugins v" "[]" r] by (simp add: GetPluginMap_def gmap_get_def)

lemma required_present:
  assumes "validateRequiredPlugins yaml cfg v = Done" and "vr_container v = Some c"
    and "\<not> tolerated cfg (vr_pod v) (ctr_name c)" and "r \<in> wanted yaml cfg (vr_pod v) (ctr_name c)"
  shows "\<exists>p \<in> set (vr_plugins v). r = pi_name p \<or> r = pi_index p @ ''-'' @ pi_name p"
proof -
  have "gmap_get (Some (GetPluginMap v)) r \<noteq> None"
    using assms
    by (auto simp: validateRequiredPlugins_def Let_def wanted_def tolerated_def filter_empty_conv
        split: option.splits if_splits sum.splits)
  then show ?thesis by (simp only: GetPluginMap_keys)
qed

text \<open>
  C15. With the default validator, a container is created only if every plugin its configuration or the pod's
  annotation requires is connected, by name or by index and name, unless the pod tolerates missing
  plugins. Connected is all it takes: as the witness shows, a required plugin counts although every call
  to it fails and its adjustment is missing.
\<close>

theorem required_plugins_connected:
  assumes "GetDefaultValidator gord yaml text (Some cfg) = Some b"
    and "\<And>v r. Builtin_ValidateContainerAdjustment b v = Some r \<Longrightarrow> vimpl i v = Inr r"
    and "i \<in> set (ad_validators ad)" and "subscribed 14 (ad_table ad i)"
    and "\<And>is. set (vord is) = set is"
    and "CreateContainer impl vimpl ord vord req ad = (Returned rpl, ad')"
    and "cr_container req = Some c" and "\<not> tolerated cfg (cr_pod req) (ctr_name c)"
    and "r \<in> wanted yaml cfg (cr_pod req) (ctr_name c)"
  shows "\<exists>j \<in> set (ad_plugins ad). r = pl_base (ad_table ad j) \<or> r = plugin_qname (ad_table ad j)"
proof -
  obtain s0 mid s x where s0: "collectCreateContainerResult req = Some s0"
    and ask: "vimpl i (asked ad req s0 s) = Inr x" "\<not> vrs_reject x"
    using assms(6,5,3,4) by (rule creation_validated)
  let ?v = "asked ad req s0 s"
  have v: "vr_container ?v = Some (prepare_container c)" "vr_owners ?v = Some (rs_owners s)" "vr_pod ?v = cr_pod req"
    "ctr_name (prepare_container c) = ctr_name c"
    using s0 assms(7)
    by (auto simp: asked_def collectCreateContainerResult_def create_container_def prepare_container_def)
  have "validateRequiredPlugins yaml cfg ?v = Done"
    using default_validator_verdict [where vimpl = vimpl and i = i and v = ?v, OF assms(1,2) ask] v(1,2) by simp
  from required_present [OF this v(1)] show ?thesis
    using assms(8,9) by (auto simp: v asked_def plugin_qname_def)
qed

theorem required_plugins_connected_witness:
  "\<exists>rpl ad' j. sample_run = (Returned rpl, ad') \<and> j \<in> set (ad_plugins sample_ad) \<and>
     (''10-a'' = pl_base (ad_table sample_ad j) \<or> ''10-a'' = plugin_qname (ad_table sample_ad j))"
proof -
  obtain rpl ad' a where r: "sample_run = (Returned rpl, ad')" "crs_adjust rpl = Some a" by (rule sample_run_returns)
  have "\<exists>j \<in> set (ad_plugins sample_ad). ''10-a'' = pl_base (ad_table sample_ad j) \<or> ''10-a'' = plugin_qname (ad_table sample_ad j)"
    by (rule required_plugins_connected [where vimpl = sample_vimpl and i = 1 and ad = sample_ad, OF sample_facts _
        r(1) [unfolded sample_run_def]])
      (simp_all add: tolerated_def wanted_def sample_config_def)
  with r show ?thesis by blast
qed

end
