(* ===== verification/Generator.thy ===== *)
theory Generator
  imports Conversions Resources
begin

text \<open>
  Applying the collected adjustment to the container's OCI spec
  (\<^verbatim>\<open>src/pkg/runtime-tools/generate/generate.go\<close>). The code extends a generator of another project
  (\<^verbatim>\<open>UnderlyingGenerator\<close>), of which it sees an interface: the record \<open>underlying\<close>, a parameter of the
  model. Both work on one spec through a pointer; the model is for a generator made for a spec, for
  which \<^verbatim>\<open>initConfig\<close> does nothing. The spec has the fields that the code reads or writes or that the interface names; a struct
  the code never looks into is a type of its own. The runtime's callbacks are options, and may
  change what they are passed.
\<close>

section \<open>The spec\<close>

typedecl block_io

record oci_rlimit =
  orl_type :: string
  orl_hard :: uint64
  orl_soft :: uint64

record oci_process =
  pr_args :: "string list"
  pr_env :: "string list"
  pr_rlimits :: "oci_rlimit list"
  pr_oom_score_adj :: "int64 option"
  pr_io_priority :: "oci_io_priority option"
  pr_scheduler :: "oci_scheduler option"

record oci_rdt =
  ordt_clos_id :: string
  ordt_schemata :: "string list"
  ordt_l3_cache_schema :: string
  ordt_mem_bw_schema :: string
  ordt_enable_monitoring :: bool

record spec_resources = oci_resources +
  or_block_io :: "block_io option"

record oci_linux =
  li_resources :: "spec_resources option"
  li_cgroups_path :: string
  li_namespaces :: "oci_namespace list"
  li_devices :: "oci_device list"
  li_net_devices :: "(string, oci_net_device) gomap option"
  li_sysctl :: "(string, string) gomap option"
  li_seccomp :: "oci_seccomp option"
  li_rootfs_propagation :: string
  li_intel_rdt :: "oci_rdt option"

record spec =
  sp_process :: "oci_process option"
  sp_mounts :: "oci_mount list"
  sp_hooks :: "oci_hooks option"
  sp_annotations :: "(string, string) gomap option"
  sp_linux :: "oci_linux option"

definition zero_process :: oci_process where
  "zero_process = \<lparr>pr_args = [], pr_env = [], pr_rlimits = [], pr_oom_score_adj = None,
     pr_io_priority = None, pr_scheduler = None\<rparr>"

definition zero_oci_hooks :: oci_hooks where
  "zero_oci_hooks = \<lparr>ohs_prestart = [], ohs_create_runtime = [], ohs_create_container = [],
     ohs_start_container = [], ohs_poststart = [], ohs_poststop = []\<rparr>"

definition zero_oci_rdt :: oci_rdt where
  "zero_oci_rdt = \<lparr>ordt_clos_id = [], ordt_schemata = [], ordt_l3_cache_schema = [], ordt_mem_bw_schema = [],
     ordt_enable_monitoring = False\<rparr>"

definition zero_spec_resources :: spec_resources where
  "zero_spec_resources = \<lparr>or_devices = [], or_memory = None, or_cpu = None, or_pids = None,
     or_hugepage_limits = [], or_unified = None, or_block_io = None\<rparr>"

definition zero_oci_linux :: oci_linux where
  "zero_oci_linux = \<lparr>li_resources = None, li_cgroups_path = [], li_namespaces = [], li_devices = [],
     li_net_devices = None, li_sysctl = None, li_seccomp = None, li_rootfs_propagation = [], li_intel_rdt = None\<rparr>"

definition zero_spec :: spec where
  "zero_spec = \<lparr>sp_process = None, sp_mounts = [], sp_hooks = None, sp_annotations = None, sp_linux = None\<rparr>"

section \<open>The underlying generator and the runtime's callbacks\<close>

type_synonym fallible = "spec \<Rightarrow> string option \<times> spec"

record underlying =
  ug_AddAnnotation :: "string \<Rightarrow> string \<Rightarrow> spec \<Rightarrow> spec"
  ug_AddDevice :: "oci_device \<Rightarrow> spec \<Rightarrow> spec"
  ug_AddOrReplaceLinuxNamespace :: "string \<Rightarrow> string \<Rightarrow> fallible"
  ug_AddPostStartHook :: "oci_hook \<Rightarrow> spec \<Rightarrow> spec"
  ug_AddPostStopHook :: "oci_hook \<Rightarrow> spec \<Rightarrow> spec"
  ug_AddPreStartHook :: "oci_hook \<Rightarrow> spec \<Rightarrow> spec"
  ug_AddProcessEnv :: "string \<Rightarrow> string \<Rightarrow> spec \<Rightarrow> spec"
  ug_AddLinuxResourcesDevice :: "bool \<Rightarrow> string \<Rightarrow> int64 option \<Rightarrow> int64 option \<Rightarrow> string \<Rightarrow> spec \<Rightarrow> spec"
  ug_AddLinuxResourcesHugepageLimit :: "string \<Rightarrow> uint64 \<Rightarrow> spec \<Rightarrow> spec"
  ug_AddLinuxResourcesUnified :: "string \<Rightarrow> string \<Rightarrow> spec \<Rightarrow> spec"
  ug_AddMount :: "oci_mount \<Rightarrow> spec \<Rightarrow> spec"
  ug_AddLinuxSysctl :: "string \<Rightarrow> string \<Rightarrow> spec \<Rightarrow> spec"
  ug_ClearMounts :: "spec \<Rightarrow> spec"
  ug_ClearProcessEnv :: "spec \<Rightarrow> spec"
  ug_Mounts :: "spec \<Rightarrow> oci_mount list"
  ug_RemoveAnnotation :: "string \<Rightarrow> spec \<Rightarrow> spec"
  ug_RemoveDevice :: "string \<Rightarrow> spec \<Rightarrow> spec"
  ug_RemoveLinuxNamespace :: "string \<Rightarrow> fallible"
  ug_RemoveMount :: "string \<Rightarrow> spec \<Rightarrow> spec"
  ug_RemoveLinuxSysctl :: "string \<Rightarrow> spec \<Rightarrow> spec"
  ug_SetProcessArgs :: "string list \<Rightarrow> spec \<Rightarrow> spec"
  ug_SetLinuxCgroupsPath :: "string \<Rightarrow> spec \<Rightarrow> spec"
  ug_SetLinuxResourcesCPUCpus :: "string \<Rightarrow> spec \<Rightarrow> spec"
  ug_SetLinuxResourcesCPUMems :: "string \<Rightarrow> spec \<Rightarrow> spec"
  ug_SetLinuxResourcesCPUPeriod :: "uint64 \<Rightarrow> spec \<Rightarrow> spec"
  ug_SetLinuxResourcesCPUQuota :: "int64 \<Rightarrow> spec \<Rightarrow> spec"
  ug_SetLinuxResourcesCPURealtimePeriod :: "uint64 \<Rightarrow> spec \<Rightarrow> spec"
  ug_SetLinuxResourcesCPURealtimeRuntime :: "int64 \<Rightarrow> spec \<Rightarrow> spec"
  ug_SetLinuxResourcesCPUShares :: "uint64 \<Rightarrow> spec \<Rightarrow> spec"
  ug_SetLinuxResourcesMemoryLimit :: "int64 \<Rightarrow> spec \<Rightarrow> spec"
  ug_SetLinuxResourcesMemorySwap :: "int64 \<Rightarrow> spec \<Rightarrow> spec"
  ug_SetLinuxRootPropagation :: "string \<Rightarrow> fallible"
  ug_SetProcessOOMScoreAdj :: "int64 \<Rightarrow> spec \<Rightarrow> spec"

datatype propagation_error =
    NoMountTable string
  | NoMountInfo string
  | PropagationIs string string "string list"

datatype gen_error =
    InAnnotations string
  | InSysctl string
  | InResources string
  | InBlockIO string
  | InRdt string
  | InNamespaces string
  | InMounts propagation_error
  | InRootfs string
  | InCDI string

type_synonym string_map = "(string, string) gomap option"

record generator =
  ge_underlying :: underlying
  ge_filterLabels :: "string_map \<Rightarrow> string + string_map"
  ge_filterAnnotations :: "string_map \<Rightarrow> string + string_map"
  ge_filterSysctl :: "string_map \<Rightarrow> string + string_map"
  ge_resolveBlockIO :: "(string \<Rightarrow> string + block_io option) option"
  ge_resolveRdt :: "(string \<Rightarrow> string + oci_rdt option) option"
  ge_injectCDIDevices :: "(string list \<Rightarrow> fallible) option"
  ge_checkResources :: "(spec_resources option \<Rightarrow> string option \<times> spec_resources option) option"

definition nopFilter :: "string_map \<Rightarrow> string + string_map" where
  "nopFilter m = Inr m"

definition WithLabelFilter :: "(string_map \<Rightarrow> string + string_map) \<Rightarrow> generator \<Rightarrow> generator" where
  "WithLabelFilter fn g = g\<lparr>ge_filterLabels := fn\<rparr>"

definition WithAnnotationFilter :: "(string_map \<Rightarrow> string + string_map) \<Rightarrow> generator \<Rightarrow> generator" where
  "WithAnnotationFilter fn g = g\<lparr>ge_filterAnnotations := fn\<rparr>"

definition WithBlockIOResolver :: "(string \<Rightarrow> string + block_io option) \<Rightarrow> generator \<Rightarrow> generator" where
  "WithBlockIOResolver fn g = g\<lparr>ge_resolveBlockIO := Some fn\<rparr>"

definition WithRdtResolver :: "(string \<Rightarrow> string + oci_rdt option) \<Rightarrow> generator \<Rightarrow> generator" where
  "WithRdtResolver fn g = g\<lparr>ge_resolveRdt := Some fn\<rparr>"

definition WithResourceChecker ::
    "(spec_resources option \<Rightarrow> string option \<times> spec_resources option) \<Rightarrow> generator \<Rightarrow> generator" where
  "WithResourceChecker fn g = g\<lparr>ge_checkResources := Some fn\<rparr>"

definition WithCDIDeviceInjector :: "(string list \<Rightarrow> fallible) \<Rightarrow> generator \<Rightarrow> generator" where
  "WithCDIDeviceInjector fn g = g\<lparr>ge_injectCDIDevices := Some fn\<rparr>"

definition SpecGenerator :: "underlying \<Rightarrow> (generator \<Rightarrow> generator) list \<Rightarrow> generator" where
  "SpecGenerator gg opts = fold (\<lambda>opt g. opt g) opts
     \<lparr>ge_underlying = gg, ge_filterLabels = nopFilter, ge_filterAnnotations = nopFilter,
      ge_filterSysctl = nopFilter, ge_resolveBlockIO = None, ge_resolveRdt = None,
      ge_injectCDIDevices = None, ge_checkResources = None\<rparr>"

section \<open>Allocating the parts of the spec\<close>

type_synonym gen_action = "(gen_error, spec) action"

text \<open>A call that may fail, with the error wrapped by its caller.\<close>

definition call :: "(string \<Rightarrow> gen_error) \<Rightarrow> fallible \<Rightarrow> gen_action" where
  "call wrap f s = (case f s of (None, t) \<Rightarrow> (Done, t) | (Some e, t) \<Rightarrow> (Failed (wrap e), t))"

definition initConfigProcess :: "spec \<Rightarrow> spec" where
  "initConfigProcess s = s\<lparr>sp_process := alloc zero_process (sp_process s)\<rparr>"

definition initConfigHooks :: "spec \<Rightarrow> spec" where
  "initConfigHooks s = s\<lparr>sp_hooks := alloc zero_oci_hooks (sp_hooks s)\<rparr>"

definition initConfigLinux :: "spec \<Rightarrow> spec" where
  "initConfigLinux s = s\<lparr>sp_linux := alloc zero_oci_linux (sp_linux s)\<rparr>"

text \<open>Writing to an allocated part.\<close>

definition upd_process :: "(oci_process \<Rightarrow> oci_process) \<Rightarrow> spec \<Rightarrow> spec" where
  "upd_process f s = s\<lparr>sp_process := map_option f (sp_process s)\<rparr>"

definition upd_hooks :: "(oci_hooks \<Rightarrow> oci_hooks) \<Rightarrow> spec \<Rightarrow> spec" where
  "upd_hooks f s = s\<lparr>sp_hooks := map_option f (sp_hooks s)\<rparr>"

definition upd_linux :: "(oci_linux \<Rightarrow> oci_linux) \<Rightarrow> spec \<Rightarrow> spec" where
  "upd_linux f s = s\<lparr>sp_linux := map_option f (sp_linux s)\<rparr>"

definition initConfigLinuxResources :: "spec \<Rightarrow> spec" where
  "initConfigLinuxResources s = upd_linux (\<lambda>l. l\<lparr>li_resources := alloc zero_spec_resources (li_resources l)\<rparr>)
     (initConfigLinux s)"

definition initConfigLinuxNetDevices :: "spec \<Rightarrow> spec" where
  "initConfigLinuxNetDevices s = upd_linux (\<lambda>l. l\<lparr>li_net_devices := alloc [] (li_net_devices l)\<rparr>) (initConfigLinux s)"

definition initConfigLinuxIntelRdt :: "spec \<Rightarrow> spec" where
  "initConfigLinuxIntelRdt s = upd_linux (\<lambda>l. l\<lparr>li_intel_rdt := alloc zero_oci_rdt (li_intel_rdt l)\<rparr>) (initConfigLinux s)"

section \<open>Setters the underlying generator lacks\<close>

definition AddCreateRuntimeHook :: "oci_hook \<Rightarrow> spec \<Rightarrow> spec" where
  "AddCreateRuntimeHook h s =
     upd_hooks (\<lambda>hs. hs\<lparr>ohs_create_runtime := ohs_create_runtime hs @ [h]\<rparr>) (initConfigHooks s)"

definition AddCreateContainerHook :: "oci_hook \<Rightarrow> spec \<Rightarrow> spec" where
  "AddCreateContainerHook h s =
     upd_hooks (\<lambda>hs. hs\<lparr>ohs_create_container := ohs_create_container hs @ [h]\<rparr>) (initConfigHooks s)"

definition AddStartContainerHook :: "oci_hook \<Rightarrow> spec \<Rightarrow> spec" where
  "AddStartContainerHook h s =
     upd_hooks (\<lambda>hs. hs\<lparr>ohs_start_container := ohs_start_container hs @ [h]\<rparr>) (initConfigHooks s)"

definition ClearLinuxIntelRdt :: "spec \<Rightarrow> spec" where
  "ClearLinuxIntelRdt s = upd_linux (\<lambda>l. l\<lparr>li_intel_rdt := None\<rparr>) (initConfigLinux s)"

definition SetLinuxIntelRdt :: "oci_rdt option \<Rightarrow> spec \<Rightarrow> spec" where
  "SetLinuxIntelRdt rdt s = upd_linux (\<lambda>l. l\<lparr>li_intel_rdt := rdt\<rparr>) (initConfigLinux s)"

definition upd_rdt :: "(oci_rdt \<Rightarrow> oci_rdt) \<Rightarrow> spec \<Rightarrow> spec" where
  "upd_rdt f = upd_linux (\<lambda>l. l\<lparr>li_intel_rdt := map_option f (li_intel_rdt l)\<rparr>)"

definition SetLinuxIntelRdtClosID :: "string \<Rightarrow> spec \<Rightarrow> spec" where
  "SetLinuxIntelRdtClosID closID s = upd_rdt (\<lambda>r. r\<lparr>ordt_clos_id := closID\<rparr>) (initConfigLinuxIntelRdt s)"

definition SetLinuxIntelRdtEnableMonitoring :: "bool \<Rightarrow> spec \<Rightarrow> spec" where
  "SetLinuxIntelRdtEnableMonitoring v s = upd_rdt (\<lambda>r. r\<lparr>ordt_enable_monitoring := v\<rparr>) (initConfigLinuxIntelRdt s)"

definition SetLinuxIntelRdtSchemata :: "string list \<Rightarrow> spec \<Rightarrow> spec" where
  "SetLinuxIntelRdtSchemata schemata s = upd_rdt (\<lambda>r. r\<lparr>ordt_schemata := schemata\<rparr>) (initConfigLinuxIntelRdt s)"

definition upd_resources :: "(spec_resources \<Rightarrow> spec_resources) \<Rightarrow> spec \<Rightarrow> spec" where
  "upd_resources f = upd_linux (\<lambda>l. l\<lparr>li_resources := map_option f (li_resources l)\<rparr>)"

definition ClearLinuxResourcesBlockIO :: "spec \<Rightarrow> spec" where
  "ClearLinuxResourcesBlockIO s = upd_resources (\<lambda>r. r\<lparr>or_block_io := None\<rparr>) (initConfigLinuxResources s)"

definition SetLinuxResourcesBlockIO :: "block_io option \<Rightarrow> spec \<Rightarrow> spec" where
  "SetLinuxResourcesBlockIO b s = upd_resources (\<lambda>r. r\<lparr>or_block_io := b\<rparr>) (initConfigLinuxResources s)"

definition SetProcessIOPriority :: "oci_io_priority option \<Rightarrow> spec \<Rightarrow> spec" where
  "SetProcessIOPriority ioprio s =
     (let prio = (case ioprio of None \<Rightarrow> None | Some p \<Rightarrow> if oio_class p = [] then None else Some p)
      in upd_process (\<lambda>p. p\<lparr>pr_io_priority := prio\<rparr>) (initConfigProcess s))"

text \<open>A limit of \<open>-1\<close> or less leaves a limit that is already there.\<close>

definition SetLinuxResourcesPidsLimit :: "int64 \<Rightarrow> spec \<Rightarrow> spec" where
  "SetLinuxResourcesPidsLimit limit s =
     upd_resources (\<lambda>r. let pids = alloc None (or_pids r) in
       r\<lparr>or_pids := if sint limit > UnlimitedPidsLimit then Some (Some limit) else pids\<rparr>)
     (initConfigLinuxResources s)"

definition AddLinuxNetDevice :: "string \<Rightarrow> linux_net_device option \<Rightarrow> spec \<Rightarrow> spec" where
  "AddLinuxNetDevice hostDev device s =
     (case device of
        None \<Rightarrow> s
      | Some _ \<Rightarrow> upd_linux (\<lambda>l. l\<lparr>li_net_devices :=
          map_option (AList.update hostDev (LinuxNetDevice_ToOCI device)) (li_net_devices l)\<rparr>)
          (initConfigLinuxNetDevices s))"

definition RemoveLinuxNetDevice :: "string \<Rightarrow> spec \<Rightarrow> spec" where
  "RemoveLinuxNetDevice hostDev s =
     upd_linux (\<lambda>l. l\<lparr>li_net_devices := map_option (AList.delete hostDev) (li_net_devices l)\<rparr>)
       (initConfigLinuxNetDevices s)"

end
