(* ===== verification/Generator_Adjust.thy ===== *)
theory Generator_Adjust
  imports Generator
begin

text \<open>
  The \<^verbatim>\<open>Adjust*\<close> methods of \<^verbatim>\<open>src/pkg/runtime-tools/generate/generate.go\<close>: each carries one part of an
  adjustment over to the OCI spec. \<open>ensure\<close> is \<^verbatim>\<open>ensurePropagation\<close> of \<^verbatim>\<open>helpers_linux.go\<close>, which is modelled
  here for a given mount table (on other systems it is another function), and \<open>sorter\<close> stands for the choice of
  \<^verbatim>\<open>sort.Sort\<close> among the sorted permutations.
\<close>

section \<open>Process\<close>

text \<open>The loop over the existing environment; it consumes the modifications of the variables it meets.\<close>

fun adjust_old_env :: "underlying \<Rightarrow> string list \<Rightarrow> (string, key_value) gomap \<Rightarrow> spec \<Rightarrow> (string, key_value) gomap \<times> spec" where
  "adjust_old_env u [] modified s = (modified, s)"
| "adjust_old_env u (e # old) modified s =
     (case splitN2 CHR ''='' e of
        [k, v] \<Rightarrow>
          (case map_of modified k of
             Some m \<Rightarrow>
               (let s' = (if snd (KeyValue_IsMarkedForRemoval m) then s
                          else ug_AddProcessEnv u (kv_key m) (kv_value m) s)
                in adjust_old_env u old (AList.delete k modified) s')
           | None \<Rightarrow> adjust_old_env u old modified (ug_AddProcessEnv u k v s))
      | _ \<Rightarrow> adjust_old_env u old modified s)"

definition AdjustEnv :: "generator \<Rightarrow> key_value list \<Rightarrow> spec \<Rightarrow> spec" where
  "AdjustEnv g env s =
     (let u = ge_underlying g;
          modified = fold (\<lambda>e m. AList.update (fst (IsMarkedForRemoval (kv_key e))) e m) env [];
          (rest, s1) = (case sp_process s of
             Some p \<Rightarrow> if length modified > 0 then adjust_old_env u (pr_env p) modified (ug_ClearProcessEnv u s) else (modified, s)
           | None \<Rightarrow> (modified, s))
      in fold (\<lambda>e t. if snd (KeyValue_IsMarkedForRemoval e) then t
           else if map_of rest (kv_key e) \<noteq> None then ug_AddProcessEnv u (kv_key e) (kv_value e) t else t) env s1)"

definition AdjustArgs :: "generator \<Rightarrow> string list \<Rightarrow> spec \<Rightarrow> spec" where
  "AdjustArgs g args s = (if length args \<noteq> 0 then ug_SetProcessArgs (ge_underlying g) args s else s)"

definition AdjustOomScoreAdj :: "generator \<Rightarrow> int64 option \<Rightarrow> spec \<Rightarrow> spec" where
  "AdjustOomScoreAdj g score s =
     (case score of None \<Rightarrow> s | Some v \<Rightarrow> ug_SetProcessOOMScoreAdj (ge_underlying g) v s)"

definition AdjustIOPriority :: "linux_io_priority option \<Rightarrow> spec \<Rightarrow> spec" where
  "AdjustIOPriority ioprio s =
     (if ioprio \<noteq> None then SetProcessIOPriority (LinuxIOPriority_ToOCI ioprio) s else s)"

definition AdjustLinuxScheduler :: "linux_scheduler option \<Rightarrow> spec \<Rightarrow> spec" where
  "AdjustLinuxScheduler sch s =
     (if sch = None then s
      else upd_process (\<lambda>p. p\<lparr>pr_scheduler := LinuxScheduler_ToOCI sch\<rparr>) (initConfigProcess s))"

text \<open>Nothing allocates the process here: a spec without one panics.\<close>

definition AdjustRlimits :: "posix_rlimit list \<Rightarrow> gen_action" where
  "AdjustRlimits rlimits = for_each rlimits (\<lambda>l.
     on_ptr sp_process (\<lambda>p s. s\<lparr>sp_process := Some p\<rparr>)
       (assign (\<lambda>p. p\<lparr>pr_rlimits := pr_rlimits p @
          [\<lparr>orl_type = rl_type l, orl_hard = rl_hard l, orl_soft = rl_soft l\<rparr>]\<rparr>)))"

section \<open>Annotations, hooks, sysctls\<close>

definition AdjustAnnotations :: "generator \<Rightarrow> string_map \<Rightarrow> gen_action" where
  "AdjustAnnotations g annotations s =
     (case ge_filterAnnotations g annotations of
        Inl e \<Rightarrow> (Failed (InAnnotations e), s)
      | Inr filtered \<Rightarrow> (Done, fold (\<lambda>(k, v) t.
          let (key, marked) = IsMarkedForRemoval k in
          if marked then ug_RemoveAnnotation (ge_underlying g) key t
          else ug_AddAnnotation (ge_underlying g) k v t) (gmap_entries filtered) s))"

definition AdjustSysctl :: "generator \<Rightarrow> string_map \<Rightarrow> gen_action" where
  "AdjustSysctl g sysctl s =
     (case ge_filterSysctl g sysctl of
        Inl e \<Rightarrow> (Failed (InSysctl e), s)
      | Inr filtered \<Rightarrow> (Done, fold (\<lambda>(k, v) t.
          let (key, marked) = IsMarkedForRemoval k in
          if marked then ug_RemoveLinuxSysctl (ge_underlying g) key t
          else ug_AddLinuxSysctl (ge_underlying g) k v t) (gmap_entries filtered) s))"

definition AdjustHooks :: "generator \<Rightarrow> hooks option \<Rightarrow> spec \<Rightarrow> spec" where
  "AdjustHooks g hooks s =
     (case hooks of
        None \<Rightarrow> s
      | Some h \<Rightarrow>
         (let u = ge_underlying g; add = (\<lambda>f hs t. fold (\<lambda>h. f (Hook_ToOCI h)) hs t) in
          add AddStartContainerHook (hk_start_container h)
            (add AddCreateContainerHook (hk_create_container h)
              (add AddCreateRuntimeHook (hk_create_runtime h)
                (add (ug_AddPostStopHook u) (hk_poststop h)
                  (add (ug_AddPostStartHook u) (hk_poststart h)
                    (add (ug_AddPreStartHook u) (hk_prestart h) s)))))))"

section \<open>Resources\<close>

definition when_some :: "'v option \<Rightarrow> ('v \<Rightarrow> spec \<Rightarrow> spec) \<Rightarrow> spec \<Rightarrow> spec" where
  "when_some v f s = (case v of None \<Rightarrow> s | Some x \<Rightarrow> f x s)"

definition adjust_cpu :: "underlying \<Rightarrow> linux_cpu \<Rightarrow> spec \<Rightarrow> spec" where
  "adjust_cpu u c s =
     when_some (cpu_realtime_period c) (ug_SetLinuxResourcesCPURealtimePeriod u)
       (when_some (cpu_realtime_runtime c) (ug_SetLinuxResourcesCPURealtimeRuntime u)
         ((if cpu_mems c \<noteq> [] then ug_SetLinuxResourcesCPUMems u (cpu_mems c) else (\<lambda>t. t))
           ((if cpu_cpus c \<noteq> [] then ug_SetLinuxResourcesCPUCpus u (cpu_cpus c) else (\<lambda>t. t))
             (when_some (cpu_shares c) (ug_SetLinuxResourcesCPUShares u)
               (when_some (cpu_quota c) (ug_SetLinuxResourcesCPUQuota u)
                 (when_some (cpu_period c) (ug_SetLinuxResourcesCPUPeriod u) s))))))"

text \<open>Of the memory resources only the limit is carried over, and it also sets the swap limit.\<close>

definition adjust_memory :: "underlying \<Rightarrow> linux_memory \<Rightarrow> spec \<Rightarrow> spec" where
  "adjust_memory u m s =
     (let l = (case mem_limit m of None \<Rightarrow> 0 | Some v \<Rightarrow> v) in
      if l \<noteq> 0 then ug_SetLinuxResourcesMemorySwap u l (ug_SetLinuxResourcesMemoryLimit u l s) else s)"

definition check_resources :: "generator \<Rightarrow> gen_action" where
  "check_resources g s =
     (case ge_checkResources g of
        None \<Rightarrow> (Done, s)
      | Some check \<Rightarrow>
         (case sp_linux s of
            None \<Rightarrow> (Panicked, s)
          | Some l \<Rightarrow>
             (case check (li_resources l) of
                (err, r) \<Rightarrow>
                  ((case err of None \<Rightarrow> Done | Some e \<Rightarrow> Failed (InResources e)),
                   s\<lparr>sp_linux := Some (l\<lparr>li_resources := r\<rparr>)\<rparr>))))"

definition AdjustResources :: "generator \<Rightarrow> linux_resources option \<Rightarrow> gen_action" where
  "AdjustResources g res =
     (case res of
        None \<Rightarrow> skip
      | Some r \<Rightarrow>
         (let u = ge_underlying g in run
           [assign initConfigLinux,
            assign (when_some (res_cpu r) (adjust_cpu u)),
            assign (when_some (res_memory r) (adjust_memory u)),
            assign (fold (\<lambda>l. ug_AddLinuxResourcesHugepageLimit u (hp_page_size l) (hp_limit l)) (res_hugepage_limits r)),
            assign (fold (\<lambda>(k, v). ug_AddLinuxResourcesUnified u k v) (gmap_entries (res_unified r))),
            assign (when_some (res_pids r) (\<lambda>v. SetLinuxResourcesPidsLimit (pids_limit v))),
            assign (fold (\<lambda>d. ug_AddLinuxResourcesDevice u (dcg_allow d) (dcg_type d)
              (OptionalInt64_Get (dcg_major d)) (OptionalInt64_Get (dcg_minor d)) (dcg_access d)) (res_devices r)),
            check_resources g]))"

definition AdjustBlockIOClass :: "generator \<Rightarrow> string option \<Rightarrow> gen_action" where
  "AdjustBlockIOClass g blockIOClass s =
     (case (blockIOClass, ge_resolveBlockIO g) of
        (Some c, Some resolve) \<Rightarrow>
          if c = [] then (Done, ClearLinuxResourcesBlockIO s)
          else (case resolve c of
                  Inl e \<Rightarrow> (Failed (InBlockIO e), s)
                | Inr b \<Rightarrow> (Done, SetLinuxResourcesBlockIO b s))
      | _ \<Rightarrow> (Done, s))"

definition AdjustRdtClass :: "generator \<Rightarrow> string option \<Rightarrow> gen_action" where
  "AdjustRdtClass g rdtClass s =
     (case (rdtClass, ge_resolveRdt g) of
        (Some c, Some resolve) \<Rightarrow>
          if c = [] then (Done, ClearLinuxIntelRdt s)
          else (case resolve c of
                  Inl e \<Rightarrow> (Failed (InRdt e), s)
                | Inr r \<Rightarrow> (Done, SetLinuxIntelRdt r s))
      | _ \<Rightarrow> (Done, s))"

definition AdjustRdtClosID :: "string option \<Rightarrow> spec \<Rightarrow> spec" where
  "AdjustRdtClosID v s = when_some v SetLinuxIntelRdtClosID s"

definition AdjustRdtSchemata :: "string list option \<Rightarrow> spec \<Rightarrow> spec" where
  "AdjustRdtSchemata v s = when_some v SetLinuxIntelRdtSchemata s"

definition AdjustRdtEnableMonitoring :: "bool option \<Rightarrow> spec \<Rightarrow> spec" where
  "AdjustRdtEnableMonitoring v s = when_some v SetLinuxIntelRdtEnableMonitoring s"

definition AdjustRdt :: "linux_rdt option \<Rightarrow> spec \<Rightarrow> spec" where
  "AdjustRdt r s =
     (case r of
        None \<Rightarrow> s
      | Some r \<Rightarrow> AdjustRdtEnableMonitoring (OptionalBool_Get (rdt_enable_monitoring r))
          (AdjustRdtSchemata (OptionalRepeatedString_Get (rdt_schemata r))
            (AdjustRdtClosID (OptionalString_Get (rdt_clos_id r))
              (if rdt_remove r then ClearLinuxIntelRdt s else s))))"

section \<open>The rest of the Linux half\<close>

definition AdjustCgroupsPath :: "generator \<Rightarrow> string \<Rightarrow> spec \<Rightarrow> spec" where
  "AdjustCgroupsPath g path s = (if path \<noteq> [] then ug_SetLinuxCgroupsPath (ge_underlying g) path s else s)"

text \<open>
  The default error number is not carried over; a spec without a Linux half panics, and so do
  system calls with an error number.
\<close>

definition AdjustSeccompPolicy :: "linux_seccomp option \<Rightarrow> gen_action" where
  "AdjustSeccompPolicy policy s =
     (case policy of
        None \<Rightarrow> (Done, s)
      | Some p \<Rightarrow>
         (case (ToOCILinuxSyscalls (sec_syscalls p), sp_linux s) of
            (Some syscalls, Some l) \<Rightarrow>
              (Done, s\<lparr>sp_linux := Some (l\<lparr>li_seccomp := Some \<lparr>
                 ose_default_action = sec_default_action p, ose_default_errno_ret = None,
                 ose_architectures = sec_architectures p, ose_flags = sec_flags p,
                 ose_listener_path = sec_listener_path p, ose_listener_metadata = sec_listener_metadata p,
                 ose_syscalls = syscalls\<rparr>\<rparr>)\<rparr>)
          | _ \<Rightarrow> (Panicked, s)))"

definition AdjustNamespaces :: "generator \<Rightarrow> linux_namespace option list \<Rightarrow> gen_action" where
  "AdjustNamespaces g namespaces = for_each namespaces (\<lambda>n.
     case n of
       None \<Rightarrow> skip
     | Some n \<Rightarrow>
        (let (key, marked) = LinuxNamespace_IsMarkedForRemoval n in
         call InNamespaces
           (if marked then ug_RemoveLinuxNamespace (ge_underlying g) key
            else ug_AddOrReplaceLinuxNamespace (ge_underlying g) (ns_type n) (ns_path n))))"

definition AdjustDevices :: "generator \<Rightarrow> linux_device list \<Rightarrow> spec \<Rightarrow> spec" where
  "AdjustDevices g devices s = fold (\<lambda>d t.
     let u = ge_underlying g; (key, marked) = LinuxDevice_IsMarkedForRemoval d; t1 = ug_RemoveDevice u key t in
     if marked then t1
     else ug_AddLinuxResourcesDevice u True (dev_type d) (Some (dev_major d)) (Some (dev_minor d))
       (LinuxDevice_AccessString d) (ug_AddDevice u (LinuxDevice_ToOCI (Some d)) t1)) devices s"

definition AdjustLinuxNetDevices :: "(string, linux_net_device option) gomap option \<Rightarrow> spec \<Rightarrow> spec" where
  "AdjustLinuxNetDevices devices s = fold (\<lambda>(k, v) t.
     let (key, marked) = IsMarkedForRemoval k in
     if marked then RemoveLinuxNetDevice key t else AddLinuxNetDevice k v t) (gmap_entries devices) s"

definition InjectCDIDevices :: "generator \<Rightarrow> cdi_device list \<Rightarrow> gen_action" where
  "InjectCDIDevices g devices =
     (case ge_injectCDIDevices g of
        None \<Rightarrow> skip
      | Some inject \<Rightarrow>
         if length devices = 0 then skip
         else call InCDI (inject (map cdi_name devices)))"

section \<open>Mounts\<close>

text \<open>
  \<^verbatim>\<open>filepath.Clean\<close>: the elements of the path without empty ones, dots and the elements that \<^verbatim>\<open>..\<close> takes back.
\<close>

definition clean_step :: "bool \<Rightarrow> string \<Rightarrow> string list \<Rightarrow> string list" where
  "clean_step rooted e st =
     (if e = [] \<or> e = ''.'' then st
      else if e = ''..'' then
        (case st of
           x # rest \<Rightarrow> if x \<noteq> ''..'' then rest else ''..'' # st
         | [] \<Rightarrow> if rooted then [] else [''..''])
      else e # st)"

definition Clean :: "string \<Rightarrow> string" where
  "Clean path =
     (let rooted = (case path of [] \<Rightarrow> False | c # _ \<Rightarrow> c = CHR ''/'');
          out = (if rooted then ''/'' else []) @
            join_with ''/'' (rev (fold (clean_step rooted) (split_on CHR ''/'' path) []))
      in if out = [] then ''.'' else out)"

definition mount_parts :: "oci_mount \<Rightarrow> nat" where
  "mount_parts m = count_list (Clean (omt_destination m)) CHR ''/''"

text \<open>\<^verbatim>\<open>orderedMounts.Less\<close>; strings compare byte by byte.\<close>

definition mount_less :: "oci_mount \<Rightarrow> oci_mount \<Rightarrow> bool" where
  "mount_less a b =
     (let ip = mount_parts a; jp = mount_parts b in
      if ip < jp then True else if jp < ip then False
      else omt_destination a < omt_destination b)"

definition sortMounts :: "(oci_mount list \<Rightarrow> oci_mount list) \<Rightarrow> generator \<Rightarrow> spec \<Rightarrow> spec" where
  "sortMounts sorter g s =
     (let mounts = ug_Mounts (ge_underlying g) s in
      (ug_ClearMounts (ge_underlying g) s)\<lparr>sp_mounts := sorter mounts\<rparr>)"

text \<open>
  The propagation of the innermost mount that holds a path; \<open>parents\<close> is the system's mount table restricted to the
  mounts above a directory (\<^verbatim>\<open>mountinfo.GetMounts\<close> with \<^verbatim>\<open>ParentsFilter\<close>). \<open>None\<close> is a panic, for a table of mounts
  without a mount point.
\<close>

record mount_info =
  mi_mountpoint :: string
  mi_optional :: string

fun optional_propagation :: "string list \<Rightarrow> string" where
  "optional_propagation [] = []"
| "optional_propagation (opt # opts) =
     (if take 7 opt = ''shared:'' then ''rshared''
      else if take 7 opt = ''master:'' then ''rslave''
      else optional_propagation opts)"

definition longest_mount :: "mount_info list \<Rightarrow> mount_info option" where
  "longest_mount ms = fst (fold (\<lambda>m (best, n). if length (mi_mountpoint m) > n then (Some m, length (mi_mountpoint m)) else (best, n))
     ms (None, 0))"

definition getPropagation :: "(string \<Rightarrow> string + mount_info list) \<Rightarrow> string \<Rightarrow> (propagation_error + string) option" where
  "getPropagation parents path =
     (case parents (Clean path) of
        Inl e \<Rightarrow> Some (Inl (NoMountTable e))
      | Inr ms \<Rightarrow>
         if length ms = 0 then Some (Inl (NoMountInfo path))
         else
           (case longest_mount ms of
              None \<Rightarrow> None
            | Some m \<Rightarrow> Some (Inr (optional_propagation (split_on CHR '' '' (mi_optional m))))))"

definition ensurePropagation ::
    "(string \<Rightarrow> string + mount_info list) \<Rightarrow> string \<Rightarrow> string list \<Rightarrow> propagation_error status" where
  "ensurePropagation parents path accepted =
     (case getPropagation parents path of
        None \<Rightarrow> Panicked
      | Some (Inl e) \<Rightarrow> Failed e
      | Some (Inr prop) \<Rightarrow> if prop \<in> set accepted then Done else Failed (PropagationIs path prop accepted))"

text \<open>
  One round of the loop; \<open>propagation\<close> is a variable of the function and outlives the round. Then the loop.
\<close>

definition adjust_propagation ::
    "(string \<Rightarrow> string list \<Rightarrow> propagation_error status) \<Rightarrow> underlying \<Rightarrow> string \<Rightarrow> oci_mount \<Rightarrow> gen_action" where
  "adjust_propagation ensure u propagation mnt =
     (let check = (\<lambda>accepted s. (case ensure (omt_source mnt) accepted of
          Done \<Rightarrow> Done | Failed e \<Rightarrow> Failed (InMounts e) | Panicked \<Rightarrow> Panicked, s)) in
      if propagation = ''rshared'' then run
        [check [''rshared''],
         call InRootfs (ug_SetLinuxRootPropagation u ''rshared'')]
      else if propagation = ''rslave'' then run
        [check [''rshared'', ''rslave''],
         (\<lambda>s. case sp_linux s of
                None \<Rightarrow> (Panicked, s)
              | Some l \<Rightarrow>
                 if li_rootfs_propagation l \<noteq> ''rshared'' \<and> li_rootfs_propagation l \<noteq> ''rslave''
                 then call InRootfs (ug_SetLinuxRootPropagation u ''rslave'') s else (Done, s))]
      else skip)"

fun mount_loop ::
    "(string \<Rightarrow> string list \<Rightarrow> propagation_error status) \<Rightarrow> underlying \<Rightarrow> string \<Rightarrow> mount list \<Rightarrow> gen_action" where
  "mount_loop ensure u propagation [] s = (Done, s)"
| "mount_loop ensure u propagation (m # ms) s =
     (let (destination, marked) = Mount_IsMarkedForRemoval m in
      if marked then mount_loop ensure u propagation ms (ug_RemoveMount u destination s)
      else
        (let s1 = ug_RemoveMount u (mnt_destination m) s;
             (mnt, q) = Mount_ToOCI m (Some propagation);
             propagation' = (case q of None \<Rightarrow> propagation | Some p \<Rightarrow> p)
         in case adjust_propagation ensure u propagation' mnt s1 of
              (Done, s2) \<Rightarrow> mount_loop ensure u propagation' ms (ug_AddMount u mnt s2)
            | r \<Rightarrow> r))"

definition AdjustMounts ::
    "(string \<Rightarrow> string list \<Rightarrow> propagation_error status) \<Rightarrow> (oci_mount list \<Rightarrow> oci_mount list) \<Rightarrow> generator \<Rightarrow>
     mount list \<Rightarrow> gen_action" where
  "AdjustMounts ensure sorter g mounts =
     (if length mounts = 0 then skip
      else run [mount_loop ensure (ge_underlying g) [] mounts, assign (sortMounts sorter g)])"

section \<open>All of it\<close>

definition linux_of :: "(linux_adjustment \<Rightarrow> 'v) \<Rightarrow> 'v \<Rightarrow> container_adjustment \<Rightarrow> 'v" where
  "linux_of get zero a = (case adj_linux a of None \<Rightarrow> zero | Some l \<Rightarrow> get l)"

definition Generator_Adjust ::
    "(string \<Rightarrow> string list \<Rightarrow> propagation_error status) \<Rightarrow> (oci_mount list \<Rightarrow> oci_mount list) \<Rightarrow> generator \<Rightarrow>
     container_adjustment option \<Rightarrow> gen_action" where
  "Generator_Adjust ensure sorter g adjust =
     (case adjust of
        None \<Rightarrow> skip
      | Some a \<Rightarrow>
         (let resources = linux_of la_resources None a in run
           [AdjustAnnotations g (adj_annotations a),
            assign (AdjustEnv g (adj_env a)),
            assign (AdjustArgs g (adj_args a)),
            assign (AdjustHooks g (adj_hooks a)),
            InjectCDIDevices g (adj_cdi_devices a),
            assign (AdjustDevices g (linux_of la_devices [] a)),
            assign (AdjustCgroupsPath g (linux_of la_cgroups_path [] a)),
            assign (AdjustOomScoreAdj g (linux_of la_oom_score_adj None a)),
            assign (AdjustIOPriority (linux_of la_io_priority None a)),
            assign (AdjustLinuxScheduler (linux_of la_scheduler None a)),
            AdjustSeccompPolicy (linux_of la_seccomp_policy None a),
            AdjustNamespaces g (linux_of la_namespaces [] a),
            AdjustSysctl g (linux_of la_sysctl None a),
            assign (AdjustLinuxNetDevices (linux_of la_net_devices None a)),
            AdjustResources g resources,
            AdjustBlockIOClass g (OptionalString_Get (case resources of None \<Rightarrow> None | Some r \<Rightarrow> res_blockio_class r)),
            AdjustRdtClass g (OptionalString_Get (case resources of None \<Rightarrow> None | Some r \<Rightarrow> res_rdt_class r)),
            assign (AdjustRdt (linux_of la_rdt None a)),
            AdjustMounts ensure sorter g (adj_mounts a),
            AdjustRlimits (adj_rlimits a)]))"

end
