(* ===== verification/Generator_Laws.thy ===== *)
theory Generator_Laws
  imports Generator_Adjust "HOL-Library.Multiset" "HOL-Library.Sublist"
begin

text \<open>
  What the spec generator does to the environment and the mounts of a spec, given that the underlying
  generator's methods do what their documentation says (\<open>stock_env\<close>, \<open>stock_mounts\<close>).
\<close>

section \<open>Environment\<close>

definition env_pair :: "string \<Rightarrow> (string \<times> string) option" where
  "env_pair e = (case splitN2 CHR ''='' e of [k, v] \<Rightarrow> Some (k, v) | _ \<Rightarrow> None)"

definition env_pairs :: "string list \<Rightarrow> (string \<times> string) list" where
  "env_pairs es = List.map_filter env_pair es"

text \<open>The value of a variable in the spec's environment.\<close>

definition spec_env :: "spec \<Rightarrow> string \<Rightarrow> string option" where
  "spec_env s = (case sp_process s of None \<Rightarrow> Map.empty | Some p \<Rightarrow> map_of (env_pairs (pr_env p)))"

definition variable_name :: "string \<Rightarrow> bool" where
  "variable_name k \<longleftrightarrow> k \<noteq> [] \<and> CHR ''='' \<notin> set k"

text \<open>
  \<^verbatim>\<open>AddProcessEnv\<close> adds a variable or replaces its value; \<^verbatim>\<open>ClearProcessEnv\<close> removes all variables.
\<close>

definition stock_env :: "underlying \<Rightarrow> bool" where
  "stock_env u \<longleftrightarrow>
     (\<forall>k v s. variable_name k \<longrightarrow> spec_env (ug_AddProcessEnv u k v s) = (spec_env s)(k \<mapsto> v)) \<and>
     (\<forall>s. spec_env (ug_ClearProcessEnv u s) = Map.empty)"

definition entry_name :: "key_value \<Rightarrow> string" where
  "entry_name e = fst (IsMarkedForRemoval (kv_key e))"

definition removes :: "key_value \<Rightarrow> bool" where
  "removes e = snd (IsMarkedForRemoval (kv_key e))"

text \<open>The last entry about a variable, and the last one that sets it.\<close>

definition last_entry :: "key_value list \<Rightarrow> string \<Rightarrow> key_value option" where
  "last_entry env n = find (\<lambda>e. entry_name e = n) (rev env)"

definition last_set :: "key_value list \<Rightarrow> string \<Rightarrow> key_value option" where
  "last_set env n = find (\<lambda>e. \<not> removes e \<and> kv_key e = n) (rev env)"

lemma entry_name_set: "\<not> removes e \<Longrightarrow> entry_name e = kv_key e"
  using rm.check_plain [of "kv_key e"] by (cases "IsMarkedForRemoval (kv_key e)") (auto simp: entry_name_def removes_def)

lemma find_rev_snoc: "find P (rev (xs @ [x])) = (if P x then Some x else find P (rev xs))"
  by simp

lemma modified_lookup:
  "map_of (fold (\<lambda>e m. AList.update (fst (IsMarkedForRemoval (kv_key e))) e m) env []) n = last_entry env n"
proof (induction env rule: rev_induct)
  case Nil
  then show ?case by (simp add: last_entry_def)
next
  case (snoc e env)
  then show ?case
    by (simp add: last_entry_def find_rev_snoc update_conv entry_name_def del: rev_append)
qed

lemma env_pairs_Cons: "env_pairs (e # es) = (case env_pair e of None \<Rightarrow> env_pairs es | Some kv \<Rightarrow> kv # env_pairs es)"
  by (simp add: env_pairs_def List.map_filter_def split: option.split)

lemma adjust_old_env_Cons:
  "adjust_old_env u (e # old) modified s =
     (case env_pair e of
        None \<Rightarrow> adjust_old_env u old modified s
      | Some (k, v) \<Rightarrow>
          (case map_of modified k of
             Some m \<Rightarrow> adjust_old_env u old (AList.delete k modified)
               (if removes m then s else ug_AddProcessEnv u (kv_key m) (kv_value m) s)
           | None \<Rightarrow> adjust_old_env u old modified (ug_AddProcessEnv u k v s)))"
  by (cases rule: splitN2_cases [of "CHR ''=''" e])
    (simp_all add: env_pair_def Let_def KeyValue_IsMarkedForRemoval_def removes_def split: option.split)

declare adjust_old_env.simps(2) [simp del]

lemma env_pair_name: "env_pair e = Some (k, v) \<Longrightarrow> CHR ''='' \<notin> set k"
  by (cases rule: splitN2_cases [of "CHR ''=''" e]) (auto simp: env_pair_def)

lemma adjust_old_env_spec:
  assumes "stock_env u" and "distinct (map fst (env_pairs old))" and "[] \<notin> fst ` set (env_pairs old)"
    and "\<And>k e. map_of modified k = Some e \<Longrightarrow> entry_name e = k"
    and "adjust_old_env u old modified s = (rest, t)"
  shows "map_of rest n = (if n \<in> fst ` set (env_pairs old) then None else map_of modified n) \<and>
    spec_env t n = (if n \<in> fst ` set (env_pairs old)
      then (case map_of modified n of
              Some e \<Rightarrow> if removes e then spec_env s n else Some (kv_value e)
            | None \<Rightarrow> map_of (env_pairs old) n)
      else spec_env s n)"
  using assms(2-5)
proof (induction old arbitrary: modified s)
  case Nil
  then show ?case by (simp add: env_pairs_def)
next
  case (Cons x old)
  show ?case
  proof (cases "env_pair x")
    case None
    then have eq: "env_pairs (x # old) = env_pairs old" by (simp add: env_pairs_Cons)
    show ?thesis
      using Cons.IH [of modified s] Cons.prems None unfolding eq by (simp add: adjust_old_env_Cons)
  next
    case (Some kv)
    obtain k v where kv: "kv = (k, v)" by (cases kv)
    have k: "variable_name k" "k \<notin> fst ` set (env_pairs old)"
      using Cons.prems(1,2) Some kv env_pair_name [of x k v]
      by (auto simp: variable_name_def env_pairs_Cons)
    have old: "distinct (map fst (env_pairs old))" "[] \<notin> fst ` set (env_pairs old)"
      using Cons.prems(1,2) Some by (auto simp: env_pairs_Cons)
    have eq: "env_pairs (x # old) = (k, v) # env_pairs old" using Some kv by (simp add: env_pairs_Cons)
    have add: "spec_env (ug_AddProcessEnv u k w s) = (spec_env s)(k \<mapsto> w)" for w
      using assms(1) k(1) by (simp add: stock_env_def)
    show ?thesis
    proof (cases "map_of modified k")
      case None
      then have r: "adjust_old_env u old modified (ug_AddProcessEnv u k v s) = (rest, t)"
        using Cons.prems(4) Some kv by (simp add: adjust_old_env_Cons)
      show ?thesis
        using Cons.IH [OF old Cons.prems(3) r] k(2) None unfolding eq
        by (cases "n = k") (auto simp: add split: option.split)
    next
      case (Some m)
      let ?s = "if removes m then s else ug_AddProcessEnv u (kv_key m) (kv_value m) s"
      have r: "adjust_old_env u old (AList.delete k modified) ?s = (rest, t)"
        using Cons.prems(4) \<open>env_pair x = Some kv\<close> kv Some by (simp add: adjust_old_env_Cons)
      have m: "\<not> removes m \<Longrightarrow> kv_key m = k"
        using Cons.prems(3) [OF Some] entry_name_set [of m] by simp
      have names: "entry_name e = j" if "map_of (AList.delete k modified) j = Some e" for j e
        using that Cons.prems(3) by (cases "j = k") (simp_all add: delete_conv)
      have s: "spec_env ?s j = (if j = k \<and> \<not> removes m then Some (kv_value m) else spec_env s j)" for j
        using m add by simp
      show ?thesis
        using Cons.IH [OF old names r] k(2) Some unfolding eq
        by (cases "n = k") (simp_all add: s add m delete_conv split: option.split)
    qed
  qed
qed

text \<open>The loop that appends: of the entries that set a variable still to be handled, the last one counts.\<close>

lemma append_env_spec:
  assumes "stock_env u" and "\<And>e. e \<in> set env \<Longrightarrow> variable_name (entry_name e)"
  shows "spec_env (fold (\<lambda>e t. if snd (KeyValue_IsMarkedForRemoval e) then t
      else if map_of rest (kv_key e) \<noteq> None then ug_AddProcessEnv u (kv_key e) (kv_value e) t else t) env s) n =
    (if map_of rest n = None then spec_env s n
     else case last_set env n of None \<Rightarrow> spec_env s n | Some e \<Rightarrow> Some (kv_value e))"
  using assms(2)
proof (induction env rule: rev_induct)
  case Nil
  then show ?case by (simp add: last_set_def)
next
  case (snoc e env)
  have e: "\<not> removes e \<Longrightarrow> variable_name (kv_key e)"
    using snoc.prems [of e] entry_name_set [of e] by simp
  show ?case
    using snoc.IH snoc.prems e assms(1)
    by (auto simp: last_set_def find_rev_snoc KeyValue_IsMarkedForRemoval_def removes_def [symmetric] stock_env_def
        simp del: rev_append split: option.split)
qed

lemma adjusted_env:
  assumes "stock_env (ge_underlying g)"
    and "\<And>e. e \<in> set env \<Longrightarrow> variable_name (entry_name e)"
    and "\<And>p. sp_process s = Some p \<Longrightarrow> distinct (map fst (env_pairs (pr_env p))) \<and> [] \<notin> fst ` set (env_pairs (pr_env p))"
  shows "spec_env (AdjustEnv g env s) n =
    (case last_entry env n of
       None \<Rightarrow> spec_env s n
     | Some e \<Rightarrow>
        if spec_env s n \<noteq> None then (if removes e then None else Some (kv_value e))
        else map_option kv_value (last_set env n))"
proof -
  let ?u = "ge_underlying g"
  define modified where "modified = fold (\<lambda>e m. AList.update (fst (IsMarkedForRemoval (kv_key e))) e m) env []"
  have look: "map_of modified k = last_entry env k" for k
    unfolding modified_def by (rule modified_lookup)
  have names: "entry_name e = k" if "map_of modified k = Some e" for k e
    using that by (auto simp: look last_entry_def find_Some_iff)
  define start where "start = (case sp_process s of
             Some p \<Rightarrow> if length modified > 0 then adjust_old_env ?u (pr_env p) modified (ug_ClearProcessEnv ?u s) else (modified, s)
           | None \<Rightarrow> (modified, s))"
  obtain rest s1 where st: "start = (rest, s1)" by fastforce
  have mid: "map_of rest n = (if spec_env s n \<noteq> None then None else last_entry env n) \<and>
      spec_env s1 n = (if spec_env s n = None then None
        else case last_entry env n of None \<Rightarrow> spec_env s n | Some e \<Rightarrow> if removes e then None else Some (kv_value e))"
  proof (cases "sp_process s = None \<or> modified = []")
    case True
    then have "start = (modified, s)" by (auto simp: start_def split: option.split)
    moreover have "last_entry env n = None" if "modified = []" using that look [of n] by simp
    moreover have "spec_env s n = None" if "sp_process s = None" using that by (simp add: spec_env_def)
    ultimately show ?thesis using st True look by (auto split: option.split)
  next
    case False
    then obtain p where p: "sp_process s = Some p" by auto
    have r: "adjust_old_env ?u (pr_env p) modified (ug_ClearProcessEnv ?u s) = (rest, s1)"
      using st False p by (simp add: start_def)
    have clear: "spec_env (ug_ClearProcessEnv ?u s) n = None" using assms(1) by (simp add: stock_env_def)
    have dom: "n \<in> fst ` set (env_pairs (pr_env p)) \<longleftrightarrow> spec_env s n \<noteq> None"
      by (auto simp: spec_env_def p map_of_eq_None_iff)
    have val: "map_of (env_pairs (pr_env p)) n = spec_env s n" by (simp add: spec_env_def p)
    show ?thesis
      using adjust_old_env_spec [OF assms(1) _ _ names r, of n] assms(3) [OF p]
      unfolding dom val by (simp add: look clear split: option.split)
  qed
  have "AdjustEnv g env s = fold (\<lambda>e t. if snd (KeyValue_IsMarkedForRemoval e) then t
      else if map_of rest (kv_key e) \<noteq> None then ug_AddProcessEnv ?u (kv_key e) (kv_value e) t else t) env s1"
    unfolding AdjustEnv_def Let_def modified_def [symmetric] start_def [symmetric] st prod.case ..
  then have fin: "spec_env (AdjustEnv g env s) n =
    (if map_of rest n = None then spec_env s1 n
     else case last_set env n of None \<Rightarrow> spec_env s1 n | Some e \<Rightarrow> Some (kv_value e))"
    using append_env_spec [OF assms(1), of env rest s1 n] assms(2) by (simp only: True_implies_equals)
  have none: "last_set env n = None" if "last_entry env n = None"
    using that entry_name_set by (auto simp: last_entry_def last_set_def find_None_iff)
  show ?thesis unfolding fin using mid none by (auto split: option.splits)
qed

text \<open>
  C19. What becomes of each environment variable, whatever the order and number of the adjustment's entries: without an
  entry it is as before; with one, an existing variable follows the last entry about it, be it a value or a
  removal, and a new one gets the value of the last entry that sets it, even if a later entry removes it.
\<close>

theorem AdjustEnv_spec:
  assumes "stock_env (ge_underlying g)"
    and "\<And>e. e \<in> set env \<Longrightarrow> variable_name (entry_name e)"
    and "\<And>p. sp_process s = Some p \<Longrightarrow> distinct (map fst (env_pairs (pr_env p))) \<and> [] \<notin> fst ` set (env_pairs (pr_env p))"
  shows "spec_env (AdjustEnv g env s) n =
    (case last_entry env n of
       None \<Rightarrow> spec_env s n
     | Some e \<Rightarrow>
        if spec_env s n \<noteq> None then (if removes e then None else Some (kv_value e))
        else map_option kv_value (last_set env n))"
  using assms by (rule adjusted_env)

section \<open>Mounts\<close>

text \<open>
  The mounts of the spec are a list; \<^verbatim>\<open>AddMount\<close> appends, \<^verbatim>\<open>RemoveMount\<close> removes the mount on a directory,
  \<^verbatim>\<open>Mounts\<close> returns the list and \<^verbatim>\<open>SetLinuxRootPropagation\<close> leaves it alone.
\<close>

definition stock_mounts :: "underlying \<Rightarrow> bool" where
  "stock_mounts u \<longleftrightarrow>
     (\<forall>m s. sp_mounts (ug_AddMount u m s) = sp_mounts s @ [m]) \<and>
     (\<forall>d s. distinct (map omt_destination (sp_mounts s)) \<longrightarrow>
       sp_mounts (ug_RemoveMount u d s) = filter (\<lambda>m. omt_destination m \<noteq> d) (sp_mounts s)) \<and>
     (\<forall>s. ug_Mounts u s = sp_mounts s) \<and>
     (\<forall>p s. sp_mounts (snd (ug_SetLinuxRootPropagation u p s)) = sp_mounts s)"

definition sorts_mounts :: "(oci_mount list \<Rightarrow> oci_mount list) \<Rightarrow> bool" where
  "sorts_mounts sorter \<longleftrightarrow>
     (\<forall>ms. mset (sorter ms) = mset ms \<and> sorted_wrt (\<lambda>a b. \<not> mount_less b a) (sorter ms))"

definition distinct_mounts :: "spec \<Rightarrow> bool" where
  "distinct_mounts s \<longleftrightarrow> distinct (map omt_destination (sp_mounts s))"

definition mount_at :: "spec \<Rightarrow> string \<Rightarrow> oci_mount option" where
  "mount_at s = map_of (map (\<lambda>m. (omt_destination m, m)) (sp_mounts s))"

definition mount_name :: "mount \<Rightarrow> string" where
  "mount_name m = fst (Mount_IsMarkedForRemoval m)"

definition unmounts :: "mount \<Rightarrow> bool" where
  "unmounts m = snd (Mount_IsMarkedForRemoval m)"

definition oci_form :: "mount \<Rightarrow> oci_mount" where
  "oci_form m = fst (Mount_ToOCI m None)"

definition last_mount :: "mount list \<Rightarrow> string \<Rightarrow> mount option" where
  "last_mount ms d = find (\<lambda>m. mount_name m = d) (rev ms)"

lemma find_append: "find P (xs @ ys) = (case find P xs of None \<Rightarrow> find P ys | Some x \<Rightarrow> Some x)"
  by (induction xs) auto

lemma last_mount_Cons:
  "last_mount (m # ms) d = (case last_mount ms d of None \<Rightarrow> if mount_name m = d then Some m else None | Some x \<Rightarrow> Some x)"
  by (simp add: last_mount_def find_append split: option.split)

lemma mount_name_plain: "\<not> unmounts m \<Longrightarrow> mount_name m = mnt_destination m"
  using rm.check_plain [of "mnt_destination m"]
  by (cases "IsMarkedForRemoval (mnt_destination m)") (auto simp: mount_name_def unmounts_def Mount_IsMarkedForRemoval_def)

lemma Mount_ToOCI_form: "fst (Mount_ToOCI m q) = oci_form m"
  by (simp add: oci_form_def Mount_ToOCI_eq)

lemma Mount_ToOCI_asked: "snd (Mount_ToOCI m (Some q)) \<noteq> None"
  by (simp add: Mount_ToOCI_eq Let_def)

lemma omt_destination_form [simp]: "omt_destination (oci_form m) = mnt_destination m"
  by (simp add: oci_form_def Mount_ToOCI_eq)

lemma map_of_filter_mounts:
  "map_of (map (\<lambda>m. (omt_destination m, m)) (filter (\<lambda>m. omt_destination m \<noteq> d) ms)) =
    (map_of (map (\<lambda>m. (omt_destination m, m)) ms))(d := None)"
  by (induction ms) auto

lemma filter_mounts_None:
  "map_of (map (\<lambda>m. (omt_destination m, m)) ms) d = None \<longleftrightarrow> d \<notin> omt_destination ` set ms"
  by (simp add: map_of_eq_None_iff image_image)

lemma remove_mount:
  assumes "stock_mounts u" and "distinct_mounts s"
  shows "distinct_mounts (ug_RemoveMount u d s)" and "mount_at (ug_RemoveMount u d s) = (mount_at s)(d := None)"
  using assms by (simp_all add: stock_mounts_def distinct_mounts_def mount_at_def map_of_filter_mounts distinct_map_filter)

lemma add_mount:
  assumes "stock_mounts u" and "distinct_mounts s" and "mount_at s (omt_destination m) = None"
  shows "distinct_mounts (ug_AddMount u m s)" and "mount_at (ug_AddMount u m s) = (mount_at s)(omt_destination m \<mapsto> m)"
proof -
  have new: "sp_mounts (ug_AddMount u m s) = sp_mounts s @ [m]" using assms(1) by (simp add: stock_mounts_def)
  have free: "omt_destination m \<notin> omt_destination ` set (sp_mounts s)"
    using assms(3) unfolding mount_at_def filter_mounts_None .
  show "distinct_mounts (ug_AddMount u m s)" using assms(2) free by (simp add: distinct_mounts_def new)
  show "mount_at (ug_AddMount u m s) = (mount_at s)(omt_destination m \<mapsto> m)"
    using assms(3) by (auto simp: mount_at_def new map_add_def fun_eq_iff split: option.split)
qed

lemma propagation_keeps_mounts:
  assumes "stock_mounts u" and "adjust_propagation ensure u q m s = (r, t)"
  shows "sp_mounts t = sp_mounts s"
proof -
  have call: "sp_mounts t = sp_mounts s" if "call w (ug_SetLinuxRootPropagation u p) s = (r, t)" for w p r s t
    using that assms(1) unfolding call_def stock_mounts_def
    by (auto split: prod.splits option.splits) (metis snd_conv)+
  show ?thesis
    using assms(2) unfolding adjust_propagation_def
    by (auto split: if_splits option.splits prod.splits status.splits dest: call)
qed

lemma mount_loop_Cons:
  "mount_loop ensure u q (m # ms) s =
    (if unmounts m then mount_loop ensure u q ms (ug_RemoveMount u (mount_name m) s)
     else
       (let q' = the (snd (Mount_ToOCI m (Some q))) in
        case adjust_propagation ensure u q' (oci_form m) (ug_RemoveMount u (mnt_destination m) s) of
          (Done, t) \<Rightarrow> mount_loop ensure u q' ms (ug_AddMount u (oci_form m) t)
        | r \<Rightarrow> r))"
proof -
  obtain p where p: "Mount_ToOCI m (Some q) = (oci_form m, Some p)"
    using Mount_ToOCI_form [of m "Some q"] Mount_ToOCI_asked [of m q] by (cases "Mount_ToOCI m (Some q)") auto
  show ?thesis
    by (auto simp: p Let_def split_def unmounts_def mount_name_def split: status.split)
qed

declare mount_loop.simps(2) [simp del]

lemma mount_loop_spec:
  assumes "stock_mounts u" and "distinct_mounts s" and "mount_loop ensure u q ms s = (Done, t)"
  shows "distinct_mounts t \<and> mount_at t d =
    (case last_mount ms d of
       None \<Rightarrow> mount_at s d
     | Some m \<Rightarrow> if unmounts m then None else Some (oci_form m))"
  using assms(2,3)
proof (induction ms arbitrary: q s)
  case Nil
  then show ?case by (simp add: last_mount_def)
next
  case (Cons m ms)
  note rm = remove_mount [OF assms(1) Cons.prems(1)]
  show ?case
  proof (cases "unmounts m")
    case True
    then have "mount_loop ensure u q ms (ug_RemoveMount u (mount_name m) s) = (Done, t)"
      using Cons.prems(2) by (simp add: mount_loop_Cons)
    from Cons.IH [OF rm(1) this] True show ?thesis
      by (auto simp: last_mount_Cons rm(2) split: option.split)
  next
    case False
    let ?s = "ug_RemoveMount u (mnt_destination m) s"
    obtain q' t1 where ap: "adjust_propagation ensure u q' (oci_form m) ?s = (Done, t1)"
      and loop: "mount_loop ensure u q' ms (ug_AddMount u (oci_form m) t1) = (Done, t)"
      using Cons.prems(2) False unfolding mount_loop_Cons Let_def
      by (auto split: prod.splits status.splits)
    have "sp_mounts t1 = sp_mounts ?s" using propagation_keeps_mounts [OF assms(1) ap] .
    then have t1: "distinct_mounts t1" "mount_at t1 = (mount_at s)(mnt_destination m := None)"
      using rm [of "mnt_destination m"] by (simp_all add: distinct_mounts_def mount_at_def)
    note add = add_mount [OF assms(1) t1(1), of "oci_form m"]
    from Cons.IH [OF add(1) loop] False show ?thesis
      by (auto simp: t1(2) add(2) last_mount_Cons mount_name_plain split: option.split)
  qed
qed

lemma sort_mounts:
  assumes "stock_mounts u" and "sorts_mounts sorter" and "distinct_mounts s" and "ge_underlying g = u"
  shows "distinct_mounts (sortMounts sorter g s) \<and> mount_at (sortMounts sorter g s) = mount_at s"
proof -
  let ?kv = "map (\<lambda>m. (omt_destination m, m)) :: oci_mount list \<Rightarrow> _"
  have eq: "sp_mounts (sortMounts sorter g s) = sorter (sp_mounts s)"
    using assms(1,4) by (simp add: sortMounts_def stock_mounts_def)
  have perm: "mset (sorter (sp_mounts s)) = mset (sp_mounts s)" using assms(2) by (simp add: sorts_mounts_def)
  then have "mset (map omt_destination (sorter (sp_mounts s))) = mset (map omt_destination (sp_mounts s))" by simp
  with assms(3) have d: "distinct (map omt_destination (sorter (sp_mounts s)))"
    unfolding distinct_mounts_def by (metis mset_eq_imp_distinct_iff)
  have "set (?kv (sorter (sp_mounts s))) = set (?kv (sp_mounts s))" using mset_eq_setD [OF perm] by simp
  then have "map_of (?kv (sorter (sp_mounts s))) = map_of (?kv (sp_mounts s))"
    using d assms(3) by (subst map_of_inject_set) (simp_all add: distinct_mounts_def comp_def)
  then show ?thesis using d by (simp add: distinct_mounts_def mount_at_def eq)
qed

lemma AdjustMounts_cases:
  assumes "AdjustMounts ensure sorter g ms s = (Done, t)"
  obtains "ms = []" "t = s"
    | s1 where "ms \<noteq> []" "mount_loop ensure (ge_underlying g) [] ms s = (Done, s1)" "t = sortMounts sorter g s1"
  using assms by (cases "ms = []") (auto simp: AdjustMounts_def split: prod.splits status.splits)

text \<open>
  C17. Whatever the order and number of the adjustment's mounts, once they are applied to a spec with at most one mount per
  directory, each directory still has at most one mount: the last entry about it decides (its OCI form, or none after a removal), and a directory
  without an entry keeps what it had.
\<close>

theorem AdjustMounts_spec:
  assumes "stock_mounts (ge_underlying g)" and "sorts_mounts sorter" and "distinct_mounts s"
    and "AdjustMounts ensure sorter g ms s = (Done, t)"
  shows "distinct_mounts t \<and> mount_at t d =
    (case last_mount ms d of
       None \<Rightarrow> mount_at s d
     | Some m \<Rightarrow> if unmounts m then None else Some (oci_form m))"
  using assms(4)
proof (cases rule: AdjustMounts_cases)
  case 1
  then show ?thesis using assms(3) by (simp add: last_mount_def)
next
  case (2 s1)
  have loop: "distinct_mounts s1 \<and> mount_at s1 d =
    (case last_mount ms d of None \<Rightarrow> mount_at s d | Some m \<Rightarrow> if unmounts m then None else Some (oci_form m))"
    using assms(1,3) 2(2) by (rule mount_loop_spec)
  then show ?thesis using sort_mounts [OF assms(1,2) _ refl, of s1] 2(3) by simp
qed

text \<open>A clean path \<open>e\<close> strictly below the clean directory \<open>d\<close>.\<close>

definition below :: "string \<Rightarrow> string \<Rightarrow> bool" where
  "below d e \<longleftrightarrow> Clean d = d \<and> Clean e = e \<and> strict_prefix (if d = ''/'' then ''/'' else d @ ''/'') e"

lemma below_mount_less:
  assumes "below (omt_destination a) (omt_destination b)"
  shows "mount_less a b"
proof -
  let ?d = "omt_destination a"
  let ?p = "if ?d = ''/'' then ''/'' else ?d @ ''/''"
  obtain x where x: "omt_destination b = ?p @ x" "x \<noteq> []"
    using assms by (auto simp: below_def strict_prefix_def prefix_def)
  have parts: "mount_parts a = count_list ?d CHR ''/''" "mount_parts b = count_list (?p @ x) CHR ''/''"
    using assms x(1) by (simp_all add: below_def mount_parts_def)
  show ?thesis
  proof (cases "?d = ''/''")
    case True
    then show ?thesis using x parts by (auto simp: mount_less_def neq_Nil_conv)
  next
    case False
    then have "mount_parts a < mount_parts b" using parts by simp
    then show ?thesis by (simp add: mount_less_def)
  qed
qed

text \<open>
  C18. The mounts are applied in an order that works: once an adjustment with mounts has been applied, no
  mount of the spec comes before a mount on a directory above it, which would hide it.
\<close>

theorem AdjustMounts_order:
  assumes "stock_mounts (ge_underlying g)" and "sorts_mounts sorter"
    and "AdjustMounts ensure sorter g ms s = (Done, t)" and "ms \<noteq> []"
  shows "sorted_wrt (\<lambda>a b. \<not> below (omt_destination b) (omt_destination a)) (sp_mounts t)"
  using assms(3)
proof (cases rule: AdjustMounts_cases)
  case 1
  then show ?thesis using assms(4) by simp
next
  case (2 s1)
  have "sp_mounts t = sorter (sp_mounts s1)" using assms(1) 2(3) by (simp add: sortMounts_def stock_mounts_def)
  then have "sorted_wrt (\<lambda>a b. \<not> mount_less b a) (sp_mounts t)" using assms(2) by (simp add: sorts_mounts_def)
  then show ?thesis by (rule sorted_wrt_mono_rel [rotated]) (use below_mount_less in blast)
qed

text \<open>
  The propagation of one mount leaks into the next: a mount without a propagation option, whose source
  need not be shared and which alone is accepted, is refused when it follows a mount that asks for \<^verbatim>\<open>rshared\<close>.
\<close>

theorem AdjustMounts_propagation_leaks:
  assumes "\<not> unmounts m" and "\<not> unmounts n" and "mnt_options m = [''rshared'']" and "mnt_options n = []"
    and "ensure (mnt_source m) [''rshared''] = Done" and "ensure (mnt_source n) [''rshared''] = Failed e"
    and "\<And>s. fst (ug_SetLinuxRootPropagation (ge_underlying g) ''rshared'' s) = None"
  shows "fst (AdjustMounts ensure sorter g [n] s) = Done \<and>
    fst (AdjustMounts ensure sorter g [m, n] s) = Failed (InMounts e)"
proof -
  have src: "omt_source (oci_form m) = mnt_source m" "omt_source (oci_form n) = mnt_source n"
    by (simp_all add: oci_form_def Mount_ToOCI_eq)
  have "fst (AdjustMounts ensure sorter g [n] s) = Done"
    using assms(2,4) by (simp add: AdjustMounts_def mount_loop_Cons Mount_ToOCI_eq adjust_propagation_def)
  moreover have "fst (AdjustMounts ensure sorter g [m, n] s) = Failed (InMounts e)"
    using assms by (simp add: AdjustMounts_def mount_loop_Cons Mount_ToOCI_eq adjust_propagation_def src call_def
        Let_def split: option.split prod.split) (metis fst_conv option.distinct(1))
  ultimately show ?thesis ..
qed

section \<open>Witnesses\<close>

text \<open>An underlying generator that keeps to its documentation, and a sorter.\<close>

definition sample_add_env :: "string \<Rightarrow> string \<Rightarrow> spec \<Rightarrow> spec" where
  "sample_add_env k v s = upd_process (\<lambda>p. p\<lparr>pr_env :=
     filter (\<lambda>e. case env_pair e of None \<Rightarrow> True | Some (j, _) \<Rightarrow> j \<noteq> k) (pr_env p) @ [k @ ''='' @ v]\<rparr>)
     (initConfigProcess s)"

definition sample_remove_mount :: "string \<Rightarrow> spec \<Rightarrow> spec" where
  "sample_remove_mount d s = s\<lparr>sp_mounts := filter (\<lambda>m. omt_destination m \<noteq> d) (sp_mounts s)\<rparr>"

definition sample_underlying :: underlying where
  "sample_underlying = \<lparr>
     ug_AddAnnotation = (\<lambda>k v s. s\<lparr>sp_annotations := map_option (AList.update k v) (alloc [] (sp_annotations s))\<rparr>),
     ug_AddDevice = (\<lambda>d. upd_linux (\<lambda>l. l\<lparr>li_devices := li_devices l @ [d]\<rparr>) \<circ> initConfigLinux),
     ug_AddOrReplaceLinuxNamespace = (\<lambda>ns path s. (None, s)),
     ug_AddPostStartHook = (\<lambda>h. upd_hooks (\<lambda>hs. hs\<lparr>ohs_poststart := ohs_poststart hs @ [h]\<rparr>) \<circ> initConfigHooks),
     ug_AddPostStopHook = (\<lambda>h. upd_hooks (\<lambda>hs. hs\<lparr>ohs_poststop := ohs_poststop hs @ [h]\<rparr>) \<circ> initConfigHooks),
     ug_AddPreStartHook = (\<lambda>h. upd_hooks (\<lambda>hs. hs\<lparr>ohs_prestart := ohs_prestart hs @ [h]\<rparr>) \<circ> initConfigHooks),
     ug_AddProcessEnv = sample_add_env,
     ug_AddLinuxResourcesDevice = (\<lambda>allow t major minor access s. s),
     ug_AddLinuxResourcesHugepageLimit = (\<lambda>size limit s. s),
     ug_AddLinuxResourcesUnified = (\<lambda>k v s. s),
     ug_AddMount = (\<lambda>m s. s\<lparr>sp_mounts := sp_mounts s @ [m]\<rparr>),
     ug_AddLinuxSysctl = (\<lambda>k v. upd_linux (\<lambda>l. l\<lparr>li_sysctl := map_option (AList.update k v) (alloc [] (li_sysctl l))\<rparr>) \<circ> initConfigLinux),
     ug_ClearMounts = (\<lambda>s. s\<lparr>sp_mounts := []\<rparr>),
     ug_ClearProcessEnv = upd_process (\<lambda>p. p\<lparr>pr_env := []\<rparr>),
     ug_Mounts = sp_mounts,
     ug_RemoveAnnotation = (\<lambda>k s. s\<lparr>sp_annotations := map_option (AList.delete k) (sp_annotations s)\<rparr>),
     ug_RemoveDevice = (\<lambda>path s. s),
     ug_RemoveLinuxNamespace = (\<lambda>ns s. (None, s)),
     ug_RemoveMount = sample_remove_mount,
     ug_RemoveLinuxSysctl = (\<lambda>k. upd_linux (\<lambda>l. l\<lparr>li_sysctl := map_option (AList.delete k) (li_sysctl l)\<rparr>)),
     ug_SetProcessArgs = (\<lambda>as. upd_process (\<lambda>p. p\<lparr>pr_args := as\<rparr>) \<circ> initConfigProcess),
     ug_SetLinuxCgroupsPath = (\<lambda>path. upd_linux (\<lambda>l. l\<lparr>li_cgroups_path := path\<rparr>) \<circ> initConfigLinux),
     ug_SetLinuxResourcesCPUCpus = (\<lambda>v s. s), ug_SetLinuxResourcesCPUMems = (\<lambda>v s. s),
     ug_SetLinuxResourcesCPUPeriod = (\<lambda>v s. s), ug_SetLinuxResourcesCPUQuota = (\<lambda>v s. s),
     ug_SetLinuxResourcesCPURealtimePeriod = (\<lambda>v s. s), ug_SetLinuxResourcesCPURealtimeRuntime = (\<lambda>v s. s),
     ug_SetLinuxResourcesCPUShares = (\<lambda>v s. s), ug_SetLinuxResourcesMemoryLimit = (\<lambda>v s. s),
     ug_SetLinuxResourcesMemorySwap = (\<lambda>v s. s),
     ug_SetLinuxRootPropagation = (\<lambda>p s. (None, upd_linux (\<lambda>l. l\<lparr>li_rootfs_propagation := p\<rparr>) (initConfigLinux s))),
     ug_SetProcessOOMScoreAdj = (\<lambda>v. upd_process (\<lambda>p. p\<lparr>pr_oom_score_adj := Some v\<rparr>) \<circ> initConfigProcess)\<rparr>"

definition sample_sorter :: "oci_mount list \<Rightarrow> oci_mount list" where
  "sample_sorter = sort_key (\<lambda>m. mount_parts m # map of_char (omt_destination m))"

lemma env_pair_new: "variable_name k \<Longrightarrow> env_pair (k @ CHR ''='' # v) = Some (k, v)"
  by (simp add: variable_name_def env_pair_def)

lemma spec_env_filter:
  assumes "variable_name k"
  shows "map_of (env_pairs (filter (\<lambda>e. case env_pair e of None \<Rightarrow> True | Some (j, _) \<Rightarrow> j \<noteq> k) es @ [k @ ''='' @ v])) =
    (map_of (env_pairs es))(k \<mapsto> v)"
  by (induction es)
    (auto simp: env_pair_new [OF assms] env_pairs_Cons env_pairs_def [of "[]"] fun_upd_twist split: option.split)

lemma sample_env: "stock_env sample_underlying"
proof -
  have "spec_env (sample_add_env k v s) = (spec_env s)(k \<mapsto> v)" if "variable_name k" for k v s
    using that spec_env_filter [OF that] by (cases "sp_process s")
      (simp_all add: sample_add_env_def spec_env_def upd_process_def initConfigProcess_def alloc_def spec_env_filter
        zero_process_def env_pair_new env_pairs_Cons env_pairs_def [of "[]"])
  moreover have "spec_env (upd_process (\<lambda>p. p\<lparr>pr_env := []\<rparr>) s) = Map.empty" for s
    by (simp add: spec_env_def upd_process_def env_pairs_def split: option.split)
  ultimately show ?thesis by (simp add: stock_env_def sample_underlying_def)
qed

lemma sample_mounts: "stock_mounts sample_underlying"
  by (simp add: stock_mounts_def sample_underlying_def sample_remove_mount_def upd_linux_def initConfigLinux_def)

lemma sample_sorts: "sorts_mounts sample_sorter"
proof -
  let ?key = "\<lambda>m. mount_parts m # map of_char (omt_destination m)"
  have "(map of_char xs < (map of_char ys :: nat list)) = (xs < (ys :: string))" for xs ys
    by (induction xs arbitrary: ys; case_tac ys) (auto simp: less_char_def)
  then have less: "mount_less a b \<longleftrightarrow> ?key a < ?key b" for a b by (auto simp: mount_less_def Let_def)
  have "sorted_wrt (\<lambda>a b. \<not> mount_less b a) (sample_sorter ms)" for ms
    using sorted_sort_key [of ?key ms] unfolding sample_sorter_def sorted_map
    by (rule sorted_wrt_mono_rel [rotated]) (auto simp: less not_less)
  then show ?thesis by (simp add: sorts_mounts_def sample_sorter_def)
qed

definition sample_generator :: generator where
  "sample_generator = SpecGenerator sample_underlying []"

definition sample_spec :: spec where
  "sample_spec = zero_spec\<lparr>
     sp_process := Some (zero_process\<lparr>pr_env := [''A=1'', ''B=2'', ''D=5'']\<rparr>),
     sp_mounts := [\<lparr>omt_destination = ''/a/b'', omt_type = ''bind'', omt_source = ''/x'', omt_options = []\<rparr>]\<rparr>"

definition sample_mount :: "string \<Rightarrow> string \<Rightarrow> string list \<Rightarrow> mount" where
  "sample_mount d src opts = \<lparr>mnt_destination = d, mnt_type = ''bind'', mnt_source = src, mnt_options = opts\<rparr>"

definition sample_variables :: "key_value list" where
  "sample_variables = [\<lparr>kv_key = ''-A'', kv_value = []\<rparr>, \<lparr>kv_key = ''B'', kv_value = ''3''\<rparr>,
     \<lparr>kv_key = ''C'', kv_value = ''4''\<rparr>, \<lparr>kv_key = ''-C'', kv_value = []\<rparr>]"

definition sample_mounts_adjustment :: "mount list" where
  "sample_mounts_adjustment = [sample_mount ''/a'' ''/y'' [''ro''], sample_mount ''-/a/b'' [] []]"

lemma sample_generator_underlying: "ge_underlying sample_generator = sample_underlying"
  by (simp add: sample_generator_def SpecGenerator_def)

lemma sample_generator_stock: "stock_env (ge_underlying sample_generator)" "stock_mounts (ge_underlying sample_generator)"
  unfolding sample_generator_underlying by (rule sample_env sample_mounts)+

lemmas marked_defs = mount_name_def unmounts_def sample_mount_def Mount_IsMarkedForRemoval_def IsMarkedForRemoval_def

theorem AdjustEnv_spec_witness:
  "map (spec_env (AdjustEnv sample_generator sample_variables sample_spec)) [''A'', ''B'', ''C'', ''D''] =
    [None, Some ''3'', Some ''4'', Some ''5'']"
proof -
  have names: "variable_name (entry_name e)" if "e \<in> set sample_variables" for e
    using that by (auto simp: variable_name_def entry_name_def IsMarkedForRemoval_def sample_variables_def)
  have dist: "distinct (map fst (env_pairs (pr_env p))) \<and> [] \<notin> fst ` set (env_pairs (pr_env p))"
    if "sp_process sample_spec = Some p" for p
    using that by (auto simp: sample_spec_def zero_spec_def env_pairs_def List.map_filter_def env_pair_def splitN2_def)
  have spec: "spec_env (AdjustEnv sample_generator sample_variables sample_spec) n =
    (case last_entry sample_variables n of
       None \<Rightarrow> spec_env sample_spec n
     | Some e \<Rightarrow>
        if spec_env sample_spec n \<noteq> None then (if removes e then None else Some (kv_value e))
        else map_option kv_value (last_set sample_variables n))" for n
    using AdjustEnv_spec [OF sample_generator_stock(1) names dist] .
  show ?thesis
    unfolding list.map spec
    by (simp add: last_entry_def last_set_def entry_name_def removes_def IsMarkedForRemoval_def sample_variables_def
        spec_env_def sample_spec_def zero_spec_def env_pairs_def List.map_filter_def env_pair_def splitN2_def)
qed

lemma sample_adjust_mounts:
  "AdjustMounts (\<lambda>_ _. Done) sample_sorter sample_generator sample_mounts_adjustment sample_spec =
    (Done, snd (AdjustMounts (\<lambda>_ _. Done) sample_sorter sample_generator sample_mounts_adjustment sample_spec))"
  by (simp add: AdjustMounts_def mount_loop_Cons Mount_ToOCI_eq adjust_propagation_def marked_defs sample_mounts_adjustment_def)

theorem AdjustMounts_spec_witness:
  "let t = snd (AdjustMounts (\<lambda>_ _. Done) sample_sorter sample_generator sample_mounts_adjustment sample_spec)
   in mount_at t ''/a/b'' = None \<and> mount_at t ''/a'' = Some (oci_form (sample_mount ''/a'' ''/y'' [''ro'']))"
proof -
  have distinct: "distinct_mounts sample_spec" by (simp add: distinct_mounts_def sample_spec_def)
  note spec = AdjustMounts_spec [OF sample_generator_stock(2) sample_sorts distinct sample_adjust_mounts]
  show ?thesis
    unfolding Let_def using spec [of "''/a/b''"] spec [of "''/a''"]
    by (simp add: last_mount_def sample_mounts_adjustment_def marked_defs)
qed

theorem AdjustMounts_order_witness:
  "sorted_wrt (\<lambda>a b. \<not> below (omt_destination b) (omt_destination a))
     (sp_mounts (snd (AdjustMounts (\<lambda>_ _. Done) sample_sorter sample_generator sample_mounts_adjustment sample_spec))) \<and>
   below ''/a'' ''/a/b''"
proof -
  have "below ''/a'' ''/a/b''" by (simp add: below_def Clean_def clean_step_def strict_prefix_def)
  then show ?thesis
    using AdjustMounts_order [OF sample_generator_stock(2) sample_sorts sample_adjust_mounts]
    by (simp add: sample_mounts_adjustment_def)
qed

definition sample_parents :: "string \<Rightarrow> string + mount_info list" where
  "sample_parents d = Inr (\<lparr>mi_mountpoint = ''/'', mi_optional = []\<rparr> #
     (if d = ''/shared'' then [\<lparr>mi_mountpoint = d, mi_optional = ''shared:1 master:2''\<rparr>] else []))"

theorem AdjustMounts_propagation_leaks_witness:
  "let m = sample_mount ''/a'' ''/shared'' [''rshared'']; n = sample_mount ''/b'' ''/private'' [];
       ensure = ensurePropagation sample_parents
   in fst (AdjustMounts ensure sample_sorter sample_generator [n] sample_spec) = Done \<and>
      fst (AdjustMounts ensure sample_sorter sample_generator [m, n] sample_spec) =
        Failed (InMounts (PropagationIs ''/private'' [] [''rshared'']))"
  unfolding Let_def
  by (rule AdjustMounts_propagation_leaks)
    (simp_all add: marked_defs sample_generator_underlying sample_underlying_def ensurePropagation_def getPropagation_def
      Clean_def clean_step_def sample_parents_def longest_mount_def)

end
