(* ===== verification/Stub.thy ===== *)
theory Stub
  imports Builtin
begin

text \<open>
  The library a plugin links against (\<^verbatim>\<open>src/pkg/stub/stub.go\<close>). The plugin is the record of the methods it has, one
  optional method per interface of the package, each a function on the plugin's own state \<open>'p\<close>; an error is its
  text. Connections are of a type \<open>'c\<close>; dialling, opening file descriptors, listening and registering are functions and values
  of the environment (\<open>start_env\<close>). \<^verbatim>\<open>Start\<close> holds the stub's lock until the runtime has configured the
  plugin, so that request is part of it. The goroutine that serves, waiting for it to end, and logging are left out.
\<close>

section \<open>Plugins and handlers\<close>

type_synonym 'p pod_notice = "pod_sandbox option \<Rightarrow> 'p \<Rightarrow> string option \<times> 'p"
type_synonym 'p container_notice = "pod_sandbox option \<Rightarrow> container option \<Rightarrow> 'p \<Rightarrow> string option \<times> 'p"
type_synonym updates = "container_update option list"

record 'p handlers =
  sh_Configure :: "(string \<Rightarrow> string \<Rightarrow> string \<Rightarrow> 'p \<Rightarrow> (event_mask \<times> string option) \<times> 'p) option"
  sh_Synchronize :: "(pod_sandbox list \<Rightarrow> container list \<Rightarrow> 'p \<Rightarrow> (updates \<times> string option) \<times> 'p) option"
  sh_Shutdown :: "('p \<Rightarrow> 'p) option"
  sh_RunPodSandbox :: "'p pod_notice option"
  sh_UpdatePodSandbox ::
    "(pod_sandbox option \<Rightarrow> linux_resources option \<Rightarrow> linux_resources option \<Rightarrow> 'p \<Rightarrow> string option \<times> 'p) option"
  sh_StopPodSandbox :: "'p pod_notice option"
  sh_RemovePodSandbox :: "'p pod_notice option"
  sh_PostUpdatePodSandbox :: "'p pod_notice option"
  sh_CreateContainer :: "(pod_sandbox option \<Rightarrow> container option \<Rightarrow> 'p \<Rightarrow>
    (container_adjustment option \<times> updates \<times> string option) \<times> 'p) option"
  sh_StartContainer :: "'p container_notice option"
  sh_UpdateContainer :: "(pod_sandbox option \<Rightarrow> container option \<Rightarrow> linux_resources option \<Rightarrow> 'p \<Rightarrow>
    (updates \<times> string option) \<times> 'p) option"
  sh_StopContainer :: "(pod_sandbox option \<Rightarrow> container option \<Rightarrow> 'p \<Rightarrow> (updates \<times> string option) \<times> 'p) option"
  sh_RemoveContainer :: "'p container_notice option"
  sh_PostCreateContainer :: "'p container_notice option"
  sh_PostStartContainer :: "'p container_notice option"
  sh_PostUpdateContainer :: "'p container_notice option"
  sh_ValidateContainerAdjustment :: "(validate_request \<Rightarrow> 'p \<Rightarrow> string option \<times> 'p) option"

definition nil_handlers :: "'p handlers" where
  "nil_handlers = \<lparr>sh_Configure = None, sh_Synchronize = None, sh_Shutdown = None, sh_RunPodSandbox = None,
     sh_UpdatePodSandbox = None, sh_StopPodSandbox = None, sh_RemovePodSandbox = None,
     sh_PostUpdatePodSandbox = None, sh_CreateContainer = None, sh_StartContainer = None,
     sh_UpdateContainer = None, sh_StopContainer = None, sh_RemoveContainer = None,
     sh_PostCreateContainer = None, sh_PostStartContainer = None, sh_PostUpdateContainer = None,
     sh_ValidateContainerAdjustment = None\<rparr>"

record ('p, 'c) stub =
  st_plugin :: "'p handlers"
  st_handlers :: "'p handlers"
  st_events :: event_mask
  st_name :: string
  st_idx :: string
  st_socketPath :: string
  st_dialer :: "string \<Rightarrow> string + 'c"
  st_conn :: "'c option"
  st_onClose :: "('p \<Rightarrow> 'p) option"
  st_rpcm :: "'c option"
  st_rpcl :: "'c option"
  st_rpcs :: "'c option"
  st_rpcc :: "'c option"
  st_runtime :: bool
  st_started :: bool
  st_syncReq :: "sync_request option"
  st_registrationTimeout :: int64
  st_requestTimeout :: int64

datatype stub_error =
    NameAlreadySet string
  | IndexAlreadySet string
  | NoRequestHandlers
  | BadPluginName name_error
  | AlreadyStarted
  | InvalidSocketEnv string
  | InvalidSocket int string
  | ConnectFailed string
  | ListenFailed string
  | ServerFailed string
  | OpenFailed string
  | RegisterFailed string
  | PluginConfigureFailed string
  | UnhandledEvents event_mask
  | ErrNoService
  | UpdateFailed string

type_synonym ('p, 'c) stub_action = "(stub_error, ('p, 'c) stub) action"

section \<open>Creating a stub\<close>

definition WithOnClose :: "('p \<Rightarrow> 'p) \<Rightarrow> ('p, 'c) stub_action" where
  "WithOnClose onClose = assign (\<lambda>s. s\<lparr>st_onClose := Some onClose\<rparr>)"

definition WithPluginName :: "string \<Rightarrow> ('p, 'c) stub_action" where
  "WithPluginName name s =
     (if st_name s \<noteq> [] then (Failed (NameAlreadySet (st_name s)), s) else (Done, s\<lparr>st_name := name\<rparr>))"

definition WithPluginIdx :: "string \<Rightarrow> ('p, 'c) stub_action" where
  "WithPluginIdx idx s =
     (if st_idx s \<noteq> [] then (Failed (IndexAlreadySet (st_idx s)), s) else (Done, s\<lparr>st_idx := idx\<rparr>))"

definition WithSocketPath :: "string \<Rightarrow> ('p, 'c) stub_action" where
  "WithSocketPath path = assign (\<lambda>s. s\<lparr>st_socketPath := path\<rparr>)"

definition WithConnection :: "'c \<Rightarrow> ('p, 'c) stub_action" where
  "WithConnection conn = assign (\<lambda>s. s\<lparr>st_conn := Some conn\<rparr>)"

definition WithDialer :: "(string \<Rightarrow> string + 'c) \<Rightarrow> ('p, 'c) stub_action" where
  "WithDialer d = assign (\<lambda>s. s\<lparr>st_dialer := d\<rparr>)"

text \<open>One type switch of \<^verbatim>\<open>setupHandlers\<close>: the method is taken over and its event set.\<close>

definition take_method ::
    "('p handlers \<Rightarrow> 'h option) \<Rightarrow> (('h option \<Rightarrow> 'h option) \<Rightarrow> 'p handlers \<Rightarrow> 'p handlers) \<Rightarrow>
     event list \<Rightarrow> ('p, 'c) stub_action" where
  "take_method get upd events s =
     (case get (st_plugin s) of
        None \<Rightarrow> (Done, s)
      | Some h \<Rightarrow>
         (case EventMask_Set events (st_events s) of
            (r, m) \<Rightarrow> (r, s\<lparr>st_handlers := upd (\<lambda>_. Some h) (st_handlers s), st_events := m\<rparr>)))"

definition method_steps :: "('p, 'c) stub_action list" where
  "method_steps =
     [take_method sh_Configure sh_Configure_update [],
      take_method sh_Synchronize sh_Synchronize_update [],
      take_method sh_Shutdown sh_Shutdown_update [],
      take_method sh_RunPodSandbox sh_RunPodSandbox_update [1],
      take_method sh_UpdatePodSandbox sh_UpdatePodSandbox_update [12],
      take_method sh_StopPodSandbox sh_StopPodSandbox_update [2],
      take_method sh_RemovePodSandbox sh_RemovePodSandbox_update [3],
      take_method sh_PostUpdatePodSandbox sh_PostUpdatePodSandbox_update [13],
      take_method sh_CreateContainer sh_CreateContainer_update [4],
      take_method sh_StartContainer sh_StartContainer_update [6],
      take_method sh_UpdateContainer sh_UpdateContainer_update [8],
      take_method sh_StopContainer sh_StopContainer_update [10],
      take_method sh_RemoveContainer sh_RemoveContainer_update [11],
      take_method sh_PostCreateContainer sh_PostCreateContainer_update [5],
      take_method sh_PostStartContainer sh_PostStartContainer_update [7],
      take_method sh_PostUpdateContainer sh_PostUpdateContainer_update [9],
      take_method sh_ValidateContainerAdjustment sh_ValidateContainerAdjustment_update [14]]"

definition setupHandlers :: "('p, 'c) stub_action" where
  "setupHandlers = run (method_steps @
     [\<lambda>s. if st_events s = 0 then (Failed NoRequestHandlers, s) else (Done, s)])"

text \<open>\<open>base\<close> is the name of the plugin's binary, without its directory.\<close>

definition ensureIdentity :: "string \<Rightarrow> ('p, 'c) stub_action" where
  "ensureIdentity base s =
     (if st_idx s \<noteq> [] \<and> st_name s \<noteq> [] then (Done, s)
      else if st_idx s \<noteq> [] then (Done, s\<lparr>st_name := base\<rparr>)
      else (case ParsePluginName base of
              Inl e \<Rightarrow> (Failed (BadPluginName e), s)
            | Inr (idx, name) \<Rightarrow> (Done, s\<lparr>st_name := name, st_idx := idx\<rparr>)))"

text \<open>
  \<open>name\<close> and \<open>idx\<close> are the environment variables with which a runtime launches its plugins, empty otherwise.
\<close>

definition fresh_stub :: "'p handlers \<Rightarrow> string \<Rightarrow> string \<Rightarrow> (string \<Rightarrow> string + 'c) \<Rightarrow> ('p, 'c) stub" where
  "fresh_stub p name idx dial =
     \<lparr>st_plugin = p, st_handlers = nil_handlers, st_events = 0, st_name = name, st_idx = idx,
      st_socketPath = ''/var/run/nri/nri.sock'', st_dialer = dial, st_conn = None, st_onClose = None,
      st_rpcm = None, st_rpcl = None, st_rpcs = None, st_rpcc = None, st_runtime = False, st_started = False,
      st_syncReq = None, st_registrationTimeout = 5000000000, st_requestTimeout = 2000000000\<rparr>"

definition New ::
    "'p handlers \<Rightarrow> string \<Rightarrow> string \<Rightarrow> string \<Rightarrow> (string \<Rightarrow> string + 'c) \<Rightarrow> ('p, 'c) stub_action list \<Rightarrow>
     stub_error status \<times> ('p, 'c) stub" where
  "New p name idx base dial opts = run (opts @ [setupHandlers, ensureIdentity base]) (fresh_stub p name idx dial)"

section \<open>Configuration and requests\<close>

text \<open>Milliseconds to nanoseconds, in 64 bits.\<close>

definition milliseconds :: "int64 \<Rightarrow> int64" where
  "milliseconds ms = ms * 1000000"

definition Stub_Configure ::
    "configure_request \<Rightarrow> ('p, 'c) stub \<Rightarrow> 'p \<Rightarrow> (stub_error + event_mask) \<times> ('p, 'c) stub \<times> 'p" where
  "Stub_Configure req s0 p =
     (let s = s0\<lparr>st_registrationTimeout := milliseconds (cq_registration_timeout req),
                 st_requestTimeout := milliseconds (cq_request_timeout req)\<rparr> in
      case sh_Configure (st_handlers s) of
        None \<Rightarrow> (Inr (st_events s), s, p)
      | Some handler \<Rightarrow>
         (case handler (cq_config req) (cq_runtime_name req) (cq_runtime_version req) p of
            ((_, Some err), p') \<Rightarrow> (Inl (PluginConfigureFailed err), s, p')
          | ((events0, None), p') \<Rightarrow>
              (let events = if events0 = 0 then st_events s else events0;
                   extra = and events (not (st_events s))
               in if extra \<noteq> 0 then (Inl (UnhandledEvents extra), s, p') else (Inr events, s, p'))))"

text \<open>A response is returned beside its error, which the transport then sends instead.\<close>

definition collectSync :: "sync_request \<Rightarrow> ('p, 'c) stub \<Rightarrow> sync_response \<times> ('p, 'c) stub" where
  "collectSync req s =
     (\<lparr>syr_update = [], syr_more = sy_more req\<rparr>,
      s\<lparr>st_syncReq := Some (case st_syncReq s of
          None \<Rightarrow> req
        | Some r \<Rightarrow> r\<lparr>sy_pods := sy_pods r @ sy_pods req, sy_containers := sy_containers r @ sy_containers req\<rparr>)\<rparr>)"

definition deliverSync ::
    "(pod_sandbox list \<Rightarrow> container list \<Rightarrow> 'p \<Rightarrow> (updates \<times> string option) \<times> 'p) \<Rightarrow>
     sync_request \<Rightarrow> ('p, 'c) stub \<Rightarrow> 'p \<Rightarrow> (sync_response \<times> string option) \<times> ('p, 'c) stub \<times> 'p" where
  "deliverSync handler req s p =
     (let syncReq = (case st_syncReq s of
            None \<Rightarrow> req
          | Some r \<Rightarrow> r\<lparr>sy_pods := sy_pods r @ sy_pods req, sy_containers := sy_containers r @ sy_containers req\<rparr>)
      in case handler (sy_pods syncReq) (sy_containers syncReq) p of
           ((update, err), p') \<Rightarrow> ((\<lparr>syr_update = update, syr_more = False\<rparr>, err), s\<lparr>st_syncReq := None\<rparr>, p'))"

definition Stub_Synchronize ::
    "sync_request \<Rightarrow> ('p, 'c) stub \<Rightarrow> 'p \<Rightarrow> (sync_response \<times> string option) \<times> ('p, 'c) stub \<times> 'p" where
  "Stub_Synchronize req s p =
     (case sh_Synchronize (st_handlers s) of
        None \<Rightarrow> ((\<lparr>syr_update = [], syr_more = sy_more req\<rparr>, None), s, p)
      | Some handler \<Rightarrow>
         if sy_more req then (let (rpl, s') = collectSync req s in ((rpl, None), s', p))
         else deliverSync handler req s p)"

definition Stub_Shutdown :: "('p, 'c) stub \<Rightarrow> 'p \<Rightarrow> 'p" where
  "Stub_Shutdown s p = (case sh_Shutdown (st_handlers s) of None \<Rightarrow> p | Some handler \<Rightarrow> handler p)"

definition Stub_CreateContainer ::
    "create_request \<Rightarrow> ('p, 'c) stub \<Rightarrow> 'p \<Rightarrow> (create_response \<times> string option) \<times> 'p" where
  "Stub_CreateContainer req s p =
     (case sh_CreateContainer (st_handlers s) of
        None \<Rightarrow> ((\<lparr>crs_adjust = None, crs_update = [], crs_evict = []\<rparr>, None), p)
      | Some handler \<Rightarrow>
         (case handler (cr_pod req) (cr_container req) p of
            ((adj, update, err), p') \<Rightarrow> ((\<lparr>crs_adjust = adj, crs_update = update, crs_evict = []\<rparr>, err), p')))"

definition Stub_UpdateContainer ::
    "update_request \<Rightarrow> ('p, 'c) stub \<Rightarrow> 'p \<Rightarrow> (update_response \<times> string option) \<times> 'p" where
  "Stub_UpdateContainer req s p =
     (case sh_UpdateContainer (st_handlers s) of
        None \<Rightarrow> ((\<lparr>urs_update = [], urs_evict = []\<rparr>, None), p)
      | Some handler \<Rightarrow>
         (case handler (ur_pod req) (ur_container req) (ur_linux_resources req) p of
            ((update, err), p') \<Rightarrow> ((\<lparr>urs_update = update, urs_evict = []\<rparr>, err), p')))"

definition Stub_StopContainer ::
    "stop_request \<Rightarrow> ('p, 'c) stub \<Rightarrow> 'p \<Rightarrow> (stop_response \<times> string option) \<times> 'p" where
  "Stub_StopContainer req s p =
     (case sh_StopContainer (st_handlers s) of
        None \<Rightarrow> ((\<lparr>srs_update = []\<rparr>, None), p)
      | Some handler \<Rightarrow>
         (case handler (sr_pod req) (sr_container req) p of
            ((update, err), p') \<Rightarrow> ((\<lparr>srs_update = update\<rparr>, err), p')))"

definition Stub_UpdatePodSandbox :: "pod_update_request \<Rightarrow> ('p, 'c) stub \<Rightarrow> 'p \<Rightarrow> string option \<times> 'p" where
  "Stub_UpdatePodSandbox req s p =
     (case sh_UpdatePodSandbox (st_handlers s) of
        None \<Rightarrow> (None, p)
      | Some handler \<Rightarrow> handler (upr_pod req) (upr_overhead req) (upr_resources req) p)"

definition pod_event :: "'p pod_notice option \<Rightarrow> state_change_event \<Rightarrow> 'p \<Rightarrow> string option \<times> 'p" where
  "pod_event handler evt p = (case handler of None \<Rightarrow> (None, p) | Some h \<Rightarrow> h (sce_pod evt) p)"

definition container_event :: "'p container_notice option \<Rightarrow> state_change_event \<Rightarrow> 'p \<Rightarrow> string option \<times> 'p" where
  "container_event handler evt p = (case handler of None \<Rightarrow> (None, p) | Some h \<Rightarrow> h (sce_pod evt) (sce_container evt) p)"

definition Stub_StateChange :: "state_change_event \<Rightarrow> ('p, 'c) stub \<Rightarrow> 'p \<Rightarrow> string option \<times> 'p" where
  "Stub_StateChange evt s p =
     (let h = st_handlers s; e = sce_event evt in
      if e = 1 then pod_event (sh_RunPodSandbox h) evt p
      else if e = 13 then pod_event (sh_PostUpdatePodSandbox h) evt p
      else if e = 2 then pod_event (sh_StopPodSandbox h) evt p
      else if e = 3 then pod_event (sh_RemovePodSandbox h) evt p
      else if e = 5 then container_event (sh_PostCreateContainer h) evt p
      else if e = 6 then container_event (sh_StartContainer h) evt p
      else if e = 7 then container_event (sh_PostStartContainer h) evt p
      else if e = 9 then container_event (sh_PostUpdateContainer h) evt p
      else if e = 11 then container_event (sh_RemoveContainer h) evt p
      else (None, p))"

text \<open>An error of the handler is a rejection, not an error of the call.\<close>

definition Stub_ValidateContainerAdjustment ::
    "validate_request \<Rightarrow> ('p, 'c) stub \<Rightarrow> 'p \<Rightarrow> validate_response \<times> 'p" where
  "Stub_ValidateContainerAdjustment req s p =
     (case sh_ValidateContainerAdjustment (st_handlers s) of
        None \<Rightarrow> (\<lparr>vrs_reject = False, vrs_reason = []\<rparr>, p)
      | Some handler \<Rightarrow>
         (case handler req p of
            (Some err, p') \<Rightarrow> (\<lparr>vrs_reject = True, vrs_reason = err\<rparr>, p')
          | (None, p') \<Rightarrow> (\<lparr>vrs_reject = False, vrs_reason = []\<rparr>, p')))"

text \<open>Unsolicited updates; \<open>send\<close> is the runtime's answer: a reply with the failed updates, if any, and an error.\<close>

definition Stub_UpdateContainers ::
    "(updates \<Rightarrow> updates option \<times> string option) \<Rightarrow> updates \<Rightarrow> ('p, 'c) stub \<Rightarrow> updates \<times> stub_error option" where
  "Stub_UpdateContainers send update s =
     (if \<not> st_runtime s then ([], Some ErrNoService)
      else (case send update of
              (Some failed, err) \<Rightarrow> (failed, map_option UpdateFailed err)
            | (None, err) \<Rightarrow> ([], map_option UpdateFailed err)))"

section \<open>Starting and stopping\<close>

text \<open>\<^verbatim>\<open>strconv.Atoi\<close>: an optional sign and decimal digits that denote a 64-bit number.\<close>

definition decimal :: "string \<Rightarrow> nat option" where
  "decimal s =
     (if s \<noteq> [] \<and> list_all is_digit s then Some (foldl (\<lambda>n c. 10 * n + (of_char c - 48)) 0 s) else None)"

definition Atoi :: "string \<Rightarrow> int option" where
  "Atoi s =
     (let (neg, digits) = (case s of
            c # rest \<Rightarrow> if c = CHR ''-'' then (True, rest) else if c = CHR ''+'' then (False, rest) else (False, s)
          | [] \<Rightarrow> (False, []))
      in case decimal digits of
           None \<Rightarrow> None
         | Some n \<Rightarrow> (let i = if neg then - int n else int n in if - (2 ^ 63) \<le> i \<and> i < 2 ^ 63 then Some i else None))"

record 'c start_env =
  se_socket_env :: string
  se_fd_conn :: "int \<Rightarrow> string + 'c"
  se_listen :: "string option"
  se_server :: "string option"
  se_open :: "string option"
  se_register :: "string option"
  se_configure :: configure_request

definition connect :: "'c start_env \<Rightarrow> ('p, 'c) stub_action" where
  "connect env s =
     (if st_conn s \<noteq> None then (Done, s)
      else if se_socket_env env \<noteq> [] then
        (case Atoi (se_socket_env env) of
           None \<Rightarrow> (Failed (InvalidSocketEnv (se_socket_env env)), s)
         | Some fd \<Rightarrow>
            (case se_fd_conn env fd of
               Inl err \<Rightarrow> (Failed (InvalidSocket fd err), s)
             | Inr c \<Rightarrow> (Done, s\<lparr>st_conn := Some c\<rparr>)))
      else
        (case st_dialer s (st_socketPath s) of
           Inl err \<Rightarrow> (Failed (ConnectFailed err), s)
         | Inr c \<Rightarrow> (Done, s\<lparr>st_conn := Some c\<rparr>)))"

definition stub_close :: "('p, 'c) stub \<Rightarrow> 'c list \<times> ('p, 'c) stub" where
  "stub_close s =
     (if \<not> st_started s then ([], s)
      else ((case st_rpcm s of None \<Rightarrow> [] | Some c \<Rightarrow> [c]),
            s\<lparr>st_started := False, st_conn := None, st_syncReq := None\<rparr>))"

text \<open>
  The outcome of \<^verbatim>\<open>Start\<close> is an error or none, and the connections it closed on the way out, with their multiplexer.
\<close>

definition Start ::
    "'c start_env \<Rightarrow> ('p, 'c) stub \<Rightarrow> 'p \<Rightarrow> (stub_error status \<times> 'c list) \<times> ('p, 'c) stub \<times> 'p" where
  "Start env s0 p =
     (if st_started s0 then ((Failed AlreadyStarted, []), s0, p)
      else (case connect env s0 of
        (Done, s) \<Rightarrow>
          (let c = st_conn s; closed = (case c of None \<Rightarrow> [] | Some x \<Rightarrow> [x]) in
           case se_listen env of
             Some err \<Rightarrow> ((Failed (ListenFailed err), closed), s\<lparr>st_rpcm := None\<rparr>, p)
           | None \<Rightarrow>
           (case se_server env of
             Some err \<Rightarrow> ((Failed (ServerFailed err), closed), s\<lparr>st_rpcm := None, st_rpcl := None\<rparr>, p)
           | None \<Rightarrow>
           (case se_open env of
             Some err \<Rightarrow>
               ((Failed (OpenFailed err), closed), s\<lparr>st_rpcm := None, st_rpcl := None, st_rpcs := None\<rparr>, p)
           | None \<Rightarrow>
              (let s1 = s\<lparr>st_rpcm := c, st_rpcl := c, st_rpcs := c, st_rpcc := c, st_runtime := True\<rparr>;
                   undo = (\<lambda>t. t\<lparr>st_rpcm := None, st_rpcl := None, st_rpcs := None, st_rpcc := None\<rparr>) in
               case se_register env of
                 Some err \<Rightarrow>
                   (let (closed', s2) = stub_close s1 in
                    ((Failed (RegisterFailed err), closed' @ closed), undo s2, p))
               | None \<Rightarrow>
                  (case Stub_Configure (se_configure env) s1 p of
                     (Inl err, s2, p') \<Rightarrow> ((Failed err, closed), undo s2, p')
                   | (Inr _, s2, p') \<Rightarrow> ((Done, []), s2\<lparr>st_started := True\<rparr>, p'))))))
      | (r, s) \<Rightarrow> ((r, []), s, p)))"

definition Stop :: "('p, 'c) stub \<Rightarrow> 'c list \<times> ('p, 'c) stub" where
  "Stop s = stub_close s"

definition connClosed :: "('p, 'c) stub \<Rightarrow> 'p \<Rightarrow> 'c list \<times> ('p, 'c) stub \<times> 'p" where
  "connClosed s p =
     (let (closed, s') = stub_close s in
      (closed, s', case st_onClose s' of None \<Rightarrow> p | Some f \<Rightarrow> f p))"

end
