(* ===== verification/Stub_Laws.thy ===== *)
theory Stub_Laws
  imports Stub
begin

text \<open>
  What the stub promises to the runtime and to the plugin: its subscriptions and its handlers agree, a
  synchronisation in several messages reaches the plugin as one, and what becomes of its name and connection.
\<close>

section \<open>Subscriptions\<close>

definition method_table :: "'p handlers \<Rightarrow> (bool \<times> event) list" where
  "method_table h =
    [(sh_RunPodSandbox h \<noteq> None, 1), (sh_UpdatePodSandbox h \<noteq> None, 12), (sh_StopPodSandbox h \<noteq> None, 2),
     (sh_RemovePodSandbox h \<noteq> None, 3), (sh_PostUpdatePodSandbox h \<noteq> None, 13), (sh_CreateContainer h \<noteq> None, 4),
     (sh_StartContainer h \<noteq> None, 6), (sh_UpdateContainer h \<noteq> None, 8), (sh_StopContainer h \<noteq> None, 10),
     (sh_RemoveContainer h \<noteq> None, 11), (sh_PostCreateContainer h \<noteq> None, 5), (sh_PostStartContainer h \<noteq> None, 7),
     (sh_PostUpdateContainer h \<noteq> None, 9), (sh_ValidateContainerAdjustment h \<noteq> None, 14)]"

lemma method_table_events: "event_table (method_table h)"
  by (simp add: event_table_def method_table_def has_bit_def)

definition event_word :: "event \<Rightarrow> event_mask" where
  "event_word e = (case event_bit e of None \<Rightarrow> 0 | Some b \<Rightarrow> b)"

lemma Set_word: "has_bit e \<Longrightarrow> EventMask_Set [e] m = (Done, m OR event_word e)"
  using event_bit_index [of e] by (simp add: EventMask_Set_def event_word_def for_each_Cons)

text \<open>A step takes one method over: what it does to the handlers and the bits it adds.\<close>

definition takes :: "'p handlers \<Rightarrow> ('p, 'c) stub_action \<Rightarrow> ('p handlers \<Rightarrow> 'p handlers) \<times> event_mask \<Rightarrow> bool" where
  "takes h a fw \<longleftrightarrow> (\<forall>s. st_plugin s = h \<longrightarrow>
     a s = (Done, s\<lparr>st_handlers := fst fw (st_handlers s), st_events := st_events s OR snd fw\<rparr>))"

lemma run_takes:
  assumes "list_all2 (takes h) as fws" and "st_plugin s = h"
  shows "run (as @ rest) s = run rest (s\<lparr>st_handlers := fold fst fws (st_handlers s),
    st_events := fold (\<lambda>fw m. m OR snd fw) fws (st_events s)\<rparr>)"
  using assms by (induction as fws arbitrary: s rule: list_all2_induct) (simp_all add: takes_def)

definition taking ::
    "('p handlers \<Rightarrow> 'h option) \<Rightarrow> (('h option \<Rightarrow> 'h option) \<Rightarrow> 'p handlers \<Rightarrow> 'p handlers) \<Rightarrow>
     event list \<Rightarrow> 'p handlers \<Rightarrow> ('p handlers \<Rightarrow> 'p handlers) \<times> event_mask" where
  "taking get upd es h =
     (upd (\<lambda>x. case get h of None \<Rightarrow> x | Some m \<Rightarrow> Some m),
      case es of [] \<Rightarrow> 0 | e # _ \<Rightarrow> if get h \<noteq> None then event_word e else 0)"

lemma takes_event:
  assumes "\<And>h. upd (\<lambda>x. x) h = h" and "has_bit e"
  shows "takes h (take_method get upd [e]) (taking get upd [e] h)"
  using assms(1) by (cases "get h") (simp_all add: takes_def taking_def take_method_def Set_word [OF assms(2)])

lemma takes_plain:
  assumes "\<And>h. upd (\<lambda>x. x) h = h"
  shows "takes h (take_method get upd []) (taking get upd [] h)"
  using assms by (cases "get h") (simp_all add: takes_def taking_def take_method_def EventMask_Set_def)

lemma table_mask_fold:
  assumes "\<forall>(w, e) \<in> set t. has_bit e"
  shows "snd (for_each t (\<lambda>(w, e). if w then EventMask_Set [e] else (\<lambda>s. (Done :: unit status, s))) m) =
    fold (\<lambda>(w, e) m. m OR (if w then event_word e else 0)) t m"
  using assms by (induction t arbitrary: m) (auto simp: for_each_Cons Set_word)

lemma option_id: "(case x of None \<Rightarrow> None | Some y \<Rightarrow> Some y) = x"
  by (cases x) simp_all

lemma event_bits_1_14:
  "has_bit 1" "has_bit 2" "has_bit 3" "has_bit 4" "has_bit 5" "has_bit 6" "has_bit 7" "has_bit 8"
  "has_bit 9" "has_bit 10" "has_bit 11" "has_bit 12" "has_bit 13" "has_bit 14"
  by (simp_all add: has_bit_def)

definition method_effects :: "'p handlers \<Rightarrow> (('p handlers \<Rightarrow> 'p handlers) \<times> event_mask) list" where
  "method_effects h =
     [taking sh_Configure sh_Configure_update [] h,
      taking sh_Synchronize sh_Synchronize_update [] h,
      taking sh_Shutdown sh_Shutdown_update [] h,
      taking sh_RunPodSandbox sh_RunPodSandbox_update [1] h,
      taking sh_UpdatePodSandbox sh_UpdatePodSandbox_update [12] h,
      taking sh_StopPodSandbox sh_StopPodSandbox_update [2] h,
      taking sh_RemovePodSandbox sh_RemovePodSandbox_update [3] h,
      taking sh_PostUpdatePodSandbox sh_PostUpdatePodSandbox_update [13] h,
      taking sh_CreateContainer sh_CreateContainer_update [4] h,
      taking sh_StartContainer sh_StartContainer_update [6] h,
      taking sh_UpdateContainer sh_UpdateContainer_update [8] h,
      taking sh_StopContainer sh_StopContainer_update [10] h,
      taking sh_RemoveContainer sh_RemoveContainer_update [11] h,
      taking sh_PostCreateContainer sh_PostCreateContainer_update [5] h,
      taking sh_PostStartContainer sh_PostStartContainer_update [7] h,
      taking sh_PostUpdateContainer sh_PostUpdateContainer_update [9] h,
      taking sh_ValidateContainerAdjustment sh_ValidateContainerAdjustment_update [14] h]"

lemma method_steps_take: "list_all2 (takes h) method_steps (method_effects h)"
  unfolding method_steps_def method_effects_def
  by (intro list.rel_intros takes_event takes_plain event_bits_1_14; (rule handlers.equality; simp)?)

lemma method_effects_handlers: "fold fst (method_effects h) nil_handlers = h"
  by (simp add: method_effects_def taking_def nil_handlers_def option_id)

lemma method_effects_events: "fold (\<lambda>fw m. m OR snd fw) (method_effects h) 0 = table_mask (method_table h)"
proof -
  have "\<forall>(w, e) \<in> set (method_table h). has_bit e" using method_table_events [of h] by (simp add: event_table_def)
  note table_mask_fold [OF this, of 0]
  then show ?thesis
    unfolding table_mask_def by (simp add: method_effects_def taking_def method_table_def del: option.simps)
qed

lemma setupHandlers_eq:
  assumes "st_handlers s = nil_handlers" and "st_events s = 0"
  shows "setupHandlers s =
    (if table_mask (method_table (st_plugin s)) = 0 then Failed NoRequestHandlers else Done,
     s\<lparr>st_handlers := st_plugin s, st_events := table_mask (method_table (st_plugin s))\<rparr>)"
  unfolding setupHandlers_def run_takes [OF method_steps_take refl] assms method_effects_handlers method_effects_events
  by simp

text \<open>An option that leaves the plugin's methods alone.\<close>

definition plain_option :: "('p, 'c) stub_action \<Rightarrow> bool" where
  "plain_option opt \<longleftrightarrow> (\<forall>s. st_plugin (snd (opt s)) = st_plugin s \<and>
     st_handlers (snd (opt s)) = st_handlers s \<and> st_events (snd (opt s)) = st_events s)"

lemma options_plain:
  "plain_option (WithOnClose f)" "plain_option (WithPluginName name)" "plain_option (WithPluginIdx idx)"
  "plain_option (WithSocketPath path)" "plain_option (WithConnection c)" "plain_option (WithDialer d)"
  by (simp_all add: plain_option_def WithOnClose_def WithPluginName_def WithPluginIdx_def WithSocketPath_def
      WithConnection_def WithDialer_def)

lemma run_plain:
  assumes "\<forall>opt \<in> set opts. plain_option opt" and "run opts s = (r, t)"
  shows "st_plugin t = st_plugin s \<and> st_handlers t = st_handlers s \<and> st_events t = st_events s"
  using assms
proof (induction opts arbitrary: s)
  case Nil
  then show ?case by simp
next
  case (Cons opt opts)
  then have opt: "plain_option opt" "\<forall>opt \<in> set opts. plain_option opt" by simp_all
  have same: "st_plugin (snd (opt s)) = st_plugin s \<and> st_handlers (snd (opt s)) = st_handlers s \<and>
    st_events (snd (opt s)) = st_events s" using opt(1) by (simp add: plain_option_def)
  show ?case
    using Cons.IH [OF opt(2), of "snd (opt s)"] Cons.prems(2) same
    by (cases "opt s"; cases "fst (opt s)") auto
qed

lemma run_append_cases:
  assumes "run (as @ bs) s = (Done, t)"
  obtains s1 where "run as s = (Done, s1)" "run bs s1 = (Done, t)"
  using assms unfolding run_append by (auto split: prod.splits status.splits)

lemma ensureIdentity_plain: "plain_option (ensureIdentity base)"
  by (auto simp: plain_option_def ensureIdentity_def split: sum.split)

lemma New_cases:
  assumes "New h name idx base dial opts = (Done, s)"
  obtains s1 s2 where "run opts (fresh_stub h name idx dial) = (Done, s1)" "setupHandlers s1 = (Done, s2)"
    "ensureIdentity base s2 = (Done, s)"
proof -
  obtain s1 where r: "run opts (fresh_stub h name idx dial) = (Done, s1)" "run [setupHandlers, ensureIdentity base] s1 = (Done, s)"
    using assms unfolding New_def by (rule run_append_cases)
  from r(2) obtain s2 where "setupHandlers s1 = (Done, s2)" "ensureIdentity base s2 = (Done, s)"
    by (auto split: prod.splits status.splits)
  with r(1) show ?thesis by (rule that)
qed

lemma New_handlers:
  assumes "New h name idx base dial opts = (Done, s)" and "\<forall>opt \<in> set opts. plain_option opt"
  shows "st_handlers s = h" and "st_events s = table_mask (method_table h)" and "st_events s \<noteq> 0"
proof -
  obtain s1 s2 where r: "run opts (fresh_stub h name idx dial) = (Done, s1)" "setupHandlers s1 = (Done, s2)"
    "ensureIdentity base s2 = (Done, s)" using assms(1) by (rule New_cases)
  have s1: "st_plugin s1 = h" "st_handlers s1 = nil_handlers" "st_events s1 = 0"
    using run_plain [OF assms(2) r(1)] by (simp_all add: fresh_stub_def)
  have s: "st_handlers s = st_handlers s2" "st_events s = st_events s2"
    using ensureIdentity_plain r(3) unfolding plain_option_def by (metis snd_conv)+
  show "st_handlers s = h" "st_events s = table_mask (method_table h)" "st_events s \<noteq> 0"
    using r(2) s1 unfolding s setupHandlers_eq [OF s1(2,3)] by (auto split: if_splits)
qed

text \<open>The handler a state change event is for.\<close>

definition notices :: "'p handlers \<Rightarrow> (event \<times> (state_change_event \<Rightarrow> 'p \<Rightarrow> string option \<times> 'p) option) list" where
  "notices h =
     (let pod = map_option (\<lambda>f evt. f (sce_pod evt)); ctr = map_option (\<lambda>f evt. f (sce_pod evt) (sce_container evt)) in
      [(1, pod (sh_RunPodSandbox h)), (2, pod (sh_StopPodSandbox h)), (3, pod (sh_RemovePodSandbox h)),
       (5, ctr (sh_PostCreateContainer h)), (6, ctr (sh_StartContainer h)), (7, ctr (sh_PostStartContainer h)),
       (9, ctr (sh_PostUpdateContainer h)), (11, ctr (sh_RemoveContainer h)), (13, pod (sh_PostUpdatePodSandbox h))])"

lemma notices_in_table: "(e, f) \<in> set (notices h) \<Longrightarrow> (f \<noteq> None, e) \<in> set (method_table h)"
proof -
  have "list_all (\<lambda>(e, f). (f \<noteq> None, e) \<in> set (method_table h)) (notices h)"
    by (simp add: notices_def method_table_def Let_def)
  then show "(e, f) \<in> set (notices h) \<Longrightarrow> (f \<noteq> None, e) \<in> set (method_table h)" by (auto simp: list_all_iff)
qed

lemma StateChange_notice:
  assumes "(sce_event evt, Some f) \<in> set (notices (st_handlers s))"
  shows "Stub_StateChange evt s p = f evt p"
proof -
  have "list_all (\<lambda>(e, f). sce_event evt = e \<longrightarrow> f \<noteq> None \<longrightarrow> Stub_StateChange evt s p = the f evt p) (notices (st_handlers s))"
    by (auto simp: notices_def Stub_StateChange_def pod_event_def container_event_def Let_def)
  then show ?thesis using assms by (auto simp: list_all_iff)
qed

lemma Configure_handlers:
  assumes "Stub_Configure req s p = (r, s', p')"
  shows "st_handlers s' = st_handlers s \<and> st_events s' = st_events s"
  using assms by (auto simp: Stub_Configure_def Let_def split: option.splits prod.splits if_splits)

lemma Configure_conn: "Stub_Configure req s p = (r, s', p') \<Longrightarrow> st_conn s' = st_conn s"
  by (auto simp: Stub_Configure_def Let_def split: option.splits prod.splits if_splits)

lemma Configure_events:
  assumes "Stub_Configure req s p = (Inr m, s', p')" and "st_events s \<noteq> 0"
  shows "m \<noteq> 0 \<and> and m (not (st_events s)) = 0"
  using assms by (auto simp: Stub_Configure_def Let_def split: option.splits prod.splits if_splits)

lemma mask_subset: "and m (not k) = 0 \<Longrightarrow> bit m n \<Longrightarrow> bit (k :: event_mask) n"
  by (metis bit_and_iff bit_imp_le_length bit_not_iff bit_0_eq bot_apply bot_bool_def possible_bit_word)

lemma table_mask_valid: "and (table_mask (method_table h)) (not ValidEvents) = 0"
proof (rule bit_eqI)
  fix n
  show "bit (and (table_mask (method_table h)) (not ValidEvents)) n = bit (0 :: event_mask) n"
    unfolding bit_and_iff table_mask_bits [OF method_table_events]
    by (auto simp: method_table_def bit_ValidEvents bit_simps all_events_eq)
qed

lemma IsSet_mono:
  assumes "and m (not k) = 0" and "has_bit e" and "EventMask_IsSet e m = Some True"
  shows "EventMask_IsSet e k = Some True"
  using mask_subset [OF assms(1)] assms(3) by (simp add: IsSet_bit [OF assms(2)])

lemma subset_trans: "and m (not k) = 0 \<Longrightarrow> and k (not l) = 0 \<Longrightarrow> and m (not (l :: event_mask)) = 0"
  using mask_subset [of m k] mask_subset [of k l] by (intro bit_eqI) (auto simp: bit_simps)

text \<open>
  C11. Runtime and stub agree on what is delivered. Once the stub of a plugin has accepted its configuration, the runtime
  accepts the stub's answer and records a non-empty subscription; every event subscribed is one the plugin
  has a method for, and a state change event subscribed reaches that method.
\<close>

theorem subscribed_events_are_handled:
  assumes "New h name idx base dial opts = (Done, s0)" and "\<forall>opt \<in> set opts. plain_option opt"
    and "Stub_Configure req s0 p = (Inr m, s, p')" and "configure (Inr m) pl = (r, pl')"
  shows "r = None \<and> pl_events pl' = m \<and> m \<noteq> 0 \<and>
    (\<forall>(w, e) \<in> set (method_table h). EventMask_IsSet e m = Some True \<longrightarrow> w) \<and>
    (\<forall>(e, f) \<in> set (notices h). EventMask_IsSet e m = Some True \<longrightarrow>
      (\<exists>g. f = Some g \<and> (\<forall>evt q. sce_event evt = e \<longrightarrow> Stub_StateChange evt s q = g evt q)))"
proof -
  note new = New_handlers [OF assms(1,2)]
  note same = Configure_handlers [OF assms(3)]
  have m: "m \<noteq> 0" "and m (not (table_mask (method_table h))) = 0"
    using Configure_events [OF assms(3) new(3)] new(2) by simp_all
  have reg: "r = None \<and> pl_events pl' = m"
    using assms(4) m(1) subset_trans [OF m(2) table_mask_valid] by (auto simp: configure_def)
  have sub: "w" if "(w, e) \<in> set (method_table h)" "EventMask_IsSet e m = Some True" for w e
  proof -
    have "has_bit e" using that(1) method_table_events [of h] by (auto simp: event_table_def)
    from IsSet_mono [OF m(2) this that(2)] show ?thesis
      using table_mask_IsSet [OF method_table_events that(1)] by simp
  qed
  have notify: "\<exists>g. f = Some g \<and> (\<forall>evt q. sce_event evt = e \<longrightarrow> Stub_StateChange evt s q = g evt q)"
    if "(e, f) \<in> set (notices h)" "EventMask_IsSet e m = Some True" for e f
  proof -
    have "f \<noteq> None" using sub [OF notices_in_table [OF that(1)] that(2)] .
    then obtain g where g: "f = Some g" by auto
    have "(e, Some g) \<in> set (notices (st_handlers s))" using that(1) g same new(1) by simp
    then show ?thesis using StateChange_notice [of _ g s] g by auto
  qed
  show ?thesis using reg m(1) sub notify by blast
qed

section \<open>Synchronisation\<close>

text \<open>
  The stub as the runtime sees it through a transport that may refuse a message (too large, say) before it
  reaches the stub.
\<close>

definition stub_impl :: "(sync_request \<Rightarrow> sync_error option) \<Rightarrow> (('p, 'c) stub \<times> 'p) sync_impl" where
  "stub_impl transport sp req =
     (case transport req of
        Some e \<Rightarrow> (Inl e, sp)
      | None \<Rightarrow>
         (case Stub_Synchronize req (fst sp) (snd sp) of
            ((rpl, None), sp') \<Rightarrow> (Inr rpl, sp')
          | ((_, Some _), sp') \<Rightarrow> (Inl OtherError, sp')))"

definition got_pods :: "('p, 'c) stub \<Rightarrow> pod_sandbox list" where
  "got_pods s = (case st_syncReq s of None \<Rightarrow> [] | Some r \<Rightarrow> sy_pods r)"

definition got_containers :: "('p, 'c) stub \<Rightarrow> container list" where
  "got_containers s = (case st_syncReq s of None \<Rightarrow> [] | Some r \<Rightarrow> sy_containers r)"

lemma stub_collects:
  assumes "sh_Synchronize (st_handlers s) = Some f" and "sy_more req" and "stub_impl transport (s, p) req = (Inr rpl, sp')"
  shows "\<exists>s'. sp' = (s', p) \<and> st_handlers s' = st_handlers s \<and> s'\<lparr>st_syncReq := None\<rparr> = s\<lparr>st_syncReq := None\<rparr> \<and>
    got_pods s' = got_pods s @ sy_pods req \<and> got_containers s' = got_containers s @ sy_containers req"
proof -
  have "sp' = (snd (collectSync req s), p)"
    using assms by (auto simp: stub_impl_def Stub_Synchronize_def split: option.splits prod.splits)
  then show ?thesis
    by (auto simp: collectSync_def got_pods_def got_containers_def split: option.split)
qed

lemma stub_delivers:
  assumes "sh_Synchronize (st_handlers s) = Some f" and "\<not> sy_more req" and "stub_impl transport (s, p) req = (Inr rpl, sp')"
  shows "\<exists>p'. sp' = (s\<lparr>st_syncReq := None\<rparr>, p') \<and>
    f (got_pods s @ sy_pods req) (got_containers s @ sy_containers req) p = ((syr_update rpl, None), p')"
  using assms
  by (auto simp: stub_impl_def Stub_Synchronize_def deliverSync_def got_pods_def got_containers_def Let_def
      split: option.splits prod.splits)

lemma stub_refuses:
  assumes "sh_Synchronize (st_handlers s) = Some f" and "stub_impl transport (s, p) req = (Inl e, sp')"
    and "e \<noteq> OtherError"
  shows "sp' = (s, p)"
  using assms by (auto simp: stub_impl_def split: option.splits prod.splits)

lemma sync_loop_stub:
  assumes "sh_Synchronize (st_handlers s) = Some f" and "exact ss"
    and "sync_loop scale (stub_impl transport) deadline ss (s, p) = (Synced u, (s', p'))"
  shows "f (got_pods s @ fst (ss_pods ss)) (got_containers s @ fst (ss_ctrs ss)) p = ((u, None), p') \<and>
    s' = s\<lparr>st_syncReq := None\<rparr>"
  using assms
proof (induction deadline arbitrary: ss s p)
  case 0
  from 0(3) show ?case by (rule notE [OF sync_loop_late])
next
  case (Suc deadline)
  let ?pods = "take (ss_pods_per_msg ss) (fst (ss_pods ss))"
  let ?ctrs = "take (ss_ctrs_per_msg ss) (fst (ss_ctrs ss))"
  let ?req = "\<lparr>sy_pods = ?pods, sy_containers = ?ctrs, sy_more = ss_more ss\<rparr>"
  have fits: "ss_pods_per_msg ss \<le> length (fst (ss_pods ss))" "ss_ctrs_per_msg ss \<le> length (fst (ss_ctrs ss))"
    using Suc.prems(3) by (auto simp: sync_round_def reslice_to_def split: if_splits)
  obtain r sp1 where r: "stub_impl transport (s, p) ?req = (r, sp1)"
    by (cases "stub_impl transport (s, p) ?req")
  note step = Suc.prems(3) [unfolded sync_loop.simps sync_round_def reslice_to_def, simplified fits if_True option.case prod.case r]
  show ?case
  proof (cases r)
    case (Inl e)
    then have e: "e \<noteq> OtherError" using step by (auto simp: recalcObjsPerSyncMsg_def split: sum.splits)
    have sp1: "sp1 = (s, p)" using stub_refuses [OF Suc.prems(1) _ e] r Inl by blast
    obtain np nc where "sync_loop scale (stub_impl transport) deadline
        (ss\<lparr>ss_pods_per_msg := np, ss_ctrs_per_msg := nc\<rparr>) (s, p) = (Synced u, (s', p'))"
      using step Inl sp1 by (auto split: sum.splits prod.splits)
    from Suc.IH [OF Suc.prems(1) _ this] Suc.prems(2) show ?thesis by (simp add: exact_def)
  next
    case (Inr rpl)
    note r = r [unfolded Inr]
    show ?thesis
    proof (cases "ss_more ss")
      case False
      then have sy: "\<not> sy_more ?req" by simp
      from stub_delivers [OF Suc.prems(1) sy r] obtain p1 where
        d: "sp1 = (s\<lparr>st_syncReq := None\<rparr>, p1)"
          "f (got_pods s @ ?pods) (got_containers s @ ?ctrs) p = ((syr_update rpl, None), p1)" by auto
      have "?pods = fst (ss_pods ss)" "?ctrs = fst (ss_ctrs ss)"
        using False Suc.prems(2) by (auto simp: ss_more_def exact_def)
      then show ?thesis using step False Inr d by auto
    next
      case True
      then have sy: "sy_more ?req" by simp
      from stub_collects [OF Suc.prems(1) sy r] obtain s1 where
        c: "sp1 = (s1, p)" "st_handlers s1 = st_handlers s" "s1\<lparr>st_syncReq := None\<rparr> = s\<lparr>st_syncReq := None\<rparr>"
          "got_pods s1 = got_pods s @ ?pods" "got_containers s1 = got_containers s @ ?ctrs" by auto
      obtain ss1 where a: "advance ss = Some ss1"
        "sync_loop scale (stub_impl transport) deadline ss1 (s1, p) = (Synced u, (s', p'))"
        using step True Inr c(1) by (auto split: if_splits option.splits)
      have h: "sh_Synchronize (st_handlers s1) = Some f" using Suc.prems(1) c(2) by simp
      from Suc.IH [OF h advance_exact [OF a(1) Suc.prems(2)] a(2)] c(3,4,5) advance_cases [OF a(1)]
      show ?thesis by simp
    qed
  qed
qed

text \<open>
  C10. End to end, a synchronisation that succeeds is one call of the plugin's method: however the runtime splits it into
  messages and whichever of them the transport refuses, the method is called exactly once, with all pods and
  containers in order; its updates are what the runtime gets, and the stub is left as it was.
\<close>

theorem synchronize_is_one_call:
  assumes "st_syncReq s = None" and "sh_Synchronize (st_handlers s) = Some f"
    and "synchronize scale (stub_impl transport) deadline (slice_of pods) (slice_of ctrs) (s, p) = (Synced u, (s', p'))"
  shows "f pods ctrs p = ((u, None), p') \<and> s' = s"
proof -
  have "s\<lparr>st_syncReq := None\<rparr> = s" using assms(1) by (cases s) simp
  then show ?thesis
    using sync_loop_stub [OF assms(2) _ assms(3) [unfolded synchronize_def]] assms(1)
    by (simp add: exact_def slice_of_def sync_start_def got_pods_def got_containers_def)
qed

section \<open>Name and connection\<close>

text \<open>
  Without an index of its own the stub takes index and name from the plugin's binary, even when it was given a name:
  together they are the binary's name, and the runtime accepts the registration unless the name is empty.
\<close>

theorem identity_from_binary:
  assumes "New h name [] base dial opts = (Done, s)" and "set opts \<subseteq> {WithPluginName n |n. True}"
  shows "plugin_name (st_idx s) (st_name s) = base \<and>
    RegisterPlugin True (st_name s) (st_idx s) pl =
      (if st_name s = [] then (Some EmptyName, pl) else (None, pl\<lparr>pl_base := st_name s, pl_idx := st_idx s\<rparr>))"
proof -
  obtain s1 s2 where r: "run opts (fresh_stub h name [] dial) = (Done, s1)" "setupHandlers s1 = (Done, s2)"
    "ensureIdentity base s2 = (Done, s)" using assms(1) by (rule New_cases)
  have keeps: "st_idx t' = st_idx t \<and> st_handlers t' = st_handlers t \<and> st_events t' = st_events t"
    if "run os t = (rr, t')" "set os \<subseteq> {WithPluginName n |n. True}" for os rr and t t' :: "('a, 'b) stub"
    using that by (induction os arbitrary: t) (auto simp: WithPluginName_def split: if_splits)
  have s1: "st_idx s1 = []" "st_handlers s1 = nil_handlers" "st_events s1 = 0"
    using keeps [OF r(1) assms(2)] by (simp_all add: fresh_stub_def)
  have "st_idx s2 = []" using r(2) s1 unfolding setupHandlers_eq [OF s1(2,3)] by auto
  then have parsed: "ParsePluginName base = Inr (st_idx s, st_name s)"
    using r(3) by (auto simp: ensureIdentity_def split: sum.splits prod.splits)
  have "base = plugin_name (st_idx s) (st_name s)" "CheckPluginIndex (st_idx s) = None"
    using parsed_name [OF parsed] by simp_all
  then show ?thesis by (simp add: RegisterPlugin_def)
qed

text \<open>
  A stub cannot be started again after a failed start: \<^verbatim>\<open>Start\<close> closes the connection it had made but keeps it, and every
  later \<^verbatim>\<open>Start\<close> takes the closed connection for one it was given.
\<close>

theorem failed_start_keeps_closed_connection:
  assumes "Start env s p = ((r, closed), s', p')" and "r \<noteq> Done" and "closed \<noteq> []"
  shows "\<exists>c. closed = [c] \<and> st_conn s' = Some c \<and> (\<forall>env'. connect env' s' = (Done, s'))"
proof -
  have "\<exists>c. closed = [c] \<and> st_conn s' = Some c"
    using assms
    by (auto dest!: Configure_conn simp: Start_def stub_close_def connect_def Let_def
        split: if_splits prod.splits status.splits option.splits sum.splits)
  then show ?thesis by (auto simp: connect_def)
qed

section \<open>Witnesses\<close>

text \<open>A plugin that counts the pods it is synchronised with and handles one event.\<close>

definition sample_methods :: "nat handlers" where
  "sample_methods = nil_handlers\<lparr>
     sh_Synchronize := Some (\<lambda>pods ctrs n. (([], None), n + length pods)),
     sh_PostUpdatePodSandbox := Some (\<lambda>pod n. (Some ''seen'', Suc n))\<rparr>"

definition sample_stub :: "(nat, nat) stub" where
  "sample_stub = (fresh_stub sample_methods ''count'' ''10'' (\<lambda>_. Inr 7))\<lparr>
     st_handlers := sample_methods, st_events := push_bit 12 1\<rparr>"

definition sample_configure :: configure_request where
  "sample_configure = \<lparr>cq_config = [], cq_runtime_name = [], cq_runtime_version = [],
     cq_registration_timeout = 5000, cq_request_timeout = 2000\<rparr>"

definition sample_env :: "nat start_env" where
  "sample_env = \<lparr>se_socket_env = [], se_fd_conn = (\<lambda>_. Inl ''no''), se_listen = None, se_server = None, se_open = None,
     se_register = Some ''refused'', se_configure = sample_configure\<rparr>"

lemma sample_New:
  "New sample_methods [] [] ''10-count'' (\<lambda>_. Inr (7 :: nat)) [WithPluginName ''other''] = (Done, sample_stub)"
proof -
  have mask: "table_mask (method_table sample_methods) = push_bit 12 1"
    unfolding table_mask_def
    by (simp add: method_table_def sample_methods_def nil_handlers_def for_each_Cons Set_word event_bits_1_14)
      (simp add: event_word_def event_bit_def)
  have nz: "push_bit 12 1 \<noteq> (0 :: event_mask)" by simp
  have "setupHandlers (fresh_stub sample_methods ''other'' [] (\<lambda>_. Inr 7)) =
    (Done, (fresh_stub sample_methods ''other'' [] (\<lambda>_. Inr (7 :: nat)))\<lparr>
       st_handlers := sample_methods, st_events := push_bit 12 1\<rparr>)"
    by (subst setupHandlers_eq) (simp_all add: fresh_stub_def mask nz del: push_bit_of_1 push_bit_numeral)
  then show ?thesis
    by (simp add: New_def WithPluginName_def ensureIdentity_def sample_stub_def fresh_stub_def
        ParsePluginName_def splitN2_def CheckPluginIndex_def is_digit_def del: push_bit_of_1)
qed

theorem subscribed_events_are_handled_witness:
  "\<exists>s. Stub_Configure sample_configure sample_stub 0 = (Inr (push_bit 12 1), s, 0) \<and>
    Stub_StateChange \<lparr>sce_event = 13, sce_pod = None, sce_container = None\<rparr> s 0 = (Some ''seen'', 1)"
proof -
  obtain s where s: "Stub_Configure sample_configure sample_stub 0 = (Inr (push_bit 12 1), s, 0)"
    by (simp add: Stub_Configure_def sample_stub_def sample_methods_def nil_handlers_def Let_def fresh_stub_def)
  have opts: "\<forall>opt \<in> set [WithPluginName ''other'']. plain_option (opt :: (nat, nat) stub_action)"
    by (simp add: options_plain)
  fix pl :: plugin
  obtain r pl' where r: "configure (Inr (push_bit 12 1)) pl = (r, pl')" by fastforce
  have n: "(13, Some (\<lambda>evt n. (Some ''seen'', Suc n))) \<in> set (notices sample_methods)"
    by (simp add: notices_def sample_methods_def nil_handlers_def Let_def)
  have set13: "EventMask_IsSet 13 (push_bit 12 1) = Some True"
    by (simp add: EventMask_IsSet_def event_bit_def)
  from subscribed_events_are_handled [OF sample_New opts s r] n set13
  have "Stub_StateChange \<lparr>sce_event = 13, sce_pod = None, sce_container = None\<rparr> s 0 = (Some ''seen'', 1)"
    by fastforce
  with s show ?thesis by blast
qed

theorem synchronize_is_one_call_witness:
  "case synchronize sample_scale (stub_impl (\<lambda>_. None)) 5 (slice_of [sample_pod]) (slice_of []) (sample_stub, 0) of
     (_, (s, n)) \<Rightarrow> n = 1 \<and> s = sample_stub"
proof -
  let ?f = "\<lambda>pods ctrs n. (([] :: updates, None :: string option), n + length pods)"
  let ?run = "synchronize sample_scale (stub_impl (\<lambda>_. None)) 5 (slice_of [sample_pod]) (slice_of []) (sample_stub, 0)"
  have h: "st_syncReq sample_stub = None" "sh_Synchronize (st_handlers sample_stub) = Some ?f"
    by (simp_all add: sample_stub_def sample_methods_def fresh_stub_def)
  obtain s n where run: "?run = (Synced [], (s, n))"
    by (simp add: synchronize_def sync_start_def sync_round_def slice_of_def numeral_eq_Suc reslice_to_def ss_more_def stub_impl_def
        Stub_Synchronize_def deliverSync_def h)
  from synchronize_is_one_call [OF h run] run show ?thesis by simp
qed

theorem identity_from_binary_witness:
  "plugin_name (st_idx sample_stub) (st_name sample_stub) = ''10-count''"
proof -
  have "set [WithPluginName ''other''] \<subseteq> {WithPluginName n |n. True}" by auto
  from identity_from_binary [OF sample_New this] show ?thesis by blast
qed

theorem failed_start_keeps_closed_connection_witness:
  "\<exists>s'. Start sample_env sample_stub 0 = ((Failed (RegisterFailed ''refused''), [7]), s', 0) \<and>
    (\<forall>env. connect env s' = (Done, s'))"
proof -
  obtain s' where s': "Start sample_env sample_stub 0 = ((Failed (RegisterFailed ''refused''), [7]), s', 0)"
    by (simp add: Start_def sample_env_def sample_stub_def fresh_stub_def connect_def stub_close_def Let_def)
  from failed_start_keeps_closed_connection [OF s'] s' show ?thesis by auto
qed

end
