(* ===== verification/Mux.thy ===== *)
theory Mux
  imports NRI_Prelude
begin

text \<open>
  Several logical connections over one (\<^verbatim>\<open>src/pkg/net/multiplex/mux.go\<close>, \<^verbatim>\<open>ttrpc.go\<close>). A multiplexer's connections are
  objects that clients keep references to: \<open>mx_heap\<close> holds them and a reference is a position in it;
  \<open>mx_conns\<close> is the map from connection ids to references. A buffered channel is the list of its messages,
  a closed channel a flag, a \<^verbatim>\<open>sync.Once\<close> the fact it guards. Writing to the trunk is a function \<open>tw\<close> on a state of
  its own that returns how much it wrote and an error. What is still to be read from the trunk is
  the bytes to come and the error after them. Of the goroutines, the reader is a step
  (\<open>reader_round\<close>) that may come between any two operations of clients; writers hold a lock for a whole write.
\<close>

section \<open>Frames\<close>

type_synonym byte = "8 word"
type_synonym conn_id = uint32

definition PutUint32 :: "uint32 \<Rightarrow> byte list" where
  "PutUint32 v = [ucast (drop_bit 24 v), ucast (drop_bit 16 v), ucast (drop_bit 8 v), ucast v]"

definition Uint32 :: "byte list \<Rightarrow> uint32" where
  "Uint32 b = or (ucast (b ! 3)) (or (push_bit 8 (ucast (b ! 2)))
     (or (push_bit 16 (ucast (b ! 1))) (push_bit 24 (ucast (b ! 0)))))"

definition reservedConnID :: conn_id where "reservedConnID = 0"
definition PluginServiceConn :: conn_id where "PluginServiceConn = 1"
definition RuntimeServiceConn :: conn_id where "RuntimeServiceConn = 2"

definition ttrpcMessageHeaderLength :: nat where "ttrpcMessageHeaderLength = 10"
definition ttrpcMessageLengthMax :: nat where "ttrpcMessageLengthMax = 4 * 2 ^ 20"
definition readQueueLen :: nat where "readQueueLen = 256"
definition headerLen :: nat where "headerLen = 8"
definition maxPayloadSize :: nat where "maxPayloadSize = ttrpcMessageHeaderLength + ttrpcMessageLengthMax"

definition header :: "conn_id \<Rightarrow> nat \<Rightarrow> byte list" where
  "header cid sz = PutUint32 cid @ PutUint32 (word_of_nat sz)"

section \<open>The multiplexer\<close>

datatype trunk_error = TrunkEOF | TtrpcClosed | TtrpcServerClosed | NetClosed | UnexpectedEOF | TrunkError string

datatype mux_error =
    EOF
  | WriteHeader string
  | WritePayload string
  | ReadHeader trunk_error
  | ReadPayload trunk_error
  | QueueFull
  | Reserved conn_id
  | ENOMEM

record conn =
  cn_id :: conn_id
  cn_readC :: "byte list list"
  cn_done :: bool

record mux =
  mx_heap :: "conn list"
  mx_conns :: "(conn_id, nat) gomap"
  mx_qlen :: nat
  mx_err :: "mux_error option"
  mx_blocked :: bool
  mx_done :: bool

definition Unblock :: "mux \<Rightarrow> mux" where
  "Unblock m = m\<lparr>mx_blocked := False\<rparr>"

definition WithReadQueueLength :: "nat \<Rightarrow> mux \<Rightarrow> mux" where
  "WithReadQueueLength n m = m\<lparr>mx_qlen := n\<rparr>"

text \<open>\<open>blocked\<close> is whether \<^verbatim>\<open>WithBlockedRead\<close> is among the options.\<close>

definition newMux :: "bool \<Rightarrow> (mux \<Rightarrow> mux) list \<Rightarrow> mux" where
  "newMux blocked options =
     (let m = fold (\<lambda>opt m. opt m) options
        \<lparr>mx_heap = [], mx_conns = [], mx_qlen = readQueueLen, mx_err = None, mx_blocked = True, mx_done = False\<rparr>
      in if blocked then m else Unblock m)"

definition mux_Open :: "conn_id \<Rightarrow> mux \<Rightarrow> (mux_error + nat) \<times> mux" where
  "mux_Open cid m =
     (if cid = reservedConnID then (Inl (Reserved cid), m)
      else (case map_of (mx_conns m) cid of
              Some r \<Rightarrow> (Inr r, m)
            | None \<Rightarrow> (Inr (length (mx_heap m)), m\<lparr>
                mx_heap := mx_heap m @ [\<lparr>cn_id = cid, cn_readC = [], cn_done = False\<rparr>],
                mx_conns := AList.update cid (length (mx_heap m)) (mx_conns m)\<rparr>)))"

definition upd_conn :: "nat \<Rightarrow> (conn \<Rightarrow> conn) \<Rightarrow> mux \<Rightarrow> mux" where
  "upd_conn r f m = m\<lparr>mx_heap := (mx_heap m)[r := f (mx_heap m ! r)]\<rparr>"

definition conn_close :: "nat \<Rightarrow> mux \<Rightarrow> mux" where
  "conn_close r = upd_conn r (\<lambda>c. c\<lparr>cn_done := True\<rparr>)"

definition mux_Close :: "mux \<Rightarrow> mux" where
  "mux_Close m =
     (if mx_done m then m else (fold (\<lambda>(_, r). conn_close r) (mx_conns m) m)\<lparr>mx_done := True\<rparr>)"

definition conn_Close :: "nat \<Rightarrow> mux \<Rightarrow> mux" where
  "conn_Close r m =
     (let cid = cn_id (mx_heap m ! r) in
      conn_close r (if map_of (mx_conns m) cid = Some r then m\<lparr>mx_conns := AList.delete cid (mx_conns m)\<rparr> else m))"

definition setError :: "mux_error \<Rightarrow> mux \<Rightarrow> mux" where
  "setError e m = (if mx_err m = None then m\<lparr>mx_err := Some e\<rparr> else m)"

definition mux_error_of :: "mux \<Rightarrow> mux_error \<times> mux" where
  "mux_error_of m = (case mx_err m of Some e \<Rightarrow> (e, m) | None \<Rightarrow> (EOF, m\<lparr>mx_err := Some EOF\<rparr>))"

section \<open>Writing\<close>

type_synonym 't trunk_write = "byte list \<Rightarrow> 't \<Rightarrow> (nat \<times> string option) \<times> 't"

text \<open>What a failed write to the trunk leaves.\<close>

definition write_failed :: "mux_error \<Rightarrow> nat \<Rightarrow> mux \<Rightarrow> mux" where
  "write_failed err n m = (if n \<noteq> 0 then mux_Close (setError err m) else m)"

function write_loop ::
    "'t trunk_write \<Rightarrow> conn_id \<Rightarrow> byte list \<Rightarrow> nat \<Rightarrow> mux \<Rightarrow> 't \<Rightarrow> mux_error option \<times> mux \<times> 't" where
  "write_loop tw cid data sz0 m t0 =
     (let sz = (if sz0 > maxPayloadSize then maxPayloadSize else sz0) in
      case tw (header cid sz) t0 of
        ((n, Some e), t1) \<Rightarrow> (Some (WriteHeader e), write_failed (WriteHeader e) n m, t1)
      | ((_, None), t1) \<Rightarrow>
         (case tw (take sz data) t1 of
            ((n, Some e), t2) \<Rightarrow> (Some (WritePayload e), write_failed (WritePayload e) n m, t2)
          | ((_, None), t2) \<Rightarrow>
             (let data' = drop sz data; sz' = (if sz > length data' then length data' else sz) in
              if sz' = 0 then (None, m, t2) else write_loop tw cid data' sz' m t2)))"
  by pat_completeness auto
termination
  by (relation "measure (\<lambda>(tw, cid, data, sz, m, t). length data)") (auto split: if_splits)

definition mux_write :: "'t trunk_write \<Rightarrow> conn_id \<Rightarrow> byte list \<Rightarrow> mux \<Rightarrow> 't \<Rightarrow> (nat \<times> mux_error option) \<times> mux \<times> 't" where
  "mux_write tw cid buf m t =
     (case write_loop tw cid buf (length buf) m t of
        (None, m', t') \<Rightarrow> ((length buf, None), m', t')
      | (Some e, m', t') \<Rightarrow> ((0, Some e), m', t'))"

definition conn_Write :: "'t trunk_write \<Rightarrow> nat \<Rightarrow> byte list \<Rightarrow> mux \<Rightarrow> 't \<Rightarrow> (nat \<times> mux_error option) \<times> mux \<times> 't" where
  "conn_Write tw r b m t =
     (if cn_done (mx_heap m ! r) then ((0, Some EOF), m, t) else mux_write tw (cn_id (mx_heap m ! r)) b m t)"

section \<open>Reading\<close>

type_synonym stream = "byte list \<times> trunk_error"

text \<open>\<^verbatim>\<open>io.ReadFull\<close>.\<close>

definition ReadFull :: "nat \<Rightarrow> stream \<Rightarrow> (trunk_error + byte list) \<times> stream" where
  "ReadFull n s =
     (if n \<le> length (fst s) then (Inr (take n (fst s)), (drop n (fst s), snd s))
      else if fst s = [] then (Inl (snd s), s)
      else (Inl (if snd s = TrunkEOF then UnexpectedEOF else snd s), ([], snd s)))"

definition read_error :: "(trunk_error \<Rightarrow> mux_error) \<Rightarrow> trunk_error \<Rightarrow> mux_error" where
  "read_error wrap e = (if e \<in> {TrunkEOF, TtrpcClosed, TtrpcServerClosed, NetClosed} then EOF else wrap e)"

text \<open>A frame for a connection that is not open is dropped; one that does not fit the queue ends everything.\<close>

definition deliver :: "conn_id \<Rightarrow> byte list \<Rightarrow> mux \<Rightarrow> bool \<times> mux" where
  "deliver cid buf m =
     (case map_of (mx_conns m) cid of
        None \<Rightarrow> (True, m)
      | Some r \<Rightarrow>
         if length (cn_readC (mx_heap m ! r)) < mx_qlen m
         then (True, upd_conn r (\<lambda>c. c\<lparr>cn_readC := cn_readC c @ [buf]\<rparr>) m)
         else (False, mux_Close (setError QueueFull m)))"

text \<open>One round of the reader, once it is unblocked, and whether another one follows.\<close>

definition reader_round :: "mux \<Rightarrow> stream \<Rightarrow> bool \<times> mux \<times> stream" where
  "reader_round m s =
     (if mx_done m then (False, m, s)
      else (case ReadFull headerLen s of
        (Inl e, s1) \<Rightarrow> (False, mux_Close (setError (read_error ReadHeader e) m), s1)
      | (Inr hdr, s1) \<Rightarrow>
          (let cid = Uint32 (take 4 hdr); cnt = Uint32 (drop 4 hdr) in
           case ReadFull (unat cnt) s1 of
             (Inl e, s2) \<Rightarrow> (False, mux_Close (setError (read_error ReadPayload e) m), s2)
           | (Inr buf, s2) \<Rightarrow> (case deliver cid buf m of (go_on, m') \<Rightarrow> (go_on, m', s2)))))"

datatype read_result = Blocks | Got nat "byte list" | ReadFails mux_error

text \<open>
  Reading into a buffer of the given length and capacity. When the connection is closed and messages are
  queued, \<^verbatim>\<open>select\<close> takes either: \<open>pick\<close>. The result is the number returned and what is in the buffer.
\<close>

definition conn_Read :: "bool \<Rightarrow> nat \<Rightarrow> nat \<Rightarrow> nat \<Rightarrow> mux \<Rightarrow> read_result \<times> mux" where
  "conn_Read pick r len capacity m =
     (let c = mx_heap m ! r in
      if cn_done c \<and> (cn_readC c = [] \<or> pick) then (let (e, m') = mux_error_of m in (ReadFails e, m'))
      else (case cn_readC c of
              [] \<Rightarrow> (Blocks, m)
            | msg # rest \<Rightarrow>
               (let m' = upd_conn r (\<lambda>c. c\<lparr>cn_readC := rest\<rparr>) m in
                if capacity < length msg then (ReadFails ENOMEM, m')
                else (Got (length msg) (take len msg), m'))))"

end
