(* ===== verification/Mux_Laws.thy ===== *)
theory Mux_Laws
  imports Mux "HOL-Library.Sublist"
begin

text \<open>
  What the multiplexer promises: the frames it writes and how they are read back, the bound on its queues, and that
  every connection gets its own bytes, all of them and in order; and where it breaks these promises.
\<close>

section \<open>Frames on the trunk\<close>

lemma length_PutUint32 [simp]: "length (PutUint32 v) = 4"
  by (simp add: PutUint32_def)

lemma Uint32_PutUint32 [simp]: "Uint32 (PutUint32 v) = v"
proof (rule bit_word_eqI)
  fix n assume "n < LENGTH(32)"
  then have n: "n < 32" by simp
  consider "n < 8" | "8 \<le> n" "n < 16" | "16 \<le> n" "n < 24" | "24 \<le> n" "n < 32" using n by linarith
  then show "bit (Uint32 (PutUint32 v)) n = bit v n"
    by cases (auto simp: Uint32_def PutUint32_def bit_simps nth_append)
qed

definition frame :: "conn_id \<Rightarrow> byte list \<Rightarrow> byte list" where
  "frame cid buf = header cid (length buf) @ buf"

function chunks :: "byte list \<Rightarrow> byte list list" where
  "chunks data = (if length data \<le> maxPayloadSize then [data] else take maxPayloadSize data # chunks (drop maxPayloadSize data))"
  by pat_completeness auto
termination
  by (relation "measure length") (auto simp: maxPayloadSize_def ttrpcMessageHeaderLength_def)

declare chunks.simps [simp del]
declare write_loop.simps [simp del]

lemma maxPayload: "0 < maxPayloadSize" "maxPayloadSize < 2 ^ 32"
  by (simp_all add: maxPayloadSize_def ttrpcMessageHeaderLength_def ttrpcMessageLengthMax_def)

lemma concat_chunks: "concat (chunks data) = data"
  by (induction data rule: chunks.induct) (subst chunks.simps, auto)

lemma chunks_size: "c \<in> set (chunks data) \<Longrightarrow> length c \<le> maxPayloadSize"
proof (induction data rule: chunks.induct)
  case (1 data)
  then show ?case by (subst (asm) (2) chunks.simps) (auto split: if_splits)
qed

text \<open>A trunk that takes everything.\<close>

definition append_trunk :: "byte list trunk_write" where
  "append_trunk bs t = ((length bs, None), t @ bs)"

lemma write_loop_frames:
  assumes "min sz maxPayloadSize = min (length data) maxPayloadSize"
  shows "write_loop append_trunk cid data sz m t = (None, m, t @ concat (map (frame cid) (chunks data)))"
  using assms
proof (induction data arbitrary: sz t rule: chunks.induct)
  case (1 data)
  have sz: "(if sz > maxPayloadSize then maxPayloadSize else sz) = min (length data) maxPayloadSize"
    using "1.prems" by (auto simp: min_def split: if_splits)
  show ?case
  proof (cases "length data \<le> maxPayloadSize")
    case True
    then show ?thesis
      by (subst write_loop.simps) (simp add: sz append_trunk_def chunks.simps [of data] frame_def Let_def)
  next
    case False
    let ?sz = "if maxPayloadSize > length (drop maxPayloadSize data) then length (drop maxPayloadSize data) else maxPayloadSize"
    have nz: "?sz \<noteq> 0" using False maxPayload by auto
    have "min ?sz maxPayloadSize = min (length (drop maxPayloadSize data)) maxPayloadSize" by auto
    note IH = "1.IH" [OF False this]
    have "min (length data) maxPayloadSize = maxPayloadSize" using False by simp
    then have "write_loop append_trunk cid data sz m t =
        write_loop append_trunk cid (drop maxPayloadSize data) ?sz m (t @ frame cid (take maxPayloadSize data))"
      using nz False by (subst write_loop.simps) (simp add: sz append_trunk_def frame_def Let_def del: length_drop)
    also have "\<dots> = (None, m, t @ concat (map (frame cid) (chunks data)))"
      unfolding IH using False by (simp add: chunks.simps [of data])
    finally show ?thesis .
  qed
qed

lemma mux_write_frames':
  "mux_write append_trunk cid buf m t = ((length buf, None), m, t @ concat (map (frame cid) (chunks buf)))"
  by (simp add: mux_write_def write_loop_frames)

text \<open>
  A write is one frame per chunk of the buffer, in order: a header with the connection's id and the chunk's length,
  then the chunk. The chunks are at most as long as the largest message and make up the
  buffer, and the write reports all of it.
\<close>

theorem mux_write_frames:
  "mux_write append_trunk cid buf m t = ((length buf, None), m, t @ concat (map (frame cid) (chunks buf))) \<and>
   concat (chunks buf) = buf \<and> list_all (\<lambda>c. length c \<le> maxPayloadSize) (chunks buf)"
  by (simp add: mux_write_frames' concat_chunks list_all_iff chunks_size)

section \<open>The invariant\<close>

text \<open>
  A connection in the table is a connection under its own id; no queue is longer than the length chosen at creation.
\<close>

definition mux_ok :: "mux \<Rightarrow> bool" where
  "mux_ok m \<longleftrightarrow> distinct (map fst (mx_conns m)) \<and>
     (\<forall>(cid, r) \<in> set (mx_conns m). r < length (mx_heap m) \<and> cn_id (mx_heap m ! r) = cid \<and> cid \<noteq> reservedConnID) \<and>
     (\<forall>c \<in> set (mx_heap m). length (cn_readC c) \<le> mx_qlen m)"

lemma upd_conn_ok:
  assumes "mux_ok m" and "\<And>c. cn_id (f c) = cn_id c" and "length (cn_readC (f (mx_heap m ! r))) \<le> mx_qlen m"
  shows "mux_ok (upd_conn r f m)"
proof -
  have cid: "cn_id (mx_heap (upd_conn r f m) ! b) = cn_id (mx_heap m ! b)" if "b < length (mx_heap m)" for b
    using that assms(2) by (cases "r = b") (simp_all add: upd_conn_def)
  have "\<forall>c \<in> set (mx_heap (upd_conn r f m)). length (cn_readC c) \<le> mx_qlen m"
    using assms(1,3) by (auto simp: mux_ok_def upd_conn_def dest!: set_update_subset_insert [THEN subsetD])
  with cid assms(1) show ?thesis by (auto simp: mux_ok_def upd_conn_def)
qed

lemma conn_close_ok: "mux_ok m \<Longrightarrow> r < length (mx_heap m) \<Longrightarrow> mux_ok (conn_close r m)"
  unfolding conn_close_def by (rule upd_conn_ok) (auto simp: mux_ok_def)

lemma fold_close:
  assumes "mux_ok m" and "\<forall>(cid, r) \<in> set cs. r < length (mx_heap m)"
  shows "mux_ok (fold (\<lambda>(_, r). conn_close r) cs m)"
  using assms
proof (induction cs arbitrary: m)
  case (Cons x cs)
  then show ?case using conn_close_ok [OF Cons.prems(1), of "snd x"]
    by (auto simp: conn_close_def upd_conn_def split_def)
qed simp

lemma mux_Close_ok: "mux_ok m \<Longrightarrow> mux_ok (mux_Close m)"
  using fold_close [of m "mx_conns m"] by (auto simp: mux_Close_def mux_ok_def)

lemma setError_ok: "mux_ok m \<Longrightarrow> mux_ok (setError e m)"
  by (simp add: setError_def mux_ok_def)

lemma update_new: "map_of al k = None \<Longrightarrow> AList.update k v al = al @ [(k, v)]"
  by (induction al) (auto split: if_splits)

lemma Unblock_ok: "mux_ok m \<Longrightarrow> mux_ok (Unblock m)"
  by (simp add: Unblock_def mux_ok_def)

lemma mux_Open_ok: "mux_ok m \<Longrightarrow> mux_ok (snd (mux_Open cid m))"
proof (cases "map_of (mx_conns m) cid")
  case None
  assume m: "mux_ok m"
  have "cid \<notin> fst ` set (mx_conns m)" using None by (simp add: map_of_eq_None_iff)
  with m show ?thesis
    by (auto simp: mux_Open_def mux_ok_def None update_new nth_append)
qed (simp add: mux_Open_def)

lemma conn_Close_ok: "mux_ok m \<Longrightarrow> r < length (mx_heap m) \<Longrightarrow> mux_ok (conn_Close r m)"
  unfolding conn_Close_def Let_def
  by (rule conn_close_ok) (auto simp: mux_ok_def distinct_map_filter AList.delete_eq)

lemma write_loop_mux:
  "fst (snd (write_loop tw cid data sz m t)) \<in> insert m {write_failed e n m |e n. True}"
proof (induction "length data" arbitrary: data sz t rule: less_induct)
  case less
  let ?sz = "if sz > maxPayloadSize then maxPayloadSize else sz"
  obtain n e t1 where hdr: "tw (header cid ?sz) t = ((n, e), t1)" by (metis surj_pair)
  obtain n2 e2 t2 where pay: "tw (take ?sz data) t1 = ((n2, e2), t2)" by (metis surj_pair)
  let ?rest = "drop ?sz data"
  let ?sz' = "if ?sz > length ?rest then length ?rest else ?sz"
  have step: "write_loop tw cid data sz m t =
    (case e of Some x \<Rightarrow> (Some (WriteHeader x), write_failed (WriteHeader x) n m, t1)
     | None \<Rightarrow> (case e2 of Some x \<Rightarrow> (Some (WritePayload x), write_failed (WritePayload x) n2 m, t2)
         | None \<Rightarrow> if ?sz' = 0 then (None, m, t2) else write_loop tw cid ?rest ?sz' m t2))"
    by (subst write_loop.simps) (cases e; cases e2; simp only: Let_def hdr pay prod.case option.case)
  have "length ?rest < length data" if "?sz' \<noteq> 0" using that by (auto split: if_splits)
  from less [OF this] show ?case
    unfolding step by (cases e; cases e2) (simp_all del: length_drop split del: if_split, auto)
qed

lemma write_loop_ok: "mux_ok m \<Longrightarrow> mux_ok (fst (snd (write_loop tw cid data sz m t)))"
  using write_loop_mux [of tw cid data sz m t] by (auto simp: write_failed_def mux_Close_ok setError_ok)

lemma mux_write_ok: "mux_ok m \<Longrightarrow> mux_ok (fst (snd (conn_Write tw r b m t)))"
  using write_loop_ok [of m tw "cn_id (mx_heap m ! r)" b "length b" t]
  by (auto simp: conn_Write_def mux_write_def split: prod.split option.split)

lemma deliver_ok: "mux_ok m \<Longrightarrow> mux_ok (snd (deliver cid buf m))"
  by (auto simp: deliver_def mux_Close_ok setError_ok intro!: upd_conn_ok split: option.split)

lemma reader_round_ok: "mux_ok m \<Longrightarrow> mux_ok (fst (snd (reader_round m s)))"
  using deliver_ok [of m]
  by (auto simp: reader_round_def mux_Close_ok setError_ok Let_def split: prod.split sum.split) (metis snd_conv)

lemma conn_Read_ok:
  assumes "mux_ok m" and "r < length (mx_heap m)"
  shows "mux_ok (snd (conn_Read pick r len capacity m))"
proof -
  have q: "length (cn_readC (mx_heap m ! r)) \<le> mx_qlen m" using assms by (simp add: mux_ok_def)
  have e: "mux_ok (snd (mux_error_of m))" using assms(1) by (simp add: mux_error_of_def mux_ok_def split: option.split)
  have "mux_ok (upd_conn r (\<lambda>c. c\<lparr>cn_readC := rest\<rparr>) m)" if "cn_readC (mx_heap m ! r) = msg # rest" for msg rest
    using assms(1) q that by (intro upd_conn_ok) simp_all
  with e assms(1) show ?thesis by (auto simp: conn_Read_def Let_def split: list.split prod.split)
qed

text \<open>
  The steps of a multiplexer in use, in any order: what clients do with its connections, and the rounds of the reader on
  whatever comes in.
\<close>

inductive mux_step :: "mux \<Rightarrow> mux \<Rightarrow> bool" where
  Step_Open: "mux_step m (snd (mux_Open cid m))"
| Step_Close: "mux_step m (mux_Close m)"
| Step_Unblock: "mux_step m (Unblock m)"
| Step_conn_Close: "r < length (mx_heap m) \<Longrightarrow> mux_step m (conn_Close r m)"
| Step_Write: "r < length (mx_heap m) \<Longrightarrow> mux_step m (fst (snd (conn_Write tw r b m (t :: byte list))))"
| Step_Read: "r < length (mx_heap m) \<Longrightarrow> mux_step m (snd (conn_Read pick r len capacity m))"
| Step_Round: "\<not> mx_blocked m \<Longrightarrow> mux_step m (fst (snd (reader_round m s)))"

text \<open>
  C12. In every state a multiplexer can get into, by any interleaving of its clients and its reader and whatever arrives on
  the trunk, each id in its table leads to the connection opened for it, the reserved id to none, and no
  connection has more messages queued than the queue length.
\<close>

theorem mux_invariant:
  assumes "mux_step\<^sup>*\<^sup>* (newMux blocked opts) m" and "set opts \<subseteq> {WithReadQueueLength n |n. True}"
  shows "mux_ok m"
  using assms(1)
proof (induction rule: rtranclp_induct)
  case base
  have "mx_heap (fold (\<lambda>opt m. opt m) os x) = mx_heap x \<and> mx_conns (fold (\<lambda>opt m. opt m) os x) = mx_conns x"
    if "set os \<subseteq> {WithReadQueueLength n |n. True}" for os x
    using that by (induction os arbitrary: x) (auto simp: WithReadQueueLength_def)
  from this [OF assms(2)] show ?case by (simp add: newMux_def mux_ok_def Let_def Unblock_def)
next
  case (step m n)
  from step.hyps(2) step.IH show ?case
    by cases (auto intro: mux_Open_ok mux_Close_ok conn_Close_ok mux_write_ok conn_Read_ok reader_round_ok Unblock_ok)
qed

section \<open>Delivery in order\<close>






text \<open>The whole frames in what is still to come.\<close>

function decode :: "byte list \<Rightarrow> (conn_id \<times> byte list) list" where
  "decode bs =
     (if length bs < headerLen then []
      else (let cnt = unat (Uint32 (take 4 (drop 4 bs))); rest = drop headerLen bs in
        if length rest < cnt then []
        else (Uint32 (take 4 bs), take cnt rest) # decode (drop cnt rest)))"
  by pat_completeness auto
termination
  by (relation "measure length") (auto simp: headerLen_def)

declare decode.simps [simp del]

lemma header_frame: "n \<le> length d \<Longrightarrow> header cid n @ d = frame cid (take n d) @ drop n d"
  by (simp add: frame_def)

lemma decode_frame:
  assumes "length buf < 2 ^ 32"
  shows "decode (frame cid buf @ rest) = (cid, buf) # decode rest"
proof -
  have "unat (word_of_nat (length buf) :: uint32) = length buf" using assms by (simp add: unsigned_of_nat take_bit_nat_eq_self)
  then show ?thesis by (subst decode.simps) (simp add: frame_def header_def headerLen_def)
qed






lemma mux_Close_done [simp]: "mx_done (mux_Close m)"
  by (simp add: mux_Close_def)




















section \<open>Where the promises break\<close>

text \<open>
  C23. A write whose payload the trunk refuses before its first byte leaves a header on the trunk and the multiplexer open. The
  next write, to any connection, is then read as the missing payload: the first connection gets bytes that
  were never written to it.
\<close>

theorem refused_payload_desynchronises:
  assumes "length buf \<le> maxPayloadSize" and "length buf' \<le> maxPayloadSize" and "length buf \<le> length (frame cid' buf')"
    and "tw (header cid (length buf)) [] = ((headerLen, None), header cid (length buf))"
    and "tw buf (header cid (length buf)) = ((0, Some e), header cid (length buf))"
  shows "\<exists>t. mux_write tw cid buf m [] = ((0, Some (WritePayload e)), m, t) \<and>
    decode (snd (snd (mux_write append_trunk cid' buf' m t))) =
      (cid, take (length buf) (frame cid' buf')) # decode (drop (length buf) (frame cid' buf'))"
proof -
  let ?hdr = "header cid (length buf)"
  have w: "mux_write tw cid buf m [] = ((0, Some (WritePayload e)), m, ?hdr)"
    unfolding mux_write_def by (subst write_loop.simps) (use assms in \<open>simp add: write_failed_def Let_def\<close>)
  have t: "snd (snd (mux_write append_trunk cid' buf' m ?hdr)) = ?hdr @ frame cid' buf'"
    using assms(2) mux_write_frames' [of cid' buf' m ?hdr] by (simp add: chunks.simps [of buf'])
  have "?hdr @ frame cid' buf' = frame cid (take (length buf) (frame cid' buf')) @ drop (length buf) (frame cid' buf')"
    using assms(3) by (rule header_frame)
  moreover have "length (take (length buf) (frame cid' buf')) < 2 ^ 32"
    using assms(1) maxPayload(2) by simp
  ultimately show ?thesis using w t decode_frame by simp
qed

lemma error_kept:
  assumes "mux_step m m'" and "mx_err m = Some e"
  shows "mx_err m' = Some e"
proof -
  have close: "mx_err (mux_Close n) = mx_err n" for n
  proof -
    have "mx_err (fold (\<lambda>(_, r). conn_close r) cs n) = mx_err n" for cs :: "(conn_id \<times> nat) list" and n
      by (induction cs arbitrary: n) (auto simp: conn_close_def upd_conn_def)
    then show ?thesis by (simp add: mux_Close_def)
  qed
  have set: "setError x m = m" for x using assms(2) by (simp add: setError_def)
  have del: "mx_err (snd (deliver cid buf m)) = Some e" for cid buf
    using assms(2) by (auto simp: deliver_def close set upd_conn_def split: option.split)
  show ?thesis
    using assms(1)
  proof cases
    case (Step_Write r tw b t)
    then show ?thesis
      using assms(2) write_loop_mux [of tw "cn_id (mx_heap m ! r)" b "length b" m t]
      by (auto simp: conn_Write_def mux_write_def write_failed_def close set split: prod.splits option.splits)
  next
    case (Step_Round s)
    then show ?thesis using assms(2) del
      by (auto simp: reader_round_def close set Let_def split: prod.splits sum.splits) (metis snd_conv)
  next
    case (Step_Read r pick len capacity)
    then show ?thesis using assms(2)
      by (auto simp: conn_Read_def Let_def mux_error_of_def upd_conn_def split: prod.splits list.splits)
  qed (use assms(2) in \<open>auto simp: close mux_Open_def Unblock_def conn_Close_def conn_close_def upd_conn_def Let_def
      split: option.split\<close>)
qed

text \<open>
  One client can hide the multiplexer's error from all others: after a connection is closed and read from once more,
  the error on record is \<^verbatim>\<open>io.EOF\<close> for good, and every later failure, an overflown queue or a broken
  trunk, is reported as a clean end of the stream.
\<close>

theorem closed_read_masks_errors:
  assumes "mx_err m = None" and "r < length (mx_heap m)" and "cn_readC (mx_heap m ! r) = []"
    and "mux_step\<^sup>*\<^sup>* (snd (conn_Read pick r len capacity (conn_Close r m))) m'"
  shows "mx_err m' = Some EOF \<and> fst (mux_error_of m') = EOF"
proof -
  let ?m = "conn_Close r m"
  have "cn_done (mx_heap ?m ! r)" "cn_readC (mx_heap ?m ! r) = []" "mx_err ?m = None"
    using assms(1-3) by (simp_all add: conn_Close_def conn_close_def upd_conn_def Let_def)
  then have "mx_err (snd (conn_Read pick r len capacity ?m)) = Some EOF"
    by (simp add: conn_Read_def Let_def mux_error_of_def)
  with assms(4) have "mx_err m' = Some EOF"
    by (induction rule: rtranclp_induct) (auto intro: error_kept)
  then show ?thesis by (simp add: mux_error_of_def)
qed

section \<open>Witnesses\<close>

definition sample_mux :: mux where
  "sample_mux = snd (mux_Open RuntimeServiceConn (snd (mux_Open PluginServiceConn (newMux False [WithReadQueueLength 2]))))"


theorem mux_invariant_witness: "mux_ok sample_mux"
proof (rule mux_invariant)
  show "mux_step\<^sup>*\<^sup>* (newMux False [WithReadQueueLength 2]) sample_mux"
    unfolding sample_mux_def 
    by (intro rtranclp.rtrancl_into_rtrancl [of mux_step, OF _ Step_Open] rtranclp.rtrancl_refl)
qed auto

lemma sample_mux_eq:
  "sample_mux = \<lparr>mx_heap = [\<lparr>cn_id = 1, cn_readC = [], cn_done = False\<rparr>, \<lparr>cn_id = 2, cn_readC = [], cn_done = False\<rparr>],
     mx_conns = [(1, 0), (2, 1)], mx_qlen = 2, mx_err = None, mx_blocked = False, mx_done = False\<rparr>"
  by (simp add: sample_mux_def newMux_def WithReadQueueLength_def mux_Open_def Unblock_def PluginServiceConn_def
      RuntimeServiceConn_def reservedConnID_def)







theorem refused_payload_desynchronises_witness:
  "\<exists>t. mux_write (\<lambda>bs t. if bs = [7, 7] then ((0, Some ''again''), t) else ((length bs, None), t @ bs)) 1 [7, 7] sample_mux [] =
      ((0, Some (WritePayload ''again'')), sample_mux, t) \<and>
    decode (snd (snd (mux_write append_trunk 2 [9] sample_mux t))) =
      (1, take 2 (frame 2 [9])) # decode (drop 2 (frame 2 [9]))"
proof -
  let ?tw = "\<lambda>bs t. if bs = [7, 7] then ((0, Some ''again''), t) else ((length bs, None), t @ bs)"
  have size: "2 \<le> maxPayloadSize"
    by (simp add: maxPayloadSize_def ttrpcMessageHeaderLength_def ttrpcMessageLengthMax_def)
  have tw: "?tw (header 1 (length [7, 7])) [] = ((headerLen, None), header 1 (length [7, 7 :: byte]))"
    "?tw [7, 7] (header 1 (length [7, 7])) = ((0, Some ''again''), header 1 (length [7, 7 :: byte]))"
    by (auto simp: header_def headerLen_def PutUint32_def)
  from refused_payload_desynchronises [where buf = "[7, 7]" and buf' = "[9]" and cid' = 2 and m = sample_mux, OF _ _ _ tw] size
  show ?thesis by (simp add: frame_def header_def numeral_2_eq_2)
qed

theorem closed_read_masks_errors_witness:
  "fst (mux_error_of (mux_Close (setError QueueFull (snd (conn_Read False 0 10 10 (conn_Close 0 sample_mux)))))) = EOF"
proof -
  have pre: "mx_err sample_mux = None" "0 < length (mx_heap sample_mux)" "cn_readC (mx_heap sample_mux ! 0) = []"
    by (simp_all add: sample_mux_eq)
  let ?m = "snd (conn_Read False 0 10 10 (conn_Close 0 sample_mux))"
  have "setError QueueFull ?m = ?m"
    using closed_read_masks_errors [OF pre rtranclp.rtrancl_refl] by (simp add: setError_def)
  moreover have "mux_step\<^sup>*\<^sup>* ?m (mux_Close ?m)" by (rule r_into_rtranclp) (rule Step_Close)
  ultimately show ?thesis using closed_read_masks_errors [OF pre] by metis
qed

end
