(* ===== verification/Startup.thy ===== *)
theory Startup
  imports Generator_Adjust Validator Relay_Laws
begin

text \<open>
  How the runtime comes by its plugins (\<^verbatim>\<open>src/pkg/adaptation/adaptation.go\<close> and the starting half of
  \<^verbatim>\<open>src/pkg/adaptation/plugin.go\<close>): creation with options, discovery of plugin binaries and their
  configuration, launching, registration and configuration, synchronisation before the plugins go into
  service, external plugins that connect, and the lock that blocks synchronisation.

  What the operating system, a plugin and the runtime answer are parameters: directory listings and
  file contents, a record of outcomes per launch and per connection, and the runtime's synchronisation
  callback, a tree of the calls it makes back. The state \<open>host\<close> is the adaptation, with the plugins' table as
  the store of all plugin structs ever made, and two lists of keys of that table: the processes that were launched and not
  killed, and the connections that were set up and not closed. A connection that drops by itself is
  \<open>disconnect\<close> of \<open>ad_step\<close>.
\<close>

section \<open>Creation\<close>

record 'o settings =
  se_name :: string
  se_version :: string
  se_dropinPath :: string
  se_pluginPath :: string
  se_socketPath :: string
  se_dontListen :: bool
  se_clientOpts :: "'o list"
  se_serverOpts :: "'o list"
  se_builtin :: "builtin_plugin list"
  se_wasmService :: bool

type_synonym 'o setting = "'o settings \<Rightarrow> string + 'o settings"

definition WithPluginPath :: "string \<Rightarrow> 'o setting" where
  "WithPluginPath path r = Inr (r\<lparr>se_pluginPath := path\<rparr>)"

definition WithPluginConfigPath :: "string \<Rightarrow> 'o setting" where
  "WithPluginConfigPath path r = Inr (r\<lparr>se_dropinPath := path\<rparr>)"

definition Adaptation_WithSocketPath :: "string \<Rightarrow> 'o setting" where
  "Adaptation_WithSocketPath path r = Inr (r\<lparr>se_socketPath := path\<rparr>)"

definition WithDisabledExternalConnections :: "'o setting" where
  "WithDisabledExternalConnections r = Inr (r\<lparr>se_dontListen := True\<rparr>)"

definition WithTTRPCOptions :: "'o list \<Rightarrow> 'o list \<Rightarrow> 'o setting" where
  "WithTTRPCOptions client server r =
     Inr (r\<lparr>se_clientOpts := se_clientOpts r @ client, se_serverOpts := se_serverOpts r @ server\<rparr>)"

definition WithBuiltinPlugins :: "builtin_plugin list \<Rightarrow> 'o setting" where
  "WithBuiltinPlugins plugins r = Inr (r\<lparr>se_builtin := se_builtin r @ plugins\<rparr>)"

text \<open>The argument is what \<open>GetDefaultValidator\<close> makes of the configuration.\<close>

definition WithDefaultValidator :: "builtin_plugin option \<Rightarrow> 'o setting" where
  "WithDefaultValidator validator r =
     Inr (case validator of None \<Rightarrow> r | Some p \<Rightarrow> r\<lparr>se_builtin := [p] @ se_builtin r\<rparr>)"

datatype wasm_init = WasmService | WasmDisabled | WasmBroken string

datatype new_error = NilSyncFn | NilUpdateFn | WasmFailed string | SettingFailed string

definition NewAdaptation ::
    "bool \<Rightarrow> bool \<Rightarrow> wasm_init \<Rightarrow> string \<Rightarrow> string \<Rightarrow> 'o setting list \<Rightarrow> new_error + 'o settings" where
  "NewAdaptation syncFn updateFn wasm name version opts =
     (if \<not> syncFn then Inl NilSyncFn
      else if \<not> updateFn then Inl NilUpdateFn
      else (case wasm of
              WasmBroken e \<Rightarrow> Inl (WasmFailed e)
            | _ \<Rightarrow>
               (case for_each opts (\<lambda>opt r. case opt r of Inl e \<Rightarrow> (Failed e, r) | Inr r' \<Rightarrow> (Done, r'))
                      \<lparr>se_name = name, se_version = version, se_dropinPath = ''/etc/nri/conf.d'',
                       se_pluginPath = ''/opt/nri/plugins'', se_socketPath = ''/var/run/nri/nri.sock'',
                       se_dontListen = False, se_clientOpts = [], se_serverOpts = [], se_builtin = [],
                       se_wasmService = (wasm = WasmService)\<rparr> of
                  (Failed e, _) \<Rightarrow> Inl (SettingFailed e)
                | (_, r) \<Rightarrow> Inr r)))"

section \<open>Discovery\<close>

record dir_entry =
  de_name :: string
  de_is_dir :: bool
  de_mode :: "uint32 option"

datatype listing = NoDirectory | Unreadable string | Entries "dir_entry list"

datatype file_read = Contents string | NotExist | ReadError string

datatype discovery_error = DirUnreadable string | BadName name_error | ConfigUnreadable string string

text \<open>\<^verbatim>\<open>filepath.Join\<close> of two elements.\<close>

definition Join2 :: "string \<Rightarrow> string \<Rightarrow> string" where
  "Join2 a b =
     (if a = [] then (if b = [] then [] else Clean b) else Clean (a @ ''/'' @ b))"

definition getPluginConfig ::
    "(string \<Rightarrow> file_read) \<Rightarrow> string \<Rightarrow> string \<Rightarrow> string \<Rightarrow> discovery_error + string" where
  "getPluginConfig read dropin idx base =
     (let name = idx @ ''-'' @ base in
      case read (Join2 dropin (name @ ''.conf'')) of
        Contents c \<Rightarrow> Inr c
      | ReadError e \<Rightarrow> Inl (ConfigUnreadable name e)
      | NotExist \<Rightarrow>
         (case read (Join2 dropin (base @ ''.conf'')) of
            Contents c \<Rightarrow> Inr c
          | ReadError e \<Rightarrow> Inl (ConfigUnreadable name e)
          | NotExist \<Rightarrow> Inr []))"

text \<open>An entry that is looked at: not a directory, its mode can be had and has an executable bit (mask \<^verbatim>\<open>0o111\<close>).\<close>

definition is_candidate :: "dir_entry \<Rightarrow> bool" where
  "is_candidate e \<longleftrightarrow>
     \<not> de_is_dir e \<and> (case de_mode e of None \<Rightarrow> False | Some mode \<Rightarrow> and mode 0x49 \<noteq> 0)"

record discovered =
  di_idx :: string
  di_base :: string
  di_cfg :: string

fun discover_entries ::
    "(string \<Rightarrow> file_read) \<Rightarrow> string \<Rightarrow> dir_entry list \<Rightarrow> discovery_error + discovered list" where
  "discover_entries read dropin [] = Inr []"
| "discover_entries read dropin (e # es) =
     (if \<not> is_candidate e then discover_entries read dropin es
      else (case ParsePluginName (de_name e) of
              Inl err \<Rightarrow> Inl (BadName err)
            | Inr (idx, base) \<Rightarrow>
               (case getPluginConfig read dropin idx base of
                  Inl err \<Rightarrow> Inl err
                | Inr cfg \<Rightarrow>
                   (case discover_entries read dropin es of
                      Inl err \<Rightarrow> Inl err
                    | Inr ds \<Rightarrow> Inr (\<lparr>di_idx = idx, di_base = base, di_cfg = cfg\<rparr> # ds)))))"

definition discoverPlugins ::
    "(string \<Rightarrow> listing) \<Rightarrow> (string \<Rightarrow> file_read) \<Rightarrow> 'o settings \<Rightarrow> discovery_error + discovered list" where
  "discoverPlugins readdir read r =
     (case readdir (se_pluginPath r) of
        NoDirectory \<Rightarrow> Inr []
      | Unreadable e \<Rightarrow> Inl (DirUnreadable e)
      | Entries es \<Rightarrow> discover_entries read (se_dropinPath r) es)"

section \<open>Plugin structs, processes and connections\<close>

record host =
  ho_ad :: adaptation
  ho_next :: nat
  ho_running :: "nat list"
  ho_open :: "nat list"

definition put_plugin :: "nat \<Rightarrow> plugin \<Rightarrow> host \<Rightarrow> host" where
  "put_plugin k p h = h\<lparr>ho_ad := (ho_ad h)\<lparr>ad_table := (ad_table (ho_ad h))(k := p)\<rparr>\<rparr>"

definition add_struct :: "plugin \<Rightarrow> host \<Rightarrow> nat \<times> host" where
  "add_struct p h = (ho_next h, (put_plugin (ho_next h) p h)\<lparr>ho_next := ho_next h + 1\<rparr>)"

text \<open>
  \<^verbatim>\<open>close\<close> and \<^verbatim>\<open>stop\<close>. The plugins that have no connection, or no process of ours, are in neither list.
\<close>

definition close_plugin :: "nat \<Rightarrow> host \<Rightarrow> host" where
  "close_plugin k h = h\<lparr>ho_ad := plugin_close k (ho_ad h), ho_open := removeAll k (ho_open h)\<rparr>"

definition stop_plugin :: "nat \<Rightarrow> host \<Rightarrow> host" where
  "stop_plugin k h = h\<lparr>ho_running := removeAll k (ho_running h)\<rparr>"

definition new_plugin :: "string \<Rightarrow> string \<Rightarrow> plugin" where
  "new_plugin idx base = \<lparr>pl_idx = idx, pl_base = base, pl_events = 0, pl_closed = False\<rparr>"

text \<open>
  What a plugin does first once it is served: it registers, its connection closes, or nothing
  happens in time.
\<close>

datatype awaited = Registers string string | Closes | TimesOut

datatype start_error =
    NotRegistered registration_error | ConnectionClosed | RegistrationTimeout
  | NotConfigured registration_error

text \<open>\<open>rpl\<close>: the plugin's answer to the configuration request.\<close>

definition plugin_start ::
    "bool \<Rightarrow> bool \<Rightarrow> awaited \<Rightarrow> (rpc_error + event_mask) \<Rightarrow> nat \<Rightarrow> host \<Rightarrow> start_error option \<times> host" where
  "plugin_start ttrpc external wait rpl k h =
     (case (if ttrpc
            then (case wait of
                    Registers name idx \<Rightarrow>
                      (case RegisterPlugin external name idx (ad_table (ho_ad h) k) of
                         (Some e, _) \<Rightarrow> (Some (NotRegistered e), h)
                       | (None, p) \<Rightarrow> (None, put_plugin k p h))
                  | Closes \<Rightarrow> (Some ConnectionClosed, close_plugin k h)
                  | TimesOut \<Rightarrow> (Some RegistrationTimeout, stop_plugin k (close_plugin k h)))
            else (None, h)) of
        (Some e, h') \<Rightarrow> (Some e, h')
      | (None, h') \<Rightarrow>
         (case configure rpl (ad_table (ho_ad h') k) of
            (Some e, _) \<Rightarrow> (Some (NotConfigured e), stop_plugin k (close_plugin k h'))
          | (None, p) \<Rightarrow> (None, put_plugin k p h')))"

definition configure_request_for :: "int64 \<Rightarrow> int64 \<Rightarrow> 'o settings \<Rightarrow> string \<Rightarrow> configure_request" where
  "configure_request_for regMs reqMs r cfg =
     \<lparr>cq_config = cfg, cq_runtime_name = se_name r, cq_runtime_version = se_version r,
      cq_registration_timeout = regMs, cq_request_timeout = reqMs\<rparr>"

section \<open>Pre-installed plugins\<close>

text \<open>The plugins started so far are a local variable of \<^verbatim>\<open>startPlugins\<close>, the second component here.\<close>

datatype startup_error =
    NotDiscovered discovery_error | BuiltinUnnamed string string | BuiltinFailed string start_error
  | NotSynchronized string

type_synonym startup = "(startup_error, host \<times> nat list) action"

definition newBuiltinPlugin :: "builtin_plugin \<Rightarrow> plugin option" where
  "newBuiltinPlugin b =
     (if bp_base b = [] \<or> bp_index b = [] then None else Some (new_plugin (bp_index b) (bp_base b)))"

definition start_builtin :: "configure_request \<Rightarrow> builtin_plugin \<Rightarrow> startup" where
  "start_builtin req b hs =
     (case hs of (h, ps) \<Rightarrow>
       (case newBuiltinPlugin b of
          None \<Rightarrow> (Failed (BuiltinUnnamed (bp_index b) (bp_base b)), (h, ps))
        | Some p \<Rightarrow>
           (case add_struct p h of (k, h1) \<Rightarrow>
             (case Builtin_Configure b req of
                None \<Rightarrow> (Panicked, (h1, ps))
              | Some (events, err) \<Rightarrow>
                 (case plugin_start False True TimesOut (case err of Some e \<Rightarrow> Inl e | None \<Rightarrow> Inr events) k h1 of
                    (Some e, h2) \<Rightarrow> (Failed (BuiltinFailed (bp_base b) e), (h2, ps))
                  | (None, h2) \<Rightarrow> (Done, (h2, ps @ [k])))))))"

text \<open>
  A launch: the first bytes of the binary, if it can be opened and read, the errors of each of its
  steps, and what the plugin does. \<open>lu_header\<close> holds what one read returned, in a buffer of eight bytes.
\<close>

record launch =
  lu_header :: "string option"
  lu_wasm :: "string option"
  lu_sockets :: "string option"
  lu_exec :: "string option"
  lu_connect :: "string option"
  lu_wait :: awaited
  lu_configured :: "configure_request \<Rightarrow> rpc_error + event_mask"

definition isWasm_file :: "string option \<Rightarrow> bool" where
  "isWasm_file header =
     (case header of
        None \<Rightarrow> False
      | Some bytes \<Rightarrow>
         take 8 (bytes @ replicate 8 CHR 0x00) =
           [CHR 0x00, CHR 0x61, CHR 0x73, CHR 0x6D, CHR 0x01, CHR 0x00, CHR 0x00, CHR 0x00])"

datatype launch_error = NoWasmSupport | WasmLoad string | SocketPair string | Exec string | Connect string

text \<open>The result holds the key of the new plugin and whether it is connected by ttRPC.\<close>

definition newLaunchedPlugin ::
    "bool \<Rightarrow> launch \<Rightarrow> string \<Rightarrow> string \<Rightarrow> host \<Rightarrow> (launch_error + nat \<times> bool) \<times> host" where
  "newLaunchedPlugin wasmService l idx base h =
     (if isWasm_file (lu_header l) then
        if \<not> wasmService then (Inl NoWasmSupport, h)
        else (case lu_wasm l of
                Some e \<Rightarrow> (Inl (WasmLoad e), h)
              | None \<Rightarrow> (case add_struct (new_plugin idx base) h of (k, h') \<Rightarrow> (Inr (k, False), h')))
      else (case lu_sockets l of
              Some e \<Rightarrow> (Inl (SocketPair e), h)
            | None \<Rightarrow>
               (case lu_exec l of
                  Some e \<Rightarrow> (Inl (Exec e), h)
                | None \<Rightarrow>
                   (case add_struct (new_plugin idx base) h of (k, h') \<Rightarrow>
                     (case lu_connect l of
                        Some e \<Rightarrow> (Inl (Connect e), h'\<lparr>ho_running := ho_running h' @ [k]\<rparr>)
                      | None \<Rightarrow>
                         (Inr (k, True),
                          h'\<lparr>ho_running := ho_running h' @ [k], ho_open := ho_open h' @ [k]\<rparr>))))))"

text \<open>A pre-installed plugin that cannot be launched or started is left out.\<close>

definition start_launched ::
    "(string \<Rightarrow> launch) \<Rightarrow> (string \<Rightarrow> configure_request) \<Rightarrow> 'o settings \<Rightarrow> discovered \<Rightarrow> startup" where
  "start_launched launch_of req r d hs =
     (case hs of (h, ps) \<Rightarrow>
       (let l = launch_of (Join2 (se_pluginPath r) (di_idx d @ ''-'' @ di_base d)) in
        case newLaunchedPlugin (se_wasmService r) l (di_idx d) (di_base d) h of
          (Inl _, h1) \<Rightarrow> (Done, (h1, ps))
        | (Inr (k, ttrpc), h1) \<Rightarrow>
           (case plugin_start ttrpc False (lu_wait l) (lu_configured l (req (di_cfg d))) k h1 of
              (Some _, h2) \<Rightarrow> (Done, (h2, ps))
            | (None, h2) \<Rightarrow> (Done, (h2, ps @ [k])))))"

text \<open>
  The runtime's synchronisation function: it calls back any number of times with pods and containers, may
  look at the updates or the error it gets, and returns.
\<close>

type_synonym updates_or_error = "string + container_update option list"

datatype runtime_sync =
    SyncReturns "string option"
  | SyncPlugins "pod_sandbox list" "container list" "updates_or_error \<Rightarrow> runtime_sync"

primrec run_sync ::
    "(pod_sandbox list \<Rightarrow> container list \<Rightarrow> 's \<Rightarrow> updates_or_error \<times> 's) \<Rightarrow> runtime_sync \<Rightarrow> 's \<Rightarrow>
     string option \<times> 's" where
  "run_sync cb (SyncReturns err) s = (err, s)"
| "run_sync cb (SyncPlugins pods ctrs cont) s = (case cb pods ctrs s of (res, s') \<Rightarrow> run_sync cb (cont res) s')"

text \<open>
  \<open>answer k pods ctrs\<close>: what \<^verbatim>\<open>synchronize\<close> returns for plugin \<open>k\<close> (its loop is that of \<^verbatim>\<open>Sync\<close>). Before it returns an
  error it closes the plugin.
\<close>

type_synonym sync_answer = "nat \<Rightarrow> pod_sandbox list \<Rightarrow> container list \<Rightarrow> updates_or_error"

definition sync_call ::
    "sync_answer \<Rightarrow> nat \<Rightarrow> pod_sandbox list \<Rightarrow> container list \<Rightarrow> host \<Rightarrow> updates_or_error \<times> host" where
  "sync_call answer k pods ctrs h =
     (case answer k pods ctrs of Inl e \<Rightarrow> (Inl e, close_plugin k h) | Inr us \<Rightarrow> (Inr us, h))"

definition sync_one ::
    "sync_answer \<Rightarrow> pod_sandbox list \<Rightarrow> container list \<Rightarrow> nat \<Rightarrow>
     container_update option list \<times> host \<times> nat list \<Rightarrow> container_update option list \<times> host \<times> nat list" where
  "sync_one answer pods ctrs k st =
     (case st of (us, h, ps) \<Rightarrow>
       (case sync_call answer k pods ctrs h of
          (Inl _, h') \<Rightarrow> (us, stop_plugin k h', ps)
        | (Inr u, h') \<Rightarrow> (us @ u, h', ps @ [k])))"

definition syncPlugins ::
    "sync_answer \<Rightarrow> pod_sandbox list \<Rightarrow> container list \<Rightarrow> host \<times> nat list \<Rightarrow>
     updates_or_error \<times> host \<times> nat list" where
  "syncPlugins answer pods ctrs hs =
     (case fold (sync_one answer pods ctrs) (snd hs) ([], fst hs, []) of (us, hs') \<Rightarrow> (Inr us, hs'))"

definition sync_started :: "sync_answer \<Rightarrow> runtime_sync \<Rightarrow> startup" where
  "sync_started answer syncFn hs =
     (case run_sync (syncPlugins answer) syncFn hs of
        (Some e, hs') \<Rightarrow> (Failed (NotSynchronized e), hs')
      | (None, hs') \<Rightarrow> (Done, hs'))"

text \<open>The deferred clean-up stops, but does not close, what is in the local variable.\<close>

definition startPlugins ::
    "((nat \<Rightarrow> string) \<Rightarrow> nat list \<Rightarrow> nat list) \<Rightarrow> (string \<Rightarrow> listing) \<Rightarrow> (string \<Rightarrow> file_read) \<Rightarrow>
     (string \<Rightarrow> launch) \<Rightarrow> (string \<Rightarrow> configure_request) \<Rightarrow> sync_answer \<Rightarrow> runtime_sync \<Rightarrow> 'o settings \<Rightarrow>
     (startup_error, host) action" where
  "startPlugins sorter readdir read launch_of req answer syncFn r h =
     (case discoverPlugins readdir read r of
        Inl e \<Rightarrow> (Failed (NotDiscovered e), h)
      | Inr found \<Rightarrow>
         (case run [for_each (se_builtin r) (start_builtin (req [])),
                    for_each found (start_launched launch_of req r),
                    sync_started answer syncFn] (h, []) of
            (Done, (h', ps)) \<Rightarrow>
              (Done, h'\<lparr>ho_ad := start_plugins sorter (ad_table (ho_ad h')) ps (ho_ad h')\<rparr>)
          | (Failed e, (h', ps)) \<Rightarrow> (Failed e, fold stop_plugin ps h')
          | (Panicked, (h', ps)) \<Rightarrow> (Panicked, h')))"

text \<open>Stopping forgets the plugins, but not the validators.\<close>

definition stopPlugins :: "host \<Rightarrow> host" where
  "stopPlugins h =
     (let h' = fold stop_plugin (ad_plugins (ho_ad h)) h in h'\<lparr>ho_ad := forget_plugins (ho_ad h')\<rparr>)"

section \<open>External plugins\<close>

text \<open>
  One round of the loop that accepts connections: \<open>cn_connect\<close> is the error of setting up the connection. The
  runtime's synchronisation function is given the one plugin.
\<close>

record connection =
  cn_connect :: "string option"
  cn_wait :: awaited
  cn_configured :: "rpc_error + event_mask"

text \<open>The first half of a round; its result is the plugin, if it could be started.\<close>

definition accept_start :: "connection \<Rightarrow> host \<Rightarrow> nat option \<times> host" where
  "accept_start cn h =
     (case cn_connect cn of
        Some _ \<Rightarrow> (None, h)
      | None \<Rightarrow>
         (case add_struct (new_plugin [] []) h of (k, h0) \<Rightarrow>
           (case plugin_start True True (cn_wait cn) (cn_configured cn) k (h0\<lparr>ho_open := ho_open h0 @ [k]\<rparr>) of
              (Some _, h1) \<Rightarrow> (None, h1)
            | (None, h1) \<Rightarrow> (Some k, h1))))"

text \<open>
  The second half. The runtime's function may return no error although the plugin's synchronisation failed: then the plugin,
  which is closed, is added to the lists and removed again as they are sorted.
\<close>

definition accept_add :: "((nat \<Rightarrow> string) \<Rightarrow> nat list \<Rightarrow> nat list) \<Rightarrow> nat \<Rightarrow> host \<Rightarrow> host" where
  "accept_add sorter k h = h\<lparr>ho_ad := add_plugin sorter k (ad_table (ho_ad h) k) (ho_ad h)\<rparr>"

definition accept_sync ::
    "((nat \<Rightarrow> string) \<Rightarrow> nat list \<Rightarrow> nat list) \<Rightarrow> sync_answer \<Rightarrow> runtime_sync \<Rightarrow> nat \<Rightarrow> host \<Rightarrow> host" where
  "accept_sync sorter answer syncFn k h =
     (case run_sync (sync_call answer k) syncFn h of
        (Some _, h') \<Rightarrow> h'
      | (None, h') \<Rightarrow> accept_add sorter k h')"

definition accept_plugin ::
    "((nat \<Rightarrow> string) \<Rightarrow> nat list \<Rightarrow> nat list) \<Rightarrow> sync_answer \<Rightarrow> runtime_sync \<Rightarrow> connection \<Rightarrow> host \<Rightarrow> host" where
  "accept_plugin sorter answer syncFn cn h =
     (case accept_start cn h of
        (None, h1) \<Rightarrow> h1
      | (Some k, h1) \<Rightarrow> accept_sync sorter answer syncFn k h1)"

text \<open>
  Unsolicited updates of plugin \<open>k\<close>, with the runtime's update function. The connection is the only
  requirement.
\<close>

definition plugin_UpdateContainers ::
    "(container_update option list \<Rightarrow> container_update option list \<times> string option) \<Rightarrow>
     container_update option list \<Rightarrow> nat \<Rightarrow> host \<Rightarrow> (container_update option list \<times> string option) option" where
  "plugin_UpdateContainers updateFn req k h = (if k \<in> set (ho_open h) then Some (updateFn req) else None)"

definition startListener :: "string option \<Rightarrow> 'o settings \<Rightarrow> string option" where
  "startListener listen r = (if se_dontListen r then None else listen)"

datatype start_failure = PluginsFailed startup_error | ListenerFailed string

definition Adaptation_Start ::
    "(startup_error, host) action \<Rightarrow> string option \<Rightarrow> 'o settings \<Rightarrow> (start_failure, host) action" where
  "Adaptation_Start start listen r h =
     (case start h of
        (Failed e, h') \<Rightarrow> (Failed (PluginsFailed e), h')
      | (Panicked, h') \<Rightarrow> (Panicked, h')
      | (Done, h') \<Rightarrow>
         (case startListener listen r of
            Some e \<Rightarrow> (Failed (ListenerFailed e), h')
          | None \<Rightarrow> (Done, h')))"

section \<open>Blocking synchronisation\<close>

text \<open>
  \<^verbatim>\<open>syncLock\<close>, a lock for readers, the holders of a \<^verbatim>\<open>PluginSyncBlock\<close>, and one writer, the loop that accepts
  connections. A waiting writer keeps further readers out. \<open>None\<close>: the call does not return yet. A block is its number and
  whether its handle still points to the runtime.
\<close>

record sync_lock =
  sl_readers :: nat
  sl_waiting :: bool
  sl_writer :: bool
  sl_blocks :: "bool list"

definition BlockPluginSync :: "sync_lock \<Rightarrow> sync_lock option" where
  "BlockPluginSync l =
     (if sl_writer l \<or> sl_waiting l then None
      else Some (l\<lparr>sl_readers := sl_readers l + 1, sl_blocks := sl_blocks l @ [True]\<rparr>))"

definition Unblock_sync :: "nat \<Rightarrow> sync_lock \<Rightarrow> sync_lock" where
  "Unblock_sync b l =
     (if b < length (sl_blocks l) \<and> sl_blocks l ! b
      then l\<lparr>sl_readers := sl_readers l - 1, sl_blocks := (sl_blocks l)[b := False]\<rparr>
      else l)"

text \<open>The call of \<^verbatim>\<open>Lock\<close>, and its return.\<close>

definition requestPluginSync :: "sync_lock \<Rightarrow> sync_lock" where
  "requestPluginSync l = l\<lparr>sl_waiting := True\<rparr>"

definition granted_sync :: "sync_lock \<Rightarrow> sync_lock option" where
  "granted_sync l =
     (if sl_writer l \<or> sl_readers l > 0 then None else Some (l\<lparr>sl_waiting := False, sl_writer := True\<rparr>))"

definition finishedPluginSync :: "sync_lock \<Rightarrow> sync_lock" where
  "finishedPluginSync l = l\<lparr>sl_writer := False\<rparr>"

text \<open>
  The loop that accepts connections, by the statement it is at, next to the other goroutines: those that block and unblock
  synchronisation, and those that serve requests, plugins' failures and registrations.
\<close>

datatype accept_phase = Accepting | Started nat | Locking nat | Synchronizing nat | Adding nat | Finishing

record acceptor =
  ac_host :: host
  ac_lock :: sync_lock
  ac_at :: accept_phase

inductive accept_step :: "acceptor \<Rightarrow> acceptor \<Rightarrow> bool" where
  refused: "ac_at a = Accepting \<Longrightarrow> accept_start cn (ac_host a) = (None, h) \<Longrightarrow> accept_step a (a\<lparr>ac_host := h\<rparr>)"
| started: "ac_at a = Accepting \<Longrightarrow> accept_start cn (ac_host a) = (Some k, h) \<Longrightarrow>
    accept_step a (a\<lparr>ac_host := h, ac_at := Started k\<rparr>)"
| request: "ac_at a = Started k \<Longrightarrow>
    accept_step a (a\<lparr>ac_lock := requestPluginSync (ac_lock a), ac_at := Locking k\<rparr>)"
| locked: "ac_at a = Locking k \<Longrightarrow> granted_sync (ac_lock a) = Some l \<Longrightarrow>
    accept_step a (a\<lparr>ac_lock := l, ac_at := Synchronizing k\<rparr>)"
| not_synchronized: "ac_at a = Synchronizing k \<Longrightarrow> run_sync (sync_call answer k) syncFn (ac_host a) = (Some e, h) \<Longrightarrow>
    accept_step a (a\<lparr>ac_host := h, ac_at := Finishing\<rparr>)"
| synchronized: "ac_at a = Synchronizing k \<Longrightarrow> run_sync (sync_call answer k) syncFn (ac_host a) = (None, h) \<Longrightarrow>
    accept_step a (a\<lparr>ac_host := h, ac_at := Adding k\<rparr>)"
| added: "ac_at a = Adding k \<Longrightarrow> is_sorter sorter \<Longrightarrow>
    accept_step a (a\<lparr>ac_host := accept_add sorter k (ac_host a), ac_at := Finishing\<rparr>)"
| finished: "ac_at a = Finishing \<Longrightarrow>
    accept_step a (a\<lparr>ac_lock := finishedPluginSync (ac_lock a), ac_at := Accepting\<rparr>)"
| block: "BlockPluginSync (ac_lock a) = Some l \<Longrightarrow> accept_step a (a\<lparr>ac_lock := l\<rparr>)"
| unblock: "accept_step a (a\<lparr>ac_lock := Unblock_sync b (ac_lock a)\<rparr>)"
| serve: "ad_step (ho_ad (ac_host a)) l ad \<Longrightarrow> l \<notin> {Starts, Joins} \<Longrightarrow>
    accept_step a (a\<lparr>ac_host := (ac_host a)\<lparr>ho_ad := ad\<rparr>\<rparr>)"

end
