(* ===== verification/Startup_Laws.thy ===== *)
theory Startup_Laws
  imports Startup Relay_Laws
begin

text \<open>
  What starting guarantees: which binaries are discovered, that a start either puts the started and synchronised plugins
  into service or leaves the runtime's lists as they were, which processes it leaves running, which external plugins get in and
  what becomes of the others, and that the loop that accepts them synchronises none while synchronisation is blocked.
\<close>

section \<open>Discovery\<close>

lemma plugin_name_parses:
  "CheckPluginIndex idx = None \<Longrightarrow> ParsePluginName (plugin_name idx base) = Inr (idx, base)"
  using digits_no_dash by (simp add: plugin_name_def ParsePluginName_def)

lemma parses_iff:
  "ParsePluginName name = Inr (idx, base) \<longleftrightarrow> CheckPluginIndex idx = None \<and> name = plugin_name idx base"
  using parsed_name plugin_name_parses by blast

text \<open>What a discovered plugin is of the directory entry it comes from.\<close>

definition found_in :: "(string \<Rightarrow> file_read) \<Rightarrow> string \<Rightarrow> dir_entry \<Rightarrow> discovered \<Rightarrow> bool" where
  "found_in read dropin e d \<longleftrightarrow>
     CheckPluginIndex (di_idx d) = None \<and> de_name e = plugin_name (di_idx d) (di_base d) \<and>
     getPluginConfig read dropin (di_idx d) (di_base d) = Inr (di_cfg d)"

lemma discover_entries_iff:
  "discover_entries read dropin es = Inr ds \<longleftrightarrow>
     list_all2 (found_in read dropin) (filter is_candidate es) ds"
proof (induction es arbitrary: ds)
  case Nil
  show ?case by auto
next
  case (Cons e es)
  show ?case
  proof (cases "is_candidate e")
    case False
    then show ?thesis by (simp add: Cons.IH)
  next
    case True
    have step: "discover_entries read dropin (e # es) = Inr ds \<longleftrightarrow>
        (\<exists>idx base cfg rest. ParsePluginName (de_name e) = Inr (idx, base)
          \<and> getPluginConfig read dropin idx base = Inr cfg \<and> discover_entries read dropin es = Inr rest
          \<and> ds = \<lparr>di_idx = idx, di_base = base, di_cfg = cfg\<rparr> # rest)"
      using True by (auto split: sum.splits)
    show ?thesis
    proof
      assume "discover_entries read dropin (e # es) = Inr ds"
      then show "list_all2 (found_in read dropin) (filter is_candidate (e # es)) ds"
        unfolding step Cons.IH parses_iff using True by (auto simp: found_in_def)
    next
      assume "list_all2 (found_in read dropin) (filter is_candidate (e # es)) ds"
      then obtain d rest where d: "ds = d # rest" "found_in read dropin e d"
          "list_all2 (found_in read dropin) (filter is_candidate es) rest"
        using True by (auto simp: list_all2_Cons1)
      moreover obtain idx base cfg where "d = \<lparr>di_idx = idx, di_base = base, di_cfg = cfg\<rparr>" by (cases d) auto
      ultimately show "discover_entries read dropin (e # es) = Inr ds"
        unfolding step Cons.IH parses_iff by (auto simp: found_in_def)
    qed
  qed
qed

text \<open>
  Discovery: it succeeds with one plugin per executable of the plugin directory, in directory order, exactly when
  every executable there bears a plugin's name and its configuration can be read; a directory that does not exist
  holds none.
\<close>

theorem discoverPlugins_iff:
  "discoverPlugins readdir read r = Inr ds \<longleftrightarrow>
     (case readdir (se_pluginPath r) of
        NoDirectory \<Rightarrow> ds = []
      | Unreadable e \<Rightarrow> False
      | Entries es \<Rightarrow> list_all2 (found_in read (se_dropinPath r)) (filter is_candidate es) ds)"
  by (auto simp: discoverPlugins_def discover_entries_iff split: listing.split)

section \<open>Starting the pre-installed plugins\<close>

text \<open>A plugin in service: open, and subscribed to some events, all of them valid.\<close>

definition in_service :: "plugin \<Rightarrow> bool" where
  "in_service p \<longleftrightarrow> \<not> pl_closed p \<and> pl_events p \<noteq> 0 \<and> and (pl_events p) (not ValidEvents) = 0"

lemma ValidEvents_events: "ValidEvents \<noteq> 0" "and ValidEvents (not ValidEvents) = 0"
  by (simp_all add: ValidEvents_def Event_LAST_def)

lemma configure_in_service:
  "configure rpl p = (None, q) \<Longrightarrow> \<not> pl_closed p \<Longrightarrow> in_service q \<and> pl_idx q = pl_idx p \<and> pl_base q = pl_base p"
  by (auto simp: configure_def in_service_def Let_def ValidEvents_events split: sum.splits if_splits)

definition tidy_launch :: "launch \<Rightarrow> bool" where
  "tidy_launch l \<longleftrightarrow> isWasm_file (lu_header l) \<or> lu_connect l = None \<and> lu_wait l \<noteq> Closes"

text \<open>
  The invariant of a start from the host \<open>h0\<close>: the adaptation's lists are untouched, and the plugins started so far are
  new, distinct and in service; no older process has been stopped. If every launch is tidy, they include all the processes
  started.
\<close>

definition starting :: "bool \<Rightarrow> host \<Rightarrow> host \<times> nat list \<Rightarrow> bool" where
  "starting tidy h0 hs \<longleftrightarrow> (case hs of (h, ps) \<Rightarrow>
     ad_plugins (ho_ad h) = ad_plugins (ho_ad h0) \<and> ad_validators (ho_ad h) = ad_validators (ho_ad h0) \<and>
     ho_next h0 \<le> ho_next h \<and> distinct ps \<and>
     (\<forall>k\<in>set ps. ho_next h0 \<le> k \<and> k < ho_next h \<and> in_service (ad_table (ho_ad h) k)) \<and>
     (\<forall>k < ho_next h0. k \<in> set (ho_running h) \<longleftrightarrow> k \<in> set (ho_running h0)) \<and>
     (tidy \<longrightarrow> (\<forall>k\<in>set (ho_running h). ho_next h0 \<le> k \<longrightarrow> k \<in> set ps)))"

lemmas host_defs = add_struct_def put_plugin_def close_plugin_def stop_plugin_def plugin_close_def

text \<open>What starting plugin \<open>k\<close> does to the others, and to its own process.\<close>

lemma plugin_start_effect:
  assumes "plugin_start ttrpc external wait rpl k h = (e, h')"
  shows "ad_plugins (ho_ad h') = ad_plugins (ho_ad h) \<and> ad_validators (ho_ad h') = ad_validators (ho_ad h) \<and>
      ho_next h' = ho_next h"
    and "j \<noteq> k \<Longrightarrow> ad_table (ho_ad h') j = ad_table (ho_ad h) j \<and> (j \<in> set (ho_running h') \<longleftrightarrow> j \<in> set (ho_running h))"
    and "k \<in> set (ho_running h') \<Longrightarrow> k \<in> set (ho_running h)"
    and "e = None \<Longrightarrow> \<not> pl_closed (ad_table (ho_ad h) k) \<Longrightarrow> in_service (ad_table (ho_ad h') k)"
    and "e \<noteq> None \<Longrightarrow> \<not> external \<Longrightarrow> (ttrpc \<Longrightarrow> wait \<noteq> Closes) \<Longrightarrow> k \<notin> set (ho_running h')"
proof -
  have c: "in_service q" if "configure rpl p = (None, q)" and "\<not> pl_closed p" for p q
    using configure_in_service that by blast
  have r: "\<not> pl_closed q" if "RegisterPlugin external name idx p = (x, q)" and "\<not> pl_closed p" for name idx p x q
    using that by (auto simp: RegisterPlugin_def split: if_splits option.splits)
  note parts = assms [unfolded plugin_start_def]
  show "ad_plugins (ho_ad h') = ad_plugins (ho_ad h) \<and> ad_validators (ho_ad h') = ad_validators (ho_ad h) \<and>
      ho_next h' = ho_next h"
    using parts by (auto simp: host_defs split: option.splits prod.splits awaited.splits if_splits)
  show "ad_table (ho_ad h') j = ad_table (ho_ad h) j \<and> (j \<in> set (ho_running h') \<longleftrightarrow> j \<in> set (ho_running h))" if "j \<noteq> k"
    using parts that by (auto simp: host_defs split: option.splits prod.splits awaited.splits if_splits)
  show "k \<in> set (ho_running h')\<Longrightarrow> k \<in> set (ho_running h)"
    using parts by (auto simp: host_defs split: option.splits prod.splits awaited.splits if_splits)
  show "in_service (ad_table (ho_ad h') k)" if "e = None" "\<not> pl_closed (ad_table (ho_ad h) k)"
    using parts that by (auto simp: host_defs dest!: c r split: option.splits prod.splits awaited.splits if_splits)
  show "k \<notin> set (ho_running h')" if "e \<noteq> None" "\<not> external" "ttrpc \<Longrightarrow> wait \<noteq> Closes"
    using parts that by (auto simp: host_defs RegisterPlugin_def split: option.splits prod.splits awaited.splits if_splits)
qed

lemma starting_next:
  assumes inv: "starting tidy h0 (h, ps)" and "ad_plugins (ho_ad h1) = ad_plugins (ho_ad h)"
    and "ad_validators (ho_ad h1) = ad_validators (ho_ad h)" and "ho_next h1 = Suc (ho_next h)"
    and "\<And>j. j \<noteq> ho_next h \<Longrightarrow> ad_table (ho_ad h1) j = ad_table (ho_ad h) j \<and>
      (j \<in> set (ho_running h1) \<longleftrightarrow> j \<in> set (ho_running h))"
    and "add \<Longrightarrow> in_service (ad_table (ho_ad h1) (ho_next h))"
    and "tidy \<Longrightarrow> \<not> add \<Longrightarrow> ho_next h \<notin> set (ho_running h1)"
  shows "starting tidy h0 (h1, ps @ (if add then [ho_next h] else []))"
proof -
  have old: "k \<noteq> ho_next h" if "k \<in> set ps" for k using inv that by (auto simp: starting_def)
  have le: "ho_next h0 \<le> ho_next h" using inv by (simp add: starting_def)
  have "k \<in> set (ho_running h1) \<longleftrightarrow> k \<in> set (ho_running h0)" if "k < ho_next h0" for k
    using inv that le assms(5) [of k] by (auto simp: starting_def)
  moreover have "k \<in> set (ps @ (if add then [ho_next h] else []))"
    if "tidy" "k \<in> set (ho_running h1)" "ho_next h0 \<le> k" for k
    using inv that assms(5) [of k] assms(7) by (cases "k = ho_next h") (auto simp: starting_def)
  moreover have "in_service (ad_table (ho_ad h1) k)" if "k \<in> set ps" for k
    using inv that assms(5) [OF old [OF that]] by (auto simp: starting_def)
  moreover have "k < ho_next h" "ho_next h0 \<le> k" if "k \<in> set ps" for k using inv that by (auto simp: starting_def)
  ultimately show ?thesis using inv assms(2-4,6) old le unfolding starting_def prod.case
    by (auto simp: less_Suc_eq)
qed

lemma start_builtin_keeps: "keeps (starting tidy h0) (start_builtin req b)"
proof (rule keeps_I)
  fix hs assume inv: "starting tidy h0 hs"
  obtain h ps where hs: "hs = (h, ps)" by (cases hs)
  show "starting tidy h0 (snd (start_builtin req b hs))"
  proof (cases "newBuiltinPlugin b")
    case None
    with inv show ?thesis by (simp add: start_builtin_def hs)
  next
    case (Some p)
    then have open_p: "\<not> pl_closed p" by (auto simp: newBuiltinPlugin_def new_plugin_def split: if_splits)
    let ?h1 = "snd (add_struct p h)"
    show ?thesis
    proof (cases "Builtin_Configure b req")
      case None
      have "starting tidy h0 (?h1, ps)" using inv by (auto simp: starting_def hs host_defs)
      with Some None show ?thesis by (simp add: start_builtin_def hs add_struct_def)
    next
      case (Some c)
      obtain events err where c: "c = (events, err)" by (cases c)
      define rpl where "rpl = (case err of Some e \<Rightarrow> Inl e | None \<Rightarrow> Inr events)"
      obtain e h2 where st: "plugin_start False True TimesOut rpl (ho_next h) ?h1 = (e, h2)" by fastforce
      have out: "snd (start_builtin req b hs) = (h2, ps @ (if e = None then [ho_next h] else []))"
        using Some \<open>newBuiltinPlugin b = Some p\<close> st
        by (auto simp: start_builtin_def hs c rpl_def add_struct_def split: option.split)
      have gone: "e \<noteq> None \<Longrightarrow> ho_next h \<notin> set (ho_running h2)"
        using st by (auto simp: plugin_start_def host_defs split: prod.splits option.splits)
      show ?thesis unfolding out
        by (rule starting_next [OF inv [unfolded hs]])
          (use plugin_start_effect [OF st] open_p gone in \<open>simp_all add: host_defs\<close>)
    qed
  qed
qed

lemma start_launched_keeps:
  assumes "tidy \<Longrightarrow> tidy_launch (launch_of (Join2 (se_pluginPath r) (di_idx d @ ''-'' @ di_base d)))"
  shows "keeps (starting tidy h0) (start_launched launch_of req r d)"
proof (rule keeps_I)
  fix hs assume inv: "starting tidy h0 hs"
  obtain h ps where hs: "hs = (h, ps)" by (cases hs)
  define l where "l = launch_of (Join2 (se_pluginPath r) (di_idx d @ ''-'' @ di_base d))"
  obtain res h1 where n: "newLaunchedPlugin (se_wasmService r) l (di_idx d) (di_base d) h = (res, h1)" by fastforce
  have tl: "tidy \<Longrightarrow> tidy_launch l" using assms by (simp add: l_def)
  show "starting tidy h0 (snd (start_launched launch_of req r d hs))"
  proof (cases res)
    case (Inl e)
    then have "starting tidy h0 (h1, ps)"
      using n inv tl by (auto simp: newLaunchedPlugin_def tidy_launch_def hs starting_def host_defs
          split: if_splits option.splits)
    then show ?thesis
      unfolding start_launched_def hs prod.case Let_def l_def [symmetric] using n Inl by simp
  next
    case (Inr kt)
    obtain k ttrpc where kt: "kt = (k, ttrpc)" by (cases kt)
    obtain e h2 where st: "plugin_start ttrpc False (lu_wait l) (lu_configured l (req (di_cfg d))) k h1 = (e, h2)"
      by fastforce
    have new: "k = ho_next h" "ho_next h1 = Suc (ho_next h)"
        "ad_table (ho_ad h1) = (ad_table (ho_ad h))(k := new_plugin (di_idx d) (di_base d))"
        "ad_plugins (ho_ad h1) = ad_plugins (ho_ad h)" "ad_validators (ho_ad h1) = ad_validators (ho_ad h)"
        "ho_running h1 = ho_running h @ (if ttrpc then [k] else [])" "ttrpc = (\<not> isWasm_file (lu_header l))"
      using n Inr kt by (auto simp: newLaunchedPlugin_def host_defs split: if_splits option.splits)
    have tidy: "tidy \<Longrightarrow> ttrpc \<Longrightarrow> lu_wait l \<noteq> Closes" using tl new(7) by (simp add: tidy_launch_def)
    have "starting tidy h0 (h2, ps @ (if e = None then [ho_next h] else []))"
      by (rule starting_next [OF inv [unfolded hs]])
        (use plugin_start_effect [OF st] new tidy in \<open>simp_all add: new_plugin_def\<close>)
    moreover have "snd (start_launched launch_of req r d hs) = (h2, ps @ (if e = None then [k] else []))"
      unfolding start_launched_def hs prod.case Let_def l_def [symmetric]
      using n Inr kt st by (simp split: option.split)
    ultimately show ?thesis by (simp only: new(1))
  qed
qed

text \<open>Synchronisation keeps a part of the plugins, in order, and stops the others.\<close>

lemma sync_one_keeps:
  assumes "starting tidy h0 (h, ps @ k # rest)"
  shows "\<exists>us' h' ps'. sync_one answer pods ctrs k (us, h, ps) = (us', h', ps') \<and>
     starting tidy h0 (h', ps' @ rest)"
  using assms by (auto simp: sync_one_def sync_call_def starting_def host_defs split: sum.split)

lemma sync_fold_keeps:
  "starting tidy h0 (h, ps @ ks) \<Longrightarrow>
     starting tidy h0 (snd (fold (sync_one answer pods ctrs) ks (us, h, ps)))"
proof (induction ks arbitrary: us h ps)
  case Nil
  then show ?case by simp
next
  case (Cons k ks)
  obtain us' h' ps' where "sync_one answer pods ctrs k (us, h, ps) = (us', h', ps')"
      "starting tidy h0 (h', ps' @ ks)"
    using sync_one_keeps [OF Cons.prems] by blast
  with Cons.IH show ?case by simp
qed

lemma syncPlugins_keeps: "starting tidy h0 hs \<Longrightarrow> starting tidy h0 (snd (syncPlugins answer pods ctrs hs))"
  using sync_fold_keeps [of tidy h0 "fst hs" "[]" "snd hs"] by (simp add: syncPlugins_def split_def)

lemma run_sync_keeps:
  assumes "\<And>pods ctrs s. P s \<Longrightarrow> P (snd (cb pods ctrs s))"
  shows "P s \<Longrightarrow> P (snd (run_sync cb t s))"
proof (induction t arbitrary: s)
  case (SyncReturns err)
  then show ?case by simp
next
  case (SyncPlugins pods ctrs cont)
  then show ?case using assms by (simp add: split_def)
qed

lemma sync_started_keeps: "keeps (starting tidy h0) (sync_started answer syncFn)"
proof (rule keeps_I)
  fix hs assume "starting tidy h0 hs"
  then have "starting tidy h0 (snd (run_sync (syncPlugins answer) syncFn hs))"
    by (intro run_sync_keeps [where P = "starting tidy h0"] syncPlugins_keeps)
  then show "starting tidy h0 (snd (sync_started answer syncFn hs))"
    by (auto simp: sync_started_def split: prod.split option.split)
qed

lemma starting_keeps:
  assumes "\<And>path. tidy \<Longrightarrow> tidy_launch (launch_of path)"
  shows "keeps (starting tidy h0) (run [for_each (se_builtin r) (start_builtin req0),
     for_each found (start_launched launch_of req r), sync_started answer syncFn])"
proof (rule keeps_run)
  fix a
  assume "a \<in> set [for_each (se_builtin r) (start_builtin req0),
     for_each found (start_launched launch_of req r), sync_started answer syncFn]"
  then consider "a = for_each (se_builtin r) (start_builtin req0)"
    | "a = for_each found (start_launched launch_of req r)" | "a = sync_started answer syncFn" by auto
  then show "keeps (starting tidy h0) a"
  proof cases
    case 1
    then show ?thesis
      unfolding for_each_def by (auto intro!: keeps_run start_builtin_keeps)
  next
    case 2
    then show ?thesis
      unfolding for_each_def by (auto intro!: keeps_run start_launched_keeps assms)
  next
    case 3
    then show ?thesis by (simp add: sync_started_keeps)
  qed
qed

lemma fold_stop:
  "ho_running (fold stop_plugin ks h) = filter (\<lambda>k. k \<notin> set ks) (ho_running h)"
  "ho_ad (fold stop_plugin ks h) = ho_ad h"
  by (induction ks arbitrary: h) (auto simp: stop_plugin_def removeAll_filter_not_eq intro: filter_cong)

lemma stopped_processes:
  assumes inv: "starting tidy h (h', ps)" and old: "{k \<in> set (ho_running h'). k < ho_next h} = set (ho_running h)"
  shows "{k \<in> set (ho_running (fold stop_plugin ps h')). k < ho_next h} = set (ho_running h)"
    and "tidy \<Longrightarrow> set (ho_running (fold stop_plugin ps h')) = set (ho_running h)"
proof -
  have stopped: "set (ho_running (fold stop_plugin ps h')) = set (ho_running h') - set ps"
    by (auto simp: fold_stop)
  have "\<And>k. k \<in> set ps \<Longrightarrow> \<not> k < ho_next h" using inv by (auto simp: starting_def)
  then show left: "{k \<in> set (ho_running (fold stop_plugin ps h')). k < ho_next h} = set (ho_running h)"
    unfolding stopped old [symmetric] by blast
  show "set (ho_running (fold stop_plugin ps h')) = set (ho_running h)" if tidy
  proof -
    have "k < ho_next h" if "k \<in> set (ho_running h') - set ps" for k
      using inv that \<open>tidy\<close> by (auto simp: starting_def not_le [symmetric])
    then show ?thesis unfolding stopped left [unfolded stopped, symmetric] by blast
  qed
qed

text \<open>Only configuring a builtin plugin can panic, and that comes before any launch.\<close>

lemma start_panics_early:
  assumes "run [for_each bs (start_builtin q), for_each found (start_launched launch_of req r), sync_started answer syncFn]
      (h, ps) = (Panicked, (h', ps'))"
  shows "for_each bs (start_builtin q) (h, ps) = (Panicked, (h', ps'))"
proof -
  have one: "fst (start_launched launch_of req r d hs) = Done" for d hs
    by (auto simp: start_launched_def Let_def split: prod.split sum.split option.split)
  have launch: "fst (for_each found (start_launched launch_of req r) hs) = Done" for hs
  proof (induction found arbitrary: hs)
    case Nil
    then show ?case by simp
  next
    case (Cons d found)
    obtain hs' where "start_launched launch_of req r d hs = (Done, hs')" using one [of d hs] by (metis prod.collapse)
    then show ?case using Cons.IH by (simp add: for_each_step)
  qed
  have sync: "fst (sync_started answer syncFn hs) \<noteq> Panicked" for hs
    by (auto simp: sync_started_def split: prod.split option.split)
  obtain st1 hs1 where 1: "for_each bs (start_builtin q) (h, ps) = (st1, hs1)" by (metis surj_pair)
  obtain hs2 where 2: "for_each found (start_launched launch_of req r) hs1 = (Done, hs2)"
    using launch [of hs1] by (metis prod.collapse)
  obtain st3 hs3 where 3: "sync_started answer syncFn hs2 = (st3, hs3)" by (metis surj_pair)
  show ?thesis using assms 1 2 3 sync [of hs2] by (cases st1; cases st3) simp_all
qed

lemma start_builtin_launches_none: "set (ho_running (fst (snd (start_builtin q b hs)))) \<subseteq> set (ho_running (fst hs))"
  by (auto simp: start_builtin_def plugin_start_def host_defs split: prod.split option.split)

lemma builtins_launch_none: "set (ho_running (fst (snd (for_each bs (start_builtin q) hs)))) \<subseteq> set (ho_running (fst hs))"
proof (induction bs arbitrary: hs)
  case Nil
  then show ?case by simp
next
  case (Cons b bs)
  obtain st hs' where b: "start_builtin q b hs = (st, hs')" by (metis surj_pair)
  then have "set (ho_running (fst hs')) \<subseteq> set (ho_running (fst hs))"
    using start_builtin_launches_none [of q b hs] by simp
  then show ?case using Cons.IH [of hs'] b by (cases st) (auto simp: for_each_Cons)
qed

text \<open>
  C24. Starting puts plugins into service or changes nothing. When it succeeds, every plugin in the runtime's list is new, open
  and subscribed to valid events, and the lists satisfy the invariant of the relay; when it fails or panics, the lists are as
  before. Older processes keep running in any case. If no plugin process drops its connection before it registers, and every
  launched one can be connected, then no other process is left running: after a success, only those of the plugins in service;
  after a failure, none. After a panic none is in any case.
\<close>

theorem startPlugins_all_or_nothing:
  assumes "is_sorter sorter" and "\<forall>k\<in>set (ho_running h). k < ho_next h"
  shows "case startPlugins sorter readdir read launch_of req answer syncFn r h of
      (Done, h') \<Rightarrow>
        ad_ok (ho_ad h')
        \<and> (\<forall>k\<in>set (ad_plugins (ho_ad h')). ho_next h \<le> k \<and> in_service (ad_table (ho_ad h') k))
        \<and> {k \<in> set (ho_running h'). k < ho_next h} = set (ho_running h)
        \<and> ((\<forall>path. tidy_launch (launch_of path)) \<longrightarrow>
             {k \<in> set (ho_running h'). ho_next h \<le> k} \<subseteq> set (ad_plugins (ho_ad h')))
    | (Failed e, h') \<Rightarrow>
        ad_plugins (ho_ad h') = ad_plugins (ho_ad h) \<and> ad_validators (ho_ad h') = ad_validators (ho_ad h)
        \<and> {k \<in> set (ho_running h'). k < ho_next h} = set (ho_running h)
        \<and> ((\<forall>path. tidy_launch (launch_of path)) \<longrightarrow> set (ho_running h') = set (ho_running h))
    | (Panicked, h') \<Rightarrow>
        ad_plugins (ho_ad h') = ad_plugins (ho_ad h) \<and> ad_validators (ho_ad h') = ad_validators (ho_ad h)
        \<and> set (ho_running h') = set (ho_running h)"
proof (cases "discoverPlugins readdir read r")
  case (Inl e)
  then show ?thesis using assms(2) by (auto simp: startPlugins_def)
next
  case (Inr found)
  let ?acts = "[for_each (se_builtin r) (start_builtin (req [])),
     for_each found (start_launched launch_of req r), sync_started answer syncFn]"
  let ?tidy = "\<forall>path. tidy_launch (launch_of path)"
  obtain st h' ps where run: "run ?acts (h, []) = (st, (h', ps))" by (metis surj_pair)
  have "starting ?tidy h (h, [])" using assms(2) by (auto simp: starting_def)
  then have inv: "starting ?tidy h (h', ps)"
    using keeps_D [OF starting_keeps [of ?tidy launch_of h r "req []" found req answer syncFn]] run by fastforce
  have old: "{k \<in> set (ho_running h'). k < ho_next h} = set (ho_running h)"
    using inv assms(2) by (auto simp: starting_def)
  show ?thesis
  proof (cases st)
    case Done
    let ?ad = "start_plugins sorter (ad_table (ho_ad h')) ps (ho_ad h')"
    have m: "set (sorter f xs) = set xs" for f xs
      using assms(1) by (metis is_sorter_def set_mset_mset)
    have "set (ad_plugins ?ad) = set ps" and table: "ad_table ?ad = ad_table (ho_ad h')"
      using inv m by (auto simp: start_plugins_def sortPlugins_def removeClosedPlugins_def Let_def
          starting_def in_service_def)
    moreover have "ad_ok ?ad"
      unfolding start_plugins_def using inv by (intro sortPlugins_ok [OF assms(1)]) (simp add: starting_def)
    moreover have "startPlugins sorter readdir read launch_of req answer syncFn r h = (Done, h'\<lparr>ho_ad := ?ad\<rparr>)"
      using Inr run Done by (simp add: startPlugins_def del: run.simps)
    ultimately show ?thesis using inv old by (auto simp: starting_def)
  next
    case (Failed e)
    have "startPlugins sorter readdir read launch_of req answer syncFn r h = (Failed e, fold stop_plugin ps h')"
      using Inr run Failed by (simp add: startPlugins_def del: run.simps)
    then show ?thesis using inv stopped_processes [OF inv old] by (simp add: starting_def fold_stop(2))
  next
    case Panicked
    have "startPlugins sorter readdir read launch_of req answer syncFn r h = (Panicked, h')"
      using Inr run Panicked by (simp add: startPlugins_def del: run.simps)
    moreover have "for_each (se_builtin r) (start_builtin (req [])) (h, []) = (Panicked, (h', ps))"
      using start_panics_early run Panicked by blast
    then have "set (ho_running h') \<subseteq> set (ho_running h)"
      using builtins_launch_none [of "se_builtin r" "req []" "(h, [])"] by simp
    ultimately show ?thesis using inv old by (auto simp: starting_def)
  qed
qed

text \<open>Without that proviso a process is left behind that nothing stops.\<close>

lemma dropped_connection_leaves_process:
  assumes "launch_of (Join2 (se_pluginPath r) (di_idx d @ ''-'' @ di_base d)) = l" and "\<not> isWasm_file (lu_header l)"
    and "lu_sockets l = None" and "lu_exec l = None" and "lu_connect l = None" and "lu_wait l = Closes"
  shows "\<exists>h'. start_launched launch_of req r d (h, ps) = (Done, (h', ps)) \<and>
    ho_running h' = ho_running h @ [ho_next h]"
  unfolding start_launched_def prod.case Let_def assms(1)
  using assms(2-) by (simp add: newLaunchedPlugin_def plugin_start_def host_defs)

text \<open>The header test pads what it read with zero bytes: five bytes can be enough.\<close>

lemma short_wasm_header: "isWasm_file (Some [CHR 0x00, CHR 0x61, CHR 0x73, CHR 0x6D, CHR 0x01])"
  by (simp add: isWasm_file_def numeral_eq_Suc)

section \<open>Starting all plugins\<close>

definition valid_mask :: "event_mask \<Rightarrow> bool" where
  "valid_mask e \<longleftrightarrow> and e (not ValidEvents) = 0"

definition good_builtin :: "configure_request \<Rightarrow> builtin_plugin \<Rightarrow> bool" where
  "good_builtin q b \<longleftrightarrow> bp_base b \<noteq> [] \<and> bp_index b \<noteq> [] \<and>
     (case Builtin_Configure b q of Some (e, None) \<Rightarrow> valid_mask e | _ \<Rightarrow> False)"

definition good_launch :: "bool \<Rightarrow> launch \<Rightarrow> bool" where
  "good_launch wasm l \<longleftrightarrow>
     (if isWasm_file (lu_header l) then wasm \<and> lu_wasm l = None
      else lu_sockets l = None \<and> lu_exec l = None \<and> lu_connect l = None \<and>
        (case lu_wait l of Registers _ _ \<Rightarrow> True | _ \<Rightarrow> False)) \<and>
     (\<forall>q. case lu_configured l q of Inr e \<Rightarrow> valid_mask e | _ \<Rightarrow> False)"

text \<open>The names of the plugins started so far, as the table has them; later structs do not touch them.\<close>

definition names :: "host \<times> nat list \<Rightarrow> (string \<times> string) list" where
  "names hs = map (\<lambda>k. (pl_idx (ad_table (ho_ad (fst hs)) k), pl_base (ad_table (ho_ad (fst hs)) k))) (snd hs)"

lemma names_new:
  assumes "\<forall>k\<in>set ps. k \<noteq> n"
  shows "names (h\<lparr>ho_ad := (ho_ad h)\<lparr>ad_table := (ad_table (ho_ad h))(n := p)\<rparr>\<rparr>, ps @ [n]) =
    names (h, ps) @ [(pl_idx p, pl_base p)]"
  using assms by (auto simp: names_def)

lemma configure_good:
  "valid_mask e \<Longrightarrow> configure (Inr e) p = (None, p\<lparr>pl_events := (if e = 0 then ValidEvents else e)\<rparr>)"
  by (simp add: configure_def valid_mask_def Let_def)

lemma start_builtin_good:
  assumes "good_builtin q b" and "\<forall>k\<in>set ps. k < ho_next h"
  shows "\<exists>h'. start_builtin q b (h, ps) = (Done, (h', ps @ [ho_next h])) \<and> ho_next h' = Suc (ho_next h) \<and>
    names (h', ps @ [ho_next h]) = names (h, ps) @ [(bp_index b, bp_base b)]"
proof -
  obtain e where e: "Builtin_Configure b q = Some (e, None)" "valid_mask e"
      "bp_base b \<noteq> []" "bp_index b \<noteq> []"
    using assms(1) by (auto simp: good_builtin_def split: option.splits prod.splits)
  then show ?thesis using assms(2)
    by (auto simp: start_builtin_def newBuiltinPlugin_def add_struct_def put_plugin_def plugin_start_def
        configure_good names_def new_plugin_def)
qed

lemma start_launched_good:
  assumes "good_launch (se_wasmService r) (launch_of (Join2 (se_pluginPath r) (di_idx d @ ''-'' @ di_base d)))"
    and "\<forall>k\<in>set ps. k < ho_next h"
  shows "\<exists>h'. start_launched launch_of req r d (h, ps) = (Done, (h', ps @ [ho_next h])) \<and>
    ho_next h' = Suc (ho_next h) \<and> names (h', ps @ [ho_next h]) = names (h, ps) @ [(di_idx d, di_base d)]"
proof -
  define l where "l = launch_of (Join2 (se_pluginPath r) (di_idx d @ ''-'' @ di_base d))"
  have good: "good_launch (se_wasmService r) l" using assms(1) by (simp add: l_def)
  obtain e where e: "lu_configured l (req (di_cfg d)) = Inr e" "valid_mask e"
    using good by (cases "lu_configured l (req (di_cfg d))") (auto simp: good_launch_def split: sum.splits)
  show ?thesis
    unfolding start_launched_def prod.case Let_def l_def [symmetric]
    using good e assms(2)
    by (auto simp: newLaunchedPlugin_def good_launch_def add_struct_def put_plugin_def plugin_start_def
        RegisterPlugin_def configure_good names_def new_plugin_def split: awaited.splits if_splits)
qed

lemma for_each_good:
  assumes "\<And>x h ps. x \<in> set xs \<Longrightarrow> \<forall>k\<in>set ps. k < ho_next h \<Longrightarrow>
      \<exists>h'. body x (h, ps) = (Done, (h', ps @ [ho_next h])) \<and> ho_next h' = Suc (ho_next h) \<and>
        names (h', ps @ [ho_next h]) = names (h, ps) @ [name x]"
    and "\<forall>k\<in>set ps. k < ho_next h"
  shows "\<exists>h' ps'. for_each xs body (h, ps) = (Done, (h', ps')) \<and> (\<forall>k\<in>set ps'. k < ho_next h') \<and>
    names (h', ps') = names (h, ps) @ map name xs"
  using assms
proof (induction xs arbitrary: h ps)
  case Nil
  then show ?case by simp
next
  case (Cons x xs)
  obtain h1 where h1: "body x (h, ps) = (Done, (h1, ps @ [ho_next h]))" "ho_next h1 = Suc (ho_next h)"
      "names (h1, ps @ [ho_next h]) = names (h, ps) @ [name x]"
    using Cons.prems(1) [of x ps h] Cons.prems(2) by auto
  have bound: "\<forall>k\<in>set (ps @ [ho_next h]). k < ho_next h1" using Cons.prems(2) h1(2) by auto
  have hyp: "\<And>y h ps. y \<in> set xs \<Longrightarrow> \<forall>k\<in>set ps. k < ho_next h \<Longrightarrow>
      \<exists>h'. body y (h, ps) = (Done, (h', ps @ [ho_next h])) \<and> ho_next h' = Suc (ho_next h) \<and>
        names (h', ps @ [ho_next h]) = names (h, ps) @ [name y]"
    using Cons.prems(1) by simp
  show ?case using Cons.IH [OF hyp bound] h1 by (simp add: for_each_step)
qed

text \<open>A synchronisation that every plugin survives.\<close>

lemma sync_fold_good:
  "(\<And>k. \<exists>u. answer k pods ctrs = Inr u) \<Longrightarrow> \<exists>us'. fold (sync_one answer pods ctrs) ks (us, h, ps) = (us', h, ps @ ks)"
proof (induction ks arbitrary: us ps)
  case Nil
  then show ?case by simp
next
  case (Cons k ks)
  obtain u where "answer k pods ctrs = Inr u" using Cons.prems by blast
  then show ?case using Cons.IH [OF Cons.prems, of "us @ u" "ps @ [k]"] by (simp add: sync_one_def sync_call_def)
qed

primrec never_fails :: "runtime_sync \<Rightarrow> bool" where
  "never_fails (SyncReturns err) = (err = None)"
| "never_fails (SyncPlugins pods ctrs cont) = (\<forall>u. never_fails (cont (Inr u)))"

lemma run_sync_good:
  assumes "\<And>k pods ctrs. \<exists>u. answer k pods ctrs = Inr u" and "never_fails t"
  shows "run_sync (syncPlugins answer) t hs = (None, hs)"
  using assms(2)
proof (induction t)
  case (SyncReturns err)
  then show ?case by simp
next
  case (SyncPlugins pods ctrs cont)
  obtain us where us: "syncPlugins answer pods ctrs hs = (Inr us, hs)"
    using sync_fold_good [of answer pods ctrs "snd hs" "[]" "fst hs" "[]", OF assms(1)]
    by (auto simp: syncPlugins_def)
  have "never_fails (cont (Inr us))" using SyncPlugins.prems by simp
  with SyncPlugins.IH have "run_sync (syncPlugins answer) (cont (Inr us)) hs = (None, hs)" by blast
  with us show ?case by simp
qed

text \<open>
  C25. With plugins that do what is asked of them, all of them are put into service: each builtin plugin and each discovered one
  is in the runtime's list once, under the index and name it was configured or found with.
\<close>

theorem startPlugins_starts_all:
  assumes "is_sorter sorter" and "discoverPlugins readdir read r = Inr found"
    and "list_all (good_builtin (req [])) (se_builtin r)"
    and "\<And>path. good_launch (se_wasmService r) (launch_of path)"
    and "\<And>k pods ctrs. \<exists>u. answer k pods ctrs = Inr u" and "never_fails syncFn"
  shows "case startPlugins sorter readdir read launch_of req answer syncFn r h of
      (Done, h') \<Rightarrow>
        mset (map (\<lambda>k. (pl_idx (ad_table (ho_ad h') k), pl_base (ad_table (ho_ad h') k))) (ad_plugins (ho_ad h'))) =
        mset (map (\<lambda>b. (bp_index b, bp_base b)) (se_builtin r) @ map (\<lambda>d. (di_idx d, di_base d)) found)
    | _ \<Rightarrow> False"
proof -
  let ?b = "for_each (se_builtin r) (start_builtin (req []))"
  let ?l = "for_each found (start_launched launch_of req r)"
  have "\<exists>h1 ps1. ?b (h, []) = (Done, (h1, ps1)) \<and> (\<forall>k\<in>set ps1. k < ho_next h1) \<and>
      names (h1, ps1) = names (h, []) @ map (\<lambda>b. (bp_index b, bp_base b)) (se_builtin r)"
    by (rule for_each_good) (use assms(3) start_builtin_good in \<open>auto simp: list_all_iff\<close>)
  then obtain h1 ps1 where b: "?b (h, []) = (Done, (h1, ps1))" "\<forall>k\<in>set ps1. k < ho_next h1"
      "names (h1, ps1) = map (\<lambda>b. (bp_index b, bp_base b)) (se_builtin r)"
    by (auto simp: names_def)
  have "\<exists>h2 ps2. ?l (h1, ps1) = (Done, (h2, ps2)) \<and> (\<forall>k\<in>set ps2. k < ho_next h2) \<and>
      names (h2, ps2) = names (h1, ps1) @ map (\<lambda>d. (di_idx d, di_base d)) found"
    by (rule for_each_good [OF start_launched_good [OF assms(4)] b(2)])
  then obtain h2 ps2 where l: "?l (h1, ps1) = (Done, (h2, ps2))"
      "names (h2, ps2) = names (h1, ps1) @ map (\<lambda>d. (di_idx d, di_base d)) found" by blast
  have run: "run [?b, ?l, sync_started answer syncFn] (h, []) = (Done, (h2, ps2))"
    using b(1) l(1) run_sync_good [of answer syncFn "(h2, ps2)", OF assms(5,6)]
    by (simp add: sync_started_def)
  have "keeps (starting False h) (run [?b, ?l, sync_started answer syncFn])"
    by (rule starting_keeps) simp
  then have inv: "starting False h (h2, ps2)"
    using keeps_D [of "starting False h" "run [?b, ?l, sync_started answer syncFn]" "(h, [])"] run
    by (simp add: starting_def del: run.simps)
  let ?ad = "start_plugins sorter (ad_table (ho_ad h2)) ps2 (ho_ad h2)"
  have "filter (\<lambda>k. \<not> pl_closed (ad_table (ho_ad h2) k)) ps2 = ps2"
    using inv by (auto simp: starting_def in_service_def intro: filter_True)
  then have ad: "mset (ad_plugins ?ad) = mset ps2" "ad_table ?ad = ad_table (ho_ad h2)"
    using assms(1) by (simp_all add: start_plugins_def sortPlugins_def removeClosedPlugins_def Let_def is_sorter_def)
  have "startPlugins sorter readdir read launch_of req answer syncFn r h = (Done, h2\<lparr>ho_ad := ?ad\<rparr>)"
    unfolding startPlugins_def assms(2) sum.case run by simp
  moreover have "mset (map (\<lambda>k. (pl_idx (ad_table ?ad k), pl_base (ad_table ?ad k))) (ad_plugins ?ad)) =
      mset (names (h2, ps2))"
    using ad by (simp add: names_def)
  ultimately show ?thesis using b(3) l(2) by simp
qed

section \<open>External plugins\<close>

text \<open>
  How far a connecting plugin gets. \<open>sync_clean\<close>: no synchronisation that the runtime's function asked for failed.
\<close>

definition starts :: "connection \<Rightarrow> bool" where
  "starts cn \<longleftrightarrow>
     cn_connect cn = None \<and>
     (case cn_wait cn of Registers name idx \<Rightarrow> name \<noteq> [] \<and> CheckPluginIndex idx = None | _ \<Rightarrow> False) \<and>
     (case cn_configured cn of Inr events \<Rightarrow> valid_mask events | Inl _ \<Rightarrow> False)"

definition sync_outcome :: "sync_answer \<Rightarrow> runtime_sync \<Rightarrow> nat \<Rightarrow> string option \<times> bool" where
  "sync_outcome answer syncFn k =
     run_sync (\<lambda>pods ctrs clean. (answer k pods ctrs, clean \<and> (\<exists>us. answer k pods ctrs = Inr us))) syncFn True"

abbreviation "sync_error answer syncFn k \<equiv> fst (sync_outcome answer syncFn k)"
abbreviation "sync_clean answer syncFn k \<equiv> snd (sync_outcome answer syncFn k)"

definition admitted :: "sync_answer \<Rightarrow> runtime_sync \<Rightarrow> connection \<Rightarrow> nat \<Rightarrow> bool" where
  "admitted answer syncFn cn k \<longleftrightarrow> starts cn \<and> sync_error answer syncFn k = None \<and> sync_clean answer syncFn k"

text \<open>The host after the synchronisations of one plugin: the plugin is closed if one of them failed.\<close>

lemma close_plugin_again: "close_plugin k (close_plugin k h) = close_plugin k h"
  by (simp add: close_plugin_def plugin_close_def)

lemma run_sync_call:
  "run_sync (sync_call answer k) t (if clean then h else close_plugin k h) =
    (case run_sync (\<lambda>pods ctrs clean. (answer k pods ctrs, clean \<and> (\<exists>us. answer k pods ctrs = Inr us))) t clean of
       (e, clean') \<Rightarrow> (e, if clean' then h else close_plugin k h))"
proof (induction t arbitrary: clean)
  case (SyncReturns err)
  then show ?case by simp
next
  case (SyncPlugins pods ctrs cont)
  have "sync_call answer k pods ctrs (if clean then h else close_plugin k h) =
      (answer k pods ctrs, if clean \<and> (\<exists>us. answer k pods ctrs = Inr us) then h else close_plugin k h)"
    by (auto simp: sync_call_def close_plugin_again split: sum.split)
  then show ?case using SyncPlugins.IH by simp
qed

lemma synchronized_host:
  "run_sync (sync_call answer k) syncFn h =
    (sync_error answer syncFn k, if sync_clean answer syncFn k then h else close_plugin k h)"
  using run_sync_call [of answer k syncFn True h] by (simp add: sync_outcome_def split_def)

lemma configure_invalid: "(case rpl of Inr e \<Rightarrow> \<not> valid_mask e | Inl _ \<Rightarrow> True) \<Longrightarrow> fst (configure rpl p) \<noteq> None"
  by (auto simp: configure_def valid_mask_def Let_def split: sum.splits)

lemma accept_start_refused:
  assumes "\<not> starts cn"
  shows "\<exists>h'. accept_start cn h = (None, h') \<and> ad_plugins (ho_ad h') = ad_plugins (ho_ad h) \<and>
    ad_validators (ho_ad h') = ad_validators (ho_ad h)"
  using assms configure_invalid [of "cn_configured cn"]
  by (auto simp: accept_start_def plugin_start_def starts_def add_struct_def put_plugin_def close_plugin_def
      plugin_close_def stop_plugin_def RegisterPlugin_def valid_mask_def configure_def Let_def
      split: option.splits awaited.splits sum.splits if_splits)

lemma accept_start_starts:
  assumes "starts cn"
  obtains p where "accept_start cn h = (Some (ho_next h),
      h\<lparr>ho_ad := (ho_ad h)\<lparr>ad_table := (ad_table (ho_ad h))(ho_next h := p)\<rparr>, ho_next := ho_next h + 1,
        ho_open := ho_open h @ [ho_next h]\<rparr>)" "\<not> pl_closed p" "cn_wait cn = Registers (pl_base p) (pl_idx p)"
proof -
  obtain name idx e where cn: "cn_connect cn = None" "cn_wait cn = Registers name idx" "name \<noteq> []"
      "CheckPluginIndex idx = None" "cn_configured cn = Inr e" "valid_mask e"
    using assms by (auto simp: starts_def split: awaited.splits sum.splits)
  let ?p = "(new_plugin idx name)\<lparr>pl_events := (if e = 0 then ValidEvents else e)\<rparr>"
  have r: "RegisterPlugin True name idx (new_plugin [] []) = (None, new_plugin idx name)"
    using cn by (simp add: RegisterPlugin_def new_plugin_def)
  have "accept_start cn h = (Some (ho_next h),
      h\<lparr>ho_ad := (ho_ad h)\<lparr>ad_table := (ad_table (ho_ad h))(ho_next h := ?p)\<rparr>, ho_next := ho_next h + 1,
        ho_open := ho_open h @ [ho_next h]\<rparr>)"
    using cn(1,2,5) by (simp add: accept_start_def plugin_start_def add_struct_def put_plugin_def r
        configure_good [OF cn(6)] del: if_split)
  then show thesis using that [of ?p] cn by (simp add: new_plugin_def)
qed

lemma accept_add_plugins:
  assumes "is_sorter sorter"
  shows "set (ad_plugins (ho_ad (accept_add sorter k h))) =
    {i \<in> insert k (set (ad_plugins (ho_ad h))). \<not> pl_closed (ad_table (ho_ad h) i)}"
proof -
  have m: "set (sorter f xs) = set xs" for f xs
    using assms by (metis is_sorter_def set_mset_mset)
  show ?thesis by (auto simp: accept_add_def add_plugin_def sortPlugins_def removeClosedPlugins_def Let_def m)
qed

text \<open>
  C26. A connecting plugin comes into service exactly if it can be connected, registers in time with a name and a
  two-digit index, is configured with valid events, the runtime's function returns no error and none of the plugin's
  synchronisations failed. If the function returns no error, the plugins that have closed are removed from the list at
  this point; otherwise the list stays as it is.
\<close>

theorem accept_plugin_iff:
  assumes "is_sorter sorter" and "ho_next h \<notin> set (ad_plugins (ho_ad h))"
  shows "set (ad_plugins (ho_ad (accept_plugin sorter answer syncFn cn h))) =
     (if admitted answer syncFn cn (ho_next h)
      then insert (ho_next h) {i \<in> set (ad_plugins (ho_ad h)). \<not> pl_closed (ad_table (ho_ad h) i)}
      else if starts cn \<and> sync_error answer syncFn (ho_next h) = None
      then {i \<in> set (ad_plugins (ho_ad h)). \<not> pl_closed (ad_table (ho_ad h) i)}
      else set (ad_plugins (ho_ad h)))"
proof (cases "starts cn")
  case False
  then show ?thesis using accept_start_refused [OF False, of h] by (auto simp: accept_plugin_def admitted_def)
next
  case True
  then obtain p where p: "accept_start cn h = (Some (ho_next h),
      h\<lparr>ho_ad := (ho_ad h)\<lparr>ad_table := (ad_table (ho_ad h))(ho_next h := p)\<rparr>, ho_next := ho_next h + 1,
        ho_open := ho_open h @ [ho_next h]\<rparr>)" "\<not> pl_closed p"
    by (rule accept_start_starts)
  show ?thesis
  proof (cases "sync_error answer syncFn (ho_next h)")
    case None
    then show ?thesis using True p(2) assms(2)
      by (auto simp: accept_plugin_def p(1) accept_sync_def synchronized_host accept_add_plugins [OF assms(1)]
          admitted_def close_plugin_def plugin_close_def)
  next
    case (Some e)
    then show ?thesis using True
      by (simp add: accept_plugin_def p(1) accept_sync_def synchronized_host admitted_def close_plugin_def plugin_close_def)
  qed
qed

text \<open>
  A plugin whose registration is refused stays connected all the same, and so does one for which the runtime's
  function returns an error of its own although its synchronisations succeeded; the updates they ask for still reach the runtime.
\<close>

theorem refused_plugin_stays_connected:
  assumes "cn_connect cn = None" and "cn_wait cn = Registers name idx"
    and "name = [] \<or> CheckPluginIndex idx \<noteq> None \<or>
      starts cn \<and> sync_error answer syncFn (ho_next h) \<noteq> None \<and> sync_clean answer syncFn (ho_next h)"
    and "ho_next h \<notin> set (ad_plugins (ho_ad h))"
  shows "let h' = accept_plugin sorter answer syncFn cn h in
     ho_next h \<notin> set (ad_plugins (ho_ad h')) \<and> \<not> pl_closed (ad_table (ho_ad h') (ho_next h)) \<and>
     plugin_UpdateContainers updateFn req (ho_next h) h' = Some (updateFn req)"
proof (cases "name = [] \<or> CheckPluginIndex idx \<noteq> None")
  case True
  then show ?thesis using assms(1,2,4)
    by (auto simp: Let_def accept_plugin_def accept_start_def plugin_start_def add_struct_def put_plugin_def RegisterPlugin_def
        plugin_UpdateContainers_def new_plugin_def split: option.split)
next
  case False
  then have s: "starts cn" "sync_error answer syncFn (ho_next h) \<noteq> None" "sync_clean answer syncFn (ho_next h)"
    using assms(3) by blast+
  from s(1) obtain p where p: "accept_start cn h = (Some (ho_next h),
      h\<lparr>ho_ad := (ho_ad h)\<lparr>ad_table := (ad_table (ho_ad h))(ho_next h := p)\<rparr>, ho_next := ho_next h + 1,
        ho_open := ho_open h @ [ho_next h]\<rparr>)" "\<not> pl_closed p"
    by (rule accept_start_starts)
  show ?thesis using s(2,3) p(2) assms(4)
    by (auto simp: Let_def accept_plugin_def p(1) accept_sync_def synchronized_host plugin_UpdateContainers_def)
qed

text \<open>
  A plugin may register again while it is in service, under another index, and then the plugins are no longer called in the
  order of their indices.
\<close>

lemma re_registration_breaks_order:
  assumes "ad_plugins ad = i # j # rest" and "i \<noteq> j" and "name \<noteq> []" and "CheckPluginIndex idx = None"
    and "pl_idx (ad_table ad j) < idx"
  shows "\<exists>p. RegisterPlugin True name idx (ad_table ad i) = (None, p) \<and>
    \<not> ad_ok (ad\<lparr>ad_table := (ad_table ad)(i := p)\<rparr>)"
  using assms by (auto simp: RegisterPlugin_def ad_ok_def by_index_def)

section \<open>Blocking synchronisation\<close>

inductive_cases accept_step_cases: "accept_step a b"

definition syncing :: "accept_phase \<Rightarrow> bool" where
  "syncing p \<longleftrightarrow> (case p of Synchronizing _ \<Rightarrow> True | Adding _ \<Rightarrow> True | Finishing \<Rightarrow> True | _ \<Rightarrow> False)"

definition locking :: "accept_phase \<Rightarrow> bool" where
  "locking p \<longleftrightarrow> (case p of Locking _ \<Rightarrow> True | _ \<Rightarrow> False)"

definition listening :: "acceptor \<Rightarrow> bool" where
  "listening a \<longleftrightarrow> ac_at a = Accepting \<and>
     ac_lock a = \<lparr>sl_readers = 0, sl_waiting = False, sl_writer = False, sl_blocks = []\<rparr>"

definition lock_ok :: "acceptor \<Rightarrow> bool" where
  "lock_ok a \<longleftrightarrow> sl_readers (ac_lock a) = count_list (sl_blocks (ac_lock a)) True \<and>
     (sl_writer (ac_lock a) \<longrightarrow> sl_readers (ac_lock a) = 0) \<and>
     sl_writer (ac_lock a) = syncing (ac_at a) \<and> sl_waiting (ac_lock a) = locking (ac_at a)"

lemma count_release:
  "b < length bs \<Longrightarrow> bs ! b \<Longrightarrow> count_list (bs[b := False]) True = count_list bs True - 1 \<and> count_list bs True > 0"
proof (induction bs arbitrary: b)
  case Nil
  then show ?case by simp
next
  case (Cons x bs)
  show ?case
  proof (cases b)
    case 0
    with Cons.prems show ?thesis by simp
  next
    case (Suc c)
    with Cons.IH [of c] Cons.prems show ?thesis by auto
  qed
qed

lemma lock_step_ok: "accept_step a b \<Longrightarrow> lock_ok a \<Longrightarrow> lock_ok b"
  by (erule accept_step_cases)
    (auto simp: BlockPluginSync_def Unblock_sync_def requestPluginSync_def granted_sync_def finishedPluginSync_def
      lock_ok_def syncing_def locking_def count_release split: if_splits)

lemma lock_reachable_ok:
  assumes "accept_step\<^sup>*\<^sup>* a b" and "listening a"
  shows "lock_ok b"
  using assms(1)
proof (induction rule: rtranclp_induct)
  case base
  show ?case using assms(2) by (simp add: listening_def lock_ok_def syncing_def locking_def)
next
  case (step b c)
  then show ?case by (blast intro: lock_step_ok)
qed

text \<open>Requests, failures and registrations put no plugin into service.\<close>

lemma ad_step_plugins:
  assumes "ad_step ad l ad'" and "l \<notin> {Starts, Joins}"
  shows "set (ad_plugins ad') \<subseteq> set (ad_plugins ad)"
proof -
  have after: "set (ad_plugins b) \<subseteq> set (ad_plugins a)" if "after_request a b" for a b
    using that by (auto simp: after_request_def only_closes_def removeClosedPlugins_def Let_def)
  from assms show ?thesis
  proof (induction rule: ad_step.induct)
    case (event evt eimpl ad)
    then show ?case using after [OF StateChange_after] by blast
  next
    case (unset_event ad eimpl)
    then show ?case by (simp add: StateChange_def)
  qed (use after request_after in \<open>auto simp: plugin_close_def forget_plugins_def\<close>)
qed

lemma accept_start_plugins: "accept_start cn h = (r, h') \<Longrightarrow> ad_plugins (ho_ad h') = ad_plugins (ho_ad h)"
  by (auto simp: accept_start_def plugin_start_def host_defs
      split: option.splits prod.splits awaited.splits)

lemma blocked_step:
  assumes "accept_step a b" and "\<not> syncing (ac_at a)"
  shows "set (ad_plugins (ho_ad (ac_host b))) \<subseteq> set (ad_plugins (ho_ad (ac_host a)))"
  using assms
  by (auto elim!: accept_step_cases simp: syncing_def dest!: accept_start_plugins ad_step_plugins)

text \<open>
  C27. The loop that accepts plugins, as it runs next to requests and to whoever blocks synchronisation. While a block is in
  place, however many there are and however often others are released, it is not synchronising a plugin and cannot start to,
  and no step of the runtime puts a plugin into service. Once the loop waits for the lock no new block can be put in place, and
  as soon as the last one is released it gets the lock.
\<close>

theorem no_sync_while_blocked:
  assumes "accept_step\<^sup>*\<^sup>* a0 a" and "listening a0"
  shows "(if True \<in> set (sl_blocks (ac_lock a))
      then \<not> syncing (ac_at a) \<and>
        (\<forall>b. accept_step a b \<longrightarrow> \<not> syncing (ac_at b) \<and>
          set (ad_plugins (ho_ad (ac_host b))) \<subseteq> set (ad_plugins (ho_ad (ac_host a))))
      else locking (ac_at a) \<longrightarrow> granted_sync (ac_lock a) \<noteq> None) \<and>
    (locking (ac_at a) \<longrightarrow> BlockPluginSync (ac_lock a) = None)"
proof -
  note ok = lock_reachable_ok [OF assms]
  have wait: "locking (ac_at a) \<longrightarrow> BlockPluginSync (ac_lock a) = None"
    using ok by (simp add: lock_ok_def BlockPluginSync_def)
  show ?thesis
  proof (cases "True \<in> set (sl_blocks (ac_lock a))")
    case True
    then have r: "sl_readers (ac_lock a) > 0" using ok by (auto simp: lock_ok_def count_list_0_iff intro: gr0I)
    then have n: "\<not> syncing (ac_at a)" using ok by (auto simp: lock_ok_def)
    have "\<not> syncing (ac_at b)" if "accept_step a b" for b
      using that n r by (auto elim!: accept_step_cases simp: syncing_def granted_sync_def)
    then show ?thesis using True n wait blocked_step [OF _ n] by simp
  next
    case False
    then have "sl_readers (ac_lock a) = 0" using ok by (simp add: lock_ok_def count_list_0_iff)
    then have "locking (ac_at a) \<longrightarrow> granted_sync (ac_lock a) \<noteq> None"
      using ok by (auto simp: lock_ok_def granted_sync_def syncing_def locking_def split: accept_phase.splits)
    then show ?thesis using False wait by simp
  qed
qed

section \<open>Witnesses\<close>

definition sample_host :: host where
  "sample_host = \<lparr>ho_ad = \<lparr>ad_table = (\<lambda>_. new_plugin [] []), ad_plugins = [], ad_validators = []\<rparr>,
     ho_next = 0, ho_running = [], ho_open = []\<rparr>"

definition sample_settings :: "unit settings" where
  "sample_settings = \<lparr>se_name = ''cri'', se_version = ''1'', se_dropinPath = ''/etc/nri/conf.d'',
     se_pluginPath = ''/opt/nri/plugins'', se_socketPath = ''/s'', se_dontListen = False, se_clientOpts = [],
     se_serverOpts = [], se_builtin = [\<lparr>bp_base = ''b'', bp_index = ''00'', bp_handlers = no_handlers\<rparr>],
     se_wasmService = False\<rparr>"

definition sample_launch :: launch where
  "sample_launch = \<lparr>lu_header = Some ''#!/bin/sh'', lu_wasm = None, lu_sockets = None, lu_exec = None,
     lu_connect = None, lu_wait = Registers ''a'' ''10'', lu_configured = (\<lambda>_. Inr 0)\<rparr>"

definition sample_dir :: "string \<Rightarrow> listing" where
  "sample_dir path = Entries [\<lparr>de_name = ''10-a'', de_is_dir = False, de_mode = Some 0x1ED\<rparr>,
     \<lparr>de_name = ''notes'', de_is_dir = False, de_mode = Some 0x1A4\<rparr>]"

definition sample_sync :: runtime_sync where
  "sample_sync = SyncPlugins [] [] (\<lambda>_. SyncReturns None)"

definition request_with :: "string \<Rightarrow> configure_request" where
  "request_with = configure_request_for 5000 2000 sample_settings"

lemma sample_sorter: "is_sorter (\<lambda>f. sort_key f)"
  by (simp add: is_sorter_def)

lemma sample_tidy: "tidy_launch sample_launch" "good_launch False sample_launch"
  by (simp_all add: tidy_launch_def good_launch_def sample_launch_def isWasm_file_def valid_mask_def)

theorem startPlugins_all_or_nothing_witness:
  "case startPlugins (\<lambda>f. sort_key f) sample_dir (\<lambda>_. NotExist) (\<lambda>_. sample_launch) request_with
      (\<lambda>k _ _. Inr []) sample_sync sample_settings sample_host of
      (Done, h') \<Rightarrow>
        ad_ok (ho_ad h')
        \<and> (\<forall>k\<in>set (ad_plugins (ho_ad h')). ho_next sample_host \<le> k \<and> in_service (ad_table (ho_ad h') k))
        \<and> {k \<in> set (ho_running h'). k < ho_next sample_host} = set (ho_running sample_host)
        \<and> ((\<forall>path. tidy_launch ((\<lambda>_::string. sample_launch) path)) \<longrightarrow>
             {k \<in> set (ho_running h'). ho_next sample_host \<le> k} \<subseteq> set (ad_plugins (ho_ad h')))
    | (Failed e, h') \<Rightarrow>
        ad_plugins (ho_ad h') = ad_plugins (ho_ad sample_host) \<and>
        ad_validators (ho_ad h') = ad_validators (ho_ad sample_host)
        \<and> {k \<in> set (ho_running h'). k < ho_next sample_host} = set (ho_running sample_host)
        \<and> ((\<forall>path. tidy_launch ((\<lambda>_::string. sample_launch) path)) \<longrightarrow> set (ho_running h') = set (ho_running sample_host))
    | (Panicked, h') \<Rightarrow>
        ad_plugins (ho_ad h') = ad_plugins (ho_ad sample_host) \<and>
        ad_validators (ho_ad h') = ad_validators (ho_ad sample_host)
        \<and> set (ho_running h') = set (ho_running sample_host)"
  by (rule startPlugins_all_or_nothing) (simp_all add: sample_sorter sample_host_def)

lemma sample_found:
  "discoverPlugins sample_dir (\<lambda>_. NotExist) sample_settings = Inr [\<lparr>di_idx = ''10'', di_base = ''a'', di_cfg = []\<rparr>]"
  by (simp add: discoverPlugins_def sample_dir_def sample_settings_def is_candidate_def getPluginConfig_def
      ParsePluginName_def CheckPluginIndex_def splitN2_def is_digit_def)

theorem startPlugins_starts_all_witness:
  "case startPlugins (\<lambda>f. sort_key f) sample_dir (\<lambda>_. NotExist) (\<lambda>_. sample_launch) request_with
      (\<lambda>k _ _. Inr []) sample_sync sample_settings sample_host of
      (Done, h') \<Rightarrow>
        mset (map (\<lambda>k. (pl_idx (ad_table (ho_ad h') k), pl_base (ad_table (ho_ad h') k))) (ad_plugins (ho_ad h'))) =
        mset [(''00'', ''b''), (''10'', ''a'')]
    | _ \<Rightarrow> False"
proof -
  have b: "list_all (good_builtin (request_with [])) (se_builtin sample_settings)"
    by (simp add: sample_settings_def good_builtin_def Builtin_Configure_def no_handlers_def handler_events_def
        set_if_def valid_mask_def)
  have l: "good_launch (se_wasmService sample_settings) sample_launch"
    using sample_tidy by (simp add: sample_settings_def)
  have s: "never_fails sample_sync" by (simp add: sample_sync_def)
  have names: "map (\<lambda>b. (bp_index b, bp_base b)) (se_builtin sample_settings) @
      map (\<lambda>d. (di_idx d, di_base d)) [\<lparr>di_idx = ''10'', di_base = ''a'', di_cfg = []\<rparr>] =
      [(''00'', ''b''), (''10'', ''a'')]"
    by (simp add: sample_settings_def)
  note all = startPlugins_starts_all [where launch_of = "\<lambda>_. sample_launch" and answer = "\<lambda>k _ _. Inr []"
      and req = request_with, OF sample_sorter sample_found b l _ s, unfolded names]
  show ?thesis by (rule all) blast
qed

text \<open>The runtime's function asks for a synchronisation, swallows its error and returns none.\<close>

theorem accept_plugin_iff_witness:
  "set (ad_plugins (ho_ad (accept_plugin (\<lambda>f. sort_key f) (\<lambda>k _ _. Inl ''gone'') sample_sync
      \<lparr>cn_connect = None, cn_wait = Registers ''x'' ''10'', cn_configured = Inr 0\<rparr> sample_host))) = {}"
proof -
  let ?cn = "\<lparr>cn_connect = None, cn_wait = Registers ''x'' ''10'', cn_configured = Inr 0\<rparr>"
  have "\<not> admitted (\<lambda>k _ _. Inl ''gone'') sample_sync ?cn (ho_next sample_host)"
    by (simp add: admitted_def sync_outcome_def sample_sync_def)
  then show ?thesis
    using accept_plugin_iff [OF sample_sorter, of sample_host "\<lambda>k _ _. Inl ''gone''" sample_sync ?cn]
    by (simp add: sample_host_def)
qed

theorem refused_plugin_stays_connected_witness:
  "let h' = accept_plugin (\<lambda>f. sort_key f) (\<lambda>k _ _. Inr []) sample_sync
       \<lparr>cn_connect = None, cn_wait = Registers ''x'' ''1'', cn_configured = Inr 0\<rparr> sample_host in
     ho_next sample_host \<notin> set (ad_plugins (ho_ad h')) \<and> \<not> pl_closed (ad_table (ho_ad h') (ho_next sample_host)) \<and>
     plugin_UpdateContainers (\<lambda>us. (us, None)) [None] (ho_next sample_host) h' = Some ([None], None)"
  by (rule refused_plugin_stays_connected [where name = "''x''" and idx = "''1''"])
    (simp_all add: sample_host_def CheckPluginIndex_def)

definition sample_acceptor :: acceptor where
  "sample_acceptor = \<lparr>ac_host = sample_host,
     ac_lock = \<lparr>sl_readers = 0, sl_waiting = False, sl_writer = False, sl_blocks = []\<rparr>, ac_at = Accepting\<rparr>"

definition sample_connection :: connection where
  "sample_connection = \<lparr>cn_connect = None, cn_wait = Registers ''x'' ''10'', cn_configured = Inr 0\<rparr>"

text \<open>
  A plugin has connected and registered, synchronisation is blocked, and then the loop asks for the lock: no next step synchronises
  the plugin, and no second block is let in.
\<close>

definition sample_blocked :: acceptor where
  "sample_blocked = sample_acceptor\<lparr>ac_host := snd (accept_start sample_connection sample_host),
     ac_lock := \<lparr>sl_readers = 1, sl_waiting = True, sl_writer = False, sl_blocks = [True]\<rparr>, ac_at := Locking 0\<rparr>"

lemma sample_blocked_reachable: "accept_step\<^sup>*\<^sup>* sample_acceptor sample_blocked"
proof -
  let ?a1 = "sample_acceptor\<lparr>ac_host := snd (accept_start sample_connection sample_host), ac_at := Started 0\<rparr>"
  let ?l = "\<lparr>sl_readers = 1, sl_waiting = False, sl_writer = False, sl_blocks = [True]\<rparr>"
  have "starts sample_connection"
    by (simp add: starts_def sample_connection_def CheckPluginIndex_def is_digit_def valid_mask_def)
  then have "fst (accept_start sample_connection sample_host) = Some 0"
    by (rule accept_start_starts [of _ sample_host]) (simp add: sample_host_def)
  then have "accept_start sample_connection (ac_host sample_acceptor) =
      (Some 0, snd (accept_start sample_connection sample_host))"
    by (simp add: sample_acceptor_def prod_eq_iff)
  then have "accept_step sample_acceptor ?a1"
    by (intro accept_step.started) (simp_all add: sample_acceptor_def)
  moreover have "accept_step ?a1 (?a1\<lparr>ac_lock := ?l\<rparr>)"
    by (intro accept_step.block) (simp add: BlockPluginSync_def sample_acceptor_def)
  moreover have "accept_step (?a1\<lparr>ac_lock := ?l\<rparr>) sample_blocked"
    using accept_step.request [of "?a1\<lparr>ac_lock := ?l\<rparr>" 0] by (simp add: requestPluginSync_def sample_blocked_def)
  ultimately show ?thesis by (meson converse_rtranclp_into_rtranclp rtranclp.rtrancl_refl)
qed

theorem no_sync_while_blocked_witness:
  "\<not> (\<exists>b. accept_step sample_blocked b \<and> syncing (ac_at b)) \<and> BlockPluginSync (ac_lock sample_blocked) = None"
proof -
  have "listening sample_acceptor" by (simp add: listening_def sample_acceptor_def)
  note blocked = no_sync_while_blocked [OF sample_blocked_reachable this]
  have "True \<in> set (sl_blocks (ac_lock sample_blocked))" "locking (ac_at sample_blocked)"
    by (simp_all add: sample_blocked_def locking_def)
  with blocked show ?thesis by simp
qed

end
