(* ===== verification/Injector.thy ===== *)
theory Injector
  imports Adjustment API_Helpers Conversions
begin

text \<open>
  The device injector (\<^verbatim>\<open>src/plugins/device-injector/device-injector.go\<close>), a plugin that adds to a
  container the devices, CDI devices, mounts, network devices, I/O priority and scheduling
  attributes that annotations of its pod list. \<^verbatim>\<open>yaml.Unmarshal\<close> is a parameter, one decoder per
  annotated type. Log messages are left out.
\<close>

section \<open>Annotated types\<close>

record annotated_device =
  ad_path :: string
  ad_type :: string
  ad_major :: int64
  ad_minor :: int64
  ad_file_mode :: uint32
  ad_uid :: uint32
  ad_gid :: uint32

record annotated_mount =
  am_source :: string
  am_destination :: string
  am_type :: string
  am_options :: "string list"

record annotated_io_prio =
  ai_class :: string
  ai_priority :: int32

record annotated_net_device =
  an_host_if :: string
  an_name :: string

record annotated_scheduler =
  as_policy :: string
  as_nice :: int32
  as_priority :: int32
  as_flags :: "string list"
  as_runtime :: uint64
  as_deadline :: uint64
  as_period :: uint64

text \<open>
  What \<^verbatim>\<open>yaml.Unmarshal\<close> makes of an annotation: an error or a value. The list of network devices
  is one of pointers, with nil for a null entry.
\<close>

record injector_yaml =
  yaml_devices :: "string \<Rightarrow> string + annotated_device list"
  yaml_cdi_devices :: "string \<Rightarrow> string + string list"
  yaml_mounts :: "string \<Rightarrow> string + annotated_mount list"
  yaml_io_prio :: "string \<Rightarrow> string + annotated_io_prio"
  yaml_scheduler :: "string \<Rightarrow> string + annotated_scheduler"
  yaml_net_devices :: "string \<Rightarrow> string + annotated_net_device option list"

datatype injector_error =
    InvalidDevices string string | InvalidCDIDevices string string | InvalidMounts string string
  | InvalidIOPriority string string | InvalidScheduler string string
  | InvalidNetDevices string string

type_synonym injection = "(injector_error, container_adjustment) action"

section \<open>Lookup and decoding of annotations\<close>

definition deviceKey :: string where "deviceKey = ''devices.noderesource.dev''"
definition oldDeviceKey :: string where "oldDeviceKey = ''devices.nri.io''"
definition mountKey :: string where "mountKey = ''mounts.noderesource.dev''"
definition oldMountKey :: string where "oldMountKey = ''mounts.nri.io''"
definition cdiDeviceKey :: string where "cdiDeviceKey = ''cdi-devices.noderesource.dev''"
definition oldCDIDeviceKey :: string where "oldCDIDeviceKey = ''cdi-devices.nri.io''"
definition ioPrioKey :: string where "ioPrioKey = ''io-priority.noderesource.dev''"
definition oldIoPrioKey :: string where "oldIoPrioKey = ''io-priority.nri.io''"
definition netDeviceKey :: string where "netDeviceKey = ''network-devices.noderesource.dev''"
definition oldNetDeviceKey :: string where "oldNetDeviceKey = ''network-devices.nri.io''"
definition schedulerKey :: string where "schedulerKey = ''scheduling-policy.noderesource.dev''"
definition oldSchedulerKey :: string where "oldSchedulerKey = ''scheduling-policy.nri.io''"

text \<open>The value of the first of some keys that is annotated, even if it is empty.\<close>

definition first_annotated :: "string list \<Rightarrow> (string, string) gomap option \<Rightarrow> string option" where
  "first_annotated keys annotations =
     (case find (\<lambda>k. gmap_get annotations k \<noteq> None) keys of
        None \<Rightarrow> None
      | Some k \<Rightarrow> gmap_get annotations k)"

definition getAnnotation ::
    "(string, string) gomap option \<Rightarrow> string \<Rightarrow> string \<Rightarrow> string \<Rightarrow> string option" where
  "getAnnotation annotations mainKey oldKey ctr =
     first_annotated
       [mainKey @ ''/container.'' @ ctr, oldKey @ ''/container.'' @ ctr,
        mainKey @ ''/pod'', oldKey @ ''/pod'', mainKey, oldKey] annotations"

text \<open>The parsers of lists take an empty annotation for none, those of single values and of network devices do not.\<close>

definition parseDevices ::
    "injector_yaml \<Rightarrow> string \<Rightarrow> (string, string) gomap option \<Rightarrow> injector_error + annotated_device list" where
  "parseDevices y ctr annotations =
     (case getAnnotation annotations deviceKey oldDeviceKey ctr of
        None \<Rightarrow> Inr []
      | Some a \<Rightarrow>
         if a = [] then Inr []
         else (case yaml_devices y a of Inl e \<Rightarrow> Inl (InvalidDevices a e) | Inr ds \<Rightarrow> Inr ds))"

definition parseCDIDevices ::
    "injector_yaml \<Rightarrow> string \<Rightarrow> (string, string) gomap option \<Rightarrow> injector_error + string list" where
  "parseCDIDevices y ctr annotations =
     (case getAnnotation annotations cdiDeviceKey oldCDIDeviceKey ctr of
        None \<Rightarrow> Inr []
      | Some a \<Rightarrow>
         if a = [] then Inr []
         else (case yaml_cdi_devices y a of Inl e \<Rightarrow> Inl (InvalidCDIDevices a e) | Inr ds \<Rightarrow> Inr ds))"

definition parseMounts ::
    "injector_yaml \<Rightarrow> string \<Rightarrow> (string, string) gomap option \<Rightarrow> injector_error + annotated_mount list" where
  "parseMounts y ctr annotations =
     (case getAnnotation annotations mountKey oldMountKey ctr of
        None \<Rightarrow> Inr []
      | Some a \<Rightarrow>
         if a = [] then Inr []
         else (case yaml_mounts y a of Inl e \<Rightarrow> Inl (InvalidMounts a e) | Inr ms \<Rightarrow> Inr ms))"

definition parseIOPriority ::
    "injector_yaml \<Rightarrow> string \<Rightarrow> (string, string) gomap option \<Rightarrow> injector_error + annotated_io_prio option" where
  "parseIOPriority y ctr annotations =
     (case getAnnotation annotations ioPrioKey oldIoPrioKey ctr of
        None \<Rightarrow> Inr None
      | Some a \<Rightarrow> (case yaml_io_prio y a of Inl e \<Rightarrow> Inl (InvalidIOPriority a e) | Inr p \<Rightarrow> Inr (Some p)))"

definition parseScheduler ::
    "injector_yaml \<Rightarrow> string \<Rightarrow> (string, string) gomap option \<Rightarrow> injector_error + annotated_scheduler option" where
  "parseScheduler y ctr annotations =
     (case getAnnotation annotations schedulerKey oldSchedulerKey ctr of
        None \<Rightarrow> Inr None
      | Some a \<Rightarrow> (case yaml_scheduler y a of Inl e \<Rightarrow> Inl (InvalidScheduler a e) | Inr s \<Rightarrow> Inr (Some s)))"

definition parseNetDevices ::
    "injector_yaml \<Rightarrow> string \<Rightarrow> (string, string) gomap option \<Rightarrow>
     injector_error + annotated_net_device option list" where
  "parseNetDevices y ctr annotations =
     (case getAnnotation annotations netDeviceKey oldNetDeviceKey ctr of
        None \<Rightarrow> Inr []
      | Some a \<Rightarrow> (case yaml_net_devices y a of Inl e \<Rightarrow> Inl (InvalidNetDevices a e) | Inr ds \<Rightarrow> Inr ds))"

section \<open>Conversion to the messages of the API\<close>

definition device_toNRI :: "annotated_device \<Rightarrow> linux_device" where
  "device_toNRI d =
     \<lparr>dev_path = ad_path d, dev_type = ad_type d, dev_major = ad_major d, dev_minor = ad_minor d,
      dev_file_mode = (if ad_file_mode d \<noteq> 0 then FileMode (If_uint32 (ad_file_mode d)) else None),
      dev_uid = (if ad_uid d \<noteq> 0 then UInt32 (If_uint32 (ad_uid d)) else None),
      dev_gid = (if ad_gid d \<noteq> 0 then UInt32 (If_uint32 (ad_gid d)) else None)\<rparr>"

definition mount_toNRI :: "annotated_mount \<Rightarrow> mount" where
  "mount_toNRI m =
     \<lparr>mnt_destination = am_destination m, mnt_type = am_type m, mnt_source = am_source m,
      mnt_options = am_options m\<rparr>"

definition ioPrio_toNRI :: "annotated_io_prio \<Rightarrow> linux_io_priority option" where
  "ioPrio_toNRI p =
     (let prio = (\<lambda>class. Some \<lparr>iop_class = class, iop_priority = ai_priority p\<rparr>) in
      if ai_class p = ''IOPRIO_CLASS_NONE'' then prio IOPRIO_CLASS_NONE
      else if ai_class p = ''IOPRIO_CLASS_RT'' then prio IOPRIO_CLASS_RT
      else if ai_class p = ''IOPRIO_CLASS_BE'' then prio IOPRIO_CLASS_BE
      else if ai_class p = ''IOPRIO_CLASS_IDLE'' then prio IOPRIO_CLASS_IDLE
      else None)"

definition scheduler_ToNRI :: "annotated_scheduler \<Rightarrow> linux_scheduler" where
  "scheduler_ToNRI s =
     \<lparr>sch_policy = enum_value SCHED_NONE sched_policy_names (as_policy s), sch_nice = as_nice s,
      sch_priority = as_priority s,
      sch_flags = map (enum_value SCHED_FLAG_RESET_ON_FORK sched_flag_names) (as_flags s),
      sch_runtime = as_runtime s, sch_deadline = as_deadline s, sch_period = as_period s\<rparr>"

section \<open>Injection\<close>

definition injectDevices :: "injector_yaml \<Rightarrow> pod_sandbox \<Rightarrow> container \<Rightarrow> injection" where
  "injectDevices y pod ctr a =
     (case parseDevices y (ctr_name ctr) (pod_annotations pod) of
        Inl e \<Rightarrow> (Failed e, a)
      | Inr ds \<Rightarrow> for_each ds (\<lambda>d. assign (Adjustment_AddDevice (device_toNRI d))) a)"

definition injectCDIDevices :: "injector_yaml \<Rightarrow> pod_sandbox \<Rightarrow> container \<Rightarrow> injection" where
  "injectCDIDevices y pod ctr a =
     (case parseCDIDevices y (ctr_name ctr) (pod_annotations pod) of
        Inl e \<Rightarrow> (Failed e, a)
      | Inr ds \<Rightarrow> for_each ds (\<lambda>name. assign (Adjustment_AddCDIDevice \<lparr>cdi_name = name\<rparr>)) a)"

definition injectMounts :: "injector_yaml \<Rightarrow> pod_sandbox \<Rightarrow> container \<Rightarrow> injection" where
  "injectMounts y pod ctr a =
     (case parseMounts y (ctr_name ctr) (pod_annotations pod) of
        Inl e \<Rightarrow> (Failed e, a)
      | Inr ms \<Rightarrow> for_each ms (\<lambda>m. assign (Adjustment_AddMount (mount_toNRI m))) a)"

definition setIOPriority :: "injector_yaml \<Rightarrow> pod_sandbox \<Rightarrow> container \<Rightarrow> injection" where
  "setIOPriority y pod ctr a =
     (case parseIOPriority y (ctr_name ctr) (pod_annotations pod) of
        Inl e \<Rightarrow> (Failed e, a)
      | Inr None \<Rightarrow> (Done, a)
      | Inr (Some p) \<Rightarrow> (Done, Adjustment_SetLinuxIOPriority (ioPrio_toNRI p) a))"

definition adjustScheduler_annotated :: "injector_yaml \<Rightarrow> pod_sandbox \<Rightarrow> container \<Rightarrow> injection" where
  "adjustScheduler_annotated y pod ctr a =
     (case parseScheduler y (ctr_name ctr) (pod_annotations pod) of
        Inl e \<Rightarrow> (Failed e, a)
      | Inr None \<Rightarrow> (Done, a)
      | Inr (Some s) \<Rightarrow> (Done, Adjustment_SetLinuxScheduler (Some (scheduler_ToNRI s)) a))"

text \<open>A null entry is a nil pointer, which the loop dereferences.\<close>

definition injectNetDevices :: "injector_yaml \<Rightarrow> pod_sandbox \<Rightarrow> container \<Rightarrow> injection" where
  "injectNetDevices y pod ctr a =
     (case parseNetDevices y (ctr_name ctr) (pod_annotations pod) of
        Inl e \<Rightarrow> (Failed e, a)
      | Inr ds \<Rightarrow>
         for_each ds (\<lambda>d a.
           (case d of
              None \<Rightarrow> (Panicked, a)
            | Some n \<Rightarrow>
               (Done, Adjustment_AddLinuxNetDevice (an_host_if n) (Some \<lparr>nd_name = an_name n\<rparr>) a))) a)"

text \<open>The handler; it dereferences pod and container.\<close>

definition Injector_CreateContainer ::
    "injector_yaml \<Rightarrow> pod_sandbox option \<Rightarrow> container option \<Rightarrow>
     injector_error status \<times> container_adjustment option" where
  "Injector_CreateContainer y pod ctr =
     (case (pod, ctr) of
        (Some p, Some c) \<Rightarrow>
          (case run [injectDevices y p c, injectCDIDevices y p c, injectMounts y p c, setIOPriority y p c,
                     adjustScheduler_annotated y p c, injectNetDevices y p c] zero_adjustment of
             (Done, a) \<Rightarrow> (Done, Some a)
           | (st, _) \<Rightarrow> (st, None))
      | _ \<Rightarrow> (Panicked, None))"

end
