(* ===== verification/Sample_Plugins.thy ===== *)
theory Sample_Plugins
  imports Injector Validator "HOL-Library.Sublist"
begin

text \<open>
  Four more plugins: the ulimit adjuster (\<^verbatim>\<open>src/plugins/ulimit-adjuster/adjuster.go\<close>), the RDT
  plugin (\<^verbatim>\<open>src/plugins/rdt/main.go\<close>), the hook injector
  (\<^verbatim>\<open>src/plugins/hook-injector/hook-injector.go\<close>) and the network device injector
  (\<^verbatim>\<open>src/plugins/network-device-injector/network-device-injector.go\<close>). Third-party code is a
  parameter: \<^verbatim>\<open>yaml.Unmarshal\<close> and the hook manager; so are here the moves of network links, in \<^verbatim>\<open>Net_Links\<close>.
\<close>

section \<open>Strings\<close>

definition trim_prefix :: "string \<Rightarrow> string \<Rightarrow> string" where
  "trim_prefix p s = (if prefix p s then drop (length p) s else s)"

definition trim_suffix :: "string \<Rightarrow> string \<Rightarrow> string" where
  "trim_suffix p s = (if suffix p s then take (length s - length p) s else s)"

definition upper :: "char \<Rightarrow> char" where
  "upper c = (let n = of_char c :: nat in if 97 \<le> n \<and> n \<le> 122 then char_of (n - 32) else c)"

text \<open>
  \<^verbatim>\<open>strings.ToUpper\<close> as far as it yields ASCII letters: of a letter \<^verbatim>\<open>a\<close> to \<^verbatim>\<open>z\<close>, and of the two others
  whose upper case form is in that range, the long s (bytes C5 BF) and the dotless i (C4 B1). Other
  bytes outside ASCII stay, where the library maps them to others outside ASCII.
\<close>

fun ToUpper :: "string \<Rightarrow> string" where
  "ToUpper (a # b # s) =
     (if a = CHR 0xC5 \<and> b = CHR 0xBF then CHR ''S'' # ToUpper s
      else if a = CHR 0xC4 \<and> b = CHR 0xB1 then CHR ''I'' # ToUpper s
      else upper a # ToUpper (b # s))"
| "ToUpper [a] = [upper a]"
| "ToUpper [] = []"

section \<open>Ulimits\<close>

record ulimit =
  ul_type :: string
  ul_hard :: uint64
  ul_soft :: uint64

datatype ulimit_error = InvalidUlimits string | InvalidType string | HardBelowSoft string

definition ulimitKey :: string where "ulimitKey = ''ulimits.noderesource.dev''"
definition oldUlimitKey :: string where "oldUlimitKey = ''ulimits.nri.containerd.io''"
definition rlimitPrefix :: string where "rlimitPrefix = ''RLIMIT_''"

definition valid_types :: "string list" where
  "valid_types =
     [''AS'', ''CORE'', ''CPU'', ''DATA'', ''FSIZE'', ''LOCKS'', ''MEMLOCK'', ''MSGQUEUE'', ''NICE'',
      ''NOFILE'', ''NPROC'', ''RSS'', ''RTPRIO'', ''RTTIME'', ''SIGPENDING'', ''STACK'']"

definition trimmed_type :: "string \<Rightarrow> string" where
  "trimmed_type t = trim_prefix rlimitPrefix (ToUpper t)"

fun normalise_types :: "ulimit list \<Rightarrow> ulimit_error + ulimit list" where
  "normalise_types [] = Inr []"
| "normalise_types (u # us) =
     (if trimmed_type (ul_type u) \<notin> set valid_types then Inl (InvalidType (ul_type u))
      else (case normalise_types us of
              Inl e \<Rightarrow> Inl e
            | Inr vs \<Rightarrow> Inr (u\<lparr>ul_type := rlimitPrefix @ trimmed_type (ul_type u)\<rparr> # vs)))"

definition parseUlimits ::
    "(string \<Rightarrow> string + ulimit list) \<Rightarrow> string \<Rightarrow> (string, string) gomap option \<Rightarrow>
     ulimit_error + ulimit list" where
  "parseUlimits yaml container annotations =
     (let val = (case first_annotated
                   [ulimitKey @ ''/container.'' @ container, oldUlimitKey @ ''/container.'' @ container]
                   annotations of None \<Rightarrow> [] | Some v \<Rightarrow> v) in
      if val = [] then Inr []
      else (case yaml val of
              Inl e \<Rightarrow> Inl (InvalidUlimits e)
            | Inr ulimits \<Rightarrow> normalise_types ulimits))"

definition adjustUlimits :: "ulimit list \<Rightarrow> (ulimit_error, container_adjustment) action" where
  "adjustUlimits ulimits = for_each ulimits (\<lambda>u a.
     if ul_hard u < ul_soft u then (Failed (HardBelowSoft (ul_type u)), a)
     else (Done, Adjustment_AddRlimit (ul_type u) (ul_hard u) (ul_soft u) a))"

text \<open>An error returns no adjustment; the handler dereferences pod and container.\<close>

definition reply :: "'e status \<times> container_adjustment \<Rightarrow> 'e status \<times> container_adjustment option" where
  "reply r = (case r of (Done, a) \<Rightarrow> (Done, Some a) | (st, _) \<Rightarrow> (st, None))"

definition Ulimit_CreateContainer ::
    "(string \<Rightarrow> string + ulimit list) \<Rightarrow> pod_sandbox option \<Rightarrow> container option \<Rightarrow>
     ulimit_error status \<times> container_adjustment option" where
  "Ulimit_CreateContainer yaml pod ctr =
     (case (pod, ctr) of
        (Some p, Some c) \<Rightarrow>
          (case parseUlimits yaml (ctr_name c) (pod_annotations p) of
             Inl e \<Rightarrow> (Failed e, None)
           | Inr ulimits \<Rightarrow> reply (adjustUlimits ulimits zero_adjustment))
      | _ \<Rightarrow> (Panicked, None))"

section \<open>RDT\<close>

definition rdt_suffix :: "string \<Rightarrow> string" where
  "rdt_suffix container = ''.rdt.noderesource.dev/container.'' @ container"

definition adjustClosID :: "string \<Rightarrow> container_adjustment \<Rightarrow> container_adjustment" where
  "adjustClosID value = Adjustment_SetLinuxRDTClosID value"

definition adjustSchemata :: "string \<Rightarrow> container_adjustment \<Rightarrow> container_adjustment" where
  "adjustSchemata value = Adjustment_SetLinuxRDTSchemata (split_on CHR '','' value)"

text \<open>The only error is that of \<^verbatim>\<open>ParseBool\<close>, which quotes the value.\<close>

definition adjustEnableMonitoring :: "string \<Rightarrow> (string, container_adjustment) action" where
  "adjustEnableMonitoring value a =
     (case ParseBool value of
        None \<Rightarrow> (Failed value, a)
      | Some enable \<Rightarrow> (Done, Adjustment_SetLinuxRDTEnableMonitoring enable a))"

definition adjustRdt_annotated ::
    "string \<Rightarrow> (string, string) gomap option \<Rightarrow> (string, container_adjustment) action" where
  "adjustRdt_annotated container annotations =
     for_each (gmap_entries annotations) (\<lambda>(k, v) a.
       if suffix (rdt_suffix container) k
       then (let fieldName = trim_suffix (rdt_suffix container) k in
             if fieldName = ''closid'' then (Done, adjustClosID v a)
             else if fieldName = ''schemata'' then (Done, adjustSchemata v a)
             else if fieldName = ''enablemonitoring'' then adjustEnableMonitoring v a
             else (Done, a))
       else (Done, a))"

definition Rdt_CreateContainer ::
    "pod_sandbox option \<Rightarrow> container option \<Rightarrow> string status \<times> container_adjustment option" where
  "Rdt_CreateContainer pod ctr =
     (case (pod, ctr) of
        (Some p, Some c) \<Rightarrow> reply (adjustRdt_annotated (ctr_name c) (pod_annotations p) zero_adjustment)
      | _ \<Rightarrow> (Panicked, None))"

section \<open>Hooks\<close>

text \<open>
  The hook manager of \<^verbatim>\<open>github.com/containers/common/pkg/hooks\<close> adds the hooks it finds for arguments,
  annotations and bind mounts to the spec it is given; \<open>hooks_for\<close> is the spec's hooks afterwards. The
  annotations are those of the container, overridden by those of the pod.
\<close>

type_synonym hook_manager = "string list \<Rightarrow> (string \<rightharpoonup> string) \<Rightarrow> bool \<Rightarrow> string + oci_hooks option"

definition hook_annotations :: "pod_sandbox \<Rightarrow> container \<Rightarrow> (string, string) gomap" where
  "hook_annotations p c =
     fold (\<lambda>(k, v). AList.update k v) (gmap_entries (pod_annotations p))
       (fold (\<lambda>(k, v). AList.update k v) (gmap_entries (ctr_annotations c)) [])"

definition Hook_CreateContainer ::
    "hook_manager \<Rightarrow> pod_sandbox option \<Rightarrow> container option \<Rightarrow>
     string status \<times> container_adjustment option" where
  "Hook_CreateContainer hooks_for pod ctr =
     (case (pod, ctr) of
        (Some p, Some c) \<Rightarrow>
          (case hooks_for (ctr_args c) (map_of (hook_annotations p c)) (length (ctr_mounts c) > 0) of
             Inl e \<Rightarrow> (Failed e, None)
           | Inr hooks \<Rightarrow>
              (case FromOCIHooks hooks of
                 None \<Rightarrow> (Done, None)
               | Some h \<Rightarrow> (Done, Some (Adjustment_AddHooks h zero_adjustment))))
      | _ \<Rightarrow> (Panicked, None))"

section \<open>IP addresses\<close>

text \<open>
  When \<^verbatim>\<open>net.ParseIP\<close> accepts a string. IPv4: four decimal fields of at most 255 without leading zeros.
\<close>

definition ipv4_field :: "string \<Rightarrow> bool" where
  "ipv4_field s \<longleftrightarrow> s \<noteq> [] \<and> list_all is_digit s \<and> (length s > 1 \<longrightarrow> hd s \<noteq> CHR ''0'')
     \<and> foldl (\<lambda>n c. 10 * n + (of_char c - 48)) (0 :: nat) s \<le> 255"

definition parseIPv4 :: "string \<Rightarrow> bool" where
  "parseIPv4 s \<longleftrightarrow> length (split_on CHR ''.'' s) = 4 \<and> list_all ipv4_field (split_on CHR ''.'' s)"

definition is_hex :: "char \<Rightarrow> bool" where
  "is_hex c \<longleftrightarrow> is_digit c \<or> c \<in> set ''abcdefABCDEF''"

text \<open>
  IPv6: the loop over the eight groups of 16 bits, of which \<open>n\<close> are left. \<open>ell\<close>: an ellipsis has been seen.
\<close>

fun ipv6_groups :: "nat \<Rightarrow> bool \<Rightarrow> string \<Rightarrow> bool" where
  "ipv6_groups 0 ell s = (s = [] \<and> \<not> ell)"
| "ipv6_groups (Suc n) ell s =
     (let digits = takeWhile is_hex s; rest = dropWhile is_hex s in
      if digits = [] \<or> length digits > 4 then False
      else case rest of
             [] \<Rightarrow> (if n > 0 then ell else \<not> ell)
           | c # cs \<Rightarrow>
               if c = CHR ''.'' then
                 (if \<not> ell \<and> Suc n \<noteq> 2 \<or> Suc n < 2 then False
                  else parseIPv4 s \<and> (if Suc n > 2 then ell else \<not> ell))
               else if c \<noteq> CHR '':'' \<or> cs = [] then False
               else if hd cs = CHR '':'' then
                 (if ell then False else if tl cs = [] then n > 0 else ipv6_groups n True (tl cs))
               else ipv6_groups n ell cs)"

definition parseIPv6 :: "string \<Rightarrow> bool" where
  "parseIPv6 s =
     (if take 2 s = ''::'' then (if drop 2 s = [] then True else ipv6_groups 8 True (drop 2 s))
      else ipv6_groups 8 False s)"

text \<open>The first of the characters \<^verbatim>\<open>.\<close>, \<^verbatim>\<open>:\<close> and \<^verbatim>\<open>%\<close> decides; an address with a zone is refused.\<close>

definition ParseIP :: "string \<Rightarrow> bool" where
  "ParseIP s =
     (case find (\<lambda>c. c \<in> set ''.:%'') s of
        None \<Rightarrow> False
      | Some c \<Rightarrow>
         if c = CHR ''.'' then parseIPv4 s
         else if c = CHR '':'' then CHR ''%'' \<notin> set s \<and> parseIPv6 s
         else False)"

section \<open>Network devices\<close>

record netdevice =
  net_name :: string
  net_new_name :: string
  net_address :: string
  net_prefix :: int
  net_mtu :: int

datatype netdevice_error = InvalidNetdevices string string | InvalidAddress string | HostNetwork

definition netdeviceKey :: string where "netdeviceKey = ''netdevice.noderesource.dev''"
definition oldNetdeviceKey :: string where "oldNetdeviceKey = ''netdevices.nri.containerd.io''"

text \<open>
  The loop that is to validate and default the devices works on a copy of each, so that only its check of
  the address has an effect. \<open>InvalidNetdevices\<close> holds the key and the error.
\<close>

definition parseNetdevices ::
    "(string \<Rightarrow> string + netdevice list) \<Rightarrow> (string, string) gomap option \<Rightarrow>
     netdevice_error + netdevice list" where
  "parseNetdevices yaml annotations =
     (case find (\<lambda>k. gmap_get annotations k \<noteq> None)
             [netdeviceKey @ ''/pod'', oldNetdeviceKey @ ''/pod'', netdeviceKey, oldNetdeviceKey] of
        None \<Rightarrow> Inr []
      | Some key \<Rightarrow>
         (case yaml (the (gmap_get annotations key)) of
            Inl e \<Rightarrow> Inl (InvalidNetdevices key e)
          | Inr devices \<Rightarrow>
             (case find (\<lambda>n. net_address n \<noteq> [] \<and> \<not> ParseIP (net_address n)) devices of
                Some n \<Rightarrow> Inl (InvalidAddress (net_address n))
              | None \<Rightarrow> Inr devices)))"

text \<open>
  Moving links: \<open>move ns n\<close> on the state \<open>'w\<close> of the host's and pods' network links, \<^verbatim>\<open>inject\<close> or \<^verbatim>\<open>release\<close>
  (of \<^verbatim>\<open>Net_Links\<close>). A move that fails ends the loop, without an error.
  The pod's namespaces are the argument \<open>namespaces\<close>.
\<close>

type_synonym ('e, 'w) mover = "string \<Rightarrow> netdevice \<Rightarrow> 'w \<Rightarrow> 'e option \<times> 'w"

fun move_all :: "('e, 'w) mover \<Rightarrow> string \<Rightarrow> netdevice list \<Rightarrow> 'w \<Rightarrow> 'w" where
  "move_all move ns [] w = w"
| "move_all move ns (n # rest) w =
     (case move ns n w of (None, w') \<Rightarrow> move_all move ns rest w' | (Some e, w') \<Rightarrow> w')"

definition network_namespace :: "linux_namespace list \<Rightarrow> string" where
  "network_namespace namespaces =
     (case find (\<lambda>n. ns_type n = ''network'') namespaces of None \<Rightarrow> [] | Some n \<Rightarrow> ns_path n)"

definition Net_RunPodSandbox ::
    "(string \<Rightarrow> string + netdevice list) \<Rightarrow> ('e, 'w) mover \<Rightarrow> linux_namespace list \<Rightarrow> pod_sandbox \<Rightarrow>
     (netdevice_error, 'w) action" where
  "Net_RunPodSandbox yaml inject namespaces p w =
     (case parseNetdevices yaml (pod_annotations p) of
        Inl e \<Rightarrow> (Failed e, w)
      | Inr devices \<Rightarrow>
         if devices = [] then (Done, w)
         else if network_namespace namespaces = [] then (Failed HostNetwork, w)
         else (Done, move_all inject (network_namespace namespaces) devices w))"

definition Net_StopPodSandbox ::
    "(string \<Rightarrow> string + netdevice list) \<Rightarrow> ('e, 'w) mover \<Rightarrow> linux_namespace list \<Rightarrow> pod_sandbox \<Rightarrow>
     (netdevice_error, 'w) action" where
  "Net_StopPodSandbox yaml release namespaces p w =
     (case parseNetdevices yaml (pod_annotations p) of
        Inl e \<Rightarrow> (Failed e, w)
      | Inr devices \<Rightarrow>
         if devices = [] then (Done, w)
         else if network_namespace namespaces = [] then (Done, w)
         else (Done, move_all release (network_namespace namespaces) devices w))"

end
