(* ===== verification/Injector_Laws.thy ===== *)
theory Injector_Laws
  imports Injector
begin

text \<open>
  What the device injector asks for: the scopes of its annotations, and the adjustment it returns as
  a function of the decoded annotations, together with exactly when it returns one.
\<close>

section \<open>Scopes\<close>

lemma first_annotated_Nil [simp]: "first_annotated [] m = None"
  by (simp add: first_annotated_def)

lemma first_annotated_Cons [simp]:
  "first_annotated (k # ks) m =
     (case gmap_get m k of None \<Rightarrow> first_annotated ks m | Some v \<Rightarrow> Some v)"
  by (auto simp: first_annotated_def split: option.splits)

text \<open>
  Annotation scopes of the device injector: the narrower scope wins, over the choice of key; only
  within one scope does the current key win over the deprecated one.
\<close>

theorem getAnnotation_scopes:
  "getAnnotation annotations mainKey oldKey ctr =
     (let both = (\<lambda>scope. case gmap_get annotations (mainKey @ scope) of
                    Some v \<Rightarrow> Some v
                  | None \<Rightarrow> gmap_get annotations (oldKey @ scope))
      in case both (''/container.'' @ ctr) of
           Some v \<Rightarrow> Some v
         | None \<Rightarrow> (case both ''/pod'' of Some v \<Rightarrow> Some v | None \<Rightarrow> both []))"
  by (auto simp: getAnnotation_def Let_def split: option.splits)

text \<open>Without deprecated keys the value is the effective annotation that \<^verbatim>\<open>GetEffectiveAnnotation\<close> finds.\<close>

lemma getAnnotation_effective:
  assumes "\<And>scope. scope \<in> {''/container.'' @ ctr, ''/pod'', []} \<Longrightarrow>
      gmap_get (pod_annotations p) (oldKey @ scope) = None"
  shows "getAnnotation (pod_annotations p) mainKey oldKey ctr = GetEffectiveAnnotation (Some p) mainKey ctr"
  using assms [of "''/container.'' @ ctr"] assms [of "''/pod''"] assms [of "[]"]
  by (auto simp: getAnnotation_def GetEffectiveAnnotation_def Let_def gmap_entries_def gmap_get_def
      split: option.splits if_splits)

section \<open>Loops\<close>

lemma for_each_assign [action_simps]:
  "for_each xs (\<lambda>x. assign (f x)) s = (Done, fold f xs s)"
  by (induction xs arbitrary: s) (simp_all add: for_each_Cons)

text \<open>A loop over pointers: it reaches the end exactly when no entry is nil.\<close>

lemma for_each_pointers:
  "for_each ps (\<lambda>p s. case p of None \<Rightarrow> (Panicked, s) | Some x \<Rightarrow> (Done, f x s)) s = (Done, t) \<longleftrightarrow>
     (\<exists>xs. ps = map Some xs \<and> t = fold f xs s)"
proof (induction ps arbitrary: s)
  case Nil
  show ?case by auto
next
  case (Cons p ps)
  then show ?case
    by (cases p) (auto simp: for_each_Cons Cons_eq_map_conv split: prod.splits status.splits)
qed

lemma initLinux_idem [simp]: "initLinux (initLinux a) = initLinux a"
  by (simp add: initLinux_def alloc_def split: option.split)

lemma initLinux_do [simp]: "initLinux (linux_do f (initLinux a)) = linux_do f (initLinux a)"
  by (simp add: initLinux_def linux_do_def at_ptr_def alloc_def split: option.split)

lemma linux_do_do [simp]: "linux_do f (linux_do g a) = linux_do (\<lambda>l. f (g l)) a"
  by (simp add: linux_do_def at_ptr_def option.map_comp comp_def)

lemma fold_linux_do:
  "fold (\<lambda>x a. linux_do (g x) (initLinux a)) xs a =
     (if xs = [] then a else linux_do (fold g xs) (initLinux a))"
  by (induction xs arbitrary: a) (simp_all add: comp_def)

lemma fold_devices:
  "fold (\<lambda>d l. l\<lparr>la_devices := la_devices l @ [g d]\<rparr>) ds l = l\<lparr>la_devices := la_devices l @ map g ds\<rparr>"
  by (induction ds arbitrary: l) simp_all

lemma fold_AddDevice:
  "fold (\<lambda>d. Adjustment_AddDevice (g d)) ds a =
     (if ds = [] then a else linux_do (\<lambda>l. l\<lparr>la_devices := la_devices l @ map g ds\<rparr>) (initLinux a))"
proof -
  have "(\<lambda>d. Adjustment_AddDevice (g d)) =
      (\<lambda>d a. linux_do (\<lambda>l. l\<lparr>la_devices := la_devices l @ [g d]\<rparr>) (initLinux a))"
    by (intro ext) (simp add: Adjustment_AddDevice_def)
  then show ?thesis by (simp add: fold_linux_do fold_devices [abs_def])
qed

lemma fold_AddCDIDevice:
  "fold (\<lambda>n. Adjustment_AddCDIDevice (g n)) ns a = a\<lparr>adj_cdi_devices := adj_cdi_devices a @ map g ns\<rparr>"
  by (induction ns arbitrary: a) (simp_all add: Adjustment_AddCDIDevice_def)

lemma fold_AddMount:
  "fold (\<lambda>m. Adjustment_AddMount (g m)) ms a = a\<lparr>adj_mounts := adj_mounts a @ map g ms\<rparr>"
  by (induction ms arbitrary: a) (simp_all add: Adjustment_AddMount_def)

definition net_put :: "annotated_net_device \<Rightarrow> (string, linux_net_device option) gomap \<Rightarrow>
    (string, linux_net_device option) gomap" where
  "net_put n = AList.update (an_host_if n) (Some \<lparr>nd_name = an_name n\<rparr>)"

lemma AddLinuxNetDevice_put:
  "Adjustment_AddLinuxNetDevice (an_host_if n) (Some \<lparr>nd_name = an_name n\<rparr>) a =
     linux_do (\<lambda>l. l\<lparr>la_net_devices := Some (net_put n (case la_net_devices l of None \<Rightarrow> [] | Some m \<Rightarrow> m))\<rparr>)
       (initLinux a)"
proof (cases "adj_linux a")
  case None
  then show ?thesis
    by (simp add: Adjustment_AddLinuxNetDevice_def initLinuxNetDevices_def net_put_def at_key_def
        alloc_def linux_do_def at_ptr_def initLinux_def zero_linux_adjustment_def)
next
  case (Some l)
  then show ?thesis
    by (cases "la_net_devices l")
      (simp_all add: Adjustment_AddLinuxNetDevice_def initLinuxNetDevices_def net_put_def at_key_def
        alloc_def linux_do_def at_ptr_def initLinux_def)
qed

lemma fold_net_devices:
  "ns \<noteq> [] \<Longrightarrow>
     fold (\<lambda>n l. l\<lparr>la_net_devices := Some (net_put n (case la_net_devices l of None \<Rightarrow> [] | Some m \<Rightarrow> m))\<rparr>) ns l =
     l\<lparr>la_net_devices := Some (fold net_put ns (case la_net_devices l of None \<Rightarrow> [] | Some m \<Rightarrow> m))\<rparr>"
  by (induction ns arbitrary: l rule: list_nonempty_induct) simp_all

lemma fold_AddNetDevice:
  "fold (\<lambda>n. Adjustment_AddLinuxNetDevice (an_host_if n) (Some \<lparr>nd_name = an_name n\<rparr>)) ns a =
     (if ns = [] then a
      else linux_do (\<lambda>l. l\<lparr>la_net_devices :=
        Some (fold net_put ns (case la_net_devices l of None \<Rightarrow> [] | Some m \<Rightarrow> m))\<rparr>) (initLinux a))"
proof -
  have "(\<lambda>n. Adjustment_AddLinuxNetDevice (an_host_if n) (Some \<lparr>nd_name = an_name n\<rparr>)) =
    (\<lambda>n a. linux_do (\<lambda>l. l\<lparr>la_net_devices :=
       Some (net_put n (case la_net_devices l of None \<Rightarrow> [] | Some m \<Rightarrow> m))\<rparr>) (initLinux a))"
    by (intro ext AddLinuxNetDevice_put)
  moreover have "fold (\<lambda>n (l :: linux_adjustment). l\<lparr>la_net_devices :=
        Some (net_put n (case la_net_devices l of None \<Rightarrow> [] | Some m \<Rightarrow> m))\<rparr>) ns =
      (\<lambda>l. l\<lparr>la_net_devices :=
        Some (fold net_put ns (case la_net_devices l of None \<Rightarrow> [] | Some m \<Rightarrow> m))\<rparr>)" if "ns \<noteq> []"
    using that by (intro ext fold_net_devices)
  ultimately show ?thesis by (simp add: fold_linux_do)
qed

section \<open>The adjustment\<close>

definition injected ::
    "annotated_device list \<Rightarrow> string list \<Rightarrow> annotated_mount list \<Rightarrow> annotated_io_prio option \<Rightarrow>
     annotated_scheduler option \<Rightarrow> annotated_net_device list \<Rightarrow> container_adjustment" where
  "injected ds cdis ms io sch ns = zero_adjustment\<lparr>
     adj_mounts := map mount_toNRI ms,
     adj_cdi_devices := map cdi_device.make cdis,
     adj_linux :=
       (if ds = [] \<and> io = None \<and> sch = None \<and> ns = [] then None
        else Some (zero_linux_adjustment\<lparr>
          la_devices := map device_toNRI ds,
          la_io_priority := Option.bind io ioPrio_toNRI,
          la_net_devices := (if ns = [] then None else Some (fold net_put ns [])),
          la_scheduler := map_option scheduler_ToNRI sch\<rparr>))\<rparr>"

lemma injected_by_steps:
  "fold (\<lambda>n. Adjustment_AddLinuxNetDevice (an_host_if n) (Some \<lparr>nd_name = an_name n\<rparr>)) ns
     ((case sch of None \<Rightarrow> id | Some s \<Rightarrow> Adjustment_SetLinuxScheduler (Some (scheduler_ToNRI s)))
     ((case io of None \<Rightarrow> id | Some p \<Rightarrow> Adjustment_SetLinuxIOPriority (ioPrio_toNRI p))
     (fold (\<lambda>m. Adjustment_AddMount (mount_toNRI m)) ms
     (fold (\<lambda>n. Adjustment_AddCDIDevice \<lparr>cdi_name = n\<rparr>) cdis
     (fold (\<lambda>d. Adjustment_AddDevice (device_toNRI d)) ds zero_adjustment)))))
   = injected ds cdis ms io sch ns"
  unfolding fold_AddNetDevice fold_AddDevice fold_AddCDIDevice fold_AddMount
  by (simp add: injected_def Adjustment_SetLinuxScheduler_def Adjustment_SetLinuxIOPriority_def
      linux_do_def at_ptr_def initLinux_def alloc_def zero_defs cdi_device.make_def split: option.split)

text \<open>When each step ends well, and with what.\<close>

lemma injection_Done:
  "injectDevices y p c a = (Done, b) \<longleftrightarrow>
     (\<exists>ds. parseDevices y (ctr_name c) (pod_annotations p) = Inr ds
       \<and> b = fold (\<lambda>d. Adjustment_AddDevice (device_toNRI d)) ds a)"
  "injectCDIDevices y p c a = (Done, b) \<longleftrightarrow>
     (\<exists>cdis. parseCDIDevices y (ctr_name c) (pod_annotations p) = Inr cdis
       \<and> b = fold (\<lambda>n. Adjustment_AddCDIDevice \<lparr>cdi_name = n\<rparr>) cdis a)"
  "injectMounts y p c a = (Done, b) \<longleftrightarrow>
     (\<exists>ms. parseMounts y (ctr_name c) (pod_annotations p) = Inr ms
       \<and> b = fold (\<lambda>m. Adjustment_AddMount (mount_toNRI m)) ms a)"
  "setIOPriority y p c a = (Done, b) \<longleftrightarrow>
     (\<exists>io. parseIOPriority y (ctr_name c) (pod_annotations p) = Inr io
       \<and> b = (case io of None \<Rightarrow> id | Some q \<Rightarrow> Adjustment_SetLinuxIOPriority (ioPrio_toNRI q)) a)"
  "adjustScheduler_annotated y p c a = (Done, b) \<longleftrightarrow>
     (\<exists>sch. parseScheduler y (ctr_name c) (pod_annotations p) = Inr sch
       \<and> b = (case sch of None \<Rightarrow> id | Some s \<Rightarrow> Adjustment_SetLinuxScheduler (Some (scheduler_ToNRI s))) a)"
  "injectNetDevices y p c a = (Done, b) \<longleftrightarrow>
     (\<exists>ns. parseNetDevices y (ctr_name c) (pod_annotations p) = Inr (map Some ns)
       \<and> b = fold (\<lambda>n. Adjustment_AddLinuxNetDevice (an_host_if n) (Some \<lparr>nd_name = an_name n\<rparr>)) ns a)"
  by (auto simp: injectDevices_def injectCDIDevices_def injectMounts_def setIOPriority_def
      adjustScheduler_annotated_def injectNetDevices_def for_each_assign for_each_pointers
      split: sum.splits option.splits)

text \<open>
  C28. The device injector returns an adjustment exactly when every annotation it looks at decodes and no
  network device is null, and then it asks for the annotated devices, CDI devices and mounts in the
  order of the annotation, the network devices by host interface (the last entry of an interface wins), and the I/O
  priority and scheduling attributes, and for nothing else.
\<close>

theorem Injector_CreateContainer_iff:
  "Injector_CreateContainer y (Some p) (Some c) = (Done, Some a) \<longleftrightarrow>
     (\<exists>ds cdis ms io sch ns.
        parseDevices y (ctr_name c) (pod_annotations p) = Inr ds
      \<and> parseCDIDevices y (ctr_name c) (pod_annotations p) = Inr cdis
      \<and> parseMounts y (ctr_name c) (pod_annotations p) = Inr ms
      \<and> parseIOPriority y (ctr_name c) (pod_annotations p) = Inr io
      \<and> parseScheduler y (ctr_name c) (pod_annotations p) = Inr sch
      \<and> parseNetDevices y (ctr_name c) (pod_annotations p) = Inr (map Some ns)
      \<and> a = injected ds cdis ms io sch ns)"
proof -
  let ?run = "run [injectDevices y p c, injectCDIDevices y p c, injectMounts y p c, setIOPriority y p c,
                adjustScheduler_annotated y p c, injectNetDevices y p c] zero_adjustment"
  have "Injector_CreateContainer y (Some p) (Some c) = (Done, Some a) \<longleftrightarrow> ?run = (Done, a)"
    unfolding Injector_CreateContainer_def by (simp del: run.simps split: prod.split status.split)
  also have "\<dots> \<longleftrightarrow> (\<exists>ds cdis ms io sch ns.
        parseDevices y (ctr_name c) (pod_annotations p) = Inr ds
      \<and> parseCDIDevices y (ctr_name c) (pod_annotations p) = Inr cdis
      \<and> parseMounts y (ctr_name c) (pod_annotations p) = Inr ms
      \<and> parseIOPriority y (ctr_name c) (pod_annotations p) = Inr io
      \<and> parseScheduler y (ctr_name c) (pod_annotations p) = Inr sch
      \<and> parseNetDevices y (ctr_name c) (pod_annotations p) = Inr (map Some ns)
      \<and> a = injected ds cdis ms io sch ns)"
    unfolding run_Done_split injection_Done injected_by_steps [symmetric] by auto
  finally show ?thesis .
qed

end
