(* ===== verification/Sample_Laws.thy ===== *)
theory Sample_Laws
  imports Sample_Plugins Injector_Laws
begin

text \<open>
  What the ulimit adjuster, the RDT plugin, the hook injector and the network device injector ask for.
\<close>

section \<open>Ulimits\<close>

definition valid_rlimit :: "posix_rlimit \<Rightarrow> bool" where
  "valid_rlimit r \<longleftrightarrow> (\<exists>t\<in>set valid_types. rl_type r = ''RLIMIT_'' @ t) \<and> rl_soft r \<le> rl_hard r"

definition rlimit_of :: "ulimit \<Rightarrow> posix_rlimit" where
  "rlimit_of u = \<lparr>rl_type = ul_type u, rl_hard = ul_hard u, rl_soft = ul_soft u\<rparr>"

lemma normalise_types_Inr:
  "normalise_types us = Inr vs \<longleftrightarrow>
     list_all (\<lambda>u. trimmed_type (ul_type u) \<in> set valid_types) us
   \<and> vs = map (\<lambda>u. u\<lparr>ul_type := ''RLIMIT_'' @ trimmed_type (ul_type u)\<rparr>) us"
proof (induction us arbitrary: vs)
  case Nil
  show ?case by auto
next
  case (Cons u us)
  have "normalise_types (u # us) = Inr vs \<longleftrightarrow> trimmed_type (ul_type u) \<in> set valid_types
      \<and> (\<exists>ws. normalise_types us = Inr ws \<and> vs = u\<lparr>ul_type := ''RLIMIT_'' @ trimmed_type (ul_type u)\<rparr> # ws)"
    unfolding normalise_types.simps rlimitPrefix_def by (cases "normalise_types us") auto
  also have "\<dots> \<longleftrightarrow> list_all (\<lambda>u. trimmed_type (ul_type u) \<in> set valid_types) (u # us)
      \<and> vs = map (\<lambda>u. u\<lparr>ul_type := ''RLIMIT_'' @ trimmed_type (ul_type u)\<rparr>) (u # us)"
    unfolding Cons.IH by (simp only: list.pred_inject list.map) blast
  finally show ?case .
qed

lemma adjustUlimits_outcome:
  "adjustUlimits us a =
     (case find (\<lambda>u. ul_hard u < ul_soft u) us of
        None \<Rightarrow> (Done, a\<lparr>adj_rlimits := adj_rlimits a @ map rlimit_of us\<rparr>)
      | Some u \<Rightarrow>
         (Failed (HardBelowSoft (ul_type u)), a\<lparr>adj_rlimits := adj_rlimits a @
            map rlimit_of (takeWhile (\<lambda>u. \<not> ul_hard u < ul_soft u) us)\<rparr>))"
  unfolding adjustUlimits_def
  by (induction us arbitrary: a)
    (auto simp: for_each_Cons Adjustment_AddRlimit_def rlimit_of_def split: option.split)

lemma find_Some_in: "find P xs = Some x \<Longrightarrow> x \<in> set xs \<and> P x"
  by (induction xs) (auto split: if_splits)

lemma adjustUlimits_Done:
  "reply (adjustUlimits us zero_adjustment) = (Done, Some a) \<longleftrightarrow>
     list_all (\<lambda>u. ul_soft u \<le> ul_hard u) us \<and> a = zero_adjustment\<lparr>adj_rlimits := map rlimit_of us\<rparr>"
proof (cases "find (\<lambda>u. ul_hard u < ul_soft u) us")
  case None
  then have "list_all (\<lambda>u. ul_soft u \<le> ul_hard u) us" by (simp add: find_None_iff list_all_iff not_less)
  with None show ?thesis by (auto simp: reply_def adjustUlimits_outcome zero_adjustment_def)
next
  case (Some u)
  then show ?thesis
    using find_Some_in [OF Some]
    by (auto simp: reply_def adjustUlimits_outcome list_all_iff linorder_not_le [symmetric])
qed

lemma parseUlimits_Inr:
  "parseUlimits yaml c annotations = Inr vs \<longleftrightarrow>
     (\<exists>us. list_all (\<lambda>u. trimmed_type (ul_type u) \<in> set valid_types) us
       \<and> (case first_annotated [ulimitKey @ ''/container.'' @ c, oldUlimitKey @ ''/container.'' @ c] annotations of
            None \<Rightarrow> us = []
          | Some v \<Rightarrow> if v = [] then us = [] else yaml v = Inr us)
       \<and> vs = map (\<lambda>u. u\<lparr>ul_type := ''RLIMIT_'' @ trimmed_type (ul_type u)\<rparr>) us)"
proof -
  let ?v = "first_annotated [ulimitKey @ ''/container.'' @ c, oldUlimitKey @ ''/container.'' @ c] annotations"
  show ?thesis unfolding parseUlimits_def Let_def
    by (cases ?v) (auto simp: normalise_types_Inr simp del: first_annotated_Cons split: sum.split)
qed

text \<open>
  The ulimit adjuster: a container is adjusted exactly when the annotation decodes, every type is
  one of the sixteen limits (in any case, with or without its prefix) and no soft limit exceeds its hard one; the
  adjustment then holds the annotated limits in order, under their full names, and nothing else.
\<close>

theorem Ulimit_CreateContainer_iff:
  "Ulimit_CreateContainer yaml (Some p) (Some c) = (Done, Some a) \<longleftrightarrow>
     (\<exists>us. list_all (\<lambda>u. trimmed_type (ul_type u) \<in> set valid_types \<and> ul_soft u \<le> ul_hard u) us
       \<and> (case first_annotated [ulimitKey @ ''/container.'' @ ctr_name c, oldUlimitKey @ ''/container.'' @ ctr_name c]
              (pod_annotations p) of
            None \<Rightarrow> us = []
          | Some v \<Rightarrow> if v = [] then us = [] else yaml v = Inr us)
       \<and> a = zero_adjustment\<lparr>adj_rlimits :=
            map (\<lambda>u. \<lparr>rl_type = ''RLIMIT_'' @ trimmed_type (ul_type u), rl_hard = ul_hard u, rl_soft = ul_soft u\<rparr>) us\<rparr>)"
proof -
  have "Ulimit_CreateContainer yaml (Some p) (Some c) = (Done, Some a) \<longleftrightarrow>
     (\<exists>vs. parseUlimits yaml (ctr_name c) (pod_annotations p) = Inr vs
       \<and> reply (adjustUlimits vs zero_adjustment) = (Done, Some a))"
    by (auto simp: Ulimit_CreateContainer_def split: sum.split)
  moreover have "list_all (\<lambda>u. ul_soft u \<le> ul_hard u) (map (\<lambda>u. u\<lparr>ul_type := f u\<rparr>) us) =
      list_all (\<lambda>u. ul_soft u \<le> ul_hard u) us"
    "map rlimit_of (map (\<lambda>u. u\<lparr>ul_type := f u\<rparr>) us) =
      map (\<lambda>u. \<lparr>rl_type = f u, rl_hard = ul_hard u, rl_soft = ul_soft u\<rparr>) us"
    "list_all V us \<and> list_all (\<lambda>u. ul_soft u \<le> ul_hard u) us \<longleftrightarrow>
      list_all (\<lambda>u. V u \<and> ul_soft u \<le> ul_hard u) us" for us :: "ulimit list" and f V
    by (auto simp: list_all_iff rlimit_of_def)
  moreover have "(\<exists>vs. (\<exists>us. L us \<and> B us \<and> vs = F us) \<and> S vs \<and> Q vs) \<longleftrightarrow>
      (\<exists>us. (L us \<and> S (F us)) \<and> B us \<and> Q (F us))"
    for L B and F :: "ulimit list \<Rightarrow> ulimit list" and S Q
    by blast
  ultimately show ?thesis unfolding parseUlimits_Inr adjustUlimits_Done by (simp only:)
qed

lemma ulimits_are_valid:
  "Ulimit_CreateContainer yaml pod ctr = (Done, Some a) \<Longrightarrow> list_all valid_rlimit (adj_rlimits a)"
proof -
  assume r: "Ulimit_CreateContainer yaml pod ctr = (Done, Some a)"
  then obtain p c vs where "pod = Some p" "ctr = Some c" "parseUlimits yaml (ctr_name c) (pod_annotations p) = Inr vs"
      "reply (adjustUlimits vs zero_adjustment) = (Done, Some a)"
    by (auto simp: Ulimit_CreateContainer_def split: option.splits sum.splits)
  then show ?thesis
    by (auto simp: parseUlimits_Inr adjustUlimits_Done list_all_iff valid_rlimit_def rlimit_of_def
        simp del: first_annotated_Cons)
qed

section \<open>RDT\<close>

definition with_rdt :: "linux_rdt option \<Rightarrow> container_adjustment" where
  "with_rdt r = zero_adjustment\<lparr>adj_linux :=
     (case r of None \<Rightarrow> None | Some d \<Rightarrow> Some (zero_linux_adjustment\<lparr>la_rdt := Some d\<rparr>))\<rparr>"

definition rdt_base :: "linux_rdt option \<Rightarrow> linux_rdt" where
  "rdt_base r = (case r of None \<Rightarrow> zero_rdt | Some d \<Rightarrow> d)"

lemma rdt_do_with_rdt: "rdt_do f (with_rdt r) = with_rdt (Some (f (rdt_base r)))"
  by (cases r) (simp_all add: rdt_do_def with_rdt_def rdt_base_def initLinuxRdt_def linux_do_def at_ptr_def
      initLinux_def alloc_def zero_adjustment_def zero_linux_adjustment_def)

lemma rdt_setters:
  "adjustClosID v (with_rdt r) = with_rdt (Some (rdt_base r\<lparr>rdt_clos_id := Some v\<rparr>))"
  "adjustSchemata v (with_rdt r) = with_rdt (Some (rdt_base r\<lparr>rdt_schemata := Some (split_on CHR '','' v)\<rparr>))"
  "Adjustment_SetLinuxRDTEnableMonitoring b (with_rdt r) =
     with_rdt (Some (rdt_base r\<lparr>rdt_enable_monitoring := Some b\<rparr>))"
  by (simp_all add: adjustClosID_def adjustSchemata_def Adjustment_SetLinuxRDTClosID_def
      Adjustment_SetLinuxRDTSchemata_def Adjustment_SetLinuxRDTEnableMonitoring_def rdt_do_with_rdt
      optional_defs)

lemma trim_suffix_iff: "suffix s k \<Longrightarrow> trim_suffix s k = f \<longleftrightarrow> k = f @ s"
  by (auto simp: trim_suffix_def suffix_def)

text \<open>What the entries of a map set, field by field.\<close>

definition rdt_entries ::
    "string \<Rightarrow> string \<Rightarrow> string \<Rightarrow> (string, string) gomap \<Rightarrow> linux_rdt option \<Rightarrow> linux_rdt option" where
  "rdt_entries kc ks km es r =
     (if map_of es kc = None \<and> map_of es ks = None \<and> map_of es km = None then r
      else Some (rdt_base r\<lparr>
        rdt_clos_id := (case map_of es kc of None \<Rightarrow> rdt_clos_id (rdt_base r) | Some v \<Rightarrow> Some v),
        rdt_schemata := (case map_of es ks of
            None \<Rightarrow> rdt_schemata (rdt_base r) | Some v \<Rightarrow> Some (split_on CHR '','' v)),
        rdt_enable_monitoring := (case map_of es km of
            None \<Rightarrow> rdt_enable_monitoring (rdt_base r) | Some v \<Rightarrow> ParseBool v)\<rparr>))"

definition rdt_outcome ::
    "string \<Rightarrow> string \<Rightarrow> string \<Rightarrow> (string, string) gomap \<Rightarrow> linux_rdt option \<Rightarrow>
     string status \<times> container_adjustment option" where
  "rdt_outcome kc ks km es r =
     (case map_of es km of
        Some v \<Rightarrow>
          if ParseBool v = None then (Failed v, None) else (Done, Some (with_rdt (rdt_entries kc ks km es r)))
      | None \<Rightarrow> (Done, Some (with_rdt (rdt_entries kc ks km es r))))"

definition rdt_step :: "string \<Rightarrow> string \<Rightarrow> string \<Rightarrow> string \<times> string \<Rightarrow> (string, container_adjustment) action" where
  "rdt_step kc ks km e a =
     (if fst e = kc then (Done, adjustClosID (snd e) a)
      else if fst e = ks then (Done, adjustSchemata (snd e) a)
      else if fst e = km then adjustEnableMonitoring (snd e) a
      else (Done, a))"

lemma adjustRdt_steps:
  "adjustRdt_annotated container annotations =
     (let s = rdt_suffix container in
      for_each (gmap_entries annotations) (rdt_step (''closid'' @ s) (''schemata'' @ s) (''enablemonitoring'' @ s)))"
proof -
  have "(if suffix s k
    then (let fieldName = trim_suffix s k in
          if fieldName = ''closid'' then (Done, adjustClosID v a)
          else if fieldName = ''schemata'' then (Done, adjustSchemata v a)
          else if fieldName = ''enablemonitoring'' then adjustEnableMonitoring v a
          else (Done, a))
    else (Done, a)) = rdt_step (''closid'' @ s) (''schemata'' @ s) (''enablemonitoring'' @ s) (k, v) a"
    for s k v a
    by (cases "suffix s k") (auto simp: rdt_step_def trim_suffix_iff Let_def suffix_def)
  then show ?thesis
    unfolding adjustRdt_annotated_def Let_def by (intro ext arg_cong2 [where f = for_each] refl)
      (auto intro!: arg_cong2 [where f = for_each])
qed

lemma rdt_loop:
  assumes "gomap_ok es" and "distinct [kc, ks, km]"
  shows "reply (for_each es (rdt_step kc ks km) (with_rdt r)) = rdt_outcome kc ks km es r"
  using assms
proof (induction es arbitrary: r)
  case Nil
  show ?case by (simp add: reply_def rdt_outcome_def rdt_entries_def)
next
  case (Cons e es)
  obtain k v where e: "e = (k, v)" by (cases e)
  with Cons.prems have new: "map_of es k = None" and ok: "gomap_ok es"
    by (auto simp: gomap_ok_def map_of_eq_None_iff)
  note IH = Cons.IH [OF ok Cons.prems(2)]
  note defs = rdt_outcome_def rdt_entries_def rdt_base_def
  consider (clos) "k = kc" | (schemata) "k = ks" | (mon) "k = km" | (other) "k \<notin> {kc, ks, km}" by blast
  then show ?case
  proof cases
    case clos
    then have "rdt_step kc ks km e (with_rdt r) = (Done, with_rdt (Some (rdt_base r\<lparr>rdt_clos_id := Some v\<rparr>)))"
      by (simp add: e rdt_step_def rdt_setters)
    with clos new Cons.prems(2) show ?thesis
      by (simp add: for_each_step IH e) (auto simp: defs split: option.split)
  next
    case schemata
    then have "rdt_step kc ks km e (with_rdt r) =
        (Done, with_rdt (Some (rdt_base r\<lparr>rdt_schemata := Some (split_on CHR '','' v)\<rparr>)))"
      using Cons.prems(2) by (auto simp: e rdt_step_def rdt_setters)
    with schemata new Cons.prems(2) show ?thesis
      by (simp add: for_each_step IH e) (auto simp: defs split: option.split)
  next
    case mon
    then have step: "rdt_step kc ks km e (with_rdt r) = adjustEnableMonitoring v (with_rdt r)"
      using Cons.prems(2) by (auto simp: e rdt_step_def)
    show ?thesis
    proof (cases "ParseBool v")
      case None
      with mon step show ?thesis
        by (simp add: for_each_stop adjustEnableMonitoring_def) (simp add: reply_def rdt_outcome_def e)
    next
      case (Some b)
      then have "rdt_step kc ks km e (with_rdt r) =
          (Done, with_rdt (Some (rdt_base r\<lparr>rdt_enable_monitoring := Some b\<rparr>)))"
        by (simp add: step adjustEnableMonitoring_def rdt_setters)
      with Some mon new Cons.prems(2) show ?thesis
        by (simp add: for_each_step IH e) (auto simp: defs split: option.split)
    qed
  next
    case other
    then have "rdt_step kc ks km e (with_rdt r) = (Done, with_rdt r)"
      by (auto simp: e rdt_step_def)
    moreover have "map_of (e # es) kc = map_of es kc" "map_of (e # es) ks = map_of es ks"
        "map_of (e # es) km = map_of es km" using other by (auto simp: e)
    then have "rdt_outcome kc ks km es r = rdt_outcome kc ks km (e # es) r"
      unfolding rdt_outcome_def rdt_entries_def by (simp only:)
    ultimately show ?thesis by (simp add: for_each_step IH)
  qed
qed

text \<open>
  The RDT plugin is a function of its three annotations, whatever the order in which the map of annotations is
  served and whatever else it holds: it asks for the class of service, the schemata (split at commas) and the monitoring
  that are annotated for this very container and for nothing else, and fails exactly when the monitoring annotation is
  not a boolean.
\<close>

theorem Rdt_CreateContainer_spec:
  assumes "gomap_ok (gmap_entries (pod_annotations p))"
  shows "Rdt_CreateContainer (Some p) (Some c) =
     (let get = (\<lambda>name. gmap_get (pod_annotations p) (name @ ''.rdt.noderesource.dev/container.'' @ ctr_name c));
          monitoring = map_option ParseBool (get ''enablemonitoring'') in
      if monitoring = Some None then (Failed (the (get ''enablemonitoring'')), None)
      else if get ''closid'' = None \<and> get ''schemata'' = None \<and> monitoring = None
      then (Done, Some zero_adjustment)
      else (Done, Some (zero_adjustment\<lparr>adj_linux := Some (zero_linux_adjustment\<lparr>la_rdt := Some
             \<lparr>rdt_clos_id = get ''closid'',
              rdt_schemata = map_option (split_on CHR '','') (get ''schemata''),
              rdt_enable_monitoring = Option.bind (get ''enablemonitoring'') ParseBool,
              rdt_remove = False\<rparr>\<rparr>)\<rparr>)))"
proof -
  have zero: "with_rdt None = zero_adjustment" by (simp add: with_rdt_def zero_adjustment_def)
  have "Rdt_CreateContainer (Some p) (Some c) =
      (let s = rdt_suffix (ctr_name c) in
       rdt_outcome (''closid'' @ s) (''schemata'' @ s) (''enablemonitoring'' @ s)
         (gmap_entries (pod_annotations p)) None)"
    by (simp only: Rdt_CreateContainer_def adjustRdt_steps Let_def prod.case option.case zero [symmetric])
      (rule rdt_loop [OF assms], simp)
  moreover have "gmap_get (pod_annotations p) = map_of (gmap_entries (pod_annotations p))"
    by (simp add: fun_eq_iff gmap_get_def gmap_entries_def split: option.split)
  ultimately show ?thesis
    unfolding rdt_outcome_def rdt_entries_def rdt_suffix_def rdt_base_def Let_def
    by (simp only:) (auto simp: with_rdt_def zero_rdt_def zero_adjustment_def split: option.splits)
qed

definition rdt_pod :: pod_sandbox where
  "rdt_pod = \<lparr>pod_id = ''p0'', pod_name = ''pod'', pod_uid = ''u0'', pod_namespace = ''default'', pod_labels = None,
     pod_annotations = Some [(''closid.rdt.noderesource.dev/container.a'', ''gold''),
       (''schemata.rdt.noderesource.dev/container.b'', ''L3:0=f''),
       (''enablemonitoring.rdt.noderesource.dev/container.a'', ''true'')]\<rparr>"

theorem Rdt_CreateContainer_spec_witness:
  "Rdt_CreateContainer (Some rdt_pod) (Some (zero_container\<lparr>ctr_name := ''a''\<rparr>)) =
     (Done, Some (zero_adjustment\<lparr>adj_linux := Some (zero_linux_adjustment\<lparr>la_rdt := Some
        \<lparr>rdt_clos_id = Some ''gold'', rdt_schemata = None, rdt_enable_monitoring = Some True,
         rdt_remove = False\<rparr>\<rparr>)\<rparr>))"
  using Rdt_CreateContainer_spec [of rdt_pod "zero_container\<lparr>ctr_name := ''a''\<rparr>"]
  by (simp add: rdt_pod_def gmap_entries_def gomap_ok_def zero_container_def ParseBool_def)

section \<open>Hooks\<close>

lemma fold_update_lookup:
  "gomap_ok es \<Longrightarrow> map_of (fold (\<lambda>(k, v). AList.update k v) es m) k =
     (case map_of es k of Some v \<Rightarrow> Some v | None \<Rightarrow> map_of m k)"
proof (induction es arbitrary: m)
  case Nil
  show ?case by simp
next
  case (Cons e es)
  obtain a b where e: "e = (a, b)" by (cases e)
  with Cons.prems have "map_of es a = None" "gomap_ok es" by (auto simp: gomap_ok_def map_of_eq_None_iff)
  with Cons.IH show ?case by (cases "k = a") (auto simp: e split: option.split)
qed

lemma hook_annotations_lookup:
  assumes "gomap_ok (gmap_entries (pod_annotations p))" and "gomap_ok (gmap_entries (ctr_annotations c))"
  shows "map_of (hook_annotations p c) k =
     (case gmap_get (pod_annotations p) k of Some v \<Rightarrow> Some v | None \<Rightarrow> gmap_get (ctr_annotations c) k)"
  using assms
  by (auto simp: hook_annotations_def fold_update_lookup gmap_get_def gmap_entries_def split: option.splits)

lemma Hook_CreateContainer_asks_for_hooks_only:
  "Hook_CreateContainer hooks_for pod ctr = (Done, Some a) \<Longrightarrow> \<exists>h. a = zero_adjustment\<lparr>adj_hooks := Some h\<rparr>"
  by (auto simp: Hook_CreateContainer_def Adjustment_AddHooks_def initHooks_def alloc_def at_ptr_def
      zero_adjustment_def Let_def split: option.splits sum.splits)

section \<open>Network devices\<close>

text \<open>The devices are those of the annotation as they are: a missing name in the pod or prefix stays missing.\<close>

lemma parseNetdevices_Inr:
  "parseNetdevices yaml annotations = Inr ds \<longleftrightarrow>
     (case first_annotated [netdeviceKey @ ''/pod'', oldNetdeviceKey @ ''/pod'', netdeviceKey, oldNetdeviceKey]
             annotations of
        None \<Rightarrow> ds = []
      | Some v \<Rightarrow> yaml v = Inr ds \<and> list_all (\<lambda>n. net_address n = [] \<or> ParseIP (net_address n)) ds)"
proof -
  have bad: "(case find (\<lambda>n. net_address n \<noteq> [] \<and> \<not> ParseIP (net_address n)) es of
        Some n \<Rightarrow> Inl (InvalidAddress (net_address n)) | None \<Rightarrow> Inr es) = Inr ds \<longleftrightarrow>
      es = ds \<and> list_all (\<lambda>n. net_address n = [] \<or> ParseIP (net_address n)) ds" for es
  proof (cases "find (\<lambda>n. net_address n \<noteq> [] \<and> \<not> ParseIP (net_address n)) es")
    case None
    then have "list_all (\<lambda>n. net_address n = [] \<or> ParseIP (net_address n)) es"
      by (auto simp: find_None_iff list_all_iff)
    with None show ?thesis by auto
  next
    case (Some n)
    then show ?thesis using find_Some_in [OF Some] by (auto simp: list_all_iff)
  qed
  let ?found = "find (\<lambda>k. gmap_get annotations k \<noteq> None)
    [netdeviceKey @ ''/pod'', oldNetdeviceKey @ ''/pod'', netdeviceKey, oldNetdeviceKey]"
  show ?thesis
  proof (cases ?found)
    case None
    then show ?thesis unfolding parseNetdevices_def first_annotated_def by (simp only: option.case) blast
  next
    case (Some k)
    with find_Some_in [OF Some] obtain v where "gmap_get annotations k = Some v" by auto
    with Some show ?thesis
      unfolding parseNetdevices_def first_annotated_def
      by (simp only: option.case option.sel) (cases "yaml v"; simp add: bad)
  qed
qed

text \<open>
  The network device injector reports what is wrong with the annotations or with the pod, never
  that a device could not be moved: the outcome of \<^verbatim>\<open>RunPodSandbox\<close> is the same whatever the moves do.
\<close>

theorem failed_moves_are_silent:
  "fst (Net_RunPodSandbox yaml inject namespaces p w) = fst (Net_RunPodSandbox yaml inject' namespaces p w')
   \<and> fst (Net_StopPodSandbox yaml inject namespaces p w) = fst (Net_StopPodSandbox yaml inject' namespaces p w')"
  by (simp add: Net_RunPodSandbox_def Net_StopPodSandbox_def split: sum.split)

text \<open>Addresses that are and are not accepted.\<close>

lemma ParseIP_samples:
  "list_all ParseIP [''10.0.0.1'', ''::'', ''::1'', ''fe80::1'', ''1:2:3:4:5:6:7:8'', ''::ffff:1.2.3.4'', ''1::'',
     ''1:2:3:4:5:6:7::'']"
  "list_all (\<lambda>s. \<not> ParseIP s) [[], ''10.0.0'', ''10.0.0.256'', ''10.0.0.01'', ''fe80::1%eth0'', '':1'', ''1:'',
     ''1::2::3'', ''1:2:3:4:5:6:7'', ''1:2:3:4:5:6:7:8:9'', ''12345::'', ''1:2:3:4:5:6:7:1.2.3.4'', ''1:2:3:4::5:6:7:8'']"
  by code_simp+

end
