(* ===== verification/Exclusive.thy ===== *)
theory Exclusive
  imports Relay_Laws Guarded_Parts
begin

text \<open>
  Every setting has at most one owner, from the reply of a plugin to the response of the adaptation. A reply
  is read as the list of claims and clears it stands for (\<open>adjust_claims\<close>, \<open>adjust_clears\<close>); the \<^verbatim>\<open>adjust*\<close>
  methods of \<^verbatim>\<open>src/pkg/adaptation/result.go\<close> are shown to make exactly those claims, so that replies
  that pass together name every setting that nobody clears at most once.

  The proofs watch one slot of the created container: \<open>claims\<close> says how often an action claims it and
  what that does to its owner, with one rule per program construct.
\<close>

section \<open>What an action does to one slot\<close>

definition slot_effect :: "nat \<Rightarrow> string \<Rightarrow> string option \<Rightarrow> string option \<Rightarrow> bool" where
  "slot_effect n p before after \<longleftrightarrow>
     n = 0 \<and> after = before \<or> n = 1 \<and> may_claim p before \<and> after = Some p"

lemma slot_effect_trans:
  assumes "slot_effect n p u v" and "slot_effect m p v w" and "unmarked p"
  shows "slot_effect (n + m) p u w"
  using assms ow.may_claim_own [of p p] by (auto simp: slot_effect_def)

text \<open>
  \<open>claims I store cid x p n a\<close>: from a state with \<open>I\<close>, when \<open>a\<close> succeeds, plugin \<open>p\<close> has claimed slot \<open>x\<close> of
  container \<open>cid\<close> \<open>n\<close> times, and \<open>I\<close> still holds. The slot is any but the hooks, which are shared.
\<close>

definition claims ::
    "('s \<Rightarrow> bool) \<Rightarrow> ('s \<Rightarrow> owning_plugins) \<Rightarrow> string \<Rightarrow> slot \<Rightarrow> string \<Rightarrow> nat \<Rightarrow> ('e, 's) action \<Rightarrow> bool" where
  "claims I store cid x p n a \<longleftrightarrow>
     (unmarked p \<longrightarrow> x \<noteq> SimpleSlot Field_OciHooks \<longrightarrow>
       (\<forall>s t. I s \<longrightarrow> a s = (Done, t) \<longrightarrow>
          I t \<and> slot_effect n p (owner_view (store s) (cid, x)) (owner_view (store t) (cid, x))))"

named_theorems claims_intros \<open>claims of actions, by their shape\<close>

lemma claims_frame:
  assumes "\<And>s. I s \<Longrightarrow> I (snd (a s)) \<and> store (snd (a s)) = store s"
  shows "claims I store cid x p 0 a"
  unfolding claims_def slot_effect_def using assms by (metis snd_conv)

lemma claims_skip [claims_intros]: "claims I store cid x p 0 (\<lambda>s. (Done, s))"
  by (rule claims_frame) simp

lemma claims_Nil [claims_intros]: "claims I store cid x p 0 (run [])"
  by (rule claims_frame) simp

lemma claims_Cons [claims_intros]:
  assumes a: "claims I store cid x p n a" and as: "claims I store cid x p m (run as)"
  shows "claims I store cid x p (n + m) (run (a # as))"
  unfolding claims_def
proof (intro impI allI)
  fix s u
  assume x: "unmarked p" "x \<noteq> SimpleSlot Field_OciHooks" and s: "I s" "run (a # as) s = (Done, u)"
  then obtain t where t: "a s = (Done, t)" "run as t = (Done, u)" unfolding run_Done_split by blast
  have 1: "I t" "slot_effect n p (owner_view (store s) (cid, x)) (owner_view (store t) (cid, x))"
    using a x s(1) t(1) unfolding claims_def by blast+
  have 2: "I u" "slot_effect m p (owner_view (store t) (cid, x)) (owner_view (store u) (cid, x))"
    using as x 1(1) t(2) unfolding claims_def by blast+
  show "I u \<and> slot_effect (n + m) p (owner_view (store s) (cid, x)) (owner_view (store u) (cid, x))"
    using 2(1) slot_effect_trans [OF 1(2) 2(2) x(1)] by blast
qed

lemma claims_for_each [claims_intros]:
  assumes "\<And>y. y \<in> set ys \<Longrightarrow> claims I store cid x p (n y) (body y)"
  shows "claims I store cid x p (sum_list (map n ys)) (for_each ys body)"
  using assms
proof (induction ys)
  case Nil
  then show ?case by (simp add: claims_skip)
next
  case (Cons y ys)
  have "claims I store cid x p (n y + sum_list (map n ys)) (run (body y # map body ys))"
    using Cons unfolding for_each_def by (intro claims_Cons) simp_all
  then show ?case by (simp add: for_each_def del: run.simps)
qed

lemma claims_for_none:
  assumes "\<And>y. y \<in> set ys \<Longrightarrow> claims I store cid x p 0 (body y)"
  shows "claims I store cid x p 0 (for_each ys body)"
  using claims_for_each [where n = "\<lambda>_. 0", OF assms] by simp

lemma claims_if [claims_intros]:
  "(b \<Longrightarrow> claims I store cid x p n a) \<Longrightarrow> (\<not> b \<Longrightarrow> claims I store cid x p m c) \<Longrightarrow>
     claims I store cid x p (if b then n else m) (if b then a else c)"
  by simp

lemma claims_case_option [claims_intros]:
  "(v = None \<Longrightarrow> claims I store cid x p n a) \<Longrightarrow> (\<And>y. v = Some y \<Longrightarrow> claims I store cid x p (m y) (b y)) \<Longrightarrow>
     claims I store cid x p (case v of None \<Rightarrow> n | Some y \<Rightarrow> m y) (case v of None \<Rightarrow> a | Some y \<Rightarrow> b y)"
  by (cases v) simp_all

lemma claims_case_prod [claims_intros]:
  "(\<And>y z. v = (y, z) \<Longrightarrow> claims I store cid x p (n y z) (a y z)) \<Longrightarrow>
     claims I store cid x p (case v of (y, z) \<Rightarrow> n y z) (case v of (y, z) \<Rightarrow> a y z)"
  by (cases v) simp

lemma claims_eq: "claims I store cid x p n a \<Longrightarrow> n = m \<Longrightarrow> claims I store cid x p m a"
  by simp

lemma claims_on_part:
  assumes "claims J inner cid x p n a" and "\<And>s. I s \<Longrightarrow> J (get s) \<and> inner (get s) = store s"
    and "\<And>s q. I s \<Longrightarrow> J q \<Longrightarrow> I (put q s) \<and> store (put q s) = inner q"
  shows "claims I store cid x p n (on_part get put a)"
  unfolding claims_def
proof (intro impI allI)
  fix s t
  assume x: "unmarked p" "x \<noteq> SimpleSlot Field_OciHooks" and s: "I s" "on_part get put a s = (Done, t)"
  then obtain q where q: "a (get s) = (Done, q)" "t = put q s" by (auto simp: on_part_def split: prod.splits)
  have "J q \<and> slot_effect n p (owner_view (inner (get s)) (cid, x)) (owner_view (inner q) (cid, x))"
    using assms(1) x q(1) assms(2) [OF s(1)] unfolding claims_def by blast
  then show "I t \<and> slot_effect n p (owner_view (store s) (cid, x)) (owner_view (store t) (cid, x))"
    using assms(2) [OF s(1)] assms(3) [OF s(1), of q] q(2) by simp
qed

text \<open>Steps that make no claim, together make none.\<close>

lemma claims_none_Cons:
  "claims I store cid x p 0 a \<Longrightarrow> claims I store cid x p 0 (run as) \<Longrightarrow> claims I store cid x p 0 (run (a # as))"
  using claims_Cons [where n = 0 and m = 0] by simp

lemma claims_none_if:
  "(b \<Longrightarrow> claims I store cid x p 0 a) \<Longrightarrow> (\<not> b \<Longrightarrow> claims I store cid x p 0 c) \<Longrightarrow>
     claims I store cid x p 0 (if b then a else c)"
  by simp

lemmas claims_none = claims_none_Cons claims_Nil claims_skip claims_for_none claims_none_if

section \<open>The store\<close>

definition at_slot :: "claim \<Rightarrow> slot \<Rightarrow> nat" where
  "at_slot c x = (if claim_slot c = x then 1 else 0)"

lemma claims_Claim: "claims (\<lambda>_. True) (\<lambda>op. op) cid x p (at_slot c x) (OwningPlugins_Claim c cid p)"
  unfolding claims_def
proof (intro impI allI conjI TrueI)
  fix op op'
  assume x: "unmarked p" "x \<noteq> SimpleSlot Field_OciHooks" and r: "OwningPlugins_Claim c cid p op = (Done, op')"
  show "slot_effect (at_slot c x) p (owner_view op (cid, x)) (owner_view op' (cid, x))"
  proof (cases "c = ClaimHooks")
    case True
    have "owner_view op' (cid, x) = slot_owner (Some (snd (FieldOwners_Claim c p (fst (mustOwnersFor cid op))))) x"
      using OwningPlugins_Claim_view [of c cid p op cid x] r by simp
    also have "\<dots> = owner_view op (cid, x)"
      using x(2) by (simp add: True ClaimHooks_slots(2) owner_view_def mustOwnersFor_view del: slot_owner.simps)
    finally show ?thesis using True x(2) by (simp add: slot_effect_def at_slot_def)
  next
    case False
    then show ?thesis using r ow.claim_step [of "(cid, claim_slot c)" p op op']
      by (auto simp: OwningPlugins_Claim_at slot_effect_def at_slot_def ow.claim_view)
  qed
qed

text \<open>Claims of another container leave the slot alone, also when they fail.\<close>

lemma Claim_elsewhere:
  "i \<noteq> cid \<Longrightarrow> owner_view (snd (OwningPlugins_Claim c i p op)) (cid, x) = owner_view op (cid, x)"
  by (simp add: OwningPlugins_Claim_view)

section \<open>The collected result\<close>

definition creating :: "string \<Rightarrow> result \<Rightarrow> bool" where
  "creating cid s \<longleftrightarrow> (\<exists>c. create_container s = Some c \<and> ctr_id c = cid)"

abbreviation claims_r :: "string \<Rightarrow> slot \<Rightarrow> string \<Rightarrow> nat \<Rightarrow> (nri_error, result) action \<Rightarrow> bool" where
  "claims_r cid \<equiv> claims (creating cid) rs_owners cid"

lemma creating_owners [simp]: "creating cid (s\<lparr>rs_owners := op\<rparr>) = creating cid s"
  by (simp add: creating_def create_container_def)

lemma creating_adjust [simp]: "creating cid (set_adjust a s) = creating cid s"
  by (simp add: creating_def create_container_def set_adjust_def)

lemma creating_reply [simp]: "creating cid (s\<lparr>rs_reply := r\<rparr>) = creating cid s"
  "creating cid (s\<lparr>rs_updates := u\<rparr>) = creating cid s"
  by (simp_all add: creating_def create_container_def)

lemma claims_claim_r [claims_intros]: "claims_r cid x p (at_slot c x) (claim_r c cid p)"
  unfolding claim_r_def by (rule claims_on_part [OF claims_Claim]) simp_all

lemma claims_clear_r:
  assumes "x \<notin> set (clear_slots c)"
  shows "claims_r cid x p 0 (clear_r c cid p)"
  using assms by (simp add: claims_def clear_r_def slot_effect_def OwningPlugins_Clear_view)

lemma set_adjust_owners [simp]: "rs_owners (set_adjust a s) = rs_owners s"
  by (simp add: set_adjust_def)

lemma set_container_owners [simp]: "rs_owners (set_container c s) = rs_owners s"
  by (simp add: set_container_def)

lemma creating_container [simp]: "creating cid s \<Longrightarrow> creating cid (set_container c s) = (ctr_id c = cid)"
  by (auto simp: creating_def create_container_def set_container_def split: option.splits)

lemma on_container_frame:
  assumes "creating cid s" and "\<And>c. ctr_id (snd (a c)) = ctr_id c"
  shows "creating cid (snd (on_container a s)) \<and> rs_owners (snd (on_container a s)) = rs_owners s"
proof -
  obtain c where c: "create_container s = Some c" "ctr_id c = cid" using assms(1) by (auto simp: creating_def)
  show ?thesis using assms(2) [of c] c(2) assms(1) by (simp add: on_container_def on_ptr_def c(1) split_def)
qed

lemma claims_on_container:
  "(\<And>c. ctr_id (snd (a c)) = ctr_id c) \<Longrightarrow> claims_r cid x p 0 (on_container a)"
  by (rule claims_frame) (rule on_container_frame)

lemma claims_on_container_linux [claims_intros]: "claims_r cid x p 0 (on_container_linux a)"
  unfolding on_container_linux_def
  by (rule claims_on_container) (simp add: on_ptr_def split: option.split prod.split)

lemma on_adjust_frame:
  "creating cid (snd (on_adjust a s)) = creating cid s" "rs_owners (snd (on_adjust a s)) = rs_owners s"
  by (simp_all add: on_adjust_def on_ptr_def split: option.split prod.split)

lemma claims_on_adjust [claims_intros]: "claims_r cid x p 0 (on_adjust a)"
  by (rule claims_frame) (simp add: on_adjust_frame)

lemma claims_on_adjust_linux [claims_intros]: "claims_r cid x p 0 (on_adjust_linux a)"
  unfolding on_adjust_linux_def by (rule claims_on_adjust)

lemma claims_with_id [claims_intros]:
  "claims_r cid x p n (body cid) \<Longrightarrow> claims_r cid x p n (with_id body)"
  by (auto simp: claims_def with_id_def creating_def split: option.splits)

lemma claims_with_adjust [claims_intros]:
  "(\<And>a. claims_r cid x p n (body a)) \<Longrightarrow> claims_r cid x p n (with_adjust body)"
  unfolding claims_def with_adjust_def by (auto split: option.splits)

lemma claims_with_adjust_linux [claims_intros]:
  "(\<And>l. claims_r cid x p n (body l)) \<Longrightarrow> claims_r cid x p n (with_adjust_linux body)"
  unfolding with_adjust_linux_def
  by (rule claims_with_adjust) (auto simp: claims_def split: option.splits)

section \<open>What a reply claims and clears\<close>

definition set_claim :: "'v option \<Rightarrow> claim \<Rightarrow> claim list" where
  "set_claim v c = (case v of None \<Rightarrow> [] | Some _ \<Rightarrow> [c])"

definition memory_claims :: "linux_memory \<Rightarrow> claim list" where
  "memory_claims m =
     set_claim (mem_limit m) ClaimMemLimit @ set_claim (mem_reservation m) ClaimMemReservation @
     set_claim (mem_swap m) ClaimMemSwapLimit @ set_claim (mem_kernel m) ClaimMemKernelLimit @
     set_claim (mem_kernel_tcp m) ClaimMemTCPLimit @ set_claim (mem_swappiness m) ClaimMemSwappiness @
     set_claim (mem_disable_oom_killer m) ClaimMemDisableOomKiller @
     set_claim (mem_use_hierarchy m) ClaimMemUseHierarchy"

definition cpu_claims :: "linux_cpu \<Rightarrow> claim list" where
  "cpu_claims c =
     set_claim (cpu_shares c) ClaimCPUShares @ set_claim (cpu_quota c) ClaimCPUQuota @
     set_claim (cpu_period c) ClaimCPUPeriod @ set_claim (cpu_realtime_runtime c) ClaimCPURealtimeRuntime @
     set_claim (cpu_realtime_period c) ClaimCPURealtimePeriod @
     set_claim (nonempty (cpu_cpus c)) ClaimCPUSetCPUs @ set_claim (nonempty (cpu_mems c)) ClaimCPUSetMems"

definition resource_claims :: "linux_resources \<Rightarrow> claim list" where
  "resource_claims r =
     (case res_memory r of None \<Rightarrow> [] | Some m \<Rightarrow> memory_claims m) @
     (case res_cpu r of None \<Rightarrow> [] | Some c \<Rightarrow> cpu_claims c) @
     map (\<lambda>l. ClaimHugepageLimit (hp_page_size l)) (res_hugepage_limits r) @
     map (\<lambda>(k, v). ClaimCgroupsUnified k) (gmap_entries (res_unified r)) @
     set_claim (res_blockio_class r) ClaimBlockioClass @ set_claim (res_rdt_class r) ClaimRdtClass @
     set_claim (res_pids r) ClaimPidsLimit"

definition rdt_claims :: "linux_rdt \<Rightarrow> claim list" where
  "rdt_claims d =
     set_claim (rdt_clos_id d) ClaimRdtClosID @ set_claim (rdt_schemata d) ClaimRdtSchemata @
     set_claim (rdt_enable_monitoring d) ClaimRdtEnableMonitoring"

definition namespace_claim :: "linux_namespace option \<Rightarrow> claim list" where
  "namespace_claim on = (case on of None \<Rightarrow> [] | Some n \<Rightarrow> [ClaimNamespace (fst (LinuxNamespace_IsMarkedForRemoval n))])"

definition map_claims :: "(string \<Rightarrow> claim) \<Rightarrow> (string, 'v) gomap option \<Rightarrow> claim list" where
  "map_claims f m = map (\<lambda>(k, v). f k) (snd (split_marked (gmap_entries m)))"

definition map_clears :: "(string \<Rightarrow> clear) \<Rightarrow> (string, 'v) gomap option \<Rightarrow> clear list" where
  "map_clears f m = map f (fst (split_marked (gmap_entries m)))"

definition list_clears :: "(string \<Rightarrow> clear) \<Rightarrow> ('a \<Rightarrow> string \<times> bool) \<Rightarrow> 'a list \<Rightarrow> clear list" where
  "list_clears f check xs = map (\<lambda>x. f (fst (check x))) (filter (\<lambda>x. snd (check x)) xs)"

definition linux_claims :: "linux_adjustment \<Rightarrow> claim list" where
  "linux_claims l =
     map (\<lambda>d. ClaimDevice (dev_path d)) (additions LinuxDevice_IsMarkedForRemoval (la_devices l)) @
     (case la_resources l of None \<Rightarrow> [] | Some r \<Rightarrow> resource_claims r) @
     set_claim (nonempty (la_cgroups_path l)) ClaimCgroupsPath @
     set_claim (la_oom_score_adj l) ClaimOomScoreAdj @ set_claim (la_io_priority l) ClaimIOPriority @
     set_claim (la_seccomp_policy l) ClaimSeccompPolicy @
     concat (map namespace_claim (la_namespaces l)) @
     map_claims ClaimSysctl (la_sysctl l) @ map_claims ClaimLinuxNetDevice (la_net_devices l) @
     set_claim (la_scheduler l) ClaimLinuxScheduler @
     (case la_rdt l of None \<Rightarrow> [] | Some d \<Rightarrow> rdt_claims d)"

definition linux_clears :: "linux_adjustment \<Rightarrow> clear list" where
  "linux_clears l =
     list_clears ClearDevice LinuxDevice_IsMarkedForRemoval (la_devices l) @
     map_clears ClearSysctl (la_sysctl l) @ map_clears ClearLinuxNetDevice (la_net_devices l) @
     (case la_rdt l of None \<Rightarrow> [] | Some d \<Rightarrow> if rdt_remove d then [ClearRdt] else [])"

definition adjust_claims :: "container_adjustment \<Rightarrow> claim list" where
  "adjust_claims a =
     map_claims ClaimAnnotation (adj_annotations a) @
     map (\<lambda>m. ClaimMount (mnt_destination m)) (additions Mount_IsMarkedForRemoval (adj_mounts a)) @
     map (\<lambda>e. ClaimEnv (kv_key e)) (additions KeyValue_IsMarkedForRemoval (adj_env a)) @
     (if adj_args a = [] then [] else [ClaimArgs]) @
     (case adj_linux a of None \<Rightarrow> [] | Some l \<Rightarrow> linux_claims l) @
     map (\<lambda>l. ClaimRlimit (rl_type l)) (adj_rlimits a) @
     map (\<lambda>d. ClaimCdiDevice (cdi_name d)) (adj_cdi_devices a)"

definition adjust_clears :: "container_adjustment \<Rightarrow> clear list" where
  "adjust_clears a =
     map_clears ClearAnnotation (adj_annotations a) @
     list_clears ClearMount Mount_IsMarkedForRemoval (adj_mounts a) @
     list_clears ClearEnv KeyValue_IsMarkedForRemoval (adj_env a) @
     (if adj_args a \<noteq> [] \<and> hd (adj_args a) = [] then [ClearArgs] else []) @
     (case adj_linux a of None \<Rightarrow> [] | Some l \<Rightarrow> linux_clears l)"

text \<open>How often a list of claims names a slot, and whether a list of clears does.\<close>

definition claimed :: "claim list \<Rightarrow> slot \<Rightarrow> nat" where
  "claimed cs x = count_list (map claim_slot cs) x"

definition cleared :: "clear list \<Rightarrow> slot \<Rightarrow> bool" where
  "cleared cs x \<longleftrightarrow> (\<exists>c \<in> set cs. x \<in> set (clear_slots c))"

lemma claimed_simps [simp]:
  "claimed [] x = 0" "claimed (c # cs) x = at_slot c x + claimed cs x"
  "claimed (cs @ ds) x = claimed cs x + claimed ds x"
  by (simp_all add: claimed_def at_slot_def)

lemma claimed_map: "claimed (map f ys) x = sum_list (map (\<lambda>y. at_slot (f y) x) ys)"
  by (induction ys) simp_all

lemma claimed_concat: "claimed (concat (map f ys)) x = sum_list (map (\<lambda>y. claimed (f y) x) ys)"
  by (induction ys) simp_all

lemma claimed_set_claim: "claimed (set_claim v c) x = (case v of None \<Rightarrow> 0 | Some _ \<Rightarrow> at_slot c x)"
  by (simp add: set_claim_def split: option.split)

lemma claimed_case_option:
  "claimed (case v of None \<Rightarrow> cs | Some y \<Rightarrow> f y) x = (case v of None \<Rightarrow> claimed cs x | Some y \<Rightarrow> claimed (f y) x)"
  by (simp split: option.split)

lemma claimed_if: "claimed (if b then cs else ds) x = (if b then claimed cs x else claimed ds x)"
  by simp

lemmas claimed_eqs = claimed_map claimed_concat claimed_set_claim claimed_case_option claimed_if

lemma cleared_append [simp]: "cleared (cs @ ds) x \<longleftrightarrow> cleared cs x \<or> cleared ds x"
  by (auto simp: cleared_def)

section \<open>The adjust methods make these claims\<close>

text \<open>Maps: a key is cleared only if it comes with a marker too.\<close>

lemma claims_store_entries:
  assumes "\<And>k. k \<in> D \<Longrightarrow> claims I store cid x p 0 (remove k)" and "\<And>k v. claims I store cid x p (n k) (put k v)"
    and "unmarked p" and "x \<noteq> SimpleSlot Field_OciHooks"
  shows "set del \<subseteq> D \<Longrightarrow> I s \<Longrightarrow> store_entries remove put es del s = (Done, del', t) \<Longrightarrow>
    I t \<and> slot_effect (sum_list (map (\<lambda>(k, v). n k) es)) p (owner_view (store s) (cid, x)) (owner_view (store t) (cid, x))"
proof (induction es arbitrary: del s)
  case Nil
  then show ?case by (simp add: slot_effect_def)
next
  case (Cons e es)
  obtain k v where e: "e = (k, v)" by (cases e)
  have "claims I store cid x p ((if k \<in> set del then 0 else 0) + (n k + 0))
      (run [if k \<in> set del then remove k else (\<lambda>s. (Done, s)), put k v])"
    using Cons.prems(1) assms(1) by (intro claims_intros assms(2)) blast
  then have c: "claims I store cid x p (n k) (run [if k \<in> set del then remove k else (\<lambda>s. (Done, s)), put k v])"
    by (rule claims_eq) simp
  obtain u where u: "run [if k \<in> set del then remove k else (\<lambda>s. (Done, s)), put k v] s = (Done, u)"
    "store_entries remove put es (removeAll k del) u = (Done, del', t)"
    using Cons.prems(3) by (auto simp: e simp del: run.simps split: prod.splits status.splits)
  have 1: "I u" "slot_effect (n k) p (owner_view (store s) (cid, x)) (owner_view (store u) (cid, x))"
    using c assms(3,4) Cons.prems(2) u(1) unfolding claims_def by blast+
  have "set (removeAll k del) \<subseteq> D" using Cons.prems(1) by auto
  from Cons.IH [OF this 1(1) u(2)] show ?case using slot_effect_trans [OF 1(2) _ assms(3)] by (simp add: e)
qed

lemma claims_adjust_map:
  assumes "\<And>k. k \<in> set (fst (split_marked es)) \<Longrightarrow> claims I store cid x p 0 (remove k)"
    and "\<And>k v. claims I store cid x p (n k) (put k v)" and "\<And>k. claims I store cid x p 0 (leave k)"
  shows "claims I store cid x p (sum_list (map (\<lambda>(k, v). n k) (snd (split_marked es)))) (adjust_map ord remove put leave es)"
  unfolding claims_def
proof (intro impI allI)
  fix s t
  assume x: "unmarked p" "x \<noteq> SimpleSlot Field_OciHooks" and s: "I s" "adjust_map ord remove put leave es s = (Done, t)"
  obtain del rest where dr: "split_marked es = (del, rest)" by (cases "split_marked es")
  obtain del' u where u: "store_entries remove put rest del s = (Done, del', u)"
    "for_each (ord del') leave u = (Done, t)"
    using s(2) by (auto simp: adjust_map_def dr split: prod.splits status.splits)
  have 1: "I u \<and> slot_effect (sum_list (map (\<lambda>(k, v). n k) rest)) p (owner_view (store s) (cid, x)) (owner_view (store u) (cid, x))"
    using claims_store_entries [where D = "set del" and es = rest, OF _ assms(2) x _ s(1) u(1)] assms(1) by (simp add: dr)
  have "claims I store cid x p 0 (for_each (ord del') leave)" by (rule claims_for_none) (rule assms(3))
  then have 2: "I t \<and> slot_effect 0 p (owner_view (store u) (cid, x)) (owner_view (store t) (cid, x))"
    using x 1 u(2) unfolding claims_def by blast
  show "I t \<and> slot_effect (sum_list (map (\<lambda>(k, v). n k) (snd (split_marked es)))) p
      (owner_view (store s) (cid, x)) (owner_view (store t) (cid, x))"
    using 1 2 slot_effect_trans [OF _ _ x(1)] by (fastforce simp: dr)
qed

lemma claims_puts [claims_intros]:
  "claims_r cid x p 0 (put_reply_annotation k v)" "claims_r cid x p 0 (put_container_net_device k w)"
  "claims_r cid x p 0 (put_reply_net_device k w)" "claims_r cid x p 0 (put_container_sysctl k v)"
  "claims_r cid x p 0 (put_reply_sysctl k v)" "claims_r cid x p 0 (put_container_annotation k v)"
  unfolding put_container_annotation_def put_reply_annotation_def put_container_net_device_def
    put_reply_net_device_def put_container_sysctl_def put_reply_sysctl_def
  by (intro claims_intros claims_on_container; simp add: on_part_def split_def)+

lemmas claims_here = claims_intros claims_adjust_map claims_on_container claims_clear_r

lemma claimed_map_claims: "claimed (map_claims f m) x = sum_list (map (\<lambda>(k, v). at_slot (f k) x) (snd (split_marked (gmap_entries m))))"
  by (simp add: map_claims_def claimed_map split_def)

lemma cleared_map_clears: "cleared (map_clears f m) x \<longleftrightarrow> (\<exists>k \<in> set (fst (split_marked (gmap_entries m))). x \<in> set (clear_slots (f k)))"
  by (auto simp: cleared_def map_clears_def)

lemma cleared_list_clears: "cleared (list_clears f check xs) x \<longleftrightarrow> (\<exists>k \<in> removed_keys check xs. x \<in> set (clear_slots (f k)))"
  by (auto simp: cleared_def list_clears_def removed_keys_def)

lemma split_marked_Nil [simp]: "split_marked [] = ([], [])"
  by (simp add: split_marked_def)

lemma claims_map_method:
  assumes "\<And>k. claims_r cid x p 0 (del k)" "\<And>k. claims_r cid x p 0 (mark k)" "\<And>k v. claims_r cid x p 0 (put k v)"
    "\<And>k v. claims_r cid x p 0 (note k v)" "\<And>k. claims_r cid x p 0 (leave k)"
    and "\<not> cleared (map_clears clr m) x"
  shows "claims_r cid x p (claimed (map_claims cl m) x)
    (if gmap_entries m = [] then (\<lambda>s. (Done, s)) else with_id (\<lambda>cid. adjust_map ord
        (\<lambda>k. run [clear_r (clr k) cid p, del k, mark k])
        (\<lambda>k v. run [claim_r (cl k) cid p, put k v, note k v]) leave (gmap_entries m)))"
proof -
  have r: "claims_r cid x p 0 (run [clear_r (clr k) cid p, del k, mark k])"
    if "k \<in> set (fst (split_marked (gmap_entries m)))" for k
    using assms(6) that by (intro claims_none claims_clear_r assms) (auto simp: cleared_map_clears)
  have s: "claims_r cid x p (at_slot (cl k) x + (0 + (0 + 0))) (run [claim_r (cl k) cid p, put k v, note k v])" for k v
    by (intro claims_intros assms)
  show ?thesis
    by (rule claims_eq, rule claims_if, rule claims_skip, rule claims_with_id, rule claims_adjust_map, erule r, rule s, rule assms(5))
      (simp add: claimed_map_claims split_def)
qed

lemma claims_adjustAnnotations:
  "\<not> cleared (map_clears ClearAnnotation m) x \<Longrightarrow>
     claims_r cid x p (claimed (map_claims ClaimAnnotation m) x) (adjustAnnotations ord m p)"
  unfolding adjustAnnotations_def by (intro claims_map_method claims_puts claims_on_container) simp_all

lemma claims_adjustSysctl:
  "\<not> cleared (map_clears ClearSysctl m) x \<Longrightarrow>
     claims_r cid x p (claimed (map_claims ClaimSysctl m) x) (adjustSysctl ord m p)"
  unfolding adjustSysctl_def by (intro claims_map_method claims_puts claims_on_container_linux)

lemma claims_adjustLinuxNetDevices:
  "\<not> cleared (map_clears ClearLinuxNetDevice m) x \<Longrightarrow>
     claims_r cid x p (claimed (map_claims ClaimLinuxNetDevice m) x) (adjustLinuxNetDevices ord m p)"
  unfolding adjustLinuxNetDevices_def by (intro claims_map_method claims_puts claims_on_container_linux)

text \<open>Lists: an entry of the collected list is cleared only if the plugin names its key with a marker.\<close>

lemma additions_Nil [simp]: "additions check [] = []"
  by (simp add: additions_def)

lemma claims_clear_loop:
  assumes "\<not> cleared (list_clears clr check xs) x"
  shows "claims_r cid x p 0 (for_each ys (\<lambda>y. if has_key (removals check xs) (key y) then clear_r (clr (key y)) cid p else (\<lambda>s. (Done, s))))"
  using assms by (intro claims_none claims_clear_r) (auto simp: cleared_list_clears)

lemma claims_add_loop:
  assumes "\<And>y. claims_r cid x p 0 (note y)"
  shows "claims_r cid x p (claimed (map (\<lambda>y. cl (key y)) ys) x) (for_each ys (\<lambda>y. run [claim_r (cl (key y)) cid p, note y]))"
  by (rule claims_eq, (rule claims_intros assms)+, simp add: claimed_map)

lemmas list_steps = claims_if claims_skip claims_with_id claims_Cons claims_Nil claims_with_adjust claims_with_adjust_linux
  claims_clear_loop claims_on_adjust claims_on_adjust_linux claims_on_container_linux claims_on_container claims_add_loop

lemma claims_adjustMounts:
  assumes "\<not> cleared (list_clears ClearMount Mount_IsMarkedForRemoval ms) x"
  shows "claims_r cid x p (claimed (map (\<lambda>m. ClaimMount (mnt_destination m)) (additions Mount_IsMarkedForRemoval ms)) x)
    (adjustMounts ord ms p)"
proof -
  have tail: "claims_r cid x p 0 (for_each (range_in ord del) (\<lambda>(_, m).
      if \<not> has_key mods (ClearRemovalMarker (mnt_destination m))
      then on_adjust (assign (\<lambda>a. a\<lparr>adj_mounts := adj_mounts a @ [m]\<rparr>)) else (\<lambda>s. (Done, s))))"
    for del :: "(string, mount) gomap" and mods :: "(string, mount) gomap"
    by (intro claims_none) (auto intro: claims_intros)
  show ?thesis
    unfolding adjustMounts_def split_removals_parts Let_def prod.case
    by (rule claims_eq, (rule list_steps tail assms | simp; fail)+)
qed

lemma claims_adjustDevices:
  assumes "\<not> cleared (list_clears ClearDevice LinuxDevice_IsMarkedForRemoval ds) x"
  shows "claims_r cid x p (claimed (map (\<lambda>d. ClaimDevice (dev_path d)) (additions LinuxDevice_IsMarkedForRemoval ds)) x)
    (adjustDevices ds p)"
  unfolding adjustDevices_def split_removals_parts Let_def prod.case
  by (rule claims_eq, (rule list_steps assms | simp; fail)+)

lemma claims_adjustEnv:
  assumes "\<not> cleared (list_clears ClearEnv KeyValue_IsMarkedForRemoval es) x"
  shows "claims_r cid x p (claimed (map (\<lambda>e. ClaimEnv (kv_key e)) (additions KeyValue_IsMarkedForRemoval es)) x)
    (adjustEnv es p)"
proof -
  have tail: "claims_r cid x p 0 (for_each ys (\<lambda>e. on_container (assign (\<lambda>c. c\<lparr>ctr_env := ctr_env c @ [KeyValue_ToOCI e]\<rparr>))))"
    for ys by (intro claims_none claims_on_container) simp
  show ?thesis
    unfolding adjustEnv_def split_removals_parts Let_def prod.case
    by (rule claims_eq, (rule list_steps tail assms | simp; fail)+)
qed

section \<open>The other methods\<close>

lemmas claims_steps = claims_intros claims_on_container

lemma claims_adjustArgs:
  assumes "args \<noteq> [] \<Longrightarrow> hd args = [] \<Longrightarrow> x \<noteq> SimpleSlot Field_Args"
  shows "claims_r cid x p (claimed (if args = [] then [] else [ClaimArgs]) x) (adjustArgs args p)"
  unfolding adjustArgs_def Let_def
  by (rule claims_eq, (rule claims_steps claims_clear_r | (simp add: assms; fail))+)

lemma claims_adjust_values:
  "claims_r cid x p (claimed (set_claim (nonempty path) ClaimCgroupsPath) x) (adjustCgroupsPath path p)"
  "claims_r cid x p (claimed (set_claim oom ClaimOomScoreAdj) x) (adjustOomScoreAdj oom p)"
  "claims_r cid x p (claimed (set_claim prio ClaimIOPriority) x) (adjustIOPriority prio p)"
  "claims_r cid x p (claimed (set_claim sec ClaimSeccompPolicy) x) (adjustSeccompPolicy sec p)"
  "claims_r cid x p (claimed (set_claim sch ClaimLinuxScheduler) x) (adjustLinuxScheduler sch p)"
  unfolding adjustCgroupsPath_def adjustOomScoreAdj_def adjustIOPriority_def adjustSeccompPolicy_def adjustLinuxScheduler_def
  by (rule claims_eq, (rule claims_steps)+, simp add: set_claim_def nonempty_def split: option.split)+

lemma claims_adjustRlimits:
  "claims_r cid x p (claimed (map (\<lambda>l. ClaimRlimit (rl_type l)) ls) x) (adjustRlimits ls p)"
  unfolding adjustRlimits_def by (rule claims_eq, (rule claims_steps | simp; fail)+) (simp add: claimed_map)

lemma claims_adjustCDIDevices:
  "claims_r cid x p (claimed (map (\<lambda>d. ClaimCdiDevice (cdi_name d)) ds) x) (adjustCDIDevices ds p)"
  unfolding adjustCDIDevices_def by (rule claims_eq, (rule claims_steps | simp; fail)+) (simp add: claimed_map)

text \<open>Hooks share one owner, and claim no other slot.\<close>

lemma claims_add_hooks: "claims_r cid x p 0 (add_hooks get upd h)"
  unfolding add_hooks_def
  by (intro claims_none claims_on_adjust claims_on_container) (simp add: on_ptr_def split: option.split)

lemma claims_claim_hooks: "claims_r cid x p 0 (claim_r ClaimHooks cid p)"
  using claims_claim_r [of cid x p ClaimHooks] by (auto simp: claims_def at_slot_def)

lemma claims_adjustHooks: "claims_r cid x p 0 (adjustHooks h p)"
proof (cases h)
  case None
  then show ?thesis by (simp add: adjustHooks_def claims_skip)
next
  case (Some hk)
  have "claims_r cid x p 0 (run
          [add_hooks hk_prestart hk_prestart_update hk,
           add_hooks hk_poststart hk_poststart_update hk,
           add_hooks hk_poststop hk_poststop_update hk,
           add_hooks hk_create_runtime hk_create_runtime_update hk,
           add_hooks hk_create_container hk_create_container_update hk,
           add_hooks hk_start_container hk_start_container_update hk,
           if some_hook hk then with_id (\<lambda>cid. claim_r ClaimHooks cid p) else (\<lambda>s. (Done, s))])"
    by (intro claims_none claims_add_hooks claims_with_id claims_claim_hooks)
  then show ?thesis unfolding adjustHooks_def Some option.case claims_def
    by (auto simp del: run.simps split: option.splits)
qed

section \<open>Resources\<close>

abbreviation claims_t :: "string \<Rightarrow> slot \<Rightarrow> string \<Rightarrow> nat \<Rightarrow> (nri_error, owning_plugins \<times> 'x) action \<Rightarrow> bool" where
  "claims_t cid \<equiv> claims (\<lambda>_. True) fst cid"

lemma claims_claim_t: "claims_t cid x p (at_slot c x) (claim_t c cid p)"
  unfolding claim_t_def by (rule claims_on_part [OF claims_Claim]) (simp_all split: prod.split)

lemma claims_adjust_field: "claims_t cid x p (claimed (set_claim v c) x) (adjust_field v c upd cid p)"
proof -
  have a: "claims_t cid x p (at_slot c x) (on_part fst (\<lambda>o' (_, t). (o', t)) (OwningPlugins_Claim c cid p))"
    by (rule claims_on_part [OF claims_Claim]) (simp_all split: prod.split)
  have b: "claims_t cid x p 0 (\<lambda>(o', targetContainer, targetReply).
      case targetContainer of
        None \<Rightarrow> (Panicked, (o', None, targetReply))
      | Some m \<Rightarrow> (Done, (o', Some (upd y m), map_option (upd y) targetReply)))" for y
    by (rule claims_frame) (auto split: option.split)
  show ?thesis unfolding adjust_field_def
    by (rule claims_eq, (rule claims_intros a b)+) (simp add: set_claim_def split: option.split)
qed

lemma claims_adjustMemoryResource:
  "claims_t cid x p (claimed (case m of None \<Rightarrow> [] | Some m \<Rightarrow> memory_claims m) x) (adjustMemoryResource m cid p)"
  unfolding adjustMemoryResource_def memory_claims_def
  by (rule claims_eq, (rule claims_intros claims_adjust_field)+) (simp split: option.split)

lemma claims_adjustCPUResource:
  "claims_t cid x p (claimed (case m of None \<Rightarrow> [] | Some m \<Rightarrow> cpu_claims m) x) (adjustCPUResource m cid p)"
  unfolding adjustCPUResource_def cpu_claims_def
  by (rule claims_eq, (rule claims_intros claims_adjust_field)+) (simp split: option.split)

lemma claims_on_both: "claims_t cid x p 0 (on_both a)"
  by (rule claims_frame) (auto simp: on_both_def on_part_def split: prod.split status.split)

lemma claims_resource_targets:
  "claims_t cid x p (claimed (resource_claims r) x) (adjust_resource_targets r cid p)"
  unfolding adjust_resource_targets_def resource_claims_def
  by (rule claims_eq, (rule claims_intros claims_claim_t claims_on_both
      claims_on_part [OF claims_adjustMemoryResource] claims_on_part [OF claims_adjustCPUResource]
      | (simp split: prod.split; fail))+)
    (simp add: claimed_eqs split_def split: option.split)

text \<open>The targets are copied back whole.\<close>

lemma set_resources_frame:
  assumes "creating cid s"
  shows "creating cid (set_resources t s) \<and> rs_owners (set_resources t s) = fst t"
proof -
  obtain o' c q where t: "t = (o', c, q)" by (cases t)
  have "creating cid (snd (on_container_linux (assign (\<lambda>l. l\<lparr>lc_resources := Some c\<rparr>)) (s\<lparr>rs_owners := o'\<rparr>))) \<and>
      rs_owners (snd (on_container_linux (assign (\<lambda>l. l\<lparr>lc_resources := Some c\<rparr>)) (s\<lparr>rs_owners := o'\<rparr>))) = o'"
    unfolding on_container_linux_def
    using on_container_frame [of cid "s\<lparr>rs_owners := o'\<rparr>" "on_ptr ctr_linux (\<lambda>l c. c\<lparr>ctr_linux := Some l\<rparr>) (assign (\<lambda>l. l\<lparr>lc_resources := Some c\<rparr>))"] assms
    by (simp add: on_ptr_def split: option.split)
  then show ?thesis by (simp add: set_resources_def t on_adjust_linux_def on_adjust_frame)
qed

lemma claims_adjustResources:
  "claims_r cid x p (claimed (case r of None \<Rightarrow> [] | Some r \<Rightarrow> resource_claims r) x) (adjustResources r p)"
proof (cases r)
  case None
  then show ?thesis by (simp add: adjustResources_def claims_skip)
next
  case (Some res)
  have "claims_r cid x p (claimed (resource_claims res) x) (\<lambda>s. case (container_resources s, reply_resources s) of
            (Some container, Some reply) \<Rightarrow>
              (case adjust_resource_targets res cid p (rs_owners s, container, reply) of
                 (st, t) \<Rightarrow> (st, set_resources t s))
          | _ \<Rightarrow> (Panicked, s))"
    unfolding claims_def
  proof (intro impI allI)
    fix s t
    assume x: "unmarked p" "x \<noteq> SimpleSlot Field_OciHooks" and s: "creating cid s" "(case (container_resources s, reply_resources s) of
            (Some container, Some reply) \<Rightarrow>
              (case adjust_resource_targets res cid p (rs_owners s, container, reply) of
                 (st, t) \<Rightarrow> (st, set_resources t s))
          | _ \<Rightarrow> (Panicked, s)) = (Done, t)"
    then obtain c q u where u: "adjust_resource_targets res cid p (rs_owners s, c, q) = (Done, u)" "t = set_resources u s"
      by (auto split: option.splits prod.splits)
    have "slot_effect (claimed (resource_claims res) x) p (owner_view (rs_owners s) (cid, x)) (owner_view (fst u) (cid, x))"
      using claims_resource_targets [of cid x p res] x u(1) unfolding claims_def by fastforce
    then show "creating cid t \<and> slot_effect (claimed (resource_claims res) x) p
        (owner_view (rs_owners s) (cid, x)) (owner_view (rs_owners t) (cid, x))"
      using set_resources_frame [OF s(1), of u] u(2) by simp
  qed
  then show ?thesis unfolding adjustResources_def Some option.case by (rule claims_with_id)
qed

section \<open>RDT and namespaces\<close>

lemma initAdjustRdt_frame:
  "creating cid (initAdjustRdt s) = creating cid s" "rs_owners (initAdjustRdt s) = rs_owners s"
  unfolding initAdjustRdt_def initAdjustLinux_def initAdjust_def on_adjust_linux_def
  by (simp_all add: on_adjust_frame split: option.split)

lemma claims_adjustRdt:
  assumes "\<And>d. rdt = Some d \<Longrightarrow> rdt_remove d \<Longrightarrow> x \<notin> set (clear_slots ClearRdt)"
  shows "claims_r cid x p (claimed (case rdt of None \<Rightarrow> [] | Some d \<Rightarrow> rdt_claims d) x) (adjustRdt rdt p)"
proof -
  have init: "claims_r cid x p 0 (assign initAdjustRdt)"
    by (rule claims_frame) (simp add: initAdjustRdt_frame)
  have remove: "claims_r cid x p 0 (if (case rdt of None \<Rightarrow> False | Some d \<Rightarrow> rdt_remove d) then run
        [clear_r ClearRdt cid p, on_adjust_linux (assign (\<lambda>l. l\<lparr>la_rdt := Some (zero_rdt\<lparr>rdt_remove := True\<rparr>)\<rparr>))]
      else (\<lambda>s. (Done, s)))"
    using assms by (intro claims_none claims_clear_r claims_on_adjust_linux) (auto split: option.splits)
  show ?thesis unfolding adjustRdt_def adjust_rdt_fields_def set_reply_rdt_def rdt_claims_def
    by (rule claims_eq, (rule init remove claims_intros)+)
      (simp add: claimed_eqs split: option.split)
qed

text \<open>Apart from the map it builds, the loop over the namespaces is one of independent rounds.\<close>

definition namespace_round :: "string \<Rightarrow> string \<Rightarrow> linux_namespace option \<Rightarrow> (nri_error, result) action" where
  "namespace_round cid p on =
     (case on of
        None \<Rightarrow> (\<lambda>s. (Done, s))
      | Some n \<Rightarrow> run
          [claim_r (ClaimNamespace (fst (LinuxNamespace_IsMarkedForRemoval n))) cid p,
           on_adjust_linux (assign (\<lambda>a. a\<lparr>la_namespaces := la_namespaces a @ [Some n]\<rparr>))])"

lemma namespace_loop_rounds:
  "for_each ns (namespace_round cid p) s = (case namespace_loop cid p ns m s of (st, _, t) \<Rightarrow> (st, t))"
proof (induction ns arbitrary: m s)
  case Nil
  then show ?case by simp
next
  case (Cons on ns)
  show ?case
  proof (cases on)
    case None
    then show ?thesis using Cons [of s m] by (simp add: for_each_Cons namespace_round_def split: prod.split status.split)
  next
    case (Some n)
    obtain key marked where k: "LinuxNamespace_IsMarkedForRemoval n = (key, marked)" by fastforce
    have r: "namespace_round cid p (Some n) = run [claim_r (ClaimNamespace key) cid p,
        on_adjust_linux (assign (\<lambda>a. a\<lparr>la_namespaces := la_namespaces a @ [Some n]\<rparr>))]"
      by (simp add: namespace_round_def k)
    show ?thesis
      by (simp add: Some k Let_def for_each_Cons r
          Cons.IH [of _ "if marked then AList.delete key m else AList.update key n m"] split: prod.split status.split)
  qed
qed

lemma claims_namespaces:
  "claims_r cid x p (claimed (concat (map namespace_claim ns)) x) (for_each ns (namespace_round cid p))"
  unfolding namespace_round_def
  by (rule claims_eq, (rule claims_intros)+) (simp add: claimed_concat claimed_case_option namespace_claim_def cong: option.case_cong)

lemma claims_adjustNamespaces:
  "claims_r cid x p (claimed (concat (map namespace_claim ns)) x) (adjustNamespaces ord ns p)"
  unfolding claims_def
proof (intro impI allI)
  fix s t
  assume x: "unmarked p" "x \<noteq> SimpleSlot Field_OciHooks" and s: "creating cid s" "adjustNamespaces ord ns p s = (Done, t)"
  show "creating cid t \<and> slot_effect (claimed (concat (map namespace_claim ns)) x) p
      (owner_view (rs_owners s) (cid, x)) (owner_view (rs_owners t) (cid, x))"
  proof (cases "ns = []")
    case True
    then show ?thesis using s by (simp add: adjustNamespaces_def slot_effect_def)
  next
    case False
    obtain m0 m u where r: "namespace_loop cid p ns m0 s = (Done, m, u)"
      "on_container_linux (assign (\<lambda>c. c\<lparr>lc_namespaces := map snd (range_in ord m)\<rparr>)) u = (Done, t)"
      using s False by (auto simp: adjustNamespaces_def with_id_def with_container_linux_def with_container_def
          creating_def Let_def split: option.splits prod.splits status.splits)
    have 1: "creating cid u \<and> slot_effect (claimed (concat (map namespace_claim ns)) x) p
        (owner_view (rs_owners s) (cid, x)) (owner_view (rs_owners u) (cid, x))"
      using claims_namespaces [of cid x p ns] namespace_loop_rounds [of ns cid p s m0] x s(1) r(1)
      unfolding claims_def by simp
    then have "creating cid t \<and> slot_effect 0 p (owner_view (rs_owners u) (cid, x)) (owner_view (rs_owners t) (cid, x))"
      using claims_on_container_linux [of cid x p] x r(2) unfolding claims_def by blast
    with 1 show ?thesis by (simp add: slot_effect_def)
  qed
qed

section \<open>Updates concern other containers\<close>

interpretation elsewhere: claim_stable "\<lambda>op. i \<noteq> cid \<longrightarrow> owner_view op (cid, x) = v" i for i cid x v
  by unfold_locales (simp add: Claim_elsewhere)

lemma updateResources_elsewhere:
  assumes "cu_container_id u \<noteq> cid" and "fst (updateResources u p s) \<noteq> Panicked"
  shows "owner_view (rs_owners (snd (updateResources u p s))) (cid, x) = owner_view (rs_owners s) (cid, x)"
  using updateResources_owners [of u p s]
proof
  assume "rs_owners (snd (updateResources u p s)) = rs_owners s"
  then show ?thesis by simp
next
  assume "\<exists>r q. fst (update_resource_copy r (cu_container_id u) p (rs_owners s, q)) = fst (updateResources u p s) \<and>
      rs_owners (snd (updateResources u p s)) = fst (snd (update_resource_copy r (cu_container_id u) p (rs_owners s, q)))"
  then obtain r q where r: "fst (update_resource_copy r (cu_container_id u) p (rs_owners s, q)) = fst (updateResources u p s)"
    "rs_owners (snd (updateResources u p s)) = fst (snd (update_resource_copy r (cu_container_id u) p (rs_owners s, q)))"
    by blast
  show ?thesis
    using kept_D [OF elsewhere.kept_update_copy [of "cu_container_id u" cid x "owner_view (rs_owners s) (cid, x)" r p], of "(rs_owners s, q)"]
      assms r by simp
qed

lemma claims_update_one: "claims_r cid x p 0 (update_one p u)"
  unfolding claims_def
proof (intro impI allI)
  fix s t
  assume s: "creating cid s" "update_one p u s = (Done, t)"
  obtain g where g: "getContainerUpdate u p s = (Done, g)"
    using s(2) by (auto simp: update_one_def split: prod.splits status.splits)
  have gs: "create_container g = create_container s" "rs_owners g = rs_owners s" "cu_container_id u \<noteq> cid"
    using g s(1) by (auto simp: creating_def create_container_def getContainerUpdate_def Let_def split: option.splits if_splits)
  obtain st t' where r: "updateResources u p g = (st, t')" by fastforce
  have t: "t' = t" "st \<noteq> Panicked" using s(2) by (auto simp: update_one_def g r split: status.splits if_splits)
  have "owner_view (rs_owners t) (cid, x) = owner_view (rs_owners g) (cid, x)"
    using updateResources_elsewhere [OF gs(3), of p g x] r t by simp
  moreover have "creating cid t"
    using updateResources_frame(1) [of u p g] r t gs(1) s(1) by (simp add: creating_def)
  ultimately show "creating cid t \<and> slot_effect 0 p (owner_view (rs_owners s) (cid, x)) (owner_view (rs_owners t) (cid, x))"
    by (simp add: slot_effect_def gs(2))
qed

lemma claims_result_update: "claims_r cid x p 0 (result_update us p)"
  unfolding result_update_def
proof (rule claims_for_none)
  fix u
  show "claims_r cid x p 0 (\<lambda>s. case u of None \<Rightarrow> (Panicked, s) | Some u \<Rightarrow> update_one p u s)"
    using claims_update_one [of cid x p] by (cases u) (simp_all add: claims_def)
qed

section \<open>A whole reply\<close>

lemma claims_adjust:
  assumes "\<not> cleared (adjust_clears a) x"
  shows "claims_r cid x p (claimed (adjust_claims a) x) (adjust ord (Some a) p)"
proof -
  have linux: "claims_r cid x p (claimed (case adj_linux a of None \<Rightarrow> [] | Some l \<Rightarrow> linux_claims l) x)
     (case adj_linux a of
              None \<Rightarrow> (\<lambda>s. (Done, s))
            | Some l \<Rightarrow> run
                [adjustDevices (la_devices l) p,
                 adjustResources (la_resources l) p,
                 adjustCgroupsPath (la_cgroups_path l) p,
                 adjustOomScoreAdj (la_oom_score_adj l) p,
                 adjustIOPriority (la_io_priority l) p,
                 adjustSeccompPolicy (la_seccomp_policy l) p,
                 adjustNamespaces ord (la_namespaces l) p,
                 adjustSysctl ord (la_sysctl l) p,
                 adjustLinuxNetDevices ord (la_net_devices l) p,
                 adjustLinuxScheduler (la_scheduler l) p,
                 adjustRdt (la_rdt l) p])"
  proof (cases "adj_linux a")
    case None
    then show ?thesis by (simp add: claims_skip)
  next
    case (Some l)
    then have c: "\<not> cleared (list_clears ClearDevice LinuxDevice_IsMarkedForRemoval (la_devices l)) x"
      "\<not> cleared (map_clears ClearSysctl (la_sysctl l)) x" "\<not> cleared (map_clears ClearLinuxNetDevice (la_net_devices l)) x"
      "\<And>d. la_rdt l = Some d \<Longrightarrow> rdt_remove d \<Longrightarrow> x \<notin> set (clear_slots ClearRdt)"
      using assms by (auto simp: adjust_clears_def linux_clears_def cleared_def)
    show ?thesis unfolding Some option.case linux_claims_def
      by (rule claims_eq, (rule claims_Cons claims_Nil claims_adjustDevices [OF c(1)] claims_adjustResources claims_adjust_values
          claims_adjustNamespaces claims_adjustSysctl [OF c(2)] claims_adjustLinuxNetDevices [OF c(3)] claims_adjustRdt c(4) | assumption)+)
        simp
  qed
  have c: "\<not> cleared (map_clears ClearAnnotation (adj_annotations a)) x"
    "\<not> cleared (list_clears ClearMount Mount_IsMarkedForRemoval (adj_mounts a)) x"
    "\<not> cleared (list_clears ClearEnv KeyValue_IsMarkedForRemoval (adj_env a)) x"
    "adj_args a \<noteq> [] \<Longrightarrow> hd (adj_args a) = [] \<Longrightarrow> x \<noteq> SimpleSlot Field_Args"
    using assms by (auto simp: adjust_clears_def cleared_def)
  show ?thesis unfolding adjust_def option.case adjust_claims_def
    by (rule claims_eq, (rule claims_Cons claims_Nil claims_adjustAnnotations [OF c(1)] claims_adjustMounts [OF c(2)]
        claims_adjustEnv [OF c(3)] claims_adjustArgs claims_adjustHooks linux claims_adjustRlimits claims_adjustCDIDevices c(4) | assumption)+)
      simp
qed

definition reply_claims :: "response \<Rightarrow> claim list" where
  "reply_claims r =
     (case r of CreateReply (Some q) \<Rightarrow> (case crs_adjust q of None \<Rightarrow> [] | Some a \<Rightarrow> adjust_claims a) | _ \<Rightarrow> [])"

definition reply_clears :: "response \<Rightarrow> clear list" where
  "reply_clears r =
     (case r of CreateReply (Some q) \<Rightarrow> (case crs_adjust q of None \<Rightarrow> [] | Some a \<Rightarrow> adjust_clears a) | _ \<Rightarrow> [])"

lemma claims_apply_reply:
  assumes "\<not> cleared (reply_clears r) x"
  shows "claims_r cid x p (claimed (reply_claims r) x) (apply_reply ord r p)"
proof -
  have none: "claims_r cid x p 0 (adjust ord None p)" by (simp add: adjust_def claims_skip)
  have both: "claims_r cid x p n (run [a, result_update us p])" if "claims_r cid x p n a" for a n us
    by (rule claims_eq, (rule claims_Cons claims_Nil claims_result_update that)+) simp
  show ?thesis
    using assms unfolding apply_reply_def reply_claims_def reply_clears_def
    by (auto split: response.split option.split simp del: run.simps)
      (intro both none claims_adjust claims_skip claims_result_update claims_frame; simp)+
qed

section \<open>All replies to one request\<close>

text \<open>A slot with an owner whose name is a plugin's, not a marker, is not claimed again.\<close>

definition taken :: "string option \<Rightarrow> bool" where
  "taken v \<longleftrightarrow> (\<exists>q. v = Some q \<and> unmarked q)"

lemma effect_taken:
  assumes "slot_effect n p v w" and "unmarked p" and "v = None \<or> taken v"
  shows "taken v \<Longrightarrow> n = 0 \<and> w = v" and "n \<noteq> 0 \<Longrightarrow> v = None \<and> n = 1 \<and> w = Some p \<and> taken w"
    and "w = None \<or> taken w"
  using assms ow.may_claim_own by (auto simp: slot_effect_def taken_def)

lemma apply_all_claims:
  assumes "x \<noteq> SimpleSlot Field_OciHooks"
  shows "creating cid s \<Longrightarrow> apply_all ord replies s = (Done, t) \<Longrightarrow>
    \<forall>(r, p) \<in> set replies. unmarked p \<and> \<not> cleared (reply_clears r) x \<Longrightarrow>
    v = owner_view (rs_owners s) (cid, x) \<Longrightarrow> v = None \<or> taken v \<Longrightarrow>
    sum_list (map (\<lambda>(r, p). claimed (reply_claims r) x) replies) \<le> (if v = None then 1 else 0) \<and>
    owner_view (rs_owners t) (cid, x) =
      (if v = None then map_option snd (find (\<lambda>(r, p). claimed (reply_claims r) x \<noteq> 0) replies) else v)"
proof (induction replies arbitrary: s v)
  case Nil
  then show ?case by (simp add: apply_all_def)
next
  case (Cons e replies)
  obtain r p where e: "e = (r, p)" by (cases e)
  obtain u where u: "apply_reply ord r p s = (Done, u)" "apply_all ord replies u = (Done, t)"
    using Cons.prems(2) unfolding apply_all_def e for_each_Cons run_Done_split by auto
  have p: "unmarked p" "\<not> cleared (reply_clears r) x" using Cons.prems(3) by (auto simp: e)
  let ?n = "claimed (reply_claims r) x" and ?w = "owner_view (rs_owners u) (cid, x)"
  have 1: "creating cid u" "slot_effect ?n p v ?w"
    using claims_apply_reply [OF p(2), of cid p ord] p(1) assms Cons.prems(1,4) u(1) unfolding claims_def by blast+
  note eff = effect_taken [OF 1(2) p(1) Cons.prems(5)]
  have ih: "sum_list (map (\<lambda>(r, p). claimed (reply_claims r) x) replies) \<le> (if ?w = None then 1 else 0)"
    "owner_view (rs_owners t) (cid, x) =
      (if ?w = None then map_option snd (find (\<lambda>(r, p). claimed (reply_claims r) x \<noteq> 0) replies) else ?w)"
    using Cons.IH [OF 1(1) u(2) _ refl eff(3)] Cons.prems(3) by simp_all
  show ?case
  proof (cases "?n = 0")
    case True
    then have "?w = v" using 1(2) by (simp add: slot_effect_def)
    with ih True show ?thesis by (simp add: e)
  next
    case False
    then have "v = None" "?n = 1" "?w = Some p" using eff(2) by blast+
    with ih show ?thesis by (simp add: e)
  qed
qed

lemma collect_creating:
  assumes "collectCreateContainerResult req = Some s" and "cr_container req = Some c"
  shows "creating (ctr_id c) s" and "rs_owners s = NewOwningPlugins"
  using assms by (auto simp: collectCreateContainerResult_def creating_def create_container_def prepare_container_def)

lemma fresh_view: "owner_view NewOwningPlugins k = None"
  by (cases k) (simp add: owner_view_def ownersFor_def NewOwningPlugins_def slot_owner_nil)

text \<open>
  C3. One owner per setting. When the replies to a creation pass, every setting of the container that no
  reply clears, the shared hooks apart, is set at most once, counting all replies and all entries of
  each; and the owner recorded at the end is the plugin whose reply set it, or nobody.
\<close>

theorem settings_have_one_owner:
  assumes "collectCreateContainerResult req = Some s0" and "cr_container req = Some c"
    and "apply_all ord replies s0 = (Done, s)" and "x \<noteq> SimpleSlot Field_OciHooks"
    and "\<forall>(r, p) \<in> set replies. unmarked p \<and> \<not> cleared (reply_clears r) x"
  shows "sum_list (map (\<lambda>(r, p). claimed (reply_claims r) x) replies) \<le> 1 \<and>
    owner_view (rs_owners s) (ctr_id c, x) =
      map_option snd (find (\<lambda>(r, p). claimed (reply_claims r) x \<noteq> 0) replies)"
  using apply_all_claims [OF assms(4) collect_creating(1) [OF assms(1,2)] assms(3,5) refl]
  by (simp add: collect_creating(2) [OF assms(1,2)] fresh_view)

theorem settings_have_one_owner_witness:
  "owner_view (rs_owners (snd (apply_all (\<lambda>ks. ks)
      [(CreateReply (Some \<lparr>crs_adjust = Some (zero_adjustment\<lparr>adj_rlimits := [\<lparr>rl_type = ''RLIMIT_CORE'', rl_hard = 9, rl_soft = 9\<rparr>]\<rparr>),
           crs_update = [], crs_evict = []\<rparr>), ''10-a''),
       (CreateReply (Some \<lparr>crs_adjust = Some (zero_adjustment\<lparr>adj_args := [''sh'']\<rparr>), crs_update = [], crs_evict = []\<rparr>), ''20-b'')]
      (the (collectCreateContainerResult \<lparr>cr_pod = None, cr_container = Some (zero_container\<lparr>ctr_id := ''c''\<rparr>)\<rparr>)))))
     (''c'', SimpleSlot Field_Args) = Some ''20-b''"
proof -
  let ?x = "SimpleSlot Field_Args"
  let ?req = "\<lparr>cr_pod = None, cr_container = Some (zero_container\<lparr>ctr_id := ''c''\<rparr>)\<rparr>"
  let ?rs = "[(CreateReply (Some \<lparr>crs_adjust = Some (zero_adjustment\<lparr>adj_rlimits := [\<lparr>rl_type = ''RLIMIT_CORE'', rl_hard = 9, rl_soft = 9\<rparr>]\<rparr>),
           crs_update = [], crs_evict = []\<rparr>), ''10-a''),
       (CreateReply (Some \<lparr>crs_adjust = Some (zero_adjustment\<lparr>adj_args := [''sh'']\<rparr>), crs_update = [], crs_evict = []\<rparr>), ''20-b'')]"
  let ?run = "apply_all (\<lambda>ks. ks) ?rs (the (collectCreateContainerResult ?req))"
  have d: "fst ?run = Done" by code_simp
  have c: "\<forall>(r, p) \<in> set ?rs. unmarked p \<and> \<not> cleared (reply_clears r) ?x" by code_simp
  have f: "map_option snd (find (\<lambda>(r, p). claimed (reply_claims r) ?x \<noteq> 0) ?rs) = Some ''20-b''" by code_simp
  have s0: "collectCreateContainerResult ?req = Some (the (collectCreateContainerResult ?req))"
    by (simp add: collectCreateContainerResult_def)
  have "?run = (Done, snd ?run)" using d by (metis prod.collapse)
  from settings_have_one_owner [OF s0 _ this _ c] f show ?thesis by simp
qed

section \<open>Two plugins, one setting\<close>

definition always_sets :: "(create_request, create_response) impl \<Rightarrow> adaptation \<Rightarrow> slot \<Rightarrow> nat \<Rightarrow> bool" where
  "always_sets impl ad x i \<longleftrightarrow> subscribed 4 (ad_table ad i) \<and>
     (\<forall>q. \<exists>r. impl i q = Inr (Some r) \<and> claimed (reply_claims (CreateReply (Some r))) x \<noteq> 0)"

definition never_clears :: "(create_request, create_response) impl \<Rightarrow> slot \<Rightarrow> nat \<Rightarrow> bool" where
  "never_clears impl x i \<longleftrightarrow>
     (\<forall>q r. impl i q = Inr (Some r) \<longrightarrow> \<not> cleared (reply_clears (CreateReply (Some r))) x)"

lemma create_body_Done:
  assumes "create_body impl ord req i ((a, s), v) = (Done, ((a', s'), v'))"
  obtains rpl where "apply_reply ord (CreateReply rpl) (plugin_qname (ad_table a i)) s = (Done, s')"
    and "rpl = None \<or> (\<exists>q. impl i q = Inr rpl)"
    and "subscribed 4 (ad_table a i) \<Longrightarrow> (\<And>q. \<exists>r. impl i q = Inr r) \<Longrightarrow> \<exists>q. impl i q = Inr rpl"
proof -
  define q where "q = (case rq_create (rs_request s) of None \<Rightarrow> req | Some q \<Rightarrow> q)"
  obtain called a2 where c: "plugin_createContainer impl i q a = (called, a2)" by fastforce
  obtain rpl where r: "called = Inr rpl"
    "apply_reply ord (CreateReply rpl) (plugin_qname (ad_table a i)) s = (Done, s')"
    using assms by (auto simp: create_body_def on_part_def create_round_def q_def [symmetric] c apply_relayed_def
        split: sum.splits prod.splits status.splits)
  have k: "rpl = None \<or> impl i q = Inr rpl"
    "subscribed 4 (ad_table a i) \<Longrightarrow> impl i q = Inr w \<Longrightarrow> rpl = w" for w
    using c r(1) by (auto simp: plugin_createContainer_def relay_call_def split: if_splits sum.splits)
  show thesis by (rule that [OF r(2)]) (use k in blast)+
qed

lemma create_body_claims:
  assumes r: "create_body impl ord req i ((a, s), v) = (Done, ((a', s'), v'))" and x: "x \<noteq> SimpleSlot Field_OciHooks"
    and c: "only_closes ad a" "creating cid s" and n: "unmarked (plugin_qname (ad_table ad i))" "never_clears impl x i"
    and o: "owner_view (rs_owners s) (cid, x) = None \<or> taken (owner_view (rs_owners s) (cid, x))"
  shows "creating cid s' \<and> (owner_view (rs_owners s') (cid, x) = None \<or> taken (owner_view (rs_owners s') (cid, x))) \<and>
    (taken (owner_view (rs_owners s) (cid, x)) \<longrightarrow> taken (owner_view (rs_owners s') (cid, x)) \<and> \<not> always_sets impl ad x i) \<and>
    (always_sets impl ad x i \<longrightarrow> taken (owner_view (rs_owners s') (cid, x)))"
proof -
  obtain rpl where rpl: "apply_reply ord (CreateReply rpl) (plugin_qname (ad_table a i)) s = (Done, s')"
    "rpl = None \<or> (\<exists>q. impl i q = Inr rpl)"
    "subscribed 4 (ad_table a i) \<Longrightarrow> (\<And>q. \<exists>r. impl i q = Inr r) \<Longrightarrow> \<exists>q. impl i q = Inr rpl"
    using create_body_Done [OF r] by metis
  have p: "unmarked (plugin_qname (ad_table a i))" using n(1) c(1) by (simp add: only_closes_name)
  have cl: "\<not> cleared (reply_clears (CreateReply rpl)) x"
    using rpl(2) n(2) by (cases rpl) (auto simp: never_clears_def reply_clears_def cleared_def)
  let ?n = "claimed (reply_claims (CreateReply rpl)) x"
  have 1: "creating cid s'" "slot_effect ?n (plugin_qname (ad_table a i))
      (owner_view (rs_owners s) (cid, x)) (owner_view (rs_owners s') (cid, x))"
    using claims_apply_reply [OF cl, of cid _ ord] p x c(2) rpl(1) unfolding claims_def by blast+
  note eff = effect_taken [OF 1(2) p o]
  have sets: "?n \<noteq> 0" if s: "always_sets impl ad x i"
  proof -
    have "subscribed 4 (ad_table a i)" using s only_closes_subscribed [OF c(1)] by (simp add: always_sets_def)
    moreover have "\<exists>r. impl i q = Inr r" for q using s unfolding always_sets_def by blast
    ultimately obtain q where "impl i q = Inr rpl" using rpl(3) by blast
    with s show ?thesis unfolding always_sets_def by (metis sum.inject(2))
  qed
  show ?thesis using 1(1) eff sets by metis
qed

lemma create_loop_setters:
  assumes "x \<noteq> SimpleSlot Field_OciHooks"
  shows "for_each is (create_body impl ord req) ((a, s), v) = (Done, ((a', s'), v')) \<Longrightarrow> only_closes ad a \<Longrightarrow> creating cid s \<Longrightarrow>
    \<forall>i \<in> set is. unmarked (plugin_qname (ad_table ad i)) \<and> never_clears impl x i \<Longrightarrow>
    owner_view (rs_owners s) (cid, x) = None \<or> taken (owner_view (rs_owners s) (cid, x)) \<Longrightarrow>
    length (filter (always_sets impl ad x) is) \<le> (if taken (owner_view (rs_owners s) (cid, x)) then 0 else 1)"
proof (induction "is" arbitrary: a s v)
  case Nil
  then show ?case by simp
next
  case (Cons i "is")
  obtain a2 s2 v2 where b: "create_body impl ord req i ((a, s), v) = (Done, ((a2, s2), v2))"
    "for_each is (create_body impl ord req) ((a2, s2), v2) = (Done, ((a', s'), v'))"
    using Cons.prems(1) unfolding for_each_Cons run_Done_split by auto
  have "only_closes a a2" using create_body_closes [of "((a, s), v)" impl ord req i] b(1) by simp
  then have c: "only_closes ad a2" using Cons.prems(2) only_closes_trans by blast
  note step = create_body_claims [OF b(1) assms Cons.prems(2,3) _ _ Cons.prems(5)]
  have "length (filter (always_sets impl ad x) is) \<le> (if taken (owner_view (rs_owners s2) (cid, x)) then 0 else 1)"
    using Cons.IH [OF b(2) c] step Cons.prems(4) by simp
  then show ?case using step Cons.prems(4) by (auto split: if_splits)
qed

text \<open>
  C4. Two plugins cannot both have one setting. If two connected plugins that subscribed to creation
  both set the same setting, other than the OCI hooks, whatever the request, and no connected plugin ever clears it, then no
  creation succeeds: the adaptation returns an error for every container, validators or not.
\<close>

theorem two_setters_never_create:
  assumes "i \<in> set (ad_plugins ad)" and "j \<in> set (ad_plugins ad)" and "i \<noteq> j"
    and "always_sets impl ad x i" and "always_sets impl ad x j" and "x \<noteq> SimpleSlot Field_OciHooks"
    and "\<forall>k \<in> set (ad_plugins ad). unmarked (plugin_qname (ad_table ad k)) \<and> never_clears impl x k"
  shows "fst (CreateContainer impl vimpl ord vord req ad) \<noteq> Returned rpl"
proof
  assume "fst (CreateContainer impl vimpl ord vord req ad) = Returned rpl"
  then obtain s0 v0 ad' s v where s0: "collectCreateContainerResult req = Some s0"
    and r: "for_each (ad_plugins ad) (create_body impl ord req) ((ad, s0), v0) = (Done, ((ad', s), v))"
    by (auto simp: CreateContainer_def Let_def split: option.splits prod.splits status.splits)
  obtain c where c: "cr_container req = Some c"
    using s0 by (auto simp: collectCreateContainerResult_def split: option.splits)
  let ?f = "filter (always_sets impl ad x) (ad_plugins ad)"
  have "length ?f \<le> 1"
    using create_loop_setters [OF assms(6) r only_closes_refl collect_creating(1) [OF s0 c] assms(7)]
    by (simp add: collect_creating(2) [OF s0 c] fresh_view taken_def)
  moreover have "i \<in> set ?f" "j \<in> set ?f" using assms(1,2,4,5) by simp_all
  ultimately show False using assms(3) by (cases ?f; cases "tl ?f") auto
qed

theorem two_setters_never_create_witness:
  "\<exists>impl ad. \<forall>vimpl ord vord req rpl. ad_plugins ad = [0, 1] \<and> fst (CreateContainer impl vimpl ord vord req ad) \<noteq> Returned rpl"
proof -
  let ?x = "SimpleSlot Field_Args"
  let ?r = "\<lparr>crs_adjust = Some (zero_adjustment\<lparr>adj_args := [''sh'']\<rparr>), crs_update = [], crs_evict = []\<rparr>"
  let ?impl = "\<lambda>k q. Inr (Some ?r)"
  let ?p = "\<lparr>pl_idx = ''10'', pl_base = ''a'', pl_events = ValidEvents, pl_closed = False\<rparr>"
  let ?ad = "\<lparr>ad_table = (\<lambda>_. ?p), ad_plugins = [0, 1], ad_validators = []\<rparr>"
  have e: "subscribed 4 ?p" "unmarked (plugin_qname ?p)" by code_simp+
  have "claimed (reply_claims (CreateReply (Some ?r))) ?x = 1" "\<not> cleared (reply_clears (CreateReply (Some ?r))) ?x"
    by code_simp+
  then have "always_sets ?impl ?ad ?x k" "never_clears ?impl ?x k" for k
    using e(1) by (simp_all add: always_sets_def never_clears_def)
  then have "fst (CreateContainer ?impl vimpl ord vord req ?ad) \<noteq> Returned rpl" for vimpl ord vord req rpl
    using e(2) by (intro two_setters_never_create [of 0 _ 1 _ ?x]) simp_all
  moreover have "ad_plugins ?ad = [0, 1]" by simp
  ultimately show ?thesis by blast
qed

end
