(* ===== verification/Exact.thy ===== *)
theory Exact
  imports Exclusive
begin

text \<open>
  Nothing else is refused: when no reply clears anything and none comes with updates, the replies to a
  creation pass exactly when no setting is named twice. \<^verbatim>\<open>Exclusive\<close> has that replies which pass
  name none twice; here every refusal is traced to a setting that is named twice.
\<close>

section \<open>Refusals have a reason\<close>

definition blames ::
    "('s \<Rightarrow> bool) \<Rightarrow> ('s \<Rightarrow> owning_plugins) \<Rightarrow> string \<Rightarrow> string \<Rightarrow> (slot \<Rightarrow> nat) \<Rightarrow> ('e, 's) action \<Rightarrow> bool" where
  "blames I store cid p n a \<longleftrightarrow>
     (unmarked p \<longrightarrow> (\<forall>s e t. I s \<longrightarrow> a s = (Failed e, t) \<longrightarrow>
        (\<exists>x. x \<noteq> SimpleSlot Field_OciHooks \<and> n x \<noteq> 0 \<and> (1 < n x \<or> \<not> may_claim p (owner_view (store s) (cid, x))))))"

text \<open>\<open>exact\<close>: the claims an action makes when it succeeds, and what it fails for.\<close>

definition exact ::
    "('s \<Rightarrow> bool) \<Rightarrow> ('s \<Rightarrow> owning_plugins) \<Rightarrow> string \<Rightarrow> string \<Rightarrow> (slot \<Rightarrow> nat) \<Rightarrow> ('e, 's) action \<Rightarrow> bool" where
  "exact I store cid p n a \<longleftrightarrow> (\<forall>x. claims I store cid x p (n x) a) \<and> blames I store cid p n a"

named_theorems exact_intros \<open>exact claims of actions, by their shape\<close>

lemma exact_quiet:
  assumes "\<And>x. claims I store cid x p 0 a" and "\<And>s e t. a s \<noteq> (Failed e, t)"
  shows "exact I store cid p (\<lambda>x. 0) a"
  using assms by (simp add: exact_def blames_def)

lemma exact_skip [exact_intros]: "exact I store cid p (\<lambda>x. 0) (\<lambda>s. (Done, s))"
  by (rule exact_quiet) (simp_all add: claims_skip)

lemma exact_Nil [exact_intros]: "exact I store cid p (\<lambda>x. 0) (run [])"
  by (rule exact_quiet) (simp_all add: claims_Nil)

lemma exact_Cons [exact_intros]:
  assumes a: "exact I store cid p n a" and as: "exact I store cid p m (run as)"
  shows "exact I store cid p (\<lambda>x. n x + m x) (run (a # as))"
  unfolding exact_def
proof
  show "\<forall>x. claims I store cid x p (n x + m x) (run (a # as))"
    using a as unfolding exact_def by (blast intro: claims_Cons)
  show "blames I store cid p (\<lambda>x. n x + m x) (run (a # as))"
    unfolding blames_def
  proof (intro impI allI)
    fix s e u
    assume p: "unmarked p" and s: "I s" "run (a # as) s = (Failed e, u)"
    let ?v = "\<lambda>s x. owner_view (store s) (cid, x)"
    show "\<exists>x. x \<noteq> SimpleSlot Field_OciHooks \<and> n x + m x \<noteq> 0 \<and> (1 < n x + m x \<or> \<not> may_claim p (?v s x))"
    proof (cases "a s")
      case (Pair st t)
      show ?thesis
      proof (cases st)
        case (Failed e')
        then obtain x where "x \<noteq> SimpleSlot Field_OciHooks" "n x \<noteq> 0" "1 < n x \<or> \<not> may_claim p (?v s x)"
          using a p s(1) Pair unfolding exact_def blames_def by blast
        then show ?thesis by (intro exI [of _ x]) auto
      next
        case Panicked
        then show ?thesis using s(2) Pair by simp
      next
        case Done
        then have r: "run as t = (Failed e, u)" using s(2) Pair by simp
        have e: "I t" "x \<noteq> SimpleSlot Field_OciHooks \<Longrightarrow> slot_effect (n x) p (?v s x) (?v t x)" for x
          using a p s(1) Pair Done unfolding exact_def claims_def
          by (metis field.distinct(1) slot.inject(1), blast)
        then obtain x where "x \<noteq> SimpleSlot Field_OciHooks" "m x \<noteq> 0" "1 < m x \<or> \<not> may_claim p (?v t x)"
          using as p r unfolding exact_def blames_def by blast
        then show ?thesis using e(2) [of x] by (intro exI [of _ x]) (auto simp: slot_effect_def)
      qed
    qed
  qed
qed

lemma exact_for_each [exact_intros]:
  assumes "\<And>y. y \<in> set ys \<Longrightarrow> exact I store cid p (n y) (body y)"
  shows "exact I store cid p (\<lambda>x. sum_list (map (\<lambda>y. n y x) ys)) (for_each ys body)"
  using assms
proof (induction ys)
  case Nil
  then show ?case by (simp add: exact_skip)
next
  case (Cons y ys)
  have "exact I store cid p (\<lambda>x. n y x + sum_list (map (\<lambda>y. n y x) ys)) (run (body y # map body ys))"
    using Cons unfolding for_each_def by (intro exact_Cons) simp_all
  then show ?case by (simp add: for_each_def del: run.simps)
qed

lemma exact_if [exact_intros]:
  "(b \<Longrightarrow> exact I store cid p n a) \<Longrightarrow> (\<not> b \<Longrightarrow> exact I store cid p m c) \<Longrightarrow>
     exact I store cid p (\<lambda>x. if b then n x else m x) (if b then a else c)"
  by simp

lemma exact_case_option [exact_intros]:
  "(v = None \<Longrightarrow> exact I store cid p n a) \<Longrightarrow> (\<And>y. v = Some y \<Longrightarrow> exact I store cid p (m y) (b y)) \<Longrightarrow>
     exact I store cid p (\<lambda>x. case v of None \<Rightarrow> n x | Some y \<Rightarrow> m y x) (case v of None \<Rightarrow> a | Some y \<Rightarrow> b y)"
  by (cases v) simp_all

lemma exact_case_prod [exact_intros]:
  "(\<And>y z. v = (y, z) \<Longrightarrow> exact I store cid p (n y z) (a y z)) \<Longrightarrow>
     exact I store cid p (\<lambda>x. case v of (y, z) \<Rightarrow> n y z x) (case v of (y, z) \<Rightarrow> a y z)"
  by (cases v) simp

lemma exact_eq: "exact I store cid p n a \<Longrightarrow> (\<And>x. n x = m x) \<Longrightarrow> exact I store cid p m a"
  by (simp add: exact_def blames_def)

lemma exact_on_part:
  assumes "exact J inner cid p n a" and g: "\<And>s. I s \<Longrightarrow> J (get s) \<and> inner (get s) = store s"
    and "\<And>s q. I s \<Longrightarrow> J q \<Longrightarrow> I (put q s) \<and> store (put q s) = inner q"
  shows "exact I store cid p n (on_part get put a)"
  unfolding exact_def
proof
  show "\<forall>x. claims I store cid x p (n x) (on_part get put a)"
  proof
    fix x
    show "claims I store cid x p (n x) (on_part get put a)"
      by (rule claims_on_part [where J = J and inner = inner]) (use assms in \<open>simp_all add: exact_def\<close>)
  qed
  show "blames I store cid p n (on_part get put a)"
    unfolding blames_def
  proof (intro impI allI)
    fix s e t
    assume p: "unmarked p" and s: "I s" "on_part get put a s = (Failed e, t)"
    then obtain q where "a (get s) = (Failed e, q)" by (auto simp: on_part_def split: prod.splits)
    moreover have b: "blames J inner cid p n a" using assms(1) by (simp add: exact_def)
    ultimately show "\<exists>x. x \<noteq> SimpleSlot Field_OciHooks \<and> n x \<noteq> 0 \<and> (1 < n x \<or> \<not> may_claim p (owner_view (store s) (cid, x)))"
      using p g [OF s(1)] unfolding blames_def by fastforce
  qed
qed

section \<open>Claims\<close>

lemma exact_Claim: "c \<noteq> ClaimHooks \<Longrightarrow> exact (\<lambda>_. True) (\<lambda>op. op) cid p (at_slot c) (OwningPlugins_Claim c cid p)"
proof -
  assume c: "c \<noteq> ClaimHooks"
  have "\<not> may_claim p (owner_view op (cid, claim_slot c))" if "OwningPlugins_Claim c cid p op = (Failed e, op')" for op e op'
    using that ow.claim_Done_iff [of "(cid, claim_slot c)" p op] c by (auto simp: OwningPlugins_Claim_at)
  moreover have "claim_slot c \<noteq> SimpleSlot Field_OciHooks" using c by (cases c) simp_all
  ultimately show ?thesis
    unfolding exact_def blames_def using claims_Claim by (auto simp: at_slot_def intro!: exI [of _ "claim_slot c"])
qed

abbreviation exact_r :: "string \<Rightarrow> string \<Rightarrow> (slot \<Rightarrow> nat) \<Rightarrow> (nri_error, result) action \<Rightarrow> bool" where
  "exact_r cid \<equiv> exact (creating cid) rs_owners cid"

abbreviation exact_t :: "string \<Rightarrow> string \<Rightarrow> (slot \<Rightarrow> nat) \<Rightarrow> (nri_error, owning_plugins \<times> 'x) action \<Rightarrow> bool" where
  "exact_t cid \<equiv> exact (\<lambda>_. True) fst cid"

lemma exact_claim_r [exact_intros]: "c \<noteq> ClaimHooks \<Longrightarrow> exact_r cid p (at_slot c) (claim_r c cid p)"
  unfolding claim_r_def by (rule exact_on_part [OF exact_Claim]) simp_all

lemma exact_claim_t: "c \<noteq> ClaimHooks \<Longrightarrow> exact_t cid p (at_slot c) (claim_t c cid p)"
  unfolding claim_t_def by (rule exact_on_part [OF exact_Claim]) (simp_all split: prod.split)

text \<open>Steps that cannot fail.\<close>

definition no_error :: "('e, 's) action \<Rightarrow> bool" where
  "no_error a \<longleftrightarrow> (\<forall>s e t. a s \<noteq> (Failed e, t))"

lemma no_error_assign [simp]: "no_error (\<lambda>s. (Done, f s))"
  by (simp add: no_error_def)

lemma no_error_on_ptr [simp]: "no_error a \<Longrightarrow> no_error (on_ptr get put a)"
  by (auto simp: no_error_def on_ptr_def split: option.split prod.split)

lemma no_error_on_part [simp]: "no_error a \<Longrightarrow> no_error (on_part get put a)"
  by (auto simp: no_error_def on_part_def split: prod.split)

lemma no_error_put [simp]: "no_error (gmap_put k v)"
  by (auto simp: no_error_def gmap_put_def split: option.split)

lemma no_error_run [simp]: "no_error a \<Longrightarrow> no_error (run as) \<Longrightarrow> no_error (run (a # as))"
  by (auto simp: no_error_def split: prod.split status.split)

lemma no_error_Nil [simp]: "no_error (run [])"
  by (simp add: no_error_def)

lemma no_error_ons [simp]:
  "no_error a \<Longrightarrow> no_error (on_container a)" "no_error b \<Longrightarrow> no_error (on_container_linux b)"
  "no_error c \<Longrightarrow> no_error (on_adjust c)" "no_error d \<Longrightarrow> no_error (on_adjust_linux d)"
  by (simp_all add: on_container_def on_container_linux_def on_adjust_def on_adjust_linux_def)

lemma exact_no_error: "no_error a \<Longrightarrow> (\<And>x. claims I store cid x p 0 a) \<Longrightarrow> exact I store cid p (\<lambda>x. 0) a"
  by (rule exact_quiet) (simp_all add: no_error_def)

lemma exact_on_container: "no_error a \<Longrightarrow> (\<And>c. ctr_id (snd (a c)) = ctr_id c) \<Longrightarrow> exact_r cid p (\<lambda>x. 0) (on_container a)"
  by (rule exact_no_error) (simp_all add: claims_on_container)

lemma exact_ons [exact_intros]:
  "no_error b \<Longrightarrow> exact_r cid p (\<lambda>x. 0) (on_container_linux b)" "no_error c \<Longrightarrow> exact_r cid p (\<lambda>x. 0) (on_adjust c)"
  "no_error d \<Longrightarrow> exact_r cid p (\<lambda>x. 0) (on_adjust_linux d)"
  by (rule exact_no_error; simp add: claims_intros)+

lemma exact_puts [exact_intros]:
  "exact_r cid p (\<lambda>x. 0) (put_reply_annotation k v)" "exact_r cid p (\<lambda>x. 0) (put_container_net_device k w)"
  "exact_r cid p (\<lambda>x. 0) (put_reply_net_device k w)" "exact_r cid p (\<lambda>x. 0) (put_container_sysctl k v)"
  "exact_r cid p (\<lambda>x. 0) (put_reply_sysctl k v)" "exact_r cid p (\<lambda>x. 0) (put_container_annotation k v)"
  unfolding put_container_annotation_def put_reply_annotation_def put_container_net_device_def
    put_reply_net_device_def put_container_sysctl_def put_reply_sysctl_def
  by (rule exact_intros exact_on_container; simp add: on_part_def split_def | simp)+

lemma exact_with_id [exact_intros]: "exact_r cid p n (body cid) \<Longrightarrow> exact_r cid p n (with_id body)"
  unfolding exact_def by (auto intro: claims_with_id simp: blames_def with_id_def creating_def split: option.splits)

lemma exact_with_adjust [exact_intros]: "(\<And>a. exact_r cid p n (body a)) \<Longrightarrow> exact_r cid p n (with_adjust body)"
  unfolding exact_def by (auto intro: claims_with_adjust simp: blames_def with_adjust_def split: option.splits)

lemma exact_with_adjust_linux [exact_intros]:
  assumes "\<And>l. exact_r cid p n (body l)"
  shows "exact_r cid p n (with_adjust_linux body)"
  unfolding with_adjust_linux_def
proof (rule exact_with_adjust)
  fix a
  show "exact_r cid p n (\<lambda>s. case adj_linux a of None \<Rightarrow> (Panicked, s) | Some l \<Rightarrow> body l s)"
    using assms by (cases "adj_linux a") (simp_all add: exact_def claims_def blames_def)
qed

lemma exact_for_none:
  assumes "\<And>y. y \<in> set ys \<Longrightarrow> exact I store cid p (\<lambda>x. 0) (body y)"
  shows "exact I store cid p (\<lambda>x. 0) (for_each ys body)"
  by (rule exact_eq, rule exact_for_each, erule assms, simp)

section \<open>The adjust methods\<close>

text \<open>Without removals a map is adjusted by its stores alone.\<close>

lemma store_entries_unmarked:
  "store_entries remove put es [] s = (case for_each es (\<lambda>(k, v). put k v) s of (st, t) \<Rightarrow> (st, [], t))"
proof (induction es arbitrary: s)
  case Nil
  then show ?case by simp
next
  case (Cons e es)
  then show ?case by (cases e) (auto simp: for_each_Cons split: prod.split status.split)
qed

lemma adjust_map_unmarked:
  assumes "fst (split_marked es) = []"
  shows "adjust_map ord remove put leave es =
    run [for_each (snd (split_marked es)) (\<lambda>(k, v). put k v), for_each (ord []) leave]"
proof
  fix s
  obtain rest where "split_marked es = ([], rest)" using assms by (metis prod.collapse)
  then show "adjust_map ord remove put leave es s =
      run [for_each (snd (split_marked es)) (\<lambda>(k, v). put k v), for_each (ord []) leave] s"
    by (auto simp: adjust_map_def store_entries_unmarked split: prod.split status.split)
qed

lemma map_clears_Nil: "map_clears f m = [] \<longleftrightarrow> fst (split_marked (gmap_entries m)) = []"
  by (simp add: map_clears_def)

lemma list_clears_Nil: "list_clears f check xs = [] \<longleftrightarrow> removed_keys check xs = {}"
  by (auto simp: list_clears_def removed_keys_def filter_empty_conv)

lemma exact_map_method:
  assumes "\<And>k v. exact_r cid p (\<lambda>x. 0) (put k v)" "\<And>k v. exact_r cid p (\<lambda>x. 0) (note k v)"
    "\<And>k. exact_r cid p (\<lambda>x. 0) (leave k)" and "map_clears clr m = []" and "\<And>k. cl k \<noteq> ClaimHooks"
  shows "exact_r cid p (\<lambda>x. claimed (map_claims cl m) x)
    (if gmap_entries m = [] then (\<lambda>s. (Done, s)) else with_id (\<lambda>cid. adjust_map ord (remove cid)
        (\<lambda>k v. run [claim_r (cl k) cid p, put k v, note k v]) leave (gmap_entries m)))"
proof -
  have tail: "exact_r cid p (\<lambda>x. 0) (for_each (ord []) leave)" by (rule exact_for_none) (rule assms(3))
  show ?thesis
    unfolding adjust_map_unmarked [OF assms(4) [unfolded map_clears_Nil]]
    by (rule exact_eq, (rule tail exact_intros assms)+) (simp add: claimed_map_claims split_def)
qed

lemma exact_adjustAnnotations:
  "map_clears ClearAnnotation m = [] \<Longrightarrow> exact_r cid p (\<lambda>x. claimed (map_claims ClaimAnnotation m) x) (adjustAnnotations ord m p)"
  unfolding adjustAnnotations_def by (rule exact_map_method) (assumption | rule exact_puts | simp)+

lemma exact_adjustSysctl:
  "map_clears ClearSysctl m = [] \<Longrightarrow> exact_r cid p (\<lambda>x. claimed (map_claims ClaimSysctl m) x) (adjustSysctl ord m p)"
  unfolding adjustSysctl_def by (rule exact_map_method) (assumption | rule exact_puts | simp)+

lemma exact_adjustLinuxNetDevices:
  "map_clears ClearLinuxNetDevice m = [] \<Longrightarrow>
     exact_r cid p (\<lambda>x. claimed (map_claims ClaimLinuxNetDevice m) x) (adjustLinuxNetDevices ord m p)"
  unfolding adjustLinuxNetDevices_def by (rule exact_map_method) (assumption | rule exact_puts | simp)+

lemma exact_clear_loop:
  assumes "removed_keys check xs = {}"
  shows "exact_r cid p (\<lambda>x. 0) (for_each ys (\<lambda>y. if has_key (removals check xs) (key y) then clear_r (clr (key y)) cid p else (\<lambda>s. (Done, s))))"
  using assms by (simp add: exact_for_none exact_skip)

lemma exact_add_loop:
  assumes "\<And>y. exact_r cid p (\<lambda>x. 0) (note y)" and "\<And>y. cl (key y) \<noteq> ClaimHooks"
  shows "exact_r cid p (\<lambda>x. claimed (map (\<lambda>y. cl (key y)) ys) x) (for_each ys (\<lambda>y. run [claim_r (cl (key y)) cid p, note y]))"
  by (rule exact_eq, (rule exact_intros assms)+) (simp add: claimed_map)

lemmas exact_list_steps = exact_if exact_skip exact_with_id exact_Cons exact_Nil exact_with_adjust exact_with_adjust_linux
  exact_clear_loop exact_ons exact_on_container exact_add_loop

lemma exact_adjustMounts:
  assumes "removed_keys Mount_IsMarkedForRemoval ms = {}"
  shows "exact_r cid p (\<lambda>x. claimed (map (\<lambda>m. ClaimMount (mnt_destination m)) (additions Mount_IsMarkedForRemoval ms)) x)
    (adjustMounts ord ms p)"
proof -
  have tail: "exact_r cid p (\<lambda>x. 0) (for_each (range_in ord del) (\<lambda>(_, m).
      if \<not> has_key mods (ClearRemovalMarker (mnt_destination m))
      then on_adjust (assign (\<lambda>a. a\<lparr>adj_mounts := adj_mounts a @ [m]\<rparr>)) else (\<lambda>s. (Done, s))))"
    for del :: "(string, mount) gomap" and mods :: "(string, mount) gomap"
    by (rule exact_for_none) (auto simp: exact_skip exact_ons)
  show ?thesis
    unfolding adjustMounts_def split_removals_parts Let_def prod.case
    by (rule exact_eq, (rule exact_list_steps tail assms | simp; fail)+)
qed

lemma exact_adjustDevices:
  assumes "removed_keys LinuxDevice_IsMarkedForRemoval ds = {}"
  shows "exact_r cid p (\<lambda>x. claimed (map (\<lambda>d. ClaimDevice (dev_path d)) (additions LinuxDevice_IsMarkedForRemoval ds)) x)
    (adjustDevices ds p)"
  unfolding adjustDevices_def split_removals_parts Let_def prod.case
  by (rule exact_eq, (rule exact_list_steps assms | simp; fail)+)

lemma exact_adjustEnv:
  assumes "removed_keys KeyValue_IsMarkedForRemoval es = {}"
  shows "exact_r cid p (\<lambda>x. claimed (map (\<lambda>e. ClaimEnv (kv_key e)) (additions KeyValue_IsMarkedForRemoval es)) x)
    (adjustEnv es p)"
proof -
  have tail: "exact_r cid p (\<lambda>x. 0) (for_each ys (\<lambda>e. on_container (assign (\<lambda>c. c\<lparr>ctr_env := ctr_env c @ [KeyValue_ToOCI e]\<rparr>))))"
    for ys by (rule exact_for_none) (simp add: exact_on_container)
  show ?thesis
    unfolding adjustEnv_def split_removals_parts Let_def prod.case
    by (rule exact_eq, (rule exact_list_steps tail assms | simp; fail)+)
qed

lemmas exact_steps = exact_intros exact_on_container

lemma exact_adjustArgs:
  assumes "args \<noteq> [] \<Longrightarrow> hd args \<noteq> []"
  shows "exact_r cid p (\<lambda>x. claimed (if args = [] then [] else [ClaimArgs]) x) (adjustArgs args p)"
proof (cases "args = []")
  case True
  then show ?thesis by (simp add: adjustArgs_def exact_skip)
next
  case False
  have "exact_r cid p (at_slot ClaimArgs) (adjustArgs args p)"
    unfolding adjustArgs_def Let_def if_not_P [OF False] if_not_P [OF assms [OF False]]
    by (rule exact_eq, (rule exact_steps | simp; fail)+)
  then show ?thesis using False by (rule_tac exact_eq) simp_all
qed

lemma exact_adjust_values:
  "exact_r cid p (\<lambda>x. claimed (set_claim (nonempty path) ClaimCgroupsPath) x) (adjustCgroupsPath path p)"
  "exact_r cid p (\<lambda>x. claimed (set_claim oom ClaimOomScoreAdj) x) (adjustOomScoreAdj oom p)"
  "exact_r cid p (\<lambda>x. claimed (set_claim prio ClaimIOPriority) x) (adjustIOPriority prio p)"
  "exact_r cid p (\<lambda>x. claimed (set_claim sec ClaimSeccompPolicy) x) (adjustSeccompPolicy sec p)"
  "exact_r cid p (\<lambda>x. claimed (set_claim sch ClaimLinuxScheduler) x) (adjustLinuxScheduler sch p)"
  unfolding adjustCgroupsPath_def adjustOomScoreAdj_def adjustIOPriority_def adjustSeccompPolicy_def adjustLinuxScheduler_def
  by (rule exact_eq, (rule exact_steps | simp; fail)+, simp add: set_claim_def nonempty_def split: option.split)+

lemma exact_adjustRlimits:
  "exact_r cid p (\<lambda>x. claimed (map (\<lambda>l. ClaimRlimit (rl_type l)) ls) x) (adjustRlimits ls p)"
  unfolding adjustRlimits_def by (rule exact_eq, (rule exact_steps | simp; fail)+) (simp add: claimed_map)

lemma exact_adjustCDIDevices:
  "exact_r cid p (\<lambda>x. claimed (map (\<lambda>d. ClaimCdiDevice (cdi_name d)) ds) x) (adjustCDIDevices ds p)"
  unfolding adjustCDIDevices_def by (rule exact_eq, (rule exact_steps | simp; fail)+) (simp add: claimed_map)

lemma no_error_claim_hooks: "no_error (claim_r ClaimHooks cid p)"
  by (auto simp: no_error_def claim_r_def on_part_def OwningPlugins_Claim_def split_def Let_def ClaimHooks_slots(1))

lemma exact_adjustHooks: "exact_r cid p (\<lambda>x. 0) (adjustHooks h p)"
proof (rule exact_no_error)
  have id: "no_error (with_id body)" if "\<And>i. no_error (body i)" for body
    using that by (auto simp: no_error_def with_id_def split: option.split)
  have add: "no_error (add_hooks get upd hk)" for get upd hk
    unfolding add_hooks_def by (simp del: run.simps)
  have guard: "no_error (\<lambda>s. case rq_create (rs_request s) of None \<Rightarrow> (Panicked, s) | Some _ \<Rightarrow> act s)" if "no_error act" for act
    using that by (auto simp: no_error_def split: option.split)
  show "no_error (adjustHooks h p)"
  proof (cases h)
    case (Some hk)
    show ?thesis unfolding adjustHooks_def Some option.case
      by (rule guard) (simp add: add id no_error_claim_hooks del: run.simps)
  qed (simp add: adjustHooks_def)
qed (rule claims_adjustHooks)

section \<open>Resources\<close>

lemma exact_adjust_field:
  assumes "c \<noteq> ClaimHooks"
  shows "exact_t cid p (\<lambda>x. claimed (set_claim v c) x) (adjust_field v c upd cid p)"
proof -
  have a: "exact_t cid p (at_slot c) (on_part fst (\<lambda>o' (_, t). (o', t)) (OwningPlugins_Claim c cid p))"
    by (rule exact_on_part [OF exact_Claim [OF assms]]) (simp_all split: prod.split)
  have b: "exact_t cid p (\<lambda>x. 0) (\<lambda>(o', targetContainer, targetReply).
      case targetContainer of
        None \<Rightarrow> (Panicked, (o', None, targetReply))
      | Some m \<Rightarrow> (Done, (o', Some (upd y m), map_option (upd y) targetReply)))" for y
    by (rule exact_quiet, rule claims_frame) (auto split: option.splits)
  show ?thesis unfolding adjust_field_def
    by (rule exact_eq, (rule exact_intros a b)+) (simp add: set_claim_def split: option.split)
qed

lemma exact_adjustMemoryResource:
  "exact_t cid p (\<lambda>x. claimed (case m of None \<Rightarrow> [] | Some m \<Rightarrow> memory_claims m) x) (adjustMemoryResource m cid p)"
  unfolding adjustMemoryResource_def memory_claims_def
  by (rule exact_eq, (rule exact_intros exact_adjust_field | simp; fail)+) (simp split: option.split)

lemma exact_adjustCPUResource:
  "exact_t cid p (\<lambda>x. claimed (case m of None \<Rightarrow> [] | Some m \<Rightarrow> cpu_claims m) x) (adjustCPUResource m cid p)"
  unfolding adjustCPUResource_def cpu_claims_def
  by (rule exact_eq, (rule exact_intros exact_adjust_field | simp; fail)+) (simp split: option.split)

lemma exact_on_both: "no_error a \<Longrightarrow> exact_t cid p (\<lambda>x. 0) (on_both a)"
  unfolding on_both_def by (rule exact_no_error) (simp_all add: claims_on_both [unfolded on_both_def] del: run.simps)

lemma no_error_put_unified [simp]: "no_error (put_unified k v)"
  by (simp add: put_unified_def)

lemma exact_resource_targets:
  "exact_t cid p (\<lambda>x. claimed (resource_claims r) x) (adjust_resource_targets r cid p)"
  unfolding adjust_resource_targets_def resource_claims_def
  by (rule exact_eq, (rule exact_intros exact_claim_t exact_on_both
      exact_on_part [OF exact_adjustMemoryResource] exact_on_part [OF exact_adjustCPUResource]
      | (simp split: prod.split; fail))+)
    (simp add: claimed_eqs split_def split: option.split)

lemma exact_adjustResources:
  "exact_r cid p (\<lambda>x. claimed (case r of None \<Rightarrow> [] | Some r \<Rightarrow> resource_claims r) x) (adjustResources r p)"
proof (cases r)
  case None
  then show ?thesis by (simp add: adjustResources_def exact_skip)
next
  case (Some res)
  have t: "blames (\<lambda>_. True) fst cid p (\<lambda>x. claimed (resource_claims res) x)
      (adjust_resource_targets res cid p :: (nri_error, resource_targets) action)"
    using exact_resource_targets unfolding exact_def by blast
  have "blames (creating cid) rs_owners cid p (\<lambda>x. claimed (resource_claims res) x) (adjustResources r p)"
    unfolding blames_def
  proof (intro impI allI)
    fix s e u
    assume p: "unmarked p" and s: "creating cid s" "adjustResources r p s = (Failed e, u)"
    then obtain c q w where w: "adjust_resource_targets res cid p (rs_owners s, c, q) = (Failed e, w)"
      by (auto simp: adjustResources_def Some with_id_def creating_def split: option.splits prod.splits)
    from t [unfolded blames_def, rule_format, OF p TrueI w]
    show "\<exists>x. x \<noteq> SimpleSlot Field_OciHooks \<and> claimed (resource_claims res) x \<noteq> 0 \<and>
        (1 < claimed (resource_claims res) x \<or> \<not> may_claim p (owner_view (rs_owners s) (cid, x)))"
      by simp
  qed
  then show ?thesis using claims_adjustResources [of cid _ p r] by (simp add: exact_def Some)
qed

section \<open>RDT and namespaces\<close>

lemma exact_adjustRdt:
  assumes "\<And>d. rdt = Some d \<Longrightarrow> \<not> rdt_remove d"
  shows "exact_r cid p (\<lambda>x. claimed (case rdt of None \<Rightarrow> [] | Some d \<Rightarrow> rdt_claims d) x) (adjustRdt rdt p)"
proof -
  have init: "exact_r cid p (\<lambda>x. 0) (assign initAdjustRdt)"
    by (rule exact_no_error, simp, rule claims_frame) (simp add: initAdjustRdt_frame)
  have remove: "exact_r cid p (\<lambda>x. 0) (if (case rdt of None \<Rightarrow> False | Some d \<Rightarrow> rdt_remove d) then run
        [clear_r ClearRdt cid p, on_adjust_linux (assign (\<lambda>l. l\<lparr>la_rdt := Some (zero_rdt\<lparr>rdt_remove := True\<rparr>)\<rparr>))]
      else (\<lambda>s. (Done, s)))"
    using assms by (cases rdt) (simp_all add: exact_skip)
  show ?thesis unfolding adjustRdt_def adjust_rdt_fields_def set_reply_rdt_def rdt_claims_def
    by (rule exact_eq, (rule init remove exact_intros | simp; fail)+)
      (simp add: claimed_eqs split: option.split)
qed

lemma exact_namespaces:
  "exact_r cid p (\<lambda>x. claimed (concat (map namespace_claim ns)) x) (for_each ns (namespace_round cid p))"
  unfolding namespace_round_def
  by (rule exact_eq, (rule exact_intros | simp; fail)+)
    (simp add: claimed_concat claimed_case_option namespace_claim_def cong: option.case_cong)

lemma exact_adjustNamespaces:
  "exact_r cid p (\<lambda>x. claimed (concat (map namespace_claim ns)) x) (adjustNamespaces ord ns p)"
proof -
  have "blames (creating cid) rs_owners cid p (\<lambda>x. claimed (concat (map namespace_claim ns)) x) (adjustNamespaces ord ns p)"
    unfolding blames_def
  proof (intro impI allI)
    fix s e t
    assume p: "unmarked p" and s: "creating cid s" "adjustNamespaces ord ns p s = (Failed e, t)"
    have quiet: "on_container_linux (assign f) u \<noteq> (Failed e, t)" for f :: "linux_container \<Rightarrow> linux_container" and u
      using no_error_ons(2) [OF no_error_assign [of f]] by (simp add: no_error_def)
    obtain m0 m where r: "namespace_loop cid p ns m0 s = (Failed e, m, t)"
      using s quiet by (auto simp: adjustNamespaces_def with_id_def with_container_linux_def with_container_def
          creating_def Let_def split: option.splits prod.splits status.splits if_splits)
    then have "for_each ns (namespace_round cid p) s = (Failed e, t)"
      using namespace_loop_rounds [of ns cid p s m0] by simp
    then show "\<exists>x. x \<noteq> SimpleSlot Field_OciHooks \<and> claimed (concat (map namespace_claim ns)) x \<noteq> 0 \<and>
        (1 < claimed (concat (map namespace_claim ns)) x \<or> \<not> may_claim p (owner_view (rs_owners s) (cid, x)))"
      using exact_namespaces [of cid p ns] p s(1) unfolding exact_def blames_def by blast
  qed
  then show ?thesis using claims_adjustNamespaces [of cid _ p ns ord] by (simp add: exact_def)
qed

section \<open>A whole reply\<close>

lemma exact_adjust:
  assumes "adjust_clears a = []"
  shows "exact_r cid p (\<lambda>x. claimed (adjust_claims a) x) (adjust ord (Some a) p)"
proof -
  have linux: "exact_r cid p (\<lambda>x. claimed (case adj_linux a of None \<Rightarrow> [] | Some l \<Rightarrow> linux_claims l) x)
     (case adj_linux a of
              None \<Rightarrow> (\<lambda>s. (Done, s))
            | Some l \<Rightarrow> run
                [adjustDevices (la_devices l) p,
                 adjustResources (la_resources l) p,
                 adjustCgroupsPath (la_cgroups_path l) p,
                 adjustOomScoreAdj (la_oom_score_adj l) p,
                 adjustIOPriority (la_io_priority l) p,
                 adjustSeccompPolicy (la_seccomp_policy l) p,
                 adjustNamespaces ord (la_namespaces l) p,
                 adjustSysctl ord (la_sysctl l) p,
                 adjustLinuxNetDevices ord (la_net_devices l) p,
                 adjustLinuxScheduler (la_scheduler l) p,
                 adjustRdt (la_rdt l) p])"
  proof (cases "adj_linux a")
    case None
    then show ?thesis by (simp add: exact_skip)
  next
    case (Some l)
    then have "linux_clears l = []" using assms by (simp add: adjust_clears_def)
    then have c: "removed_keys LinuxDevice_IsMarkedForRemoval (la_devices l) = {}" "map_clears ClearSysctl (la_sysctl l) = []"
      "map_clears ClearLinuxNetDevice (la_net_devices l) = []" "\<And>d. la_rdt l = Some d \<Longrightarrow> \<not> rdt_remove d"
      by (auto simp: linux_clears_def list_clears_Nil split: option.splits if_splits)
    show ?thesis unfolding Some option.case linux_claims_def
      by (rule exact_eq, (rule exact_Cons exact_Nil exact_adjustDevices [OF c(1)] exact_adjustResources exact_adjust_values
          exact_adjustNamespaces exact_adjustSysctl [OF c(2)] exact_adjustLinuxNetDevices [OF c(3)] exact_adjustRdt [OF c(4)] | assumption)+)
        simp
  qed
  have c: "map_clears ClearAnnotation (adj_annotations a) = []" "removed_keys Mount_IsMarkedForRemoval (adj_mounts a) = {}"
    "removed_keys KeyValue_IsMarkedForRemoval (adj_env a) = {}" "adj_args a \<noteq> [] \<Longrightarrow> hd (adj_args a) \<noteq> []"
    using assms by (auto simp: adjust_clears_def list_clears_Nil split: if_splits)
  show ?thesis unfolding adjust_def option.case adjust_claims_def
    by (rule exact_eq, (rule exact_Cons exact_Nil exact_adjustAnnotations [OF c(1)] exact_adjustMounts [OF c(2)]
        exact_adjustEnv [OF c(3)] exact_adjustArgs [OF c(4)] exact_adjustHooks linux exact_adjustRlimits exact_adjustCDIDevices | assumption)+)
      simp
qed

section \<open>All replies to one request\<close>

text \<open>A reply to a creation that clears nothing, updates nothing, and sets no sysctl (that would panic).\<close>

definition only_sets :: "response \<Rightarrow> bool" where
  "only_sets r \<longleftrightarrow>
     (case r of
        CreateReply None \<Rightarrow> True
      | CreateReply (Some q) \<Rightarrow> reply_clears r = [] \<and> crs_update q = [] \<and> sets_no_sysctl (crs_adjust q)
      | _ \<Rightarrow> False)"

lemma only_sets_ok: "only_sets r \<Longrightarrow> reply_ok r \<and> \<not> cleared (reply_clears r) x"
  by (auto simp: only_sets_def reply_ok_def reply_clears_def cleared_def split: response.splits option.splits)

lemma exact_apply_reply:
  assumes "only_sets r"
  shows "exact_r cid p (\<lambda>x. claimed (reply_claims r) x) (apply_reply ord r p)"
proof (cases "\<exists>q. r = CreateReply (Some q)")
  case False
  then have "r = CreateReply None" using assms by (auto simp: only_sets_def split: response.splits option.splits)
  then show ?thesis by (simp add: apply_reply_def reply_claims_def exact_skip)
next
  case True
  then obtain q where q: "r = CreateReply (Some q)" by blast
  have u: "result_update (crs_update q) p = (\<lambda>s. (Done, s))"
    using assms by (auto simp: q only_sets_def result_update_def)
  have a: "exact_r cid p (\<lambda>x. claimed (case crs_adjust q of None \<Rightarrow> [] | Some a \<Rightarrow> adjust_claims a) x) (adjust ord (crs_adjust q) p)"
  proof (cases "crs_adjust q")
    case None
    then show ?thesis by (simp add: adjust_def exact_skip)
  next
    case (Some a)
    then have "adjust_clears a = []" using assms by (simp add: q only_sets_def reply_clears_def)
    then show ?thesis using exact_adjust [of a cid p ord] by (simp add: Some)
  qed
  show ?thesis unfolding q apply_reply_def response.case option.case u reply_claims_def
    by (rule exact_eq, (rule exact_Cons exact_skip exact_Nil a)+) simp
qed

lemma blamed_claim_twice:
  assumes "\<forall>(r, p) \<in> set replies. only_sets r \<and> unmarked p"
  shows "creating cid s \<Longrightarrow> apply_all ord replies s = (Failed e, t) \<Longrightarrow>
    \<forall>x. x \<noteq> SimpleSlot Field_OciHooks \<longrightarrow> owner_view (rs_owners s) (cid, x) = None \<or> taken (owner_view (rs_owners s) (cid, x)) \<Longrightarrow>
    \<exists>x. x \<noteq> SimpleSlot Field_OciHooks \<and>
      (if owner_view (rs_owners s) (cid, x) = None then 1 else 0) < sum_list (map (\<lambda>(r, p). claimed (reply_claims r) x) replies)"
  using assms
proof (induction replies arbitrary: s)
  case Nil
  then show ?case by (simp add: apply_all_def)
next
  case (Cons d replies)
  obtain r p where d: "d = (r, p)" by (cases d)
  have p: "only_sets r" "unmarked p" using Cons.prems(4) by (auto simp: d)
  let ?n = "\<lambda>x. claimed (reply_claims r) x" and ?v = "\<lambda>s x. owner_view (rs_owners s) (cid, x)"
  have ex: "exact_r cid p ?n (apply_reply ord r p)" by (rule exact_apply_reply) (rule p(1))
  obtain st u where u: "apply_reply ord r p s = (st, u)" by fastforce
  have all: "run [apply_reply ord r p, apply_all ord replies] s = (Failed e, t)"
    using Cons.prems(2) by (simp add: apply_all_def d for_each_Cons del: run.simps)
  show ?case
  proof (cases st)
    case Panicked
    then show ?thesis using all u by simp
  next
    case (Failed e')
    have "blames (creating cid) rs_owners cid p ?n (apply_reply ord r p)" using ex by (simp add: exact_def)
    then obtain x where x: "x \<noteq> SimpleSlot Field_OciHooks" "?n x \<noteq> 0" "1 < ?n x \<or> \<not> may_claim p (?v s x)"
      using p(2) Cons.prems(1) u Failed unfolding blames_def by blast
    then show ?thesis by (intro exI [of _ x]) (auto simp: d may_claim_def)
  next
    case Done
    have 1: "creating cid u" "x \<noteq> SimpleSlot Field_OciHooks \<Longrightarrow> slot_effect (?n x) p (?v s x) (?v u x)" for x
      using ex p(2) Cons.prems(1) u Done unfolding exact_def claims_def by (blast intro: slot.distinct)+
    have eff: "x \<noteq> SimpleSlot Field_OciHooks \<Longrightarrow> ?v u x = None \<or> taken (?v u x)" for x
      using effect_taken(3) [OF 1(2) p(2)] Cons.prems(3) by blast
    have "apply_all ord replies u = (Failed e, t)" using all u Done by (auto split: prod.splits status.splits)
    then obtain x where x: "x \<noteq> SimpleSlot Field_OciHooks"
      "(if ?v u x = None then 1 else 0) < sum_list (map (\<lambda>(r, p). claimed (reply_claims r) x) replies)"
      using Cons.IH [OF 1(1)] eff Cons.prems(4) by auto
    then show ?thesis using 1(2) [OF x(1)]
      by (intro exI [of _ x]) (auto simp: d slot_effect_def split: if_splits)
  qed
qed

lemma distinct_iff_count: "distinct xs \<longleftrightarrow> (\<forall>x. count_list xs x \<le> 1)"
proof (induction xs)
  case Nil
  then show ?case by simp
next
  case (Cons y ys)
  have "y \<notin> set ys \<longleftrightarrow> count_list ys y = 0" by (simp add: count_list_0_iff)
  then show ?case using Cons by (auto simp: le_Suc_eq split: if_splits)
qed

lemma count_concat: "count_list (concat (map f ys)) x = sum_list (map (\<lambda>y. count_list (f y) x) ys)"
  by (induction ys) simp_all

text \<open>The hooks are not among the claims listed.\<close>

definition plain_claims :: "claim list \<Rightarrow> bool" where
  "plain_claims cs \<longleftrightarrow> (\<forall>c \<in> set cs. c \<noteq> ClaimHooks)"

lemma plain_parts [simp]:
  "plain_claims []" "plain_claims (cs @ ds) \<longleftrightarrow> plain_claims cs \<and> plain_claims ds"
  "c \<noteq> ClaimHooks \<Longrightarrow> plain_claims (set_claim v c)" "(\<And>k. f k \<noteq> ClaimHooks) \<Longrightarrow> plain_claims (map_claims f m)"
  "plain_claims [c] \<longleftrightarrow> c \<noteq> ClaimHooks"
  by (auto simp: plain_claims_def set_claim_def map_claims_def split: option.split)

lemma plain_map [simp]: "(\<And>y. f y \<noteq> ClaimHooks) \<Longrightarrow> plain_claims (map f ys)"
  by (auto simp: plain_claims_def)

lemma plain_namespaces [simp]: "plain_claims (concat (map namespace_claim ns))"
  by (auto simp: plain_claims_def namespace_claim_def split: option.splits)

lemma plain_resources: "plain_claims (resource_claims r)"
  by (auto simp: resource_claims_def memory_claims_def cpu_claims_def split: option.split prod.split)

lemma plain_adjust: "plain_claims (adjust_claims a)"
  by (auto simp: adjust_claims_def linux_claims_def rdt_claims_def plain_resources split: option.split)

lemma reply_claims_plain: "claimed (reply_claims r) (SimpleSlot Field_OciHooks) = 0"
proof -
  have "plain_claims (reply_claims r)" by (simp add: reply_claims_def plain_adjust split: response.split option.split)
  moreover have "c \<noteq> ClaimHooks \<Longrightarrow> claim_slot c \<noteq> SimpleSlot Field_OciHooks" for c by (cases c) simp_all
  ultimately show ?thesis unfolding claimed_def plain_claims_def count_list_0_iff by force
qed

text \<open>
  C2. Conflict detection is exact. Take replies to a creation that set what they like, hooks and
  maps included, except sysctls, but clear nothing and update no other container. The adaptation accepts
  them, whatever their number and order, if and only if no setting other than the hooks is named twice: every
  refusal is of a setting that is named twice, by two plugins or by one.
\<close>

theorem creation_passes_iff_disjoint:
  assumes "collectCreateContainerResult req = Some s0" and "cr_container req = Some c"
    and "\<forall>(r, p) \<in> set replies. only_sets r \<and> unmarked p"
  shows "fst (apply_all ord replies s0) = Done \<longleftrightarrow>
    distinct (concat (map (\<lambda>(r, p). map claim_slot (reply_claims r)) replies))"
proof -
  let ?n = "\<lambda>x. sum_list (map (\<lambda>(r, p). claimed (reply_claims r) x) replies)"
  obtain st t where r: "apply_all ord replies s0 = (st, t)" by fastforce
  have n: "count_list (concat (map (\<lambda>(r, p). map claim_slot (reply_claims r)) replies)) x = ?n x" for x
    unfolding count_concat by (simp add: claimed_def split_def)
  have hooks: "?n (SimpleSlot Field_OciHooks) = 0" by (auto simp: reply_claims_plain)
  note start = collect_creating [OF assms(1,2)]
  have cl: "\<forall>(r, p) \<in> set replies. unmarked p \<and> \<not> cleared (reply_clears r) x" for x
    using assms(3) only_sets_ok by blast
  have "safe (create_ok (ctr_id c)) (apply_all ord replies)"
    using assms(3) only_sets_ok by (intro safe_apply_all safe_apply_reply) blast
  from safe_D [OF this create_ok_initial [OF assms(1,2)]] have "st \<noteq> Panicked" by (simp add: r)
  moreover have "\<forall>x. ?n x \<le> 1" if "st = Done"
  proof
    fix x
    show "?n x \<le> 1"
    proof (cases "x = SimpleSlot Field_OciHooks")
      case True
      with hooks show ?thesis by (metis zero_le)
    next
      case False
      from apply_all_claims [OF this start(1) r [unfolded that] cl refl]
      show ?thesis by (simp add: start(2) fresh_view)
    qed
  qed
  moreover have "\<exists>x. 1 < ?n x" if "st = Failed e" for e
    using blamed_claim_twice [OF assms(3) start(1) r [unfolded that]] by (auto simp: start(2) fresh_view)
  ultimately show ?thesis unfolding distinct_iff_count n r by (cases st) (auto simp: not_le)
qed

theorem creation_passes_iff_disjoint_witness:
  "fst (apply_all (\<lambda>ks. ks)
      [(CreateReply (Some \<lparr>crs_adjust = Some (zero_adjustment\<lparr>adj_rlimits := [\<lparr>rl_type = ''RLIMIT_CORE'', rl_hard = 9, rl_soft = 9\<rparr>]\<rparr>),
           crs_update = [], crs_evict = []\<rparr>), ''10-a''),
       (CreateReply (Some \<lparr>crs_adjust = Some (zero_adjustment\<lparr>adj_rlimits := [\<lparr>rl_type = ''RLIMIT_CORE'', rl_hard = 5, rl_soft = 5\<rparr>]\<rparr>),
           crs_update = [], crs_evict = []\<rparr>), ''20-b'')]
      (the (collectCreateContainerResult \<lparr>cr_pod = None, cr_container = Some (zero_container\<lparr>ctr_id := ''c''\<rparr>)\<rparr>))) \<noteq> Done"
proof -
  let ?req = "\<lparr>cr_pod = None, cr_container = Some (zero_container\<lparr>ctr_id := ''c''\<rparr>)\<rparr>"
  let ?rs = "[(CreateReply (Some \<lparr>crs_adjust = Some (zero_adjustment\<lparr>adj_rlimits := [\<lparr>rl_type = ''RLIMIT_CORE'', rl_hard = 9, rl_soft = 9\<rparr>]\<rparr>),
           crs_update = [], crs_evict = []\<rparr>), ''10-a''),
       (CreateReply (Some \<lparr>crs_adjust = Some (zero_adjustment\<lparr>adj_rlimits := [\<lparr>rl_type = ''RLIMIT_CORE'', rl_hard = 5, rl_soft = 5\<rparr>]\<rparr>),
           crs_update = [], crs_evict = []\<rparr>), ''20-b'')]"
  have ok: "\<forall>(r, p) \<in> set ?rs. only_sets r \<and> unmarked p"
    by (auto simp: only_sets_def reply_clears_def adjust_clears_def map_clears_def list_clears_def gmap_entries_def
        zero_defs sets_no_sysctl_def unmarked_def IsMarkedForRemoval_def)
  have d: "\<not> distinct (concat (map (\<lambda>(r, p). map claim_slot (reply_claims r)) ?rs))" by code_simp
  have s0: "collectCreateContainerResult ?req = Some (the (collectCreateContainerResult ?req))"
    by (simp add: collectCreateContainerResult_def)
  from creation_passes_iff_disjoint [OF s0 _ ok] d show ?thesis by simp
qed

end
