(* ===== verification/Decimal.thy ===== *)
theory Decimal
  imports API_Helpers
begin

text \<open>
  Integers as Go prints and reads them: \<^verbatim>\<open>%d\<close> of a natural number, \<^verbatim>\<open>%02d\<close>, and \<^verbatim>\<open>strconv.Atoi\<close> of
  which the callers here ignore the error. An \<^verbatim>\<open>int\<close> has 64 bits.
\<close>

fun print_nat :: "nat \<Rightarrow> string" where
  "print_nat n = (if n < 10 then [char_of (48 + n)] else print_nat (n div 10) @ [char_of (48 + n mod 10)])"

declare print_nat.simps [simp del]

definition print_int :: "int \<Rightarrow> string" where
  "print_int i = (if i < 0 then CHR ''-'' # print_nat (nat (- i)) else print_nat (nat i))"

text \<open>\<^verbatim>\<open>%02d\<close>: zeros go between the sign and the digits.\<close>

definition two_digits :: "int \<Rightarrow> string" where
  "two_digits i = (if 0 \<le> i \<and> i < 10 then CHR ''0'' # print_int i else print_int i)"

definition digits_value :: "string \<Rightarrow> nat" where
  "digits_value s = fold (\<lambda>c n. 10 * n + (of_char c - 48)) s 0"

text \<open>The value that comes with a syntax error is 0, with a range error the nearest \<^verbatim>\<open>int\<close>.\<close>

definition Atoi_value :: "string \<Rightarrow> int" where
  "Atoi_value s =
     (let signed = s \<noteq> [] \<and> hd s \<in> {CHR ''-'', CHR ''+''};
          digits = (if signed then tl s else s);
          n = (if s \<noteq> [] \<and> hd s = CHR ''-'' then - int (digits_value digits) else int (digits_value digits))
      in if digits = [] \<or> \<not> list_all is_digit digits then 0
         else max (- (2 ^ 63)) (min (2 ^ 63 - 1) n))"

lemma print_nat_not_Nil [simp]: "print_nat n \<noteq> []"
  by (subst print_nat.simps) simp

lemma of_digit [simp]: "d < 10 \<Longrightarrow> (of_char (char_of (48 + d) :: char) :: nat) = 48 + d"
  by simp

lemma print_nat_digits: "list_all is_digit (print_nat n)"
proof (induction n rule: print_nat.induct)
  case (1 n)
  have d: "is_digit (char_of (48 + n mod 10))" "n < 10 \<Longrightarrow> is_digit (char_of (48 + n))"
    by (simp_all add: is_digit_def)
  show ?case by (subst print_nat.simps) (use 1 d in auto)
qed

lemma digits_value_append [simp]: "digits_value (s @ [c]) = 10 * digits_value s + (of_char c - 48)"
  by (simp add: digits_value_def)

lemma digits_value_print_nat: "digits_value (print_nat n) = n"
proof (induction n rule: print_nat.induct)
  case (1 n)
  show ?case
  proof (cases "n < 10")
    case True
    then show ?thesis by (subst print_nat.simps) (simp add: digits_value_def)
  next
    case False
    then show ?thesis using 1 by (subst print_nat.simps) simp
  qed
qed

lemma digits_value_zero [simp]: "digits_value (CHR ''0'' # s) = digits_value s"
  by (simp add: digits_value_def)

lemma not_sign: "is_digit c \<Longrightarrow> c \<noteq> CHR ''-'' \<and> c \<noteq> CHR ''+''"
  by (auto simp: is_digit_def)

lemma Atoi_value_digits:
  assumes "s \<noteq> []" and "list_all is_digit s" and "int (digits_value s) < 2 ^ 63"
  shows "Atoi_value s = int (digits_value s)"
proof -
  have "hd s \<noteq> CHR ''-'' \<and> hd s \<noteq> CHR ''+''" using assms(1,2) by (cases s) (simp_all add: not_sign)
  then show ?thesis using assms by (simp add: Atoi_value_def Let_def)
qed

text \<open>Reading back what was printed.\<close>

lemma Atoi_value_two_digits:
  assumes "0 \<le> i" and "i < 2 ^ 63"
  shows "Atoi_value (two_digits i) = i"
proof -
  have z: "is_digit CHR ''0''" by (simp add: is_digit_def)
  have v: "digits_value (two_digits i) = nat i"
    using assms(1) by (simp add: two_digits_def print_int_def digits_value_print_nat)
  have "list_all is_digit (two_digits i)" "two_digits i \<noteq> []"
    using assms(1) z print_nat_digits by (auto simp: two_digits_def print_int_def)
  then show ?thesis using Atoi_value_digits [of "two_digits i"] assms v by simp
qed

text \<open>A number below 100 is printed as a valid plugin index.\<close>

lemma two_digits_index:
  assumes "0 \<le> i" and "i < 100"
  shows "CheckPluginIndex (two_digits i) = None"
proof -
  have "length (two_digits i) = 2"
  proof (cases "i < 10")
    case True
    then show ?thesis using assms by (simp add: two_digits_def print_int_def print_nat.simps [of "nat i"])
  next
    case False
    have "nat i div 10 < 10" using assms by linarith
    then have "length (print_nat (nat i)) = 2"
      using False by (simp add: print_nat.simps [of "nat i"] print_nat.simps [of "nat i div 10"])
    then show ?thesis using False assms by (simp add: two_digits_def print_int_def)
  qed
  moreover have "list_all is_digit (two_digits i)"
    using assms(1) print_nat_digits by (auto simp: two_digits_def print_int_def is_digit_def)
  ultimately show ?thesis by (simp add: CheckPluginIndex_None_iff list_all_iff)
qed

end
