(* ===== verification/Runtime_API.thy ===== *)
theory Runtime_API
  imports Startup Stub_Laws Decimal
begin

text \<open>
  The remaining operations at the edges: the events that the runtime notifies plugins of and the shutdown
  (\<^verbatim>\<open>src/pkg/adaptation/adaptation.go\<close>), the timeouts and names of plugins (\<^verbatim>\<open>plugin.go\<close>), the life of a
  stub (\<^verbatim>\<open>src/pkg/stub/stub.go\<close>), and a connection served as a listener (\<^verbatim>\<open>src/pkg/net/conn.go\<close>). The theorem
  follows an event from the runtime's call to the plugin's method.
\<close>

section \<open>Events\<close>

text \<open>The content of the event is that of the call to each plugin, \<open>impl\<close>.\<close>

definition Adaptation_RunPodSandbox :: "(event, unit) impl \<Rightarrow> adaptation \<Rightarrow> unit outcome \<times> adaptation" where
  "Adaptation_RunPodSandbox impl = StateChange impl 1"

definition Adaptation_PostUpdatePodSandbox :: "(event, unit) impl \<Rightarrow> adaptation \<Rightarrow> unit outcome \<times> adaptation" where
  "Adaptation_PostUpdatePodSandbox impl = StateChange impl 13"

definition Adaptation_StopPodSandbox :: "(event, unit) impl \<Rightarrow> adaptation \<Rightarrow> unit outcome \<times> adaptation" where
  "Adaptation_StopPodSandbox impl = StateChange impl 2"

definition Adaptation_RemovePodSandbox :: "(event, unit) impl \<Rightarrow> adaptation \<Rightarrow> unit outcome \<times> adaptation" where
  "Adaptation_RemovePodSandbox impl = StateChange impl 3"

definition Adaptation_PostCreateContainer :: "(event, unit) impl \<Rightarrow> adaptation \<Rightarrow> unit outcome \<times> adaptation" where
  "Adaptation_PostCreateContainer impl = StateChange impl 5"

definition Adaptation_StartContainer :: "(event, unit) impl \<Rightarrow> adaptation \<Rightarrow> unit outcome \<times> adaptation" where
  "Adaptation_StartContainer impl = StateChange impl 6"

definition Adaptation_PostStartContainer :: "(event, unit) impl \<Rightarrow> adaptation \<Rightarrow> unit outcome \<times> adaptation" where
  "Adaptation_PostStartContainer impl = StateChange impl 7"

definition Adaptation_PostUpdateContainer :: "(event, unit) impl \<Rightarrow> adaptation \<Rightarrow> unit outcome \<times> adaptation" where
  "Adaptation_PostUpdateContainer impl = StateChange impl 9"

definition Adaptation_RemoveContainer :: "(event, unit) impl \<Rightarrow> adaptation \<Rightarrow> unit outcome \<times> adaptation" where
  "Adaptation_RemoveContainer impl = StateChange impl 11"

definition updateContainers ::
    "(container_update option list \<Rightarrow> container_update option list \<times> string option) \<Rightarrow>
     container_update option list \<Rightarrow> container_update option list \<times> string option" where
  "updateContainers updateFn req = updateFn req"

text \<open>Whether the listener, if there is one, is open, and the plugins.\<close>

definition stopListener :: "bool option \<Rightarrow> bool option" where
  "stopListener listener = map_option (\<lambda>_. False) listener"

definition Adaptation_Stop :: "bool option \<times> host \<Rightarrow> bool option \<times> host" where
  "Adaptation_Stop lh = (case lh of (listener, h) \<Rightarrow> (stopListener listener, stopPlugins h))"

section \<open>Plugins\<close>

record timeouts =
  to_registration :: int64
  to_request :: int64

definition SetPluginRegistrationTimeout :: "int64 \<Rightarrow> timeouts \<Rightarrow> timeouts" where
  "SetPluginRegistrationTimeout t c = c\<lparr>to_registration := t\<rparr>"

definition SetPluginRequestTimeout :: "int64 \<Rightarrow> timeouts \<Rightarrow> timeouts" where
  "SetPluginRequestTimeout t c = c\<lparr>to_request := t\<rparr>"

text \<open>A plugin's name for messages; \<open>external\<close>: the runtime did not launch it.\<close>

definition qualifiedName :: "pluginType \<Rightarrow> bool \<Rightarrow> int \<Rightarrow> plugin \<Rightarrow> string" where
  "qualifiedName impl external pid p =
     (let (kind, pid_text) =
        (if isBuiltin impl then (''builtin'', [])
         else (let k = (if external then ''external'' else ''pre-connected'') in
               if isWasm impl then (k @ ''-wasm'', []) else (k, ''['' @ print_int pid @ '']'')));
        idx = (if pl_idx p = [] then ''??'' else pl_idx p);
        base = (if pl_base p = [] then ''plugin'' else pl_base p)
      in kind @ '':'' @ idx @ ''-'' @ base @ pid_text)"

section \<open>Stubs\<close>

definition IsStarted :: "('p, 'c) stub \<Rightarrow> bool" where
  "IsStarted s = st_started s"

definition Stub_Name :: "('p, 'c) stub \<Rightarrow> string" where
  "Stub_Name s = st_idx s @ ''-'' @ st_name s"

definition Stub_RegistrationTimeout :: "('p, 'c) stub \<Rightarrow> int64" where
  "Stub_RegistrationTimeout s = st_registrationTimeout s"

definition Stub_RequestTimeout :: "('p, 'c) stub \<Rightarrow> int64" where
  "Stub_RequestTimeout s = st_requestTimeout s"

text \<open>
  \<^verbatim>\<open>Run\<close>: starting, then the error with which the server ends, if it does; none, and the call has not returned.
\<close>

datatype run_error = NotStarted stub_error | StartPanicked | ServerEnded "string option"

definition Stub_Run ::
    "'c start_env \<Rightarrow> string option option \<Rightarrow> ('p, 'c) stub \<Rightarrow> 'p \<Rightarrow> run_error option \<times> ('p, 'c) stub \<times> 'p" where
  "Stub_Run env served s p =
     (case Start env s p of
        ((Failed e, _), s', p') \<Rightarrow> (Some (NotStarted e), s', p')
      | ((Panicked, _), s', p') \<Rightarrow> (Some StartPanicked, s', p')
      | ((Done, _), s', p') \<Rightarrow> (map_option ServerEnded served, s', p'))"

section \<open>A connection as a listener\<close>

text \<open>The channel of the connection to accept holds at most that one.\<close>

record 'c conn_listener =
  cl_next :: "'c list"
  cl_conn :: 'c
  cl_closed :: bool

datatype 'c accepted = Accepted 'c | Waits | EndOfFile

definition NewConnListener :: "'c \<Rightarrow> 'c conn_listener" where
  "NewConnListener conn = \<lparr>cl_next = [conn], cl_conn = conn, cl_closed = False\<rparr>"

definition Accept :: "'c conn_listener \<Rightarrow> 'c accepted \<times> 'c conn_listener" where
  "Accept l =
     (case cl_next l of
        conn # rest \<Rightarrow> (Accepted conn, l\<lparr>cl_next := rest\<rparr>)
      | [] \<Rightarrow> (if cl_closed l then EndOfFile else Waits, l))"

text \<open>The connections closed by the call.\<close>

definition Close :: "'c conn_listener \<Rightarrow> 'c list \<times> 'c conn_listener" where
  "Close l = (if cl_closed l then ([], l) else ([cl_conn l], l\<lparr>cl_closed := True\<rparr>))"

section \<open>From the call to the method\<close>

text \<open>
  Plugins that are connected, each through a stub \<open>s i\<close> of its own and in its own state \<open>q i\<close>: an error of the method
  comes back as the call's.
\<close>

definition through_stubs ::
    "(nat \<Rightarrow> ('p, 'c) stub) \<Rightarrow> pod_sandbox option \<Rightarrow> container option \<Rightarrow> (nat \<Rightarrow> 'p) \<Rightarrow> (event, unit) impl" where
  "through_stubs s pod ctr q i e =
     (case Stub_StateChange \<lparr>sce_event = e, sce_pod = pod, sce_container = ctr\<rparr> (s i) (q i) of
        (Some err, _) \<Rightarrow> Inl (RpcError err) | (None, _) \<Rightarrow> Inr None)"

definition notify_pod :: "'p pod_notice option \<Rightarrow> pod_sandbox option \<Rightarrow> 'p \<Rightarrow> string option" where
  "notify_pod h pod q = (case h of None \<Rightarrow> None | Some f \<Rightarrow> fst (f pod q))"

definition notify_container :: "'p container_notice option \<Rightarrow> pod_sandbox option \<Rightarrow> container option \<Rightarrow> 'p \<Rightarrow> string option" where
  "notify_container h pod ctr q = (case h of None \<Rightarrow> None | Some f \<Rightarrow> fst (f pod ctr q))"

text \<open>
  The plugins that have bit \<open>b\<close> of their mask are told, in order; the first error is the outcome.
\<close>

definition tell_subscribed :: "adaptation \<Rightarrow> nat \<Rightarrow> (nat \<Rightarrow> string option) \<Rightarrow> unit outcome" where
  "tell_subscribed ad b err_of =
     (case List.map_filter err_of (filter (\<lambda>i. bit (pl_events (ad_table ad i)) b) (ad_plugins ad)) of
        [] \<Rightarrow> Returned () | e # _ \<Rightarrow> Error (Rpc (RpcError e)))"

lemma StateChange_tells:
  assumes "e \<noteq> Event_UNKNOWN" and "\<And>m. EventMask_IsSet e m = Some (bit m b)"
    and "\<And>i. i \<in> set (ad_plugins ad) \<Longrightarrow>
      fst (Stub_StateChange \<lparr>sce_event = e, sce_pod = pod, sce_container = ctr\<rparr> (s i) (q i)) = err_of i"
  shows "fst (StateChange (through_stubs s pod ctr q) e ad) = tell_subscribed ad b err_of"
proof -
  let ?tell = "\<lambda>is. List.map_filter err_of (filter (\<lambda>i. bit (pl_events (ad_table ad i)) b) is)"
  have one: "plugin_StateChange (through_stubs s pod ctr q) i e ad =
      (if bit (pl_events (ad_table ad i)) b
       then (case err_of i of None \<Rightarrow> Done | Some err \<Rightarrow> Failed (Rpc (RpcError err)) ) else Done, ad)"
    if "i \<in> set (ad_plugins ad)" for i
    using assms(3) [OF that]
    by (auto simp: plugin_StateChange_def assms(2) through_stubs_def isFatalError_def split: prod.split option.split)
  have "for_each is (\<lambda>i. plugin_StateChange (through_stubs s pod ctr q) i e) ad =
      (case ?tell is of [] \<Rightarrow> Done | err # _ \<Rightarrow> Failed (Rpc (RpcError err)), ad)"
    if "set is \<subseteq> set (ad_plugins ad)" for "is"
    using that
  proof (induction "is")
    case (Cons i "is")
    then show ?case
      by (cases "err_of i") (auto simp: for_each_Cons one List.map_filter_def)
  qed (simp add: List.map_filter_def)
  then show ?thesis
    using assms(1) by (auto simp: StateChange_def tell_subscribed_def split: list.split)
qed

text \<open>
  C34. Each event the runtime announces reaches the method of that name of every plugin that subscribed to it, and of no
  other. There may be any number of plugins, each on a stub of its own with any methods, in any state and with any
  mask: each call of the runtime ends with the first error of that method, in the order of the plugins, among those whose
  mask holds the event's bit, or without one if there is none. \<open>bit\<close> counts from zero.
\<close>

theorem events_reach_methods:
  assumes "\<forall>i\<in>set (ad_plugins ad). \<exists>name idx base dial opts.
      New (h i) name idx base dial opts = (Done, s i) \<and> (\<forall>opt \<in> set opts. plain_option opt)"
  shows "let impl = through_stubs s pod ctr q in
    fst (Adaptation_RunPodSandbox impl ad) =
      tell_subscribed ad 0 (\<lambda>i. notify_pod (sh_RunPodSandbox (h i)) pod (q i)) \<and>
    fst (Adaptation_PostUpdatePodSandbox impl ad) =
      tell_subscribed ad 12 (\<lambda>i. notify_pod (sh_PostUpdatePodSandbox (h i)) pod (q i)) \<and>
    fst (Adaptation_StopPodSandbox impl ad) =
      tell_subscribed ad 1 (\<lambda>i. notify_pod (sh_StopPodSandbox (h i)) pod (q i)) \<and>
    fst (Adaptation_RemovePodSandbox impl ad) =
      tell_subscribed ad 2 (\<lambda>i. notify_pod (sh_RemovePodSandbox (h i)) pod (q i)) \<and>
    fst (Adaptation_PostCreateContainer impl ad) =
      tell_subscribed ad 4 (\<lambda>i. notify_container (sh_PostCreateContainer (h i)) pod ctr (q i)) \<and>
    fst (Adaptation_StartContainer impl ad) =
      tell_subscribed ad 5 (\<lambda>i. notify_container (sh_StartContainer (h i)) pod ctr (q i)) \<and>
    fst (Adaptation_PostStartContainer impl ad) =
      tell_subscribed ad 6 (\<lambda>i. notify_container (sh_PostStartContainer (h i)) pod ctr (q i)) \<and>
    fst (Adaptation_PostUpdateContainer impl ad) =
      tell_subscribed ad 8 (\<lambda>i. notify_container (sh_PostUpdateContainer (h i)) pod ctr (q i)) \<and>
    fst (Adaptation_RemoveContainer impl ad) =
      tell_subscribed ad 10 (\<lambda>i. notify_container (sh_RemoveContainer (h i)) pod ctr (q i))"
proof -
  have handlers: "st_handlers (s i) = h i" if i: "i \<in> set (ad_plugins ad)" for i
  proof -
    obtain name idx base dial opts where "New (h i) name idx base dial opts = (Done, s i)"
        "\<forall>opt \<in> set opts. plain_option opt"
      using assms i by blast
    then show ?thesis by (rule New_handlers(1))
  qed
  have bits: "EventMask_IsSet 1 m = Some (bit m 0)" "EventMask_IsSet 13 m = Some (bit m 12)"
      "EventMask_IsSet 2 m = Some (bit m 1)" "EventMask_IsSet 3 m = Some (bit m 2)" "EventMask_IsSet 5 m = Some (bit m 4)"
      "EventMask_IsSet 6 m = Some (bit m 5)" "EventMask_IsSet 7 m = Some (bit m 6)" "EventMask_IsSet 9 m = Some (bit m 8)"
      "EventMask_IsSet 11 m = Some (bit m 10)" for m
    using and_exp_eq_0_iff_not_bit [of m 0] and_exp_eq_0_iff_not_bit [of m 12] and_exp_eq_0_iff_not_bit [of m 1]
      and_exp_eq_0_iff_not_bit [of m 2] and_exp_eq_0_iff_not_bit [of m 4] and_exp_eq_0_iff_not_bit [of m 5]
      and_exp_eq_0_iff_not_bit [of m 6] and_exp_eq_0_iff_not_bit [of m 8] and_exp_eq_0_iff_not_bit [of m 10]
    by (simp_all add: EventMask_IsSet_def event_bit_def)
  note dispatch = Stub_StateChange_def pod_event_def container_event_def notify_pod_def notify_container_def Let_def
  show ?thesis
    unfolding Let_def Adaptation_RunPodSandbox_def Adaptation_PostUpdatePodSandbox_def Adaptation_StopPodSandbox_def
      Adaptation_RemovePodSandbox_def Adaptation_PostCreateContainer_def Adaptation_StartContainer_def
      Adaptation_PostStartContainer_def Adaptation_PostUpdateContainer_def Adaptation_RemoveContainer_def
    by (intro conjI StateChange_tells; simp add: Event_UNKNOWN_def bits dispatch handlers split: option.split)
qed

text \<open>
  Two plugins, each with the mask its stub answered when it was configured. The first has methods for two events and asks
  for one of them only; the second has the methods of \<open>sample_methods\<close>.
\<close>

definition picky_methods :: "nat handlers" where
  "picky_methods = nil_handlers\<lparr>
     sh_Configure := Some (\<lambda>config runtime version n. ((1, None), n)),
     sh_RunPodSandbox := Some (\<lambda>pod n. (Some ''run'', n)),
     sh_PostUpdatePodSandbox := Some (\<lambda>pod n. (Some ''not asked for'', n))\<rparr>"

definition picky_stub :: "(nat, nat) stub" where
  "picky_stub = (fresh_stub picky_methods ''picky'' ''05'' (\<lambda>_. Inr 7))\<lparr>
     st_handlers := picky_methods, st_events := 1 + push_bit 12 1\<rparr>"

lemma picky_New: "New picky_methods [] [] ''05-picky'' (\<lambda>_. Inr (7 :: nat)) [] = (Done, picky_stub)"
proof -
  have mask: "table_mask (method_table picky_methods) = 1 + push_bit 12 1"
    unfolding table_mask_def
    by (simp add: method_table_def picky_methods_def nil_handlers_def for_each_Cons Set_word event_bits_1_14)
      (simp add: event_word_def event_bit_def)
  have "setupHandlers (fresh_stub picky_methods [] [] (\<lambda>_. Inr 7)) =
    (Done, (fresh_stub picky_methods [] [] (\<lambda>_. Inr (7 :: nat)))\<lparr>
       st_handlers := picky_methods, st_events := 1 + push_bit 12 1\<rparr>)"
    by (subst setupHandlers_eq) (simp_all add: fresh_stub_def mask)
  then show ?thesis
    by (simp add: New_def ensureIdentity_def picky_stub_def fresh_stub_def
        ParsePluginName_def splitN2_def CheckPluginIndex_def is_digit_def del: push_bit_of_1)
qed

lemma picky_mask: "\<exists>s. Stub_Configure sample_configure picky_stub 0 = (Inr 1, s, 0)"
  by (simp add: Stub_Configure_def picky_stub_def picky_methods_def nil_handlers_def Let_def fresh_stub_def)

definition two_stubs :: adaptation where
  "two_stubs = \<lparr>ad_table = (\<lambda>i. if i = 0
       then \<lparr>pl_idx = ''05'', pl_base = ''picky'', pl_events = 1, pl_closed = False\<rparr>
       else \<lparr>pl_idx = ''10'', pl_base = ''count'', pl_events = push_bit 12 1, pl_closed = False\<rparr>),
     ad_plugins = [0, 1], ad_validators = [0, 1]\<rparr>"

theorem events_reach_methods_witness:
  "let impl = through_stubs (\<lambda>i. if i = 0 then picky_stub else sample_stub) None None id in
   fst (Adaptation_PostUpdatePodSandbox impl two_stubs) = Error (Rpc (RpcError ''seen'')) \<and>
   fst (Adaptation_RunPodSandbox impl two_stubs) = Error (Rpc (RpcError ''run'')) \<and>
   fst (Adaptation_StopPodSandbox impl two_stubs) = Returned ()"
proof -
  let ?h = "\<lambda>i. if i = 0 then picky_methods else sample_methods"
  let ?s = "\<lambda>i. if i = 0 then picky_stub else sample_stub"
  have plain: "\<forall>opt \<in> set [WithPluginName ''other'']. plain_option (opt :: (nat, nat) stub_action)"
    by (simp add: options_plain)
  have "\<exists>name idx base dial opts. New (?h i) name idx base dial opts = (Done, ?s i) \<and> (\<forall>opt \<in> set opts. plain_option opt)"
    for i :: nat
  proof (cases "i = 0")
    case True
    have "New (?h i) [] [] ''05-picky'' (\<lambda>_. Inr (7 :: nat)) [] = (Done, ?s i) \<and> (\<forall>opt \<in> set []. plain_option opt)"
      using True picky_New by simp
    then show ?thesis by blast
  next
    case False
    then have "New (?h i) [] [] ''10-count'' (\<lambda>_. Inr (7 :: nat)) [WithPluginName ''other''] = (Done, ?s i)"
      using sample_New by simp
    with plain show ?thesis by blast
  qed
  then have "\<forall>i\<in>set (ad_plugins two_stubs). \<exists>name idx base dial opts.
      New (?h i) name idx base dial opts = (Done, ?s i) \<and> (\<forall>opt \<in> set opts. plain_option opt)"
    by blast
  from events_reach_methods [of two_stubs ?h ?s, OF this, of None None id]
  show ?thesis
    by (simp add: two_stubs_def tell_subscribed_def notify_pod_def sample_methods_def picky_methods_def nil_handlers_def
        Let_def List.map_filter_def)
qed

end
