(* ===== verification/Env_Flow.thy ===== *)
theory Env_Flow
  imports Generator_Laws Validator_Laws
begin

text \<open>
  The environment of a container from the plugins' replies to the runtime's spec: collection (\<^verbatim>\<open>adjustEnv\<close>) and
  application (\<^verbatim>\<open>AdjustEnv\<close>) composed. The first drops the removal markers the second acts on.
\<close>

section \<open>No marker is collected\<close>

definition marked_env :: "container_adjustment \<Rightarrow> bool" where
  "marked_env a \<longleftrightarrow> (\<exists>e \<in> set (adj_env a). snd (KeyValue_IsMarkedForRemoval e))"

text \<open>A part that nobody owns: it is never set. This is \<open>guarded_part\<close> with an empty set of owners.\<close>

interpretation env_field: guarded_field cid "\<lambda>_. False" marked_env for cid
  by unfold_locales (auto simp: marked_env_def zero_defs alloc_def)

lemma env_frame: "marked_env (snd (on_ptr adj_linux (\<lambda>l j. j\<lparr>adj_linux := Some l\<rparr>) act a)) = marked_env a"
  by (simp add: on_ptr_def marked_env_def split: option.split prod.split)

interpretation env_part: guarded_part cid "\<lambda>_. False" marked_env for cid
proof unfold_locales
  have a: "kept (guarded cid (\<lambda>_. False) marked_env) (on_adjust_linux act)" for act
    unfolding on_adjust_linux_def by (rule env_field.kept_on_adjust) (simp add: env_frame)
  show "kept_done (guarded cid (\<lambda>_. False) marked_env) (adjustHooks h p)" for h p
    by (intro kept_imp_done env_field.kept_adjustHooks) (simp add: marked_env_def)
  show "kept_done (guarded cid (\<lambda>_. False) marked_env) (adjustSeccompPolicy sp p)" for sp p
    by (intro kept_imp_done env_field.kept_adjustSeccompPolicy a)
  show "kept_done (guarded cid (\<lambda>_. False) marked_env) (adjustNamespaces ord ns p)" for ord ns p
    by (intro env_field.kept_adjustNamespaces a)
qed

lemma created_env_unmarked:
  assumes "CreateContainer impl vimpl ord vord req ad = (Returned rpl, ad')" and "crs_adjust rpl = Some a"
  shows "\<not> marked_env a"
proof -
  obtain s0 v0 mid s v where s0: "collectCreateContainerResult req = Some s0"
    and r: "for_each (ad_plugins ad) (create_body impl ord req) ((ad, s0), v0) = (Done, ((mid, s), v))"
    and rpl: "rpl = createContainerResponse s"
    using assms(1) by (auto simp: CreateContainer_def Let_def validateContainerAdjustment_def
        split: option.splits prod.splits status.splits if_splits)
  obtain c where c: "cr_container req = Some c"
    using s0 by (auto simp: collectCreateContainerResult_def split: option.splits)
  have "for_each (ad_plugins ad) (create_round impl ord req) (ad, s0) = (Done, (mid, s))"
    using create_loop_body [of "ad_plugins ad" impl ord req "(ad, s0)" v0] r by (simp add: prod_eq_iff)
  moreover have "\<not> marked_env empty_adjustment" by (simp add: marked_env_def empty_adjustment_def zero_defs)
  ultimately have "guarded (ctr_id c) (\<lambda>_. False) marked_env s"
    by (intro env_part.created_guarded [OF s0 c refl])
  then show ?thesis using assms(2) by (simp add: guarded_def rpl createContainerResponse_def)
qed

section \<open>What reaches the spec\<close>

lemma last_set_unmarked:
  assumes "\<And>e. e \<in> set env \<Longrightarrow> \<not> removes e"
  shows "last_set env n = last_entry env n"
  using assms entry_name_set unfolding last_set_def last_entry_def by (intro find_cong) auto

text \<open>
  C5. The environment of a created container, from the plugins' replies to the runtime's spec: whatever the plugins
  reply, the runtime's spec ends with every variable it had, overridden by the last value that was collected for it, and
  the collected new ones. So no plugin can remove a variable of the runtime, although plugins
  are given \<^verbatim>\<open>RemoveEnv\<close> to do so and the plugins after the one that removes it no longer see it.
\<close>

theorem environment_only_grows:
  assumes "CreateContainer impl vimpl ord vord req ad = (Returned rpl, ad')" and "crs_adjust rpl = Some a"
    and "stock_env (ge_underlying g)" and "\<And>e. e \<in> set (adj_env a) \<Longrightarrow> variable_name (kv_key e)"
    and "\<And>p. sp_process s = Some p \<Longrightarrow> distinct (map fst (env_pairs (pr_env p))) \<and> [] \<notin> fst ` set (env_pairs (pr_env p))"
  shows "spec_env (AdjustEnv g (adj_env a) s) n =
    (case last_entry (adj_env a) n of None \<Rightarrow> spec_env s n | Some e \<Rightarrow> Some (kv_value e))"
proof -
  have u: "\<not> removes e" if "e \<in> set (adj_env a)" for e
    using created_env_unmarked [OF assms(1,2)] that
    by (auto simp: marked_env_def removes_def KeyValue_IsMarkedForRemoval_def)
  have names: "variable_name (entry_name e)" if "e \<in> set (adj_env a)" for e
    using assms(4) that u entry_name_set by simp
  have "\<not> removes e" if "last_entry (adj_env a) n = Some e" for e
    using that u by (auto simp: last_entry_def find_Some_iff) (metis length_rev nth_mem set_rev)
  then show ?thesis
    using adjusted_env [where n = n, OF assms(3) names assms(5)] last_set_unmarked [where n = n, OF u]
    by (auto split: option.split)
qed

text \<open>A plugin that removes one variable of the container and overrides another.\<close>

definition env_plugin :: "(create_request, create_response) impl" where
  "env_plugin i q = Inr (Some \<lparr>crs_adjust = Some (zero_adjustment\<lparr>adj_env :=
       [\<lparr>kv_key = MarkForRemoval ''A'', kv_value = []\<rparr>, \<lparr>kv_key = ''B'', kv_value = ''3''\<rparr>]\<rparr>),
     crs_update = [], crs_evict = []\<rparr>)"

definition env_run :: "create_response outcome \<times> adaptation" where
  "env_run = CreateContainer env_plugin (\<lambda>_ _. Inl ErrClosed) (\<lambda>ks. ks) (\<lambda>is. is)
     \<lparr>cr_pod = None, cr_container = Some (zero_container\<lparr>ctr_env := [''A=1'', ''B=2'', ''D=5'']\<rparr>)\<rparr>
     \<lparr>ad_table = (\<lambda>_. \<lparr>pl_idx = ''10'', pl_base = ''a'', pl_events = ValidEvents, pl_closed = False\<rparr>),
      ad_plugins = [1], ad_validators = []\<rparr>"

lemma env_run_returns:
  obtains rpl ad' a where "env_run = (Returned rpl, ad')" and "crs_adjust rpl = Some a"
    and "adj_env a = [\<lparr>kv_key = ''B'', kv_value = ''3''\<rparr>]"
proof -
  have "case fst env_run of
      Returned rpl \<Rightarrow> map_option adj_env (crs_adjust rpl) = Some [\<lparr>kv_key = ''B'', kv_value = ''3''\<rparr>] | _ \<Rightarrow> False"
    by code_simp
  then obtain rpl a where "fst env_run = Returned rpl" "crs_adjust rpl = Some a"
    "adj_env a = [\<lparr>kv_key = ''B'', kv_value = ''3''\<rparr>]"
    by (auto split: outcome.splits)
  then show thesis using that by (metis prod.collapse)
qed

text \<open>The variable the plugin removed is still in the spec.\<close>

theorem environment_only_grows_witness:
  "\<exists>rpl ad' a. env_run = (Returned rpl, ad') \<and> crs_adjust rpl = Some a \<and>
    map (spec_env (AdjustEnv sample_generator (adj_env a) sample_spec)) [''A'', ''B'', ''D''] =
      [Some ''1'', Some ''3'', Some ''5'']"
proof -
  obtain rpl ad' a where r: "env_run = (Returned rpl, ad')" "crs_adjust rpl = Some a"
    "adj_env a = [\<lparr>kv_key = ''B'', kv_value = ''3''\<rparr>]" by (rule env_run_returns)
  have names: "variable_name (kv_key e)" if "e \<in> set (adj_env a)" for e
    using that by (simp add: r(3) variable_name_def)
  have dist: "distinct (map fst (env_pairs (pr_env p))) \<and> [] \<notin> fst ` set (env_pairs (pr_env p))"
    if "sp_process sample_spec = Some p" for p
    using that by (auto simp: sample_spec_def zero_spec_def env_pairs_def List.map_filter_def env_pair_def splitN2_def)
  have spec: "spec_env (AdjustEnv sample_generator (adj_env a) sample_spec) n =
    (case last_entry (adj_env a) n of None \<Rightarrow> spec_env sample_spec n | Some e \<Rightarrow> Some (kv_value e))" for n
    using environment_only_grows [OF r(1) [unfolded env_run_def] r(2) sample_generator_stock(1) names dist] .
  have "map (spec_env (AdjustEnv sample_generator (adj_env a) sample_spec)) [''A'', ''B'', ''D''] =
      [Some ''1'', Some ''3'', Some ''5'']"
    unfolding list.map spec
    by (simp add: r(3) last_entry_def entry_name_def IsMarkedForRemoval_def
        spec_env_def sample_spec_def zero_spec_def env_pairs_def List.map_filter_def env_pair_def splitN2_def)
  with r(1,2) show ?thesis by (intro exI conjI)
qed

end
