(* ===== verification/Net_Links.thy ===== *)
theory Net_Links
  imports Sample_Plugins Decimal
begin

text \<open>
  How the network device injector moves links between network namespaces
  (\<^verbatim>\<open>src/plugins/network-device-injector/host-device.go\<close>, and \<^verbatim>\<open>inject\<close> and \<^verbatim>\<open>release\<close> of
  \<^verbatim>\<open>network-device-injector.go\<close>), with every step of the clean-up that follows an error.

  The kernel is behind two third-party packages, \<^verbatim>\<open>netlink\<close> and \<^verbatim>\<open>ns\<close>: their functions are the record
  \<open>netlink\<close>, a parameter, on a state \<open>'w\<close>. What the properties rely on in them is \<open>documented\<close>. A deferred
  function of the code is a definition that its error paths apply, the last registered first.
\<close>

section \<open>Links and the packages\<close>

text \<open>A link as the package returns it: a copy of its attributes at that time.\<close>

record link =
  lk_name :: string
  lk_index :: nat
  lk_up :: bool
  lk_alias :: string

text \<open>
  \<open>nl_here\<close> is the namespace the plugin runs in; \<open>GetCurrentNS\<close> says whether it can be opened, and
  \<open>Enter\<close> whether \<^verbatim>\<open>Do\<close> can switch to a namespace, before it runs its function. A failed
  lookup may or may not come with a link. The operations take the namespace they run in and a link
  that may be nil; a panic in them is left out.
\<close>

record ('n, 'w) netlink =
  nl_here :: 'n
  GetCurrentNS :: "'w \<Rightarrow> string option"
  GetNS :: "string \<Rightarrow> 'w \<Rightarrow> string + 'n"
  Enter :: "'n \<Rightarrow> 'w \<Rightarrow> string option"
  LinkByName :: "'n \<Rightarrow> string \<Rightarrow> 'w \<Rightarrow> (string \<times> link option) + link"
  LinkSetName :: "'n \<Rightarrow> link option \<Rightarrow> string \<Rightarrow> 'w \<Rightarrow> string option \<times> 'w"
  LinkSetAlias :: "'n \<Rightarrow> link option \<Rightarrow> string \<Rightarrow> 'w \<Rightarrow> string option \<times> 'w"
  LinkSetUp :: "'n \<Rightarrow> link option \<Rightarrow> 'w \<Rightarrow> string option \<times> 'w"
  LinkSetDown :: "'n \<Rightarrow> link option \<Rightarrow> 'w \<Rightarrow> string option \<times> 'w"
  LinkSetNsFd :: "'n \<Rightarrow> link option \<Rightarrow> 'n \<Rightarrow> 'w \<Rightarrow> string option \<times> 'w"

datatype link_error =
    NoNamespace string
  | NotEntered string
  | NotFound string string
  | CannotSetDown string string
  | CannotRename string string string
  | LostAfterRename string string string
  | NoTempName string link_error
  | CannotMove string string
  | CannotSetAlias string string
  | CannotSetUp string string
  | CannotRestore string string string

definition temp_name :: "link \<Rightarrow> string" where
  "temp_name dev = ''temp_'' @ print_nat (lk_index dev)"

definition setTempName ::
    "('n, 'w) netlink \<Rightarrow> 'n \<Rightarrow> link \<Rightarrow> 'w \<Rightarrow> (link_error + link) \<times> 'w" where
  "setTempName nl ns dev w =
     (case LinkSetName nl ns (Some dev) (temp_name dev) w of
        (Some e, w') \<Rightarrow> (Inl (CannotRename (lk_name dev) (temp_name dev) e), w')
      | (None, w') \<Rightarrow>
          (case LinkByName nl ns (temp_name dev) w' of
             Inl (e, _) \<Rightarrow> (Inl (LostAfterRename (lk_name dev) (temp_name dev) e), w')
           | Inr d \<Rightarrow> (Inr d, w')))"

section \<open>Into the pod\<close>

text \<open>The deferred functions of \<^verbatim>\<open>moveLinkIn\<close>; \<open>hostDev\<close> is the variable of that name, which may be nil.\<close>

definition restore_up :: "('n, 'w) netlink \<Rightarrow> link \<Rightarrow> link option \<Rightarrow> 'w \<Rightarrow> 'w" where
  "restore_up nl orig hostDev w =
     (if lk_up orig \<and> hostDev \<noteq> None then snd (LinkSetUp nl (nl_here nl) hostDev w) else w)"

definition restore_name :: "('n, 'w) netlink \<Rightarrow> link \<Rightarrow> link option \<Rightarrow> 'w \<Rightarrow> 'w" where
  "restore_name nl orig hostDev w =
     (if hostDev \<noteq> None then snd (LinkSetName nl (nl_here nl) hostDev (lk_name orig) w) else w)"

definition undo_host :: "('n, 'w) netlink \<Rightarrow> link \<Rightarrow> link option \<Rightarrow> 'w \<Rightarrow> 'w" where
  "undo_host nl orig hostDev w = restore_up nl orig hostDev (restore_name nl orig hostDev w)"

text \<open>Back from the pod's namespace: the new state and the new value of \<open>hostDev\<close>.\<close>

definition move_back ::
    "('n, 'w) netlink \<Rightarrow> 'n \<Rightarrow> string \<Rightarrow> link option \<Rightarrow> link option \<Rightarrow> 'w \<Rightarrow> link option \<times> 'w" where
  "move_back nl containerNs tempDevName hostDev contDev w =
     (let w' = snd (LinkSetNsFd nl containerNs contDev (nl_here nl) w) in
      (if Enter nl (nl_here nl) w' = None
       then (case LinkByName nl (nl_here nl) tempDevName w' of Inl (_, l) \<Rightarrow> l | Inr l \<Rightarrow> Some l)
       else hostDev, w'))"

text \<open>The function that \<^verbatim>\<open>moveLinkIn\<close> runs in the pod's namespace.\<close>

definition in_container ::
    "('n, 'w) netlink \<Rightarrow> 'n \<Rightarrow> link \<Rightarrow> link \<Rightarrow> string \<Rightarrow> 'w \<Rightarrow> (link_error + link) \<times> link option \<times> 'w" where
  "in_container nl containerNs orig tempDev ifName w =
     (let tempDevName = lk_name tempDev;
          back = move_back nl containerNs tempDevName (Some tempDev);
          unname = (\<lambda>c w. snd (LinkSetName nl containerNs c tempDevName w));
          down = (\<lambda>c w. snd (LinkSetDown nl containerNs c w))
      in case LinkByName nl containerNs tempDevName w of
           Inl (e, _) \<Rightarrow> (Inl (NotFound tempDevName e), Some tempDev, w)
         | Inr c \<Rightarrow>
            (case LinkSetAlias nl containerNs (Some c) (lk_name orig) w of
               (Some e, w) \<Rightarrow> (Inl (CannotSetAlias tempDevName e), back (Some c) w)
             | (None, w) \<Rightarrow>
                (case LinkSetName nl containerNs (Some c) ifName w of
                   (Some e, w) \<Rightarrow> (Inl (CannotRename tempDevName ifName e), back (Some c) w)
                 | (None, w) \<Rightarrow>
                    (case LinkSetUp nl containerNs (Some c) w of
                       (Some e, w) \<Rightarrow> (Inl (CannotSetUp ifName e), back (Some c) (unname (Some c) w))
                     | (None, w) \<Rightarrow>
                        (case LinkByName nl containerNs ifName w of
                           Inl (e, c') \<Rightarrow> (Inl (NotFound ifName e), back c' (unname c' (down c' w)))
                         | Inr c' \<Rightarrow> (Inr c', Some tempDev, w))))))"

definition moveLinkIn ::
    "('n, 'w) netlink \<Rightarrow> link \<Rightarrow> 'n \<Rightarrow> string \<Rightarrow> 'w \<Rightarrow> (link_error + link) \<times> 'w" where
  "moveLinkIn nl hostDev containerNs ifName w =
     (case GetCurrentNS nl w of
        Some e \<Rightarrow> (Inl (NoNamespace e), w)
      | None \<Rightarrow>
         (case LinkSetDown nl (nl_here nl) (Some hostDev) w of
            (Some e, w) \<Rightarrow> (Inl (CannotSetDown (lk_name hostDev) e), w)
          | (None, w) \<Rightarrow>
             (case setTempName nl (nl_here nl) hostDev w of
                (Inl e, w) \<Rightarrow> (Inl (NoTempName (lk_name hostDev) e), restore_up nl hostDev None w)
              | (Inr tempDev, w) \<Rightarrow>
                 (case LinkSetNsFd nl (nl_here nl) (Some tempDev) containerNs w of
                    (Some e, w) \<Rightarrow> (Inl (CannotMove (lk_name tempDev) e), undo_host nl hostDev (Some tempDev) w)
                  | (None, w) \<Rightarrow>
                     (case Enter nl containerNs w of
                        Some e \<Rightarrow> (Inl (NotEntered e), undo_host nl hostDev (Some tempDev) w)
                      | None \<Rightarrow>
                         (case in_container nl containerNs hostDev tempDev ifName w of
                            (Inl e, h, w) \<Rightarrow> (Inl e, undo_host nl hostDev h w)
                          | (Inr c, _, w) \<Rightarrow> (Inr c, w)))))))"

section \<open>Back to the host\<close>

definition restore_in_pod :: "('n, 'w) netlink \<Rightarrow> 'n \<Rightarrow> string \<Rightarrow> link \<Rightarrow> 'w \<Rightarrow> 'w" where
  "restore_in_pod nl containerNs ifName dev w =
     (let w' = snd (LinkSetName nl containerNs (Some dev) ifName w) in
      if lk_up dev then snd (LinkSetUp nl containerNs (Some dev) w') else w')"

definition hand_back :: "('n, 'w) netlink \<Rightarrow> 'n \<Rightarrow> string \<Rightarrow> link \<Rightarrow> string \<Rightarrow> link \<Rightarrow> 'w \<Rightarrow> 'w" where
  "hand_back nl containerNs ifName origDev tempName tempDev w =
     (let w' = snd (LinkSetNsFd nl (nl_here nl) (Some tempDev) containerNs w) in
      if Enter nl containerNs w' \<noteq> None then w'
      else (case LinkByName nl containerNs tempName w' of
              Inl _ \<Rightarrow> w'
            | Inr lnk \<Rightarrow>
                (let w'' = snd (LinkSetName nl containerNs (Some lnk) ifName w') in
                 if lk_up origDev then snd (LinkSetUp nl containerNs (Some lnk) w'') else w'')))"

text \<open>
  When the move fails, the deferred function works on the variable \<^verbatim>\<open>dev\<close>, which by then is the link as it was
  looked up under its temporary name.
\<close>

definition moveLinkOut ::
    "('n, 'w) netlink \<Rightarrow> 'n \<Rightarrow> string \<Rightarrow> 'w \<Rightarrow> link_error option \<times> 'w" where
  "moveLinkOut nl containerNs ifName w =
     (case GetCurrentNS nl w of
        Some e \<Rightarrow> (Some (NoNamespace e), w)
      | None \<Rightarrow>
         (case Enter nl containerNs w of
            Some e \<Rightarrow> (Some (NotEntered e), w)
          | None \<Rightarrow>
             (case LinkByName nl containerNs ifName w of
                Inl (e, _) \<Rightarrow> (Some (NotFound ifName e), w)
              | Inr dev \<Rightarrow>
                 (case LinkSetDown nl containerNs (Some dev) w of
                    (Some e, w) \<Rightarrow> (Some (CannotSetDown ifName e), w)
                  | (None, w) \<Rightarrow>
                     (case setTempName nl containerNs dev w of
                        (Inl e, w) \<Rightarrow> (Some (NoTempName ifName e), restore_in_pod nl containerNs ifName dev w)
                      | (Inr tempDev, w) \<Rightarrow>
                         (case LinkSetNsFd nl containerNs (Some tempDev) (nl_here nl) w of
                            (Some e, w) \<Rightarrow>
                              (Some (CannotMove (lk_name tempDev) e), restore_in_pod nl containerNs ifName tempDev w)
                          | (None, w) \<Rightarrow>
                             (case LinkByName nl (nl_here nl) (lk_name tempDev) w of
                                Inl (e, _) \<Rightarrow> (Some (NotFound (lk_name tempDev) e), w)
                              | Inr t \<Rightarrow>
                                 (case LinkSetName nl (nl_here nl) (Some t) (lk_alias t) w of
                                    (None, w) \<Rightarrow> (None, w)
                                  | (Some e, w) \<Rightarrow>
                                      (Some (CannotRestore (lk_name tempDev) (lk_alias t) e),
                                       hand_back nl containerNs ifName dev (lk_name tempDev) t w)))))))))"

section \<open>The two moves of the plugin\<close>

definition inject :: "('n, 'w) netlink \<Rightarrow> (link_error, 'w) mover" where
  "inject nl nsPath n w =
     (case GetNS nl nsPath w of
        Inl e \<Rightarrow> (Some (NoNamespace e), w)
      | Inr containerNs \<Rightarrow>
         (case LinkByName nl (nl_here nl) (net_name n) w of
            Inl (e, _) \<Rightarrow> (Some (NotFound (net_name n) e), w)
          | Inr hostDev \<Rightarrow>
             (case moveLinkIn nl hostDev containerNs (net_new_name n) w of
                (Inl e, w) \<Rightarrow> (Some e, w)
              | (Inr _, w) \<Rightarrow> (None, w))))"

definition release :: "('n, 'w) netlink \<Rightarrow> (link_error, 'w) mover" where
  "release nl nsPath n w =
     (case GetNS nl nsPath w of
        Inl e \<Rightarrow> (Some (NoNamespace e), w)
      | Inr containerNs \<Rightarrow> moveLinkOut nl containerNs (net_new_name n) w)"

section \<open>What the packages document\<close>

text \<open>
  \<open>view w d\<close> is where link \<open>d\<close> is and its attributes. \<open>changes\<close>: an operation that
  succeeds on a link, recognised by its index in its namespace, has its effect on that link; one that
  fails has none.
\<close>

definition changes ::
    "('w \<Rightarrow> 'd \<Rightarrow> ('n \<times> link) option) \<Rightarrow> ('n \<Rightarrow> link option \<Rightarrow> 'w \<Rightarrow> string option \<times> 'w) \<Rightarrow>
     (link \<Rightarrow> link) \<Rightarrow> bool" where
  "changes view act f \<longleftrightarrow>
     (\<forall>w n d l l' st w'. view w d = Some (n, l) \<longrightarrow> lk_index l' = lk_index l \<longrightarrow> act n (Some l') w = (st, w') \<longrightarrow>
        view w' = (if st = None then (view w)(d \<mapsto> (n, f l)) else view w))"

definition moves ::
    "('w \<Rightarrow> 'd \<Rightarrow> ('n \<times> link) option) \<Rightarrow> ('n \<Rightarrow> link option \<Rightarrow> 'n \<Rightarrow> 'w \<Rightarrow> string option \<times> 'w) \<Rightarrow> bool" where
  "moves view act \<longleftrightarrow>
     (\<forall>w n d l l' m st w'. view w d = Some (n, l) \<longrightarrow> lk_index l' = lk_index l \<longrightarrow> \<not> lk_up l \<longrightarrow>
        act n (Some l') m w = (st, w') \<longrightarrow>
        (if st = None then \<exists>k. view w' = (view w)(d \<mapsto> (m, l\<lparr>lk_index := k\<rparr>)) else view w' = view w))"

text \<open>
  Names are unique within a namespace, and a lookup finds the link of that name, as it is. A move may give the link a
  new index, and keeps its name and alias.
\<close>

definition documented :: "('n, 'w) netlink \<Rightarrow> ('w \<Rightarrow> 'd \<Rightarrow> ('n \<times> link) option) \<Rightarrow> bool" where
  "documented nl view \<longleftrightarrow>
     (\<forall>w n d d' l l'. view w d = Some (n, l) \<longrightarrow> view w d' = Some (n, l') \<longrightarrow> lk_name l = lk_name l' \<longrightarrow> d = d') \<and>
     (\<forall>w n nm l. LinkByName nl n nm w = Inr l \<longrightarrow> lk_name l = nm \<and> (\<exists>d. view w d = Some (n, l))) \<and>
     (\<forall>nm. changes view (\<lambda>n l. LinkSetName nl n l nm) (\<lambda>l. l\<lparr>lk_name := nm\<rparr>)) \<and>
     (\<forall>nm. changes view (\<lambda>n l. LinkSetAlias nl n l nm) (\<lambda>l. l\<lparr>lk_alias := nm\<rparr>)) \<and>
     changes view (LinkSetUp nl) (\<lambda>l. l\<lparr>lk_up := True\<rparr>) \<and>
     changes view (LinkSetDown nl) (\<lambda>l. l\<lparr>lk_up := False\<rparr>) \<and>
     moves view (LinkSetNsFd nl)"

lemma changes_D:
  assumes "changes view act f" and "view w d = Some (n, l)" and "lk_index l' = lk_index l" and "act n (Some l') w = (st, w')"
  shows "view w' = (if st = None then (view w)(d \<mapsto> (n, f l)) else view w)"
  using assms unfolding changes_def by blast

lemma documented_D:
  assumes "documented nl view"
  shows "view w d = Some (n, l) \<Longrightarrow> view w d' = Some (n, l') \<Longrightarrow> lk_name l = lk_name l' \<Longrightarrow> d = d'"
    and "LinkByName nl n nm w = Inr l \<Longrightarrow> lk_name l = nm \<and> (\<exists>d. view w d = Some (n, l))"
    and "changes view (\<lambda>n l. LinkSetName nl n l nm) (\<lambda>l. l\<lparr>lk_name := nm\<rparr>)"
    and "changes view (\<lambda>n l. LinkSetAlias nl n l nm) (\<lambda>l. l\<lparr>lk_alias := nm\<rparr>)"
    and "changes view (LinkSetUp nl) (\<lambda>l. l\<lparr>lk_up := True\<rparr>)" and "changes view (LinkSetDown nl) (\<lambda>l. l\<lparr>lk_up := False\<rparr>)"
    and "moves view (LinkSetNsFd nl)"
  using assms unfolding documented_def by blast+

lemma documented_lookup:
  assumes "documented nl view" and "LinkByName nl n nm w = Inr l" and "view w d = Some (n, l')" and "lk_name l' = nm"
  shows "l' = l"
proof -
  obtain d' where d': "view w d' = Some (n, l)" "lk_name l = nm" using documented_D(2) [OF assms(1,2)] by blast
  then have "d = d'" using documented_D(1) [OF assms(1,3) d'(1)] assms(4) by simp
  with d' assms(3) show ?thesis by simp
qed

lemma documented_ops:
  assumes "documented nl view" and "view w d = Some (n, l)" and "lk_index l' = lk_index l"
  shows "LinkSetName nl n (Some l') nm w = (None, w') \<Longrightarrow> view w' = (view w)(d \<mapsto> (n, l\<lparr>lk_name := nm\<rparr>))"
    and "LinkSetName nl n (Some l') nm w = (Some e, w') \<Longrightarrow> view w' = view w"
    and "LinkSetAlias nl n (Some l') nm w = (None, w') \<Longrightarrow> view w' = (view w)(d \<mapsto> (n, l\<lparr>lk_alias := nm\<rparr>))"
    and "LinkSetUp nl n (Some l') w = (None, w') \<Longrightarrow> view w' = (view w)(d \<mapsto> (n, l\<lparr>lk_up := True\<rparr>))"
    and "LinkSetDown nl n (Some l') w = (None, w') \<Longrightarrow> view w' = (view w)(d \<mapsto> (n, l\<lparr>lk_up := False\<rparr>))"
    and "\<not> lk_up l \<Longrightarrow> LinkSetNsFd nl n (Some l') m w = (None, w') \<Longrightarrow> \<exists>k. view w' = (view w)(d \<mapsto> (m, l\<lparr>lk_index := k\<rparr>))"
    and "\<not> lk_up l \<Longrightarrow> LinkSetNsFd nl n (Some l') m w = (Some e, w') \<Longrightarrow> view w' = view w"
proof -
  note c = changes_D [where view = view and w = w and d = d and n = n and l = l and l' = l', OF _ assms(2,3)]
  show "LinkSetName nl n (Some l') nm w = (None, w') \<Longrightarrow> view w' = (view w)(d \<mapsto> (n, l\<lparr>lk_name := nm\<rparr>))"
    "LinkSetName nl n (Some l') nm w = (Some e, w') \<Longrightarrow> view w' = view w"
    using c [OF documented_D(3) [OF assms(1)]] by simp_all
  show "LinkSetAlias nl n (Some l') nm w = (None, w') \<Longrightarrow> view w' = (view w)(d \<mapsto> (n, l\<lparr>lk_alias := nm\<rparr>))"
    using c [OF documented_D(4) [OF assms(1)]] by simp
  show "LinkSetUp nl n (Some l') w = (None, w') \<Longrightarrow> view w' = (view w)(d \<mapsto> (n, l\<lparr>lk_up := True\<rparr>))"
    using c [OF documented_D(5) [OF assms(1)]] by simp
  show "LinkSetDown nl n (Some l') w = (None, w') \<Longrightarrow> view w' = (view w)(d \<mapsto> (n, l\<lparr>lk_up := False\<rparr>))"
    using c [OF documented_D(6) [OF assms(1)]] by simp
  have m: "\<not> lk_up l \<Longrightarrow> LinkSetNsFd nl n (Some l') m w = (st, w') \<Longrightarrow>
      if st = None then \<exists>k. view w' = (view w)(d \<mapsto> (m, l\<lparr>lk_index := k\<rparr>)) else view w' = view w" for st
    using documented_D(7) [OF assms(1)] assms(2,3) unfolding moves_def by blast
  show "\<not> lk_up l \<Longrightarrow> LinkSetNsFd nl n (Some l') m w = (None, w') \<Longrightarrow> \<exists>k. view w' = (view w)(d \<mapsto> (m, l\<lparr>lk_index := k\<rparr>))"
    "\<not> lk_up l \<Longrightarrow> LinkSetNsFd nl n (Some l') m w = (Some e, w') \<Longrightarrow> view w' = view w"
    using m by (metis option.distinct(1))+
qed

lemma setTempName_ok:
  assumes "documented nl view" and "view w d = Some (n, l)" and "lk_index dev = lk_index l"
    and "setTempName nl n dev w = (Inr t, w')"
  shows "t = l\<lparr>lk_name := temp_name dev\<rparr>" and "view w' = (view w)(d \<mapsto> (n, t))"
proof -
  obtain w1 where r: "LinkSetName nl n (Some dev) (temp_name dev) w = (None, w1)" "LinkByName nl n (temp_name dev) w1 = Inr t" "w' = w1"
    using assms(4) by (auto simp: setTempName_def split: prod.splits option.splits sum.splits)
  have v: "view w1 = (view w)(d \<mapsto> (n, l\<lparr>lk_name := temp_name dev\<rparr>))"
    by (rule documented_ops(1) [OF assms(1-3) r(1)])
  then show t: "t = l\<lparr>lk_name := temp_name dev\<rparr>" using documented_lookup [OF assms(1) r(2), of d] by simp
  show "view w' = (view w)(d \<mapsto> (n, t))" using v r(3) t by simp
qed

lemma setTempName_failed:
  assumes "documented nl view" and "view w d = Some (n, l)" and "lk_index dev = lk_index l"
    and "setTempName nl n dev w = (Inl e, w')"
  shows "\<exists>nm. view w' = (view w)(d \<mapsto> (n, l\<lparr>lk_name := nm\<rparr>))"
proof -
  obtain st w1 where r: "LinkSetName nl n (Some dev) (temp_name dev) w = (st, w1)" by fastforce
  then have w: "w' = w1" using assms(4) by (auto simp: setTempName_def split: option.splits sum.splits)
  show ?thesis
  proof (cases st)
    case None
    then show ?thesis using documented_ops(1) [OF assms(1-3)] r w by blast
  next
    case (Some e')
    then have "view w' = view w" using documented_ops(2) [OF assms(1-3)] r w by blast
    with assms(2) show ?thesis by (intro exI [of _ "lk_name l"]) auto
  qed
qed

section \<open>What the moves do to a link\<close>

lemma moveLinkIn_moves:
  assumes "documented nl view" and "view w d = Some (nl_here nl, dev)" and "moveLinkIn nl dev containerNs ifName w = (Inr c, w')"
  shows "\<exists>k. c = dev\<lparr>lk_name := ifName, lk_index := k, lk_up := True, lk_alias := lk_name dev\<rparr> \<and>
    view w' = (view w)(d \<mapsto> (containerNs, c))"
proof -
  note D = assms(1) and ops = documented_ops [OF assms(1)]
  obtain w1 w2 w3 tmp where r: "LinkSetDown nl (nl_here nl) (Some dev) w = (None, w1)"
    "setTempName nl (nl_here nl) dev w1 = (Inr tmp, w2)" "LinkSetNsFd nl (nl_here nl) (Some tmp) containerNs w2 = (None, w3)"
    "fst (in_container nl containerNs dev tmp ifName w3) = Inr c" "snd (snd (in_container nl containerNs dev tmp ifName w3)) = w'"
    using assms(3) by (auto simp: moveLinkIn_def split: option.splits prod.splits sum.splits)
  let ?d1 = "dev\<lparr>lk_up := False\<rparr>"
  have 1: "view w1 = (view w)(d \<mapsto> (nl_here nl, ?d1))" by (rule ops(5) [OF assms(2) refl r(1)])
  then have v1: "view w1 d = Some (nl_here nl, ?d1)" by simp
  have 2: "tmp = ?d1\<lparr>lk_name := temp_name dev\<rparr>" "view w2 = (view w1)(d \<mapsto> (nl_here nl, tmp))"
    by (rule setTempName_ok [OF D v1 _ r(2)]; simp)+
  then have v2: "view w2 d = Some (nl_here nl, tmp)" "\<not> lk_up tmp" by simp_all
  obtain k where k: "view w3 = (view w2)(d \<mapsto> (containerNs, tmp\<lparr>lk_index := k\<rparr>))"
    using ops(6) [OF v2(1) refl v2(2) r(3)] by blast
  then have v3: "view w3 d = Some (containerNs, tmp\<lparr>lk_index := k\<rparr>)" by simp
  obtain l wa wb wc where i: "LinkByName nl containerNs (lk_name tmp) w3 = Inr l"
    "LinkSetAlias nl containerNs (Some l) (lk_name dev) w3 = (None, wa)" "LinkSetName nl containerNs (Some l) ifName wa = (None, wb)"
    "LinkSetUp nl containerNs (Some l) wb = (None, wc)" "LinkByName nl containerNs ifName wc = Inr c" "wc = w'"
    using r(4,5) by (auto simp: in_container_def Let_def split: option.splits prod.splits sum.splits)
  have l: "l = tmp\<lparr>lk_index := k\<rparr>" using documented_lookup [OF D i(1) v3] by simp
  have a: "view wa = (view w3)(d \<mapsto> (containerNs, l\<lparr>lk_alias := lk_name dev\<rparr>))"
    using ops(3) [OF v3 _ i(2)] l by simp
  then have va: "view wa d = Some (containerNs, l\<lparr>lk_alias := lk_name dev\<rparr>)" by simp
  have b: "view wb = (view wa)(d \<mapsto> (containerNs, l\<lparr>lk_alias := lk_name dev, lk_name := ifName\<rparr>))"
    using ops(1) [OF va _ i(3)] a by simp
  then have vb: "view wb d = Some (containerNs, l\<lparr>lk_alias := lk_name dev, lk_name := ifName\<rparr>)" by simp
  have c: "view wc = (view wb)(d \<mapsto> (containerNs, l\<lparr>lk_alias := lk_name dev, lk_name := ifName, lk_up := True\<rparr>))"
    using ops(4) [OF vb _ i(4)] b by simp
  have e: "c = l\<lparr>lk_alias := lk_name dev, lk_name := ifName, lk_up := True\<rparr>"
    using documented_lookup [OF D i(5), of d] c by simp
  have "view w' = (view w)(d \<mapsto> (containerNs, c))" using c b a k 2(2) 1 i(6) e by (auto simp: fun_eq_iff)
  then show ?thesis using e l 2(1) by (intro exI [of _ k]) (cases dev, simp)
qed

lemma moveLinkOut_moves:
  assumes "documented nl view" and "view w d = Some (containerNs, l)" and "lk_name l = ifName"
    and "moveLinkOut nl containerNs ifName w = (None, w')"
  shows "\<exists>k. view w' = (view w)(d \<mapsto> (nl_here nl, l\<lparr>lk_name := lk_alias l, lk_index := k, lk_up := False\<rparr>))"
proof -
  note D = assms(1) and ops = documented_ops [OF assms(1)]
  obtain dev w1 w2 w3 tmp t where r: "LinkByName nl containerNs ifName w = Inr dev"
    "LinkSetDown nl containerNs (Some dev) w = (None, w1)" "setTempName nl containerNs dev w1 = (Inr tmp, w2)"
    "LinkSetNsFd nl containerNs (Some tmp) (nl_here nl) w2 = (None, w3)" "LinkByName nl (nl_here nl) (lk_name tmp) w3 = Inr t"
    "LinkSetName nl (nl_here nl) (Some t) (lk_alias t) w3 = (None, w')"
    using assms(4) by (auto simp: moveLinkOut_def split: option.splits prod.splits sum.splits)
  have dev: "dev = l" using documented_lookup [OF D r(1) assms(2,3)] by simp
  let ?d1 = "l\<lparr>lk_up := False\<rparr>"
  have 1: "view w1 = (view w)(d \<mapsto> (containerNs, ?d1))" using ops(5) [OF assms(2) _ r(2)] dev by simp
  then have v1: "view w1 d = Some (containerNs, ?d1)" by simp
  have 2: "tmp = ?d1\<lparr>lk_name := temp_name l\<rparr>" "view w2 = (view w1)(d \<mapsto> (containerNs, tmp))"
    using setTempName_ok [OF D v1 _ r(3)] dev by simp_all
  then have v2: "view w2 d = Some (containerNs, tmp)" "\<not> lk_up tmp" by simp_all
  obtain k where k: "view w3 = (view w2)(d \<mapsto> (nl_here nl, tmp\<lparr>lk_index := k\<rparr>))"
    using ops(6) [OF v2(1) refl v2(2) r(4)] by blast
  then have v3: "view w3 d = Some (nl_here nl, tmp\<lparr>lk_index := k\<rparr>)" by simp
  have t: "t = tmp\<lparr>lk_index := k\<rparr>" using documented_lookup [OF D r(5) v3] by simp
  have "view w' = (view w3)(d \<mapsto> (nl_here nl, t\<lparr>lk_name := lk_alias t\<rparr>))" using ops(1) [OF v3 _ r(6)] t by simp
  then have "view w' = (view w)(d \<mapsto> (nl_here nl, t\<lparr>lk_name := lk_alias t\<rparr>))" using k 2(2) 1 by (auto simp: fun_eq_iff)
  then show ?thesis using t 2(1) by (intro exI [of _ k]) (cases l, simp)
qed

text \<open>
  C35. A device injected into a pod and released from it comes back as it was: if both moves report success
  and nobody touched the device in between, then the pod had it under its new name, up and with its
  old name as alias, and afterwards it is in the plugin's namespace under its old name. It stays down,
  keeps the alias, and may have another index; no other link is touched.
\<close>

theorem inject_release_roundtrip:
  assumes "documented nl view" and "view w d = Some (nl_here nl, l)" and "lk_name l = net_name n"
    and "inject nl path n w = (None, w1)" and "view w2 d = view w1 d" and "GetNS nl path w2 = GetNS nl path w"
    and "release nl path n w2 = (None, w3)"
  shows "(\<exists>pod k. GetNS nl path w = Inr pod \<and> view w1 = (view w)(d \<mapsto>
        (pod, l\<lparr>lk_name := net_new_name n, lk_index := k, lk_up := True, lk_alias := net_name n\<rparr>))) \<and>
    (\<exists>k. view w3 = (view w2)(d \<mapsto> (nl_here nl, l\<lparr>lk_index := k, lk_up := False, lk_alias := net_name n\<rparr>)))"
proof -
  obtain pod dev c where r: "GetNS nl path w = Inr pod" "LinkByName nl (nl_here nl) (net_name n) w = Inr dev"
    "moveLinkIn nl dev pod (net_new_name n) w = (Inr c, w1)"
    using assms(4) by (auto simp: inject_def split: sum.splits prod.splits)
  have dev: "dev = l" using documented_lookup [OF assms(1) r(2) assms(2,3)] by simp
  obtain k where k: "c = l\<lparr>lk_name := net_new_name n, lk_index := k, lk_up := True, lk_alias := net_name n\<rparr>"
    "view w1 = (view w)(d \<mapsto> (pod, c))"
    using moveLinkIn_moves [OF assms(1) _ r(3), of d] assms(2,3) dev by auto
  have out: "moveLinkOut nl pod (net_new_name n) w2 = (None, w3)" using assms(6,7) r(1) by (simp add: release_def)
  have v2: "view w2 d = Some (pod, c)" "lk_name c = net_new_name n" using assms(5) k by simp_all
  obtain k' where "view w3 = (view w2)(d \<mapsto> (nl_here nl, c\<lparr>lk_name := lk_alias c, lk_index := k', lk_up := False\<rparr>))"
    using moveLinkOut_moves [OF assms(1) v2 out] by blast
  then have "view w3 = (view w2)(d \<mapsto> (nl_here nl, l\<lparr>lk_index := k', lk_up := False, lk_alias := net_name n\<rparr>))"
    using k(1) assms(3) by (cases l) simp
  then show ?thesis using r(1) k by blast
qed

text \<open>
  A namespace for the plugin, one for the pod, and one link in one of them; some names are refused, and
  moves may be.
\<close>

definition answer :: "bool \<Rightarrow> 'w \<Rightarrow> 'w \<Rightarrow> string option \<times> 'w" where
  "answer ok w w' = (if ok then (None, w') else (Some ''refused'', w))"

definition one_link :: "string list \<Rightarrow> bool \<Rightarrow> (bool, bool \<times> link) netlink" where
  "one_link refused held_fast =
     (let is = (\<lambda>n ol w. n = fst w \<and> map_option lk_index ol = Some (lk_index (snd w))) in
      \<lparr>nl_here = False, GetCurrentNS = (\<lambda>w. None), GetNS = (\<lambda>path w. Inr True), Enter = (\<lambda>n w. None),
       LinkByName = (\<lambda>n nm w. if n = fst w \<and> nm = lk_name (snd w) then Inr (snd w) else Inl (''not found'', None)),
       LinkSetName = (\<lambda>n ol nm w. answer (is n ol w \<and> nm \<notin> set refused) w (fst w, (snd w)\<lparr>lk_name := nm\<rparr>)),
       LinkSetAlias = (\<lambda>n ol nm w. answer (is n ol w) w (fst w, (snd w)\<lparr>lk_alias := nm\<rparr>)),
       LinkSetUp = (\<lambda>n ol w. answer (is n ol w) w (fst w, (snd w)\<lparr>lk_up := True\<rparr>)),
       LinkSetDown = (\<lambda>n ol w. answer (is n ol w) w (fst w, (snd w)\<lparr>lk_up := False\<rparr>)),
       LinkSetNsFd = (\<lambda>n ol m w. answer (is n ol w \<and> \<not> held_fast) w (m, snd w))\<rparr>)"

definition its_place :: "bool \<times> link \<Rightarrow> unit \<Rightarrow> (bool \<times> link) option" where
  "its_place w d = Some w"

lemma one_link_documented: "documented (one_link refused held_fast) its_place"
proof -
  have "changes its_place (\<lambda>n ol w. answer (n = fst w \<and> map_option lk_index ol = Some (lk_index (snd w)) \<and> ok n) w (fst w, f (snd w))) f"
    for ok f by (auto simp: changes_def its_place_def answer_def fun_eq_iff split: if_splits)
  note c = this [where ok = "\<lambda>_. True", simplified] this [simplified]
  have m: "moves its_place (LinkSetNsFd (one_link refused held_fast))"
  proof -
    have i: "l\<lparr>lk_index := lk_index l\<rparr> = l" for l :: link by simp
    show ?thesis by (auto simp: moves_def its_place_def one_link_def answer_def fun_eq_iff Let_def split: if_splits)
        (metis i)+
  qed
  show ?thesis unfolding documented_def
    by (intro conjI m) (simp_all add: one_link_def Let_def c [where f = "lk_name_update _"] c its_place_def split: if_splits)
qed

lemmas one_link_ops = one_link_def answer_def Let_def

definition eth :: link where
  "eth = \<lparr>lk_name = ''eth1'', lk_index = 4, lk_up = True, lk_alias = ''''\<rparr>"

definition eth_in_pod :: link where
  "eth_in_pod = \<lparr>lk_name = ''sriov0'', lk_index = 4, lk_up = True, lk_alias = ''eth1''\<rparr>"

definition eth_device :: netdevice where
  "eth_device = \<lparr>net_name = ''eth1'', net_new_name = ''sriov0'', net_address = '''', net_prefix = 0, net_mtu = 0\<rparr>"

lemma eth_moves:
  "inject (one_link [] False) p eth_device (False, eth) = (None, True, eth_in_pod)"
  "release (one_link [] False) p eth_device (True, eth_in_pod) = (None, False, eth\<lparr>lk_up := False, lk_alias := ''eth1''\<rparr>)"
  by code_simp+

theorem inject_release_roundtrip_witness:
  "\<exists>k. its_place (False, eth\<lparr>lk_up := False, lk_alias := ''eth1''\<rparr>) () =
     Some (nl_here (one_link [] False), eth\<lparr>lk_index := k, lk_up := False, lk_alias := ''eth1''\<rparr>)"
proof -
  have "its_place (False, eth) () = Some (nl_here (one_link [] False), eth)" by code_simp
  moreover have "lk_name eth = net_name eth_device" "net_name eth_device = ''eth1''" by code_simp+
  ultimately show ?thesis
    using inject_release_roundtrip [OF one_link_documented _ _ eth_moves(1) refl _ eth_moves(2)]
    by (auto simp: one_link_def Let_def)
qed

text \<open>
  An injection that cannot give the device its temporary name leaves it down, whatever it was before: the
  deferred restore tests the variable that the failed call has just set to nil.
\<close>

theorem failed_temp_name_leaves_link_down:
  assumes "documented nl view" and "view w d = Some (nl_here nl, dev)"
    and "moveLinkIn nl dev containerNs ifName w = (Inl (NoTempName nm e), w')"
  shows "\<exists>nm'. view w' = (view w)(d \<mapsto> (nl_here nl, dev\<lparr>lk_up := False, lk_name := nm'\<rparr>))"
proof -
  have i: "fst (in_container nl c orig tmp ifn w) \<noteq> Inl (NoTempName nm e)" for c orig tmp ifn w
    by (auto simp: in_container_def Let_def split: option.splits prod.splits sum.splits)
  obtain w1 where r: "LinkSetDown nl (nl_here nl) (Some dev) w = (None, w1)"
    "setTempName nl (nl_here nl) dev w1 = (Inl e, w')"
    using assms(3) i
    by (auto simp: moveLinkIn_def restore_up_def split: option.splits prod.splits sum.splits) (metis fst_conv)+
  have 1: "view w1 = (view w)(d \<mapsto> (nl_here nl, dev\<lparr>lk_up := False\<rparr>))"
    by (rule documented_ops(5) [OF assms(1,2) refl r(1)])
  then show ?thesis using setTempName_failed [OF assms(1) _ _ r(2), of d "dev\<lparr>lk_up := False\<rparr>"] by auto
qed

theorem failed_temp_name_leaves_link_down_witness:
  "lk_up eth \<and> (let w' = snd (moveLinkIn (one_link [''temp_4''] False) eth True ''sriov0'' (False, eth)) in
     \<exists>nm. its_place w' = (its_place (False, eth))(() \<mapsto> (False, eth\<lparr>lk_up := False, lk_name := nm\<rparr>)))"
proof -
  have m: "moveLinkIn (one_link [''temp_4''] False) eth True ''sriov0'' (False, eth) =
      (Inl (NoTempName ''eth1'' (CannotRename ''eth1'' ''temp_4'' ''refused'')), False, eth\<lparr>lk_up := False\<rparr>)"
    by code_simp
  have p: "its_place (False, eth) () = Some (nl_here (one_link [''temp_4''] False), eth)" by code_simp
  have "nl_here (one_link [''temp_4''] False) = False" "lk_up eth" by code_simp+
  with m failed_temp_name_leaves_link_down [OF one_link_documented p m] show ?thesis by simp
qed

text \<open>
  C36. A release that cannot move the device out leaves it in the pod under the name it had, and down, even if it was
  up: the deferred function reads the flags of the link as looked up after it was set down. (Where giving the
  name back fails too, it keeps the temporary one.)
\<close>

theorem failed_release_leaves_link_down:
  assumes "documented nl view" and "view w d = Some (containerNs, l)" and "lk_name l = ifName"
    and "moveLinkOut nl containerNs ifName w = (Some (CannotMove nm e), w')"
  shows "\<exists>nm'. view w' = (view w)(d \<mapsto> (containerNs, l\<lparr>lk_up := False, lk_name := nm'\<rparr>)) \<and> nm' \<in> {ifName, temp_name l}"
proof -
  note ops = documented_ops [OF assms(1)]
  obtain dev w1 w2 w3 tmp where r: "LinkByName nl containerNs ifName w = Inr dev"
    "LinkSetDown nl containerNs (Some dev) w = (None, w1)" "setTempName nl containerNs dev w1 = (Inr tmp, w2)"
    "LinkSetNsFd nl containerNs (Some tmp) (nl_here nl) w2 = (Some e, w3)"
    "w' = restore_in_pod nl containerNs ifName tmp w3"
    using assms(4) by (auto simp: moveLinkOut_def split: option.splits prod.splits sum.splits)
  have dev: "dev = l" using documented_lookup [OF assms(1) r(1) assms(2,3)] by simp
  let ?d1 = "l\<lparr>lk_up := False\<rparr>"
  have 1: "view w1 = (view w)(d \<mapsto> (containerNs, ?d1))" using ops(5) [OF assms(2) _ r(2)] dev by simp
  then have v1: "view w1 d = Some (containerNs, ?d1)" by simp
  have 2: "tmp = ?d1\<lparr>lk_name := temp_name l\<rparr>" "view w2 = (view w1)(d \<mapsto> (containerNs, tmp))"
    using setTempName_ok [OF assms(1) v1 _ r(3)] dev by simp_all
  then have v2: "view w2 d = Some (containerNs, tmp)" "\<not> lk_up tmp" by simp_all
  have 3: "view w3 = (view w)(d \<mapsto> (containerNs, tmp))"
    using ops(7) [OF v2(1) refl v2(2) r(4)] 2(2) 1 by simp
  obtain st where n: "LinkSetName nl containerNs (Some tmp) ifName w3 = (st, w')"
    using r(5) v2(2) by (auto simp: restore_in_pod_def Let_def) (metis prod.collapse)
  show ?thesis
  proof (cases st)
    case None
    then have "view w' = (view w)(d \<mapsto> (containerNs, tmp\<lparr>lk_name := ifName\<rparr>))"
      using ops(1) [of w3 d containerNs tmp tmp ifName w'] n 3 by simp
    then show ?thesis using 2(1) by auto
  next
    case (Some x)
    then have "view w' = view w3" using ops(2) [of w3 d containerNs tmp tmp] n 3 by auto
    then show ?thesis using 3 2(1) by auto
  qed
qed

theorem failed_release_leaves_link_down_witness:
  "lk_up eth_in_pod \<and> (let w' = snd (moveLinkOut (one_link [] True) True ''sriov0'' (True, eth_in_pod)) in
     \<exists>nm. its_place w' = (its_place (True, eth_in_pod))(() \<mapsto> (True, eth_in_pod\<lparr>lk_up := False, lk_name := nm\<rparr>)) \<and>
       nm \<in> {''sriov0'', temp_name eth_in_pod})"
proof -
  have m: "moveLinkOut (one_link [] True) True ''sriov0'' (True, eth_in_pod) =
      (Some (CannotMove ''temp_4'' ''refused''), True, eth_in_pod\<lparr>lk_up := False\<rparr>)" by code_simp
  have p: "its_place (True, eth_in_pod) () = Some (True, eth_in_pod)" "lk_name eth_in_pod = ''sriov0''" by code_simp+
  have "lk_up eth_in_pod" by code_simp
  with m failed_release_leaves_link_down [OF one_link_documented p m] show ?thesis by simp
qed

end
