(* ===== verification/Loggers.thy ===== *)
theory Loggers
  imports Stub Adjustment Decimal
begin

text \<open>
  The plugin that writes what it is sent to a log (\<^verbatim>\<open>src/plugins/logger/nri-logger.go\<close>), and the
  template for new plugins (\<^verbatim>\<open>src/plugins/template/plugin.go\<close>), as the methods a stub takes over.

  \<^verbatim>\<open>yaml.Unmarshal\<close>, \<^verbatim>\<open>yaml.Marshal\<close>, opening a log file, the order of ranging over a map, the process id and the
  wording of errors are the environment. Log lines are kept in the plugin's state; those with Go's
  quoting of their arguments are constructors. A method whose signature is not that of the stub's
  interface is not among the plugin's methods.
\<close>

section \<open>Dumping objects\<close>

datatype dumped =
    DPods "pod_sandbox list"
  | DContainers "container list"
  | DPod "pod_sandbox option"
  | DContainer "container option"
  | DResources "linux_resources option"
  | DRequest validate_request

text \<open>The lines of a dumped object. All calls pass a prefix and then tags with their objects.\<close>

definition dump :: "(dumped \<Rightarrow> string + string) \<Rightarrow> string \<Rightarrow> (string \<times> dumped) list \<Rightarrow> string list" where
  "dump marshal pre args = concat (map (\<lambda>(tag, obj).
     case marshal obj of
       Inl err \<Rightarrow> [pre @ '': '' @ tag @ '': failed to dump object: '' @ err]
     | Inr msg \<Rightarrow>
         if pre \<noteq> [] then
           (pre @ '': '' @ tag @ '':'') # map (\<lambda>line. pre @ '':    '' @ line) (split_on (CHR 0x0A) (trim_space msg))
         else (tag @ '':'') # map (\<lambda>line. ''  '' @ line) (split_on (CHR 0x0A) (trim_space msg))) args)"

section \<open>The logger\<close>

record logger_config =
  lg_LogFile :: string
  lg_Events :: "string list"
  lg_AddAnnotation :: string
  lg_SetAnnotation :: string
  lg_AddEnv :: string
  lg_SetEnv :: string

datatype logger_error =
    BadConfiguration string
  | BadEvents event_error
  | CannotOpenLog string string

datatype log_entry =
    Line string
  | GotConfiguration string string string
  | OpenFailed string string

record logger =
  logger_cfg :: logger_config
  logger_mask :: event_mask
  logger_output :: string
  logger_log :: "log_entry list"
  logger_exit :: "int option"

record logger_env =
  le_unmarshal :: "string \<Rightarrow> logger_config \<Rightarrow> string option \<times> logger_config"
  le_marshal :: "dumped \<Rightarrow> string + string"
  le_open :: "string \<Rightarrow> string option"
  le_order :: "string list \<Rightarrow> string list"
  le_pid :: nat
  le_text :: "logger_error \<Rightarrow> string"

definition logs :: "log_entry list \<Rightarrow> logger \<Rightarrow> logger" where
  "logs es p = p\<lparr>logger_log := logger_log p @ es\<rparr>"

definition dumps :: "logger_env \<Rightarrow> string \<Rightarrow> (string \<times> dumped) list \<Rightarrow> logger \<Rightarrow> logger" where
  "dumps env pre args = logs (map Line (dump (le_marshal env) pre args))"

text \<open>A configuration that cannot be decoded may still have changed the settings decoded before the error.\<close>

definition Logger_Configure ::
    "logger_env \<Rightarrow> string \<Rightarrow> string \<Rightarrow> string \<Rightarrow> logger \<Rightarrow> (event_mask \<times> string option) \<times> logger" where
  "Logger_Configure env config runtime version p0 =
     (let p = logs [GotConfiguration config runtime version] p0; oldCfg = logger_cfg p in
      if config = [] then ((logger_mask p, None), p)
      else (case le_unmarshal env config oldCfg of
              (Some err, c) \<Rightarrow> ((0, Some (le_text env (BadConfiguration err))), p\<lparr>logger_cfg := c\<rparr>)
            | (None, c) \<Rightarrow>
               (case ParseEventMask (le_order env) (lg_Events c) of
                  (Failed err, m) \<Rightarrow>
                    ((0, Some (le_text env (BadEvents err))), p\<lparr>logger_cfg := c, logger_mask := m\<rparr>)
                | (_, m) \<Rightarrow>
                    (let q = p\<lparr>logger_cfg := c, logger_mask := m\<rparr>; file = lg_LogFile c in
                     if file \<noteq> lg_LogFile oldCfg
                     then (case le_open env file of
                             Some err \<Rightarrow> ((0, Some (le_text env (CannotOpenLog file err))), logs [OpenFailed file err] q)
                           | None \<Rightarrow> ((m, None), q\<lparr>logger_output := file\<rparr>))
                     else ((m, None), q)))))"

definition Logger_Synchronize ::
    "logger_env \<Rightarrow> pod_sandbox list \<Rightarrow> container list \<Rightarrow> logger \<Rightarrow> (updates \<times> string option) \<times> logger" where
  "Logger_Synchronize env pods containers p =
     (([], None), dumps env ''Synchronize'' [(''pods'', DPods pods), (''containers'', DContainers containers)] p)"

definition Logger_Shutdown :: "logger_env \<Rightarrow> logger \<Rightarrow> logger" where
  "Logger_Shutdown env = dumps env ''Shutdown'' []"

definition Logger_RunPodSandbox :: "logger_env \<Rightarrow> logger pod_notice" where
  "Logger_RunPodSandbox env pod p = (None, dumps env ''RunPodSandbox'' [(''pod'', DPod pod)] p)"

definition Logger_UpdatePodSandbox ::
    "logger_env \<Rightarrow> pod_sandbox option \<Rightarrow> linux_resources option \<Rightarrow> linux_resources option \<Rightarrow> logger \<Rightarrow> string option \<times> logger" where
  "Logger_UpdatePodSandbox env pod overHeadResources resources p =
     (None, dumps env ''UpdatePodSandbox'' [(''pod'', DPod pod),
        (''overHeadResources'', DResources overHeadResources), (''resources'', DResources resources)] p)"

definition Logger_PostUpdatePodSandbox :: "logger_env \<Rightarrow> logger pod_notice" where
  "Logger_PostUpdatePodSandbox env pod p = (None, dumps env ''PostUpdatePodSandbox'' [(''pod'', DPod pod)] p)"

definition Logger_StopPodSandbox :: "logger_env \<Rightarrow> logger pod_notice" where
  "Logger_StopPodSandbox env pod p = (None, dumps env ''StopPodSandbox'' [(''pod'', DPod pod)] p)"

definition Logger_RemovePodSandbox :: "logger_env \<Rightarrow> logger pod_notice" where
  "Logger_RemovePodSandbox env pod p = (None, dumps env ''RemovePodSandbox'' [(''pod'', DPod pod)] p)"

definition logger_tag :: "logger_env \<Rightarrow> string" where
  "logger_tag env = ''logger-pid-'' @ print_nat (le_pid env)"

definition logger_adjustment :: "logger_env \<Rightarrow> logger_config \<Rightarrow> container_adjustment" where
  "logger_adjustment env c =
     (let a = zero_adjustment;
          a = (if lg_AddAnnotation c \<noteq> [] then Adjustment_AddAnnotation (lg_AddAnnotation c) (logger_tag env) a else a);
          a = (if lg_SetAnnotation c \<noteq> []
               then Adjustment_AddAnnotation (lg_SetAnnotation c) (logger_tag env) (Adjustment_RemoveAnnotation (lg_SetAnnotation c) a)
               else a);
          a = (if lg_AddEnv c \<noteq> [] then Adjustment_AddEnv (lg_AddEnv c) (logger_tag env) a else a)
      in if lg_SetEnv c \<noteq> []
         then Adjustment_AddEnv (lg_SetEnv c) (logger_tag env) (Adjustment_RemoveEnv (lg_SetEnv c) a)
         else a)"

definition Logger_CreateContainer ::
    "logger_env \<Rightarrow> pod_sandbox option \<Rightarrow> container option \<Rightarrow> logger \<Rightarrow>
     (container_adjustment option \<times> updates \<times> string option) \<times> logger" where
  "Logger_CreateContainer env pod ctr p =
     (let p = dumps env ''CreateContainer'' [(''pod'', DPod pod), (''container'', DContainer ctr)] p in
      ((Some (logger_adjustment env (logger_cfg p)), [], None), p))"

definition Logger_PostCreateContainer :: "logger_env \<Rightarrow> logger container_notice" where
  "Logger_PostCreateContainer env pod ctr p =
     (None, dumps env ''PostCreateContainer'' [(''pod'', DPod pod), (''container'', DContainer ctr)] p)"

definition Logger_StartContainer :: "logger_env \<Rightarrow> logger container_notice" where
  "Logger_StartContainer env pod ctr p =
     (None, dumps env ''StartContainer'' [(''pod'', DPod pod), (''container'', DContainer ctr)] p)"

definition Logger_PostStartContainer :: "logger_env \<Rightarrow> logger container_notice" where
  "Logger_PostStartContainer env pod ctr p =
     (None, dumps env ''PostStartContainer'' [(''pod'', DPod pod), (''container'', DContainer ctr)] p)"

definition Logger_UpdateContainer ::
    "logger_env \<Rightarrow> pod_sandbox option \<Rightarrow> container option \<Rightarrow> linux_resources option \<Rightarrow> logger \<Rightarrow>
     (updates \<times> string option) \<times> logger" where
  "Logger_UpdateContainer env pod ctr r p =
     (([], None), dumps env ''UpdateContainer'' [(''pod'', DPod pod), (''container'', DContainer ctr), (''resources'', DResources r)] p)"

definition Logger_PostUpdateContainer :: "logger_env \<Rightarrow> logger container_notice" where
  "Logger_PostUpdateContainer env pod ctr p =
     (None, dumps env ''PostUpdateContainer'' [(''pod'', DPod pod), (''container'', DContainer ctr)] p)"

definition Logger_StopContainer ::
    "logger_env \<Rightarrow> pod_sandbox option \<Rightarrow> container option \<Rightarrow> logger \<Rightarrow> (updates \<times> string option) \<times> logger" where
  "Logger_StopContainer env pod ctr p =
     (([], None), dumps env ''StopContainer'' [(''pod'', DPod pod), (''container'', DContainer ctr)] p)"

definition Logger_RemoveContainer :: "logger_env \<Rightarrow> logger container_notice" where
  "Logger_RemoveContainer env pod ctr p =
     (None, dumps env ''RemoveContainer'' [(''pod'', DPod pod), (''container'', DContainer ctr)] p)"

definition Logger_ValidateContainerAdjustment :: "logger_env \<Rightarrow> validate_request \<Rightarrow> logger \<Rightarrow> string option \<times> logger" where
  "Logger_ValidateContainerAdjustment env req p =
     (None, dumps env ''ValidateContainerAdjustment'' [(''request'', DRequest req)] p)"

definition Logger_onClose :: "logger \<Rightarrow> logger" where
  "Logger_onClose p = (logs [Line ''Connection to the runtime lost, exiting...''] p)\<lparr>logger_exit := Some 1\<rparr>"

text \<open>The methods a stub finds: \<^verbatim>\<open>Shutdown\<close> takes no context and so is none of them.\<close>

definition logger_methods :: "logger_env \<Rightarrow> logger handlers" where
  "logger_methods env =
     \<lparr>sh_Configure = Some (Logger_Configure env), sh_Synchronize = Some (Logger_Synchronize env), sh_Shutdown = None,
      sh_RunPodSandbox = Some (Logger_RunPodSandbox env), sh_UpdatePodSandbox = Some (Logger_UpdatePodSandbox env),
      sh_StopPodSandbox = Some (Logger_StopPodSandbox env), sh_RemovePodSandbox = Some (Logger_RemovePodSandbox env),
      sh_PostUpdatePodSandbox = Some (Logger_PostUpdatePodSandbox env),
      sh_CreateContainer = Some (Logger_CreateContainer env), sh_StartContainer = Some (Logger_StartContainer env),
      sh_UpdateContainer = Some (Logger_UpdateContainer env), sh_StopContainer = Some (Logger_StopContainer env),
      sh_RemoveContainer = Some (Logger_RemoveContainer env),
      sh_PostCreateContainer = Some (Logger_PostCreateContainer env),
      sh_PostStartContainer = Some (Logger_PostStartContainer env),
      sh_PostUpdateContainer = Some (Logger_PostUpdateContainer env),
      sh_ValidateContainerAdjustment = Some (Logger_ValidateContainerAdjustment env)\<rparr>"

record logger_flags =
  fl_idx :: string
  fl_socket :: string
  fl_events :: string
  fl_cfg :: logger_config

text \<open>
  \<^verbatim>\<open>main\<close> up to the run of the stub: the plugin and its stub, or nothing where it exits with a fatal error.
\<close>

definition Logger_main ::
    "logger_env \<Rightarrow> string \<Rightarrow> string \<Rightarrow> string \<Rightarrow> (string \<Rightarrow> string + 'c) \<Rightarrow> logger_flags \<Rightarrow> ((logger, 'c) stub \<times> logger) option" where
  "Logger_main env name idx base dial fl =
     (let file = lg_LogFile (fl_cfg fl);
          opts = (if fl_idx fl \<noteq> [] then [WithPluginIdx (fl_idx fl)] else []) @
                 (if fl_socket fl \<noteq> [] then [WithSocketPath (fl_socket fl)] else []);
          (ok, mask) = (if fl_events fl \<noteq> [] then ParseEventMask (le_order env) [fl_events fl] else (Done, 0));
          p = \<lparr>logger_cfg = (fl_cfg fl)\<lparr>lg_Events := split_on CHR '','' (fl_events fl)\<rparr>, logger_mask = mask,
               logger_output = file, logger_log = [], logger_exit = None\<rparr>
      in if file \<noteq> [] \<and> le_open env file \<noteq> None then None
         else if ok \<noteq> Done then None
         else (case New (logger_methods env) name idx base dial (opts @ [WithOnClose Logger_onClose]) of
                 (Done, s) \<Rightarrow> Some (s, p)
               | _ \<Rightarrow> None))"

section \<open>The template\<close>

record template =
  tp_cfgParam1 :: string
  tp_log :: "string list"
  tp_exit :: "int option"

definition tells :: "string \<Rightarrow> template \<Rightarrow> template" where
  "tells line p = p\<lparr>tp_log := tp_log p @ [line]\<rparr>"

definition pod_path :: "pod_sandbox option \<Rightarrow> string" where
  "pod_path pod = (case pod of None \<Rightarrow> ''/'' | Some q \<Rightarrow> pod_namespace q @ ''/'' @ pod_name q)"

definition container_path :: "pod_sandbox option \<Rightarrow> container option \<Rightarrow> string" where
  "container_path pod ctr = pod_path pod @ ''/'' @ (case ctr of None \<Rightarrow> [] | Some c \<Rightarrow> ctr_name c)"

text \<open>The configuration is printed after the format string, which \<^verbatim>\<open>Info\<close> does not interpret.\<close>

definition Template_Configure ::
    "(string \<Rightarrow> string \<Rightarrow> string option \<times> string) \<Rightarrow> (string \<Rightarrow> string) \<Rightarrow>
     string \<Rightarrow> string \<Rightarrow> string \<Rightarrow> template \<Rightarrow> (event_mask \<times> string option) \<times> template" where
  "Template_Configure unmarshal text config runtime version p0 =
     (let p = tells (''Connected to '' @ runtime @ ''/'' @ version @ ''...'') p0 in
      if config = [] then ((0, None), p)
      else (case unmarshal config (tp_cfgParam1 p) of
              (Some err, c) \<Rightarrow> ((0, Some (text err)), p\<lparr>tp_cfgParam1 := c\<rparr>)
            | (None, c) \<Rightarrow> ((0, None), tells (''Got configuration data %+v...{'' @ c @ ''}'') (p\<lparr>tp_cfgParam1 := c\<rparr>))))"

definition Template_Synchronize ::
    "pod_sandbox list \<Rightarrow> container list \<Rightarrow> template \<Rightarrow> (updates \<times> string option) \<times> template" where
  "Template_Synchronize pods containers p =
     (([], None), tells (''Synchronized state with the runtime ('' @ print_nat (length pods) @ '' pods, '' @
        print_nat (length containers) @ '' containers)...'') p)"

definition Template_Shutdown :: "template \<Rightarrow> template" where
  "Template_Shutdown = tells ''Runtime shutting down...''"

definition Template_RunPodSandbox :: "template pod_notice" where
  "Template_RunPodSandbox pod p = (None, tells (''Started pod '' @ pod_path pod @ ''...'') p)"

definition Template_StopPodSandbox :: "template pod_notice" where
  "Template_StopPodSandbox pod p = (None, tells (''Stopped pod '' @ pod_path pod @ ''...'') p)"

definition Template_RemovePodSandbox :: "template pod_notice" where
  "Template_RemovePodSandbox pod p = (None, tells (''Removed pod '' @ pod_path pod @ ''...'') p)"

definition Template_CreateContainer ::
    "pod_sandbox option \<Rightarrow> container option \<Rightarrow> template \<Rightarrow> (container_adjustment option \<times> updates \<times> string option) \<times> template" where
  "Template_CreateContainer pod ctr p =
     ((Some zero_adjustment, [], None), tells (''Creating container '' @ container_path pod ctr @ ''...'') p)"

definition Template_PostCreateContainer :: "template container_notice" where
  "Template_PostCreateContainer pod ctr p = (None, tells (''Created container '' @ container_path pod ctr @ ''...'') p)"

definition Template_StartContainer :: "template container_notice" where
  "Template_StartContainer pod ctr p = (None, tells (''Starting container '' @ container_path pod ctr @ ''...'') p)"

definition Template_PostStartContainer :: "template container_notice" where
  "Template_PostStartContainer pod ctr p = (None, tells (''Started container '' @ container_path pod ctr @ ''...'') p)"

definition Template_UpdateContainer ::
    "pod_sandbox option \<Rightarrow> container option \<Rightarrow> linux_resources option \<Rightarrow> template \<Rightarrow> (updates \<times> string option) \<times> template" where
  "Template_UpdateContainer pod ctr r p = (([], None), tells (''Updating container '' @ container_path pod ctr @ ''...'') p)"

definition Template_PostUpdateContainer :: "template container_notice" where
  "Template_PostUpdateContainer pod ctr p = (None, tells (''Updated container '' @ container_path pod ctr @ ''...'') p)"

definition Template_StopContainer ::
    "pod_sandbox option \<Rightarrow> container option \<Rightarrow> template \<Rightarrow> (updates \<times> string option) \<times> template" where
  "Template_StopContainer pod ctr p = (([], None), tells (''Stopped container '' @ container_path pod ctr @ ''...'') p)"

definition Template_RemoveContainer :: "template container_notice" where
  "Template_RemoveContainer pod ctr p = (None, tells (''Removed container '' @ container_path pod ctr @ ''...'') p)"

definition Template_onClose :: "template \<Rightarrow> template" where
  "Template_onClose p = (tells ''Connection to the runtime lost, exiting...'' p)\<lparr>tp_exit := Some 1\<rparr>"

definition template_methods ::
    "(string \<Rightarrow> string \<Rightarrow> string option \<times> string) \<Rightarrow> (string \<Rightarrow> string) \<Rightarrow> template handlers" where
  "template_methods unmarshal text = nil_handlers
     \<lparr>sh_Configure := Some (Template_Configure unmarshal text), sh_Synchronize := Some Template_Synchronize,
      sh_Shutdown := Some Template_Shutdown, sh_RunPodSandbox := Some Template_RunPodSandbox,
      sh_StopPodSandbox := Some Template_StopPodSandbox, sh_RemovePodSandbox := Some Template_RemovePodSandbox,
      sh_CreateContainer := Some Template_CreateContainer, sh_StartContainer := Some Template_StartContainer,
      sh_UpdateContainer := Some Template_UpdateContainer, sh_StopContainer := Some Template_StopContainer,
      sh_RemoveContainer := Some Template_RemoveContainer, sh_PostCreateContainer := Some Template_PostCreateContainer,
      sh_PostStartContainer := Some Template_PostStartContainer,
      sh_PostUpdateContainer := Some Template_PostUpdateContainer\<rparr>"

definition Template_main ::
    "(string \<Rightarrow> string \<Rightarrow> string option \<times> string) \<Rightarrow> (string \<Rightarrow> string) \<Rightarrow> string \<Rightarrow> string \<Rightarrow> string \<Rightarrow> (string \<Rightarrow> string + 'c) \<Rightarrow>
     string \<Rightarrow> string \<Rightarrow> string \<Rightarrow> stub_error status \<times> (template, 'c) stub" where
  "Template_main unmarshal text name idx base dial pluginName pluginIdx socketPath =
     New (template_methods unmarshal text) name idx base dial
       ([WithOnClose Template_onClose] @
        (if pluginName \<noteq> [] then [WithPluginName pluginName] else []) @
        (if pluginIdx \<noteq> [] then [WithPluginIdx pluginIdx] else []) @
        (if socketPath \<noteq> [] then [WithSocketPath socketPath] else []))"

end
