(* ===== verification/Logger_Laws.thy ===== *)
theory Logger_Laws
  imports Stub_Laws Adjust_Map_Laws Loggers
begin

text \<open>
  The logger together with the stub that runs it and with the runtime that applies its replies.
\<close>

section \<open>Configuration\<close>

lemma ParseEventMask_empty: "ParseEventMask ord [[]] = (Failed (UnknownEvent []), 0)"
  by (simp add: ParseEventMask_def for_each_def parse_event_def to_lower_def trim_space_def event_bits_def)

lemma Logger_main_cases:
  assumes "Logger_main env name idx base dial fl = Some (s, p)"
  shows "st_handlers s = logger_methods env" and "logger_cfg p = (fl_cfg fl)\<lparr>lg_Events := split_on CHR '','' (fl_events fl)\<rparr>"
proof -
  let ?opts = "((if fl_idx fl \<noteq> [] then [WithPluginIdx (fl_idx fl)] else []) @
      (if fl_socket fl \<noteq> [] then [WithSocketPath (fl_socket fl)] else [])) @ [WithOnClose Logger_onClose]"
  have n: "New (logger_methods env) name idx base dial ?opts = (Done, s)"
    using assms by (auto simp: Logger_main_def Let_def split: prod.splits if_splits status.splits)
  have "\<forall>opt \<in> set ?opts. plain_option opt"
    by (auto simp: options_plain)
  with n show "st_handlers s = logger_methods env" by (rule New_handlers(1))
  show "logger_cfg p = (fl_cfg fl)\<lparr>lg_Events := split_on CHR '','' (fl_events fl)\<rparr>"
    using assms by (auto simp: Logger_main_def Let_def split: prod.splits if_splits status.splits)
qed

text \<open>
  A logger started without a list of events refuses every configuration that does not name events: the empty list was
  split into one empty name, which no event has. So its stub fails, and the runtime drops the plugin.
\<close>

theorem logger_needs_events:
  assumes "Logger_main env name idx base dial fl = Some (s, p)" and "fl_events fl = []" and "cq_config req \<noteq> []"
    and "le_unmarshal env (cq_config req) (logger_cfg p) = (None, c)" and "lg_Events c = lg_Events (logger_cfg p)"
  shows "fst (Stub_Configure req s p) = Inl (PluginConfigureFailed (le_text env (BadEvents (UnknownEvent []))))"
proof -
  have "lg_Events c = [[]]" using Logger_main_cases(2) [OF assms(1)] assms(2,5) by simp
  then have "ParseEventMask (le_order env) (lg_Events c) = (Failed (UnknownEvent []), 0)" by (simp add: ParseEventMask_empty)
  then show ?thesis
    using assms(3,4) Logger_main_cases(1) [OF assms(1)]
    by (simp add: Stub_Configure_def Logger_Configure_def Let_def logger_methods_def logs_def)
qed

definition quiet_env :: logger_env where
  "quiet_env = \<lparr>le_unmarshal = (\<lambda>text c. (None, c\<lparr>lg_AddEnv := text\<rparr>)), le_marshal = (\<lambda>_. Inr ''...''), le_open = (\<lambda>_. None),
     le_order = id, le_pid = 4711, le_text = (\<lambda>_. ''failed to parse events in configuration'')\<rparr>"

definition no_settings :: logger_config where
  "no_settings = \<lparr>lg_LogFile = [], lg_Events = [], lg_AddAnnotation = [], lg_SetAnnotation = [], lg_AddEnv = [], lg_SetEnv = []\<rparr>"

theorem logger_needs_events_witness:
  "let fl = \<lparr>fl_idx = ''10'', fl_socket = [], fl_events = [], fl_cfg = no_settings\<rparr>;
       req = \<lparr>cq_config = ''PID'', cq_runtime_name = ''containerd'', cq_runtime_version = ''2'',
              cq_registration_timeout = 5000, cq_request_timeout = 2000\<rparr>;
       (s, p) = the (Logger_main quiet_env [] [] ''logger'' (\<lambda>_. Inr ()) fl)
   in fst (Stub_Configure req s p) = Inl (PluginConfigureFailed ''failed to parse events in configuration'')"
proof -
  let ?fl = "\<lparr>fl_idx = ''10'', fl_socket = [], fl_events = [], fl_cfg = no_settings\<rparr>"
  let ?req = "\<lparr>cq_config = ''PID'', cq_runtime_name = ''containerd'', cq_runtime_version = ''2'',
              cq_registration_timeout = 5000, cq_request_timeout = 2000\<rparr>"
  let ?main = "Logger_main quiet_env [] [] ''logger'' (\<lambda>_. Inr ()) ?fl"
  have le: "le_text quiet_env e = ''failed to parse events in configuration''" for e by (simp add: quiet_env_def)
  have "table_mask (method_table (logger_methods quiet_env)) \<noteq> 0"
    unfolding table_mask_def
    by (simp add: method_table_def logger_methods_def for_each_Cons Set_word event_bits_1_14) (simp add: event_word_def event_bit_def)
  then have "fst (New (logger_methods quiet_env) [] [] ''logger'' (\<lambda>_. Inr ()) [WithPluginIdx ''10'', WithOnClose Logger_onClose]) = Done"
    by (simp add: New_def setupHandlers_eq fresh_stub_def WithPluginIdx_def WithOnClose_def CheckPluginIndex_def is_digit_def
        ensureIdentity_def)
  then obtain s p where m: "?main = Some (s, p)"
    by (cases "New (logger_methods quiet_env) [] [] ''logger'' (\<lambda>_. Inr ()) [WithPluginIdx ''10'', WithOnClose Logger_onClose]")
      (auto simp: Logger_main_def Let_def no_settings_def)
  have "fst (Stub_Configure ?req s p) = Inl (PluginConfigureFailed (le_text quiet_env (BadEvents (UnknownEvent []))))"
    by (rule logger_needs_events [OF m, where c = "(logger_cfg p)\<lparr>lg_AddEnv := ''PID''\<rparr>"]) (simp_all add: quiet_env_def)
  then show ?thesis using m by (simp add: Let_def le)
qed

section \<open>Replies\<close>

definition logger_annotations :: "logger_env \<Rightarrow> logger_config \<Rightarrow> (string, string) gomap" where
  "logger_annotations env c =
     (let m = (if lg_AddAnnotation c = [] then [] else [(lg_AddAnnotation c, logger_tag env)])
      in if lg_SetAnnotation c = [] then m
         else AList.update (lg_SetAnnotation c) (logger_tag env) (AList.update (MarkForRemoval (lg_SetAnnotation c)) [] m))"

lemma logger_adjustment_annotations:
  assumes "lg_AddEnv c = []" and "lg_SetEnv c = []"
  shows "logger_adjustment env c = zero_adjustment\<lparr>adj_annotations :=
     if lg_AddAnnotation c = [] \<and> lg_SetAnnotation c = [] then None else Some (logger_annotations env c)\<rparr>"
  using assms
  by (simp add: logger_adjustment_def logger_annotations_def Let_def Adjustment_AddAnnotation_def Adjustment_RemoveAnnotation_def
      initAnnotations_def alloc_def at_key_def zero_adjustment_def)

lemma logger_annotations_ok:
  assumes "unmarked (lg_AddAnnotation c)" and "unmarked (lg_SetAnnotation c)"
  shows "gomap_ok (logger_annotations env c)"
    and "set_value (logger_annotations env c) k =
      (if k \<in> {lg_AddAnnotation c, lg_SetAnnotation c} \<and> k \<noteq> [] then Some (logger_tag env) else None)"
    and "may_set_all op cid slot p (fst ` set (logger_annotations env c)) \<longleftrightarrow>
      lg_AddAnnotation c = [] \<or> lg_AddAnnotation c = lg_SetAnnotation c \<or> may_claim p (owner_view op (cid, slot (lg_AddAnnotation c)))"
proof -
  have u: "unmarked x \<Longrightarrow> MarkForRemoval y \<noteq> x" "\<not> unmarked (MarkForRemoval y)"
      "MarkForRemoval x = MarkForRemoval y \<longleftrightarrow> x = y" "x \<noteq> MarkForRemoval x" for x y
    by (auto simp: unmarked_iff MarkForRemoval_def)
  show "gomap_ok (logger_annotations env c)"
    by (simp add: logger_annotations_def Let_def gomap_ok_def distinct_update)
  show "set_value (logger_annotations env c) k =
      (if k \<in> {lg_AddAnnotation c, lg_SetAnnotation c} \<and> k \<noteq> [] then Some (logger_tag env) else None)"
    using assms u by (auto simp: set_value_def logger_annotations_def Let_def update_conv')
  show "may_set_all op cid slot p (fst ` set (logger_annotations env c)) \<longleftrightarrow>
      lg_AddAnnotation c = [] \<or> lg_AddAnnotation c = lg_SetAnnotation c \<or> may_claim p (owner_view op (cid, slot (lg_AddAnnotation c)))"
    using assms u by (auto simp: may_set_all_def logger_annotations_def Let_def dom_update)
qed

lemma adjust_annotations_only:
  assumes "create_container s = Some c"
  shows "adjust ord (Some (zero_adjustment\<lparr>adj_annotations := es\<rparr>)) plugin s =
    (case adjustAnnotations ord es plugin s of (Done, t) \<Rightarrow> (if create_container t = None then (Panicked, t) else (Done, t)) | r \<Rightarrow> r)"
  by (auto simp: adjust_def zero_adjustment_def adjustMounts_def adjustEnv_def adjustArgs_def adjustHooks_def adjustRlimits_def
      adjustCDIDevices_def with_id_def split: prod.splits status.splits option.splits)

text \<open>
  C39. The logger's annotations, from its configuration, if it sets and adds no environment variables, to the container: its reply is accepted exactly if it adds no
  annotation, or adds the one it sets, or adds one that the plugin may claim; the annotation it sets, as it
  is removed first, never conflicts. Once accepted, both annotations carry its process id and all others are as before.
\<close>

theorem logger_annotates:
  assumes "create_container s = Some ctr" and "rp_adjust (rs_reply s) = Some a"
    and "ctr_annotations ctr = Some m" and "adj_annotations a = Some n" and "is_order ord"
    and "unmarked (lg_AddAnnotation c)" and "unmarked (lg_SetAnnotation c)" and "lg_AddEnv c = []" and "lg_SetEnv c = []"
    and "adjust ord (Some (logger_adjustment env c)) plugin s = (st, t)"
  shows "(st = Done \<longleftrightarrow> lg_AddAnnotation c = [] \<or> lg_AddAnnotation c = lg_SetAnnotation c \<or>
      may_claim plugin (owner_view (rs_owners s) (ctr_id ctr, CompoundSlot Field_Annotations (lg_AddAnnotation c)))) \<and>
    (st = Done \<longrightarrow> (\<exists>m'. create_container t = Some (ctr\<lparr>ctr_annotations := Some m'\<rparr>) \<and>
      map_of m' = (\<lambda>k. if k \<in> {lg_AddAnnotation c, lg_SetAnnotation c} \<and> k \<noteq> [] then Some (logger_tag env) else map_of m k)))"
proof -
  let ?e = "logger_annotations env c"
  note adj = logger_adjustment_annotations [OF assms(8,9), of env]
  note ok = logger_annotations_ok [OF assms(6,7), where env = env]
  show ?thesis
  proof (cases "lg_AddAnnotation c = [] \<and> lg_SetAnnotation c = []")
    case True
    have "ctr\<lparr>ctr_annotations := Some m\<rparr> = ctr" using assms(3) by (cases ctr) simp
    moreover have "st = Done \<and> t = s"
      using assms(1,10) True by (simp add: adj adjust_annotations_only [OF assms(1)] adjustAnnotations_def gmap_entries_def)
    ultimately show ?thesis using True assms(1) by (auto intro!: exI [of _ m])
  next
    case False
    then have ne: "?e \<noteq> []" by (auto simp: logger_annotations_def Let_def update_nonempty)
    obtain st' t' where r: "adjustAnnotations ord (Some ?e) plugin s = (st', t')" by fastforce
    note spec = adjustAnnotations_spec [OF assms(1-4) ok(1) assms(5) ne r]
    have "st = st' \<and> t = t'"
      using assms(10) False spec r by (cases st') (auto simp: adj adjust_annotations_only [OF assms(1)])
    then have same: "st = st'" "t = t'" by simp_all
    have eq: "map_of m ++ set_value ?e =
        (\<lambda>k. if k \<in> {lg_AddAnnotation c, lg_SetAnnotation c} \<and> k \<noteq> [] then Some (logger_tag env) else map_of m k)"
      by (simp add: fun_eq_iff map_add_def ok(2))
    have "\<exists>m'. create_container t' = Some (ctr\<lparr>ctr_annotations := Some m'\<rparr>) \<and> map_of m' = map_of m ++ set_value ?e"
      if "st' = Done" using spec that by fast
    with conjunct1 [OF spec] show ?thesis unfolding same ok(3) eq by (rule conjI [OF _ impI])
  qed
qed

theorem logger_annotates_witness:
  "\<exists>t m'. adjust id (Some (logger_adjustment quiet_env (no_settings\<lparr>lg_AddAnnotation := ''seen'', lg_SetAnnotation := ''by''\<rparr>))) ''10-a''
       (fresh_result (zero_container\<lparr>ctr_annotations := Some [(''by'', ''them''), (''x'', ''y'')]\<rparr>)) = (Done, t) \<and>
     map_option ctr_annotations (create_container t) = Some (Some m') \<and>
     map_of m' ''by'' = Some ''logger-pid-4711'' \<and> map_of m' ''x'' = Some ''y''"
proof -
  let ?ctr = "zero_container\<lparr>ctr_annotations := Some [(''by'', ''them''), (''x'', ''y'')]\<rparr>"
  let ?c = "no_settings\<lparr>lg_AddAnnotation := ''seen'', lg_SetAnnotation := ''by''\<rparr>"
  obtain st t where r: "adjust id (Some (logger_adjustment quiet_env ?c)) ''10-a'' (fresh_result ?ctr) = (st, t)" by fastforce
  have m: "ctr_annotations (prepare_container ?ctr) = Some [(''by'', ''them''), (''x'', ''y'')]"
    by (simp add: prepare_container_def alloc_def)
  have n: "adj_annotations empty_adjustment = Some []" by (simp add: empty_adjustment_def)
  have tag: "logger_tag quiet_env = ''logger-pid-4711''"
    by (simp add: logger_tag_def quiet_env_def print_nat.simps) code_simp
  have "unmarked (lg_AddAnnotation ?c)" "unmarked (lg_SetAnnotation ?c)" "lg_AddEnv ?c = []" "lg_SetEnv ?c = []"
    by (simp_all add: no_settings_def unmarked_def IsMarkedForRemoval_def)
  note spec = logger_annotates [OF fresh_parts(1,2) m n _ this r]
  have "st = Done" "\<exists>m'. create_container t = Some ((prepare_container ?ctr)\<lparr>ctr_annotations := Some m'\<rparr>) \<and>
      map_of m' ''by'' = Some ''logger-pid-4711'' \<and> map_of m' ''x'' = Some ''y''"
    using spec by (auto simp: is_order_def may_claim_def no_settings_def tag)
  with r show ?thesis by auto
qed

end
