(* ===== verification/Differ.thy ===== *)
theory Differ
  imports Loggers
begin

text \<open>
  The plugin that connects several times, at different indices, and prints what the plugins between two of its indices
  changed (\<^verbatim>\<open>src/plugins/differ/nri-differ.go\<close>). Its instances share the map of indices, each with
  the queue of the values its successor has yet to look at, and the log.

  The two packages that compare values, YAML, opening a log file and the wording of errors are the environment.
  A call through a nil queue ends the process (\<open>df_exit\<close>). The log is at its standard level, without debug lines.
\<close>

section \<open>State\<close>

text \<open>A value that is set is present.\<close>

record changed_value =
  cv_pod :: "pod_sandbox option"
  cv_container :: "container option"

record plugin_index =
  prevIndex :: int
  nextIndex :: int
  prevValues :: "changed_value list option"

record differ_config =
  dc_Indices :: string
  dc_LogFile :: string
  dc_SocketPath :: string
  dc_VerboseLevel :: int
  dc_Yaml :: bool

record differ_state =
  df_cfg :: differ_config
  df_indices :: "int \<Rightarrow> plugin_index option"
  df_output :: string
  df_log :: "string list"
  df_exit :: "int option"

text \<open>An instance of the plugin.\<close>

record differ_plugin =
  dp_mask :: event_mask
  dp_name :: string
  dp_idx :: int

text \<open>A change with its two values as they print; what \<^verbatim>\<open>yamldiff\<close> finds in two documents.\<close>

record change =
  ch_type :: string
  ch_path :: "string list"
  ch_from :: string
  ch_to :: string

record differ_env =
  de_marshal :: "dumped \<Rightarrow> string + string"
  de_diff :: "dumped \<Rightarrow> dumped \<Rightarrow> string + change list"
  de_yamldiff :: "string \<Rightarrow> string \<Rightarrow> (bool \<times> string) list"
  de_unmarshal :: "string \<Rightarrow> differ_config \<Rightarrow> string option \<times> differ_config"
  de_open :: "string \<Rightarrow> string option"
  de_order :: "string list \<Rightarrow> string list"
  de_text :: "logger_error \<Rightarrow> string"

definition writes :: "string list \<Rightarrow> differ_state \<Rightarrow> differ_state" where
  "writes lines d = d\<lparr>df_log := df_log d @ lines\<rparr>"

text \<open>Looking an index up: the zero value if there is none.\<close>

definition index_at :: "differ_state \<Rightarrow> int \<Rightarrow> plugin_index" where
  "index_at d i =
     (case df_indices d i of None \<Rightarrow> \<lparr>prevIndex = 0, nextIndex = 0, prevValues = None\<rparr> | Some e \<Rightarrow> e)"

definition set_values :: "int \<Rightarrow> changed_value list \<Rightarrow> differ_state \<Rightarrow> differ_state" where
  "set_values i vs d = d\<lparr>df_indices := (df_indices d)(i \<mapsto> (index_at d i)\<lparr>prevValues := Some vs\<rparr>)\<rparr>"

definition crash :: "differ_state \<Rightarrow> differ_state" where
  "crash d = d\<lparr>df_exit := Some 2\<rparr>"

section \<open>Printing\<close>

definition differ_dump :: "differ_env \<Rightarrow> string \<Rightarrow> string \<Rightarrow> (string \<times> dumped) list \<Rightarrow> string list" where
  "differ_dump env name pre args = concat (map (\<lambda>(tag, obj).
     case de_marshal env obj of
       Inl err \<Rightarrow> [pre @ '': '' @ tag @ '': failed to dump object: '' @ err]
     | Inr msg \<Rightarrow>
         if pre \<noteq> [] then
           (name @ '' '' @ pre @ '': '' @ tag @ '':'') #
             map (\<lambda>line. name @ '' '' @ pre @ '':    '' @ line) (split_on (CHR 0x0A) (trim_space msg))
         else (name @ '' '' @ tag @ '':'') # map (\<lambda>line. name @ ''  '' @ line) (split_on (CHR 0x0A) (trim_space msg))) args)"

definition tagged :: "differ_plugin \<Rightarrow> string \<Rightarrow> string" where
  "tagged p text = ''['' @ print_int (dp_idx p) @ ''] '' @ text"

definition printDiff ::
    "differ_env \<Rightarrow> differ_config \<Rightarrow> differ_plugin \<Rightarrow> string \<Rightarrow> change list \<Rightarrow> string \<Rightarrow> dumped \<Rightarrow> dumped \<Rightarrow> string list" where
  "printDiff env cfg p apifunc changelog obj origValue changedValue =
     (if dc_VerboseLevel cfg > 1
      then tagged p (''Original values for '' @ obj) # differ_dump env (dp_name p) apifunc [(obj, origValue)] else []) @
     (if changelog = [] then [tagged p (apifunc @ '': '' @ obj @ '': <no changes>'')]
      else map (\<lambda>item. tagged p (apifunc @ '': '' @ obj @ '': '' @ ch_type item @ '': ['' @ join_with '' '' (ch_path item) @
             '']: From: '' @ ch_from item @ '' -> To: '' @ ch_to item)) changelog @
           (if dc_VerboseLevel cfg > 1
            then tagged p (''Values after changes for '' @ obj) # differ_dump env (dp_name p) apifunc [(obj, changedValue)] else []))"

fun yaml_lines :: "differ_plugin \<Rightarrow> string \<Rightarrow> string \<Rightarrow> (bool \<times> string) list \<Rightarrow> string list" where
  "yaml_lines p apifunc obj [] = []"
| "yaml_lines p apifunc obj ((same, text) # ds) =
     (if same then [tagged p (apifunc @ '': '' @ obj @ '': <no changes>'')]
      else tagged p (apifunc @ '': '' @ obj @ '': '' @ text) # yaml_lines p apifunc obj ds)"

definition printYamlDiff ::
    "differ_env \<Rightarrow> differ_plugin \<Rightarrow> string \<Rightarrow> string \<Rightarrow> dumped \<Rightarrow> dumped \<Rightarrow> string list" where
  "printYamlDiff env p apifunc obj origValue changedValue =
     (case de_marshal env origValue of
        Inl _ \<Rightarrow> []
      | Inr orig \<Rightarrow>
         (case de_marshal env changedValue of
            Inl _ \<Rightarrow> []
          | Inr changed \<Rightarrow> yaml_lines p apifunc obj (de_yamldiff env orig changed)))"

section \<open>Comparing\<close>

definition saveValue :: "differ_plugin \<Rightarrow> changed_value \<Rightarrow> differ_state \<Rightarrow> differ_state" where
  "saveValue p v d =
     (case prevValues (index_at d (dp_idx p)) of
        None \<Rightarrow> crash d
      | Some vs \<Rightarrow> set_values (dp_idx p) (vs @ [v]) d)"

text \<open>The comparison of one object: whether to go on, and the lines printed.\<close>

definition compare_object ::
    "differ_env \<Rightarrow> differ_config \<Rightarrow> differ_plugin \<Rightarrow> string \<Rightarrow> string \<Rightarrow> dumped \<Rightarrow> dumped \<Rightarrow> bool \<times> string list" where
  "compare_object env cfg p apifunc obj initial changed =
     (if dc_Yaml cfg then (True, printYamlDiff env p apifunc obj initial changed)
      else (case de_diff env initial changed of
              Inl err \<Rightarrow> (False, [err])
            | Inr changelog \<Rightarrow> (True, printDiff env cfg p apifunc changelog obj initial changed)))"

definition compare_values ::
    "differ_env \<Rightarrow> differ_config \<Rightarrow> differ_plugin \<Rightarrow> string \<Rightarrow> changed_value \<Rightarrow> changed_value \<Rightarrow> bool \<times> string list" where
  "compare_values env cfg p apifunc initial v =
     (let (ok, lines) = (case (cv_pod v, cv_pod initial) of
            (Some pod, Some old) \<Rightarrow> compare_object env cfg p apifunc ''pod'' (DPod (Some old)) (DPod (Some pod))
          | _ \<Rightarrow> (True, []))
      in if \<not> ok then (False, lines)
         else (case (cv_container v, cv_container initial) of
                 (Some ctr, Some old) \<Rightarrow>
                   (let (ok', lines') = compare_object env cfg p apifunc ''container'' (DContainer (Some old)) (DContainer (Some ctr))
                    in (ok', lines @ lines'))
               | _ \<Rightarrow> (True, lines)))"

definition first_dump :: "differ_env \<Rightarrow> differ_config \<Rightarrow> differ_plugin \<Rightarrow> string \<Rightarrow> changed_value \<Rightarrow> string list" where
  "first_dump env cfg p apifunc v =
     (if dc_VerboseLevel cfg > 0 then
        (if cv_container v \<noteq> None
         then differ_dump env (dp_name p) apifunc [(''pod'', DPod (cv_pod v)), (''container'', DContainer (cv_container v))]
         else differ_dump env (dp_name p) apifunc [(''pod'', DPod (cv_pod v))])
      else [])"

definition differ ::
    "differ_env \<Rightarrow> differ_plugin \<Rightarrow> string \<Rightarrow> pod_sandbox option \<Rightarrow> container option \<Rightarrow> differ_state \<Rightarrow> differ_state" where
  "differ env p apifunc pod ctr d =
     (let me = index_at d (dp_idx p); v = \<lparr>cv_pod = pod, cv_container = ctr\<rparr> in
      if prevIndex me < 0 then saveValue p v (writes (first_dump env (df_cfg d) p apifunc v) d)
      else (case prevValues (index_at d (prevIndex me)) of
              None \<Rightarrow> crash d
            | Some [] \<Rightarrow> d
            | Some (initial # rest) \<Rightarrow>
               (let d1 = set_values (prevIndex me) rest d;
                    (ok, lines) = compare_values env (df_cfg d) p apifunc initial v;
                    d2 = writes lines d1
                in if ok \<and> nextIndex me > 0 then saveValue p v d2 else d2)))"

section \<open>Requests\<close>

definition differ_notice :: "differ_env \<Rightarrow> differ_plugin \<Rightarrow> string \<Rightarrow> differ_state container_notice" where
  "differ_notice env p apifunc pod ctr d = (None, differ env p apifunc pod ctr d)"

definition differ_pod_notice :: "differ_env \<Rightarrow> differ_plugin \<Rightarrow> string \<Rightarrow> differ_state pod_notice" where
  "differ_pod_notice env p apifunc pod d = (None, differ env p apifunc pod None d)"

definition Differ_Synchronize ::
    "differ_env \<Rightarrow> differ_plugin \<Rightarrow> pod_sandbox list \<Rightarrow> container list \<Rightarrow> differ_state \<Rightarrow> (updates \<times> string option) \<times> differ_state" where
  "Differ_Synchronize env p pods containers d =
     (([], None),
      if dc_VerboseLevel (df_cfg d) > 2
      then writes (differ_dump env (dp_name p) ''Synchronize'' [(''pods'', DPods pods), (''containers'', DContainers containers)]) d
      else d)"

definition Differ_Shutdown :: "differ_env \<Rightarrow> differ_plugin \<Rightarrow> differ_state \<Rightarrow> differ_state" where
  "Differ_Shutdown env p = writes (differ_dump env (dp_name p) ''Shutdown'' [])"

definition Differ_CreateContainer ::
    "differ_env \<Rightarrow> differ_plugin \<Rightarrow> pod_sandbox option \<Rightarrow> container option \<Rightarrow> differ_state \<Rightarrow>
     (container_adjustment option \<times> updates \<times> string option) \<times> differ_state" where
  "Differ_CreateContainer env p pod ctr d =
     ((Some zero_adjustment, [], None), differ env p ''CreateContainer'' pod ctr d)"

definition Differ_UpdateContainer ::
    "differ_env \<Rightarrow> differ_plugin \<Rightarrow> pod_sandbox option \<Rightarrow> container option \<Rightarrow> linux_resources option \<Rightarrow> differ_state \<Rightarrow>
     (updates \<times> string option) \<times> differ_state" where
  "Differ_UpdateContainer env p pod ctr r d = (([], None), differ env p ''UpdateContainer'' pod ctr d)"

definition Differ_StopContainer ::
    "differ_env \<Rightarrow> differ_plugin \<Rightarrow> pod_sandbox option \<Rightarrow> container option \<Rightarrow> differ_state \<Rightarrow> (updates \<times> string option) \<times> differ_state" where
  "Differ_StopContainer env p pod ctr d = (([], None), differ env p ''StopContainer'' pod ctr d)"

definition Differ_onClose :: "differ_state \<Rightarrow> differ_state" where
  "Differ_onClose d = (writes [''Connection to the runtime lost, exiting...''] d)\<lparr>df_exit := Some 1\<rparr>"

text \<open>The plugin's configuration method, which takes one string.\<close>

definition Differ_Configure ::
    "differ_env \<Rightarrow> string \<Rightarrow> differ_plugin \<Rightarrow> differ_state \<Rightarrow> (event_mask \<times> string option) \<times> differ_plugin \<times> differ_state" where
  "Differ_Configure env nriCfg p d =
     (if nriCfg = [] then ((dp_mask p, None), p, d)
      else (case de_unmarshal env nriCfg (df_cfg d) of
              (Some err, c) \<Rightarrow> ((0, Some (de_text env (BadConfiguration err))), p, d\<lparr>df_cfg := c\<rparr>)
            | (None, c) \<Rightarrow>
               (case ParseEventMask (de_order env) [''all''] of
                  (Failed err, m) \<Rightarrow> ((0, Some (de_text env (BadEvents err))), p\<lparr>dp_mask := m\<rparr>, d\<lparr>df_cfg := c\<rparr>)
                | (_, m) \<Rightarrow>
                    (let p' = p\<lparr>dp_mask := m\<rparr>; d' = d\<lparr>df_cfg := c\<rparr>; file = dc_LogFile c in
                     if file \<noteq> dc_LogFile (df_cfg d)
                     then (case de_open env file of
                             Some err \<Rightarrow> ((0, Some (de_text env (CannotOpenLog file err))), p', d')
                           | None \<Rightarrow> ((m, None), p', d'\<lparr>df_output := file\<rparr>))
                     else ((m, None), p', d')))))"

text \<open>
  The methods a stub finds. The interface's \<^verbatim>\<open>Configure\<close> takes the runtime's name and version too, so the
  plugin's is not among them.
\<close>

definition differ_methods :: "differ_env \<Rightarrow> differ_plugin \<Rightarrow> differ_state handlers" where
  "differ_methods env p = nil_handlers
     \<lparr>sh_Synchronize := Some (Differ_Synchronize env p), sh_Shutdown := Some (Differ_Shutdown env p),
      sh_RunPodSandbox := Some (differ_pod_notice env p ''RunPodSandbox''),
      sh_StopPodSandbox := Some (differ_pod_notice env p ''StopPodSandbox''),
      sh_RemovePodSandbox := Some (differ_pod_notice env p ''RemovePodSandbox''),
      sh_CreateContainer := Some (Differ_CreateContainer env p),
      sh_StartContainer := Some (differ_notice env p ''StartContainer''),
      sh_UpdateContainer := Some (Differ_UpdateContainer env p),
      sh_StopContainer := Some (Differ_StopContainer env p),
      sh_RemoveContainer := Some (differ_notice env p ''RemoveContainer''),
      sh_PostCreateContainer := Some (differ_notice env p ''PostCreateContainer''),
      sh_PostStartContainer := Some (differ_notice env p ''PostStartContainer''),
      sh_PostUpdateContainer := Some (differ_notice env p ''PostUpdateContainer'')\<rparr>"

section \<open>Start\<close>

text \<open>One round of \<^verbatim>\<open>main\<close>'s loop; \<open>prev\<close> is the index before.\<close>

definition add_index :: "int \<Rightarrow> int \<Rightarrow> (int \<Rightarrow> plugin_index option) \<Rightarrow> (int \<Rightarrow> plugin_index option)" where
  "add_index prev idx m =
     (let next = (case m idx of None \<Rightarrow> 0 | Some e \<Rightarrow> nextIndex e);
          m' = m(idx \<mapsto> \<lparr>prevIndex = prev, nextIndex = next, prevValues = Some []\<rparr>)
      in if prev \<ge> 0 then (case m' prev of None \<Rightarrow> m' | Some e \<Rightarrow> m'(prev \<mapsto> e\<lparr>nextIndex := idx\<rparr>)) else m')"

fun add_indices :: "int \<Rightarrow> int list \<Rightarrow> (int \<Rightarrow> plugin_index option) \<Rightarrow> int \<times> (int \<Rightarrow> plugin_index option)" where
  "add_indices prev [] m = (prev, m)"
| "add_indices prev (idx # rest) m = add_indices idx rest (add_index prev idx m)"

text \<open>The last entry: the zero value if there is none, as with a map of the language.\<close>

definition link_indices :: "int list \<Rightarrow> (int \<Rightarrow> plugin_index option)" where
  "link_indices idxs =
     (let (last, m) = add_indices (- 1) idxs Map.empty;
          e = (case m last of None \<Rightarrow> \<lparr>prevIndex = 0, nextIndex = 0, prevValues = None\<rparr> | Some e \<Rightarrow> e)
      in m(last \<mapsto> e\<lparr>nextIndex := - 1\<rparr>))"

text \<open>The indices of a flag: none if it holds no comma. A part that is not a number stands for 0.\<close>

definition differ_indices :: "string \<Rightarrow> int list option" where
  "differ_indices text = (if CHR '','' \<notin> set text then None else Some (map Atoi_value (split_on CHR '','' text)))"

definition startPlugin ::
    "differ_env \<Rightarrow> string \<Rightarrow> string \<Rightarrow> string \<Rightarrow> (string \<Rightarrow> string + 'c) \<Rightarrow> int \<Rightarrow> string \<Rightarrow>
     (differ_plugin \<times> (differ_state, 'c) stub) option" where
  "startPlugin env name idx base dial pluginIdx socketPath =
     (let idxStr = two_digits pluginIdx;
          opts = (if idxStr \<noteq> [] then [WithPluginIdx idxStr] else []) @
                 (if socketPath \<noteq> [] then [WithSocketPath socketPath] else [])
      in case ParseEventMask (de_order env) [''all''] of
           (Done, m) \<Rightarrow>
             (let p = \<lparr>dp_mask = m, dp_name = ''['' @ idxStr @ '']'', dp_idx = pluginIdx\<rparr> in
              case New (differ_methods env p) name idx base dial (opts @ [WithOnClose Differ_onClose]) of
                (Done, s) \<Rightarrow> Some (p, s)
              | _ \<Rightarrow> None)
         | _ \<Rightarrow> None)"

text \<open>
  \<^verbatim>\<open>main\<close> with the flags \<open>c\<close>: the instances, each of which is served by its own goroutine, and the state they share; or
  nothing where the process exits with a fatal error.
\<close>

definition Differ_main ::
    "differ_env \<Rightarrow> string \<Rightarrow> string \<Rightarrow> string \<Rightarrow> (string \<Rightarrow> string + 'c) \<Rightarrow> differ_config \<Rightarrow>
     ((differ_plugin \<times> (differ_state, 'c) stub) list \<times> differ_state) option" where
  "Differ_main env name idx base dial c =
     (if dc_LogFile c \<noteq> [] \<and> de_open env (dc_LogFile c) \<noteq> None then None
      else (case differ_indices (dc_Indices c) of
              None \<Rightarrow> None
            | Some idxs \<Rightarrow>
               (let ps = map (\<lambda>i. startPlugin env name idx base dial i (dc_SocketPath c)) idxs in
                if None \<in> set ps then None
                else Some (map the ps, \<lparr>df_cfg = c, df_indices = link_indices idxs, df_output = dc_LogFile c,
                                        df_log = [], df_exit = None\<rparr>))))"

end
