(* ===== verification/Differ_Laws.thy ===== *)
theory Differ_Laws
  imports Differ
begin

text \<open>
  What the differ prints: with indices in increasing order, each request leads to the comparisons of that request's values
  between neighbouring instances, and leaves all queues empty. With any other order it lags behind.
\<close>

section \<open>The chain of indices\<close>

text \<open>The entries of a list of indices, each with its neighbours and an empty queue.\<close>

fun chained :: "int \<Rightarrow> int list \<Rightarrow> (int \<Rightarrow> plugin_index option) \<Rightarrow> bool" where
  "chained p [] m = True"
| "chained p (n # ns) m =
     (m n = Some \<lparr>prevIndex = p, nextIndex = (case ns of [] \<Rightarrow> - 1 | k # _ \<Rightarrow> k), prevValues = Some []\<rparr> \<and> chained n ns m)"

lemma add_indices_other: "i \<notin> set (p # ns) \<Longrightarrow> snd (add_indices p ns m) i = m i"
  by (induction ns arbitrary: p m) (auto simp: add_index_def Let_def split: option.split)

lemma add_indices_last: "fst (add_indices p ns m) = last (p # ns)"
  by (induction ns arbitrary: p m) simp_all

lemma add_indices_chained:
  assumes "distinct (n # ns)" and "\<forall>i \<in> set (n # ns). 0 \<le> i"
    and "m n = Some \<lparr>prevIndex = p, nextIndex = x, prevValues = Some []\<rparr>"
  shows "chained p (n # ns)
    ((snd (add_indices n ns m))(last (n # ns) \<mapsto> (the (snd (add_indices n ns m) (last (n # ns))))\<lparr>nextIndex := - 1\<rparr>)) \<and>
    snd (add_indices n ns m) (last (n # ns)) \<noteq> None"
  using assms
proof (induction ns arbitrary: n p m x)
  case Nil
  then show ?case by simp
next
  case (Cons k ks)
  let ?m = "add_index n k m"
  have n: "?m n = Some \<lparr>prevIndex = p, nextIndex = k, prevValues = Some []\<rparr>"
    using Cons.prems by (simp add: add_index_def Let_def)
  obtain y where k: "?m k = Some \<lparr>prevIndex = n, nextIndex = y, prevValues = Some []\<rparr>"
    using Cons.prems by (auto simp: add_index_def Let_def)
  have "n \<noteq> last (k # ks)" using Cons.prems(1) last_in_set [of "k # ks"] by auto
  moreover have "snd (add_indices k ks ?m) n = ?m n"
    using Cons.prems(1) by (intro add_indices_other) auto
  moreover note Cons.IH [of k ?m n y] Cons.prems(1,2) k n
  ultimately show ?case by (auto split: list.splits)
qed

lemma link_indices_chained:
  assumes "distinct ns" and "\<forall>i \<in> set ns. 0 \<le> i" and "ns \<noteq> []"
  shows "chained (- 1) ns (link_indices ns)"
proof -
  obtain n ns' where ns: "ns = n # ns'" using assms(3) by (cases ns) auto
  let ?m = "add_index (- 1) n Map.empty"
  have "?m n = Some \<lparr>prevIndex = - 1, nextIndex = 0, prevValues = Some []\<rparr>" by (simp add: add_index_def)
  from add_indices_chained [where m = ?m and n = n and ns = ns', OF _ _ this] assms(1,2) ns
  have c: "chained (- 1) ns ((snd (add_indices n ns' ?m))(last ns \<mapsto> (the (snd (add_indices n ns' ?m) (last ns)))\<lparr>nextIndex := - 1\<rparr>))"
    "snd (add_indices n ns' ?m) (last ns) \<noteq> None" by (auto simp del: chained.simps)
  have "add_indices (- 1) ns Map.empty = (last ns, snd (add_indices n ns' ?m))"
    using add_indices_last [of n ns' ?m] by (cases "add_indices n ns' ?m") (simp add: ns)
  then show ?thesis using c by (auto simp: link_indices_def simp del: chained.simps split: option.split)
qed

section \<open>One request\<close>

text \<open>A request as it goes by the instances, each with the pod and container that it is sent.\<close>

type_synonym seen = "differ_plugin \<times> changed_value"

definition serve :: "differ_env \<Rightarrow> string \<Rightarrow> seen list \<Rightarrow> differ_state \<Rightarrow> differ_state" where
  "serve env api = fold (\<lambda>(p, v). differ env p api (cv_pod v) (cv_container v))"

lemma serve_simps:
  "serve env api [] d = d"
  "serve env api ((p, v) # pvs) d = serve env api pvs (differ env p api (cv_pod v) (cv_container v) d)"
  by (simp_all add: serve_def)

definition seen_idx :: "seen \<Rightarrow> int" where
  "seen_idx pv = dp_idx (fst pv)"

lemma seen_idx_pair [simp]: "seen_idx (p, w) = dp_idx p"
  by (simp add: seen_idx_def)

text \<open>What is to be printed: differences between neighbours, up to a comparison that fails.\<close>

fun compared :: "differ_env \<Rightarrow> differ_config \<Rightarrow> string \<Rightarrow> changed_value \<Rightarrow> seen list \<Rightarrow> string list" where
  "compared env cfg api v [] = []"
| "compared env cfg api v ((p, w) # pvs) =
     (let (ok, lines) = compare_values env cfg p api v w in if ok then lines @ compared env cfg api w pvs else lines)"

definition request_lines :: "differ_env \<Rightarrow> differ_config \<Rightarrow> string \<Rightarrow> seen list \<Rightarrow> string list" where
  "request_lines env cfg api pvs =
     (case pvs of [] \<Rightarrow> [] | (p, v) # rest \<Rightarrow> first_dump env cfg p api v @ compared env cfg api v rest)"

lemma changed_value_same [simp]: "\<lparr>cv_pod = cv_pod v, cv_container = cv_container v\<rparr> = v"
  by simp

lemma differ_silent:
  assumes "df_indices d (dp_idx p) = Some me" and "0 \<le> prevIndex me" and "df_indices d (prevIndex me) = Some e" and "prevValues e = Some []"
  shows "differ env p api pod ctr d = d"
  using assms by (simp add: differ_def index_at_def Let_def)

lemma serve_silent:
  assumes "chained n (map seen_idx pvs) (df_indices d)" and "df_indices d n = Some e" and "prevValues e = Some []"
    and "\<forall>i \<in> set (n # map seen_idx pvs). 0 \<le> i"
  shows "serve env api pvs d = d"
  using assms
proof (induction pvs arbitrary: n e)
  case Nil
  then show ?case by (simp add: serve_simps)
next
  case (Cons pv pvs)
  then have "differ env (fst pv) api (cv_pod (snd pv)) (cv_container (snd pv)) d = d"
    by (intro differ_silent) (auto simp: seen_idx_def)
  moreover have "serve env api pvs d = d" using Cons by auto
  ultimately show ?case by (cases pv) (simp add: serve_simps)
qed

lemma set_values_index: "df_indices d i = Some e \<Longrightarrow> set_values i vs d = d\<lparr>df_indices := (df_indices d)(i \<mapsto> e\<lparr>prevValues := Some vs\<rparr>)\<rparr>"
  by (simp add: set_values_def index_at_def)

lemma index_same: "m i = Some e \<Longrightarrow> prevValues e = Some [] \<Longrightarrow> m(i \<mapsto> e\<lparr>prevValues := Some []\<rparr>) = m"
  by (cases e) auto

text \<open>One comparison: the value waiting at the index before is used up.\<close>

lemma differ_compares:
  assumes "m (dp_idx p) = Some \<lparr>prevIndex = n, nextIndex = k, prevValues = Some []\<rparr>" and "0 \<le> n" and "n \<noteq> dp_idx p"
    and "m n = Some e" and "prevValues e = Some []"
  shows "differ env p api (cv_pod w) (cv_container w) (d\<lparr>df_indices := m(n \<mapsto> e\<lparr>prevValues := Some [v]\<rparr>)\<rparr>) =
    (let (ok, lines) = compare_values env (df_cfg d) p api v w; d' = writes lines (d\<lparr>df_indices := m\<rparr>) in
     if ok \<and> k > 0 then set_values (dp_idx p) [w] d' else d')"
  using assms index_same [where m = m and i = n, OF assms(4,5)]
  by (simp add: differ_def index_at_def Let_def set_values_def saveValue_def writes_def split: prod.split)

lemma serve_compares:
  assumes "chained n (map seen_idx pvs) m" and "m n = Some e" and "prevValues e = Some []"
    and "sorted_wrt (<) (n # map seen_idx pvs)" and "0 \<le> n" and "pvs \<noteq> []"
  shows "serve env api pvs (d\<lparr>df_indices := m(n \<mapsto> e\<lparr>prevValues := Some [v]\<rparr>)\<rparr>) =
    d\<lparr>df_indices := m, df_log := df_log d @ compared env (df_cfg d) api v pvs\<rparr>"
  using assms
proof (induction pvs arbitrary: n e v d)
  case Nil
  then show ?case by simp
next
  case (Cons pv pvs)
  obtain p w where pv: "pv = (p, w)" by fastforce
  let ?k = "case map seen_idx pvs of [] \<Rightarrow> - 1 | k # _ \<Rightarrow> k"
  let ?me = "\<lparr>prevIndex = n, nextIndex = ?k, prevValues = Some []\<rparr>"
  have me: "m (dp_idx p) = Some ?me" and c: "chained (dp_idx p) (map seen_idx pvs) m" and n: "n < dp_idx p"
    using Cons.prems pv by simp_all
  obtain ok lines where l: "compare_values env (df_cfg d) p api v w = (ok, lines)" by fastforce
  have k: "pvs \<noteq> [] \<Longrightarrow> ?k > 0" "pvs = [] \<Longrightarrow> \<not> ?k > 0"
    using Cons.prems by (cases pvs; auto simp: pv)+
  let ?d = "d\<lparr>df_indices := m, df_log := df_log d @ lines\<rparr>"
  have step: "differ env p api (cv_pod w) (cv_container w) (d\<lparr>df_indices := m(n \<mapsto> e\<lparr>prevValues := Some [v]\<rparr>)\<rparr>) =
      (if ok \<and> pvs \<noteq> [] then ?d\<lparr>df_indices := m(dp_idx p \<mapsto> ?me\<lparr>prevValues := Some [w]\<rparr>)\<rparr> else ?d)"
    using differ_compares [OF me Cons.prems(5) _ Cons.prems(2,3)] n l k
    by (auto simp: writes_def set_values_def index_at_def me)
  show ?case
  proof (cases "ok \<and> pvs \<noteq> []")
    case True
    have "serve env api pvs (?d\<lparr>df_indices := m(dp_idx p \<mapsto> ?me\<lparr>prevValues := Some [w]\<rparr>)\<rparr>) =
        ?d\<lparr>df_indices := m, df_log := df_log ?d @ compared env (df_cfg ?d) api w pvs\<rparr>"
      using True Cons.prems(4,5) n by (intro Cons.IH [OF c me]) (simp_all add: pv)
    then show ?thesis unfolding pv serve_simps step using True l by simp
  next
    case False
    have "serve env api pvs ?d = ?d"
      using c me n Cons.prems(4,5) by (intro serve_silent [where n = "dp_idx p" and e = ?me]) (auto simp: pv)
    then show ?thesis unfolding pv serve_simps step using False l by (cases pvs) auto
  qed
qed

text \<open>
  C40. With its indices given in increasing order, a differ prints for each request exactly the differences
  between the values that neighbouring instances are sent of that request (after the first one's dump), and
  all its queues are empty again afterwards, so that no two requests are ever mixed up.
\<close>

theorem differ_compares_neighbours:
  assumes "df_indices d = link_indices (map seen_idx pvs)" and "sorted_wrt (<) (map seen_idx pvs)"
    and "\<forall>pv \<in> set pvs. 0 \<le> seen_idx pv" and "length pvs \<ge> 2"
  shows "serve env api pvs d = d\<lparr>df_log := df_log d @ request_lines env (df_cfg d) api pvs\<rparr>"
proof -
  obtain p v rest where pvs: "pvs = (p, v) # rest" "rest \<noteq> []"
    using assms(4) by (cases pvs; cases "tl pvs") auto
  let ?m = "df_indices d"
  have "distinct (map seen_idx pvs)" using assms(2) by (simp add: strict_sorted_iff)
  then have c: "chained (- 1) (map seen_idx pvs) ?m"
    unfolding assms(1) using assms(3) pvs(1) by (intro link_indices_chained) auto
  obtain k where me: "?m (dp_idx p) = Some \<lparr>prevIndex = - 1, nextIndex = k, prevValues = Some []\<rparr>"
    using c pvs(1) by auto
  let ?me = "\<lparr>prevIndex = - 1, nextIndex = k, prevValues = Some []\<rparr>"
  let ?d = "writes (first_dump env (df_cfg d) p api v) d"
  have first: "differ env p api (cv_pod v) (cv_container v) d = ?d\<lparr>df_indices := ?m(dp_idx p \<mapsto> ?me\<lparr>prevValues := Some [v]\<rparr>)\<rparr>"
    using me by (simp add: differ_def index_at_def Let_def saveValue_def set_values_def writes_def)
  have "serve env api rest (?d\<lparr>df_indices := ?m(dp_idx p \<mapsto> ?me\<lparr>prevValues := Some [v]\<rparr>)\<rparr>) =
      ?d\<lparr>df_indices := ?m, df_log := df_log ?d @ compared env (df_cfg ?d) api v rest\<rparr>"
    using c me assms(2,3) pvs by (intro serve_compares) simp_all
  then show ?thesis unfolding pvs(1) serve_simps first by (simp add: request_lines_def writes_def)
qed

section \<open>Other orders\<close>

text \<open>
  With two indices given in decreasing order the differ lags by one request: the runtime calls the instance
  of the lower index first, so it compares what it is sent with what the other was sent of the request before. Nothing
  is compared for the first request.
\<close>

theorem decreasing_indices_lag:
  assumes "dp_idx p < dp_idx q" and "0 \<le> dp_idx p" and "df_indices d = link_indices [dp_idx q, dp_idx p]"
  shows "df_log (serve env api' [(p, v'), (q, w')] (serve env api [(p, v), (q, w)] d)) =
    df_log d @ first_dump env (df_cfg d) q api w @ snd (compare_values env (df_cfg d) p api' w v') @
      first_dump env (df_cfg d) q api' w'"
proof -
  let ?eq = "\<lparr>prevIndex = - 1, nextIndex = dp_idx p, prevValues = Some []\<rparr>"
    and ?ep = "\<lparr>prevIndex = dp_idx q, nextIndex = - 1, prevValues = Some []\<rparr>"
  have c: "chained (- 1) [dp_idx q, dp_idx p] (df_indices d)"
    unfolding assms(3) using assms(1,2) by (intro link_indices_chained) auto
  then have m: "df_indices d (dp_idx q) = Some ?eq" "df_indices d (dp_idx p) = Some ?ep" by simp_all
  have first: "serve env a [(q, u)] e = (writes (first_dump env (df_cfg e) q a u) e)\<lparr>df_indices :=
      (df_indices e)(dp_idx q \<mapsto> ?eq\<lparr>prevValues := Some [u]\<rparr>)\<rparr>"
    if "df_indices e (dp_idx q) = Some ?eq" for e a u
    using that by (simp add: serve_simps differ_def index_at_def Let_def saveValue_def set_values_def writes_def)
  have "differ env p api (cv_pod v) (cv_container v) d = d" using m assms(1,2) by (intro differ_silent) auto
  then have 1: "serve env api [(p, v), (q, w)] d =
      (writes (first_dump env (df_cfg d) q api w) d)\<lparr>df_indices := (df_indices d)(dp_idx q \<mapsto> ?eq\<lparr>prevValues := Some [w]\<rparr>)\<rparr>"
    using first [OF m(1), of api w] by (simp add: serve_simps)
  let ?d = "writes (first_dump env (df_cfg d) q api w) d"
  obtain ok lines where l: "compare_values env (df_cfg d) p api' w v' = (ok, lines)" by fastforce
  have 2: "differ env p api' (cv_pod v') (cv_container v') (?d\<lparr>df_indices := (df_indices d)(dp_idx q \<mapsto> ?eq\<lparr>prevValues := Some [w]\<rparr>)\<rparr>) =
      writes lines ?d"
    using differ_compares [where m = "df_indices d" and n = "dp_idx q" and d = ?d and v = w, OF m(2) _ _ m(1)] assms(1,2) l
    by (simp add: writes_def)
  have 3: "serve env api' [(q, w')] (writes lines ?d) =
    (writes (first_dump env (df_cfg d) q api' w') (writes lines ?d))\<lparr>df_indices := (df_indices d)(dp_idx q \<mapsto> ?eq\<lparr>prevValues := Some [w']\<rparr>)\<rparr>"
    using first [where e = "writes lines ?d" and a = api' and u = w'] m(1) by (simp add: writes_def)
  have "serve env api' [(p, v'), (q, w')] (serve env api [(p, v), (q, w)] d) = serve env api' [(q, w')] (writes lines ?d)"
    unfolding 1 serve_simps(2) [of env api' p v' "[(q, w')]"] 2 ..
  then show ?thesis using 3 l by (simp add: writes_def)
qed

text \<open>Equal indices, such as those of parts that are not numbers: nothing is ever printed.\<close>

lemma equal_indices_silent:
  assumes "0 \<le> i" and "df_indices d = link_indices [i, i]" and "dp_idx p = i"
  shows "differ env p api pod ctr d = d"
  using assms by (intro differ_silent) (auto simp: link_indices_def add_index_def Let_def)

lemma differ_indices_unreadable: "differ_indices ''first,last'' = Some [0, 0]"
  by (simp add: differ_indices_def Atoi_value_def is_digit_def)

section \<open>Examples\<close>

definition diff_env :: differ_env where
  "diff_env = \<lparr>de_marshal = (\<lambda>_. Inr ''...''),
     de_diff = (\<lambda>a b. case (a, b) of
       (DPod (Some x), DPod (Some y)) \<Rightarrow> Inr (if pod_name x = pod_name y then []
          else [\<lparr>ch_type = ''update'', ch_path = [''Name''], ch_from = pod_name x, ch_to = pod_name y\<rparr>])
     | _ \<Rightarrow> Inr []),
     de_yamldiff = (\<lambda>_ _. []), de_unmarshal = (\<lambda>_ c. (None, c)), de_open = (\<lambda>_. None), de_order = id, de_text = (\<lambda>_. '''')\<rparr>"

definition instance_of :: "int \<Rightarrow> differ_plugin" where
  "instance_of i = \<lparr>dp_mask = ValidEvents, dp_name = ''['' @ two_digits i @ '']'', dp_idx = i\<rparr>"

definition started :: "int list \<Rightarrow> differ_state" where
  "started idxs = \<lparr>df_cfg = \<lparr>dc_Indices = [], dc_LogFile = [], dc_SocketPath = [], dc_VerboseLevel = 0, dc_Yaml = False\<rparr>,
     df_indices = link_indices idxs, df_output = [], df_log = [], df_exit = None\<rparr>"

definition named :: "string \<Rightarrow> changed_value" where
  "named n = \<lparr>cv_pod = Some \<lparr>pod_id = [], pod_name = n, pod_uid = [], pod_namespace = [], pod_labels = None,
     pod_annotations = None\<rparr>, cv_container = None\<rparr>"

lemma char_of_digits: "char_of (48 :: nat) = CHR ''0''" "char_of (57 :: nat) = CHR ''9''"
  by code_simp+

lemma named_compared:
  "compare_values diff_env (df_cfg (started idxs)) (instance_of 0) ''RunPodSandbox'' (named ''a'') (named ''b'') =
     (True, [''[0] RunPodSandbox: pod: update: [Name]: From: a -> To: b''])"
  "compare_values diff_env (df_cfg (started idxs)) (instance_of 9) ''RunPodSandbox'' (named ''a'') (named ''b'') =
     (True, [''[9] RunPodSandbox: pod: update: [Name]: From: a -> To: b''])"
  by (simp_all add: compare_values_def compare_object_def diff_env_def named_def started_def instance_of_def printDiff_def
      tagged_def print_int_def print_nat.simps char_of_digits)

theorem differ_compares_neighbours_witness:
  "df_log (serve diff_env ''RunPodSandbox'' [(instance_of 0, named ''a''), (instance_of 9, named ''b'')] (started [0, 9])) =
     [''[9] RunPodSandbox: pod: update: [Name]: From: a -> To: b'']"
proof -
  have "serve diff_env ''RunPodSandbox'' [(instance_of 0, named ''a''), (instance_of 9, named ''b'')] (started [0, 9]) =
    (started [0, 9])\<lparr>df_log := df_log (started [0, 9]) @
      request_lines diff_env (df_cfg (started [0, 9])) ''RunPodSandbox'' [(instance_of 0, named ''a''), (instance_of 9, named ''b'')]\<rparr>"
    by (rule differ_compares_neighbours) (simp_all add: started_def instance_of_def)
  then show ?thesis
    by (simp add: request_lines_def named_compared) (simp add: started_def first_dump_def)
qed

theorem decreasing_indices_lag_witness:
  "df_log (serve diff_env ''RunPodSandbox'' [(instance_of 0, named ''b''), (instance_of 9, named ''c'')]
     (serve diff_env ''StopPodSandbox'' [(instance_of 0, named ''x''), (instance_of 9, named ''a'')] (started [9, 0]))) =
     [''[0] RunPodSandbox: pod: update: [Name]: From: a -> To: b'']"
proof -
  have "dp_idx (instance_of 0) < dp_idx (instance_of 9)" "0 \<le> dp_idx (instance_of 0)"
    "df_indices (started [9, 0]) = link_indices [dp_idx (instance_of 9), dp_idx (instance_of 0)]"
    by (simp_all add: started_def instance_of_def)
  from decreasing_indices_lag [OF this] show ?thesis
    by (simp add: named_compared) (simp add: started_def first_dump_def)
qed

end
