(* ===== verification/Legacy.thy ===== *)
theory Legacy
  imports Stub Conversions
begin

text \<open>
  The first version of the interface, in which a plugin is a program run once per request: the messages
  (\<^verbatim>\<open>src/types/v1/types.go\<close>), the client (\<^verbatim>\<open>src/client.go\<close>), the main function of a plugin
  (\<^verbatim>\<open>src/skel/skel.go\<close>), the sample plugin \<^verbatim>\<open>src/examples/clearcfs/main.go\<close>, and the plugin that serves such
  programs today (\<^verbatim>\<open>src/plugins/v010-adapter\<close>).

  Running programs, files, the process environment and the JSON encodings are the environment (\<open>v1_env\<close>); what else a
  program touches is a state \<open>'w\<close>. Error texts are values, and log lines are left out.
\<close>

section \<open>Messages\<close>

text \<open>\<^verbatim>\<open>json.RawMessage\<close> is the text of a value. In a list of pointers an entry may be nil.\<close>

record v1_plugin =
  v1p_Type :: string
  v1p_Conf :: string

record config_list =
  cl_Version :: string
  cl_Plugins :: "v1_plugin option list"

record v1_spec =
  vs_Resources :: string
  vs_Namespaces :: "(string, string) gomap option"
  vs_CgroupsPath :: string
  vs_Annotations :: "(string, string) gomap option"

datatype v1_state = State string

abbreviation Create :: v1_state where "Create \<equiv> State ''create''"
abbreviation Delete :: v1_state where "Delete \<equiv> State ''delete''"

record v1_result =
  rs_Plugin :: string
  rs_Version :: string
  rs_Error :: string
  rs_Metadata :: "(string, string) gomap option"

record v1_request =
  rq_Conf :: string
  rq_Version :: string
  rq_State :: v1_state
  rq_ID :: string
  rq_SandboxID :: string
  rq_Pid :: int
  rq_Spec :: "v1_spec option"
  rq_Labels :: "(string, string) gomap option"
  rq_Results :: "v1_result list"

definition IsSandbox :: "v1_request \<Rightarrow> bool" where
  "IsSandbox r \<longleftrightarrow> rq_ID r = rq_SandboxID r"

definition NewResult :: "string \<Rightarrow> v1_request \<Rightarrow> v1_result" where
  "NewResult plugin r = \<lparr>rs_Plugin = plugin, rs_Version = rq_Version r, rs_Error = [], rs_Metadata = Some []\<rparr>"

definition Result_Err :: "v1_result \<Rightarrow> string option" where
  "Result_Err r = (if rs_Error r \<noteq> [] then Some (rs_Error r) else None)"

section \<open>The client\<close>

text \<open>
  What the client reads of an OCI spec and of a task; the resources for Windows are of a type of their own. \<open>Panic\<close>
  is a store or read through a nil pointer.
\<close>

record v1_oci_linux =
  vl_Resources :: "oci_resources option"
  vl_Namespaces :: "oci_namespace list"
  vl_CgroupsPath :: string

record 'x v1_oci_spec =
  vo_Annotations :: "(string, string) gomap option"
  vo_Linux :: "v1_oci_linux option"
  vo_Windows :: "'x option"

record 'x task =
  tk_ID :: string
  tk_Pid :: nat
  tk_Spec :: "string + 'x v1_oci_spec"

record sandbox =
  sb_ID :: string
  sb_Labels :: "(string, string) gomap option"

datatype v1_error =
    ConfigNotOpened string
  | ConfigNotDecoded string
  | PathNotSet string
  | NoSpec string
  | NotMarshalled string
  | NotRun string
  | BadOutput string "int option" string
  | PluginError string
  | InPlugin string v1_error

datatype 'a v1_outcome = Panic | Err v1_error | Ok 'a

datatype conf_file = NoConfFile | ConfNotOpened string | ConfText string

text \<open>A program that ran, with its exit code and output, or that was not run, or not to its end.\<close>

datatype executed = Exited int string | NotExecuted string

record ('x, 'w) v1_env =
  ve_conf :: "'w \<Rightarrow> conf_file"
  ve_decode :: "string \<Rightarrow> string + config_list"
  ve_setenv :: "string \<Rightarrow> string option"
  ve_exec :: "string \<Rightarrow> string \<Rightarrow> string \<Rightarrow> 'w \<Rightarrow> executed \<times> 'w"
  ve_request :: "v1_request \<Rightarrow> string + string"
  ve_result :: "string \<Rightarrow> string + v1_result"
  ve_resources :: "oci_resources option \<Rightarrow> string + string"
  ve_windows :: "'x \<Rightarrow> string + string"

text \<open>The state of the process: whether its search path has been extended, and the path.\<close>

record 'w process =
  pr_once :: bool
  pr_path :: string
  pr_world :: 'w

definition loadConfig :: "('x, 'w) v1_env \<Rightarrow> 'w \<Rightarrow> config_list v1_outcome" where
  "loadConfig env w =
     (case ve_conf env w of
        NoConfFile \<Rightarrow> Ok \<lparr>cl_Version = ''0.1'', cl_Plugins = []\<rparr>
      | ConfNotOpened e \<Rightarrow> Err (ConfigNotOpened e)
      | ConfText text \<Rightarrow> (case ve_decode env text of Inl e \<Rightarrow> Err (ConfigNotDecoded e) | Inr c \<Rightarrow> Ok c))"

definition Client_New :: "('x, 'w) v1_env \<Rightarrow> 'w process \<Rightarrow> config_list v1_outcome \<times> 'w process" where
  "Client_New env pr =
     (case loadConfig env (pr_world pr) of
        Ok conf \<Rightarrow>
          if pr_once pr then (Ok conf, pr)
          else (let path = pr_path pr @ '':'' @ ''/opt/nri/bin'' in
                case ve_setenv env path of
                  Some e \<Rightarrow> (Err (PathNotSet e), pr\<lparr>pr_once := True\<rparr>)
                | None \<Rightarrow> (Ok conf, pr\<lparr>pr_once := True, pr_path := path\<rparr>))
      | Err e \<Rightarrow> (Err e, pr)
      | Panic \<Rightarrow> (Panic, pr))"

definition Client_Plugins :: "config_list \<Rightarrow> string list option" where
  "Client_Plugins c = (if None \<in> set (cl_Plugins c) then None else Some (map (\<lambda>p. v1p_Type (the p)) (cl_Plugins c)))"

definition createSpec :: "('x, 'w) v1_env \<Rightarrow> 'x v1_oci_spec \<Rightarrow> v1_error + v1_spec" where
  "createSpec env sp =
     (let s = \<lparr>vs_Resources = [], vs_Namespaces = Some [], vs_CgroupsPath = [], vs_Annotations = vo_Annotations sp\<rparr> in
      case vo_Linux sp of
        Some l \<Rightarrow>
          (case ve_resources env (vl_Resources l) of
             Inl e \<Rightarrow> Inl (NotMarshalled e)
           | Inr text \<Rightarrow> Inr (s\<lparr>vs_CgroupsPath := vl_CgroupsPath l, vs_Resources := text,
               vs_Namespaces := Some (fold (\<lambda>n. AList.update (ons_type n) (ons_path n)) (vl_Namespaces l) [])\<rparr>))
      | None \<Rightarrow>
          (case vo_Windows sp of
             None \<Rightarrow> Inr s
           | Some x \<Rightarrow> (case ve_windows env x of Inl e \<Rightarrow> Inl (NotMarshalled e) | Inr text \<Rightarrow> Inr (s\<lparr>vs_Resources := text\<rparr>))))"

definition invokePlugin ::
    "('x, 'w) v1_env \<Rightarrow> string \<Rightarrow> v1_request \<Rightarrow> 'w process \<Rightarrow> (v1_error + v1_result) \<times> 'w process" where
  "invokePlugin env name r pr =
     (case ve_request env r of
        Inl e \<Rightarrow> (Inl (NotMarshalled e), pr)
      | Inr payload \<Rightarrow>
         (case ve_exec env (pr_path pr) name payload (pr_world pr) of
            (NotExecuted e, w) \<Rightarrow> (Inl (NotRun e), pr\<lparr>pr_world := w\<rparr>)
          | (Exited code out, w) \<Rightarrow>
             (case ve_result env out of
                Inl e \<Rightarrow> (Inl (BadOutput out (if code = 0 then None else Some code) e), pr\<lparr>pr_world := w\<rparr>)
              | Inr result \<Rightarrow>
                 (case Result_Err result of
                    Some e \<Rightarrow> (Inl (PluginError e), pr\<lparr>pr_world := w\<rparr>)
                  | None \<Rightarrow> (Inr result, pr\<lparr>pr_world := w\<rparr>)))))"

fun invoke_all ::
    "('x, 'w) v1_env \<Rightarrow> v1_request \<Rightarrow> v1_plugin option list \<Rightarrow> 'w process \<Rightarrow> v1_result list v1_outcome \<times> 'w process" where
  "invoke_all env r [] pr = (Ok (rq_Results r), pr)"
| "invoke_all env r (None # ps) pr = (Panic, pr)"
| "invoke_all env r (Some p # ps) pr =
     (let r = r\<lparr>rq_Conf := v1p_Conf p\<rparr> in
      case invokePlugin env (v1p_Type p) r pr of
        (Inl e, pr') \<Rightarrow> (Err (InPlugin (v1p_Type p) e), pr')
      | (Inr result, pr') \<Rightarrow> invoke_all env (r\<lparr>rq_Results := rq_Results r @ [result]\<rparr>) ps pr')"

definition request_for :: "config_list \<Rightarrow> 'x task \<Rightarrow> v1_state \<Rightarrow> v1_spec \<Rightarrow> sandbox option \<Rightarrow> v1_request" where
  "request_for c task state rs sandbox =
     (let r = \<lparr>rq_Conf = [], rq_Version = cl_Version c, rq_State = state, rq_ID = tk_ID task, rq_SandboxID = [],
               rq_Pid = int (tk_Pid task), rq_Spec = Some rs, rq_Labels = None, rq_Results = []\<rparr>
      in case sandbox of None \<Rightarrow> r | Some sb \<Rightarrow> r\<lparr>rq_SandboxID := sb_ID sb, rq_Labels := sb_Labels sb\<rparr>)"

definition InvokeWithSandbox ::
    "('x, 'w) v1_env \<Rightarrow> config_list \<Rightarrow> 'x task \<Rightarrow> v1_state \<Rightarrow> sandbox option \<Rightarrow> 'w process \<Rightarrow>
     v1_result list v1_outcome \<times> 'w process" where
  "InvokeWithSandbox env c task state sandbox pr =
     (if cl_Plugins c = [] then (Ok [], pr)
      else (case tk_Spec task of
              Inl e \<Rightarrow> (Err (NoSpec e), pr)
            | Inr sp \<Rightarrow>
               (case createSpec env sp of
                  Inl e \<Rightarrow> (Err e, pr)
                | Inr rs \<Rightarrow> invoke_all env (request_for c task state rs sandbox) (cl_Plugins c) pr)))"

definition Client_Invoke ::
    "('x, 'w) v1_env \<Rightarrow> config_list \<Rightarrow> 'x task \<Rightarrow> v1_state \<Rightarrow> 'w process \<Rightarrow> v1_result list v1_outcome \<times> 'w process" where
  "Client_Invoke env c task state = InvokeWithSandbox env c task state None"

section \<open>The main function of a plugin\<close>

text \<open>A plugin's answer: a panic, or a result that may be nil with an error or none.\<close>

datatype invoked = Crashed | Answered "v1_result option" "string option"

record 'w skel_plugin =
  sk_Type :: string
  sk_Invoke :: "v1_request \<Rightarrow> 'w \<Rightarrow> invoked \<times> 'w"

datatype skel_error = NotDecoded string | NotEncoded string

text \<open>
  \<^verbatim>\<open>Run\<close> with the request on standard input and the command-line argument: the error or panic with which it ends, if any, and
  its output. \<open>encode\<close> takes a result that may be nil.
\<close>

definition skel_Run ::
    "(string \<Rightarrow> string + v1_request) \<Rightarrow> (v1_result option \<Rightarrow> string + string) \<Rightarrow> 'w skel_plugin \<Rightarrow>
     string list \<Rightarrow> string \<Rightarrow> 'w \<Rightarrow> (skel_error option option \<times> string) \<times> 'w" where
  "skel_Run decode encode plugin args stdin w =
     (let write = (\<lambda>result. case encode result of Inl e \<Rightarrow> (Some (Some (NotEncoded e)), []) | Inr out \<Rightarrow> (Some None, out)) in
      case decode stdin of
        Inl e \<Rightarrow> ((Some (Some (NotDecoded e)), []), w)
      | Inr request \<Rightarrow>
         if length args < 2 then ((None, []), w)
         else if args ! 1 = ''invoke''
         then (case sk_Invoke plugin request w of
                 (Crashed, w') \<Rightarrow> ((None, []), w')
               | (Answered result None, w') \<Rightarrow> (write result, w')
               | (Answered result (Some e), w') \<Rightarrow> (write (Some ((NewResult (sk_Type plugin) request)\<lparr>rs_Error := e\<rparr>)), w'))
         else (write (Some ((NewResult (sk_Type plugin) request)\<lparr>rs_Error := ''invalid arg '' @ args ! 1\<rparr>)), w))"

text \<open>The process, as a plugin's \<^verbatim>\<open>main\<close> turns the end of \<^verbatim>\<open>Run\<close> into an exit code.\<close>

definition skel_process ::
    "(string \<Rightarrow> string + v1_request) \<Rightarrow> (v1_result option \<Rightarrow> string + string) \<Rightarrow> 'w skel_plugin \<Rightarrow>
     string \<Rightarrow> 'w \<Rightarrow> executed \<times> 'w" where
  "skel_process decode encode plugin stdin w =
     (case skel_Run decode encode plugin [sk_Type plugin, ''invoke''] stdin w of
        ((None, out), w') \<Rightarrow> (Exited 2 out, w')
      | ((Some (Some _), out), w') \<Rightarrow> (Exited 1 out, w')
      | ((Some None, out), w') \<Rightarrow> (Exited 0 out, w'))"

text \<open>
  The sample plugin. \<open>load\<close> is \<^verbatim>\<open>cgroups.Load\<close> of a path, \<open>update\<close> what its control group makes of resources.
\<close>

definition clear_quota :: oci_resources where
  "clear_quota = \<lparr>or_devices = [], or_memory = None,
     or_cpu = Some \<lparr>oc_shares = None, oc_quota = Some (- 1), oc_period = None, oc_realtime_runtime = None,
       oc_realtime_period = None, oc_cpus = [], oc_mems = []\<rparr>,
     or_pids = None, or_hugepage_limits = [], or_unified = None\<rparr>"

definition clearCFS ::
    "(string \<Rightarrow> 'w \<Rightarrow> string + 'g) \<Rightarrow> ('g \<Rightarrow> oci_resources \<Rightarrow> 'w \<Rightarrow> string option \<times> 'w) \<Rightarrow> 'w skel_plugin" where
  "clearCFS load update =
     \<lparr>sk_Type = ''clearcfs'',
      sk_Invoke = (\<lambda>r w.
        let result = NewResult ''clearcfs'' r in
        if rq_State r \<noteq> Create then (Answered (Some result) None, w)
        else (case rq_Spec r of
                None \<Rightarrow> (Crashed, w)
              | Some sp \<Rightarrow>
                 if gmap_get (vs_Annotations sp) ''qos.class'' = Some ''ls''
                 then (case load (vs_CgroupsPath sp) w of
                         Inl e \<Rightarrow> (Answered None (Some e), w)
                       | Inr control \<Rightarrow>
                          (case update control clear_quota w of (e, w') \<Rightarrow> (Answered (Some result) e, w')))
                 else (Answered (Some result) None, w)))\<rparr>"

section \<open>The adapter\<close>

text \<open>Pods and containers with the details that only the adapter reads.\<close>

record linux_pod =
  lp_cgroups_path :: string
  lp_namespaces :: "linux_namespace list"
  lp_resources :: "linux_resources option"

record v1_pod = pod_sandbox +
  pod_linux :: "linux_pod option"
  pod_pid :: nat

record v1_container = container +
  ctr_pid :: nat

definition newFakeTask :: "string \<Rightarrow> nat \<Rightarrow> 'x v1_oci_spec \<Rightarrow> 'x task" where
  "newFakeTask ident pid sp = \<lparr>tk_ID = ident, tk_Pid = pid, tk_Spec = Inr sp\<rparr>"

definition sandboxFromPod :: "v1_pod option \<Rightarrow> sandbox" where
  "sandboxFromPod pod =
     (case pod of None \<Rightarrow> \<lparr>sb_ID = [], sb_Labels = None\<rparr> | Some p \<Rightarrow> \<lparr>sb_ID = pod_id p, sb_Labels = pod_labels p\<rparr>)"

definition namespacesToSlice :: "linux_namespace list \<Rightarrow> oci_namespace list" where
  "namespacesToSlice = map (\<lambda>n. \<lparr>ons_type = ns_type n, ons_path = ns_path n\<rparr>)"

definition ociSpecFromPod :: "v1_pod option \<Rightarrow> 'x v1_oci_spec" where
  "ociSpecFromPod pod =
     (let l = Option.bind pod pod_linux in
      \<lparr>vo_Annotations = Option.bind pod pod_annotations,
       vo_Linux = Some \<lparr>vl_Resources = LinuxResources_ToOCI (Option.bind l lp_resources),
         vl_Namespaces = namespacesToSlice (case l of None \<Rightarrow> [] | Some k \<Rightarrow> lp_namespaces k),
         vl_CgroupsPath = (case l of None \<Rightarrow> [] | Some k \<Rightarrow> lp_cgroups_path k)\<rparr>,
       vo_Windows = None\<rparr>)"

definition ociSpecFromContainer :: "v1_container option \<Rightarrow> 'x v1_oci_spec" where
  "ociSpecFromContainer ctr =
     (let l = Option.bind ctr ctr_linux in
      \<lparr>vo_Annotations = Option.bind ctr ctr_annotations,
       vo_Linux = Some \<lparr>vl_Resources = LinuxResources_ToOCI (Option.bind l lc_resources),
         vl_Namespaces = namespacesToSlice (case l of None \<Rightarrow> [] | Some k \<Rightarrow> lc_namespaces k),
         vl_CgroupsPath = (case l of None \<Rightarrow> [] | Some k \<Rightarrow> lc_cgroups_path k)\<rparr>,
       vo_Windows = None\<rparr>)"

definition pod_task :: "v1_pod option \<Rightarrow> 'x task" where
  "pod_task pod = newFakeTask (case pod of None \<Rightarrow> [] | Some p \<Rightarrow> pod_id p)
     (case pod of None \<Rightarrow> 0 | Some p \<Rightarrow> pod_pid p) (ociSpecFromPod pod)"

definition container_task :: "v1_container option \<Rightarrow> 'x task" where
  "container_task ctr = newFakeTask (case ctr of None \<Rightarrow> [] | Some c \<Rightarrow> ctr_id c)
     (case ctr of None \<Rightarrow> 0 | Some c \<Rightarrow> ctr_pid c) (ociSpecFromContainer ctr)"

text \<open>The body that the handlers have in common: a new client, and its error or that of the invocation.\<close>

definition serve_v1 ::
    "('x, 'w) v1_env \<Rightarrow> 'x task \<Rightarrow> v1_state \<Rightarrow> v1_pod option \<Rightarrow> 'w process \<Rightarrow> unit v1_outcome \<times> 'w process" where
  "serve_v1 env task state pod pr =
     (case Client_New env pr of
        (Ok nric, pr) \<Rightarrow>
          (case InvokeWithSandbox env nric task state (Some (sandboxFromPod pod)) pr of
             (Ok _, pr) \<Rightarrow> (Ok (), pr) | (Err e, pr) \<Rightarrow> (Err e, pr) | (Panic, pr) \<Rightarrow> (Panic, pr))
      | (Err e, pr) \<Rightarrow> (Err e, pr)
      | (Panic, pr) \<Rightarrow> (Panic, pr))"

definition Adapter_RunPodSandbox :: "('x, 'w) v1_env \<Rightarrow> v1_pod option \<Rightarrow> 'w process \<Rightarrow> unit v1_outcome \<times> 'w process" where
  "Adapter_RunPodSandbox env pod = serve_v1 env (pod_task pod) Create pod"

definition Adapter_StopPodSandbox :: "('x, 'w) v1_env \<Rightarrow> v1_pod option \<Rightarrow> 'w process \<Rightarrow> unit v1_outcome \<times> 'w process" where
  "Adapter_StopPodSandbox env pod = serve_v1 env (pod_task pod) Delete pod"

definition Adapter_StartContainer ::
    "('x, 'w) v1_env \<Rightarrow> v1_pod option \<Rightarrow> v1_container option \<Rightarrow> 'w process \<Rightarrow> unit v1_outcome \<times> 'w process" where
  "Adapter_StartContainer env pod ctr = serve_v1 env (container_task ctr) Create pod"

definition Adapter_StopContainer ::
    "('x, 'w) v1_env \<Rightarrow> v1_pod option \<Rightarrow> v1_container option \<Rightarrow> 'w process \<Rightarrow> updates v1_outcome \<times> 'w process" where
  "Adapter_StopContainer env pod ctr pr =
     (case serve_v1 env (container_task ctr) Delete pod pr of
        (Panic, pr) \<Rightarrow> (Panic, pr)
      | (_, pr) \<Rightarrow> (Ok [], pr))"

end
