(* ===== verification/Legacy_Laws.thy ===== *)
theory Legacy_Laws
  imports Legacy Decimal
begin

text \<open>
  Chains of programs as plugins: what each is sent and what becomes of its errors, from the program's main
  function through the client to the adapter.
\<close>

section \<open>The chain\<close>

text \<open>
  A run of a chain that succeeds: each plugin in turn is sent the request with its own configuration and
  all results so far, and adds its own.
\<close>

inductive chain ::
    "('x, 'w) v1_env \<Rightarrow> v1_request \<Rightarrow> v1_plugin list \<Rightarrow> 'w process \<Rightarrow> v1_result list \<Rightarrow> 'w process \<Rightarrow> bool"
  for env where
  chain_Nil: "chain env r [] pr [] pr"
| chain_Cons: "invokePlugin env (v1p_Type p) (r\<lparr>rq_Conf := v1p_Conf p\<rparr>) pr = (Inr result, pr') \<Longrightarrow>
    chain env (r\<lparr>rq_Conf := v1p_Conf p, rq_Results := rq_Results r @ [result]\<rparr>) ps pr' results pr'' \<Longrightarrow>
    chain env r (p # ps) pr (result # results) pr''"

inductive_cases chain_NilE: "chain env r [] pr results pr'"
inductive_cases chain_ConsE: "chain env r (p # ps) pr results pr'"

lemma chain_deterministic:
  "chain env r ps pr xs pr1 \<Longrightarrow> chain env r ps pr ys pr2 \<Longrightarrow> xs = ys \<and> pr1 = pr2"
proof (induction arbitrary: ys pr2 rule: chain.induct)
  case (chain_Nil r pr)
  then show ?case by (auto elim: chain_NilE)
next
  case (chain_Cons p r pr result pr' ps results pr'')
  from chain_Cons.prems chain_Cons.hyps(1) chain_Cons.IH show ?case by (auto elim!: chain_ConsE)
qed

lemma chain_length: "chain env r ps pr results pr' \<Longrightarrow> length results = length ps"
  by (induction rule: chain.induct) simp_all

lemma invoke_all_outcome_cases:
  assumes "invoke_all env r (map Some ps) pr = (out, pr')"
  shows "(\<exists>results. out = Ok (rq_Results r @ results) \<and> chain env r ps pr results pr') \<or>
    (\<exists>before p after results pr1 e. ps = before @ p # after \<and> chain env r before pr results pr1 \<and>
       invokePlugin env (v1p_Type p) (r\<lparr>rq_Conf := v1p_Conf p, rq_Results := rq_Results r @ results\<rparr>) pr1 = (Inl e, pr') \<and>
       out = Err (InPlugin (v1p_Type p) e))"
  using assms
proof (induction ps arbitrary: r pr)
  case Nil
  then show ?case by (auto intro: chain_Nil)
next
  case (Cons p ps)
  let ?r = "r\<lparr>rq_Conf := v1p_Conf p\<rparr>"
  obtain res pr1 where i: "invokePlugin env (v1p_Type p) ?r pr = (res, pr1)" by fastforce
  show ?case
  proof (cases res)
    case (Inl e)
    then have "out = Err (InPlugin (v1p_Type p) e)" "pr' = pr1" using Cons.prems i by simp_all
    moreover have "?r = r\<lparr>rq_Conf := v1p_Conf p, rq_Results := rq_Results r @ []\<rparr>" by (cases r) simp
    ultimately show ?thesis using i Inl chain_Nil by (metis append_Nil)
  next
    case (Inr result)
    let ?s = "?r\<lparr>rq_Results := rq_Results r @ [result]\<rparr>"
    have run: "invoke_all env ?s (map Some ps) pr1 = (out, pr')" using Cons.prems i Inr by simp
    have step: "chain env r (p # qs) pr (result # results) pr2" if "chain env ?s qs pr1 results pr2" for qs results pr2
      using chain_Cons [OF _ that] i Inr by simp
    from Cons.IH [OF run] show ?thesis
    proof (elim disjE exE conjE, goal_cases)
      case (1 results)
      then show ?case using step by fastforce
    next
      case (2 before q after results pr2 e)
      then show ?case
        using step by (intro disjI2 exI [of _ "p # before"] exI [of _ q] exI [of _ after] exI [of _ "result # results"]) fastforce
    qed
  qed
qed

text \<open>
  C37. The outcome of a chain without nil entries. Either all plugins ran, each after the one before it and with the
  results of all before it, and the results are theirs in order; or a first one failed: the error is its own,
  with its name, the ones before it ran as just said, and the ones after it did not run.
\<close>

theorem invoke_all_outcome:
  assumes "invoke_all env r (map Some ps) pr = (out, pr')"
  shows "(\<exists>results. out = Ok (rq_Results r @ results) \<and> chain env r ps pr results pr') \<or>
    (\<exists>before p after results pr1 e. ps = before @ p # after \<and> chain env r before pr results pr1 \<and>
       invokePlugin env (v1p_Type p) (r\<lparr>rq_Conf := v1p_Conf p, rq_Results := rq_Results r @ results\<rparr>) pr1 = (Inl e, pr') \<and>
       out = Err (InPlugin (v1p_Type p) e))"
  using assms by (rule invoke_all_outcome_cases)

section \<open>A plugin behind its main function\<close>

text \<open>
  What JSON keeps of the messages, by their tags. A field marked \<^verbatim>\<open>omitempty\<close> is left out if it is empty, and is then
  read back as the zero value: an empty map as a nil one. A \<^verbatim>\<open>RawMessage\<close> comes back without insignificant space, \<open>canon\<close>,
  and a nil one that is not left out as \<^verbatim>\<open>null\<close>. Of a map the order of the keys is not kept.
\<close>

definition same_map :: "(string, string) gomap option \<Rightarrow> (string, string) gomap option \<Rightarrow> bool" where
  "same_map m m' \<longleftrightarrow>
     (if m = None \<or> m = Some [] then m' = None else m' \<noteq> None \<and> (\<forall>k. gmap_get m' k = gmap_get m k))"

definition same_spec :: "(string \<Rightarrow> string) \<Rightarrow> v1_spec \<Rightarrow> v1_spec \<Rightarrow> bool" where
  "same_spec canon s s' \<longleftrightarrow>
     vs_Resources s' = (if vs_Resources s = [] then ''null'' else canon (vs_Resources s)) \<and>
     same_map (vs_Namespaces s) (vs_Namespaces s') \<and> vs_CgroupsPath s' = vs_CgroupsPath s \<and>
     same_map (vs_Annotations s) (vs_Annotations s')"

definition same_result :: "v1_result \<Rightarrow> v1_result \<Rightarrow> bool" where
  "same_result x x' \<longleftrightarrow>
     rs_Plugin x' = rs_Plugin x \<and> rs_Version x' = rs_Version x \<and> rs_Error x' = rs_Error x \<and>
     same_map (rs_Metadata x) (rs_Metadata x')"

definition same_request :: "(string \<Rightarrow> string) \<Rightarrow> v1_request \<Rightarrow> v1_request \<Rightarrow> bool" where
  "same_request canon r r' \<longleftrightarrow>
     rq_Conf r' = (if rq_Conf r = [] then [] else canon (rq_Conf r)) \<and>
     rq_Version r' = rq_Version r \<and> rq_State r' = rq_State r \<and> rq_ID r' = rq_ID r \<and> rq_SandboxID r' = rq_SandboxID r \<and>
     rq_Pid r' = rq_Pid r \<and> rel_option (same_spec canon) (rq_Spec r) (rq_Spec r') \<and> same_map (rq_Labels r) (rq_Labels r') \<and>
     list_all2 same_result (rq_Results r) (rq_Results r')"

text \<open>What a plugin's process writes: its result, or a result made of its error. A nil result reads back as the zero value.\<close>

definition zero_result :: v1_result where
  "zero_result = \<lparr>rs_Plugin = [], rs_Version = [], rs_Error = [], rs_Metadata = None\<rparr>"

definition written :: "'w skel_plugin \<Rightarrow> v1_request \<Rightarrow> v1_result option \<Rightarrow> string option \<Rightarrow> v1_result option" where
  "written plugin r res err =
     (case err of None \<Rightarrow> res | Some e \<Rightarrow> Some ((NewResult (sk_Type plugin) r)\<lparr>rs_Error := e\<rparr>))"

definition same_written :: "v1_result option \<Rightarrow> v1_result \<Rightarrow> bool" where
  "same_written x y \<longleftrightarrow> (case x of None \<Rightarrow> y = zero_result | Some x \<Rightarrow> same_result x y)"

definition transmits :: "('a \<Rightarrow> string + string) \<Rightarrow> (string \<Rightarrow> string + 'b) \<Rightarrow> ('a \<Rightarrow> 'b \<Rightarrow> bool) \<Rightarrow> 'a \<Rightarrow> bool" where
  "transmits enc dec same x \<longleftrightarrow> (\<exists>t y. enc x = Inr t \<and> dec t = Inr y \<and> same x y)"

text \<open>What a client is to see of a plugin's answer; \<open>eof\<close> is the error of decoding no text at all.\<close>

fun seen :: "'w skel_plugin \<Rightarrow> string \<Rightarrow> v1_request \<Rightarrow> invoked \<Rightarrow> v1_error + v1_result" where
  "seen plugin eof r Crashed = Inl (BadOutput [] (Some 2) eof)"
| "seen plugin eof r (Answered res (Some e)) =
     (if e = [] then Inr (NewResult (sk_Type plugin) r) else Inl (PluginError e))"
| "seen plugin eof r (Answered None None) = Inr zero_result"
| "seen plugin eof r (Answered (Some x) None) = (if rs_Error x = [] then Inr x else Inl (PluginError (rs_Error x)))"

lemma seen_written:
  "seen plugin eof r (Answered res err) =
     (let x = (case written plugin r res err of None \<Rightarrow> zero_result | Some x \<Rightarrow> x) in
      case Result_Err x of Some e \<Rightarrow> Inl (PluginError e) | None \<Rightarrow> Inr x)"
  by (cases res; cases err)
    (auto simp: written_def zero_result_def Result_Err_def NewResult_def Let_def)

lemma skel_process_answers:
  assumes "decode payload = Inr r" and "sk_Invoke plugin r w = (Answered res err, w')"
    and "encode (written plugin r res err) = Inr out"
  shows "skel_process decode encode plugin payload w = (Exited 0 out, w')"
  using assms by (cases err) (simp_all add: skel_process_def skel_Run_def written_def Let_def)

text \<open>
  C38. Running a plugin as a program is calling it, as far as JSON transmits the request and what the process writes. The
  plugin is called with the request, up to what JSON does not keep; the client gets its result, again up to that, or
  its error with the same text; a panic is an error of the output with exit code 2. An error without a text is lost: the client sees a
  success with an empty result. So is a result that comes with an error.
\<close>

theorem plugin_process_is_a_call:
  assumes exec: "\<And>payload w. ve_exec env (pr_path pr) name payload w = skel_process decode encode plugin payload w"
    and request: "transmits (ve_request env) decode (same_request canon) r"
    and result: "\<And>r' res err w'. same_request canon r r' \<Longrightarrow> sk_Invoke plugin r' (pr_world pr) = (Answered res err, w') \<Longrightarrow>
      transmits encode (ve_result env) same_written (written plugin r' res err)"
    and none: "ve_result env [] = Inl eof"
  shows "\<exists>r'. same_request canon r r' \<and>
    (case sk_Invoke plugin r' (pr_world pr) of (answer, w') \<Rightarrow>
       snd (invokePlugin env name r pr) = pr\<lparr>pr_world := w'\<rparr> \<and>
       rel_sum (=) same_result (seen plugin eof r' answer) (fst (invokePlugin env name r pr)))"
proof -
  obtain payload r' where r: "ve_request env r = Inr payload" "decode payload = Inr r'" "same_request canon r r'"
    using request by (auto simp: transmits_def)
  obtain answer w' where a: "sk_Invoke plugin r' (pr_world pr) = (answer, w')" by fastforce
  have "snd (invokePlugin env name r pr) = pr\<lparr>pr_world := w'\<rparr> \<and>
      rel_sum (=) same_result (seen plugin eof r' answer) (fst (invokePlugin env name r pr))"
  proof (cases answer)
    case Crashed
    then have "ve_exec env (pr_path pr) name payload (pr_world pr) = (Exited 2 [], w')"
      using a r(2) by (simp add: exec skel_process_def skel_Run_def)
    then show ?thesis using Crashed r(1) none by (simp add: invokePlugin_def)
  next
    case (Answered res err)
    obtain out y where y: "encode (written plugin r' res err) = Inr out" "ve_result env out = Inr y"
        "same_written (written plugin r' res err) y"
      using result [OF r(3)] a Answered by (auto simp: transmits_def)
    have "ve_exec env (pr_path pr) name payload (pr_world pr) = (Exited 0 out, w')"
      using skel_process_answers [where decode = decode and encode = encode, OF r(2) a [unfolded Answered] y(1)] by (simp add: exec)
    then have i: "invokePlugin env name r pr =
        (case Result_Err y of Some e \<Rightarrow> Inl (PluginError e) | None \<Rightarrow> Inr y, pr\<lparr>pr_world := w'\<rparr>)"
      using r(1) y(2) by (simp add: invokePlugin_def split: option.split)
    have "same_result (case written plugin r' res err of None \<Rightarrow> zero_result | Some x \<Rightarrow> x) y"
      using y(3) by (auto simp: same_written_def same_result_def same_map_def zero_result_def split: option.splits)
    then show ?thesis unfolding i Answered seen_written
      by (auto simp: Result_Err_def same_result_def Let_def)
  qed
  with a r(3) show ?thesis by auto
qed

text \<open>The sample plugin without its control group, in an environment that knows one request and two replies.\<close>

definition quota_request :: v1_request where
  "quota_request = \<lparr>rq_Conf = [], rq_Version = ''0.1'', rq_State = Create, rq_ID = ''c0'', rq_SandboxID = ''p0'', rq_Pid = 7,
     rq_Spec = Some \<lparr>vs_Resources = ''null'', vs_Namespaces = None, vs_CgroupsPath = ''/c0'',
       vs_Annotations = Some [(''qos.class'', ''ls'')]\<rparr>, rq_Labels = None, rq_Results = []\<rparr>"

definition no_cgroup :: "unit skel_plugin" where
  "no_cgroup = clearCFS (\<lambda>path w. Inl (''no '' @ path) :: string + unit) (\<lambda>control r w. (None, w) :: string option \<times> unit)"

definition quota_reply :: "string \<Rightarrow> v1_result" where
  "quota_reply e = \<lparr>rs_Plugin = ''clearcfs'', rs_Version = ''0.1'', rs_Error = e, rs_Metadata = Some []\<rparr>"

definition quota_encode :: "v1_result option \<Rightarrow> string + string" where
  "quota_encode x = (case x of None \<Rightarrow> Inl ''nil'' | Some y \<Rightarrow> Inr (rs_Error y))"

definition quota_env :: "(unit, unit) v1_env" where
  "quota_env = \<lparr>ve_conf = (\<lambda>_. ConfText ''conf''),
     ve_decode = (\<lambda>_. Inr \<lparr>cl_Version = ''0.1'', cl_Plugins = [Some \<lparr>v1p_Type = ''clearcfs'', v1p_Conf = []\<rparr>]\<rparr>),
     ve_setenv = (\<lambda>_. None),
     ve_exec = (\<lambda>path name. skel_process (\<lambda>_. Inr quota_request) quota_encode no_cgroup),
     ve_request = (\<lambda>_. Inr ''request''), ve_result = (\<lambda>e. Inr (quota_reply e)), ve_resources = (\<lambda>_. Inr ''null''),
     ve_windows = (\<lambda>_. Inl ''not windows'')\<rparr>"

text \<open>The JSON text of messages whose strings need no escapes, as the encoder writes it: tags, order and left-out fields.\<close>

definition quoted :: "string \<Rightarrow> string" where "quoted s = CHR 0x22 # s @ [CHR 0x22]"

fun commas :: "string list \<Rightarrow> string" where
  "commas [] = []"
| "commas [x] = x"
| "commas (x # y # xs) = x @ '','' @ commas (y # xs)"

definition field :: "string \<Rightarrow> string \<Rightarrow> string" where "field name text = quoted name @ '':'' @ text"

definition json_object :: "string list \<Rightarrow> string" where "json_object members = ''{'' @ commas members @ ''}''"

definition text_field :: "string \<Rightarrow> string \<Rightarrow> string list" where
  "text_field name x = (if x = [] then [] else [field name (quoted x)])"

definition map_field :: "string \<Rightarrow> (string, string) gomap option \<Rightarrow> string list" where
  "map_field name m = (case m of
     None \<Rightarrow> []
   | Some kvs \<Rightarrow> if kvs = [] then [] else [field name (json_object (map (\<lambda>(k, v). field k (quoted v)) kvs))])"

definition json_result :: "v1_result \<Rightarrow> string" where
  "json_result x = json_object ([field ''plugin'' (quoted (rs_Plugin x)), field ''version'' (quoted (rs_Version x)),
     field ''error'' (quoted (rs_Error x))] @ map_field ''metadata'' (rs_Metadata x))"

definition json_spec :: "v1_spec \<Rightarrow> string" where
  "json_spec s = json_object ([field ''resources'' (if vs_Resources s = [] then ''null'' else vs_Resources s)] @
     map_field ''namespaces'' (vs_Namespaces s) @ text_field ''cgroupsPath'' (vs_CgroupsPath s) @
     map_field ''annotations'' (vs_Annotations s))"

definition json_request :: "v1_request \<Rightarrow> string" where
  "json_request r = json_object (
     (if rq_Conf r = [] then [] else [field ''conf'' (rq_Conf r)]) @
     [field ''version'' (quoted (rq_Version r)), field ''state'' (quoted (case rq_State r of State s \<Rightarrow> s)),
      field ''id'' (quoted (rq_ID r))] @
     text_field ''sandboxID'' (rq_SandboxID r) @ (if rq_Pid r = 0 then [] else [field ''pid'' (print_int (rq_Pid r))]) @
     [field ''spec'' (case rq_Spec r of None \<Rightarrow> ''null'' | Some s \<Rightarrow> json_spec s)] @ map_field ''labels'' (rq_Labels r) @
     (if rq_Results r = [] then [] else [field ''results'' (''['' @ commas (map json_result (rq_Results r)) @ '']'')]))"

text \<open>
  Decoders of the two texts that come up, the request above and the reply to it. The plugin's answer holds an empty map of metadata;
  the client reads a nil one.
\<close>

definition json_decode :: "string \<Rightarrow> string + v1_request" where
  "json_decode t = (if t = json_request quota_request then Inr quota_request else Inl ''invalid character'')"

definition json_encode :: "v1_result option \<Rightarrow> string + string" where
  "json_encode x = Inr ((case x of None \<Rightarrow> ''null'' | Some y \<Rightarrow> json_result y) @ [CHR 0x0A])"

definition json_env :: "(unit, unit) v1_env" where
  "json_env = quota_env\<lparr>
     ve_exec := (\<lambda>path name. skel_process json_decode json_encode no_cgroup),
     ve_request := (\<lambda>r. Inr (json_request r)),
     ve_result := (\<lambda>t. if t = [] then Inl ''unexpected end of JSON input''
       else if t = json_result (quota_reply ''no /c0'') @ [CHR 0x0A] then Inr ((quota_reply ''no /c0'')\<lparr>rs_Metadata := None\<rparr>)
       else Inl ''invalid character'')\<rparr>"

theorem plugin_process_is_a_call_witness:
  "invokePlugin json_env ''clearcfs'' quota_request \<lparr>pr_once = True, pr_path = ''/bin'', pr_world = ()\<rparr> =
     (Inl (PluginError ''no /c0''), \<lparr>pr_once = True, pr_path = ''/bin'', pr_world = ()\<rparr>)"
proof -
  let ?pr = "\<lparr>pr_once = True, pr_path = ''/bin'', pr_world = ()\<rparr>"
  have t: "sk_Type no_cgroup = ''clearcfs''" by (simp add: no_cgroup_def clearCFS_def)
  have r: "rq_Version r' = ''0.1'' \<and> sk_Invoke no_cgroup r' (pr_world ?pr) = (Answered None (Some ''no /c0''), ())"
    if "same_request id quota_request r'" for r'
  proof -
    have v: "rq_Version r' = ''0.1''" "rq_State r' = Create" using that by (simp_all add: same_request_def quota_request_def)
    have "rel_option (same_spec id) (rq_Spec quota_request) (rq_Spec r')" using that by (simp add: same_request_def)
    then obtain sp where sp: "rq_Spec r' = Some sp" "vs_CgroupsPath sp = ''/c0''"
        "gmap_get (vs_Annotations sp) ''qos.class'' = Some ''ls''"
      by (auto simp: option_rel_Some1 quota_request_def same_spec_def same_map_def gmap_get_def)
    show ?thesis using v sp by (simp add: no_cgroup_def clearCFS_def Let_def)
  qed
  have req: "transmits (ve_request json_env) json_decode (same_request id) quota_request"
    by (simp add: transmits_def json_env_def json_decode_def)
      (simp add: same_request_def quota_request_def same_spec_def same_map_def)
  have res: "transmits json_encode (ve_result json_env) same_written (written no_cgroup r' res err)"
    if "same_request id quota_request r'" "sk_Invoke no_cgroup r' (pr_world ?pr) = (Answered res err, w')" for r' res err w'
  proof -
    have "written no_cgroup r' res err = Some (quota_reply ''no /c0'')"
      using r [OF that(1)] that(2) by (auto simp: written_def t NewResult_def quota_reply_def)
    then show ?thesis
      by (simp add: transmits_def json_encode_def json_env_def same_written_def same_result_def same_map_def)
        (simp add: quota_reply_def)
  qed
  have exec: "ve_exec json_env (pr_path ?pr) ''clearcfs'' payload w = skel_process json_decode json_encode no_cgroup payload w"
    for payload w by (simp add: json_env_def)
  have eof: "ve_result json_env [] = Inl ''unexpected end of JSON input''" by (simp add: json_env_def)
  let ?call = "invokePlugin json_env ''clearcfs'' quota_request ?pr"
  have "\<exists>r'. same_request id quota_request r' \<and>
      (case sk_Invoke no_cgroup r' (pr_world ?pr) of (answer, w') \<Rightarrow> snd ?call = ?pr\<lparr>pr_world := w'\<rparr> \<and>
         rel_sum (=) same_result (seen no_cgroup ''unexpected end of JSON input'' r' answer) (fst ?call))"
    by (rule plugin_process_is_a_call [where r = quota_request and pr = ?pr, OF exec req res eof])
  then obtain r' where c: "same_request id quota_request r'"
      "case sk_Invoke no_cgroup r' (pr_world ?pr) of (answer, w') \<Rightarrow> snd ?call = ?pr\<lparr>pr_world := w'\<rparr> \<and>
         rel_sum (=) same_result (seen no_cgroup ''unexpected end of JSON input'' r' answer) (fst ?call)"
    by (elim exE conjE)
  have "snd ?call = ?pr" "rel_sum (=) same_result (Inl (PluginError ''no /c0'')) (fst ?call)"
    using c(2) r [OF c(1)] by simp_all
  then show ?thesis by (cases "fst ?call") (simp_all add: prod_eq_iff)
qed

theorem invoke_all_outcome_witness:
  "\<exists>before p after e. [\<lparr>v1p_Type = ''clearcfs'', v1p_Conf = []\<rparr>] = before @ p # after \<and>
     invoke_all quota_env quota_request [Some \<lparr>v1p_Type = ''clearcfs'', v1p_Conf = []\<rparr>]
       \<lparr>pr_once = True, pr_path = ''/bin'', pr_world = ()\<rparr> =
     (Err (InPlugin (v1p_Type p) e), \<lparr>pr_once = True, pr_path = ''/bin'', pr_world = ()\<rparr>)"
proof -
  let ?p = "\<lparr>v1p_Type = ''clearcfs'', v1p_Conf = []\<rparr>"
  let ?pr = "\<lparr>pr_once = True, pr_path = ''/bin'', pr_world = ()\<rparr>"
  have r: "invoke_all quota_env quota_request (map Some [?p]) ?pr = (Err (InPlugin ''clearcfs'' (PluginError ''no /c0'')), ?pr)"
    by (simp add: invokePlugin_def quota_env_def skel_process_def skel_Run_def no_cgroup_def clearCFS_def quota_request_def
        gmap_get_def NewResult_def quota_encode_def quota_reply_def Result_Err_def Let_def)
  from invoke_all_outcome [OF r] r show ?thesis by auto
qed

section \<open>The adapter\<close>

text \<open>
  A container starts if and only if the whole chain of configured programs runs without an error; when it stops,
  the same errors are dropped.
\<close>

lemma StartContainer_iff_chain:
  fixes env :: "('a, 'w) v1_env"
  assumes "Client_New env pr = (Ok c, pr1)" and "cl_Plugins c = map Some ps"
    and "createSpec env (ociSpecFromContainer ctr) = Inr sp"
  shows "(\<exists>pr'. Adapter_StartContainer env pod ctr pr = (Ok (), pr')) \<longleftrightarrow>
    (\<exists>results pr'. chain env (request_for c (container_task ctr :: 'a task) Create sp (Some (sandboxFromPod pod))) ps pr1 results pr')"
proof (cases "ps = []")
  case True
  then show ?thesis
    using assms by (auto simp: Adapter_StartContainer_def serve_v1_def InvokeWithSandbox_def intro: chain_Nil)
next
  case False
  let ?r = "request_for c (container_task ctr :: 'a task) Create sp (Some (sandboxFromPod pod))"
  obtain out pr' where run: "invoke_all env ?r (map Some ps) pr1 = (out, pr')" by fastforce
  have a: "Adapter_StartContainer env pod ctr pr =
      (case out of Ok _ \<Rightarrow> (Ok (), pr') | Err e \<Rightarrow> (Err e, pr') | Panic \<Rightarrow> (Panic, pr'))"
    using assms False run
    by (simp add: Adapter_StartContainer_def serve_v1_def InvokeWithSandbox_def container_task_def newFakeTask_def
        split: v1_outcome.split)
  have ok: "invoke_all env r (map Some ps) pr = (Ok (rq_Results r @ xs), pr2)" if "chain env r ps pr xs pr2" for r pr xs pr2
    using that by (induction rule: chain.induct) simp_all
  from invoke_all_outcome_cases [OF run] show ?thesis
    using ok run by (cases out) (auto simp: a)
qed

lemma StopContainer_never_fails: "fst (Adapter_StopContainer env pod ctr pr) \<noteq> Err e"
  by (auto simp: Adapter_StopContainer_def split: prod.split v1_outcome.split)

end
