(* ===== verification/Spec2Isabelle.thy ===== *)
theory Spec2Isabelle
  imports Owner_Laws Adjust_Laws Adjust_Map_Laws Update_Properties Adjustment Events Conversions Strip
    Relay_Laws Sync Builtin Validator_Laws Generator_Laws Stub_Laws Mux_Laws Startup_Laws Sample_Laws Exact
    Runtime_API Env_Flow Net_Links Logger_Laws Differ_Laws Legacy_Laws
begin

text \<open>
  A verification library for NRI, the Node Resource Interface (\<^verbatim>\<open>src/\<close>): the layer with which a
  container runtime lets plugins adjust containers at creation and update them later. The
  runtime's side (\<^verbatim>\<open>src/pkg/adaptation\<close>) sends a request to every plugin in turn, collects the replies
  into one result, and refuses two plugins that set the same field; \<^verbatim>\<open>src/pkg/api\<close> holds the
  messages, the ownership registry that detects such conflicts, and the helpers with which plugins
  compose replies.

  Theories, bottom up:

  \<^item> \<^verbatim>\<open>NRI_Prelude\<close>: machine integers, Go strings and maps, and actions: functions from a state to an
    outcome (\<open>Done\<close>, \<open>Failed e\<close>, \<open>Panicked\<close>) and a state, with sequencing (\<open>run\<close>), loops (\<open>for_each\<close>)
    and access through pointers (\<open>on_ptr\<close>). \<open>safe P a\<close> says that \<open>a\<close> keeps \<open>P\<close> and does not panic.
  \<^item> \<^verbatim>\<open>API_Types\<close>: the messages of \<^verbatim>\<open>api.proto\<close>. \<^verbatim>\<open>API_Helpers\<close>: \<^verbatim>\<open>helpers.go\<close>, \<^verbatim>\<open>env.go\<close>, \<^verbatim>\<open>plugin.go\<close>,
    \<^verbatim>\<open>annotations.go\<close>; the locale \<open>removal_marker\<close> is what the rest relies on in removal markers.
  \<^item> \<^verbatim>\<open>Ownership\<close>: the locale \<open>ownership\<close>, the contract of the registry (a claim goes through iff the slot
    is free or cleared by the claimer, and then only that slot changes; a clear hands the slot
    over). \<^verbatim>\<open>Owners\<close>: \<^verbatim>\<open>owners.go\<close>, per container two maps from fields to plugins, interpreting the
    locale as \<open>ow\<close> on the flat view from (container, slot) to owner. \<^verbatim>\<open>Owner_Laws\<close>: the claim, clear
    and lookup methods against that view.
  \<^item> \<^verbatim>\<open>Optional\<close>: \<^verbatim>\<open>optional.go\<close> with the locale \<open>optional_wrapper\<close>, interpreted for all nine types.
    \<^verbatim>\<open>Resources\<close>: \<^verbatim>\<open>resources.go\<close>. \<^verbatim>\<open>Conversions\<close>: the other OCI conversions. \<^verbatim>\<open>Events\<close>: \<^verbatim>\<open>event.go\<close>.
    \<^verbatim>\<open>Adjustment\<close>: the builders of \<^verbatim>\<open>adjustment.go\<close> and \<^verbatim>\<open>update.go\<close>.
  \<^item> \<^verbatim>\<open>Result_State\<close>, \<^verbatim>\<open>Result_Adjust\<close>, \<^verbatim>\<open>Result_Resources\<close>, \<^verbatim>\<open>Result_Update\<close>, \<^verbatim>\<open>Result\<close>: all of
    \<^verbatim>\<open>src/pkg/adaptation/result.go\<close>. The state \<open>result\<close> is the struct of that name: the request being
    processed, the reply collected so far, the updates of other containers by container id, and
    the owners. One definition per method, composed as the code composes them.
  \<^item> \<^verbatim>\<open>Result_Laws\<close> (the locale \<open>compound_field\<close>: claiming and clearing the entries of one compound
    field of the container being created, interpreted for the six such fields), \<^verbatim>\<open>Adjust_Laws\<close>,
    \<^verbatim>\<open>Adjust_Map_Laws\<close>: what each adjustment does, on every branch. \<^verbatim>\<open>Result_Safety\<close>, \<^verbatim>\<open>Update_Laws\<close>,
    \<^verbatim>\<open>Update_Properties\<close>: the invariants of the result, kept by every step; the absence of panics; the
    collected updates.
  \<^item> \<^verbatim>\<open>Relay\<close>: \<^verbatim>\<open>adaptation.go\<close>, the request half of \<^verbatim>\<open>plugin.go\<close> and \<^verbatim>\<open>validate.go\<close>: a request goes to every plugin in
    turn and its replies into a \<open>result\<close>; plugins that fail fatally are closed and removed at the end; an
    adjustment is returned only past the validators. \<^verbatim>\<open>Relay_Laws\<close>: the step relation \<open>ad_step\<close> of the runtime's
    plugin lists (start, connections, drops, repeated registration, requests, shutdown) with its invariant, and what a whole
    request guarantees.
  \<^item> \<^verbatim>\<open>Sync\<close>: synchronisation of a plugin, in several messages if need be. \<^verbatim>\<open>Builtin\<close>: plugins in the runtime's
    process (\<^verbatim>\<open>builtin/plugin.go\<close>) and the dispatch over kinds of plugins (\<^verbatim>\<open>plugin_type.go\<close>).
  \<^item> \<^verbatim>\<open>Validator\<close>: the default validator. \<^verbatim>\<open>Guarded\<close> and \<^verbatim>\<open>Guarded_Parts\<close>: what is set in the collected adjustment has an
    owner on record; the locales \<open>guarded_field\<close> and \<open>guarded_part\<close> carry this through every step of \<^verbatim>\<open>adjust\<close> and
    \<^verbatim>\<open>update\<close>, and are interpreted for hooks, seccomp policy and namespaces. \<^verbatim>\<open>Validator_Laws\<close> uses it for the
    end-to-end guarantees of the default validator.
  \<^item> \<^verbatim>\<open>Exclusive\<close>: what a plugin's reply claims and clears (\<open>adjust_claims\<close>, \<open>adjust_clears\<close>), that the methods of \<^verbatim>\<open>adjust\<close> make
    exactly these claims, and so that no setting ends with two plugins, over all replies and over whole requests. \<^verbatim>\<open>Exact\<close>: nothing
    else is refused. The owners that other methods keep come from the locale \<open>claim_stable\<close>.
  \<^item> \<^verbatim>\<open>Strip\<close>: \<^verbatim>\<open>strip.go\<close>, with the locale \<open>canonical\<close> interpreted for its nine types.
  \<^item> \<^verbatim>\<open>Generator\<close>, \<^verbatim>\<open>Generator_Adjust\<close>: the spec generator of \<^verbatim>\<open>src/pkg/runtime-tools/generate\<close>, with which a runtime
    applies the collected adjustment to an OCI spec; a method is a function on the spec. \<^verbatim>\<open>Generator_Laws\<close>: what it does
    to environment and mounts. \<^verbatim>\<open>Env_Flow\<close>: result and generator composed, a container's environment from the
    plugins' replies to the spec; it interprets \<open>guarded_part\<close> for a part that nobody may own.
  \<^item> \<^verbatim>\<open>Stub\<close>: \<^verbatim>\<open>src/pkg/stub/stub.go\<close>, the plugin's side: creation, configuration, requests, start and stop, with the
    plugin as the record of its methods. \<^verbatim>\<open>Stub_Laws\<close>: its subscriptions against its handlers, and runtime and stub
    together in a split synchronisation.
  \<^item> \<^verbatim>\<open>Mux\<close>: \<^verbatim>\<open>src/pkg/net/multiplex\<close>, the connections of runtime and stub over one socket; \<^verbatim>\<open>Mux_Laws\<close>: frames, the step
    relation \<open>mux_step\<close> with its invariant, and delivery in order through the locale \<open>in_order\<close>.
  \<^item> \<^verbatim>\<open>Startup\<close>: how the runtime comes by its plugins (\<^verbatim>\<open>adaptation.go\<close>, the starting half of \<^verbatim>\<open>plugin.go\<close>): options,
    discovery, launching, registration, configuration, synchronisation, external connections, blocks. \<^verbatim>\<open>Startup_Laws\<close>:
    a start puts plugins into service or leaves the runtime's lists as they were, who is let in, and the step relation
    \<open>accept_step\<close>: the loop that accepts connections, with \<^verbatim>\<open>syncLock\<close>, beside blocks, requests and registrations.
  \<^item> \<^verbatim>\<open>Injector\<close>, \<^verbatim>\<open>Sample_Plugins\<close>: the plugins of \<^verbatim>\<open>src/plugins\<close> that inject devices, mounts, hooks, limits, RDT settings and
    network devices by annotation; \<^verbatim>\<open>Injector_Laws\<close> and \<^verbatim>\<open>Sample_Laws\<close>: the adjustments they ask for. \<^verbatim>\<open>Net_Links\<close>: how the
    last moves links between namespaces (\<^verbatim>\<open>host-device.go\<close>), what that does to a link and what errors leave behind.
  \<^item> \<^verbatim>\<open>Runtime_API\<close>: the events a runtime announces, shutdown, names and timeouts, the run of a stub, \<^verbatim>\<open>conn.go\<close>'s listener;
    each event followed to the plugin's method. \<^verbatim>\<open>Decimal\<close>: integers as Go prints and reads them.
  \<^item> \<^verbatim>\<open>Loggers\<close>, \<^verbatim>\<open>Differ\<close>: the plugins that write what they are sent, and the differ with its queues from one instance to the
    next. \<^verbatim>\<open>Logger_Laws\<close>: the logger with its stub and with the runtime; \<^verbatim>\<open>Differ_Laws\<close>: which values it compares.
  \<^item> \<^verbatim>\<open>Legacy\<close>: version 1 of the interface, plugins as programs, with its client, main function, sample and adapter;
    \<^verbatim>\<open>Legacy_Laws\<close>: the inductive \<open>chain\<close> of a successful run, and a plugin behind its main function.

  Modelling decisions. A nil slice and an empty one are one list wherever no code tells them
  apart. A map that is ranged over is an association list whose order is the iteration order, so
  a statement about all lists is one about all orders; the order of a map that a function builds
  itself and then ranges over is given by a function \<open>ord\<close> on its keys, with \<open>is_order ord\<close>. A map that
  may be nil when it is stored to is an \<open>option\<close>. List entries that are pointers are
  non-nil, except where the code tests for nil (namespaces) or produces it (updates): the wire carries no nil mount, device,
  variable, limit or CDI device, but a builtin plugin could return one, and the runtime panics on it. Errors are
  values of \<open>nri_error\<close> that hold what the message is formatted from. Pointers into the map of updates
  (\<^verbatim>\<open>reply.update\<close>) are the container ids under which the updates are stored. Requests hold the runtime's
  lock for their whole duration, so their steps do not interleave.

  The one loop that is not over a list is that of split synchronisation (\<open>sync_loop\<close>). It runs under the deadline of a request,
  which the model counts in messages: those there is time for, after which a call fails with \<open>SyncDeadline\<close>.
  \<open>synchronize_returns_or_stuck\<close> shows that the result is the same for all deadlines beyond twice the number of pods and
  containers, unless the loop gets stuck in a state that only the deadline or the plugin's refusal ends, and
  \<open>synchronize_livelock\<close> that it can. There is no other fuel.

  Parameters of the model, for code outside the repository or its runtime: the answers of plugins and validators
  (functions, in \<open>Relay\<close> and \<open>Sync\<close>), the order in which concurrent validators answer (\<open>vord\<close>), the choice of the
  unstable sort among sorted permutations (\<open>is_sorter\<close>), products of \<^verbatim>\<open>float64\<close> values (\<open>scale\<close>, \<open>shrinks\<close>),
  \<^verbatim>\<open>yaml.Unmarshal\<close> and the text of errors; for the spec generator the third-party generator it extends
  (\<open>underlying\<close>, with \<open>stock_env\<close> and \<open>stock_mounts\<close> its documented behaviour), the runtime's callbacks and the mount table; for the stub what dialling and registering
  return; for the startup the operating system and the runtime's synchronisation callback; for the multiplexer what writes to the trunk do and what arrives on it.

  In the sample plugins: the packages \<^verbatim>\<open>netlink\<close> and \<^verbatim>\<open>ns\<close> (\<open>netlink\<close>, with \<open>documented\<close> what is relied on), those that
  compare values, YAML and JSON, and the running of programs. Of JSON, \<open>Legacy_Laws\<close> relies on what the tags of the version 1
  messages say is kept (\<open>same_request\<close>, \<open>same_result\<close>).

  Not modelled: generated marshalling code, sockets, logging, WebAssembly glue, most command-line front ends, and
  \<^verbatim>\<open>network-logger\<close>, which only logs.
\<close>

end
